(* ===== verification/Prelude.thy ===== *)
theory Prelude
  imports Complex_Main "HOL-Library.Char_ord" "HOL-Library.Sublist"
begin

text \<open>
  What every component shares: the numbers and the errors of the source language,
  sequencing of steps that may throw, the character classes of its regular expressions,
  decimal notation of the natural numbers, and the lemmas about them that the component
  theories use through \<open>simp\<close> and through the collections declared here.

  \<^item> A JavaScript \<^verbatim>\<open>number\<close> is a value of \<open>js_number\<close>: the integers, the
    fractions and the three special values are kept apart because
    \<^verbatim>\<open>Number.isSafeInteger\<close> is the guard that most of the source starts with.
  \<^item> \<^verbatim>\<open>throw\<close> is \<open>Inl\<close> of a \<open>js_error\<close>; a step that returns is \<open>Inr\<close>.
  \<^item> A string is a list of characters, each standing for one code unit.
\<close>

named_theorems result_simps \<open>when a step that may throw returns\<close>
named_theorems js_simps \<open>evaluation of the language primitives\<close>

section \<open>Numbers\<close>

datatype js_number =
    IntN int
  | FracN rat \<comment> \<open>a finite number that is not integral\<close>
  | NaN
  | PosInfinity
  | NegInfinity

definition max_safe_integer :: int where
  "max_safe_integer = 9007199254740991"

definition safe_int :: "int \<Rightarrow> bool" where
  "safe_int i \<longleftrightarrow> - max_safe_integer \<le> i \<and> i \<le> max_safe_integer"

fun isSafeInteger :: "js_number \<Rightarrow> bool" where
  "isSafeInteger (IntN i) = safe_int i"
| "isSafeInteger _ = False"

fun js_less :: "js_number \<Rightarrow> js_number \<Rightarrow> bool" where
  "js_less (IntN a) (IntN b) = (a < b)"
| "js_less (IntN a) (FracN q) = (of_int a < q)"
| "js_less (FracN q) (IntN b) = (q < of_int b)"
| "js_less (FracN p) (FracN q) = (p < q)"
| "js_less NaN _ = False"
| "js_less _ NaN = False"
| "js_less PosInfinity _ = False"
| "js_less _ NegInfinity = False"
| "js_less _ PosInfinity = True"
| "js_less NegInfinity _ = True"

text \<open>Strict equality: \<^verbatim>\<open>NaN\<close> differs from everything, itself included.\<close>

definition js_eq :: "js_number \<Rightarrow> js_number \<Rightarrow> bool" where
  "js_eq a b \<longleftrightarrow> a = b \<and> a \<noteq> NaN"

definition js_eq_opt :: "js_number option \<Rightarrow> js_number option \<Rightarrow> bool" where
  "js_eq_opt a b =
     (case (a, b) of
        (None, None) \<Rightarrow> True
      | (Some x, Some y) \<Rightarrow> js_eq x y
      | _ \<Rightarrow> False)"

lemma isSafeInteger_iff [js_simps]:
  "isSafeInteger n \<longleftrightarrow> (\<exists>i. n = IntN i \<and> safe_int i)"
  by (cases n) auto

lemma js_eq_IntN [simp]: "js_eq (IntN a) (IntN b) \<longleftrightarrow> a = b"
  by (auto simp: js_eq_def)

lemma js_eqD: "js_eq a b \<Longrightarrow> a = b"
  by (simp add: js_eq_def)

lemma safe_int_code [code_unfold]: "safe_int i = (abs i \<le> 9007199254740991)"
  by (auto simp: safe_int_def max_safe_integer_def abs_le_iff)

section \<open>Errors and sequencing\<close>

datatype js_error =
    HyperliquidValidationError string string \<comment> \<open>path and message\<close>
  | TypeErr string
  | RangeErr string
  | Err string
  | SqliteError string \<comment> \<open>a statement the database refuses\<close>
  | CodedError string string \<comment> \<open>an error with a code, and its message\<close>

type_synonym 'a result = "js_error + 'a"

abbreviation invalid :: "string \<Rightarrow> string \<Rightarrow> 'a result" where
  "invalid path message \<equiv> Inl (HyperliquidValidationError path message)"

fun bindE :: "'e + 'a \<Rightarrow> ('a \<Rightarrow> 'e + 'b) \<Rightarrow> 'e + 'b" where
  "bindE (Inl e) f = Inl e"
| "bindE (Inr x) f = f x"

text \<open>A guard of the source: throw \<open>e\<close> when the condition holds, go on otherwise.\<close>

definition throw_if :: "bool \<Rightarrow> 'e \<Rightarrow> 'e + unit" where
  "throw_if c e = (if c then Inl e else Inr ())"

definition succeeds :: "'e + 'a \<Rightarrow> bool" where
  "succeeds m = (case m of Inl _ \<Rightarrow> False | Inr _ \<Rightarrow> True)"

lemma bindE_Inr_iff [simp]: "bindE m f = Inr y \<longleftrightarrow> (\<exists>x. m = Inr x \<and> f x = Inr y)"
  by (cases m) auto

lemma Inr_bindE_iff [simp]: "Inr y = bindE m f \<longleftrightarrow> (\<exists>x. m = Inr x \<and> f x = Inr y)"
  by (cases m) auto

lemma bindE_Inl_iff:
  "bindE m f = Inl e \<longleftrightarrow> m = Inl e \<or> (\<exists>x. m = Inr x \<and> f x = Inl e)"
  by (cases m) auto

lemma bindE_Inr_right [simp]: "bindE m Inr = m"
  by (cases m) auto

lemma bindE_assoc: "bindE (bindE m f) g = bindE m (\<lambda>x. bindE (f x) g)"
  by (cases m) auto

lemma throw_if_Inr [simp]: "throw_if c e = Inr u \<longleftrightarrow> \<not> c"
  by (simp add: throw_if_def)

lemma throw_if_Inl [simp]: "throw_if c e = Inl e' \<longleftrightarrow> c \<and> e = e'"
  by (simp add: throw_if_def)

lemma bindE_throw_if:
  "bindE (throw_if c e) f = (if c then Inl e else f ())"
  by (simp add: throw_if_def)

lemma throw_if_False [simp]: "throw_if False e = Inr ()"
  by (simp add: throw_if_def)

lemma throw_if_True [simp]: "throw_if True e = Inl e"
  by (simp add: throw_if_def)

lemma if_Inl_Inr [simp]:
  "(if c then Inl e else m) = Inr y \<longleftrightarrow> \<not> c \<and> m = Inr y"
  "(if c then m else Inl e) = Inr y \<longleftrightarrow> c \<and> m = Inr y"
  by auto

lemma case_option_Inr [result_simps]:
  "(case x of None \<Rightarrow> Inl e | Some a \<Rightarrow> f a) = Inr y \<longleftrightarrow> (\<exists>a. x = Some a \<and> f a = Inr y)"
  by (cases x) auto

lemma ex_unit [result_simps]: "(\<exists>x :: unit. P x) \<longleftrightarrow> P ()"
  by (metis old.unit.exhaust)

lemma succeeds_iff: "succeeds m \<longleftrightarrow> (\<exists>x. m = Inr x)"
  by (cases m) (auto simp: succeeds_def)

lemma succeeds_simps [simp]: "succeeds (Inr x)" "\<not> succeeds (Inl e)"
  by (simp_all add: succeeds_def)

lemmas result_bind_simps [result_simps] =
  bindE_Inr_iff throw_if_Inr if_Inl_Inr

text \<open>\<^verbatim>\<open>Array.prototype.map\<close> with a callback that may throw.\<close>

fun mapE :: "('a \<Rightarrow> 'e + 'b) \<Rightarrow> 'a list \<Rightarrow> 'e + 'b list" where
  "mapE f [] = Inr []"
| "mapE f (x # xs) = bindE (f x) (\<lambda>y. bindE (mapE f xs) (\<lambda>ys. Inr (y # ys)))"

lemma mapE_Inr_iff:
  "mapE f xs = Inr ys \<longleftrightarrow> list_all2 (\<lambda>x y. f x = Inr y) xs ys"
  by (induction xs arbitrary: ys) (auto simp: list_all2_Cons1)

lemma mapE_map: "mapE f (map g xs) = mapE (f \<circ> g) xs"
  by (induction xs) auto

lemma mapE_all_Inr: "(\<And>x. x \<in> set xs \<Longrightarrow> f x = Inr (g x)) \<Longrightarrow> mapE f xs = Inr (map g xs)"
  by (induction xs) auto

text \<open>A callback that is also given the index, counted from \<open>i\<close>.\<close>

fun mapiE :: "nat \<Rightarrow> (nat \<Rightarrow> 'a \<Rightarrow> 'e + 'b) \<Rightarrow> 'a list \<Rightarrow> 'e + 'b list" where
  "mapiE i f [] = Inr []"
| "mapiE i f (x # xs) = bindE (f i x) (\<lambda>y. bindE (mapiE (Suc i) f xs) (\<lambda>ys. Inr (y # ys)))"

lemma mapiE_length: "mapiE i f xs = Inr ys \<Longrightarrow> length ys = length xs"
  by (induction i f xs arbitrary: ys rule: mapiE.induct) auto

lemma mapiE_Inr_nth:
  "mapiE i f xs = Inr ys \<Longrightarrow> k < length xs \<Longrightarrow> f (i + k) (xs ! k) = Inr (ys ! k)"
proof (induction i f xs arbitrary: ys k rule: mapiE.induct)
  case (2 i f x xs)
  then show ?case by (cases k) auto
qed simp

lemma mapiE_InrI:
  "(\<And>k. k < length xs \<Longrightarrow> f (i + k) (xs ! k) = Inr (g (xs ! k)))
     \<Longrightarrow> mapiE i f xs = Inr (map g xs)"
proof (induction i f xs rule: mapiE.induct)
  case (2 i f x xs)
  from "2.prems" [of 0] have "f i x = Inr (g x)" by simp
  moreover have "mapiE (Suc i) f xs = Inr (map g xs)"
  proof (rule "2.IH")
    fix k assume "k < length xs"
    then show "f (Suc i + k) (xs ! k) = Inr (g (xs ! k))"
      using "2.prems" [of "Suc k"] by simp
  qed
  ultimately show ?case by simp
qed simp

section \<open>Characters and patterns\<close>

abbreviation code :: "char \<Rightarrow> nat" where
  "code c \<equiv> of_char c"

definition is_digit :: "char \<Rightarrow> bool" where
  "is_digit c \<longleftrightarrow> 48 \<le> code c \<and> code c \<le> 57"

definition is_lower_hex :: "char \<Rightarrow> bool" where
  "is_lower_hex c \<longleftrightarrow> is_digit c \<or> (97 \<le> code c \<and> code c \<le> 102)"

definition is_hex :: "char \<Rightarrow> bool" where
  "is_hex c \<longleftrightarrow> is_lower_hex c \<or> (65 \<le> code c \<and> code c \<le> 70)"

definition is_alnum :: "char \<Rightarrow> bool" where
  "is_alnum c \<longleftrightarrow> is_digit c \<or> (65 \<le> code c \<and> code c \<le> 90) \<or> (97 \<le> code c \<and> code c \<le> 122)"

definition lower_char :: "char \<Rightarrow> char" where
  "lower_char c = (if 65 \<le> code c \<and> code c \<le> 90 then char_of (code c + 32) else c)"

definition toLowerCase :: "string \<Rightarrow> string" where
  "toLowerCase s = map lower_char s"

text \<open>The patterns \<^verbatim>\<open>^prefix[class]{n}$\<close>.\<close>

definition prefixed :: "string \<Rightarrow> (char \<Rightarrow> bool) \<Rightarrow> nat \<Rightarrow> string \<Rightarrow> bool" where
  "prefixed p cls n s \<longleftrightarrow>
     take (length p) s = p \<and> length s = length p + n \<and> list_all cls (drop (length p) s)"

lemma list_all_lower_hex_lower_char:
  "is_hex c \<Longrightarrow> is_lower_hex (lower_char c)"
  by (auto simp: is_hex_def is_lower_hex_def is_digit_def lower_char_def)

lemma lower_char_idem [simp]: "lower_char (lower_char c) = lower_char c"
  by (auto simp: lower_char_def)

lemma toLowerCase_idem [simp]: "toLowerCase (toLowerCase s) = toLowerCase s"
  by (simp add: toLowerCase_def)

lemma length_toLowerCase [simp]: "length (toLowerCase s) = length s"
  by (simp add: toLowerCase_def)

lemma lower_char_lower_hex [simp]: "is_lower_hex c \<Longrightarrow> lower_char c = c"
  by (auto simp: is_lower_hex_def is_digit_def lower_char_def)

lemma toLowerCase_lower_hex: "list_all is_lower_hex s \<Longrightarrow> toLowerCase s = s"
  by (induction s) (auto simp: toLowerCase_def)

lemma toLowerCase_append [simp]: "toLowerCase (s @ t) = toLowerCase s @ toLowerCase t"
  by (simp add: toLowerCase_def)

lemma prefixed_iff: "prefixed p cls n s \<longleftrightarrow> (\<exists>t. s = p @ t \<and> length t = n \<and> list_all cls t)"
  unfolding prefixed_def by (metis add_diff_cancel_left' append_eq_conv_conj append_take_drop_id
      length_append length_drop)

lemma prefixed_mono: "prefixed p c1 n s \<Longrightarrow> (\<And>c. c1 c \<Longrightarrow> c2 c) \<Longrightarrow> prefixed p c2 n s"
  by (auto simp: prefixed_def list_all_iff)

lemma is_lower_hex_is_hex: "is_lower_hex c \<Longrightarrow> is_hex c"
  by (simp add: is_hex_def)

text \<open>Lower-casing a hexadecimal identifier gives the canonical identifier.\<close>

lemma prefixed_toLowerCase:
  assumes "prefixed p is_hex n s" "toLowerCase p = p"
  shows "prefixed p is_lower_hex n (toLowerCase s)"
proof -
  from assms(1) obtain t where "s = p @ t" "length t = n" "list_all is_hex t"
    by (auto simp: prefixed_iff)
  with assms(2) show ?thesis
    by (auto simp: prefixed_iff toLowerCase_def list_all_iff list_all_lower_hex_lower_char)
qed

lemma prefixed_lower_fixed:
  "prefixed p is_lower_hex n s \<Longrightarrow> toLowerCase p = p \<Longrightarrow> toLowerCase s = s"
  by (auto simp: prefixed_iff toLowerCase_lower_hex)

section \<open>Decimal notation of the natural numbers\<close>

definition digit_char :: "nat \<Rightarrow> char" where
  "digit_char n = char_of (48 + n)"

definition digit_val :: "char \<Rightarrow> nat" where
  "digit_val c = code c - 48"

fun show_nat :: "nat \<Rightarrow> string" where
  "show_nat n = (if n < 10 then [digit_char n] else show_nat (n div 10) @ [digit_char (n mod 10)])"

declare show_nat.simps [simp del]

definition digits_val :: "string \<Rightarrow> nat" where
  "digits_val s = foldl (\<lambda>a c. 10 * a + digit_val c) 0 s"

definition show_int :: "int \<Rightarrow> string" where
  "show_int i = (if i < 0 then ''-'' @ show_nat (nat (- i)) else show_nat (nat i))"

lemma digit_val_char [simp]: "n < 10 \<Longrightarrow> digit_val (digit_char n) = n"
  by (simp add: digit_val_def digit_char_def)

lemma is_digit_digit_char [simp]: "n < 10 \<Longrightarrow> is_digit (digit_char n)"
  by (simp add: is_digit_def digit_char_def)

lemma digit_char_val [simp]: "is_digit c \<Longrightarrow> digit_char (digit_val c) = c"
  by (simp add: digit_val_def digit_char_def is_digit_def)

lemma digit_val_less [simp]: "is_digit c \<Longrightarrow> digit_val c < 10"
  by (auto simp: digit_val_def is_digit_def)

lemma is_digit_zero [simp]: "is_digit CHR ''0''"
  by (simp add: is_digit_def)

lemma is_digit_dot [simp]: "\<not> is_digit CHR ''.''"
  by (simp add: is_digit_def)

lemma is_digit_minus [simp]: "\<not> is_digit CHR ''-''"
  by (simp add: is_digit_def)

lemma digit_char_0 [simp]: "digit_char 0 = CHR ''0''"
  by (simp add: digit_char_def char_of_def bit_0)

lemma digit_val_0 [simp]: "digit_val CHR ''0'' = 0"
  by (simp add: digit_val_def)

lemma digit_val_zero_iff: "is_digit c \<Longrightarrow> digit_val c = 0 \<longleftrightarrow> c = CHR ''0''"
  by (metis digit_char_0 digit_char_val digit_val_0)

lemma digits_val_Nil [simp]: "digits_val [] = 0"
  by (simp add: digits_val_def)

lemma digits_val_snoc [simp]: "digits_val (s @ [c]) = 10 * digits_val s + digit_val c"
  by (simp add: digits_val_def)

lemma digits_val_append: "digits_val (s @ t) = digits_val s * 10 ^ length t + digits_val t"
  by (induction t rule: rev_induct) (simp_all add: algebra_simps flip: append_assoc)

lemma digits_val_Cons: "digits_val (c # s) = digit_val c * 10 ^ length s + digits_val s"
  using digits_val_append [of "[c]" s] digits_val_snoc [of "[]" c] by simp

lemma digits_val_replicate_0 [simp]:
  "digits_val (replicate k CHR ''0'' @ s) = digits_val s"
  by (induction k) (simp_all add: digits_val_Cons)

lemma digits_val_dropWhile_0 [simp]:
  "digits_val (dropWhile (\<lambda>c. c = CHR ''0'') s) = digits_val s"
  by (induction s) (simp_all add: digits_val_Cons)

lemma digits_val_show_nat [simp]: "digits_val (show_nat n) = n"
proof (induction n rule: show_nat.induct)
  case (1 n)
  then show ?case
    using digits_val_snoc [of "[]" "digit_char n"] by (subst show_nat.simps) auto
qed

lemma show_nat_digits [simp]: "list_all is_digit (show_nat n)"
  by (induction n rule: show_nat.induct) (subst show_nat.simps, auto)

lemma list_all_replicate [simp]: "list_all P (replicate n x) \<longleftrightarrow> n = 0 \<or> P x"
  by (auto simp: list_all_iff)

lemma show_nat_not_Nil [simp]: "show_nat n \<noteq> []"
  by (subst show_nat.simps) simp

lemma show_nat_hd: "0 < n \<Longrightarrow> hd (show_nat n) \<noteq> CHR ''0''"
proof (induction n rule: show_nat.induct)
  case (1 n)
  show ?case
  proof (cases "n < 10")
    case True
    with "1.prems" have "digit_val (digit_char n) \<noteq> 0" by simp
    then have "digit_char n \<noteq> CHR ''0''" by auto
    with True show ?thesis by (subst show_nat.simps) simp
  next
    case False
    with "1.IH" show ?thesis by (subst show_nat.simps) (simp add: hd_append)
  qed
qed

lemma show_nat_last: "last (show_nat n) = digit_char (n mod 10)"
  by (subst show_nat.simps) auto

lemma show_nat_0 [simp]: "show_nat 0 = ''0''"
  by (subst show_nat.simps) simp

text \<open>A digit string without a leading zero is the notation of its own value.\<close>

lemma show_nat_digits_val:
  assumes "list_all is_digit s" "s \<noteq> []" "hd s \<noteq> CHR ''0''"
  shows "show_nat (digits_val s) = s"
  using assms
proof (induction s rule: rev_induct)
  case (snoc c s)
  show ?case
  proof (cases "s = []")
    case True
    with snoc.prems show ?thesis
      using digits_val_snoc [of "[]" c] by (subst show_nat.simps) simp
  next
    case False
    with snoc have IH: "show_nat (digits_val s) = s" by simp
    have "digits_val s \<noteq> 0"
    proof
      assume "digits_val s = 0"
      with IH have "s = ''0''" by simp
      with snoc.prems show False by simp
    qed
    with snoc.prems IH show ?thesis by (subst show_nat.simps) simp
  qed
qed simp

lemma show_nat_inject [simp]: "show_nat m = show_nat n \<longleftrightarrow> m = n"
  by (metis digits_val_show_nat)

lemma length_show_nat_le: "n < 10 ^ k \<Longrightarrow> 0 < k \<Longrightarrow> length (show_nat n) \<le> k"
proof (induction n arbitrary: k rule: show_nat.induct)
  case (1 n)
  show ?case
  proof (cases "n < 10")
    case True
    with "1.prems" show ?thesis by (subst show_nat.simps) simp
  next
    case False
    then obtain j where k: "k = Suc j" "0 < j"
      using "1.prems" by (cases k; cases "k - 1") auto
    have "n div 10 < 10 ^ j" using "1.prems"(1) k by (simp add: less_mult_imp_div_less mult.commute)
    with "1.IH" False k show ?thesis by (subst show_nat.simps) simp
  qed
qed

text \<open>
  The same notation over the integers, whose numerals are binary: what evaluation uses in the
  place of the natural numbers' unary arithmetic.
\<close>

function show_pos :: "int \<Rightarrow> string" where
  "show_pos i = (if i < 10 then [digit_char (nat i)] else show_pos (i div 10) @ [digit_char (nat (i mod 10))])"
  by pat_completeness auto

termination
  by (relation "measure nat") auto

declare show_pos.simps [simp del]

lemma show_nat_nat [code_unfold]: "show_nat (nat i) = show_pos i"
proof (induction i rule: show_pos.induct)
  case (1 i)
  note unfold = show_nat.simps [of "nat i"] show_pos.simps [of i]
  show ?case
  proof (cases "i < 10")
    case True
    then have "nat i < 10" by linarith
    with True show ?thesis unfolding unfold by (simp only: if_True)
  next
    case False
    then have "\<not> nat i < 10" "nat i div 10 = nat (i div 10)" "nat i mod 10 = nat (i mod 10)"
      by (simp_all add: nat_div_distrib nat_mod_distrib)
    with 1 [OF False] False show ?thesis unfolding unfold by (simp only: if_False)
  qed
qed

definition digits_int :: "string \<Rightarrow> int" where
  "digits_int s = foldl (\<lambda>a c. 10 * a + int (digit_val c)) 0 s"

lemma int_digits_val [code_unfold]: "int (digits_val s) = digits_int s"
  by (induction s rule: rev_induct) (simp_all add: digits_int_def)

end
