(* ===== verification/Decimal.thy ===== *)
theory Decimal
  imports Prelude
begin

text \<open>
  Decimal strings and exact decimal arithmetic: \<^verbatim>\<open>packages/hyperliquid/src/numbers/\<close> and
  the arithmetic at the head of \<^verbatim>\<open>packages/hyperliquid/src/actions/validation.ts\<close>
  (\<open>parseDecimal\<close> to \<open>positiveDecimal\<close>), with the decimal patterns of
  \<^verbatim>\<open>actions/constants.ts\<close>. Sizes, prices and margins are compared and multiplied as
  scaled big integers; the lemmas relate them to rational numbers.
\<close>

section \<open>Patterns\<close>

text \<open>\<^verbatim>\<open>0|[1-9]\d*\<close>\<close>

definition integer_literal :: "string \<Rightarrow> bool" where
  "integer_literal s \<longleftrightarrow> s = ''0'' \<or> (s \<noteq> [] \<and> hd s \<noteq> CHR ''0'' \<and> list_all is_digit s)"

text \<open>\<^verbatim>\<open>(?:\.\d+)?\<close>\<close>

definition fraction_suffix :: "string \<Rightarrow> bool" where
  "fraction_suffix s \<longleftrightarrow> s = [] \<or> (hd s = CHR ''.'' \<and> tl s \<noteq> [] \<and> list_all is_digit (tl s))"

definition before_dot :: "string \<Rightarrow> string" where
  "before_dot s = takeWhile (\<lambda>c. c \<noteq> CHR ''.'') s"

definition from_dot :: "string \<Rightarrow> string" where
  "from_dot s = dropWhile (\<lambda>c. c \<noteq> CHR ''.'') s"

definition starts_minus :: "string \<Rightarrow> bool" where
  "starts_minus s \<longleftrightarrow> take 1 s = ''-''"

definition unsigned_part :: "string \<Rightarrow> string" where
  "unsigned_part s = (if starts_minus s then drop 1 s else s)"

text \<open>\<^verbatim>\<open>/^-?(?:0|[1-9]\d*)(?:\.\d+)?$/\<close>\<close>

definition DECIMAL_PATTERN :: "string \<Rightarrow> bool" where
  "DECIMAL_PATTERN s \<longleftrightarrow>
     integer_literal (before_dot (unsigned_part s)) \<and> fraction_suffix (from_dot (unsigned_part s))"

definition isDecimalString :: "string \<Rightarrow> bool" where
  "isDecimalString value = DECIMAL_PATTERN value"

definition parseDecimalString :: "string \<Rightarrow> string \<Rightarrow> string result" where
  "parseDecimalString value path =
     (if \<not> isDecimalString value then invalid path ''expected a decimal string'' else Inr value)"

definition parseNullableDecimalString :: "string option \<Rightarrow> string \<Rightarrow> string option result" where
  "parseNullableDecimalString value path =
     (case value of
        None \<Rightarrow> Inr None
      | Some v \<Rightarrow> bindE (parseDecimalString v path) (\<lambda>s. Inr (Some s)))"

text \<open>\<^verbatim>\<open>/^(?:0|[1-9]\d*)(?:\.\d*[1-9])?$/\<close>\<close>

definition CANONICAL_POSITIVE_DECIMAL_PATTERN :: "string \<Rightarrow> bool" where
  "CANONICAL_POSITIVE_DECIMAL_PATTERN s \<longleftrightarrow>
     integer_literal (before_dot s) \<and>
     (from_dot s = [] \<or>
       (fraction_suffix (from_dot s) \<and> last (from_dot s) \<noteq> CHR ''0''))"

text \<open>\<^verbatim>\<open>/^0(?:\.0*)?$/\<close>\<close>

definition ZERO_DECIMAL_PATTERN :: "string \<Rightarrow> bool" where
  "ZERO_DECIMAL_PATTERN s \<longleftrightarrow>
     before_dot s = ''0'' \<and>
     (from_dot s = [] \<or> list_all (\<lambda>c. c = CHR ''0'') (tl (from_dot s)))"

section \<open>Price precision\<close>

datatype market_family = Perp | Spot | Outcome | OtherFamily string

record PricePrecisionInputs =
  maxSignificantFigures :: js_number
  maxDecimalPlaces :: js_number

fun isInteger :: "js_number \<Rightarrow> bool" where
  "isInteger (IntN _) = True"
| "isInteger _ = False"

definition pricePrecisionForSizeDecimals ::
    "market_family \<Rightarrow> js_number \<Rightarrow> PricePrecisionInputs option" where
  "pricePrecisionForSizeDecimals family sizeDecimals =
     (let maximum = (if family = Perp then 6 else 8) in
      case sizeDecimals of
        IntN n \<Rightarrow>
          (if \<not> isInteger sizeDecimals \<or> n < 0 \<or> n > maximum then None
           else Some \<lparr>maxSignificantFigures = IntN 5, maxDecimalPlaces = IntN (maximum - n)\<rparr>)
      | _ \<Rightarrow> None)"

section \<open>Exact decimals\<close>

record ParsedDecimal =
  coefficient :: int
  scale :: nat

definition MAX_DECIMAL_INPUT_LENGTH :: nat where
  "MAX_DECIMAL_INPUT_LENGTH = 256"

text \<open>\<^verbatim>\<open>fraction.replace(/0+$/, "")\<close>\<close>

definition trim_trailing_zeros :: "string \<Rightarrow> string" where
  "trim_trailing_zeros s = rev (dropWhile (\<lambda>c. c = CHR ''0'') (rev s))"

text \<open>\<^verbatim>\<open>replace(/^0+(?=\d)/, "")\<close>: a run of zeros is dropped as long as a digit follows it.\<close>

definition trim_leading_zeros :: "string \<Rightarrow> string" where
  "trim_leading_zeros s =
     (let rest = dropWhile (\<lambda>c. c = CHR ''0'') s in
      if rest \<noteq> [] \<and> is_digit (hd rest) then rest
      else if rest = s then s
      else CHR ''0'' # rest)"

definition parseDecimal :: "string \<Rightarrow> string \<Rightarrow> ParsedDecimal result" where
  "parseDecimal value path =
     (if length value > MAX_DECIMAL_INPUT_LENGTH \<or> \<not> DECIMAL_PATTERN value
      then invalid path ''expected a canonical decimal string''
      else
        let negative = starts_minus value;
            unsigned = (if negative then drop 1 value else value);
            integer = before_dot unsigned;
            fraction = drop 1 (from_dot unsigned);
            trimmedFraction = trim_trailing_zeros fraction;
            digits = trim_leading_zeros (integer @ trimmedFraction);
            coeff = int (digits_val (if digits = [] then ''0'' else digits))
        in Inr \<lparr>coefficient = (if negative then - coeff else coeff),
                scale = length trimmedFraction\<rparr>)"

definition powerOfTen :: "nat \<Rightarrow> int" where
  "powerOfTen s = 10 ^ s"

definition padStart :: "string \<Rightarrow> nat \<Rightarrow> char \<Rightarrow> string" where
  "padStart s n c = replicate (n - length s) c @ s"

definition formatDecimal :: "ParsedDecimal \<Rightarrow> string" where
  "formatDecimal value =
     (if coefficient value = 0 then ''0''
      else
        let negative = coefficient value < 0;
            digits = show_nat (nat (if negative then - coefficient value else coefficient value));
            sign = (if negative then ''-'' else '''')
        in if scale value = 0 then sign @ digits
           else
             let padded = padStart digits (scale value + 1) CHR ''0'';
                 split = length padded - scale value
             in sign @ take split padded @ ''.'' @ drop split padded)"

definition normalizeDecimal :: "string \<Rightarrow> string \<Rightarrow> string result" where
  "normalizeDecimal value path = bindE (parseDecimal value path) (\<lambda>d. Inr (formatDecimal d))"

definition compareDecimal :: "ParsedDecimal \<Rightarrow> ParsedDecimal \<Rightarrow> int" where
  "compareDecimal left right =
     (let s = max (scale left) (scale right);
          a = coefficient left * powerOfTen (s - scale left);
          b = coefficient right * powerOfTen (s - scale right)
      in if a < b then -1 else if a > b then 1 else 0)"

text \<open>
  The loop of \<^verbatim>\<open>multiplyDecimal\<close>: while the scale is positive and the coefficient is a
  multiple of ten, both lose one digit.
\<close>

fun reduceScale :: "int \<Rightarrow> nat \<Rightarrow> ParsedDecimal" where
  "reduceScale c 0 = \<lparr>coefficient = c, scale = 0\<rparr>"
| "reduceScale c (Suc s) =
     (if c mod 10 = 0 then reduceScale (c div 10) s else \<lparr>coefficient = c, scale = Suc s\<rparr>)"

definition multiplyDecimal :: "ParsedDecimal \<Rightarrow> ParsedDecimal \<Rightarrow> ParsedDecimal" where
  "multiplyDecimal left right =
     reduceScale (coefficient left * coefficient right) (scale left + scale right)"

definition positiveDecimal :: "string \<Rightarrow> string \<Rightarrow> string result" where
  "positiveDecimal value path =
     bindE (parseDecimal value path) (\<lambda>parsed.
       if coefficient parsed \<le> 0 then invalid path ''expected a positive decimal value''
       else Inr (formatDecimal parsed))"

section \<open>What a decimal denotes\<close>

definition dec_val :: "ParsedDecimal \<Rightarrow> rat" where
  "dec_val d = of_int (coefficient d) / 10 ^ scale d"

definition decimal_value :: "string \<Rightarrow> rat" where
  "decimal_value s =
     (let u = unsigned_part s;
          f = drop 1 (from_dot u);
          m = of_nat (digits_val (before_dot u)) + of_nat (digits_val f) / 10 ^ length f
      in if starts_minus s then - m else m)"

definition canonical_decimal :: "ParsedDecimal \<Rightarrow> bool" where
  "canonical_decimal d \<longleftrightarrow> scale d = 0 \<or> coefficient d mod 10 \<noteq> 0"

section \<open>Splitting and trimming\<close>

lemma dot_split [simp]: "before_dot s @ from_dot s = s"
  by (simp add: before_dot_def from_dot_def)

lemma before_dot_literal [simp]:
  "list_all is_digit a \<Longrightarrow> before_dot (a @ CHR ''.'' # b) = a"
  "list_all is_digit a \<Longrightarrow> before_dot a = a"
  unfolding before_dot_def list_all_iff
  by (auto simp: takeWhile_append takeWhile_eq_all_conv)

lemma from_dot_literal [simp]:
  "list_all is_digit a \<Longrightarrow> from_dot (a @ CHR ''.'' # b) = CHR ''.'' # b"
  "list_all is_digit a \<Longrightarrow> from_dot a = []"
  unfolding from_dot_def list_all_iff
  by (auto simp: dropWhile_append dropWhile_eq_Nil_conv)

lemma integer_literal_digits: "integer_literal s \<Longrightarrow> list_all is_digit s"
  by (auto simp: integer_literal_def)

lemma integer_literal_not_Nil: "integer_literal s \<Longrightarrow> s \<noteq> []"
  by (auto simp: integer_literal_def)

lemma fraction_suffix_digits: "fraction_suffix s \<Longrightarrow> list_all is_digit (drop 1 s)"
  by (cases s) (auto simp: fraction_suffix_def)

lemma fraction_suffix_cases:
  assumes "fraction_suffix s"
  obtains "s = []" | f where "s = CHR ''.'' # f" "f \<noteq> []" "list_all is_digit f"
  using assms by (cases s) (auto simp: fraction_suffix_def)

lemma trim_trailing_prefix:
  obtains k where "s = trim_trailing_zeros s @ replicate k CHR ''0''"
proof -
  let ?z = "takeWhile (\<lambda>c. c = CHR ''0'') (rev s)"
  have "rev s = ?z @ rev (trim_trailing_zeros s)"
    by (simp add: trim_trailing_zeros_def)
  then have "s = trim_trailing_zeros s @ rev ?z"
    by (metis rev_append rev_rev_ident)
  moreover have "rev ?z = replicate (length ?z) CHR ''0''"
    by (intro replicate_eqI) (auto dest: set_takeWhileD)
  ultimately show thesis using that [of "length ?z"] by simp
qed

lemma digits_val_replicate [simp]: "digits_val (replicate k CHR ''0'') = 0"
  using digits_val_replicate_0 [of k "[]"] by simp

lemma trim_trailing_val:
  "of_nat (digits_val (trim_trailing_zeros s)) / (10 ^ length (trim_trailing_zeros s) :: rat)
     = of_nat (digits_val s) / 10 ^ length s"
proof -
  obtain k where k: "s = trim_trailing_zeros s @ replicate k CHR ''0''"
    by (rule trim_trailing_prefix)
  let ?t = "trim_trailing_zeros s"
  have "digits_val s = digits_val ?t * 10 ^ k"
    using arg_cong [OF k, of digits_val] by (simp add: digits_val_append)
  moreover have "length s = length ?t + k"
    using arg_cong [OF k, of length] by simp
  ultimately show ?thesis by (simp add: power_add)
qed

lemma trim_trailing_digits: "list_all is_digit s \<Longrightarrow> list_all is_digit (trim_trailing_zeros s)"
  unfolding trim_trailing_zeros_def list_all_iff by (auto dest: set_dropWhileD)

lemma trim_trailing_last:
  "trim_trailing_zeros s \<noteq> [] \<Longrightarrow> last (trim_trailing_zeros s) \<noteq> CHR ''0''"
  unfolding trim_trailing_zeros_def
  by (metis (mono_tags, lifting) hd_dropWhile last_rev rev_is_Nil_conv)

lemma trim_trailing_fixed:
  "s = [] \<or> last s \<noteq> CHR ''0'' \<Longrightarrow> trim_trailing_zeros s = s"
  unfolding trim_trailing_zeros_def
  by (cases s rule: rev_cases) auto

lemma length_trim_trailing: "length (trim_trailing_zeros s) \<le> length s"
  unfolding trim_trailing_zeros_def by (metis length_dropWhile_le length_rev)

lemma trim_leading_val [simp]: "digits_val (trim_leading_zeros s) = digits_val s"
  by (auto simp: trim_leading_zeros_def Let_def digits_val_Cons)

lemma trim_leading_Nil [simp]: "trim_leading_zeros s = [] \<longleftrightarrow> s = []"
  by (cases s) (simp_all add: trim_leading_zeros_def Let_def)

lemma digits_val_0 [simp]: "digits_val ''0'' = 0"
  by (simp add: digits_val_Cons)

lemma repad_leading_zeros:
  "length w = n \<Longrightarrow> padStart (dropWhile (\<lambda>c. c = CHR ''0'') w) n CHR ''0'' = w"
proof (induction w arbitrary: n)
  case (Cons c w)
  then show ?case
    by (auto simp: padStart_def Suc_diff_le length_dropWhile_le)
qed (simp add: padStart_def)

section \<open>Parsing denotes the string\<close>

lemma parseDecimal_Inr:
  assumes "parseDecimal s p = Inr d"
  shows "DECIMAL_PATTERN s" "length s \<le> MAX_DECIMAL_INPUT_LENGTH"
    "scale d = length (trim_trailing_zeros (drop 1 (from_dot (unsigned_part s))))"
    "coefficient d =
       (if starts_minus s then -1 else 1) *
       int (digits_val (before_dot (unsigned_part s) @
                        trim_trailing_zeros (drop 1 (from_dot (unsigned_part s)))))"
  using assms by (auto simp: parseDecimal_def Let_def unsigned_part_def split: if_splits)

lemma parseDecimal_path:
  "parseDecimal s p = Inr d \<Longrightarrow> parseDecimal s q = Inr d"
  by (simp add: parseDecimal_def split: if_splits)

lemma parseDecimal_value:
  assumes "parseDecimal s p = Inr d"
  shows "dec_val d = decimal_value s"
proof -
  let ?u = "unsigned_part s"
  let ?f = "drop 1 (from_dot ?u)"
  let ?t = "trim_trailing_zeros ?f"
  have "(of_nat (digits_val (before_dot ?u @ ?t)) :: rat) / 10 ^ length ?t
          = of_nat (digits_val (before_dot ?u)) + of_nat (digits_val ?t) / 10 ^ length ?t"
    by (simp add: digits_val_append add_divide_distrib)
  also have "\<dots> = of_nat (digits_val (before_dot ?u)) + of_nat (digits_val ?f) / 10 ^ length ?f"
    by (simp only: trim_trailing_val)
  finally show ?thesis
    using parseDecimal_Inr [OF assms] by (simp add: dec_val_def decimal_value_def Let_def)
qed

lemma pattern_parts:
  assumes "DECIMAL_PATTERN s"
  shows "list_all is_digit (before_dot (unsigned_part s))" "before_dot (unsigned_part s) \<noteq> []"
    "list_all is_digit (drop 1 (from_dot (unsigned_part s)))"
  using assms integer_literal_digits integer_literal_not_Nil fraction_suffix_digits
  by (auto simp: DECIMAL_PATTERN_def)

lemma last_digit_mod:
  assumes "list_all is_digit (a @ t)" "t \<noteq> []" "last t \<noteq> CHR ''0''"
  shows "int (digits_val (a @ t)) mod 10 \<noteq> 0"
proof -
  obtain t' c where t: "t = t' @ [c]" using assms(2) by (cases t rule: rev_cases) auto
  with assms have "is_digit c" "digit_val c \<noteq> 0" by (auto simp: digit_val_zero_iff)
  then have "0 < digit_val c" "digit_val c < 10" by auto
  moreover have "digits_val (a @ t) = 10 * digits_val (a @ t') + digit_val c"
    using t digits_val_snoc [of "a @ t'" c] by simp
  ultimately show ?thesis by presburger
qed

lemma parseDecimal_canonical:
  assumes "parseDecimal s p = Inr d"
  shows "canonical_decimal d"
proof -
  let ?a = "before_dot (unsigned_part s)"
  let ?t = "trim_trailing_zeros (drop 1 (from_dot (unsigned_part s)))"
  note d = parseDecimal_Inr [OF assms]
  show ?thesis
  proof (cases "?t = []")
    case False
    have "list_all is_digit (?a @ ?t)"
      using pattern_parts [OF d(1)] trim_trailing_digits by auto
    then have "int (digits_val (?a @ ?t)) mod 10 \<noteq> 0"
      using False by (intro last_digit_mod trim_trailing_last)
    then show ?thesis using d(4) by (auto simp: canonical_decimal_def mod_minus_eq zmod_zminus1_not_zero)
  qed (use d in \<open>simp add: canonical_decimal_def\<close>)
qed

section \<open>Formatting denotes the decimal\<close>

text \<open>
  The unsigned body that \<open>formatDecimal\<close> prints for a non-zero coefficient: an integer
  literal and the \<open>scale\<close> digits after the point.
\<close>

lemma padded_split:
  assumes n: "0 < n" and s: "0 < s"
  defines "w \<equiv> padStart (show_nat n) (s + 1) CHR ''0''"
  defines "k \<equiv> length w - s"
  shows "integer_literal (take k w)" "list_all is_digit w" "length (drop k w) = s"
    "digits_val w = n" "last w = digit_char (n mod 10)"
proof -
  have w: "w = replicate (s + 1 - length (show_nat n)) CHR ''0'' @ show_nat n"
    by (simp add: w_def padStart_def)
  then have len: "s < length w" by simp
  then show "length (drop k w) = s" by (simp add: k_def)
  show digits: "list_all is_digit w" by (simp add: w)
  show "digits_val w = n" by (simp add: w)
  show "last w = digit_char (n mod 10)" by (simp add: w show_nat_last)
  show "integer_literal (take k w)"
  proof (cases "length (show_nat n) \<le> s")
    case True
    then have "k = 1" "hd w = CHR ''0''" "w \<noteq> []"
      by (auto simp: k_def w hd_append Suc_diff_le)
    then have "take k w = ''0''" by (cases w) auto
    then show ?thesis by (simp add: integer_literal_def)
  next
    case False
    then have "w = show_nat n" by (simp add: w)
    moreover have "0 < k" using len by (simp add: k_def)
    ultimately show ?thesis
      using show_nat_hd [OF n] digits
      by (auto simp: integer_literal_def list_all_iff hd_take dest: in_set_takeD)
  qed
qed

lemma integer_literal_show_nat: "integer_literal (show_nat n)"
  using show_nat_hd [of n] by (cases "n = 0") (auto simp: integer_literal_def)

lemma starts_minus_digits:
  "list_all is_digit a \<Longrightarrow> a \<noteq> [] \<Longrightarrow> \<not> starts_minus (a @ b)"
  by (cases a) (auto simp: starts_minus_def)

lemma starts_minus_Cons [simp]: "starts_minus (CHR ''-'' # s)"
  by (simp add: starts_minus_def)

text \<open>The shape of a formatted decimal, as sign, integer literal and fraction digits.\<close>

definition sign_of :: "int \<Rightarrow> string" where
  "sign_of c = (if c < 0 then ''-'' else '''')"

lemma formatDecimal_shape:
  assumes "coefficient d \<noteq> 0"
  obtains a f where
    "formatDecimal d = sign_of (coefficient d) @ a @ (if f = [] then [] else CHR ''.'' # f)"
    "integer_literal a" "list_all is_digit (a @ f)" "length f = scale d"
    "int (digits_val (a @ f)) = \<bar>coefficient d\<bar>"
    "f \<noteq> [] \<Longrightarrow> last f = digit_char (nat \<bar>coefficient d\<bar> mod 10)"
proof -
  let ?n = "nat \<bar>coefficient d\<bar>"
  have n: "0 < ?n" using assms by simp
  have mag: "nat (if coefficient d < 0 then - coefficient d else coefficient d) = ?n"
    by (simp add: abs_if)
  show thesis
  proof (cases "scale d = 0")
    case True
    show thesis
      by (rule that [of "show_nat ?n" "[]"])
        (use True assms mag in \<open>auto simp: formatDecimal_def Let_def integer_literal_show_nat sign_of_def\<close>)
  next
    case False
    let ?w = "padStart (show_nat ?n) (scale d + 1) CHR ''0''"
    let ?k = "length ?w - scale d"
    have s: "0 < scale d" using False by simp
    note w = padded_split [OF n s]
    have ne: "drop ?k ?w \<noteq> []" using w(3) s by (metis length_0_conv less_numeral_extra(3))
    have fmt: "formatDecimal d = sign_of (coefficient d) @ take ?k ?w @
        (if drop ?k ?w = [] then [] else CHR ''.'' # drop ?k ?w)"
      using False assms mag ne by (simp add: formatDecimal_def Let_def sign_of_def)
    show thesis
    proof (rule that [OF fmt w(1)])
      show "list_all is_digit (take ?k ?w @ drop ?k ?w)" using w(2) by simp
      show "length (drop ?k ?w) = scale d" by (fact w(3))
      show "int (digits_val (take ?k ?w @ drop ?k ?w)) = \<bar>coefficient d\<bar>"
        using w(4) by simp
      from ne show "last (drop ?k ?w) = digit_char (?n mod 10)"
        using w(5) by simp
    qed
  qed
qed

lemma formatDecimal_zero: "coefficient d = 0 \<Longrightarrow> formatDecimal d = ''0''"
  by (simp add: formatDecimal_def)

lemma decimal_literal_parts:
  assumes "integer_literal a" "list_all is_digit f"
  defines "g \<equiv> (if f = [] then [] else CHR ''.'' # f)"
  shows "unsigned_part (sign_of c @ a @ g) = a @ g" "starts_minus (sign_of c @ a @ g) \<longleftrightarrow> c < 0"
    "before_dot (a @ g) = a" "from_dot (a @ g) = g" "drop 1 g = f"
    "DECIMAL_PATTERN (sign_of c @ a @ g)"
proof -
  have a: "list_all is_digit a" "a \<noteq> []"
    using assms(1) by (auto simp: integer_literal_digits integer_literal_not_Nil)
  then have nm: "\<not> starts_minus (a @ g)" by (rule starts_minus_digits)
  then show u: "unsigned_part (sign_of c @ a @ g) = a @ g"
    by (simp add: unsigned_part_def sign_of_def)
  from nm show "starts_minus (sign_of c @ a @ g) \<longleftrightarrow> c < 0" by (simp add: sign_of_def)
  show p: "before_dot (a @ g) = a" "from_dot (a @ g) = g" "drop 1 g = f"
    using a by (simp_all add: g_def)
  have "fraction_suffix g" using assms(2) by (simp add: g_def fraction_suffix_def)
  then show "DECIMAL_PATTERN (sign_of c @ a @ g)"
    using assms(1) p u by (simp add: DECIMAL_PATTERN_def)
qed

lemma formatDecimal_pattern_value:
  "DECIMAL_PATTERN (formatDecimal d) \<and> decimal_value (formatDecimal d) = dec_val d"
proof (cases "coefficient d = 0")
  case True
  have "integer_literal ''0''" by (simp add: integer_literal_def)
  from decimal_literal_parts(1,2,6) [OF this, where f = "[]" and c = 0]
    decimal_literal_parts(3,4) [OF this, where f = "[]"] True show ?thesis
    by (simp add: formatDecimal_zero dec_val_def decimal_value_def Let_def sign_of_def)
next
  case False
  then obtain a f where fmt: "formatDecimal d =
      sign_of (coefficient d) @ a @ (if f = [] then [] else CHR ''.'' # f)"
    and a: "integer_literal a" and digits: "list_all is_digit (a @ f)" and len: "length f = scale d"
    and val: "int (digits_val (a @ f)) = \<bar>coefficient d\<bar>"
    by (rule formatDecimal_shape) blast
  have f: "list_all is_digit f" using digits by simp
  note parts = decimal_literal_parts(3,4,5) [OF a f]
    decimal_literal_parts(1,2,6) [OF a f, of "coefficient d"]
  have "(of_nat (digits_val a) + of_nat (digits_val f) / 10 ^ length f :: rat)
      = of_nat (digits_val (a @ f)) / 10 ^ length f"
    by (simp add: digits_val_append add_divide_distrib)
  also have "\<dots> = of_int \<bar>coefficient d\<bar> / 10 ^ scale d"
    using val len by (metis of_int_of_nat_eq)
  finally show ?thesis
    using parts by (simp add: fmt decimal_value_def Let_def dec_val_def abs_if split: if_splits)
qed

lemmas formatDecimal_pattern = formatDecimal_pattern_value [THEN conjunct1]
lemmas formatDecimal_value = formatDecimal_pattern_value [THEN conjunct2]

section \<open>Canonical form\<close>

lemma canonical_scale_le:
  assumes "canonical_decimal d" "of_int (coefficient d) * 10 ^ scale e = (of_int (coefficient e) * 10 ^ scale d :: rat)"
  shows "scale d \<le> scale e"
proof (rule ccontr)
  assume "\<not> scale d \<le> scale e"
  then obtain k where k: "scale d = scale e + Suc k" by (metis add_Suc_right less_imp_Suc_add not_le)
  have "coefficient d * 10 ^ scale e = coefficient e * 10 ^ scale d"
    using assms(2) by (metis (mono_tags) of_int_eq_iff of_int_mult of_int_numeral of_int_power)
  then have "coefficient d = coefficient e * 10 ^ Suc k" by (simp add: k power_add)
  then have "coefficient d mod 10 = 0" by simp
  with assms(1) k show False by (simp add: canonical_decimal_def)
qed

lemma canonical_unique:
  assumes "canonical_decimal d" "canonical_decimal e" "dec_val d = dec_val e"
  shows "d = e"
proof -
  have cross: "of_int (coefficient d) * 10 ^ scale e = (of_int (coefficient e) * 10 ^ scale d :: rat)"
    using assms(3) by (simp add: dec_val_def field_simps)
  have s: "scale d = scale e"
    using canonical_scale_le [OF assms(1) cross] canonical_scale_le [OF assms(2) cross [symmetric]]
    by simp
  with cross have "coefficient d = coefficient e" by simp
  with s show ?thesis by (cases d, cases e) simp
qed

lemma parseDecimal_InrI:
  assumes "DECIMAL_PATTERN s" "length s \<le> MAX_DECIMAL_INPUT_LENGTH"
  obtains d where "parseDecimal s p = Inr d"
  using assms by (auto simp: parseDecimal_def Let_def)

lemma parse_formatDecimal:
  assumes "canonical_decimal d" "length (formatDecimal d) \<le> MAX_DECIMAL_INPUT_LENGTH"
  shows "parseDecimal (formatDecimal d) p = Inr d"
proof -
  obtain e where e: "parseDecimal (formatDecimal d) p = Inr e"
    using parseDecimal_InrI [OF formatDecimal_pattern assms(2)] by blast
  then have "dec_val e = dec_val d" by (simp add: parseDecimal_value formatDecimal_value)
  with e assms(1) show ?thesis using canonical_unique parseDecimal_canonical by blast
qed

text \<open>Normalising never lengthens the text, so a normalised decimal is accepted again.\<close>

lemma length_show_nat_digits_val:
  assumes "list_all is_digit s" "s \<noteq> []"
  shows "length (show_nat (digits_val s)) \<le> length s"
proof (rule length_show_nat_le)
  have "digits_val s < 10 ^ length s"
    using assms(1)
  proof (induction s)
    case (Cons c s)
    then have "digit_val c < 10" "digits_val s < 10 ^ length s" by simp_all
    then have "digit_val c + 1 \<le> 10" by simp
    from \<open>digits_val s < 10 ^ length s\<close>
    have "digit_val c * 10 ^ length s + digits_val s < (digit_val c + 1) * 10 ^ length s"
      by simp
    also have "\<dots> \<le> 10 * 10 ^ length s" using \<open>digit_val c + 1 \<le> 10\<close> by (rule mult_right_mono) simp
    finally show ?case by (simp add: digits_val_Cons)
  qed simp
  then show "digits_val s < 10 ^ length s" .
  show "0 < length s" using assms(2) by simp
qed

lemma length_formatDecimal_le:
  assumes "parseDecimal s p = Inr d"
  shows "length (formatDecimal d) \<le> length s"
proof (cases "coefficient d = 0")
  case True
  have "s \<noteq> []" using parseDecimal_Inr(1) [OF assms]
    by (auto simp: DECIMAL_PATTERN_def unsigned_part_def before_dot_def integer_literal_def starts_minus_def)
  with True show ?thesis by (cases s) (simp_all add: formatDecimal_zero)
next
  case False
  let ?u = "unsigned_part s"
  let ?a = "before_dot ?u"
  let ?t = "trim_trailing_zeros (drop 1 (from_dot ?u))"
  note d = parseDecimal_Inr [OF assms]
  note parts = pattern_parts [OF d(1)]
  have mag: "nat \<bar>coefficient d\<bar> = digits_val (?a @ ?t)" using d(4) by simp
  have digits: "list_all is_digit (?a @ ?t)"
    using parts trim_trailing_digits by simp
  have m: "length (show_nat (nat \<bar>coefficient d\<bar>)) \<le> length ?a + scale d"
    unfolding mag using length_show_nat_digits_val [OF digits] parts(2) d(3) by simp
  have neg: "coefficient d < 0 \<Longrightarrow> starts_minus s" using d(4) by (auto split: if_splits)
  have len_s: "length s = (if starts_minus s then 1 else 0) + length ?u"
    by (cases s) (auto simp: unsigned_part_def starts_minus_def)
  have len_u: "length ?u = length ?a + length (from_dot ?u)"
    using dot_split [of ?u] by (metis length_append)
  have sc: "scale d \<le> length (from_dot ?u) - 1"
    using d(3) length_trim_trailing [of "drop 1 (from_dot ?u)"] by simp
  have a1: "0 < length ?a" using parts(2) by simp
  have mag': "nat (if coefficient d < 0 then - coefficient d else coefficient d) = nat \<bar>coefficient d\<bar>"
    by (simp add: abs_if)
  show ?thesis
  proof (cases "scale d = 0")
    case True
    with m neg len_s len_u mag' False show ?thesis
      by (auto simp: formatDecimal_def Let_def)
  next
    case sp: False
    let ?w = "padStart (show_nat (nat \<bar>coefficient d\<bar>)) (scale d + 1) CHR ''0''"
    have "length ?w \<le> length ?a + scale d" using m a1
      unfolding padStart_def length_append length_replicate by linarith
    moreover have "length (formatDecimal d) = (if coefficient d < 0 then 1 else 0) + length ?w + 1"
      using sp False mag' by (simp add: formatDecimal_def Let_def)
    ultimately show ?thesis using neg len_s len_u sc sp by (auto split: if_splits)
  qed
qed

lemma parse_format_parse:
  assumes "parseDecimal s p = Inr d"
  shows "parseDecimal (formatDecimal d) q = Inr d"
  using parse_formatDecimal [OF parseDecimal_canonical [OF assms]]
    length_formatDecimal_le [OF assms] parseDecimal_Inr(2) [OF assms] by simp

section \<open>Comparison and multiplication\<close>

lemma compareDecimal_sign:
  "compareDecimal l r = (if dec_val l < dec_val r then -1 else if dec_val r < dec_val l then 1 else 0)"
proof -
  define s where "s = max (scale l) (scale r)"
  have scaled: "(of_int (coefficient d * 10 ^ (s - scale d)) :: rat) = dec_val d * 10 ^ s"
    if le: "scale d \<le> s" for d
  proof -
    obtain k where "s = scale d + k" using le_Suc_ex [OF le] by blast
    then show ?thesis by (simp add: dec_val_def power_add)
  qed
  let ?a = "coefficient l * 10 ^ (s - scale l)"
  let ?b = "coefficient r * 10 ^ (s - scale r)"
  have l: "(of_int ?a :: rat) = dec_val l * 10 ^ s" and r: "(of_int ?b :: rat) = dec_val r * 10 ^ s"
    by (rule scaled, simp add: s_def)+
  have "?a < ?b \<longleftrightarrow> (of_int ?a :: rat) < of_int ?b" "?b < ?a \<longleftrightarrow> (of_int ?b :: rat) < of_int ?a"
    by (simp_all only: of_int_less_iff)
  then have "?a < ?b \<longleftrightarrow> dec_val l < dec_val r" "?b < ?a \<longleftrightarrow> dec_val r < dec_val l"
    unfolding l r by simp_all
  then show ?thesis by (simp add: compareDecimal_def powerOfTen_def Let_def flip: s_def)
qed

lemma compareDecimal_simps:
  "compareDecimal l r < 0 \<longleftrightarrow> dec_val l < dec_val r"
  "compareDecimal l r > 0 \<longleftrightarrow> dec_val l > dec_val r"
  "compareDecimal l r \<le> 0 \<longleftrightarrow> dec_val l \<le> dec_val r"
  "compareDecimal l r \<ge> 0 \<longleftrightarrow> dec_val l \<ge> dec_val r"
  "compareDecimal l r = 0 \<longleftrightarrow> dec_val l = dec_val r"
  by (auto simp: compareDecimal_sign)

lemma reduceScale_val: "dec_val (reduceScale c s) = of_int c / 10 ^ s"
proof (induction c s rule: reduceScale.induct)
  case (2 c s)
  show ?case
  proof (cases "c mod 10 = 0")
    case True
    then have "c = 10 * (c div 10)" by presburger
    then have "(of_int c :: rat) = 10 * of_int (c div 10)"
      by (metis of_int_mult of_int_numeral)
    with 2 True show ?thesis by simp
  qed (simp add: dec_val_def)
qed (simp add: dec_val_def)

lemma reduceScale_canonical: "canonical_decimal (reduceScale c s)"
  by (induction c s rule: reduceScale.induct) (auto simp: canonical_decimal_def)

lemma multiplyDecimal_val: "dec_val (multiplyDecimal l r) = dec_val l * dec_val r"
  unfolding multiplyDecimal_def reduceScale_val by (simp add: dec_val_def power_add)

lemma multiplyDecimal_canonical: "canonical_decimal (multiplyDecimal l r)"
  by (simp add: multiplyDecimal_def reduceScale_canonical)

lemma dec_val_integer [simp]: "dec_val \<lparr>coefficient = c, scale = 0\<rparr> = of_int c"
  by (simp add: dec_val_def)

section \<open>Positive decimals\<close>

lemma dec_val_pos: "0 < dec_val d \<longleftrightarrow> 0 < coefficient d"
  by (simp add: dec_val_def zero_less_divide_iff)

lemma positiveDecimal_Inr:
  assumes "positiveDecimal v p = Inr s"
  obtains d where "parseDecimal v p = Inr d" "s = formatDecimal d" "0 < coefficient d"
    "parseDecimal s q = Inr d"
  using assms parse_format_parse by (auto simp: positiveDecimal_def not_le)

lemma formatDecimal_canonical_positive:
  assumes "0 < coefficient d" "canonical_decimal d"
  shows "CANONICAL_POSITIVE_DECIMAL_PATTERN (formatDecimal d)" "\<not> ZERO_DECIMAL_PATTERN (formatDecimal d)"
proof -
  have nz: "coefficient d \<noteq> 0" using assms(1) by simp
  then obtain a f where fmt: "formatDecimal d =
      sign_of (coefficient d) @ a @ (if f = [] then [] else CHR ''.'' # f)"
    and a: "integer_literal a" and digits: "list_all is_digit (a @ f)" and len: "length f = scale d"
    and val: "int (digits_val (a @ f)) = \<bar>coefficient d\<bar>"
    and lst: "f \<noteq> [] \<Longrightarrow> last f = digit_char (nat \<bar>coefficient d\<bar> mod 10)"
    by (rule formatDecimal_shape) blast
  have f: "list_all is_digit f" using digits by simp
  have sgn: "sign_of (coefficient d) = []" using assms(1) by (simp add: sign_of_def)
  note parts = decimal_literal_parts(3,4) [OF a f]
  have last0: "f \<noteq> [] \<Longrightarrow> last f \<noteq> CHR ''0''"
  proof
    assume "f \<noteq> []" "last f = CHR ''0''"
    then have "digit_val (digit_char (nat \<bar>coefficient d\<bar> mod 10)) = 0" using lst by simp
    then have "nat \<bar>coefficient d\<bar> mod 10 = 0" by simp
    then have "int (nat \<bar>coefficient d\<bar>) mod int 10 = 0" by (metis of_nat_0 zmod_int)
    then have "coefficient d mod 10 = 0" using assms(1) by simp
    with assms(2) len \<open>f \<noteq> []\<close> show False by (simp add: canonical_decimal_def)
  qed
  show "CANONICAL_POSITIVE_DECIMAL_PATTERN (formatDecimal d)"
    unfolding fmt sgn using parts a f last0
    by (simp add: CANONICAL_POSITIVE_DECIMAL_PATTERN_def fraction_suffix_def)
  show "\<not> ZERO_DECIMAL_PATTERN (formatDecimal d)"
  proof
    assume "ZERO_DECIMAL_PATTERN (formatDecimal d)"
    then have a0: "a = ''0''" and f0: "f = [] \<or> list_all (\<lambda>c. c = CHR ''0'') f"
      using parts unfolding ZERO_DECIMAL_PATTERN_def fmt sgn append_Nil by (simp_all split: if_splits)
    have "f = []" using f0 last0 last_in_set unfolding list_all_iff by blast
    with a0 val nz show False by simp
  qed
qed

lemma positiveDecimal_canonical:
  assumes "positiveDecimal v p = Inr s"
  shows "CANONICAL_POSITIVE_DECIMAL_PATTERN s" "\<not> ZERO_DECIMAL_PATTERN s"
  using assms formatDecimal_canonical_positive parseDecimal_canonical
  by (auto elim!: positiveDecimal_Inr)

end
