(* ===== verification/Actions.thy ===== *)
theory Actions
  imports Decimal
begin

text \<open>
  Trading intents, the exchange actions they become, and the builders that make one from the
  other: \<^verbatim>\<open>packages/hyperliquid/src/actions/types.ts\<close>, \<^verbatim>\<open>constants.ts\<close> and
  \<^verbatim>\<open>builders.ts\<close>. A union of string literals is a datatype whose last constructor
  stands for every other string, so that the run-time checks of the source stay visible.
\<close>

section \<open>Intents\<close>

datatype order_side = Buy | Sell | OtherSide string
datatype time_in_force = Alo | Gtc | Ioc | OtherTif string
datatype margin_mode = Cross | Isolated | OtherMode string
datatype tpsl_kind = TakeProfit | StopLoss | OtherKind string

record MarketOrderIntent =
  mo_assetId :: js_number
  mo_side :: order_side
  mo_size :: string
  mo_aggressiveLimitPrice :: string
  mo_cloid :: string

record LimitOrderIntent =
  lo_assetId :: js_number
  lo_side :: order_side
  lo_size :: string
  lo_limitPrice :: string
  lo_timeInForce :: time_in_force
  lo_reduceOnly :: bool
  lo_cloid :: string

record ReduceOnlyCloseIntent =
  rc_assetId :: js_number
  rc_side :: order_side
  rc_size :: string
  rc_aggressiveLimitPrice :: string
  rc_cloid :: string

record PositionTpslIntent =
  pt_assetId :: js_number
  pt_side :: order_side
  pt_size :: string
  pt_triggerPrice :: string
  pt_aggressiveLimitPrice :: string
  pt_triggerKind :: tpsl_kind
  pt_existingOid :: "js_number option"
  pt_cloid :: string

text \<open>A target of another kind keeps its kind and the text of its \<^verbatim>\<open>cloid\<close> member.\<close>

datatype cancel_target = ByOid js_number | ByCloid string | OtherTarget string string

fun target_kind :: "cancel_target \<Rightarrow> string" where
  "target_kind (ByOid _) = ''oid''"
| "target_kind (ByCloid _) = ''cloid''"
| "target_kind (OtherTarget k _) = k"

record CancelIntent =
  ca_assetId :: js_number
  ca_target :: cancel_target

record UpdateLeverageIntent =
  ul_assetId :: js_number
  ul_marginMode :: margin_mode
  ul_leverage :: js_number

datatype trading_intent =
    MarketOrder MarketOrderIntent
  | LimitOrder LimitOrderIntent
  | ReduceOnlyClose ReduceOnlyCloseIntent
  | PositionTpsl PositionTpslIntent
  | Cancel CancelIntent
  | BulkCancel "CancelIntent list"
  | UpdateLeverage UpdateLeverageIntent
  | OtherIntent string

section \<open>Exchange actions\<close>

datatype order_type_wire =
    LimitT time_in_force
  | TriggerT bool string string \<comment> \<open>isMarket, triggerPx, tpsl\<close>

record OrderWire =
  w_a :: int
  w_b :: bool
  w_p :: string
  w_s :: string
  w_r :: bool
  w_t :: order_type_wire
  w_c :: string

datatype exchange_action =
    OrderAction "OrderWire list" string \<comment> \<open>orders, grouping\<close>
  | ModifyOrderAction int OrderWire
  | CancelByOidAction "(int \<times> int) list"
  | CancelByCloidAction "(int \<times> string) list"
  | UpdateLeverageAction int bool int

section \<open>Builders\<close>

definition CLOID_PATTERN :: "string \<Rightarrow> bool" where
  "CLOID_PATTERN = prefixed ''0x'' is_hex 32"

definition MAX_BULK_CANCELS :: nat where
  "MAX_BULK_CANCELS = 100"

definition validateAssetId :: "js_number \<Rightarrow> string \<Rightarrow> int result" where
  "validateAssetId assetId path =
     (case assetId of
        IntN i \<Rightarrow> (if \<not> isSafeInteger assetId \<or> i < 0
                  then invalid path ''expected a non-negative safe integer'' else Inr i)
      | _ \<Rightarrow> invalid path ''expected a non-negative safe integer'')"

definition validatePositiveDecimal :: "string \<Rightarrow> string \<Rightarrow> string result" where
  "validatePositiveDecimal value path =
     (if \<not> CANONICAL_POSITIVE_DECIMAL_PATTERN value \<or> ZERO_DECIMAL_PATTERN value
      then invalid path ''expected a positive canonical decimal string''
      else Inr value)"

definition parseCloid :: "string \<Rightarrow> string \<Rightarrow> string result" where
  "parseCloid value path =
     (if \<not> CLOID_PATTERN value
      then invalid path ''expected a 128-bit 0x-prefixed client order ID''
      else Inr (toLowerCase value))"

definition orderWire ::
    "js_number \<Rightarrow> order_side \<Rightarrow> string \<Rightarrow> string \<Rightarrow> bool \<Rightarrow> time_in_force \<Rightarrow> string \<Rightarrow> OrderWire result"
  where
  "orderWire assetId side price sz reduceOnly tif cloid =
     (if side \<noteq> Buy \<and> side \<noteq> Sell then invalid ''side'' ''expected buy or sell''
      else if tif \<noteq> Alo \<and> tif \<noteq> Gtc \<and> tif \<noteq> Ioc
      then invalid ''timeInForce'' ''expected Alo, Gtc, or Ioc''
      else
        bindE (validateAssetId assetId ''assetId'') (\<lambda>a.
        bindE (validatePositiveDecimal price ''price'') (\<lambda>p.
        bindE (validatePositiveDecimal sz ''size'') (\<lambda>s.
        bindE (parseCloid cloid ''cloid'') (\<lambda>c.
        Inr \<lparr>w_a = a, w_b = (side = Buy), w_p = p, w_s = s, w_r = reduceOnly,
             w_t = LimitT tif, w_c = c\<rparr>)))))"

definition positionTpslOrderWire :: "PositionTpslIntent \<Rightarrow> OrderWire result" where
  "positionTpslOrderWire intent =
     (if pt_side intent \<noteq> Buy \<and> pt_side intent \<noteq> Sell
      then invalid ''side'' ''expected buy or sell''
      else if pt_triggerKind intent \<noteq> TakeProfit \<and> pt_triggerKind intent \<noteq> StopLoss
      then invalid ''triggerKind'' ''expected take_profit or stop_loss''
      else
        bindE (validatePositiveDecimal (pt_size intent) ''size'') (\<lambda>_.
        bindE (validateAssetId (pt_assetId intent) ''assetId'') (\<lambda>a.
        bindE (validatePositiveDecimal (pt_aggressiveLimitPrice intent) ''aggressiveLimitPrice'') (\<lambda>p.
        bindE (validatePositiveDecimal (pt_triggerPrice intent) ''triggerPrice'') (\<lambda>tp.
        bindE (parseCloid (pt_cloid intent) ''cloid'') (\<lambda>c.
        Inr \<lparr>w_a = a, w_b = (pt_side intent = Buy), w_p = p, w_s = ''0'', w_r = True,
             w_t = TriggerT True tp (if pt_triggerKind intent = TakeProfit then ''tp'' else ''sl''),
             w_c = c\<rparr>))))))"

definition singleOrderAction :: "OrderWire \<Rightarrow> exchange_action" where
  "singleOrderAction order = OrderAction [order] ''na''"

definition buildMarketOrderAction :: "MarketOrderIntent \<Rightarrow> exchange_action result" where
  "buildMarketOrderAction i =
     bindE (orderWire (mo_assetId i) (mo_side i) (mo_aggressiveLimitPrice i) (mo_size i)
              False Ioc (mo_cloid i))
       (\<lambda>w. Inr (singleOrderAction w))"

definition buildLimitOrderAction :: "LimitOrderIntent \<Rightarrow> exchange_action result" where
  "buildLimitOrderAction i =
     bindE (orderWire (lo_assetId i) (lo_side i) (lo_limitPrice i) (lo_size i)
              (lo_reduceOnly i) (lo_timeInForce i) (lo_cloid i))
       (\<lambda>w. Inr (singleOrderAction w))"

definition buildReduceOnlyCloseAction :: "ReduceOnlyCloseIntent \<Rightarrow> exchange_action result" where
  "buildReduceOnlyCloseAction i =
     bindE (orderWire (rc_assetId i) (rc_side i) (rc_aggressiveLimitPrice i) (rc_size i)
              True Ioc (rc_cloid i))
       (\<lambda>w. Inr (singleOrderAction w))"

definition validateOid :: "js_number \<Rightarrow> string \<Rightarrow> int result" where
  "validateOid oid path =
     (case oid of
        IntN i \<Rightarrow> (if \<not> isSafeInteger oid \<or> i < 0
                  then invalid path ''expected a non-negative safe integer order ID'' else Inr i)
      | _ \<Rightarrow> invalid path ''expected a non-negative safe integer order ID'')"

definition buildPositionTpslAction :: "PositionTpslIntent \<Rightarrow> exchange_action result" where
  "buildPositionTpslAction i =
     bindE (positionTpslOrderWire i) (\<lambda>order.
       case pt_existingOid i of
         None \<Rightarrow> Inr (OrderAction [order] ''positionTpsl'')
       | Some existing \<Rightarrow>
           bindE (validateOid existing ''existingOid'') (\<lambda>oid. Inr (ModifyOrderAction oid order)))"

fun target_cloid_text :: "cancel_target \<Rightarrow> string" where
  "target_cloid_text (ByCloid c) = c"
| "target_cloid_text (OtherTarget _ c) = c"
| "target_cloid_text (ByOid _) = ''undefined''"

definition buildCancelAction :: "CancelIntent \<Rightarrow> exchange_action result" where
  "buildCancelAction i =
     bindE (validateAssetId (ca_assetId i) ''assetId'') (\<lambda>a.
       case ca_target i of
         ByOid oid \<Rightarrow>
           bindE (validateOid oid ''target.oid'') (\<lambda>n. Inr (CancelByOidAction [(a, n)]))
       | target \<Rightarrow>
           bindE (parseCloid (target_cloid_text target) ''cloid'')
             (\<lambda>c. Inr (CancelByCloidAction [(a, c)])))"

definition cancel_path :: "nat \<Rightarrow> string \<Rightarrow> string" where
  "cancel_path index member = ''cancels['' @ show_nat index @ '']'' @ member"

definition bulkOidCancel :: "nat \<Rightarrow> CancelIntent \<Rightarrow> (int \<times> int) result" where
  "bulkOidCancel index i =
     (case ca_target i of
        ByOid oid \<Rightarrow>
          bindE (validateAssetId (ca_assetId i) (cancel_path index ''.assetId'')) (\<lambda>a.
          bindE (validateOid oid (cancel_path index ''.target.oid'')) (\<lambda>n. Inr (a, n)))
      | _ \<Rightarrow> invalid (cancel_path index ''.target'') ''expected an order ID'')"

definition bulkCloidCancel :: "nat \<Rightarrow> CancelIntent \<Rightarrow> (int \<times> string) result" where
  "bulkCloidCancel index i =
     (case ca_target i of
        ByCloid cloid \<Rightarrow>
          bindE (validateAssetId (ca_assetId i) (cancel_path index ''.assetId'')) (\<lambda>a.
          bindE (parseCloid cloid (cancel_path index ''.target.cloid'')) (\<lambda>c. Inr (a, c)))
      | _ \<Rightarrow> invalid (cancel_path index ''.target'') ''expected a client order ID'')"

definition buildBulkCancelAction :: "CancelIntent list \<Rightarrow> exchange_action result" where
  "buildBulkCancelAction cancels =
     (if cancels = [] \<or> length cancels > MAX_BULK_CANCELS
      then invalid ''cancels'' ''expected between 1 and 100 cancellations''
      else
        let targetKind = target_kind (ca_target (hd cancels)) in
        if list_ex (\<lambda>i. target_kind (ca_target i) \<noteq> targetKind) cancels
        then invalid ''cancels'' ''cannot mix order IDs and client order IDs''
        else if targetKind = ''oid''
        then bindE (mapiE 0 bulkOidCancel cancels) (\<lambda>xs. Inr (CancelByOidAction xs))
        else bindE (mapiE 0 bulkCloidCancel cancels) (\<lambda>xs. Inr (CancelByCloidAction xs)))"

definition buildUpdateLeverageAction :: "UpdateLeverageIntent \<Rightarrow> exchange_action result" where
  "buildUpdateLeverageAction i =
     (if ul_marginMode i \<noteq> Cross \<and> ul_marginMode i \<noteq> Isolated
      then invalid ''marginMode'' ''expected cross or isolated''
      else
        case ul_leverage i of
          IntN n \<Rightarrow>
            (if \<not> isSafeInteger (ul_leverage i) \<or> n < 1 \<or> n > 100
             then invalid ''leverage'' ''expected an integer between 1 and 100''
             else bindE (validateAssetId (ul_assetId i) ''assetId'')
                    (\<lambda>a. Inr (UpdateLeverageAction a (ul_marginMode i = Cross) n)))
        | _ \<Rightarrow> invalid ''leverage'' ''expected an integer between 1 and 100'')"

fun buildExchangeAction :: "trading_intent \<Rightarrow> exchange_action result" where
  "buildExchangeAction (MarketOrder i) = buildMarketOrderAction i"
| "buildExchangeAction (LimitOrder i) = buildLimitOrderAction i"
| "buildExchangeAction (ReduceOnlyClose i) = buildReduceOnlyCloseAction i"
| "buildExchangeAction (PositionTpsl i) = buildPositionTpslAction i"
| "buildExchangeAction (Cancel i) = buildCancelAction i"
| "buildExchangeAction (BulkCancel cs) = buildBulkCancelAction cs"
| "buildExchangeAction (UpdateLeverage i) = buildUpdateLeverageAction i"
| "buildExchangeAction (OtherIntent _) = invalid ''type'' ''unsupported trading action intent''"

section \<open>When the checks pass\<close>

lemma validateAssetId_Inr [result_simps]:
  "validateAssetId n p = Inr a \<longleftrightarrow> n = IntN a \<and> safe_int a \<and> 0 \<le> a"
  by (cases n) (auto simp: validateAssetId_def)

lemma validateOid_Inr [result_simps]:
  "validateOid n p = Inr a \<longleftrightarrow> n = IntN a \<and> safe_int a \<and> 0 \<le> a"
  by (cases n) (auto simp: validateOid_def)

definition positive_decimal_text :: "string \<Rightarrow> bool" where
  "positive_decimal_text s \<longleftrightarrow> CANONICAL_POSITIVE_DECIMAL_PATTERN s \<and> \<not> ZERO_DECIMAL_PATTERN s"

lemma validatePositiveDecimal_Inr [result_simps]:
  "validatePositiveDecimal v p = Inr s \<longleftrightarrow> s = v \<and> positive_decimal_text v"
  by (auto simp: validatePositiveDecimal_def positive_decimal_text_def)

lemma parseCloid_Inr [result_simps]:
  "parseCloid v p = Inr c \<longleftrightarrow> CLOID_PATTERN v \<and> c = toLowerCase v"
  by (auto simp: parseCloid_def)

lemma CLOID_lower:
  "CLOID_PATTERN v \<Longrightarrow> CLOID_PATTERN (toLowerCase v)"
  unfolding CLOID_PATTERN_def
  by (rule prefixed_mono [OF prefixed_toLowerCase]) (auto simp: toLowerCase_def lower_char_def is_lower_hex_is_hex)

end
