(* ===== verification/Signing.thy ===== *)
theory Signing
  imports Prelude
begin

text \<open>
  The signing boundary: \<^verbatim>\<open>packages/hyperliquid/src/signing/boundary.ts\<close> and
  \<^verbatim>\<open>types.ts\<close>, \<^verbatim>\<open>network.ts\<close>. Which networks may sign and submit, when two
  signer bindings name the same signer, and what a signature must look like.
  \<open>getAddress\<close> (viem) is a parameter: \<open>None\<close> where it throws.
\<close>

section \<open>Networks and capabilities\<close>

datatype network = Mainnet | Testnet | OtherNetwork string

fun network_name :: "network \<Rightarrow> string" where
  "network_name Mainnet = ''mainnet''"
| "network_name Testnet = ''testnet''"
| "network_name (OtherNetwork s) = s"

record HyperliquidNetworkOrigins =
  http :: string
  exchange :: string
  websocket :: string

definition HYPERLIQUID_NETWORK_ORIGINS :: "network \<Rightarrow> HyperliquidNetworkOrigins option" where
  "HYPERLIQUID_NETWORK_ORIGINS n =
     (case n of
        Mainnet \<Rightarrow> Some \<lparr>http = ''https://api.hyperliquid.xyz/info'',
                         exchange = ''https://api.hyperliquid.xyz/exchange'',
                         websocket = ''wss://api.hyperliquid.xyz/ws''\<rparr>
      | Testnet \<Rightarrow> Some \<lparr>http = ''https://api.hyperliquid-testnet.xyz/info'',
                         exchange = ''https://api.hyperliquid-testnet.xyz/exchange'',
                         websocket = ''wss://api.hyperliquid-testnet.xyz/ws''\<rparr>
      | OtherNetwork _ \<Rightarrow> None)"

record ActionCapability =
  signerAccess :: bool
  exchangeTransport :: bool

datatype release_stage = Preactivation | Candidate

definition MAINNET_TRADING_RELEASE_STAGE :: release_stage where
  "MAINNET_TRADING_RELEASE_STAGE = Candidate"

text \<open>The capability table, keyed by the two known networks.\<close>

definition actionCapabilitiesForReleaseStage ::
    "release_stage \<Rightarrow> (network \<rightharpoonup> ActionCapability)" where
  "actionCapabilitiesForReleaseStage stage =
     (let mainnetEnabled = (stage = Candidate) in
      [Mainnet \<mapsto> \<lparr>signerAccess = mainnetEnabled, exchangeTransport = mainnetEnabled\<rparr>,
       Testnet \<mapsto> \<lparr>signerAccess = True, exchangeTransport = True\<rparr>])"

definition ACTION_CAPABILITIES :: "network \<rightharpoonup> ActionCapability" where
  "ACTION_CAPABILITIES = actionCapabilitiesForReleaseStage MAINNET_TRADING_RELEASE_STAGE"

text \<open>The functions below are stated over any capability table; the program's is
  \<open>ACTION_CAPABILITIES\<close>.\<close>

type_synonym capabilities = "network \<rightharpoonup> ActionCapability"

definition actionCapability :: "capabilities \<Rightarrow> network \<Rightarrow> ActionCapability result" where
  "actionCapability caps n =
     (if n \<noteq> Mainnet \<and> n \<noteq> Testnet then invalid ''network'' ''unknown network''
      else case caps n of
             Some c \<Rightarrow> Inr c
           | None \<Rightarrow> Inl (TypeErr ''undefined''))"

definition assertKnownActionNetwork :: "capabilities \<Rightarrow> network \<Rightarrow> unit result" where
  "assertKnownActionNetwork caps n = bindE (actionCapability caps n) (\<lambda>_. Inr ())"

definition hasSignerAccessCapability :: "capabilities \<Rightarrow> network \<Rightarrow> bool result" where
  "hasSignerAccessCapability caps n = bindE (actionCapability caps n) (\<lambda>c. Inr (signerAccess c))"

definition hasExchangeTransportCapability :: "capabilities \<Rightarrow> network \<Rightarrow> bool result" where
  "hasExchangeTransportCapability caps n =
     bindE (actionCapability caps n) (\<lambda>c. Inr (exchangeTransport c))"

definition hasTradingActionCapability :: "capabilities \<Rightarrow> network \<Rightarrow> bool result" where
  "hasTradingActionCapability caps n =
     bindE (actionCapability caps n) (\<lambda>c. Inr (signerAccess c \<and> exchangeTransport c))"

definition assertSignerAccessCapability :: "capabilities \<Rightarrow> network \<Rightarrow> unit result" where
  "assertSignerAccessCapability caps n =
     bindE (actionCapability caps n) (\<lambda>c.
       throw_if (\<not> signerAccess c)
         (HyperliquidValidationError ''network''
            (network_name n @ '' signer access is disabled by the local capability policy'')))"

definition assertExchangeTransportCapability :: "capabilities \<Rightarrow> network \<Rightarrow> unit result" where
  "assertExchangeTransportCapability caps n =
     bindE (actionCapability caps n) (\<lambda>c.
       throw_if (\<not> exchangeTransport c)
         (HyperliquidValidationError ''network''
            (network_name n @ '' exchange transport is disabled by the local capability policy'')))"

definition assertTradingActionCapability :: "capabilities \<Rightarrow> network \<Rightarrow> unit result" where
  "assertTradingActionCapability caps n =
     bindE (assertSignerAccessCapability caps n) (\<lambda>_. assertExchangeTransportCapability caps n)"

section \<open>Signer bindings\<close>

type_synonym address_parser = "string \<Rightarrow> string option"

record SignerBinding =
  sb_network :: network
  sb_masterAccount :: string
  sb_targetAccount :: string
  sb_agentAddress :: string
  sb_generation :: js_number

definition normalizeSignerBinding :: "address_parser \<Rightarrow> SignerBinding \<Rightarrow> SignerBinding result" where
  "normalizeSignerBinding getAddress b =
     (if \<not> isSafeInteger (sb_generation b) \<or> js_less (sb_generation b) (IntN 1)
      then invalid ''signer.generation'' ''expected a positive safe integer''
      else
        case (getAddress (sb_masterAccount b), getAddress (sb_targetAccount b),
              getAddress (sb_agentAddress b)) of
          (Some m, Some t, Some a) \<Rightarrow>
            Inr (b\<lparr>sb_masterAccount := toLowerCase m, sb_targetAccount := toLowerCase t,
                   sb_agentAddress := toLowerCase a\<rparr>)
        | _ \<Rightarrow> invalid ''signer.binding'' ''expected valid master, target, and agent addresses'')"

definition assertSignerBinding ::
    "address_parser \<Rightarrow> SignerBinding \<Rightarrow> SignerBinding \<Rightarrow> unit result" where
  "assertSignerBinding getAddress expected actual =
     bindE (normalizeSignerBinding getAddress expected) (\<lambda>left.
     bindE (normalizeSignerBinding getAddress actual) (\<lambda>right.
       throw_if
         (sb_network left \<noteq> sb_network right \<or>
          sb_masterAccount left \<noteq> sb_masterAccount right \<or>
          sb_targetAccount left \<noteq> sb_targetAccount right \<or>
          sb_agentAddress left \<noteq> sb_agentAddress right \<or>
          \<not> js_eq (sb_generation left) (sb_generation right))
         (HyperliquidValidationError ''signer.binding''
            ''the unlocked signer is not bound to this exact action target'')))"

section \<open>Signatures\<close>

record Eip712Signature =
  sig_r :: string
  sig_s :: string
  sig_v :: js_number

definition SIGNATURE_COMPONENT :: "string \<Rightarrow> bool" where
  "SIGNATURE_COMPONENT = prefixed ''0x'' is_hex 64"

definition validateSignature :: "Eip712Signature \<Rightarrow> Eip712Signature result" where
  "validateSignature s =
     (if \<not> SIGNATURE_COMPONENT (sig_r s) \<or> \<not> SIGNATURE_COMPONENT (sig_s s) \<or>
         (\<not> js_eq (sig_v s) (IntN 27) \<and> \<not> js_eq (sig_v s) (IntN 28))
      then invalid ''signature'' ''the signer returned malformed signature components''
      else Inr \<lparr>sig_r = toLowerCase (sig_r s), sig_s = toLowerCase (sig_s s), sig_v = sig_v s\<rparr>)"

text \<open>
  The injected signer is its binding and a signing function that may reject; the two
  entry points differ only in what they sign.
\<close>

definition sign_network ::
    "string \<Rightarrow> capabilities \<Rightarrow> address_parser \<Rightarrow> SignerBinding \<Rightarrow> network \<Rightarrow> SignerBinding \<Rightarrow>
     Eip712Signature result \<Rightarrow> Eip712Signature result" where
  "sign_network mismatch caps getAddress expected payload_network signer_binding signed =
     bindE (assertSignerAccessCapability caps (sb_network expected)) (\<lambda>_.
     bindE (assertSignerAccessCapability caps payload_network) (\<lambda>_.
     bindE (throw_if (payload_network \<noteq> sb_network expected)
              (HyperliquidValidationError ''signer.network'' mismatch)) (\<lambda>_.
     bindE (assertSignerBinding getAddress expected signer_binding) (\<lambda>_.
     bindE signed validateSignature))))"

definition signNetworkTypedData ::
    "capabilities \<Rightarrow> address_parser \<Rightarrow> SignerBinding \<Rightarrow> network \<times> 'payload \<Rightarrow> SignerBinding \<Rightarrow>
     ('payload \<Rightarrow> Eip712Signature result) \<Rightarrow> Eip712Signature result" where
  "signNetworkTypedData caps getAddress expected payload signer_binding signTypedData =
     sign_network ''the signing payload network does not match the signer binding''
       caps getAddress expected (fst payload) signer_binding (signTypedData (snd payload))"

definition signNetworkBytes ::
    "capabilities \<Rightarrow> address_parser \<Rightarrow> SignerBinding \<Rightarrow> network \<Rightarrow> 'bytes \<Rightarrow> SignerBinding \<Rightarrow>
     ('bytes \<Rightarrow> Eip712Signature result) \<Rightarrow> Eip712Signature result" where
  "signNetworkBytes caps getAddress expected n bytes signer_binding signBytes =
     sign_network ''the signing bytes network does not match the signer binding''
       caps getAddress expected n signer_binding (signBytes bytes)"

section \<open>Lemmas\<close>

lemma actionCapability_program [simp]:
  "actionCapability ACTION_CAPABILITIES Mainnet =
     Inr \<lparr>signerAccess = True, exchangeTransport = True\<rparr>"
  "actionCapability ACTION_CAPABILITIES Testnet =
     Inr \<lparr>signerAccess = True, exchangeTransport = True\<rparr>"
  "actionCapability ACTION_CAPABILITIES (OtherNetwork s) = invalid ''network'' ''unknown network''"
  by (simp_all add: actionCapability_def ACTION_CAPABILITIES_def Let_def
      actionCapabilitiesForReleaseStage_def MAINNET_TRADING_RELEASE_STAGE_def)

lemma assertSignerAccess_Inr [result_simps]:
  "assertSignerAccessCapability caps n = Inr u \<longleftrightarrow>
     (n = Mainnet \<or> n = Testnet) \<and> (\<exists>c. caps n = Some c \<and> signerAccess c)"
  by (auto simp: assertSignerAccessCapability_def actionCapability_def split: option.splits)

lemma assertExchangeTransport_Inr [result_simps]:
  "assertExchangeTransportCapability caps n = Inr u \<longleftrightarrow>
     (n = Mainnet \<or> n = Testnet) \<and> (\<exists>c. caps n = Some c \<and> exchangeTransport c)"
  by (auto simp: assertExchangeTransportCapability_def actionCapability_def split: option.splits)

lemma assertTradingActionCapability_Inr [result_simps]:
  "assertTradingActionCapability caps n = Inr u \<longleftrightarrow>
     (n = Mainnet \<or> n = Testnet) \<and> (\<exists>c. caps n = Some c \<and> signerAccess c \<and> exchangeTransport c)"
  by (auto simp: assertTradingActionCapability_def result_simps)

lemma assertTradingActionCapability_program [simp]:
  "assertTradingActionCapability ACTION_CAPABILITIES n = Inr u \<longleftrightarrow> n = Mainnet \<or> n = Testnet"
  by (auto simp: assertTradingActionCapability_Inr ACTION_CAPABILITIES_def Let_def
      actionCapabilitiesForReleaseStage_def MAINNET_TRADING_RELEASE_STAGE_def)

lemma normalizeSignerBinding_Inr:
  assumes "normalizeSignerBinding ga b = Inr n"
  obtains g m t a where "sb_generation b = IntN g" "safe_int g" "1 \<le> g"
    "ga (sb_masterAccount b) = Some m" "ga (sb_targetAccount b) = Some t"
    "ga (sb_agentAddress b) = Some a"
    "n = b\<lparr>sb_masterAccount := toLowerCase m, sb_targetAccount := toLowerCase t,
           sb_agentAddress := toLowerCase a\<rparr>"
  using assms
  by (auto simp: normalizeSignerBinding_def isSafeInteger_iff not_less split: if_splits option.splits)

lemma normalizeSignerBinding_network:
  "normalizeSignerBinding ga b = Inr n \<Longrightarrow> sb_network n = sb_network b \<and> sb_generation n = sb_generation b"
  by (auto elim!: normalizeSignerBinding_Inr)

text \<open>Two bindings are accepted as the same signer exactly when they normalise alike.\<close>

lemma assertSignerBinding_Inr:
  "assertSignerBinding ga l r = Inr u \<longleftrightarrow>
     (\<exists>n. normalizeSignerBinding ga l = Inr n \<and> normalizeSignerBinding ga r = Inr n)"
proof
  assume "assertSignerBinding ga l r = Inr u"
  then obtain x y where x: "normalizeSignerBinding ga l = Inr x"
    and y: "normalizeSignerBinding ga r = Inr y"
    and eq: "sb_network x = sb_network y" "sb_masterAccount x = sb_masterAccount y"
      "sb_targetAccount x = sb_targetAccount y" "sb_agentAddress x = sb_agentAddress y"
      "js_eq (sb_generation x) (sb_generation y)"
    by (auto simp: assertSignerBinding_def)
  from eq have "x = y" by (cases x, cases y) (simp add: js_eqD)
  with x y show "\<exists>n. normalizeSignerBinding ga l = Inr n \<and> normalizeSignerBinding ga r = Inr n"
    by blast
next
  assume "\<exists>n. normalizeSignerBinding ga l = Inr n \<and> normalizeSignerBinding ga r = Inr n"
  then obtain n where n: "normalizeSignerBinding ga l = Inr n" "normalizeSignerBinding ga r = Inr n"
    by blast
  moreover obtain g where "sb_generation n = IntN g"
    using n(1) by (auto elim!: normalizeSignerBinding_Inr)
  ultimately show "assertSignerBinding ga l r = Inr u"
    by (simp add: assertSignerBinding_def)
qed

lemma validateSignature_Inr:
  assumes "validateSignature s = Inr t"
  shows "prefixed ''0x'' is_lower_hex 64 (sig_r t)" "prefixed ''0x'' is_lower_hex 64 (sig_s t)"
    "sig_v t = IntN 27 \<or> sig_v t = IntN 28"
proof -
  from assms have s: "SIGNATURE_COMPONENT (sig_r s)" "SIGNATURE_COMPONENT (sig_s s)"
      "js_eq (sig_v s) (IntN 27) \<or> js_eq (sig_v s) (IntN 28)"
    and t: "t = \<lparr>sig_r = toLowerCase (sig_r s), sig_s = toLowerCase (sig_s s), sig_v = sig_v s\<rparr>"
    by (auto simp: validateSignature_def split: if_splits)
  have "toLowerCase ''0x'' = ''0x''" by (simp add: toLowerCase_def lower_char_def)
  with s t show "prefixed ''0x'' is_lower_hex 64 (sig_r t)" "prefixed ''0x'' is_lower_hex 64 (sig_s t)"
    by (simp_all add: SIGNATURE_COMPONENT_def prefixed_toLowerCase)
  from s(3) t show "sig_v t = IntN 27 \<or> sig_v t = IntN 28" by (auto dest: js_eqD)
qed

end
