(* ===== verification/Validation.thy ===== *)
theory Validation
  imports Actions Signing
begin

text \<open>
  The trading-action validator: \<^verbatim>\<open>packages/hyperliquid/src/actions/validation.ts\<close> from
  \<open>safeInteger\<close> on (its arithmetic is in theory \<open>Decimal\<close>). The order of the checks is the
  source's, so the error a bad input gets is the one the source throws. \<open>Object.keys\<close> of the
  intent and of a cancel target come with the input, for the exact-fields checks; a member of a
  string, boolean or decimal-string type has that type here, so its \<^verbatim>\<open>typeof\<close> check holds.
\<close>

section \<open>Inputs\<close>

record ActionValidationContext =
  c_network :: network
  c_masterAccount :: string
  c_targetAccount :: string
  c_capturedContextEpoch :: js_number
  c_currentContextEpoch :: js_number
  c_currentNetwork :: network
  c_currentMasterAccount :: string
  c_currentTargetAccount :: string
  c_reviewedAtMs :: js_number
  c_reviewExpiresAtMs :: js_number
  c_nowMs :: js_number

datatype lifecycle = Active | Delisted | OtherLifecycle string
datatype availability = Enabled | BrowseOnly | OtherAvailability string

record ActionMarketRules =
  m_canonicalId :: string
  m_metadataFingerprint :: string
  m_orderAssetId :: js_number
  m_family :: market_family
  m_lifecycle :: lifecycle
  m_orderAvailability :: availability
  m_sizeDecimals :: "js_number option"
  m_pricePrecision :: "PricePrecisionInputs option"
  m_maxLeverage :: "js_number option"
  m_onlyIsolated :: "bool option"
  m_referencePrice :: "string option"
  m_minimumNotional :: "string option"

record CurrentOpenOrderIdentity =
  oo_assetId :: js_number
  oo_oid :: "js_number option"
  oo_cloid :: "string option"

record ActionAccountRules =
  a_availableMargin :: string
  a_leverage :: "js_number option"
  a_marginMode :: "margin_mode option"
  a_positionSize :: "string option"
  a_openOrders :: "CurrentOpenOrderIdentity list option"
  a_version :: js_number

datatype trigger_direction = Above | Below | OtherDirection string

record TriggerControl =
  tr_price :: string
  tr_direction :: trigger_direction

record ActionControls =
  k_slippageBps :: "js_number option"
  k_trigger :: "TriggerControl option"

record TradingActionValidationInput =
  i_context :: ActionValidationContext
  i_market :: ActionMarketRules
  i_account :: ActionAccountRules
  i_controls :: ActionControls
  i_intent :: trading_intent
  i_intentKeys :: "string list"
  i_targetKeys :: "string list"

record ValidatedTradingAction =
  v_intent :: trading_intent
  v_notional :: "string option"
  v_accountStateVersion :: int
  v_marketCanonicalId :: string

definition MAX_SLIPPAGE_BPS :: int where
  "MAX_SLIPPAGE_BPS = 500"

section \<open>Shared checks\<close>

definition assertExactFields :: "string list \<Rightarrow> string list \<Rightarrow> string \<Rightarrow> unit result" where
  "assertExactFields keys expected path =
     throw_if (length keys \<noteq> length expected \<or> \<not> list_all (\<lambda>k. k \<in> set keys) expected)
       (HyperliquidValidationError path ''unexpected or missing fields'')"

definition normalizeAddress :: "address_parser \<Rightarrow> string \<Rightarrow> string \<Rightarrow> string result" where
  "normalizeAddress getAddress value path =
     (case getAddress value of
        Some a \<Rightarrow> Inr (toLowerCase a)
      | None \<Rightarrow> invalid path ''expected a 20-byte Ethereum address'')"

definition safeInteger :: "js_number \<Rightarrow> string \<Rightarrow> int \<Rightarrow> int result" where
  "safeInteger value path minimum =
     (case value of
        IntN i \<Rightarrow> (if \<not> isSafeInteger value \<or> i < minimum
                  then invalid path (''expected a safe integer of at least '' @ show_int minimum)
                  else Inr i)
      | _ \<Rightarrow> invalid path (''expected a safe integer of at least '' @ show_int minimum))"

definition assertCurrentContext ::
    "capabilities \<Rightarrow> address_parser \<Rightarrow> ActionValidationContext \<Rightarrow> unit result" where
  "assertCurrentContext caps getAddress ctx =
     bindE (assertTradingActionCapability caps (c_network ctx)) (\<lambda>_.
     bindE (safeInteger (c_capturedContextEpoch ctx) ''context.capturedContextEpoch'' 0) (\<lambda>captured.
     bindE (safeInteger (c_currentContextEpoch ctx) ''context.currentContextEpoch'' 0) (\<lambda>current.
     bindE (safeInteger (c_reviewedAtMs ctx) ''context.reviewedAtMs'' 0) (\<lambda>reviewedAt.
     bindE (safeInteger (c_reviewExpiresAtMs ctx) ''context.reviewExpiresAtMs'' 0) (\<lambda>expiresAt.
     bindE (safeInteger (c_nowMs ctx) ''context.nowMs'' 0) (\<lambda>now.
     bindE (throw_if (c_currentNetwork ctx \<noteq> c_network ctx)
              (HyperliquidValidationError ''context.network''
                 ''the active network changed after review'')) (\<lambda>_.
     bindE (throw_if (captured \<noteq> current)
              (HyperliquidValidationError ''context.epoch''
                 ''the active trading context changed after review'')) (\<lambda>_.
     bindE (normalizeAddress getAddress (c_masterAccount ctx) ''context.masterAccount'') (\<lambda>master.
     bindE (normalizeAddress getAddress (c_targetAccount ctx) ''context.targetAccount'') (\<lambda>target.
     bindE (normalizeAddress getAddress (c_currentMasterAccount ctx)
              ''context.currentMasterAccount'') (\<lambda>currentMaster.
     bindE (throw_if (currentMaster \<noteq> master)
              (HyperliquidValidationError ''context.masterAccount''
                 ''the active master account changed after review'')) (\<lambda>_.
     bindE (normalizeAddress getAddress (c_currentTargetAccount ctx)
              ''context.currentTargetAccount'') (\<lambda>currentTarget.
     bindE (throw_if (currentTarget \<noteq> target)
              (HyperliquidValidationError ''context.targetAccount''
                 ''the active target account changed after review'')) (\<lambda>_.
     throw_if (expiresAt \<le> reviewedAt \<or> now \<ge> expiresAt)
       (HyperliquidValidationError ''context.review''
          ''the reviewed action expired and must be reviewed again'')))))))))))))))"

definition hasControlCharacter :: "string \<Rightarrow> bool" where
  "hasControlCharacter value = list_ex (\<lambda>c. code c < 32 \<or> code c = 127) value"

definition is_canonical_id_char :: "char \<Rightarrow> bool" where
  "is_canonical_id_char c \<longleftrightarrow> is_alnum c \<or> c \<in> set '':._/-''"

definition assertTradableMarket :: "ActionMarketRules \<Rightarrow> int \<Rightarrow> unit result" where
  "assertTradableMarket market assetId =
     bindE (throw_if
              (length (m_canonicalId market) < 1 \<or> length (m_canonicalId market) > 256 \<or>
               \<not> (m_canonicalId market \<noteq> [] \<and> list_all is_canonical_id_char (m_canonicalId market)))
              (HyperliquidValidationError ''market.canonicalId''
                 ''expected a bounded canonical market identity'')) (\<lambda>_.
     bindE (throw_if
              (length (m_metadataFingerprint market) < 1 \<or> length (m_metadataFingerprint market) > 2048 \<or>
               hasControlCharacter (m_metadataFingerprint market))
              (HyperliquidValidationError ''market.metadataFingerprint''
                 ''expected a bounded metadata fingerprint'')) (\<lambda>_.
     bindE (throw_if
              (m_family market \<noteq> Perp \<and> m_family market \<noteq> Spot \<and> m_family market \<noteq> Outcome)
              (HyperliquidValidationError ''market.family'' ''unknown market family'')) (\<lambda>_.
     bindE (throw_if
              (m_lifecycle market \<noteq> Active \<or> m_orderAvailability market \<noteq> Enabled)
              (HyperliquidValidationError ''market.tradability''
                 ''the current market is not available for trading'')) (\<lambda>_.
     bindE (throw_if (m_family market = Outcome)
              (HyperliquidValidationError ''market.family''
                 ''outcome trading is browse-only in this build'')) (\<lambda>_.
     bindE (safeInteger (m_orderAssetId market) ''market.orderAssetId'' 0) (\<lambda>orderAssetId.
     bindE (throw_if (orderAssetId \<noteq> assetId)
              (HyperliquidValidationError ''intent.assetId''
                 ''the action asset does not match the current market'')) (\<lambda>_.
     case (m_sizeDecimals market, m_pricePrecision market) of
       (Some sizeDecimals, Some precision) \<Rightarrow>
         bindE (safeInteger sizeDecimals ''market.sizeDecimals'' 0) (\<lambda>decimals.
           case pricePrecisionForSizeDecimals (m_family market) (IntN decimals) of
             None \<Rightarrow> invalid ''market.pricePrecision''
                       ''precision metadata does not match the current market family''
           | Some expected \<Rightarrow>
               throw_if
                 (\<not> js_eq (maxSignificantFigures precision) (maxSignificantFigures expected) \<or>
                  \<not> isSafeInteger (maxDecimalPlaces precision) \<or>
                  js_less (maxDecimalPlaces precision) (IntN 0) \<or>
                  js_less (maxDecimalPlaces expected) (maxDecimalPlaces precision))
                 (HyperliquidValidationError ''market.pricePrecision''
                    ''precision metadata does not match the current market family''))
     | _ \<Rightarrow> invalid ''market.precision'' ''current precision metadata is unavailable'')))))))"

definition normalizeSize :: "string \<Rightarrow> ActionMarketRules \<Rightarrow> string result" where
  "normalizeSize value market =
     bindE (positiveDecimal value ''intent.size'') (\<lambda>normalized.
     bindE (parseDecimal normalized ''intent.size'') (\<lambda>parsed.
     bindE (throw_if
              (case m_sizeDecimals market of
                 None \<Rightarrow> True
               | Some d \<Rightarrow> js_less d (IntN (int (scale parsed))))
              (HyperliquidValidationError ''intent.size''
                 ''size exceeds the current market precision'')) (\<lambda>_.
     Inr normalized)))"

definition significantDigits :: "ParsedDecimal \<Rightarrow> nat" where
  "significantDigits parsed =
     length (dropWhile (\<lambda>c. c = CHR ''0'')
       (show_nat (nat (if coefficient parsed < 0 then - coefficient parsed else coefficient parsed))))"

definition normalizePrice :: "string \<Rightarrow> ActionMarketRules \<Rightarrow> string result" where
  "normalizePrice value market =
     bindE (positiveDecimal value ''intent.price'') (\<lambda>normalized.
     bindE (parseDecimal normalized ''intent.price'') (\<lambda>parsed.
     case m_pricePrecision market of
       None \<Rightarrow> invalid ''intent.price'' ''price exceeds the current decimal-place limit''
     | Some precision \<Rightarrow>
         bindE (throw_if (js_less (maxDecimalPlaces precision) (IntN (int (scale parsed))))
                  (HyperliquidValidationError ''intent.price''
                     ''price exceeds the current decimal-place limit'')) (\<lambda>_.
         bindE (throw_if
                  (scale parsed > 0 \<and>
                   js_less (maxSignificantFigures precision) (IntN (int (significantDigits parsed))))
                  (HyperliquidValidationError ''intent.price''
                     ''price exceeds the current significant-figure limit'')) (\<lambda>_.
         Inr normalized))))"

text \<open>\<^verbatim>\<open>controls.slippageBps\<close> as a whole number of basis points within the limit.\<close>

definition checkedSlippageBps :: "js_number option \<Rightarrow> int result" where
  "checkedSlippageBps bps =
     (case bps of
        Some (IntN n) \<Rightarrow>
          (if \<not> safe_int n \<or> n < 0 \<or> n > MAX_SLIPPAGE_BPS
           then invalid ''controls.slippageBps'' ''expected whole basis points between 0 and 500''
           else Inr n)
      | _ \<Rightarrow> invalid ''controls.slippageBps'' ''expected whole basis points between 0 and 500'')"

definition assertSlippage ::
    "TradingActionValidationInput \<Rightarrow> order_side \<Rightarrow> string \<Rightarrow> unit result" where
  "assertSlippage input side aggressivePrice =
     bindE (checkedSlippageBps (k_slippageBps (i_controls input))) (\<lambda>bps.
     case m_referencePrice (i_market input) of
       None \<Rightarrow> invalid ''market.referencePrice'' ''a current reference price is required''
     | Some referencePrice \<Rightarrow>
         bindE (parseDecimal aggressivePrice ''intent.price'') (\<lambda>aggressive.
         bindE (positiveDecimal referencePrice ''market.referencePrice'') (\<lambda>positiveReference.
         bindE (parseDecimal positiveReference ''market.referencePrice'') (\<lambda>reference.
         let multiplier = \<lparr>coefficient = (if side = Buy then 10000 + bps else 10000 - bps), scale = 0\<rparr>;
             left = multiplyDecimal aggressive \<lparr>coefficient = 10000, scale = 0\<rparr>;
             right = multiplyDecimal reference multiplier
         in throw_if
              ((side = Buy \<and> compareDecimal left right > 0) \<or>
               (side = Sell \<and> compareDecimal left right < 0))
              (HyperliquidValidationError ''intent.price''
                 ''aggressive price exceeds the reviewed slippage bound'')))))"

definition positionSize :: "ActionAccountRules \<Rightarrow> ParsedDecimal result" where
  "positionSize account =
     parseDecimal (case a_positionSize account of Some s \<Rightarrow> s | None \<Rightarrow> ''0'') ''account.positionSize''"

definition assertReduceOnly ::
    "TradingActionValidationInput \<Rightarrow> order_side \<Rightarrow> string \<Rightarrow> bool \<Rightarrow> unit result" where
  "assertReduceOnly input side sz requireFullClose =
     bindE (throw_if (m_family (i_market input) \<noteq> Perp)
              (HyperliquidValidationError ''intent.reduceOnly''
                 ''reduce-only actions require a perpetual market'')) (\<lambda>_.
     bindE (positionSize (i_account input)) (\<lambda>position.
     bindE (throw_if (coefficient position = 0)
              (HyperliquidValidationError ''account.positionSize''
                 ''there is no position to reduce'')) (\<lambda>_.
     bindE (throw_if (side \<noteq> (if coefficient position > 0 then Sell else Buy))
              (HyperliquidValidationError ''intent.side''
                 ''reduce-only side would increase or reverse the position'')) (\<lambda>_.
     bindE (parseDecimal sz ''intent.size'') (\<lambda>requested.
     let absolutePosition =
           \<lparr>coefficient = (if coefficient position < 0 then - coefficient position
                            else coefficient position),
            scale = scale position\<rparr>;
         comparison = compareDecimal requested absolutePosition
     in throw_if (comparison > 0 \<or> (requireFullClose \<and> comparison \<noteq> 0))
          (HyperliquidValidationError ''intent.size''
             (if requireFullClose then ''a close must use the full position size''
              else ''reduce-only size exceeds the current position'')))))))"

definition assertMargin ::
    "TradingActionValidationInput \<Rightarrow> ParsedDecimal \<Rightarrow> bool \<Rightarrow> unit result" where
  "assertMargin input notional reduceOnly =
     (if reduceOnly then Inr () else
      bindE (case m_minimumNotional (i_market input) of
               None \<Rightarrow> Inr ()
             | Some minimum \<Rightarrow>
                 bindE (positiveDecimal minimum ''market.minimumNotional'') (\<lambda>positiveMinimum.
                 bindE (parseDecimal positiveMinimum ''market.minimumNotional'') (\<lambda>least.
                 throw_if (compareDecimal notional least < 0)
                   (HyperliquidValidationError ''intent.notional''
                      ''Order must have minimum value of $10.'')))) (\<lambda>_.
      let isSpot = (m_family (i_market input) = Spot) in
      case (if isSpot then Some (IntN 1) else a_leverage (i_account input)) of
        Some (IntN leverage) \<Rightarrow>
          bindE (throw_if (\<not> safe_int leverage \<or> leverage < 1)
                   (HyperliquidValidationError ''account.leverage''
                      ''current leverage is unavailable'')) (\<lambda>_.
          case (if isSpot then Some (IntN 1) else m_maxLeverage (i_market input)) of
            Some (IntN maxLeverage) \<Rightarrow>
              bindE (throw_if (\<not> safe_int maxLeverage \<or> leverage > maxLeverage)
                       (HyperliquidValidationError ''account.leverage''
                          ''leverage exceeds the current market maximum'')) (\<lambda>_.
              bindE (throw_if
                       (m_onlyIsolated (i_market input) = Some True \<and>
                        a_marginMode (i_account input) \<noteq> Some Isolated)
                       (HyperliquidValidationError ''account.marginMode''
                          ''this market requires isolated margin'')) (\<lambda>_.
              bindE (normalizeDecimal (a_availableMargin (i_account input)) ''account.availableMargin'')
                (\<lambda>margin.
              bindE (parseDecimal margin ''account.availableMargin'') (\<lambda>available.
              throw_if
                (compareDecimal notional
                   (multiplyDecimal available \<lparr>coefficient = leverage, scale = 0\<rparr>) > 0)
                (HyperliquidValidationError ''account.availableMargin''
                   ''insufficient current margin for this action'')))))
          | _ \<Rightarrow> invalid ''account.leverage'' ''leverage exceeds the current market maximum'')
      | _ \<Rightarrow> invalid ''account.leverage'' ''current leverage is unavailable''))"

section \<open>Orders\<close>

text \<open>The union \<^verbatim>\<open>MarketOrderIntent | LimitOrderIntent | ReduceOnlyCloseIntent\<close>.\<close>

datatype order_intent =
    OMarket MarketOrderIntent
  | OLimit LimitOrderIntent
  | OClose ReduceOnlyCloseIntent

fun order_trading_intent :: "order_intent \<Rightarrow> trading_intent" where
  "order_trading_intent (OMarket i) = MarketOrder i"
| "order_trading_intent (OLimit i) = LimitOrder i"
| "order_trading_intent (OClose i) = ReduceOnlyClose i"

fun is_limit :: "order_intent \<Rightarrow> bool" where
  "is_limit (OLimit _) = True"
| "is_limit _ = False"

fun is_close :: "order_intent \<Rightarrow> bool" where
  "is_close (OClose _) = True"
| "is_close _ = False"

fun order_assetId :: "order_intent \<Rightarrow> js_number" where
  "order_assetId (OMarket i) = mo_assetId i"
| "order_assetId (OLimit i) = lo_assetId i"
| "order_assetId (OClose i) = rc_assetId i"

fun order_side_of :: "order_intent \<Rightarrow> order_side" where
  "order_side_of (OMarket i) = mo_side i"
| "order_side_of (OLimit i) = lo_side i"
| "order_side_of (OClose i) = rc_side i"

fun order_size :: "order_intent \<Rightarrow> string" where
  "order_size (OMarket i) = mo_size i"
| "order_size (OLimit i) = lo_size i"
| "order_size (OClose i) = rc_size i"

fun order_rawPrice :: "order_intent \<Rightarrow> string" where
  "order_rawPrice (OMarket i) = mo_aggressiveLimitPrice i"
| "order_rawPrice (OLimit i) = lo_limitPrice i"
| "order_rawPrice (OClose i) = rc_aggressiveLimitPrice i"

fun order_cloid :: "order_intent \<Rightarrow> string" where
  "order_cloid (OMarket i) = mo_cloid i"
| "order_cloid (OLimit i) = lo_cloid i"
| "order_cloid (OClose i) = rc_cloid i"

fun limit_tif_ok :: "order_intent \<Rightarrow> bool" where
  "limit_tif_ok (OLimit i) = (lo_timeInForce i = Alo \<or> lo_timeInForce i = Gtc \<or> lo_timeInForce i = Ioc)"
| "limit_tif_ok _ = True"

fun limit_reduceOnly :: "order_intent \<Rightarrow> bool" where
  "limit_reduceOnly (OLimit i) = lo_reduceOnly i"
| "limit_reduceOnly _ = False"

text \<open>\<^verbatim>\<open>{ ...intent, size, limitPrice | aggressiveLimitPrice: price, cloid }\<close>\<close>

fun order_with :: "order_intent \<Rightarrow> string \<Rightarrow> string \<Rightarrow> string \<Rightarrow> order_intent" where
  "order_with (OMarket i) sz price cloid =
     OMarket (i\<lparr>mo_size := sz, mo_aggressiveLimitPrice := price, mo_cloid := cloid\<rparr>)"
| "order_with (OLimit i) sz price cloid =
     OLimit (i\<lparr>lo_size := sz, lo_limitPrice := price, lo_cloid := cloid\<rparr>)"
| "order_with (OClose i) sz price cloid =
     OClose (i\<lparr>rc_size := sz, rc_aggressiveLimitPrice := price, rc_cloid := cloid\<rparr>)"

definition limit_fields :: "string list" where
  "limit_fields = [''type'', ''assetId'', ''side'', ''size'', ''limitPrice'', ''timeInForce'',
                   ''reduceOnly'', ''cloid'']"

definition aggressive_fields :: "string list" where
  "aggressive_fields = [''type'', ''assetId'', ''side'', ''size'', ''aggressiveLimitPrice'', ''cloid'']"

definition assertNoTrigger :: "ActionControls \<Rightarrow> unit result" where
  "assertNoTrigger controls =
     (case k_trigger controls of
        None \<Rightarrow> Inr ()
      | Some trigger \<Rightarrow>
          bindE (positiveDecimal (tr_price trigger) ''controls.trigger.price'') (\<lambda>_.
          bindE (throw_if (tr_direction trigger \<noteq> Above \<and> tr_direction trigger \<noteq> Below)
                   (HyperliquidValidationError ''controls.trigger.direction''
                      ''expected above or below'')) (\<lambda>_.
          invalid ''controls.trigger'' ''trigger orders are not encoded by this action version'')))"

definition validateOrder ::
    "TradingActionValidationInput \<Rightarrow> order_intent \<Rightarrow> ValidatedTradingAction result" where
  "validateOrder input intent =
     bindE (assertExactFields (i_intentKeys input)
              (if is_limit intent then limit_fields else aggressive_fields) ''intent.fields'') (\<lambda>_.
     bindE (throw_if (order_side_of intent \<noteq> Buy \<and> order_side_of intent \<noteq> Sell)
              (HyperliquidValidationError ''intent.side'' ''expected buy or sell'')) (\<lambda>_.
     bindE (throw_if (\<not> limit_tif_ok intent)
              (HyperliquidValidationError ''intent.timeInForce'' ''expected Alo, Gtc, or Ioc'')) (\<lambda>_.
     bindE (safeInteger (order_assetId intent) ''intent.assetId'' 0) (\<lambda>assetId.
     bindE (assertTradableMarket (i_market input) assetId) (\<lambda>_.
     bindE (assertNoTrigger (i_controls input)) (\<lambda>_.
     bindE (normalizeSize (order_size intent) (i_market input)) (\<lambda>sz.
     bindE (normalizePrice (order_rawPrice intent) (i_market input)) (\<lambda>price.
     bindE (parseDecimal sz ''intent.size'') (\<lambda>parsedSize.
     bindE (parseDecimal price ''intent.price'') (\<lambda>parsedPrice.
     let notional = multiplyDecimal parsedSize parsedPrice in
     bindE (if \<not> is_limit intent then assertSlippage input (order_side_of intent) price
            else throw_if (k_slippageBps (i_controls input) \<noteq> None)
                   (HyperliquidValidationError ''controls.slippageBps''
                      ''slippage applies only to market execution'')) (\<lambda>_.
     bindE (if is_close intent then assertReduceOnly input (order_side_of intent) sz True
            else if limit_reduceOnly intent then assertReduceOnly input (order_side_of intent) sz False
            else Inr ()) (\<lambda>_.
     bindE (assertMargin input notional (is_close intent \<or> limit_reduceOnly intent)) (\<lambda>_.
     bindE (parseCloid (order_cloid intent) ''cloid'') (\<lambda>cloid.
     bindE (safeInteger (a_version (i_account input)) ''account.version'' 0) (\<lambda>version.
     Inr \<lparr>v_intent = order_trading_intent (order_with intent sz price cloid),
          v_notional = Some (formatDecimal notional),
          v_accountStateVersion = version,
          v_marketCanonicalId = m_canonicalId (i_market input)\<rparr>)))))))))))))))"

section \<open>Position take-profit and stop-loss\<close>

definition tpsl_fields :: "string list" where
  "tpsl_fields = [''type'', ''assetId'', ''side'', ''size'', ''triggerPrice'',
                  ''aggressiveLimitPrice'', ''triggerKind'', ''existingOid'', ''cloid'']"

definition expectedDirection :: "order_side \<Rightarrow> tpsl_kind \<Rightarrow> trigger_direction" where
  "expectedDirection side kind =
     (if side = Sell then (if kind = TakeProfit then Above else Below)
      else (if kind = TakeProfit then Below else Above))"

definition assertTriggerMatches ::
    "TradingActionValidationInput \<Rightarrow> string \<Rightarrow> trigger_direction \<Rightarrow> unit result" where
  "assertTriggerMatches input triggerPrice direction =
     (case k_trigger (i_controls input) of
        None \<Rightarrow> invalid ''controls.trigger''
                  ''the trigger price and direction must match the protective order''
      | Some trigger \<Rightarrow>
          bindE (normalizePrice (tr_price trigger) (i_market input)) (\<lambda>price.
            throw_if (price \<noteq> triggerPrice \<or> tr_direction trigger \<noteq> direction)
              (HyperliquidValidationError ''controls.trigger''
                 ''the trigger price and direction must match the protective order'')))"

definition assertTpslSlippage ::
    "TradingActionValidationInput \<Rightarrow> order_side \<Rightarrow> string \<Rightarrow> ParsedDecimal \<Rightarrow> unit result" where
  "assertTpslSlippage input side aggressiveLimitPrice trigger =
     bindE (checkedSlippageBps (k_slippageBps (i_controls input))) (\<lambda>bps.
     bindE (parseDecimal aggressiveLimitPrice ''intent.aggressiveLimitPrice'') (\<lambda>aggressive.
     let multiplier = \<lparr>coefficient = (if side = Buy then 10000 + bps else 10000 - bps), scale = 0\<rparr>;
         left = multiplyDecimal aggressive \<lparr>coefficient = 10000, scale = 0\<rparr>;
         right = multiplyDecimal trigger multiplier
     in throw_if
          ((side = Buy \<and> compareDecimal left right > 0) \<or>
           (side = Sell \<and> compareDecimal left right < 0))
          (HyperliquidValidationError ''intent.aggressiveLimitPrice''
             ''execution price exceeds the protective-order slippage bound'')))"

definition assertExistingOrder ::
    "TradingActionValidationInput \<Rightarrow> PositionTpslIntent \<Rightarrow> unit result" where
  "assertExistingOrder input intent =
     (case pt_existingOid intent of
        None \<Rightarrow> Inr ()
      | Some oid \<Rightarrow>
          bindE (safeInteger oid ''intent.existingOid'' 1) (\<lambda>existingOid.
            throw_if
              (case a_openOrders (i_account input) of
                 None \<Rightarrow> True
               | Some orders \<Rightarrow>
                   \<not> list_ex (\<lambda>order. js_eq (oo_assetId order) (pt_assetId intent) \<and>
                                     js_eq_opt (oo_oid order) (Some (IntN existingOid))) orders)
              (HyperliquidValidationError ''intent.existingOid''
                 ''the protective order is no longer open'')))"

fun direction_name :: "trigger_direction \<Rightarrow> string" where
  "direction_name Above = ''above''"
| "direction_name Below = ''below''"
| "direction_name (OtherDirection s) = s"

definition validatePositionTpsl ::
    "TradingActionValidationInput \<Rightarrow> PositionTpslIntent \<Rightarrow> ValidatedTradingAction result" where
  "validatePositionTpsl input intent =
     bindE (assertExactFields (i_intentKeys input) tpsl_fields ''intent.fields'') (\<lambda>_.
     bindE (throw_if (pt_side intent \<noteq> Buy \<and> pt_side intent \<noteq> Sell)
              (HyperliquidValidationError ''intent.side'' ''expected buy or sell'')) (\<lambda>_.
     bindE (throw_if (pt_triggerKind intent \<noteq> TakeProfit \<and> pt_triggerKind intent \<noteq> StopLoss)
              (HyperliquidValidationError ''intent.triggerKind''
                 ''expected take_profit or stop_loss'')) (\<lambda>_.
     bindE (safeInteger (pt_assetId intent) ''intent.assetId'' 0) (\<lambda>assetId.
     bindE (assertTradableMarket (i_market input) assetId) (\<lambda>_.
     bindE (throw_if (m_family (i_market input) \<noteq> Perp)
              (HyperliquidValidationError ''intent.type''
                 ''position TP/SL requires a perpetual market'')) (\<lambda>_.
     bindE (normalizeSize (pt_size intent) (i_market input)) (\<lambda>sz.
     bindE (normalizePrice (pt_triggerPrice intent) (i_market input)) (\<lambda>triggerPrice.
     bindE (normalizePrice (pt_aggressiveLimitPrice intent) (i_market input)) (\<lambda>aggressiveLimitPrice.
     bindE (assertReduceOnly input (pt_side intent) sz True) (\<lambda>_.
     let direction = expectedDirection (pt_side intent) (pt_triggerKind intent) in
     bindE (assertTriggerMatches input triggerPrice direction) (\<lambda>_.
     case m_referencePrice (i_market input) of
       None \<Rightarrow> invalid ''market.referencePrice'' ''a current reference price is required''
     | Some referencePrice \<Rightarrow>
         bindE (positiveDecimal referencePrice ''market.referencePrice'') (\<lambda>positiveReference.
         bindE (parseDecimal positiveReference ''market.referencePrice'') (\<lambda>reference.
         bindE (parseDecimal triggerPrice ''intent.triggerPrice'') (\<lambda>trigger.
         bindE (throw_if
                  ((direction = Above \<and> compareDecimal trigger reference \<le> 0) \<or>
                   (direction = Below \<and> compareDecimal trigger reference \<ge> 0))
                  (HyperliquidValidationError ''intent.triggerPrice''
                     (''trigger price must be '' @ direction_name direction @
                      '' the current reference price''))) (\<lambda>_.
         bindE (assertTpslSlippage input (pt_side intent) aggressiveLimitPrice trigger) (\<lambda>_.
         bindE (assertExistingOrder input intent) (\<lambda>_.
         bindE (parseCloid (pt_cloid intent) ''cloid'') (\<lambda>cloid.
         bindE (parseDecimal sz ''intent.size'') (\<lambda>parsedSize.
         bindE (safeInteger (a_version (i_account input)) ''account.version'' 0) (\<lambda>version.
         Inr \<lparr>v_intent = PositionTpsl (intent\<lparr>pt_size := sz, pt_triggerPrice := triggerPrice,
                           pt_aggressiveLimitPrice := aggressiveLimitPrice, pt_cloid := cloid\<rparr>),
              v_notional = Some (formatDecimal (multiplyDecimal parsedSize trigger)),
              v_accountStateVersion = version,
              v_marketCanonicalId = m_canonicalId (i_market input)\<rparr>))))))))))))))))))))"

section \<open>Cancels and leverage updates\<close>

text \<open>
  The search among the open orders stops at the first match; until then each order on the
  asset has its own client order ID parsed, which may throw.
\<close>

fun cancelMatches ::
    "CurrentOpenOrderIdentity list \<Rightarrow> js_number \<Rightarrow> cancel_target \<Rightarrow> string option \<Rightarrow> bool result" where
  "cancelMatches [] assetId target targetCloid = Inr False"
| "cancelMatches (order # orders) assetId target targetCloid =
     (if \<not> js_eq (oo_assetId order) assetId then cancelMatches orders assetId target targetCloid
      else case target of
        ByOid oid \<Rightarrow>
          (if js_eq_opt (oo_oid order) (Some oid) then Inr True
           else cancelMatches orders assetId target targetCloid)
      | _ \<Rightarrow>
          (case oo_cloid order of
             None \<Rightarrow> cancelMatches orders assetId target targetCloid
           | Some c \<Rightarrow>
               bindE (parseCloid c ''account.openOrders.cloid'') (\<lambda>parsed.
                 if Some parsed = targetCloid then Inr True
                 else cancelMatches orders assetId target targetCloid)))"

definition validateCancel ::
    "TradingActionValidationInput \<Rightarrow> CancelIntent \<Rightarrow> ValidatedTradingAction result" where
  "validateCancel input intent =
     bindE (assertExactFields (i_intentKeys input) [''type'', ''assetId'', ''target''] ''intent.fields'') (\<lambda>_.
     bindE (throw_if (target_kind (ca_target intent) \<noteq> ''oid'' \<and> target_kind (ca_target intent) \<noteq> ''cloid'')
              (HyperliquidValidationError ''intent.target.kind'' ''expected oid or cloid'')) (\<lambda>_.
     bindE (assertExactFields (i_targetKeys input)
              (if target_kind (ca_target intent) = ''oid'' then [''kind'', ''oid''] else [''kind'', ''cloid''])
              ''intent.target.fields'') (\<lambda>_.
     bindE (safeInteger (ca_assetId intent) ''intent.assetId'' 0) (\<lambda>assetId.
     bindE (assertTradableMarket (i_market input) assetId) (\<lambda>_.
     bindE (throw_if (k_slippageBps (i_controls input) \<noteq> None \<or> k_trigger (i_controls input) \<noteq> None)
              (HyperliquidValidationError ''controls''
                 ''cancel does not accept slippage or trigger controls'')) (\<lambda>_.
     case a_openOrders (i_account input) of
       None \<Rightarrow> invalid ''account.openOrders'' ''current open-order evidence is required''
     | Some orders \<Rightarrow>
         bindE (case ca_target intent of
                  ByOid oid \<Rightarrow> bindE (safeInteger oid ''intent.target.oid'' 1) (\<lambda>_. Inr None)
                | target \<Rightarrow> bindE (parseCloid (target_cloid_text target) ''cloid'') (\<lambda>c. Inr (Some c)))
           (\<lambda>targetCloid.
         bindE (cancelMatches orders (ca_assetId intent) (ca_target intent) targetCloid) (\<lambda>matched.
         bindE (throw_if (\<not> matched)
                  (HyperliquidValidationError ''intent.target''
                     ''the exact order is not open in current account state'')) (\<lambda>_.
         bindE (safeInteger (a_version (i_account input)) ''account.version'' 0) (\<lambda>version.
         Inr \<lparr>v_intent = Cancel (case targetCloid of
                                     Some c \<Rightarrow> intent\<lparr>ca_target := ByCloid c\<rparr>
                                   | None \<Rightarrow> intent),
              v_notional = None,
              v_accountStateVersion = version,
              v_marketCanonicalId = m_canonicalId (i_market input)\<rparr>))))))))))"

definition validateLeverage ::
    "TradingActionValidationInput \<Rightarrow> UpdateLeverageIntent \<Rightarrow> ValidatedTradingAction result" where
  "validateLeverage input intent =
     bindE (assertExactFields (i_intentKeys input)
              [''type'', ''assetId'', ''leverage'', ''marginMode''] ''intent.fields'') (\<lambda>_.
     bindE (throw_if (ul_marginMode intent \<noteq> Cross \<and> ul_marginMode intent \<noteq> Isolated)
              (HyperliquidValidationError ''intent.marginMode'' ''expected cross or isolated'')) (\<lambda>_.
     bindE (safeInteger (ul_assetId intent) ''intent.assetId'' 0) (\<lambda>assetId.
     bindE (assertTradableMarket (i_market input) assetId) (\<lambda>_.
     bindE (throw_if (m_family (i_market input) \<noteq> Perp)
              (HyperliquidValidationError ''intent.type''
                 ''leverage updates require a perpetual market'')) (\<lambda>_.
     bindE (throw_if (k_slippageBps (i_controls input) \<noteq> None \<or> k_trigger (i_controls input) \<noteq> None)
              (HyperliquidValidationError ''controls''
                 ''leverage updates do not accept order controls'')) (\<lambda>_.
     bindE (case (ul_leverage intent, m_maxLeverage (i_market input)) of
              (IntN leverage, Some (IntN mx)) \<Rightarrow>
                throw_if (\<not> safe_int leverage \<or> leverage < 1 \<or> \<not> safe_int mx \<or> leverage > min mx 100)
                  (HyperliquidValidationError ''intent.leverage''
                     ''leverage exceeds the current market maximum'')
            | _ \<Rightarrow> invalid ''intent.leverage'' ''leverage exceeds the current market maximum'') (\<lambda>_.
     bindE (throw_if (m_onlyIsolated (i_market input) = Some True \<and> ul_marginMode intent \<noteq> Isolated)
              (HyperliquidValidationError ''intent.marginMode''
                 ''this market requires isolated margin'')) (\<lambda>_.
     bindE (safeInteger (a_version (i_account input)) ''account.version'' 0) (\<lambda>version.
     Inr \<lparr>v_intent = UpdateLeverage intent,
          v_notional = None,
          v_accountStateVersion = version,
          v_marketCanonicalId = m_canonicalId (i_market input)\<rparr>)))))))))"

section \<open>The validator\<close>

fun dispatchIntent ::
    "TradingActionValidationInput \<Rightarrow> trading_intent \<Rightarrow> ValidatedTradingAction result" where
  "dispatchIntent input (MarketOrder i) = validateOrder input (OMarket i)"
| "dispatchIntent input (LimitOrder i) = validateOrder input (OLimit i)"
| "dispatchIntent input (ReduceOnlyClose i) = validateOrder input (OClose i)"
| "dispatchIntent input (PositionTpsl i) = validatePositionTpsl input i"
| "dispatchIntent input (Cancel i) = validateCancel input i"
| "dispatchIntent input (UpdateLeverage i) = validateLeverage input i"
| "dispatchIntent input (BulkCancel _) =
     invalid ''intent.type'' ''bulk cancel is not a reviewed U7 public action''"
| "dispatchIntent input (OtherIntent _) = invalid ''intent.type'' ''unsupported trading action intent''"

definition validateTradingAction ::
    "capabilities \<Rightarrow> address_parser \<Rightarrow> TradingActionValidationInput \<Rightarrow> ValidatedTradingAction result" where
  "validateTradingAction caps getAddress input =
     bindE (assertCurrentContext caps getAddress (i_context input)) (\<lambda>_.
     bindE (throw_if
              (case a_marginMode (i_account input) of
                 None \<Rightarrow> False
               | Some mode \<Rightarrow> mode \<noteq> Cross \<and> mode \<noteq> Isolated)
              (HyperliquidValidationError ''account.marginMode'' ''expected cross or isolated'')) (\<lambda>_.
     dispatchIntent input (i_intent input)))"

section \<open>What the shared checks establish\<close>

lemma safeInteger_Inr [result_simps]:
  "safeInteger v p m = Inr i \<longleftrightarrow> v = IntN i \<and> safe_int i \<and> m \<le> i"
  by (cases v) (auto simp: safeInteger_def)

lemma normalizeAddress_Inr [result_simps]:
  "normalizeAddress ga v p = Inr a \<longleftrightarrow> (\<exists>b. ga v = Some b \<and> a = toLowerCase b)"
  by (auto simp: normalizeAddress_def split: option.splits)

text \<open>The same address, as the address parser and lower-casing see it.\<close>

definition same_address :: "address_parser \<Rightarrow> string \<Rightarrow> string \<Rightarrow> bool" where
  "same_address ga x y =
     (case (ga x, ga y) of (Some a, Some b) \<Rightarrow> toLowerCase a = toLowerCase b | _ \<Rightarrow> False)"

lemma assertCurrentContext_Inr:
  "assertCurrentContext caps ga ctx = Inr () \<longleftrightarrow>
     assertTradingActionCapability caps (c_network ctx) = Inr () \<and>
     c_currentNetwork ctx = c_network ctx \<and>
     same_address ga (c_currentMasterAccount ctx) (c_masterAccount ctx) \<and>
     same_address ga (c_currentTargetAccount ctx) (c_targetAccount ctx) \<and>
     (\<exists>epoch reviewed expires now.
        c_capturedContextEpoch ctx = IntN epoch \<and> c_currentContextEpoch ctx = IntN epoch \<and>
        c_reviewedAtMs ctx = IntN reviewed \<and> c_reviewExpiresAtMs ctx = IntN expires \<and>
        c_nowMs ctx = IntN now \<and>
        safe_int epoch \<and> 0 \<le> epoch \<and> safe_int reviewed \<and> 0 \<le> reviewed \<and>
        safe_int expires \<and> safe_int now \<and> 0 \<le> now \<and>
        reviewed < expires \<and> now < expires)"
  by (auto simp: assertCurrentContext_def result_simps same_address_def not_le split: option.splits)

definition tradable_market :: "ActionMarketRules \<Rightarrow> int \<Rightarrow> bool" where
  "tradable_market market assetId \<longleftrightarrow>
     m_lifecycle market = Active \<and> m_orderAvailability market = Enabled \<and>
     (m_family market = Perp \<or> m_family market = Spot) \<and>
     m_orderAssetId market = IntN assetId \<and>
     (\<exists>d places. m_sizeDecimals market = Some (IntN d) \<and>
        m_pricePrecision market =
          Some \<lparr>maxSignificantFigures = IntN 5, maxDecimalPlaces = IntN places\<rparr> \<and>
        0 \<le> d \<and> 0 \<le> places \<and> d + places \<le> (if m_family market = Perp then 6 else 8))"

lemma pricePrecision_Some:
  "pricePrecisionForSizeDecimals fam (IntN d) = Some p \<longleftrightarrow>
     0 \<le> d \<and> d \<le> (if fam = Perp then 6 else 8) \<and>
     p = \<lparr>maxSignificantFigures = IntN 5, maxDecimalPlaces = IntN ((if fam = Perp then 6 else 8) - d)\<rparr>"
  by (auto simp: pricePrecisionForSizeDecimals_def Let_def)

lemma assertTradableMarket_tradable:
  assumes "assertTradableMarket market assetId = Inr u"
  shows "tradable_market market assetId"
proof -
  from assms obtain oa d pp expected where
    m: "m_lifecycle market = Active" "m_orderAvailability market = Enabled"
      "m_family market = Perp \<or> m_family market = Spot" "m_orderAssetId market = IntN assetId"
      "m_sizeDecimals market = Some (IntN d)" "m_pricePrecision market = Some pp"
    and ex: "pricePrecisionForSizeDecimals (m_family market) (IntN d) = Some expected"
    and pp: "js_eq (maxSignificantFigures pp) (maxSignificantFigures expected)"
      "isSafeInteger (maxDecimalPlaces pp)" "\<not> js_less (maxDecimalPlaces pp) (IntN 0)"
      "\<not> js_less (maxDecimalPlaces expected) (maxDecimalPlaces pp)"
    unfolding assertTradableMarket_def
    by (auto simp: result_simps split: option.splits)
  from pp(2) obtain p where p: "maxDecimalPlaces pp = IntN p" by (auto simp: isSafeInteger_iff)
  from ex pp p have "maxSignificantFigures pp = IntN 5" "0 \<le> p" "0 \<le> d"
    "d + p \<le> (if m_family market = Perp then 6 else 8)"
    by (auto simp: pricePrecision_Some dest: js_eqD)
  moreover have "pp = \<lparr>maxSignificantFigures = IntN 5, maxDecimalPlaces = IntN p\<rparr>"
    using p calculation(1) by (cases pp) simp
  ultimately show ?thesis using m by (auto simp: tradable_market_def)
qed

lemma normalizeSize_Inr:
  "normalizeSize v market = Inr s \<longleftrightarrow>
     (\<exists>d n. parseDecimal v ''intent.size'' = Inr d \<and> 0 < coefficient d \<and> s = formatDecimal d \<and>
        m_sizeDecimals market = Some n \<and> \<not> js_less n (IntN (int (scale d))))"
  by (auto simp: normalizeSize_def positiveDecimal_def not_le parse_format_parse split: option.splits)

definition price_within :: "PricePrecisionInputs \<Rightarrow> ParsedDecimal \<Rightarrow> bool" where
  "price_within p d \<longleftrightarrow>
     \<not> js_less (maxDecimalPlaces p) (IntN (int (scale d))) \<and>
     (scale d = 0 \<or> \<not> js_less (maxSignificantFigures p) (IntN (int (significantDigits d))))"

lemma normalizePrice_Inr:
  "normalizePrice v market = Inr s \<longleftrightarrow>
     (\<exists>d p. parseDecimal v ''intent.price'' = Inr d \<and> 0 < coefficient d \<and> s = formatDecimal d \<and>
        m_pricePrecision market = Some p \<and> price_within p d)"
  by (auto simp: normalizePrice_def positiveDecimal_def not_le parse_format_parse price_within_def
      split: option.splits)

lemma normalizeSize_again: "normalizeSize v m = Inr s \<Longrightarrow> normalizeSize s m = Inr s"
  by (auto simp: normalizeSize_Inr parse_format_parse)

lemma normalizePrice_again: "normalizePrice v m = Inr s \<Longrightarrow> normalizePrice s m = Inr s"
  by (auto simp: normalizePrice_Inr parse_format_parse)

lemma parseCloid_again: "parseCloid v p = Inr c \<Longrightarrow> parseCloid c q = Inr c"
  by (auto simp: parseCloid_Inr CLOID_lower)

lemma normalizeSize_positive:
  "normalizeSize v m = Inr s \<Longrightarrow> positive_decimal_text s"
  by (auto simp: normalizeSize_Inr positive_decimal_text_def parseDecimal_canonical
      formatDecimal_canonical_positive)

lemma normalizePrice_positive:
  "normalizePrice v m = Inr s \<Longrightarrow> positive_decimal_text s"
  by (auto simp: normalizePrice_Inr positive_decimal_text_def parseDecimal_canonical
      formatDecimal_canonical_positive)

lemma normalizeSize_value:
  assumes "normalizeSize v m = Inr s" "parseDecimal s p = Inr d"
  shows "0 < decimal_value s" "decimal_value s = decimal_value v" "dec_val d = decimal_value s"
proof -
  from assms(1) obtain e where e: "parseDecimal v ''intent.size'' = Inr e" "0 < coefficient e"
    and s: "s = formatDecimal e"
    by (auto simp: normalizeSize_Inr)
  then show "0 < decimal_value s" "decimal_value s = decimal_value v" "dec_val d = decimal_value s"
    using assms(2) parseDecimal_value [OF e(1)] dec_val_pos [of e]
    by (simp_all add: formatDecimal_value dec_val_pos parse_format_parse [OF e(1)])
qed

lemma normalizePrice_value:
  assumes "normalizePrice v m = Inr s" "parseDecimal s p = Inr d"
  shows "0 < decimal_value s" "decimal_value s = decimal_value v" "dec_val d = decimal_value s"
proof -
  from assms(1) obtain e where e: "parseDecimal v ''intent.price'' = Inr e" "0 < coefficient e"
    and s: "s = formatDecimal e"
    by (auto simp: normalizePrice_Inr)
  then show "0 < decimal_value s" "decimal_value s = decimal_value v" "dec_val d = decimal_value s"
    using assms(2) parseDecimal_value [OF e(1)] dec_val_pos [of e]
    by (simp_all add: formatDecimal_value dec_val_pos parse_format_parse [OF e(1)])
qed

lemma checkedSlippageBps_Inr [result_simps]:
  "checkedSlippageBps b = Inr n \<longleftrightarrow> b = Some (IntN n) \<and> 0 \<le> n \<and> n \<le> 500"
  by (auto simp: checkedSlippageBps_def MAX_SLIPPAGE_BPS_def safe_int_def max_safe_integer_def
      split: option.splits js_number.splits)

text \<open>
  The bound a price keeps to, against a reference and a slippage of \<open>n\<close> basis points.
\<close>

definition within_slippage :: "order_side \<Rightarrow> int \<Rightarrow> rat \<Rightarrow> rat \<Rightarrow> bool" where
  "within_slippage side n reference price \<longleftrightarrow>
     (side = Buy \<longrightarrow> price \<le> reference * (1 + of_int n / 10000)) \<and>
     (side = Sell \<longrightarrow> price \<ge> reference * (1 - of_int n / 10000))"

lemmas slippage_simps =
  compareDecimal_simps multiplyDecimal_val within_slippage_def field_simps not_less not_le

lemma assertSlippage_Inr:
  "assertSlippage input side price = Inr u \<longleftrightarrow>
     (\<exists>n referencePrice aggressive reference.
        k_slippageBps (i_controls input) = Some (IntN n) \<and> 0 \<le> n \<and> n \<le> 500 \<and>
        m_referencePrice (i_market input) = Some referencePrice \<and>
        parseDecimal price ''intent.price'' = Inr aggressive \<and>
        parseDecimal referencePrice ''market.referencePrice'' = Inr reference \<and>
        0 < coefficient reference \<and>
        within_slippage side n (dec_val reference) (dec_val aggressive))"
  by (cases side)
    (auto simp: assertSlippage_def result_simps Let_def slippage_simps positiveDecimal_def
      parse_format_parse split: option.splits)

text \<open>The signed position a reduce-only order is checked against.\<close>

definition position_value :: "ActionAccountRules \<Rightarrow> rat" where
  "position_value account =
     (case a_positionSize account of Some s \<Rightarrow> decimal_value s | None \<Rightarrow> 0)"

lemma positionSize_value:
  assumes "positionSize account = Inr d"
  shows "dec_val d = position_value account"
proof (cases "a_positionSize account")
  case None
  then have "dec_val d = decimal_value ''0''"
    using assms by (simp add: positionSize_def parseDecimal_value)
  also have "\<dots> = 0"
    by (simp add: decimal_value_def Let_def unsigned_part_def starts_minus_def before_dot_def from_dot_def)
  finally show ?thesis using None by (simp add: position_value_def)
next
  case (Some s)
  then show ?thesis using assms by (simp add: positionSize_def parseDecimal_value position_value_def)
qed

lemma dec_val_sign:
  "coefficient d = 0 \<longleftrightarrow> dec_val d = 0" "coefficient d < 0 \<longleftrightarrow> dec_val d < 0"
  by (simp_all add: dec_val_def divide_less_0_iff)

lemma dec_val_abs:
  "dec_val \<lparr>coefficient = (if coefficient d < 0 then - coefficient d else coefficient d), scale = scale d\<rparr>
     = \<bar>dec_val d\<bar>"
  by (simp add: dec_val_def)

lemma assertReduceOnly_Inr:
  assumes "assertReduceOnly input side sz full = Inr u"
  shows "m_family (i_market input) = Perp"
    "position_value (i_account input) \<noteq> 0"
    "side = (if position_value (i_account input) > 0 then Sell else Buy)"
    "decimal_value sz \<le> \<bar>position_value (i_account input)\<bar>"
    "full \<Longrightarrow> decimal_value sz = \<bar>position_value (i_account input)\<bar>"
proof -
  from assms obtain position requested where
    p: "m_family (i_market input) = Perp" "positionSize (i_account input) = Inr position"
      "coefficient position \<noteq> 0" "side = (if coefficient position > 0 then Sell else Buy)"
      "parseDecimal sz ''intent.size'' = Inr requested"
    and cmp: "\<not> (compareDecimal requested \<lparr>coefficient = (if coefficient position < 0
           then - coefficient position else coefficient position), scale = scale position\<rparr> > 0 \<or>
         (full \<and> compareDecimal requested \<lparr>coefficient = (if coefficient position < 0
           then - coefficient position else coefficient position), scale = scale position\<rparr> \<noteq> 0))"
    by (auto simp: assertReduceOnly_def Let_def)
  note pv = positionSize_value [OF p(2)] and rv = parseDecimal_value [OF p(5)]
  show "m_family (i_market input) = Perp" by (fact p(1))
  show "position_value (i_account input) \<noteq> 0" using p(3) by (simp add: dec_val_sign flip: pv)
  show "side = (if position_value (i_account input) > 0 then Sell else Buy)"
    using p(4) by (simp add: dec_val_pos flip: pv)
  show "decimal_value sz \<le> \<bar>position_value (i_account input)\<bar>"
    "full \<Longrightarrow> decimal_value sz = \<bar>position_value (i_account input)\<bar>"
    using cmp unfolding compareDecimal_simps dec_val_abs pv rv by auto
qed

text \<open>The leverage and the cap that the margin check applies: one on a spot market.\<close>

definition effective_leverage :: "TradingActionValidationInput \<Rightarrow> js_number option" where
  "effective_leverage input =
     (if m_family (i_market input) = Spot then Some (IntN 1) else a_leverage (i_account input))"

definition leverage_cap :: "TradingActionValidationInput \<Rightarrow> js_number option" where
  "leverage_cap input =
     (if m_family (i_market input) = Spot then Some (IntN 1) else m_maxLeverage (i_market input))"

lemma assertMargin_Inr:
  assumes "assertMargin input notional False = Inr u"
  obtains leverage cap where
    "effective_leverage input = Some (IntN leverage)" "leverage_cap input = Some (IntN cap)"
    "1 \<le> leverage" "leverage \<le> cap"
    "dec_val notional \<le> decimal_value (a_availableMargin (i_account input)) * of_int leverage"
    "\<And>m. m_minimumNotional (i_market input) = Some m \<Longrightarrow> decimal_value m \<le> dec_val notional"
    "m_onlyIsolated (i_market input) = Some True \<Longrightarrow> a_marginMode (i_account input) = Some Isolated"
proof -
  from assms obtain leverage cap margin available where
    l: "effective_leverage input = Some (IntN leverage)" "leverage_cap input = Some (IntN cap)"
      "1 \<le> leverage" "leverage \<le> cap"
      "m_onlyIsolated (i_market input) = Some True \<Longrightarrow> a_marginMode (i_account input) = Some Isolated"
    and mg: "normalizeDecimal (a_availableMargin (i_account input)) ''account.availableMargin'' = Inr margin"
      "parseDecimal margin ''account.availableMargin'' = Inr available"
      "\<not> compareDecimal notional (multiplyDecimal available \<lparr>coefficient = leverage, scale = 0\<rparr>) > 0"
    and mn: "(case m_minimumNotional (i_market input) of None \<Rightarrow> Inr ()
             | Some minimum \<Rightarrow>
                 bindE (positiveDecimal minimum ''market.minimumNotional'') (\<lambda>positiveMinimum.
                 bindE (parseDecimal positiveMinimum ''market.minimumNotional'') (\<lambda>least.
                 throw_if (compareDecimal notional least < 0)
                   (HyperliquidValidationError ''intent.notional''
                      ''Order must have minimum value of $10.'')))) = Inr ()"
    unfolding assertMargin_def Let_def effective_leverage_def [symmetric] leverage_cap_def [symmetric]
    by (fastforce split: option.splits js_number.splits simp: not_less)
  have "parseDecimal (a_availableMargin (i_account input)) ''account.availableMargin'' = Inr available"
    using mg(1,2) by (auto simp: normalizeDecimal_def parse_format_parse)
  then have "dec_val available = decimal_value (a_availableMargin (i_account input))"
    by (rule parseDecimal_value)
  then have "dec_val notional \<le> decimal_value (a_availableMargin (i_account input)) * of_int leverage"
    using mg(3) by (simp add: compareDecimal_simps multiplyDecimal_val not_less)
  moreover have "decimal_value m \<le> dec_val notional" if "m_minimumNotional (i_market input) = Some m" for m
    using mn that by (auto simp: positiveDecimal_def compareDecimal_simps parse_format_parse
        parseDecimal_value not_less)
  ultimately show thesis using that l by blast
qed

section \<open>Validated orders\<close>

lemma assertNoTrigger_Inr [result_simps]: "assertNoTrigger k = Inr u \<longleftrightarrow> k_trigger k = None"
  by (auto simp: assertNoTrigger_def split: option.splits)

lemma validateOrder_Inr:
  assumes "validateOrder input intent = Inr v"
  obtains assetId sz price parsedSize parsedPrice cloid version where
    "order_side_of intent = Buy \<or> order_side_of intent = Sell" "limit_tif_ok intent"
    "order_assetId intent = IntN assetId" "safe_int assetId" "0 \<le> assetId"
    "tradable_market (i_market input) assetId"
    "normalizeSize (order_size intent) (i_market input) = Inr sz"
    "normalizePrice (order_rawPrice intent) (i_market input) = Inr price"
    "parseDecimal sz ''intent.size'' = Inr parsedSize"
    "parseDecimal price ''intent.price'' = Inr parsedPrice"
    "\<not> is_limit intent \<Longrightarrow> assertSlippage input (order_side_of intent) price = Inr ()"
    "is_close intent \<Longrightarrow> assertReduceOnly input (order_side_of intent) sz True = Inr ()"
    "limit_reduceOnly intent \<Longrightarrow> assertReduceOnly input (order_side_of intent) sz False = Inr ()"
    "assertMargin input (multiplyDecimal parsedSize parsedPrice)
       (is_close intent \<or> limit_reduceOnly intent) = Inr ()"
    "parseCloid (order_cloid intent) ''cloid'' = Inr cloid"
    "v = \<lparr>v_intent = order_trading_intent (order_with intent sz price cloid),
          v_notional = Some (formatDecimal (multiplyDecimal parsedSize parsedPrice)),
          v_accountStateVersion = version,
          v_marketCanonicalId = m_canonicalId (i_market input)\<rparr>"
proof -
  from assms obtain assetId sz price parsedSize parsedPrice cloid version where
    c: "order_side_of intent = Buy \<or> order_side_of intent = Sell" "limit_tif_ok intent"
      "order_assetId intent = IntN assetId" "safe_int assetId" "0 \<le> assetId"
      "assertTradableMarket (i_market input) assetId = Inr ()"
      "normalizeSize (order_size intent) (i_market input) = Inr sz"
      "normalizePrice (order_rawPrice intent) (i_market input) = Inr price"
      "parseDecimal sz ''intent.size'' = Inr parsedSize"
      "parseDecimal price ''intent.price'' = Inr parsedPrice"
    and sl: "(if \<not> is_limit intent then assertSlippage input (order_side_of intent) price
            else throw_if (k_slippageBps (i_controls input) \<noteq> None)
                   (HyperliquidValidationError ''controls.slippageBps''
                      ''slippage applies only to market execution'')) = Inr ()"
    and ro: "(if is_close intent then assertReduceOnly input (order_side_of intent) sz True
            else if limit_reduceOnly intent then assertReduceOnly input (order_side_of intent) sz False
            else Inr ()) = Inr ()"
    and mg: "assertMargin input (multiplyDecimal parsedSize parsedPrice)
        (is_close intent \<or> limit_reduceOnly intent) = Inr ()"
    and cl: "parseCloid (order_cloid intent) ''cloid'' = Inr cloid"
    and v: "v = \<lparr>v_intent = order_trading_intent (order_with intent sz price cloid),
          v_notional = Some (formatDecimal (multiplyDecimal parsedSize parsedPrice)),
          v_accountStateVersion = version,
          v_marketCanonicalId = m_canonicalId (i_market input)\<rparr>"
    unfolding validateOrder_def Let_def bindE_Inr_iff throw_if_Inr safeInteger_Inr
      sum.inject ex_unit by blast
  have lc: "limit_reduceOnly intent \<Longrightarrow> \<not> is_close intent" by (cases intent) auto
  show thesis
    using that [OF c(1-5) assertTradableMarket_tradable [OF c(6)] c(7-10) _ _ _ mg cl v]
      sl ro lc by (auto split: if_splits)
qed

text \<open>Every part of the check that does not read the intent is unmoved by replacing it.\<close>

lemma intent_update_fields:
  "i_context (input\<lparr>i_intent := x\<rparr>) = i_context input"
  "i_market (input\<lparr>i_intent := x\<rparr>) = i_market input"
  "i_account (input\<lparr>i_intent := x\<rparr>) = i_account input"
  "i_controls (input\<lparr>i_intent := x\<rparr>) = i_controls input"
  "i_intentKeys (input\<lparr>i_intent := x\<rparr>) = i_intentKeys input"
  "i_targetKeys (input\<lparr>i_intent := x\<rparr>) = i_targetKeys input"
  by simp_all

lemmas intent_update_unfold = fun_eq_iff assertSlippage_def assertReduceOnly_def assertMargin_def
  assertTriggerMatches_def assertTpslSlippage_def assertExistingOrder_def validateOrder_def
  validatePositionTpsl_def validateCancel_def validateLeverage_def intent_update_fields

lemma intent_update_order [simp]:
  "validateOrder (input\<lparr>i_intent := x\<rparr>) = validateOrder input"
  "validatePositionTpsl (input\<lparr>i_intent := x\<rparr>) = validatePositionTpsl input"
  "validateCancel (input\<lparr>i_intent := x\<rparr>) = validateCancel input"
  "validateLeverage (input\<lparr>i_intent := x\<rparr>) = validateLeverage input"
  unfolding intent_update_unfold by (intro allI refl)+

lemma order_with_simps [simp]:
  "is_limit (order_with i sz pr c) = is_limit i"
  "is_close (order_with i sz pr c) = is_close i"
  "order_assetId (order_with i sz pr c) = order_assetId i"
  "order_side_of (order_with i sz pr c) = order_side_of i"
  "order_size (order_with i sz pr c) = sz"
  "order_rawPrice (order_with i sz pr c) = pr"
  "order_cloid (order_with i sz pr c) = c"
  "limit_tif_ok (order_with i sz pr c) = limit_tif_ok i"
  "limit_reduceOnly (order_with i sz pr c) = limit_reduceOnly i"
  "order_with (order_with i sz pr c) sz pr c = order_with i sz pr c"
  by (cases i; simp)+

lemma validateOrder_again:
  assumes "validateOrder input i = Inr v" "v_intent v = order_trading_intent j"
  shows "validateOrder input j = Inr v"
proof -
  from assms(1) obtain sz price cloid where
    n: "normalizeSize (order_size i) (i_market input) = Inr sz"
      "normalizePrice (order_rawPrice i) (i_market input) = Inr price"
      "parseCloid (order_cloid i) ''cloid'' = Inr cloid"
      "v_intent v = order_trading_intent (order_with i sz price cloid)"
    by (rule validateOrder_Inr) auto
  then have j: "j = order_with i sz price cloid"
    using assms(2) by (cases j; cases i) auto
  have "validateOrder input j = validateOrder input i"
    by (simp add: validateOrder_def j Let_def n normalizeSize_again [OF n(1)]
        normalizePrice_again [OF n(2)] parseCloid_again [OF n(3)])
  with assms(1) show ?thesis by simp
qed

section \<open>Validated protective orders, cancels and leverage updates\<close>

lemma assertTpslSlippage_Inr:
  "assertTpslSlippage input side price trigger = Inr u \<longleftrightarrow>
     (\<exists>n aggressive.
        k_slippageBps (i_controls input) = Some (IntN n) \<and> 0 \<le> n \<and> n \<le> 500 \<and>
        parseDecimal price ''intent.aggressiveLimitPrice'' = Inr aggressive \<and>
        within_slippage side n (dec_val trigger) (dec_val aggressive))"
  by (cases side) (auto simp: assertTpslSlippage_def result_simps Let_def slippage_simps)

lemma validatePositionTpsl_Inr:
  assumes "validatePositionTpsl input intent = Inr v"
  obtains assetId sz triggerPrice aggressiveLimitPrice referencePrice reference trigger cloid
      parsedSize version where
    "pt_side intent = Buy \<or> pt_side intent = Sell"
    "pt_triggerKind intent = TakeProfit \<or> pt_triggerKind intent = StopLoss"
    "pt_assetId intent = IntN assetId" "safe_int assetId" "0 \<le> assetId"
    "assertTradableMarket (i_market input) assetId = Inr ()"
    "normalizeSize (pt_size intent) (i_market input) = Inr sz"
    "normalizePrice (pt_triggerPrice intent) (i_market input) = Inr triggerPrice"
    "normalizePrice (pt_aggressiveLimitPrice intent) (i_market input) = Inr aggressiveLimitPrice"
    "assertReduceOnly input (pt_side intent) sz True = Inr ()"
    "m_referencePrice (i_market input) = Some referencePrice"
    "parseDecimal referencePrice ''market.referencePrice'' = Inr reference"
    "0 < coefficient reference"
    "parseDecimal triggerPrice ''intent.triggerPrice'' = Inr trigger"
    "\<not> ((expectedDirection (pt_side intent) (pt_triggerKind intent) = Above \<and>
          compareDecimal trigger reference \<le> 0) \<or>
        (expectedDirection (pt_side intent) (pt_triggerKind intent) = Below \<and>
          compareDecimal trigger reference \<ge> 0))"
    "assertTpslSlippage input (pt_side intent) aggressiveLimitPrice trigger = Inr ()"
    "assertExistingOrder input intent = Inr ()"
    "parseCloid (pt_cloid intent) ''cloid'' = Inr cloid"
    "parseDecimal sz ''intent.size'' = Inr parsedSize"
    "v = \<lparr>v_intent = PositionTpsl (intent\<lparr>pt_size := sz, pt_triggerPrice := triggerPrice,
             pt_aggressiveLimitPrice := aggressiveLimitPrice, pt_cloid := cloid\<rparr>),
          v_notional = Some (formatDecimal (multiplyDecimal parsedSize trigger)),
          v_accountStateVersion = version,
          v_marketCanonicalId = m_canonicalId (i_market input)\<rparr>"
proof (cases "m_referencePrice (i_market input)")
  case None
  with assms show thesis by (simp add: validatePositionTpsl_def)
next
  case (Some r)
  have ref: "(\<exists>x. positiveDecimal r p = Inr x \<and> (\<exists>y. parseDecimal x p = Inr y \<and> P y)) \<longleftrightarrow>
      (\<exists>y. parseDecimal r p = Inr y \<and> 0 < coefficient y \<and> P y)" for p P
    by (auto simp: positiveDecimal_def parse_format_parse not_le)
  from assms show thesis
    unfolding validatePositionTpsl_def Let_def bindE_Inr_iff throw_if_Inr safeInteger_Inr
      sum.inject ex_unit Some option.case ref
    using that [OF _ _ _ _ _ _ _ _ _ _ Some] by blast
qed

lemma expectedDirection_known:
  "expectedDirection s k = Above \<or> expectedDirection s k = Below"
  by (simp add: expectedDirection_def)

lemma validatePositionTpsl_again:
  assumes "validatePositionTpsl input i = Inr v" "v_intent v = PositionTpsl j"
  shows "validatePositionTpsl input j = Inr v"
proof -
  from assms(1) obtain sz tp ap cloid where
    n: "normalizeSize (pt_size i) (i_market input) = Inr sz"
      "normalizePrice (pt_triggerPrice i) (i_market input) = Inr tp"
      "normalizePrice (pt_aggressiveLimitPrice i) (i_market input) = Inr ap"
      "parseCloid (pt_cloid i) ''cloid'' = Inr cloid"
      "v_intent v = PositionTpsl (i\<lparr>pt_size := sz, pt_triggerPrice := tp,
         pt_aggressiveLimitPrice := ap, pt_cloid := cloid\<rparr>)"
    by (rule validatePositionTpsl_Inr) auto
  then have j: "j = i\<lparr>pt_size := sz, pt_triggerPrice := tp,
      pt_aggressiveLimitPrice := ap, pt_cloid := cloid\<rparr>"
    using assms(2) by simp
  have "validatePositionTpsl input j = validatePositionTpsl input i"
    by (simp add: validatePositionTpsl_def j Let_def n normalizeSize_again [OF n(1)]
        normalizePrice_again [OF n(2)] normalizePrice_again [OF n(3)] parseCloid_again [OF n(4)]
        assertExistingOrder_def cong: option.case_cong if_cong)
  with assms(1) show ?thesis by simp
qed

lemma cancelMatches_by_cloid:
  "cancelMatches orders a (OtherTarget k c') t = cancelMatches orders a (ByCloid c) t"
  "cancelMatches orders a (ByCloid c') t = cancelMatches orders a (ByCloid c) t"
  by (induction orders) (auto split: option.splits cong: if_cong)

text \<open>The open order a cancel names: on the asset, with the order ID or the client order ID.\<close>

definition names_order :: "js_number \<Rightarrow> cancel_target \<Rightarrow> CurrentOpenOrderIdentity \<Rightarrow> bool" where
  "names_order assetId target order \<longleftrightarrow>
     oo_assetId order = assetId \<and>
     (case target of
        ByOid oid \<Rightarrow> oo_oid order = Some oid
      | ByCloid c \<Rightarrow> map_option toLowerCase (oo_cloid order) = Some c
      | OtherTarget _ _ \<Rightarrow> False)"

lemma cancelMatches_oid:
  "cancelMatches orders a (ByOid oid) t = Inr True \<Longrightarrow> \<exists>order \<in> set orders. names_order a (ByOid oid) order"
  by (induction orders)
    (auto simp: names_order_def js_eq_opt_def dest!: js_eqD split: if_splits option.splits)

lemma cancelMatches_cloid:
  "cancelMatches orders a (ByCloid x) (Some c) = Inr True \<Longrightarrow>
     \<exists>order \<in> set orders. names_order a (ByCloid c) order"
  by (induction orders)
    (auto simp: names_order_def parseCloid_Inr dest!: js_eqD split: if_splits option.splits)

lemma validateCancel_Inr:
  assumes "validateCancel input i = Inr v"
  obtains assetId orders j version where
    "ca_assetId i = IntN assetId" "safe_int assetId" "0 \<le> assetId"
    "assertTradableMarket (i_market input) assetId = Inr ()"
    "a_openOrders (i_account input) = Some orders"
    "v = \<lparr>v_intent = Cancel j, v_notional = None, v_accountStateVersion = version,
          v_marketCanonicalId = m_canonicalId (i_market input)\<rparr>"
    "ca_assetId j = ca_assetId i"
    "\<exists>order \<in> set orders. names_order (ca_assetId j) (ca_target j) order"
    "(\<exists>oid. ca_target i = ByOid (IntN oid) \<and> safe_int oid \<and> 1 \<le> oid \<and> j = i) \<or>
     (\<exists>c. CLOID_PATTERN (target_cloid_text (ca_target i)) \<and>
          c = toLowerCase (target_cloid_text (ca_target i)) \<and> j = i\<lparr>ca_target := ByCloid c\<rparr>)"
proof -
  from assms obtain assetId orders targetCloid version where
    a: "ca_assetId i = IntN assetId" "safe_int assetId" "0 \<le> assetId"
      "assertTradableMarket (i_market input) assetId = Inr ()"
      "a_openOrders (i_account input) = Some orders"
    and t: "(case ca_target i of
                  ByOid oid \<Rightarrow> bindE (safeInteger oid ''intent.target.oid'' 1) (\<lambda>_. Inr None)
                | target \<Rightarrow> bindE (parseCloid (target_cloid_text target) ''cloid'') (\<lambda>c. Inr (Some c)))
              = Inr targetCloid"
    and m: "cancelMatches orders (ca_assetId i) (ca_target i) targetCloid = Inr True"
    and v: "v = \<lparr>v_intent = Cancel (case targetCloid of
                                     Some c \<Rightarrow> i\<lparr>ca_target := ByCloid c\<rparr> | None \<Rightarrow> i),
              v_notional = None, v_accountStateVersion = version,
              v_marketCanonicalId = m_canonicalId (i_market input)\<rparr>"
    unfolding validateCancel_def
    by (auto simp: result_simps split: option.splits)
  show thesis
  proof (cases "ca_target i")
    case (ByOid n)
    with t obtain oid where "n = IntN oid" "safe_int oid" "1 \<le> oid" "targetCloid = None"
      by (auto simp: result_simps)
    with that [OF a v] cancelMatches_oid m ByOid a(1) show thesis by auto
  next
    case (ByCloid c)
    with t m that [OF a v] cancelMatches_cloid show thesis
      by (auto simp: parseCloid_Inr)
  next
    case (OtherTarget k c)
    with t m that [OF a v] cancelMatches_cloid [of orders "ca_assetId i" c] show thesis
      by (auto simp: parseCloid_Inr cancelMatches_by_cloid(1) [of _ _ _ _ _ c])
  qed
qed

lemma validateCancel_again:
  assumes "validateCancel input i = Inr v" "v_intent v = Cancel j"
    "\<forall>k c. ca_target i \<noteq> OtherTarget k c"
  shows "validateCancel input j = Inr v"
proof (cases "ca_target i")
  case (ByOid n)
  with assms have "j = i"
    by (auto elim!: validateCancel_Inr simp: CLOID_PATTERN_def prefixed_def)
  with assms(1) show ?thesis by simp
next
  case (ByCloid c)
  with assms(1,2) have c: "CLOID_PATTERN c" and j: "j = i\<lparr>ca_target := ByCloid (toLowerCase c)\<rparr>"
    by (auto elim!: validateCancel_Inr)
  have "validateCancel input j = validateCancel input i"
    using c CLOID_lower [OF c]
    by (simp add: validateCancel_def j ByCloid parseCloid_def
        cancelMatches_by_cloid(2) [of _ _ c _ "toLowerCase c"] cong: option.case_cong)
  with assms(1) show ?thesis by simp
next
  case (OtherTarget k c)
  with assms(3) show ?thesis by blast
qed

end
