(* ===== verification/Validated.thy ===== *)
theory Validated
  imports Validation
begin

text \<open>
  What an action that passed the validator of theory \<open>Validation\<close> satisfies, whatever its kind:
  its context is current, its price keeps to the slippage bound, a reduce-only order reduces, an
  opening order is covered by the margin, a cancel names an open order, and validating the
  validated action again changes nothing.
\<close>

section \<open>The kinds of validated action\<close>

lemma validateLeverage_Inr:
  "validateLeverage input i = Inr v \<Longrightarrow>
     \<exists>assetId leverage mx version.
       ul_assetId i = IntN assetId \<and> 0 \<le> assetId \<and> safe_int assetId \<and>
       assertTradableMarket (i_market input) assetId = Inr () \<and>
       m_family (i_market input) = Perp \<and>
       (ul_marginMode i = Cross \<or> ul_marginMode i = Isolated) \<and>
       (m_onlyIsolated (i_market input) = Some True \<longrightarrow> ul_marginMode i = Isolated) \<and>
       ul_leverage i = IntN leverage \<and> m_maxLeverage (i_market input) = Some (IntN mx) \<and>
       safe_int leverage \<and> 1 \<le> leverage \<and> leverage \<le> min mx 100 \<and>
       v = \<lparr>v_intent = UpdateLeverage i, v_notional = None, v_accountStateVersion = version,
            v_marketCanonicalId = m_canonicalId (i_market input)\<rparr>"
  unfolding validateLeverage_def
  by (auto simp: result_simps simp del: case_option_Inr
      split: option.splits js_number.splits prod.splits)

text \<open>A validated action went through the branch of its own kind of intent.\<close>

lemma validateTradingAction_Inr:
  assumes "validateTradingAction caps ga input = Inr v"
  obtains "assertCurrentContext caps ga (i_context input) = Inr ()"
    "dispatchIntent input (i_intent input) = Inr v"
  using assms by (auto simp: validateTradingAction_def)

lemma order_trading_intent_neq [simp]:
  "order_trading_intent i \<noteq> PositionTpsl t" "order_trading_intent i \<noteq> Cancel c"
  "order_trading_intent i \<noteq> UpdateLeverage l" "order_trading_intent i \<noteq> BulkCancel b"
  "PositionTpsl t \<noteq> order_trading_intent i" "Cancel c \<noteq> order_trading_intent i"
  "UpdateLeverage l \<noteq> order_trading_intent i"
  by (cases i; simp)+

lemma validateOrder_shape:
  "validateOrder input i = Inr v \<Longrightarrow> \<exists>j. v_intent v = order_trading_intent j"
  by (erule validateOrder_Inr) auto

lemma validatePositionTpsl_shape:
  "validatePositionTpsl input i = Inr v \<Longrightarrow> \<exists>j. v_intent v = PositionTpsl j"
  by (erule validatePositionTpsl_Inr) auto

lemma validateCancel_shape:
  "validateCancel input i = Inr v \<Longrightarrow> \<exists>j. v_intent v = Cancel j"
  by (erule validateCancel_Inr) auto

lemma dispatchIntent_cases [consumes 1, case_names Order Tpsl Cancel Leverage]:
  assumes "dispatchIntent input i = Inr v"
  obtains
    (Order) o1 where "i = order_trading_intent o1" "validateOrder input o1 = Inr v"
  | (Tpsl) t1 t2 where "i = PositionTpsl t1" "validatePositionTpsl input t1 = Inr v"
      "v_intent v = PositionTpsl t2"
  | (Cancel) c1 c2 where "i = Cancel c1" "validateCancel input c1 = Inr v" "v_intent v = Cancel c2"
  | (Leverage) l where "i = UpdateLeverage l" "validateLeverage input l = Inr v"
      "v_intent v = UpdateLeverage l"
proof (cases i)
  case (MarketOrder x)
  with assms Order [of "OMarket x"] show thesis by auto
next
  case (LimitOrder x)
  with assms Order [of "OLimit x"] show thesis by auto
next
  case (ReduceOnlyClose x)
  with assms Order [of "OClose x"] show thesis by auto
next
  case (PositionTpsl x)
  with assms Tpsl [of x] validatePositionTpsl_shape [of input x v] show thesis by auto
next
  case (Cancel x)
  with assms that(3) [of x] validateCancel_shape [of input x v] show thesis by auto
next
  case (UpdateLeverage x)
  with assms Leverage [of x] validateLeverage_Inr [of input x v] show thesis by auto
qed (use assms in auto)

text \<open>The side, the limit price and the price the slippage is measured from.\<close>

fun execution_terms :: "TradingActionValidationInput \<Rightarrow> trading_intent \<Rightarrow> (order_side \<times> string \<times> string option) option"
  where
  "execution_terms input (MarketOrder i) =
     Some (mo_side i, mo_aggressiveLimitPrice i, m_referencePrice (i_market input))"
| "execution_terms input (ReduceOnlyClose i) =
     Some (rc_side i, rc_aggressiveLimitPrice i, m_referencePrice (i_market input))"
| "execution_terms input (PositionTpsl i) =
     Some (pt_side i, pt_aggressiveLimitPrice i, Some (pt_triggerPrice i))"
| "execution_terms input _ = None"

text \<open>The side and size of an intent that may only reduce, and whether it closes in full.\<close>

fun reduce_only_terms :: "trading_intent \<Rightarrow> (order_side \<times> string \<times> bool) option" where
  "reduce_only_terms (ReduceOnlyClose i) = Some (rc_side i, rc_size i, True)"
| "reduce_only_terms (PositionTpsl i) = Some (pt_side i, pt_size i, True)"
| "reduce_only_terms (LimitOrder i) =
     (if lo_reduceOnly i then Some (lo_side i, lo_size i, False) else None)"
| "reduce_only_terms _ = None"

text \<open>The size and price of an intent that may open a position.\<close>

fun opening_terms :: "trading_intent \<Rightarrow> (string \<times> string) option" where
  "opening_terms (MarketOrder i) = Some (mo_size i, mo_aggressiveLimitPrice i)"
| "opening_terms (LimitOrder i) =
     (if lo_reduceOnly i then None else Some (lo_size i, lo_limitPrice i))"
| "opening_terms _ = None"

lemma execution_terms_order:
  "execution_terms input (order_trading_intent (order_with i sz pr c)) = Some (side, price, r) \<Longrightarrow>
     \<not> is_limit i \<and> side = order_side_of i \<and> price = pr \<and> r = m_referencePrice (i_market input)"
  by (cases i) auto

lemma reduce_only_terms_order:
  "reduce_only_terms (order_trading_intent (order_with i sz pr c)) = Some (side, s, full) \<Longrightarrow>
     side = order_side_of i \<and> s = sz \<and> (full \<longrightarrow> is_close i) \<and> (\<not> full \<longrightarrow> limit_reduceOnly i)"
  by (cases i) (auto split: if_splits)

lemma opening_terms_order:
  "opening_terms (order_trading_intent (order_with i sz pr c)) = Some (s, p) \<Longrightarrow>
     s = sz \<and> p = pr \<and> \<not> is_close i \<and> \<not> limit_reduceOnly i"
  by (cases i) (auto split: if_splits)

lemma validated_order_execution:
  assumes "validateOrder input i = Inr v" "execution_terms input (v_intent v) = Some (side, price, r)"
  shows "r = m_referencePrice (i_market input)" "assertSlippage input side price = Inr ()"
    "side = Buy \<or> side = Sell"
  using assms by - (erule validateOrder_Inr, force dest!: execution_terms_order)+

lemma validated_order_reduce_only:
  assumes "validateOrder input i = Inr v" "reduce_only_terms (v_intent v) = Some (side, sz, full)"
  shows "assertReduceOnly input side sz full = Inr ()"
  using assms by - (erule validateOrder_Inr, cases full, force dest!: reduce_only_terms_order,
      force dest!: reduce_only_terms_order)

lemma validated_order_opening:
  assumes "validateOrder input i = Inr v" "opening_terms (v_intent v) = Some (sz, price)"
  obtains d where "assertMargin input d False = Inr ()"
    "dec_val d = decimal_value sz * decimal_value price" "v_notional v = Some (formatDecimal d)"
  using assms by - (erule validateOrder_Inr,
      force dest!: opening_terms_order simp: multiplyDecimal_val parseDecimal_value)

lemma validated_tpsl:
  assumes "validatePositionTpsl input i = Inr v" "v_intent v = PositionTpsl j"
  shows "\<exists>trigger. normalizePrice (pt_triggerPrice i) (i_market input) = Inr (pt_triggerPrice j) \<and>
           parseDecimal (pt_triggerPrice j) ''intent.triggerPrice'' = Inr trigger \<and>
           assertTpslSlippage input (pt_side j) (pt_aggressiveLimitPrice j) trigger = Inr ()"
    and "assertReduceOnly input (pt_side j) (pt_size j) True = Inr ()"
    and "pt_side j = Buy \<or> pt_side j = Sell"
  by (rule validatePositionTpsl_Inr [OF assms(1)]; use assms(2) in force)+

section \<open>The properties of a validated action\<close>

text \<open>
  A validated action was reviewed in the context that is current now: the program grants its
  network both signer access and transport, and network, accounts and context epoch are those
  of the review, which has not expired.
\<close>

theorem validated_context_is_current:
  assumes "validateTradingAction ACTION_CAPABILITIES ga input = Inr v"
  defines "ctx \<equiv> i_context input"
  shows "(c_network ctx = Mainnet \<or> c_network ctx = Testnet) \<and>
     c_currentNetwork ctx = c_network ctx \<and>
     same_address ga (c_currentMasterAccount ctx) (c_masterAccount ctx) \<and>
     same_address ga (c_currentTargetAccount ctx) (c_targetAccount ctx) \<and>
     c_currentContextEpoch ctx = c_capturedContextEpoch ctx \<and>
     js_less (c_reviewedAtMs ctx) (c_reviewExpiresAtMs ctx) \<and>
     js_less (c_nowMs ctx) (c_reviewExpiresAtMs ctx)"
  using assms
  by (auto elim!: validateTradingAction_Inr simp: assertCurrentContext_Inr)

text \<open>
  C33. A market order, a full close and a protective order carry a limit price within the reviewed
  slippage, at most five percent, of the reference price (of the trigger price for a
  protective order).
\<close>

theorem validated_slippage:
  assumes "validateTradingAction caps ga input = Inr v"
    and "execution_terms input (v_intent v) = Some (side, price, reference)"
  shows "\<exists>n r. k_slippageBps (i_controls input) = Some (IntN n) \<and> 0 \<le> n \<and> n \<le> 500 \<and>
     (side = Buy \<or> side = Sell) \<and> reference = Some r \<and> 0 < decimal_value r \<and>
     within_slippage side n (decimal_value r) (decimal_value price)"
  using assms(1)
proof (cases rule: validateTradingAction_Inr)
  case 1
  from 1(2) show ?thesis
  proof (cases rule: dispatchIntent_cases)
    case (Order o1)
    from validated_order_execution [OF Order(2) assms(2)] show ?thesis
      by (auto simp: assertSlippage_Inr parseDecimal_value dest!: dec_val_pos [THEN iffD2])
  next
    case (Tpsl t1 t2)
    then have terms: "side = pt_side t2" "price = pt_aggressiveLimitPrice t2"
      "reference = Some (pt_triggerPrice t2)"
      using assms(2) by simp_all
    from validated_tpsl(1) [OF Tpsl(2,3)] obtain trigger where
      t: "normalizePrice (pt_triggerPrice t1) (i_market input) = Inr (pt_triggerPrice t2)"
        "parseDecimal (pt_triggerPrice t2) ''intent.triggerPrice'' = Inr trigger"
        "assertTpslSlippage input side price trigger = Inr ()"
      using terms by blast
    with validated_tpsl(3) [OF Tpsl(2,3)] normalizePrice_value(1,3) [OF t(1,2)] show ?thesis
      by (auto simp: terms assertTpslSlippage_Inr parseDecimal_value)
  qed (use assms(2) in auto)
qed

text \<open>
  C35. A full close, a protective order and a reduce-only limit order act on the side opposite to the
  current position and never exceed it, so the position that a complete fill leaves has kept
  its sign or is zero; the first two close it exactly.
\<close>

theorem validated_reduce_only:
  assumes "validateTradingAction caps ga input = Inr v"
    and "reduce_only_terms (v_intent v) = Some (side, sz, full)"
  defines "position \<equiv> position_value (i_account input)"
  shows "m_family (i_market input) = Perp \<and> position \<noteq> 0 \<and>
     side = (if 0 < position then Sell else Buy) \<and>
     decimal_value sz \<le> \<bar>position\<bar> \<and> (full \<longrightarrow> decimal_value sz = \<bar>position\<bar>)"
proof -
  have "assertReduceOnly input side sz full = Inr ()"
    using assms(1)
  proof (cases rule: validateTradingAction_Inr)
    case 1
    from 1(2) show ?thesis
    proof (cases rule: dispatchIntent_cases)
      case (Order o1)
      then show ?thesis using validated_order_reduce_only assms(2) by blast
    next
      case (Tpsl t1 t2)
      then show ?thesis using validated_tpsl(2) [OF Tpsl(2,3)] assms(2) by auto
    qed (use assms(2) in auto)
  qed
  from assertReduceOnly_Inr [OF this] show ?thesis by (auto simp: position_def)
qed

text \<open>
  C36. An order that may open a position has a notional value, size times price, of at least the
  market's minimum and at most the available margin times the current leverage, which is
  within the market's maximum; the notional shown is that product.
\<close>

theorem validated_margin:
  assumes "validateTradingAction caps ga input = Inr v"
    and "opening_terms (v_intent v) = Some (sz, price)"
  defines "notional \<equiv> decimal_value sz * decimal_value price"
  shows "\<exists>leverage cap.
     effective_leverage input = Some (IntN leverage) \<and> leverage_cap input = Some (IntN cap) \<and>
     1 \<le> leverage \<and> leverage \<le> cap \<and>
     notional \<le> decimal_value (a_availableMargin (i_account input)) * of_int leverage \<and>
     (\<forall>m. m_minimumNotional (i_market input) = Some m \<longrightarrow> decimal_value m \<le> notional) \<and>
     (\<exists>shown. v_notional v = Some shown \<and> decimal_value shown = notional)"
  using assms(1)
proof (cases rule: validateTradingAction_Inr)
  case 1
  from 1(2) show ?thesis
  proof (cases rule: dispatchIntent_cases)
    case (Order o1)
    from validated_order_opening [OF Order(2) assms(2)] obtain d where
      d: "assertMargin input d False = Inr ()" "dec_val d = notional" "v_notional v = Some (formatDecimal d)"
      unfolding notional_def by blast
    from d(1) show ?thesis
      by (rule assertMargin_Inr) (use d in \<open>auto simp: formatDecimal_value\<close>)
  qed (use assms(2) in auto)
qed

text \<open>The catch-all constructor of a cancel target stands for the other kinds only.\<close>

fun wf_intent :: "trading_intent \<Rightarrow> bool" where
  "wf_intent (Cancel i) =
     (case ca_target i of OtherTarget k _ \<Rightarrow> k \<noteq> ''oid'' \<and> k \<noteq> ''cloid'' | _ \<Rightarrow> True)"
| "wf_intent _ = True"

lemma wf_intent_cancel:
  "wf_intent (Cancel i) \<Longrightarrow> validateCancel input i = Inr v \<Longrightarrow> \<forall>k c. ca_target i \<noteq> OtherTarget k c"
  by (auto simp: validateCancel_def)

text \<open>
  Validation normalises: when the validated intent is validated again in the same context,
  the result is the same, so what is reviewed, built and signed later is what was checked.
\<close>

theorem validated_idempotent:
  assumes "validateTradingAction caps ga input = Inr v"
    and "wf_intent (i_intent input)"
  shows "validateTradingAction caps ga (input\<lparr>i_intent := v_intent v\<rparr>) = Inr v"
proof -
  from assms(1) have d: "dispatchIntent input (i_intent input) = Inr v"
    by (rule validateTradingAction_Inr)
  then have "dispatchIntent (input\<lparr>i_intent := v_intent v\<rparr>) (v_intent v) = Inr v"
  proof (cases rule: dispatchIntent_cases)
    case (Order o1)
    then obtain o2 where "v_intent v = order_trading_intent o2"
      using validateOrder_shape by blast
    moreover from this have "validateOrder input o2 = Inr v"
      using validateOrder_again [OF Order(2)] by blast
    ultimately show ?thesis by (cases o2) auto
  next
    case (Tpsl t1 t2)
    then show ?thesis using validatePositionTpsl_again [OF Tpsl(2,3)] by simp
  next
    case (Cancel c1 c2)
    then have "\<forall>k c. ca_target c1 \<noteq> OtherTarget k c"
      using wf_intent_cancel [OF _ Cancel(2)] assms(2) by simp
    then show ?thesis using Cancel(3) validateCancel_again [OF Cancel(2,3)] by simp
  next
    case (Leverage l)
    then show ?thesis by simp
  qed
  with assms(1) show ?thesis by (simp add: validateTradingAction_def)
qed

text \<open>
  A validated cancel names, by its asset and its order ID or lower-case client order ID, an order
  that is open in the current account state, on the market it was reviewed for.
\<close>

theorem validated_cancel_is_open:
  assumes "validateTradingAction caps ga input = Inr v" "v_intent v = Cancel j"
  shows "\<exists>orders order assetId. a_openOrders (i_account input) = Some orders \<and> order \<in> set orders \<and>
     names_order (ca_assetId j) (ca_target j) order \<and>
     ca_assetId j = IntN assetId \<and> tradable_market (i_market input) assetId"
  using assms(1)
proof (cases rule: validateTradingAction_Inr)
  case 1
  from 1(2) show ?thesis
  proof (cases rule: dispatchIntent_cases)
    case (Cancel c1 c2)
    from Cancel(2) show ?thesis
      by (rule validateCancel_Inr) (use assms(2) in \<open>force dest: assertTradableMarket_tradable\<close>)
  next
    case (Order o1)
    then show ?thesis using assms(2) validateOrder_shape [OF Order(2)] by auto
  qed (use assms(2) in auto)
qed

text \<open>
  A validated leverage update is for a perpetual market that trades, is between one and the
  smaller of the market's maximum and one hundred, and keeps an isolated-only market isolated.
\<close>

theorem validated_leverage_bound:
  assumes "validateTradingAction caps ga input = Inr v" "v_intent v = UpdateLeverage j"
  shows "\<exists>leverage mx assetId. ul_leverage j = IntN leverage \<and>
     m_maxLeverage (i_market input) = Some (IntN mx) \<and> 1 \<le> leverage \<and> leverage \<le> min mx 100 \<and>
     ul_assetId j = IntN assetId \<and> tradable_market (i_market input) assetId \<and>
     m_family (i_market input) = Perp \<and>
     (m_onlyIsolated (i_market input) = Some True \<longrightarrow> ul_marginMode j = Isolated)"
  using assms(1)
proof (cases rule: validateTradingAction_Inr)
  case 1
  from 1(2) show ?thesis
  proof (cases rule: dispatchIntent_cases)
    case (Leverage l)
    with assms(2) validateLeverage_Inr [OF Leverage(2)] show ?thesis
      by (auto dest: assertTradableMarket_tradable)
  next
    case (Order o1)
    then show ?thesis using assms(2) validateOrder_shape [OF Order(2)] by auto
  qed (use assms(2) in auto)
qed

section \<open>Concrete actions\<close>

text \<open>
  A perpetual market at a reference price of 100 with a long position of 2.5, one open order, and
  an address parser that accepts every 42-character string as it is.
\<close>

definition sample_getAddress :: address_parser where
  "sample_getAddress s = (if length s = 42 then Some s else None)"

definition sample_address :: string where
  "sample_address = ''0x00000000000000000000000000000000000000aa''"

definition sample_cloid :: string where
  "sample_cloid = ''0x000000000000000000000000000000AB''"

definition sample_input :: "string list \<Rightarrow> js_number option \<Rightarrow> trading_intent \<Rightarrow> TradingActionValidationInput"
  where
  "sample_input keys bps intent =
     \<lparr>i_context =
        \<lparr>c_network = Testnet, c_masterAccount = sample_address, c_targetAccount = sample_address,
         c_capturedContextEpoch = IntN 3, c_currentContextEpoch = IntN 3, c_currentNetwork = Testnet,
         c_currentMasterAccount = sample_address, c_currentTargetAccount = sample_address,
         c_reviewedAtMs = IntN 1000, c_reviewExpiresAtMs = IntN 2000, c_nowMs = IntN 1500\<rparr>,
      i_market =
        \<lparr>m_canonicalId = ''perp:BTC'', m_metadataFingerprint = ''f'', m_orderAssetId = IntN 7,
         m_family = Perp, m_lifecycle = Active, m_orderAvailability = Enabled,
         m_sizeDecimals = Some (IntN 2),
         m_pricePrecision = Some \<lparr>maxSignificantFigures = IntN 5, maxDecimalPlaces = IntN 4\<rparr>,
         m_maxLeverage = Some (IntN 20), m_onlyIsolated = None, m_referencePrice = Some ''100'',
         m_minimumNotional = Some ''10''\<rparr>,
      i_account =
        \<lparr>a_availableMargin = ''50.5'', a_leverage = Some (IntN 10), a_marginMode = Some Cross,
         a_positionSize = Some ''2.50'',
         a_openOrders = Some [\<lparr>oo_assetId = IntN 7, oo_oid = Some (IntN 42), oo_cloid = Some sample_cloid\<rparr>],
         a_version = IntN 1\<rparr>,
      i_controls = \<lparr>k_slippageBps = bps, k_trigger = None\<rparr>,
      i_intent = intent, i_intentKeys = keys, i_targetKeys = [''kind'', ''cloid'']\<rparr>"

definition sample_market_order :: TradingActionValidationInput where
  "sample_market_order = sample_input aggressive_fields (Some (IntN 50))
     (MarketOrder \<lparr>mo_assetId = IntN 7, mo_side = Buy, mo_size = ''2.0'',
        mo_aggressiveLimitPrice = ''100.50'', mo_cloid = sample_cloid\<rparr>)"

definition sample_close :: TradingActionValidationInput where
  "sample_close = sample_input aggressive_fields (Some (IntN 50))
     (ReduceOnlyClose \<lparr>rc_assetId = IntN 7, rc_side = Sell, rc_size = ''2.5'',
        rc_aggressiveLimitPrice = ''99.5'', rc_cloid = sample_cloid\<rparr>)"

definition sample_cancel :: TradingActionValidationInput where
  "sample_cancel = sample_input [''type'', ''assetId'', ''target''] None
     (Cancel \<lparr>ca_assetId = IntN 7, ca_target = ByCloid sample_cloid\<rparr>)"

definition sample_leverage :: TradingActionValidationInput where
  "sample_leverage = sample_input [''type'', ''assetId'', ''leverage'', ''marginMode''] None
     (UpdateLeverage \<lparr>ul_assetId = IntN 7, ul_marginMode = Cross, ul_leverage = IntN 5\<rparr>)"

lemma sample_market_order_validates:
  "validateTradingAction ACTION_CAPABILITIES sample_getAddress sample_market_order =
     Inr \<lparr>v_intent = MarketOrder \<lparr>mo_assetId = IntN 7, mo_side = Buy, mo_size = ''2'',
            mo_aggressiveLimitPrice = ''100.5'', mo_cloid = ''0x000000000000000000000000000000ab''\<rparr>,
          v_notional = Some ''201'', v_accountStateVersion = 1, v_marketCanonicalId = ''perp:BTC''\<rparr>"
  by code_simp

lemma sample_close_validates:
  "validateTradingAction ACTION_CAPABILITIES sample_getAddress sample_close =
     Inr \<lparr>v_intent = ReduceOnlyClose \<lparr>rc_assetId = IntN 7, rc_side = Sell, rc_size = ''2.5'',
            rc_aggressiveLimitPrice = ''99.5'', rc_cloid = ''0x000000000000000000000000000000ab''\<rparr>,
          v_notional = Some ''248.75'', v_accountStateVersion = 1, v_marketCanonicalId = ''perp:BTC''\<rparr>"
  by code_simp

lemma sample_cancel_validates:
  "validateTradingAction ACTION_CAPABILITIES sample_getAddress sample_cancel =
     Inr \<lparr>v_intent = Cancel \<lparr>ca_assetId = IntN 7,
            ca_target = ByCloid ''0x000000000000000000000000000000ab''\<rparr>,
          v_notional = None, v_accountStateVersion = 1, v_marketCanonicalId = ''perp:BTC''\<rparr>"
  by code_simp

lemma sample_leverage_validates:
  "validateTradingAction ACTION_CAPABILITIES sample_getAddress sample_leverage =
     Inr \<lparr>v_intent = UpdateLeverage \<lparr>ul_assetId = IntN 7, ul_marginMode = Cross, ul_leverage = IntN 5\<rparr>,
          v_notional = None, v_accountStateVersion = 1, v_marketCanonicalId = ''perp:BTC''\<rparr>"
  by code_simp

theorem validated_context_is_current_witness:
  "c_currentContextEpoch (i_context sample_market_order) = c_capturedContextEpoch (i_context sample_market_order) \<and>
   js_less (c_nowMs (i_context sample_market_order)) (c_reviewExpiresAtMs (i_context sample_market_order))"
  using validated_context_is_current [OF sample_market_order_validates] by blast

theorem validated_slippage_witness:
  "0 < decimal_value ''100'' \<and> within_slippage Buy 50 (decimal_value ''100'') (decimal_value ''100.5'')"
  using validated_slippage [OF sample_market_order_validates, of Buy "''100.5''" "Some ''100''"]
  by (simp add: sample_market_order_def sample_input_def)

theorem validated_reduce_only_witness:
  "decimal_value ''2.5'' = \<bar>position_value (i_account sample_close)\<bar>"
  using validated_reduce_only [OF sample_close_validates, of Sell "''2.5''" True] by simp

theorem validated_margin_witness:
  "\<exists>leverage. effective_leverage sample_market_order = Some (IntN leverage) \<and>
     decimal_value ''2'' * decimal_value ''100.5''
       \<le> decimal_value (a_availableMargin (i_account sample_market_order)) * of_int leverage"
  using validated_margin [OF sample_market_order_validates, of "''2''" "''100.5''"] by auto

theorem validated_idempotent_witness:
  "validateTradingAction ACTION_CAPABILITIES sample_getAddress
     (sample_cancel\<lparr>i_intent := Cancel \<lparr>ca_assetId = IntN 7,
        ca_target = ByCloid ''0x000000000000000000000000000000ab''\<rparr>\<rparr>) =
   validateTradingAction ACTION_CAPABILITIES sample_getAddress sample_cancel"
  using validated_idempotent [OF sample_cancel_validates] sample_cancel_validates
  by (simp add: sample_cancel_def sample_input_def)

theorem validated_cancel_is_open_witness:
  "\<exists>orders order. a_openOrders (i_account sample_cancel) = Some orders \<and> order \<in> set orders \<and>
     names_order (IntN 7) (ByCloid ''0x000000000000000000000000000000ab'') order"
  using validated_cancel_is_open [OF sample_cancel_validates] by fastforce

theorem validated_leverage_bound_witness:
  "\<exists>mx. m_maxLeverage (i_market sample_leverage) = Some (IntN mx) \<and> 5 \<le> min mx 100"
  using validated_leverage_bound [OF sample_leverage_validates] by fastforce

end
