(* ===== verification/Nonces.thy ===== *)
theory Nonces
  imports Prelude
begin

text \<open>
  The clock gate and nonce allocation: \<^verbatim>\<open>packages/hyperliquid/src/nonces/allocation.ts\<close>.
  A nonce is the device's wall time in milliseconds, pushed past the last nonce issued when the
  clock has not moved; an action expires \<open>ACTION_EXPIRY_MS\<close> after that wall time.
\<close>

section \<open>The clock gate\<close>

definition ACTION_EXPIRY_MS :: int where "ACTION_EXPIRY_MS = 15000"
definition MAX_CLOCK_ROLLBACK_MS :: int where "MAX_CLOCK_ROLLBACK_MS = 1000"
definition MAX_SERVER_SAMPLE_AGE_MS :: int where "MAX_SERVER_SAMPLE_AGE_MS = 30000"
definition MAX_SERVER_SKEW_MS :: int where "MAX_SERVER_SKEW_MS = 5000"

lemmas clock_limits = ACTION_EXPIRY_MS_def MAX_CLOCK_ROLLBACK_MS_def
  MAX_SERVER_SAMPLE_AGE_MS_def MAX_SERVER_SKEW_MS_def

record ClockGateInput =
  wallTimeMs :: js_number
  monotonicTimeMs :: js_number
  serverTimeMs :: js_number
  serverSampledAtMonotonicMs :: js_number
  lastObservedWallMs :: "js_number option"

definition safeMilliseconds :: "js_number \<Rightarrow> string \<Rightarrow> int result" where
  "safeMilliseconds value path =
     (case value of
        IntN i \<Rightarrow> (if \<not> isSafeInteger value \<or> i < 0
                  then invalid path ''expected a non-negative safe-integer millisecond value''
                  else Inr i)
      | _ \<Rightarrow> invalid path ''expected a non-negative safe-integer millisecond value'')"

definition assertClockGate :: "ClockGateInput \<Rightarrow> unit result" where
  "assertClockGate clock =
     bindE (safeMilliseconds (wallTimeMs clock) ''clock.wallTimeMs'') (\<lambda>wall.
     bindE (safeMilliseconds (monotonicTimeMs clock) ''clock.monotonicTimeMs'') (\<lambda>monotonic.
     bindE (safeMilliseconds (serverTimeMs clock) ''clock.serverTimeMs'') (\<lambda>server.
     bindE (safeMilliseconds (serverSampledAtMonotonicMs clock) ''clock.serverSampledAtMonotonicMs'')
       (\<lambda>sampledAt.
     bindE (throw_if (sampledAt > monotonic \<or> monotonic - sampledAt > MAX_SERVER_SAMPLE_AGE_MS)
              (HyperliquidValidationError ''clock.serverSample''
                 ''the authoritative server-time sample is missing or stale'')) (\<lambda>_.
     let advancedServerTime = server + (monotonic - sampledAt) in
     bindE (throw_if
              (\<not> safe_int advancedServerTime \<or> \<bar>wall - advancedServerTime\<bar> > MAX_SERVER_SKEW_MS)
              (HyperliquidValidationError ''clock.skew''
                 ''device and Hyperliquid time differ by more than 5 seconds'')) (\<lambda>_.
     case lastObservedWallMs clock of
       None \<Rightarrow> Inr ()
     | Some observed \<Rightarrow>
         bindE (safeMilliseconds observed ''clock.lastObservedWallMs'') (\<lambda>lastObserved.
           throw_if (lastObserved - wall > MAX_CLOCK_ROLLBACK_MS)
             (HyperliquidValidationError ''clock.rollback''
                ''the device wall clock moved backwards by more than 1 second''))))))))"

section \<open>Allocation\<close>

record NonceAllocation =
  nonce :: int
  expiresAfterMs :: int
  observedWallMs :: int

text \<open>After the gate the wall time is a safe integer; no other branch is reachable.\<close>

definition allocateNonce :: "ClockGateInput \<Rightarrow> js_number option \<Rightarrow> NonceAllocation result" where
  "allocateNonce clock lastIssuedNonce =
     bindE (assertClockGate clock) (\<lambda>_.
     bindE (case lastIssuedNonce of
              None \<Rightarrow> Inr None
            | Some n \<Rightarrow> bindE (safeMilliseconds n ''lastIssuedNonce'') (\<lambda>p. Inr (Some p))) (\<lambda>prior.
     bindE (safeMilliseconds (wallTimeMs clock) ''clock.wallTimeMs'') (\<lambda>wall.
     let next = max wall ((case prior of Some p \<Rightarrow> p | None \<Rightarrow> -1) + 1);
         expires = wall + ACTION_EXPIRY_MS
     in bindE (throw_if (\<not> safe_int expires \<or> expires \<le> next)
                 (HyperliquidValidationError ''expiresAfterMs''
                    ''the next signer nonce is too far ahead of validated wall time'')) (\<lambda>_.
        Inr \<lparr>nonce = next, expiresAfterMs = expires, observedWallMs = wall\<rparr>))))"

section \<open>What the gate and the allocation establish\<close>

lemma safeMilliseconds_Inr [result_simps]:
  "safeMilliseconds v p = Inr i \<longleftrightarrow> v = IntN i \<and> safe_int i \<and> 0 \<le> i"
  by (cases v) (auto simp: safeMilliseconds_def)

lemma assertClockGate_Inr:
  "assertClockGate clock = Inr u \<longleftrightarrow>
     (\<exists>wall monotonic server sampledAt.
        wallTimeMs clock = IntN wall \<and> monotonicTimeMs clock = IntN monotonic \<and>
        serverTimeMs clock = IntN server \<and> serverSampledAtMonotonicMs clock = IntN sampledAt \<and>
        safe_int wall \<and> 0 \<le> wall \<and> safe_int monotonic \<and> safe_int server \<and> 0 \<le> server \<and>
        0 \<le> sampledAt \<and> sampledAt \<le> monotonic \<and> monotonic - sampledAt \<le> 30000 \<and>
        safe_int (server + (monotonic - sampledAt)) \<and>
        \<bar>wall - (server + (monotonic - sampledAt))\<bar> \<le> 5000 \<and>
        (\<forall>observed. lastObservedWallMs clock = Some observed \<longrightarrow>
           (\<exists>last. observed = IntN last \<and> safe_int last \<and> 0 \<le> last \<and> last - wall \<le> 1000)))"
  unfolding assertClockGate_def
  by (auto simp: result_simps Let_def clock_limits not_less safe_int_def split: option.splits)

lemma allocateNonce_Inr:
  "allocateNonce clock prior = Inr a \<longleftrightarrow>
     assertClockGate clock = Inr () \<and>
     (\<exists>wall. wallTimeMs clock = IntN wall \<and> safe_int wall \<and> 0 \<le> wall \<and> safe_int (wall + 15000) \<and>
        (\<forall>p. prior = Some p \<longrightarrow> (\<exists>n. p = IntN n \<and> safe_int n \<and> 0 \<le> n)) \<and>
        nonce a = (case prior of Some (IntN n) \<Rightarrow> max wall (n + 1) | _ \<Rightarrow> wall) \<and>
        nonce a < wall + 15000 \<and>
        expiresAfterMs a = wall + 15000 \<and> observedWallMs a = wall)"
  unfolding allocateNonce_def
  by (cases a) (auto simp: result_simps Let_def clock_limits not_le max_def split: option.splits)

end
