(* ===== verification/Js_Value.thy ===== *)
theory Js_Value
  imports Prelude "HOL-Library.List_Lexorder" "HOL-Library.Countable" "HOL-Library.Multiset"
begin

text \<open>
  Values of type \<^verbatim>\<open>unknown\<close>, as the wire codec, the response classifier and the
  journal inspect them. A plain object is an association list in the order of its own keys; an
  object with another prototype is \<open>JExotic\<close>. Reading a member that is not there gives
  \<open>JUndefined\<close>.
\<close>

datatype js_value =
    JUndefined
  | JNull
  | JBool bool
  | JNum js_number
  | JStr string
  | JArr "js_value list"
  | JObj "(string \<times> js_value) list"
  | JExotic

type_synonym js_object = "(string \<times> js_value) list"

definition member :: "js_object \<Rightarrow> string \<Rightarrow> js_value" where
  "member obj key = (case map_of obj key of Some v \<Rightarrow> v | None \<Rightarrow> JUndefined)"

definition object_keys :: "js_object \<Rightarrow> string list" where
  "object_keys obj = map fst obj"

definition hasOwn :: "js_object \<Rightarrow> string \<Rightarrow> bool" where
  "hasOwn obj key \<longleftrightarrow> key \<in> set (object_keys obj)"

fun plain_object :: "js_value \<Rightarrow> js_object option" where
  "plain_object (JObj obj) = Some obj"
| "plain_object _ = None"

text \<open>A number that is a safe integer of at least \<open>m\<close>.\<close>

fun safe_at_least :: "int \<Rightarrow> js_value \<Rightarrow> int option" where
  "safe_at_least m (JNum (IntN i)) = (if safe_int i \<and> m \<le> i then Some i else None)"
| "safe_at_least m _ = None"

text \<open>A value that can occur: no object has the same key twice.\<close>

fun well_keyed :: "js_value \<Rightarrow> bool" where
  "well_keyed (JArr vs) = list_all well_keyed vs"
| "well_keyed (JObj obj) = (distinct (map fst obj) \<and> list_all (\<lambda>(_, v). well_keyed v) obj)"
| "well_keyed _ = True"

lemma member_simps [simp]:
  "member [] k = JUndefined"
  "member ((k', v) # obj) k = (if k = k' then v else member obj k)"
  by (simp_all add: member_def)

lemma safe_at_least_Some [simp]:
  "safe_at_least m v = Some i \<longleftrightarrow> v = JNum (IntN i) \<and> safe_int i \<and> m \<le> i"
  by (cases "(m, v)" rule: safe_at_least.cases) auto

lemma plain_object_Some [simp]: "plain_object v = Some obj \<longleftrightarrow> v = JObj obj"
  by (cases v) auto

text \<open>A match on one shape of value that throws on every other.\<close>

lemma case_JStr_Inr [result_simps]:
  "(case v of JStr s \<Rightarrow> f s | _ \<Rightarrow> Inl e) = Inr y \<longleftrightarrow> (\<exists>s. v = JStr s \<and> f s = Inr y)"
  by (cases v) auto

lemma case_JArr_Inr [result_simps]:
  "(case v of JArr vs \<Rightarrow> f vs | _ \<Rightarrow> Inl e) = Inr y \<longleftrightarrow> (\<exists>vs. v = JArr vs \<and> f vs = Inr y)"
  by (cases v) auto

text \<open>Two objects with the same keys and members differ only in the order of their keys.\<close>

lemma member_perm:
  assumes "distinct (map fst obj)" "mset obj = mset obj'"
  shows "member obj = member obj'"
proof -
  have "mset (map fst obj) = mset (map fst obj')" using assms(2) by simp
  then have d: "distinct (map fst obj')" using assms(1) mset_eq_imp_distinct_iff by blast
  have "set obj = set obj'" using assms(2) by (rule mset_eq_setD)
  then have "map_of obj = map_of obj'" using map_of_inject_set [OF assms(1) d] by simp
  then show ?thesis by (simp add: member_def fun_eq_iff)
qed

instance js_number :: countable by countable_datatype
instance js_value :: countable by countable_datatype

end
