(* ===== verification/Codec.thy ===== *)
theory Codec
  imports Actions Nonces Js_Value "HOL-Library.Word"
begin

text \<open>
  The wire codec: \<^verbatim>\<open>packages/hyperliquid/src/actions/codec.ts\<close>. An action of any shape is
  read back field by field into the canonical action, whose MessagePack bytes, nonce, vault and
  expiry make the preimage that is hashed and signed. MessagePack, the hash, the address parser
  and the byte conversions of viem are the members of a \<open>codec_lib\<close>.
\<close>

section \<open>Reading a wire object\<close>

definition assertExactKeys :: "js_object \<Rightarrow> string list \<Rightarrow> string \<Rightarrow> unit result" where
  "assertExactKeys value expected path =
     (let keys = sort (object_keys value); canonical = sort expected in
      throw_if (length keys \<noteq> length canonical \<or>
                list_ex (\<lambda>(k, c). k \<noteq> c) (zip keys canonical))
        (HyperliquidValidationError path ''unexpected wire fields''))"

definition objectAt :: "js_value \<Rightarrow> string \<Rightarrow> js_object result" where
  "objectAt value path =
     (case plain_object value of
        Some obj \<Rightarrow> Inr obj
      | None \<Rightarrow> invalid path ''expected a plain object'')"

definition assetId :: "js_value \<Rightarrow> string \<Rightarrow> int result" where
  "assetId value path =
     (case safe_at_least 0 value of
        Some i \<Rightarrow> Inr i
      | None \<Rightarrow> invalid path ''expected a non-negative safe integer'')"

definition cloid :: "js_value \<Rightarrow> string \<Rightarrow> string result" where
  "cloid value path =
     (case value of
        JStr s \<Rightarrow> (if \<not> CLOID_PATTERN s then invalid path ''expected a 128-bit cloid''
                   else Inr (toLowerCase s))
      | _ \<Rightarrow> invalid path ''expected a 128-bit cloid'')"

datatype wire_kind = LimitWire | TriggerWire

fun as_bool :: "js_value \<Rightarrow> bool option" where
  "as_bool (JBool b) = Some b"
| "as_bool _ = None"

text \<open>A string that is a canonical decimal and positive, or zero, as asked.\<close>

fun decimal_member :: "bool \<Rightarrow> js_value \<Rightarrow> string option" where
  "decimal_member zero (JStr s) =
     (if CANONICAL_POSITIVE_DECIMAL_PATTERN s \<and> ZERO_DECIMAL_PATTERN s = zero then Some s else None)"
| "decimal_member _ _ = None"

fun tif_member :: "js_value \<Rightarrow> time_in_force option" where
  "tif_member (JStr s) =
     (if s = ''Alo'' then Some Alo else if s = ''Gtc'' then Some Gtc
      else if s = ''Ioc'' then Some Ioc else None)"
| "tif_member _ = None"

definition canonicalOrderWire :: "js_value \<Rightarrow> string \<Rightarrow> wire_kind \<Rightarrow> OrderWire result" where
  "canonicalOrderWire value path kind =
     bindE (objectAt value path) (\<lambda>order.
     bindE (assertExactKeys order [''a'', ''b'', ''p'', ''s'', ''r'', ''t'', ''c''] path) (\<lambda>_.
     case (as_bool (member order ''b''), as_bool (member order ''r'')) of
       (Some b, Some r) \<Rightarrow>
         (case decimal_member False (member order ''p'') of
            None \<Rightarrow> invalid path ''price must be a positive canonical decimal string''
          | Some p \<Rightarrow>
         (case decimal_member (kind = TriggerWire) (member order ''s'') of
            None \<Rightarrow> invalid (path @ ''.s'')
                      (if kind = TriggerWire
                       then ''position TP/SL size must use the canonical zero sentinel''
                       else ''size must be a positive canonical decimal string'')
          | Some s \<Rightarrow>
         bindE (objectAt (member order ''t'') (path @ ''.t'')) (\<lambda>orderType.
         if kind = LimitWire then
           bindE (assertExactKeys orderType [''limit''] (path @ ''.t'')) (\<lambda>_.
           bindE (objectAt (member orderType ''limit'') (path @ ''.t.limit'')) (\<lambda>limit.
           bindE (assertExactKeys limit [''tif''] (path @ ''.t.limit'')) (\<lambda>_.
           case tif_member (member limit ''tif'') of
             None \<Rightarrow> invalid (path @ ''.t.limit.tif'') ''unknown time in force''
           | Some tif \<Rightarrow>
               bindE (assetId (member order ''a'') (path @ ''.a'')) (\<lambda>a.
               bindE (cloid (member order ''c'') (path @ ''.c'')) (\<lambda>c.
               Inr \<lparr>w_a = a, w_b = b, w_p = p, w_s = s, w_r = r, w_t = LimitT tif, w_c = c\<rparr>)))))
         else
           bindE (assertExactKeys orderType [''trigger''] (path @ ''.t'')) (\<lambda>_.
           bindE (objectAt (member orderType ''trigger'') (path @ ''.t.trigger'')) (\<lambda>trigger.
           bindE (assertExactKeys trigger [''isMarket'', ''triggerPx'', ''tpsl''] (path @ ''.t.trigger'')) (\<lambda>_.
           case (decimal_member False (member trigger ''triggerPx''), member trigger ''tpsl'') of
             (Some triggerPx, JStr tpsl) \<Rightarrow>
               bindE (throw_if (\<not> r \<or> as_bool (member trigger ''isMarket'') \<noteq> Some True \<or>
                                (tpsl \<noteq> ''tp'' \<and> tpsl \<noteq> ''sl''))
                        (HyperliquidValidationError (path @ ''.t.trigger'')
                           ''expected a reduce-only market TP/SL trigger'')) (\<lambda>_.
               bindE (assetId (member order ''a'') (path @ ''.a'')) (\<lambda>a.
               bindE (cloid (member order ''c'') (path @ ''.c'')) (\<lambda>c.
               Inr \<lparr>w_a = a, w_b = b, w_p = p, w_s = s, w_r = True,
                    w_t = TriggerT True triggerPx tpsl, w_c = c\<rparr>)))
           | _ \<Rightarrow> invalid (path @ ''.t.trigger'')
                    ''expected a reduce-only market TP/SL trigger''))))))
     | _ \<Rightarrow> invalid path ''side and reduceOnly must be booleans''))"

section \<open>Reading an action\<close>

definition cancels_path :: "nat \<Rightarrow> string \<Rightarrow> string" where
  "cancels_path index m = ''action.cancels['' @ show_nat index @ '']'' @ m"

definition canonicalOidCancel :: "nat \<Rightarrow> js_value \<Rightarrow> (int \<times> int) result" where
  "canonicalOidCancel index value =
     bindE (objectAt value (cancels_path index '''')) (\<lambda>cancel.
     bindE (assertExactKeys cancel [''a'', ''o''] (cancels_path index '''')) (\<lambda>_.
     case safe_at_least 0 (member cancel ''o'') of
       None \<Rightarrow> invalid (cancels_path index ''.o'') ''invalid order ID''
     | Some oid \<Rightarrow>
         bindE (assetId (member cancel ''a'') (cancels_path index ''.a'')) (\<lambda>a. Inr (a, oid))))"

definition canonicalCloidCancel :: "nat \<Rightarrow> js_value \<Rightarrow> (int \<times> string) result" where
  "canonicalCloidCancel index value =
     bindE (objectAt value (cancels_path index '''')) (\<lambda>cancel.
     bindE (assertExactKeys cancel [''asset'', ''cloid''] (cancels_path index '''')) (\<lambda>_.
     bindE (assetId (member cancel ''asset'') (cancels_path index ''.asset'')) (\<lambda>a.
     bindE (cloid (member cancel ''cloid'') (cancels_path index ''.cloid'')) (\<lambda>c. Inr (a, c)))))"

definition cancel_list :: "js_object \<Rightarrow> js_value list result" where
  "cancel_list raw =
     bindE (assertExactKeys raw [''type'', ''cancels''] ''action'') (\<lambda>_.
     case member raw ''cancels'' of
       JArr cancels \<Rightarrow>
         (if length cancels < 1 \<or> length cancels > MAX_BULK_CANCELS
          then invalid ''action.cancels'' ''invalid count'' else Inr cancels)
     | _ \<Rightarrow> invalid ''action.cancels'' ''invalid count'')"

definition canonicalOrder :: "js_object \<Rightarrow> exchange_action result" where
  "canonicalOrder raw =
     bindE (assertExactKeys raw [''type'', ''orders'', ''grouping''] ''action'') (\<lambda>_.
     case (member raw ''grouping'', member raw ''orders'') of
       (JStr grouping, JArr [order]) \<Rightarrow>
         (if grouping \<noteq> ''na'' \<and> grouping \<noteq> ''positionTpsl''
          then invalid ''action.orders'' ''expected one supported order''
          else bindE (canonicalOrderWire order ''action.orders[0]''
                        (if grouping = ''na'' then LimitWire else TriggerWire))
                 (\<lambda>w. Inr (OrderAction [w] grouping)))
     | _ \<Rightarrow> invalid ''action.orders'' ''expected one supported order'')"

definition canonicalModify :: "js_object \<Rightarrow> exchange_action result" where
  "canonicalModify raw =
     bindE (assertExactKeys raw [''type'', ''oid'', ''order''] ''action'') (\<lambda>_.
     case safe_at_least 1 (member raw ''oid'') of
       None \<Rightarrow> invalid ''action.oid'' ''expected a positive order ID''
     | Some oid \<Rightarrow>
         bindE (canonicalOrderWire (member raw ''order'') ''action.order'' TriggerWire)
           (\<lambda>w. Inr (ModifyOrderAction oid w)))"

definition canonicalLeverage :: "js_object \<Rightarrow> exchange_action result" where
  "canonicalLeverage raw =
     bindE (assertExactKeys raw [''type'', ''asset'', ''isCross'', ''leverage''] ''action'') (\<lambda>_.
     case (as_bool (member raw ''isCross''), safe_at_least 1 (member raw ''leverage'')) of
       (Some isCross, Some leverage) \<Rightarrow>
         (if leverage > 100
          then invalid ''action.updateLeverage'' ''invalid margin mode or leverage''
          else bindE (assetId (member raw ''asset'') ''action.asset'')
                 (\<lambda>a. Inr (UpdateLeverageAction a isCross leverage)))
     | _ \<Rightarrow> invalid ''action.updateLeverage'' ''invalid margin mode or leverage'')"

definition canonicalizeExchangeAction :: "js_value \<Rightarrow> exchange_action result" where
  "canonicalizeExchangeAction action =
     bindE (objectAt action ''action'') (\<lambda>raw.
     let type = member raw ''type'' in
     if type = JStr ''order'' then canonicalOrder raw
     else if type = JStr ''modify'' then canonicalModify raw
     else if type = JStr ''cancel'' then
       bindE (cancel_list raw) (\<lambda>cancels.
       bindE (mapiE 0 canonicalOidCancel cancels) (\<lambda>xs. Inr (CancelByOidAction xs)))
     else if type = JStr ''cancelByCloid'' then
       bindE (cancel_list raw) (\<lambda>cancels.
       bindE (mapiE 0 canonicalCloidCancel cancels) (\<lambda>xs. Inr (CancelByCloidAction xs)))
     else if type = JStr ''updateLeverage'' then canonicalLeverage raw
     else invalid ''action.type'' ''unsupported exchange action discriminator'')"

section \<open>The canonical action as an object\<close>

text \<open>
  The object the builders and the codec make for an action, with its keys in the order in which
  the source writes them: MessagePack keeps that order.
\<close>

fun tif_name :: "time_in_force \<Rightarrow> string" where
  "tif_name Alo = ''Alo''"
| "tif_name Gtc = ''Gtc''"
| "tif_name Ioc = ''Ioc''"
| "tif_name (OtherTif s) = s"

fun order_type_js :: "order_type_wire \<Rightarrow> js_value" where
  "order_type_js (LimitT tif) = JObj [(''limit'', JObj [(''tif'', JStr (tif_name tif))])]"
| "order_type_js (TriggerT isMarket triggerPx tpsl) =
     JObj [(''trigger'', JObj [(''isMarket'', JBool isMarket), (''triggerPx'', JStr triggerPx),
                               (''tpsl'', JStr tpsl)])]"

definition order_js :: "OrderWire \<Rightarrow> js_value" where
  "order_js w =
     JObj [(''a'', JNum (IntN (w_a w))), (''b'', JBool (w_b w)), (''p'', JStr (w_p w)),
           (''s'', JStr (w_s w)), (''r'', JBool (w_r w)), (''t'', order_type_js (w_t w)),
           (''c'', JStr (w_c w))]"

fun action_js :: "exchange_action \<Rightarrow> js_value" where
  "action_js (OrderAction orders grouping) =
     JObj [(''type'', JStr ''order''), (''orders'', JArr (map order_js orders)),
           (''grouping'', JStr grouping)]"
| "action_js (ModifyOrderAction oid order) =
     JObj [(''type'', JStr ''modify''), (''oid'', JNum (IntN oid)), (''order'', order_js order)]"
| "action_js (CancelByOidAction cancels) =
     JObj [(''type'', JStr ''cancel''),
           (''cancels'', JArr (map (\<lambda>(a, oid). JObj [(''a'', JNum (IntN a)), (''o'', JNum (IntN oid))]) cancels))]"
| "action_js (CancelByCloidAction cancels) =
     JObj [(''type'', JStr ''cancelByCloid''),
           (''cancels'', JArr (map (\<lambda>(a, c). JObj [(''asset'', JNum (IntN a)), (''cloid'', JStr c)]) cancels))]"
| "action_js (UpdateLeverageAction a isCross leverage) =
     JObj [(''type'', JStr ''updateLeverage''), (''asset'', JNum (IntN a)),
           (''isCross'', JBool isCross), (''leverage'', JNum (IntN leverage))]"

section \<open>Encoding\<close>

type_synonym bytes = "8 word list"

record codec_lib =
  encode :: "js_value \<Rightarrow> bytes"
  numberToBytes8 :: "int \<Rightarrow> bytes"
  hexToBytes :: "string \<Rightarrow> bytes"
  keccak256 :: "bytes \<Rightarrow> string"
  getAddress :: "string \<Rightarrow> string option"

record L1ActionEncodingInput =
  l1_action :: js_value
  l1_nonce :: js_number
  l1_vaultAddress :: "string option"
  l1_expiresAfter :: "js_number option"

record EncodedL1Action =
  e_actionBytes :: bytes
  e_actionHash :: string
  e_nonce :: int
  e_vaultAddress :: "string option"
  e_expiresAfter :: "int option"

definition uint64 :: "js_number \<Rightarrow> string \<Rightarrow> int result" where
  "uint64 value path =
     (case value of
        IntN i \<Rightarrow> (if \<not> isSafeInteger value \<or> i < 0
                  then invalid path ''expected a non-negative safe integer'' else Inr i)
      | _ \<Rightarrow> invalid path ''expected a non-negative safe integer'')"

definition uint64Bytes :: "codec_lib \<Rightarrow> js_number \<Rightarrow> string \<Rightarrow> bytes result" where
  "uint64Bytes lib value path = bindE (uint64 value path) (\<lambda>i. Inr (numberToBytes8 lib i))"

definition normalizeVaultAddress :: "codec_lib \<Rightarrow> string option \<Rightarrow> string option result" where
  "normalizeVaultAddress lib address =
     (case address of
        None \<Rightarrow> Inr None
      | Some a \<Rightarrow>
          (case getAddress lib a of
             Some v \<Rightarrow> Inr (Some v)
           | None \<Rightarrow> invalid ''vaultAddress'' ''expected a 20-byte Ethereum address''))"

definition validateExpiry :: "int \<Rightarrow> js_number option \<Rightarrow> int option result" where
  "validateExpiry n expiresAfter =
     (case expiresAfter of
        None \<Rightarrow> Inr None
      | Some e \<Rightarrow>
          bindE (uint64 e ''expiresAfter'') (\<lambda>expires.
            if expires \<le> n \<or> expires - n > ACTION_EXPIRY_MS
            then invalid ''expiresAfter''
                   (''expected a timestamp after nonce and within '' @ show_int ACTION_EXPIRY_MS @ '' ms'')
            else Inr (Some expires)))"

text \<open>\<^verbatim>\<open>concatBytes([actionBytes, nonceBytes, vaultBytes, expiryBytes])\<close>\<close>

definition vaultBytes :: "codec_lib \<Rightarrow> string option \<Rightarrow> bytes" where
  "vaultBytes lib vault = (case vault of None \<Rightarrow> [0] | Some v \<Rightarrow> [1] @ hexToBytes lib v)"

definition expiryBytes :: "codec_lib \<Rightarrow> int option \<Rightarrow> bytes" where
  "expiryBytes lib expires = (case expires of None \<Rightarrow> [] | Some e \<Rightarrow> [0] @ numberToBytes8 lib e)"

definition preimage :: "codec_lib \<Rightarrow> exchange_action \<Rightarrow> int \<Rightarrow> string option \<Rightarrow> int option \<Rightarrow> bytes" where
  "preimage lib action n vault expires =
     encode lib (action_js action) @ numberToBytes8 lib n @ vaultBytes lib vault @ expiryBytes lib expires"

definition encodeL1Action :: "codec_lib \<Rightarrow> L1ActionEncodingInput \<Rightarrow> EncodedL1Action result" where
  "encodeL1Action lib input =
     bindE (uint64 (l1_nonce input) ''nonce'') (\<lambda>n.
     bindE (canonicalizeExchangeAction (l1_action input)) (\<lambda>action.
     bindE (normalizeVaultAddress lib (l1_vaultAddress input)) (\<lambda>vault.
     bindE (validateExpiry n (l1_expiresAfter input)) (\<lambda>expires.
     Inr \<lparr>e_actionBytes = encode lib (action_js action),
          e_actionHash = keccak256 lib (preimage lib action n vault expires),
          e_nonce = n, e_vaultAddress = vault, e_expiresAfter = expires\<rparr>))))"

section \<open>What the codec accepts\<close>

lemma zip_differs:
  "length xs = length ys \<Longrightarrow> list_ex (\<lambda>(x, y). x \<noteq> y) (zip xs ys) \<longleftrightarrow> xs \<noteq> ys"
  by (induction xs ys rule: list_induct2) auto

lemma assertExactKeys_Inr [result_simps]:
  "assertExactKeys obj expected p = Inr u \<longleftrightarrow> mset (object_keys obj) = mset expected"
proof -
  have "assertExactKeys obj expected p = Inr u \<longleftrightarrow> sort (object_keys obj) = sort expected"
    by (auto simp: assertExactKeys_def Let_def zip_differs dest: arg_cong [of _ _ length])
  also have "\<dots> \<longleftrightarrow> mset (object_keys obj) = mset expected"
    by (metis mset_sort properties_for_sort sorted_sort)
  finally show ?thesis .
qed

lemma objectAt_Inr [result_simps]: "objectAt v p = Inr obj \<longleftrightarrow> v = JObj obj"
  by (auto simp: objectAt_def split: option.splits)

lemma assetId_Inr [result_simps]:
  "assetId v p = Inr a \<longleftrightarrow> v = JNum (IntN a) \<and> safe_int a \<and> 0 \<le> a"
  by (auto simp: assetId_def split: option.splits)

lemma cloid_Inr [result_simps]:
  "cloid v p = Inr c \<longleftrightarrow> (\<exists>s. v = JStr s \<and> CLOID_PATTERN s \<and> c = toLowerCase s)"
  by (cases v) (auto simp: cloid_def)

lemma as_bool_Some [simp]: "as_bool v = Some b \<longleftrightarrow> v = JBool b"
  by (cases v) auto

lemma decimal_member_Some [simp]:
  "decimal_member z v = Some s \<longleftrightarrow>
     v = JStr s \<and> CANONICAL_POSITIVE_DECIMAL_PATTERN s \<and> ZERO_DECIMAL_PATTERN s = z"
  by (cases "(z, v)" rule: decimal_member.cases) auto

lemma tif_member_Some [simp]:
  "tif_member v = Some t \<longleftrightarrow> v = JStr (tif_name t) \<and> (t = Alo \<or> t = Gtc \<or> t = Ioc)"
  by (cases v) auto

lemma uint64_Inr [result_simps]:
  "uint64 v p = Inr i \<longleftrightarrow> v = IntN i \<and> safe_int i \<and> 0 \<le> i"
  by (cases v) (auto simp: uint64_def)

text \<open>The orders and actions in canonical form.\<close>

definition canonical_wire :: "wire_kind \<Rightarrow> OrderWire \<Rightarrow> bool" where
  "canonical_wire kind w \<longleftrightarrow>
     safe_int (w_a w) \<and> 0 \<le> w_a w \<and> positive_decimal_text (w_p w) \<and>
     CLOID_PATTERN (w_c w) \<and> toLowerCase (w_c w) = w_c w \<and>
     CANONICAL_POSITIVE_DECIMAL_PATTERN (w_s w) \<and>
     ZERO_DECIMAL_PATTERN (w_s w) = (kind = TriggerWire) \<and>
     (case w_t w of
        LimitT tif \<Rightarrow> kind = LimitWire \<and> (tif = Alo \<or> tif = Gtc \<or> tif = Ioc)
      | TriggerT isMarket px tpsl \<Rightarrow> kind = TriggerWire \<and> w_r w \<and> isMarket \<and>
          positive_decimal_text px \<and> (tpsl = ''tp'' \<or> tpsl = ''sl''))"

fun canonical_action :: "exchange_action \<Rightarrow> bool" where
  "canonical_action (OrderAction orders grouping) =
     (\<exists>w. orders = [w] \<and> (grouping = ''na'' \<and> canonical_wire LimitWire w \<or>
                          grouping = ''positionTpsl'' \<and> canonical_wire TriggerWire w))"
| "canonical_action (ModifyOrderAction oid w) =
     (safe_int oid \<and> 1 \<le> oid \<and> canonical_wire TriggerWire w)"
| "canonical_action (CancelByOidAction cs) =
     (cs \<noteq> [] \<and> length cs \<le> MAX_BULK_CANCELS \<and>
      list_all (\<lambda>(a, oid). safe_int a \<and> 0 \<le> a \<and> safe_int oid \<and> 0 \<le> oid) cs)"
| "canonical_action (CancelByCloidAction cs) =
     (cs \<noteq> [] \<and> length cs \<le> MAX_BULK_CANCELS \<and>
      list_all (\<lambda>(a, c). safe_int a \<and> 0 \<le> a \<and> CLOID_PATTERN c \<and> toLowerCase c = c) cs)"
| "canonical_action (UpdateLeverageAction a _ leverage) =
     (safe_int a \<and> 0 \<le> a \<and> 1 \<le> leverage \<and> leverage \<le> 100)"

lemma canonicalOrderWire_js:
  assumes "canonical_wire kind w"
  shows "canonicalOrderWire (order_js w) p kind = Inr w"
proof (cases "w_t w")
  case (LimitT tif)
  with assms have k: "kind = LimitWire" by (simp add: canonical_wire_def)
  from assms LimitT show ?thesis
    by (cases w) (auto simp: canonicalOrderWire_def order_js_def canonical_wire_def
      positive_decimal_text_def assertExactKeys_def objectAt_def object_keys_def assetId_def cloid_def Let_def)
next
  case (TriggerT m px tpsl)
  with assms have k: "kind = TriggerWire" by (simp add: canonical_wire_def)
  from assms TriggerT show ?thesis
    by (cases w) (auto simp: canonicalOrderWire_def order_js_def canonical_wire_def
      positive_decimal_text_def assertExactKeys_def objectAt_def object_keys_def assetId_def cloid_def Let_def)
qed

lemma canonicalOrderWire_canonical:
  assumes "canonicalOrderWire v p kind = Inr w"
  shows "canonical_wire kind w"
proof (cases kind)
  case LimitWire
  with assms show ?thesis
    by (clarsimp simp: canonicalOrderWire_def result_simps)
      (simp add: canonical_wire_def positive_decimal_text_def CLOID_lower)
next
  case TriggerWire
  with assms show ?thesis
    by (clarsimp simp: canonicalOrderWire_def result_simps)
      (simp add: canonical_wire_def positive_decimal_text_def CLOID_lower)
qed

lemma canonicalOidCancel_Inr [result_simps]:
  "canonicalOidCancel i v = Inr (a, oid) \<longleftrightarrow>
     (\<exists>obj. v = JObj obj \<and> mset (object_keys obj) = {#''a'', ''o''#} \<and>
        member obj ''a'' = JNum (IntN a) \<and> member obj ''o'' = JNum (IntN oid) \<and>
        safe_int a \<and> 0 \<le> a \<and> safe_int oid \<and> 0 \<le> oid)"
  by (auto simp: canonicalOidCancel_def result_simps)

lemma canonicalCloidCancel_Inr [result_simps]:
  "canonicalCloidCancel i v = Inr (a, c) \<longleftrightarrow>
     (\<exists>obj s. v = JObj obj \<and> mset (object_keys obj) = {#''asset'', ''cloid''#} \<and>
        member obj ''asset'' = JNum (IntN a) \<and> member obj ''cloid'' = JStr s \<and>
        safe_int a \<and> 0 \<le> a \<and> CLOID_PATTERN s \<and> c = toLowerCase s)"
  by (auto simp: canonicalCloidCancel_def result_simps)

lemma oid_cancels_js:
  assumes "list_all (\<lambda>(a, oid). safe_int a \<and> 0 \<le> a \<and> safe_int oid \<and> 0 \<le> oid) cs"
  shows "mapiE i canonicalOidCancel
           (map (\<lambda>(a, oid). JObj [(''a'', JNum (IntN a)), (''o'', JNum (IntN oid))]) cs) = Inr cs"
  using assms
  by (induction cs arbitrary: i) (auto simp: canonicalOidCancel_Inr object_keys_def)

lemma cloid_cancels_js:
  assumes "list_all (\<lambda>(a, c). safe_int a \<and> 0 \<le> a \<and> CLOID_PATTERN c \<and> toLowerCase c = c) cs"
  shows "mapiE i canonicalCloidCancel
           (map (\<lambda>(a, c). JObj [(''asset'', JNum (IntN a)), (''cloid'', JStr c)]) cs) = Inr cs"
  using assms
  by (induction cs arbitrary: i) (auto simp: canonicalCloidCancel_Inr object_keys_def)

lemma canonicalize_action_js:
  assumes "canonical_action a"
  shows "canonicalizeExchangeAction (action_js a) = Inr a"
  using assms
proof (cases a)
  case (OrderAction orders grouping)
  with assms obtain w where w: "orders = [w]"
    and g: "grouping = ''na'' \<and> canonical_wire LimitWire w \<or>
            grouping = ''positionTpsl'' \<and> canonical_wire TriggerWire w"
    by auto
  then show ?thesis
    by (elim disjE conjE) (simp_all add: OrderAction canonicalizeExchangeAction_def objectAt_def
        canonicalOrder_def assertExactKeys_def object_keys_def canonicalOrderWire_js)
next
  case (ModifyOrderAction oid w)
  with assms show ?thesis
    by (simp add: canonicalizeExchangeAction_def objectAt_def canonicalModify_def
        assertExactKeys_def object_keys_def canonicalOrderWire_js)
next
  case (CancelByOidAction cs)
  with assms show ?thesis
    by (simp add: canonicalizeExchangeAction_def objectAt_def cancel_list_def
        assertExactKeys_def object_keys_def oid_cancels_js Suc_le_eq)
next
  case (CancelByCloidAction cs)
  with assms show ?thesis
    by (simp add: canonicalizeExchangeAction_def objectAt_def cancel_list_def
        assertExactKeys_def object_keys_def cloid_cancels_js Suc_le_eq)
next
  case (UpdateLeverageAction a c l)
  with assms show ?thesis
    by (simp add: canonicalizeExchangeAction_def objectAt_def canonicalLeverage_def
        assertExactKeys_def object_keys_def assetId_def safe_int_def max_safe_integer_def)
qed

lemma mapiE_list_all:
  "mapiE i f xs = Inr ys \<Longrightarrow> (\<And>k x y. f k x = Inr y \<Longrightarrow> P y) \<Longrightarrow> list_all P ys"
  by (induction i f xs arbitrary: ys rule: mapiE.induct) auto

lemma cancel_list_length:
  "cancel_list raw = Inr cs \<Longrightarrow> cs \<noteq> [] \<and> length cs \<le> MAX_BULK_CANCELS"
  by (auto simp: cancel_list_def result_simps not_less)

lemma case_single_Inr [result_simps]:
  "(case vs of [x] \<Rightarrow> f x | _ \<Rightarrow> Inl e) = Inr y \<longleftrightarrow> (\<exists>x. vs = [x] \<and> f x = Inr y)"
  by (auto split: list.splits)

lemma canonicalOrder_canonical: "canonicalOrder raw = Inr a \<Longrightarrow> canonical_action a"
  by (auto simp: canonicalOrder_def result_simps dest!: canonicalOrderWire_canonical
      split: if_splits)

lemma canonicalize_canonical:
  assumes "canonicalizeExchangeAction v = Inr a"
  shows "canonical_action a"
proof -
  from assms consider
      (order) raw where "canonicalOrder raw = Inr a"
    | (modify) raw where "canonicalModify raw = Inr a"
    | (oid) raw cs xs where "cancel_list raw = Inr cs" "mapiE 0 canonicalOidCancel cs = Inr xs"
        "a = CancelByOidAction xs"
    | (cloid) raw cs xs where "cancel_list raw = Inr cs" "mapiE 0 canonicalCloidCancel cs = Inr xs"
        "a = CancelByCloidAction xs"
    | (leverage) raw where "canonicalLeverage raw = Inr a"
    by (auto simp: canonicalizeExchangeAction_def Let_def split: if_splits)
  then show ?thesis
  proof cases
    case order
    then show ?thesis by (rule canonicalOrder_canonical)
  next
    case modify
    then show ?thesis
      by (auto simp: canonicalModify_def result_simps dest!: canonicalOrderWire_canonical)
  next
    case oid
    have "list_all (\<lambda>(a, oid). safe_int a \<and> 0 \<le> a \<and> safe_int oid \<and> 0 \<le> oid) xs"
      by (rule mapiE_list_all [OF oid(2)]) (auto simp: result_simps)
    then show ?thesis
      using oid(3) cancel_list_length [OF oid(1)] mapiE_length [OF oid(2)] by auto
  next
    case cloid
    have "list_all (\<lambda>(a, c). safe_int a \<and> 0 \<le> a \<and> CLOID_PATTERN c \<and> toLowerCase c = c) xs"
      by (rule mapiE_list_all [OF cloid(2)]) (auto simp: result_simps CLOID_lower)
    then show ?thesis
      using cloid(3) cancel_list_length [OF cloid(1)] mapiE_length [OF cloid(2)] by auto
  next
    case leverage
    then show ?thesis by (auto simp: canonicalLeverage_def result_simps)
  qed
qed

section \<open>What the builders make is canonical\<close>

lemma orderWire_canonical:
  "orderWire a side price sz ro tif c = Inr w \<Longrightarrow> canonical_wire LimitWire w"
  by (auto simp: orderWire_def result_simps canonical_wire_def positive_decimal_text_def CLOID_lower
      split: if_splits)

lemma zero_sentinel: "CANONICAL_POSITIVE_DECIMAL_PATTERN ''0''" "ZERO_DECIMAL_PATTERN ''0''"
  by code_simp+

lemma positionTpslOrderWire_canonical:
  "positionTpslOrderWire i = Inr w \<Longrightarrow> canonical_wire TriggerWire w"
  by (auto simp: positionTpslOrderWire_def result_simps canonical_wire_def zero_sentinel CLOID_lower
      split: if_splits)

lemma buildBulkCancelAction_canonical:
  assumes "buildBulkCancelAction cs = Inr a"
  shows "canonical_action a"
proof -
  from assms have n: "cs \<noteq> []" "length cs \<le> MAX_BULK_CANCELS"
    by (auto simp: buildBulkCancelAction_def not_less)
  from assms consider
      (oid) xs where "a = CancelByOidAction xs" "mapiE 0 bulkOidCancel cs = Inr xs"
    | (cloid) xs where "a = CancelByCloidAction xs" "mapiE 0 bulkCloidCancel cs = Inr xs"
    by (auto simp: buildBulkCancelAction_def Let_def split: if_splits)
  then show ?thesis
  proof cases
    case oid
    have "list_all (\<lambda>(a, oid). safe_int a \<and> 0 \<le> a \<and> safe_int oid \<and> 0 \<le> oid) xs"
      by (rule mapiE_list_all [OF oid(2)])
        (auto simp: bulkOidCancel_def result_simps split: cancel_target.splits)
    with n oid mapiE_length [OF oid(2)] show ?thesis by auto
  next
    case cloid
    have "list_all (\<lambda>(a, c). safe_int a \<and> 0 \<le> a \<and> CLOID_PATTERN c \<and> toLowerCase c = c) xs"
      by (rule mapiE_list_all [OF cloid(2)])
        (auto simp: bulkCloidCancel_def result_simps CLOID_lower split: cancel_target.splits)
    with n cloid mapiE_length [OF cloid(2)] show ?thesis by auto
  qed
qed

lemma single_cancel_bound: "Suc 0 \<le> MAX_BULK_CANCELS"
  by (simp add: MAX_BULK_CANCELS_def)

lemma buildExchangeAction_canonical:
  assumes "buildExchangeAction i = Inr a"
    and "\<And>t. i = PositionTpsl t \<Longrightarrow> pt_existingOid t \<noteq> Some (IntN 0)"
  shows "canonical_action a"
  using assms
proof (cases i)
  case (PositionTpsl t)
  with assms show ?thesis
    by (auto simp: buildPositionTpslAction_def result_simps dest!: positionTpslOrderWire_canonical
        split: option.splits)
next
  case (Cancel c)
  with assms show ?thesis
    by (cases "ca_target c")
      (auto simp: buildCancelAction_def result_simps CLOID_lower single_cancel_bound)
next
  case (UpdateLeverage l)
  with assms show ?thesis
    by (auto simp: buildUpdateLeverageAction_def result_simps split: js_number.splits if_splits)
qed (auto simp: buildMarketOrderAction_def buildLimitOrderAction_def buildReduceOnlyCloseAction_def
    singleOrderAction_def dest: orderWire_canonical buildBulkCancelAction_canonical)

section \<open>The properties of the codec\<close>

text \<open>
  Canonicalising a canonical action changes nothing, and canonicalisation always ends in one:
  the action that is encoded and the action that a client reads back are the same.
\<close>

theorem canonicalize_idempotent:
  assumes "canonicalizeExchangeAction v = Inr a"
  shows "canonicalizeExchangeAction (action_js a) = Inr a"
  using assms by (intro canonicalize_action_js canonicalize_canonical)

text \<open>
  C40. Every action the builders make, except a modification of order 0, is accepted by the codec and
  encoded as it was built.
\<close>

theorem built_action_is_canonical:
  assumes "buildExchangeAction i = Inr a"
    and "\<And>t. i = PositionTpsl t \<Longrightarrow> pt_existingOid t \<noteq> Some (IntN 0)"
  shows "canonicalizeExchangeAction (action_js a) = Inr a"
  using buildExchangeAction_canonical [OF assms] by (rule canonicalize_action_js)

section \<open>The order of keys\<close>

text \<open>Values that differ at most in the order of the keys of their objects, at any depth.\<close>

inductive same_value :: "js_value \<Rightarrow> js_value \<Rightarrow> bool" where
  same: "same_value v v"
| arrays: "list_all2 same_value vs ws \<Longrightarrow> same_value (JArr vs) (JArr ws)"
| objects: "mset (object_keys x) = mset (object_keys y) \<Longrightarrow>
    \<forall>k. same_value (member x k) (member y k) \<Longrightarrow> same_value (JObj x) (JObj y)"

inductive_cases same_value_atomE [elim!]:
  "same_value (JStr s) w" "same_value (JBool b) w" "same_value (JNum n) w"
  "same_value JNull w" "same_value JUndefined w" "same_value JExotic w"
inductive_cases same_value_ArrE: "same_value (JArr vs) w"
inductive_cases same_value_ObjE: "same_value (JObj x) w"

lemma list_all2_same_refl: "list_all2 same_value vs vs"
  by (simp add: list.rel_refl same)

lemma same_value_reads:
  assumes "same_value v w"
  shows "as_bool v = as_bool w" "decimal_member z v = decimal_member z w"
    "tif_member v = tif_member w" "safe_at_least m v = safe_at_least m w"
    "assetId v p = assetId w p" "cloid v p = cloid w p"
    "v = JStr s \<longleftrightarrow> w = JStr s" "v = JBool b \<longleftrightarrow> w = JBool b" "v = JNum n \<longleftrightarrow> w = JNum n"
  using assms by (auto elim: same_value.cases simp: assetId_def cloid_def)

lemma same_value_cases:
  assumes "same_value v w"
  obtains (eq) "v = w"
  | (arr) vs ws where "v = JArr vs" "w = JArr ws" "list_all2 same_value vs ws"
  | (obj) x y where "v = JObj x" "w = JObj y" "mset (object_keys x) = mset (object_keys y)"
      "\<And>k. same_value (member x k) (member y k)"
  using assms by (auto elim: same_value.cases)

lemma same_value_JObj:
  assumes "same_value v w" "v = JObj x"
  obtains y where "w = JObj y" "mset (object_keys y) = mset (object_keys x)"
    "\<And>k. same_value (member x k) (member y k)"
  using assms same by (auto elim!: same_value_ObjE)

lemma same_value_JArr:
  assumes "same_value v w" "v = JArr vs"
  obtains ws where "w = JArr ws" "list_all2 same_value vs ws"
  using assms list_all2_same_refl by (auto elim!: same_value_ArrE)

lemma same_value_sym: "same_value v w \<Longrightarrow> same_value w v"
proof (induction rule: same_value.induct)
  case (arrays vs ws)
  then have "list_all2 same_value ws vs"
    by (auto simp: list_all2_conv_all_nth)
  then show ?case by (rule same_value.arrays)
qed (auto intro: same_value.intros)

lemma canonicalOrderWire_same:
  assumes "same_value v w" "canonicalOrderWire v p kind = Inr a"
  shows "canonicalOrderWire w p kind = Inr a"
proof -
  from assms(2) obtain x t where x: "v = JObj x" and t: "member x ''t'' = JObj t"
    by (auto simp: canonicalOrderWire_def result_simps)
  obtain y where y: "w = JObj y" "mset (object_keys y) = mset (object_keys x)"
    "\<And>k. same_value (member x k) (member y k)"
    using same_value_JObj [OF assms(1) x] by blast
  obtain t' where t': "member y ''t'' = JObj t'" "mset (object_keys t') = mset (object_keys t)"
    "\<And>k. same_value (member t k) (member t' k)"
    using same_value_JObj [OF y(3) t] by blast
  define k where "k = (if kind = LimitWire then ''limit'' else ''trigger'')"
  from assms(2) x t obtain u where u: "member t k = JObj u"
    by (auto simp: canonicalOrderWire_def result_simps k_def split: if_splits)
  obtain u' where u': "member t' k = JObj u'" "mset (object_keys u') = mset (object_keys u)"
    "\<And>k. same_value (member u k) (member u' k)"
    using same_value_JObj [OF t'(3) u] by blast
  note reads = same_value_reads [OF y(3)] same_value_reads [OF u'(3)]
  show ?thesis
  proof (cases kind)
    case LimitWire
    with assms(2) u u' t'(2) show ?thesis
      unfolding canonicalOrderWire_def x y(1)
      by (clarsimp simp: result_simps reads y t t'(1) k_def)
  next
    case TriggerWire
    with assms(2) u u' t'(2) show ?thesis
      unfolding canonicalOrderWire_def x y(1)
      by (clarsimp simp: result_simps reads y t t'(1) k_def) blast
  qed
qed

lemma mapiE_same:
  assumes "list_all2 same_value vs ws" "mapiE i f vs = Inr ys"
    and "\<And>k v w y. same_value v w \<Longrightarrow> f k v = Inr y \<Longrightarrow> f k w = Inr y"
  shows "mapiE i f ws = Inr ys"
  using assms(1,2)
proof (induction arbitrary: i ys rule: list_all2_induct)
  case (Cons v vs w ws)
  then show ?case using assms(3) by (fastforce)
qed simp

lemma canonicalOidCancel_same:
  assumes "same_value v w" "canonicalOidCancel i v = Inr c"
  shows "canonicalOidCancel i w = Inr c"
proof -
  obtain a oid where c: "c = (a, oid)" by (cases c)
  with assms(2) obtain x where x: "v = JObj x" by (auto simp: result_simps)
  obtain y where y: "w = JObj y" "mset (object_keys y) = mset (object_keys x)"
    "\<And>k. same_value (member x k) (member y k)"
    using same_value_JObj [OF assms(1) x] by blast
  from assms(2) show ?thesis
    by (simp add: c x y(1,2) canonicalOidCancel_Inr same_value_reads [OF y(3)])
qed

lemma canonicalCloidCancel_same:
  assumes "same_value v w" "canonicalCloidCancel i v = Inr c"
  shows "canonicalCloidCancel i w = Inr c"
proof -
  obtain a oid where c: "c = (a, oid)" by (cases c)
  with assms(2) obtain x where x: "v = JObj x" by (auto simp: result_simps)
  obtain y where y: "w = JObj y" "mset (object_keys y) = mset (object_keys x)"
    "\<And>k. same_value (member x k) (member y k)"
    using same_value_JObj [OF assms(1) x] by blast
  from assms(2) show ?thesis
    by (simp add: c x y(1,2) canonicalCloidCancel_Inr same_value_reads [OF y(3)])
qed

lemma cancel_list_same:
  assumes "mset (object_keys y) = mset (object_keys x)"
    "same_value (member x ''cancels'') (member y ''cancels'')" "cancel_list x = Inr vs"
  obtains ws where "cancel_list y = Inr ws" "list_all2 same_value vs ws"
proof -
  from assms(3) have vs: "member x ''cancels'' = JArr vs"
    by (auto simp: cancel_list_def result_simps)
  obtain ws where ws: "member y ''cancels'' = JArr ws" "list_all2 same_value vs ws"
    using same_value_JArr [OF assms(2) vs] by blast
  then have "cancel_list y = Inr ws"
    using assms(1,3) vs list_all2_lengthD [OF ws(2)] by (auto simp: cancel_list_def result_simps)
  with ws(2) that show thesis by blast
qed

lemma canonicalOrder_same:
  assumes "mset (object_keys y) = mset (object_keys x)" "\<And>k. same_value (member x k) (member y k)"
    "canonicalOrder x = Inr a"
  shows "canonicalOrder y = Inr a"
proof -
  from assms(3) obtain o1 where o1: "member x ''orders'' = JArr [o1]"
    by (auto simp: canonicalOrder_def result_simps)
  obtain o2 where o2: "member y ''orders'' = JArr [o2]" "same_value o1 o2"
    using same_value_JArr [OF assms(2) o1] by (auto simp: list_all2_Cons1)
  from assms(3) obtain g where g: "member x ''grouping'' = JStr g"
    by (auto simp: canonicalOrder_def result_simps)
  then have "member y ''grouping'' = JStr g" by (simp add: same_value_reads [OF assms(2)])
  with assms(3) g show ?thesis
    by (auto simp: canonicalOrder_def o1 o2(1) result_simps assms(1)
        intro: canonicalOrderWire_same [OF o2(2)])
qed

lemma canonicalize_same:
  assumes "same_value v w" "canonicalizeExchangeAction v = Inr a"
  shows "canonicalizeExchangeAction w = Inr a"
proof -
  from assms(2) obtain x where x: "v = JObj x"
    by (auto simp: canonicalizeExchangeAction_def result_simps)
  obtain y where y: "w = JObj y" "mset (object_keys y) = mset (object_keys x)"
    "\<And>k. same_value (member x k) (member y k)"
    using same_value_JObj [OF assms(1) x] by blast
  note t = same_value_reads [OF y(3)]
  have m: "canonicalModify x = Inr a \<Longrightarrow> canonicalModify y = Inr a"
    by (auto simp: canonicalModify_def result_simps y(2) t intro: canonicalOrderWire_same [OF y(3)])
  have l: "canonicalLeverage x = Inr a \<Longrightarrow> canonicalLeverage y = Inr a"
    by (auto simp: canonicalLeverage_def result_simps y(2) t)
  have oid: "\<exists>ds. cancel_list y = Inr ds \<and> mapiE 0 canonicalOidCancel ds = Inr xs"
    if cs: "cancel_list x = Inr cs" and xs: "mapiE 0 canonicalOidCancel cs = Inr xs" for cs xs
  proof -
    obtain ws where "cancel_list y = Inr ws" "list_all2 same_value cs ws"
      using cancel_list_same [OF y(2,3) cs] by blast
    then show ?thesis using mapiE_same [OF _ xs] canonicalOidCancel_same by blast
  qed
  have cloid: "\<exists>ds. cancel_list y = Inr ds \<and> mapiE 0 canonicalCloidCancel ds = Inr xs"
    if cs: "cancel_list x = Inr cs" and xs: "mapiE 0 canonicalCloidCancel cs = Inr xs" for cs xs
  proof -
    obtain ws where "cancel_list y = Inr ws" "list_all2 same_value cs ws"
      using cancel_list_same [OF y(2,3) cs] by blast
    then show ?thesis using mapiE_same [OF _ xs] canonicalCloidCancel_same by blast
  qed
  from assms(2) show ?thesis
    unfolding canonicalizeExchangeAction_def x y(1)
    using canonicalOrder_same [OF y(2,3)] m l
    by (auto simp: objectAt_def Let_def t split: if_splits dest: oid cloid)
qed

end
