(* ===== verification/Encoding.thy ===== *)
theory Encoding
  imports Codec
begin

text \<open>
  What the hash that is signed binds. The preimage is the concatenation of a self-delimiting
  encoding, eight bytes, a tagged address and a tagged timestamp, so it determines the action,
  the nonce, the vault and the expiry; and the order in which an action's keys are written has
  no influence on it.
\<close>

section \<open>What the codec relies on\<close>

text \<open>
  MessagePack encodings delimit themselves, a number becomes eight bytes that determine it, and
  a parsed address becomes twenty bytes that determine it.
\<close>

definition self_delimiting :: "codec_lib \<Rightarrow> bool" where
  "self_delimiting lib \<longleftrightarrow>
     (\<forall>a b r s. canonical_action a \<longrightarrow> canonical_action b \<longrightarrow>
        encode lib (action_js a) @ r = encode lib (action_js b) @ s \<longrightarrow> action_js a = action_js b)"

definition eight_bytes :: "codec_lib \<Rightarrow> bool" where
  "eight_bytes lib \<longleftrightarrow>
     (\<forall>n. length (numberToBytes8 lib n) = 8) \<and>
     inj_on (numberToBytes8 lib) {n. 0 \<le> n \<and> safe_int n}"

definition address_bytes :: "codec_lib \<Rightarrow> bool" where
  "address_bytes lib \<longleftrightarrow>
     (\<forall>x a. getAddress lib x = Some a \<longrightarrow> length (hexToBytes lib a) = 20) \<and>
     inj_on (hexToBytes lib) {a. \<exists>x. getAddress lib x = Some a}"

section \<open>The preimage\<close>

definition encoded_preimage :: "codec_lib \<Rightarrow> EncodedL1Action \<Rightarrow> bytes" where
  "encoded_preimage lib e =
     e_actionBytes e @ numberToBytes8 lib (e_nonce e) @ vaultBytes lib (e_vaultAddress e) @
     expiryBytes lib (e_expiresAfter e)"

lemma normalizeVaultAddress_Inr [result_simps]:
  "normalizeVaultAddress lib v = Inr w \<longleftrightarrow>
     (v = None \<and> w = None) \<or> (\<exists>x a. v = Some x \<and> getAddress lib x = Some a \<and> w = Some a)"
  by (auto simp: normalizeVaultAddress_def split: option.splits)

lemma validateExpiry_Inr [result_simps]:
  "validateExpiry n e = Inr x \<longleftrightarrow>
     (e = None \<and> x = None) \<or>
     (\<exists>i. e = Some (IntN i) \<and> safe_int i \<and> 0 \<le> i \<and> n < i \<and> i - n \<le> 15000 \<and> x = Some i)"
  by (auto simp: validateExpiry_def result_simps ACTION_EXPIRY_MS_def split: option.splits)

lemma encodeL1Action_Inr:
  assumes "encodeL1Action lib i = Inr e"
  obtains a where "canonicalizeExchangeAction (l1_action i) = Inr a" "canonical_action a"
    "e_actionBytes e = encode lib (action_js a)"
    "e_actionHash e = keccak256 lib (encoded_preimage lib e)"
    "l1_nonce i = IntN (e_nonce e)" "safe_int (e_nonce e)" "0 \<le> e_nonce e"
    "normalizeVaultAddress lib (l1_vaultAddress i) = Inr (e_vaultAddress e)"
    "validateExpiry (e_nonce e) (l1_expiresAfter i) = Inr (e_expiresAfter e)"
proof -
  from assms obtain a where
    a: "canonicalizeExchangeAction (l1_action i) = Inr a"
      "e_actionBytes e = encode lib (action_js a)"
      "e_actionHash e = keccak256 lib (encoded_preimage lib e)"
      "l1_nonce i = IntN (e_nonce e)" "safe_int (e_nonce e)" "0 \<le> e_nonce e"
      "normalizeVaultAddress lib (l1_vaultAddress i) = Inr (e_vaultAddress e)"
      "validateExpiry (e_nonce e) (l1_expiresAfter i) = Inr (e_expiresAfter e)"
    by (auto simp: encodeL1Action_def uint64_Inr encoded_preimage_def preimage_def)
  from that [OF a(1) canonicalize_canonical [OF a(1)] a(2-8)] show thesis .
qed

lemma action_js_inj:
  assumes "canonical_action a" "canonical_action b" "action_js a = action_js b"
  shows "a = b"
  using assms by (metis canonicalize_action_js sum.inject(2))

lemma vaultBytes_inj:
  assumes ok: "address_bytes lib"
    and v: "normalizeVaultAddress lib x = Inr v" and w: "normalizeVaultAddress lib y = Inr w"
    and eq: "vaultBytes lib v @ r = vaultBytes lib w @ s"
  shows "v = w \<and> r = s"
proof (cases v)
  case None
  with eq show ?thesis by (cases w) (auto simp: vaultBytes_def)
next
  case (Some a)
  with eq obtain b where b: "w = Some b" and e: "hexToBytes lib a @ r = hexToBytes lib b @ s"
    by (cases w) (auto simp: vaultBytes_def)
  from v w Some b obtain x' y' where g: "getAddress lib x' = Some a" "getAddress lib y' = Some b"
    by (auto simp: result_simps)
  with ok have "length (hexToBytes lib a) = length (hexToBytes lib b)"
    by (auto simp: address_bytes_def)
  with e have "hexToBytes lib a = hexToBytes lib b" "r = s" by simp_all
  with ok g Some b show ?thesis by (auto simp: address_bytes_def dest!: inj_onD)
qed

lemma expiryBytes_inj:
  assumes ok: "eight_bytes lib"
    and "validateExpiry n x = Inr v" "validateExpiry m y = Inr w"
    and "expiryBytes lib v = expiryBytes lib w"
  shows "v = w"
  using assms
  by (auto simp: expiryBytes_def result_simps eight_bytes_def inj_on_def split: option.splits)

lemma encoded_preimage_inj:
  assumes ok: "self_delimiting lib" "eight_bytes lib" "address_bytes lib"
    and i: "encodeL1Action lib i = Inr x" and j: "encodeL1Action lib j = Inr y"
    and eq: "encoded_preimage lib x = encoded_preimage lib y"
  shows "canonicalizeExchangeAction (l1_action i) = canonicalizeExchangeAction (l1_action j) \<and> x = y"
proof -
  obtain a where a: "canonicalizeExchangeAction (l1_action i) = Inr a" "canonical_action a"
    "e_actionBytes x = encode lib (action_js a)" "e_actionHash x = keccak256 lib (encoded_preimage lib x)"
    "safe_int (e_nonce x)" "0 \<le> e_nonce x"
    "normalizeVaultAddress lib (l1_vaultAddress i) = Inr (e_vaultAddress x)"
    "validateExpiry (e_nonce x) (l1_expiresAfter i) = Inr (e_expiresAfter x)"
    by (rule encodeL1Action_Inr [OF i])
  obtain b where b: "canonicalizeExchangeAction (l1_action j) = Inr b" "canonical_action b"
    "e_actionBytes y = encode lib (action_js b)" "e_actionHash y = keccak256 lib (encoded_preimage lib y)"
    "safe_int (e_nonce y)" "0 \<le> e_nonce y"
    "normalizeVaultAddress lib (l1_vaultAddress j) = Inr (e_vaultAddress y)"
    "validateExpiry (e_nonce y) (l1_expiresAfter j) = Inr (e_expiresAfter y)"
    by (rule encodeL1Action_Inr [OF j])
  have "action_js a = action_js b"
    using ok(1) a(2) b(2) eq unfolding self_delimiting_def encoded_preimage_def a(3) b(3) by blast
  then have ab: "a = b" using a(2) b(2) by (intro action_js_inj)
  have n: "numberToBytes8 lib (e_nonce x) = numberToBytes8 lib (e_nonce y)"
    and rest: "vaultBytes lib (e_vaultAddress x) @ expiryBytes lib (e_expiresAfter x) =
      vaultBytes lib (e_vaultAddress y) @ expiryBytes lib (e_expiresAfter y)"
    using eq ok(2) by (auto simp: encoded_preimage_def a(3) b(3) ab eight_bytes_def)
  from n have "e_nonce x = e_nonce y"
    using ok(2) a(5,6) b(5,6) by (auto simp: eight_bytes_def dest!: inj_onD)
  moreover note vaultBytes_inj [OF ok(3) a(7) b(7) rest]
  moreover from this have "e_expiresAfter x = e_expiresAfter y"
    using expiryBytes_inj [OF ok(2) a(8) b(8)] by simp
  ultimately show ?thesis using a(1,3,4) b(1,3,4) ab eq by (cases x; cases y) auto
qed

section \<open>The properties of the encoding\<close>

lemma same_hash_preimage:
  assumes "encodeL1Action lib i = Inr x" "encodeL1Action lib j = Inr y"
    and "inj_on (keccak256 lib) {encoded_preimage lib x, encoded_preimage lib y}"
    and "e_actionHash x = e_actionHash y"
  shows "encoded_preimage lib x = encoded_preimage lib y"
proof -
  have "e_actionHash x = keccak256 lib (encoded_preimage lib x)"
    "e_actionHash y = keccak256 lib (encoded_preimage lib y)"
    using encodeL1Action_Inr [OF assms(1)] encodeL1Action_Inr [OF assms(2)] by blast+
  with assms(3,4) show ?thesis by (auto dest: inj_onD)
qed

text \<open>
  C1. A signature binds what it was given for: when two encodings have the same hash and their
  preimages do not collide, they are encodings of the same canonical action, nonce, vault and
  expiry.
\<close>

theorem action_hash_binds:
  assumes "self_delimiting lib" "eight_bytes lib" "address_bytes lib"
    and "encodeL1Action lib i = Inr x" "encodeL1Action lib j = Inr y"
    and "inj_on (keccak256 lib) {encoded_preimage lib x, encoded_preimage lib y}"
    and "e_actionHash x = e_actionHash y"
  shows "canonicalizeExchangeAction (l1_action i) = canonicalizeExchangeAction (l1_action j) \<and> x = y"
  using encoded_preimage_inj [OF assms(1-5)] same_hash_preimage [OF assms(4-7)] by blast

text \<open>
  Two actions that differ only in the order of the keys of their objects, at any depth, are
  encoded alike: to the same bytes and the same hash.
\<close>

theorem encoding_ignores_key_order:
  assumes "same_value v w"
  shows "encodeL1Action lib (i\<lparr>l1_action := v\<rparr>) = Inr e \<longleftrightarrow>
         encodeL1Action lib (i\<lparr>l1_action := w\<rparr>) = Inr e"
proof -
  have "canonicalizeExchangeAction v = Inr a \<longleftrightarrow> canonicalizeExchangeAction w = Inr a" for a
    using assms canonicalize_same same_value_sym by blast
  then show ?thesis by (simp add: encodeL1Action_def)
qed

section \<open>A concrete library and concrete encodings\<close>

text \<open>
  A library with the assumed properties: a unary, self-delimiting encoding, big-endian bytes, one
  address, and a hash that keeps every byte.
\<close>

fun big_endian :: "nat \<Rightarrow> int \<Rightarrow> bytes" where
  "big_endian 0 n = []"
| "big_endian (Suc k) n = big_endian k (n div 256) @ [word_of_int (n mod 256)]"

definition sample_lib :: codec_lib where
  "sample_lib =
     \<lparr>encode = (\<lambda>v. replicate (to_nat v) 1 @ [0]),
      numberToBytes8 = big_endian 8,
      hexToBytes = (\<lambda>_. replicate 20 0),
      keccak256 = map (\<lambda>b. char_of (unat b)),
      getAddress = (\<lambda>s. if s = ''0x'' @ replicate 40 CHR ''0'' then Some s else None)\<rparr>"

lemma length_big_endian [simp]: "length (big_endian k n) = k"
  by (induction k arbitrary: n) auto

lemma big_endian_inj:
  "big_endian k m = big_endian k n \<Longrightarrow> 0 \<le> m \<Longrightarrow> m < 256 ^ k \<Longrightarrow> 0 \<le> n \<Longrightarrow> n < 256 ^ k \<Longrightarrow> m = n"
proof (induction k arbitrary: m n)
  case (Suc k)
  then have "(word_of_int (m mod 256) :: 8 word) = word_of_int (n mod 256)"
    and "big_endian k (m div 256) = big_endian k (n div 256)"
    by simp_all
  then have "m mod 256 = n mod 256" and "m div 256 = n div 256"
    using Suc.IH [of "m div 256" "n div 256"] Suc.prems
    by (auto simp: word_of_int_eq_iff take_bit_eq_mod pos_imp_zdiv_nonneg_iff div_less_iff_less_mult
        mult.commute)
  then show ?case by (metis mult_div_mod_eq)
qed simp

lemma replicate_delimited:
  "replicate m x @ y # r = replicate n x @ y # s \<Longrightarrow> x \<noteq> y \<Longrightarrow> m = n"
proof (induction m arbitrary: n)
  case 0
  then show ?case by (cases n) auto
next
  case (Suc m)
  then show ?case by (cases n) auto
qed

lemma sample_lib_ok: "self_delimiting sample_lib" "eight_bytes sample_lib" "address_bytes sample_lib"
proof -
  show "self_delimiting sample_lib"
    by (auto simp: self_delimiting_def sample_lib_def dest!: replicate_delimited)
  have "inj_on (big_endian 8) {n. 0 \<le> n \<and> safe_int n}"
    by (rule inj_onI, rule big_endian_inj) (auto simp: safe_int_def max_safe_integer_def)
  then show "eight_bytes sample_lib" by (simp add: eight_bytes_def sample_lib_def)
  show "address_bytes sample_lib"
    by (auto simp: address_bytes_def sample_lib_def inj_on_def split: if_splits)
qed

definition sample_update :: exchange_action where
  "sample_update = UpdateLeverageAction 7 True 5"

definition sample_update_reordered :: js_value where
  "sample_update_reordered =
     JObj [(''leverage'', JNum (IntN 5)), (''type'', JStr ''updateLeverage''),
           (''asset'', JNum (IntN 7)), (''isCross'', JBool True)]"

lemma sample_same: "same_value (action_js sample_update) sample_update_reordered"
  unfolding sample_update_def sample_update_reordered_def action_js.simps
  by (rule objects) (simp add: object_keys_def, simp add: same)

lemma sample_canonicalizes:
  "canonicalizeExchangeAction sample_update_reordered = Inr sample_update"
  by code_simp

definition sample_l1 :: "js_value \<Rightarrow> L1ActionEncodingInput" where
  "sample_l1 v = \<lparr>l1_action = v, l1_nonce = IntN 1000, l1_vaultAddress = None,
                  l1_expiresAfter = Some (IntN 16000)\<rparr>"

definition sample_encoded :: EncodedL1Action where
  "sample_encoded =
     \<lparr>e_actionBytes = encode sample_lib (action_js sample_update),
      e_actionHash = keccak256 sample_lib (preimage sample_lib sample_update 1000 None (Some 16000)),
      e_nonce = 1000, e_vaultAddress = None, e_expiresAfter = Some 16000\<rparr>"

lemma sample_encodes:
  assumes "canonicalizeExchangeAction v = Inr sample_update"
  shows "encodeL1Action sample_lib (sample_l1 v) = Inr sample_encoded"
  by (auto simp: encodeL1Action_def sample_l1_def assms sample_encoded_def result_simps
      safe_int_def max_safe_integer_def)

lemma sample_update_canonicalizes: "canonicalizeExchangeAction (action_js sample_update) = Inr sample_update"
  by code_simp

theorem action_hash_binds_witness:
  "canonicalizeExchangeAction (l1_action (sample_l1 (action_js sample_update))) =
   canonicalizeExchangeAction (l1_action (sample_l1 sample_update_reordered))"
  using action_hash_binds [OF sample_lib_ok sample_encodes [OF sample_update_canonicalizes]
      sample_encodes [OF sample_canonicalizes]]
  by simp

theorem encoding_ignores_key_order_witness:
  "encodeL1Action sample_lib ((sample_l1 JNull)\<lparr>l1_action := sample_update_reordered\<rparr>) = Inr sample_encoded"
  using encoding_ignores_key_order [OF sample_same, of sample_lib "sample_l1 JNull" sample_encoded]
    sample_encodes [OF sample_update_canonicalizes]
  by (simp add: sample_l1_def)

theorem canonicalize_idempotent_witness:
  "canonicalizeExchangeAction (action_js sample_update) = Inr sample_update"
  by (rule canonicalize_idempotent [OF sample_canonicalizes])

definition sample_leverage_intent :: trading_intent where
  "sample_leverage_intent =
     UpdateLeverage \<lparr>ul_assetId = IntN 7, ul_marginMode = Cross, ul_leverage = IntN 5\<rparr>"

lemma sample_leverage_builds: "buildExchangeAction sample_leverage_intent = Inr sample_update"
  by code_simp

theorem built_action_is_canonical_witness:
  "canonicalizeExchangeAction (action_js sample_update) = Inr sample_update"
  by (rule built_action_is_canonical [OF sample_leverage_builds]) (simp add: sample_leverage_intent_def)

end
