(* ===== verification/Pipeline.thy ===== *)
theory Pipeline
  imports Validated Encoding
begin

text \<open>
  The path of an action before it is signed: validate, build, canonicalise, encode. Each stage
  checks again what the one before it established; here the checks are shown to agree, so that
  an action that was validated is built, and an action that was built is encoded with the
  nonce and expiry that the allocator gives it.
\<close>

lemma buildOrder_total:
  assumes "order_side_of i = Buy \<or> order_side_of i = Sell" "limit_tif_ok i"
    "order_assetId i = IntN a" "safe_int a" "0 \<le> a"
    "positive_decimal_text (order_size i)" "positive_decimal_text (order_rawPrice i)"
    "CLOID_PATTERN (order_cloid i)"
  shows "succeeds (buildExchangeAction (order_trading_intent i))"
  using assms
  by (cases i) (auto simp: succeeds_iff buildMarketOrderAction_def buildLimitOrderAction_def
      buildReduceOnlyCloseAction_def orderWire_def result_simps)

lemma validateOrder_builds:
  assumes "validateOrder input i = Inr v"
  shows "succeeds (buildExchangeAction (v_intent v))"
  using assms
proof (rule validateOrder_Inr)
  fix a sz price parsedSize parsedPrice cloid version
  assume "order_side_of i = Buy \<or> order_side_of i = Sell" "limit_tif_ok i"
    "order_assetId i = IntN a" "safe_int a" "0 \<le> a"
    and n: "normalizeSize (order_size i) (i_market input) = Inr sz"
      "normalizePrice (order_rawPrice i) (i_market input) = Inr price"
      "parseCloid (order_cloid i) ''cloid'' = Inr cloid"
    and v: "v = \<lparr>v_intent = order_trading_intent (order_with i sz price cloid),
          v_notional = Some (formatDecimal (multiplyDecimal parsedSize parsedPrice)),
          v_accountStateVersion = version, v_marketCanonicalId = m_canonicalId (i_market input)\<rparr>"
  then have "succeeds (buildExchangeAction (order_trading_intent (order_with i sz price cloid)))"
    by (intro buildOrder_total)
      (auto simp: normalizeSize_positive normalizePrice_positive parseCloid_Inr CLOID_lower)
  with v show ?thesis by simp
qed

lemma validatePositionTpsl_builds:
  assumes "validatePositionTpsl input i = Inr v"
  shows "\<exists>j. v_intent v = PositionTpsl j \<and> pt_existingOid j \<noteq> Some (IntN 0) \<and>
     succeeds (buildExchangeAction (v_intent v))"
  using assms
proof (rule validatePositionTpsl_Inr)
  fix a sz tp ap rp reference trigger cloid parsedSize version
  assume i: "pt_side i = Buy \<or> pt_side i = Sell"
    "pt_triggerKind i = TakeProfit \<or> pt_triggerKind i = StopLoss"
    "pt_assetId i = IntN a" "safe_int a" "0 \<le> a"
    "assertExistingOrder input i = Inr ()"
    and n: "normalizeSize (pt_size i) (i_market input) = Inr sz"
      "normalizePrice (pt_triggerPrice i) (i_market input) = Inr tp"
      "normalizePrice (pt_aggressiveLimitPrice i) (i_market input) = Inr ap"
      "parseCloid (pt_cloid i) ''cloid'' = Inr cloid"
    and v: "v = \<lparr>v_intent = PositionTpsl (i\<lparr>pt_size := sz, pt_triggerPrice := tp,
             pt_aggressiveLimitPrice := ap, pt_cloid := cloid\<rparr>),
          v_notional = Some (formatDecimal (multiplyDecimal parsedSize trigger)),
          v_accountStateVersion = version, v_marketCanonicalId = m_canonicalId (i_market input)\<rparr>"
  from i(6) have oid: "pt_existingOid i = None \<or> (\<exists>k. pt_existingOid i = Some (IntN k) \<and> safe_int k \<and> 1 \<le> k)"
    by (auto simp: assertExistingOrder_def result_simps split: option.splits)
  have "CLOID_PATTERN cloid" using n(4) by (auto simp: parseCloid_Inr CLOID_lower)
  with i(1-5) n(1-3) oid show ?thesis
    unfolding v
    by (auto simp: succeeds_iff buildPositionTpslAction_def positionTpslOrderWire_def result_simps
        normalizeSize_positive normalizePrice_positive)
qed

lemma validateCancel_builds:
  assumes "validateCancel input i = Inr v"
  shows "succeeds (buildExchangeAction (v_intent v))"
  by (rule validateCancel_Inr [OF assms])
    (auto simp: succeeds_iff buildCancelAction_def result_simps CLOID_lower)

lemma validateLeverage_builds:
  assumes "validateLeverage input i = Inr v"
  shows "succeeds (buildExchangeAction (v_intent v))"
  using validateLeverage_Inr [OF assms]
  by (auto simp: succeeds_iff buildUpdateLeverageAction_def result_simps)

lemma validated_builds:
  assumes "validateTradingAction caps ga input = Inr v"
  obtains a where "buildExchangeAction (v_intent v) = Inr a" "canonical_action a"
proof -
  from assms have d: "dispatchIntent input (i_intent input) = Inr v"
    by (rule validateTradingAction_Inr)
  then have "succeeds (buildExchangeAction (v_intent v)) \<and>
      (\<forall>t. v_intent v = PositionTpsl t \<longrightarrow> pt_existingOid t \<noteq> Some (IntN 0))"
  proof (cases rule: dispatchIntent_cases)
    case (Order o1)
    then show ?thesis using validateOrder_builds validateOrder_shape by fastforce
  next
    case (Tpsl t1 t2)
    then show ?thesis using validatePositionTpsl_builds by fastforce
  next
    case (Cancel c1 c2)
    then show ?thesis using validateCancel_builds [OF Cancel(2)] by simp
  next
    case (Leverage l)
    then show ?thesis using validateLeverage_builds [OF Leverage(2)] by simp
  qed
  then show thesis using that buildExchangeAction_canonical by (metis succeeds_iff)
qed

section \<open>The property of the pipeline\<close>

text \<open>
  C4. A validated action is never refused on the way to the signer: it is built, and with the nonce
  and expiry of any allocation it is encoded, unchanged, for any library the codec is given.
\<close>

theorem validated_action_encodes:
  assumes "validateTradingAction caps ga input = Inr v"
    and "allocateNonce clock prior = Inr allocation"
  shows "\<exists>a e. buildExchangeAction (v_intent v) = Inr a \<and>
     canonicalizeExchangeAction (action_js a) = Inr a \<and>
     encodeL1Action lib
       \<lparr>l1_action = action_js a, l1_nonce = IntN (nonce allocation), l1_vaultAddress = None,
        l1_expiresAfter = Some (IntN (expiresAfterMs allocation))\<rparr> = Inr e \<and>
     e_actionBytes e = encode lib (action_js a) \<and>
     e_nonce e = nonce allocation \<and> e_expiresAfter e = Some (expiresAfterMs allocation)"
proof -
  obtain a where a: "buildExchangeAction (v_intent v) = Inr a" "canonical_action a"
    by (rule validated_builds [OF assms(1)])
  have c: "canonicalizeExchangeAction (action_js a) = Inr a"
    using a(2) by (rule canonicalize_action_js)
  have n: "safe_int (nonce allocation)" "0 \<le> nonce allocation" "safe_int (expiresAfterMs allocation)"
    "nonce allocation < expiresAfterMs allocation"
    "expiresAfterMs allocation - nonce allocation \<le> 15000"
    using assms(2) by (auto simp: allocateNonce_Inr safe_int_def split: option.splits)
  show ?thesis
    using a(1) c n by (auto simp: encodeL1Action_def result_simps)
qed

definition sample_clock :: ClockGateInput where
  "sample_clock = \<lparr>wallTimeMs = IntN 1000, monotonicTimeMs = IntN 50, serverTimeMs = IntN 990,
     serverSampledAtMonotonicMs = IntN 40, lastObservedWallMs = Some (IntN 900)\<rparr>"

lemma sample_clock_allocates:
  "allocateNonce sample_clock (Some (IntN 1200)) =
     Inr \<lparr>nonce = 1201, expiresAfterMs = 16000, observedWallMs = 1000\<rparr>"
  by code_simp

theorem validated_action_encodes_witness:
  "\<exists>a e. buildExchangeAction (MarketOrder \<lparr>mo_assetId = IntN 7, mo_side = Buy, mo_size = ''2'',
        mo_aggressiveLimitPrice = ''100.5'', mo_cloid = ''0x000000000000000000000000000000ab''\<rparr>) = Inr a \<and>
     encodeL1Action sample_lib
       \<lparr>l1_action = action_js a, l1_nonce = IntN 1201, l1_vaultAddress = None,
        l1_expiresAfter = Some (IntN 16000)\<rparr> = Inr e"
  using validated_action_encodes [OF sample_market_order_validates sample_clock_allocates, of sample_lib]
  by auto

end
