(* ===== verification/Reconciliation.thy ===== *)
theory Reconciliation
  imports Signing Actions Js_Value
begin

text \<open>
  What the journal's states mean and how an action whose outcome is not known is settled from
  authoritative evidence: \<^verbatim>\<open>packages/hyperliquid/src/reconciliation/types.ts\<close>,
  \<^verbatim>\<open>state.ts\<close>, \<^verbatim>\<open>policy.ts\<close> and \<^verbatim>\<open>evidence.ts\<close>.
\<close>

section \<open>States\<close>

datatype journal_action_type =
    MarketOrderType | LimitOrderType | CancelType | BulkCancelType | UpdateLeverageType
  | ReduceOnlyCloseType | PositionTpslType | OtherActionType string

datatype journal_state =
    Prepared | SubmissionStarted | Unresolved | Accepted | Rejected | Expired
  | AbandonedBeforeSubmission | ReconciledAmbiguous

datatype journal_result_class =
    AcceptedResult | RejectedResult | ExpiredResult | UnresolvedResult | AmbiguousResult

definition JOURNAL_STATES :: "journal_state list" where
  "JOURNAL_STATES = [Prepared, SubmissionStarted, Unresolved, Accepted, Rejected, Expired,
     AbandonedBeforeSubmission, ReconciledAmbiguous]"

definition TERMINAL_JOURNAL_STATES :: "journal_state list" where
  "TERMINAL_JOURNAL_STATES =
     [Accepted, Rejected, Expired, AbandonedBeforeSubmission, ReconciledAmbiguous]"

fun state_name :: "journal_state \<Rightarrow> string" where
  "state_name Prepared = ''prepared''"
| "state_name SubmissionStarted = ''submission_started''"
| "state_name Unresolved = ''unresolved''"
| "state_name Accepted = ''accepted''"
| "state_name Rejected = ''rejected''"
| "state_name Expired = ''expired''"
| "state_name AbandonedBeforeSubmission = ''abandoned_before_submission''"
| "state_name ReconciledAmbiguous = ''reconciled_ambiguous''"

fun result_class_name :: "journal_result_class option \<Rightarrow> string" where
  "result_class_name None = ''null''"
| "result_class_name (Some AcceptedResult) = ''accepted''"
| "result_class_name (Some RejectedResult) = ''rejected''"
| "result_class_name (Some ExpiredResult) = ''expired''"
| "result_class_name (Some UnresolvedResult) = ''unresolved''"
| "result_class_name (Some AmbiguousResult) = ''ambiguous''"

fun ALLOWED_TRANSITIONS :: "journal_state \<Rightarrow> journal_state list" where
  "ALLOWED_TRANSITIONS Prepared = [SubmissionStarted, AbandonedBeforeSubmission]"
| "ALLOWED_TRANSITIONS SubmissionStarted =
     [Accepted, Rejected, Expired, Unresolved, ReconciledAmbiguous]"
| "ALLOWED_TRANSITIONS Unresolved = [Accepted, Rejected, Expired, ReconciledAmbiguous]"
| "ALLOWED_TRANSITIONS _ = []"

definition isTerminalJournalState :: "journal_state \<Rightarrow> bool" where
  "isTerminalJournalState s \<longleftrightarrow> s \<in> set TERMINAL_JOURNAL_STATES"

definition assertJournalTransition :: "journal_state \<Rightarrow> journal_state \<Rightarrow> unit result" where
  "assertJournalTransition current next =
     throw_if (next \<notin> set (ALLOWED_TRANSITIONS current))
       (HyperliquidValidationError ''journal.state''
          (''transition from '' @ state_name current @ '' to '' @ state_name next @ '' is forbidden''))"

fun RESULT_FOR_STATE :: "journal_state \<Rightarrow> journal_result_class option" where
  "RESULT_FOR_STATE Unresolved = Some UnresolvedResult"
| "RESULT_FOR_STATE Accepted = Some AcceptedResult"
| "RESULT_FOR_STATE Rejected = Some RejectedResult"
| "RESULT_FOR_STATE Expired = Some ExpiredResult"
| "RESULT_FOR_STATE ReconciledAmbiguous = Some AmbiguousResult"
| "RESULT_FOR_STATE _ = None"

definition assertJournalResultClass :: "journal_state \<Rightarrow> journal_result_class option \<Rightarrow> unit result" where
  "assertJournalResultClass state resultClass =
     throw_if (resultClass \<noteq> RESULT_FOR_STATE state)
       (HyperliquidValidationError ''journal.lastResultClass''
          (''result class '' @ result_class_name resultClass @ '' is invalid for state '' @
           state_name state))"

text \<open>The record of an action, with its numbers as the journal's own checks leave them.\<close>

record PreparedActionRecord =
  r_journalId :: string
  r_correlationId :: string
  r_network :: network
  r_masterAccount :: string
  r_targetAccount :: string
  r_agentAddress :: string
  r_signerGeneration :: int
  r_capturedContextEpoch :: int
  r_actionType :: journal_action_type
  r_intentVersion :: int
  r_intent :: js_value
  r_intentDigest :: string
  r_equivalenceFingerprint :: string
  r_nonce :: int
  r_expiresAfterMs :: int
  r_cloid :: "string option"
  r_assetId :: "int option"
  r_targetOid :: "int option"
  r_reconciliationKey :: string
  r_preparedAt :: int
  r_state :: journal_state
  r_submissionStartedAt :: "int option"
  r_lastResultClass :: "journal_result_class option"
  r_leaseOwner :: "string option"
  r_leaseExpiresAt :: "int option"
  r_reconciliationAttempts :: int
  r_nextReconciliationAt :: int
  r_createdAt :: int
  r_updatedAt :: int

definition mayMarkSubmissionStarted :: "PreparedActionRecord \<Rightarrow> int \<Rightarrow> bool" where
  "mayMarkSubmissionStarted record now \<longleftrightarrow>
     r_state record = Prepared \<and> r_submissionStartedAt record = None \<and> now < r_expiresAfterMs record"

datatype restart_decision = Unchanged | TransitionTo journal_state

definition restartRecoveryDecision :: "PreparedActionRecord \<Rightarrow> restart_decision" where
  "restartRecoveryDecision record =
     (if isTerminalJournalState (r_state record) \<or> r_state record = Unresolved then Unchanged
      else if r_submissionStartedAt record \<noteq> None \<or> r_state record = SubmissionStarted
      then TransitionTo Unresolved
      else if r_state record = Prepared then TransitionTo AbandonedBeforeSubmission
      else Unchanged)"

section \<open>Evidence\<close>

datatype order_status = OpenStatus | FilledStatus | CanceledStatus | TriggeredStatus | RejectedStatus

record ObservedOrderIdentity =
  id_assetId :: js_number
  id_oid :: js_number
  id_cloid :: "string option"

datatype ObservedOrderEvidence =
    UnknownOrder
  | MalformedOrder
  | ObservedOrder ObservedOrderIdentity order_status

record ObservedPositionEvidence =
  pos_assetId :: js_number
  pos_size :: string

record ObservedLeverageEvidence =
  lev_assetId :: js_number
  lev_leverage :: js_number
  lev_marginMode :: margin_mode
  lev_causallyAttributed :: bool

record ReconciliationRecord =
  rr_network :: network
  rr_masterAccount :: string
  rr_targetAccount :: string
  rr_actionType :: journal_action_type
  rr_assetId :: "js_number option"
  rr_cloid :: "string option"
  rr_targetOid :: "js_number option"
  rr_expiresAfterMs :: js_number
  rr_intent :: js_object

record ReconciliationEvidence =
  ev_network :: network
  ev_masterAccount :: string
  ev_targetAccount :: string
  ev_assetId :: "js_number option"
  ev_serverTimeMs :: js_number
  ev_complete :: bool
  ev_order :: ObservedOrderEvidence
  ev_openOrders :: "ObservedOrderIdentity list"
  ev_fills :: "ObservedOrderIdentity list"
  ev_position :: "ObservedPositionEvidence option"
  ev_leverage :: "ObservedLeverageEvidence option"
  ev_stateVersion :: js_number
  ev_definitiveRejection :: bool

datatype unresolved_reason = IncompleteEvidence | BeforeExpiry | ActionStillPending

datatype ReconciliationDecision =
    Terminal journal_state
  | StillUnresolved unresolved_reason

section \<open>The policy\<close>

definition normalizeContextAddress :: "address_parser \<Rightarrow> string \<Rightarrow> string \<Rightarrow> string result" where
  "normalizeContextAddress getAddress value path =
     (case getAddress value of
        None \<Rightarrow> invalid path ''expected a 20-byte Ethereum address''
      | Some a \<Rightarrow> Inr (toLowerCase a))"

definition safeTime :: "js_number \<Rightarrow> string \<Rightarrow> int result" where
  "safeTime value path =
     (case value of
        IntN i \<Rightarrow> (if \<not> isSafeInteger value \<or> i < 0
                  then invalid path ''expected a non-negative safe integer'' else Inr i)
      | _ \<Rightarrow> invalid path ''expected a non-negative safe integer'')"

definition known_network :: "network \<Rightarrow> bool" where
  "known_network n \<longleftrightarrow> n = Mainnet \<or> n = Testnet"

definition assertContext ::
    "address_parser \<Rightarrow> ReconciliationRecord \<Rightarrow> ReconciliationEvidence \<Rightarrow> (int \<times> int \<times> int) result" where
  "assertContext ga record evidence =
     (let crossed = HyperliquidValidationError ''evidence.context''
                      ''reconciliation evidence crossed an action context'' in
      bindE (throw_if (\<not> known_network (rr_network record) \<or> \<not> known_network (ev_network evidence))
               (HyperliquidValidationError ''evidence.context.network''
                  ''unknown reconciliation network'')) (\<lambda>_.
      bindE (throw_if (rr_network record \<noteq> ev_network evidence) crossed) (\<lambda>_.
      bindE (normalizeContextAddress ga (rr_masterAccount record) ''record.masterAccount'') (\<lambda>rm.
      bindE (normalizeContextAddress ga (ev_masterAccount evidence) ''evidence.masterAccount'') (\<lambda>em.
      bindE (throw_if (rm \<noteq> em) crossed) (\<lambda>_.
      bindE (normalizeContextAddress ga (rr_targetAccount record) ''record.targetAccount'') (\<lambda>rt.
      bindE (normalizeContextAddress ga (ev_targetAccount evidence) ''evidence.targetAccount'') (\<lambda>et.
      bindE (throw_if (rt \<noteq> et) crossed) (\<lambda>_.
      bindE (throw_if (\<not> js_eq_opt (rr_assetId record) (ev_assetId evidence)) crossed) (\<lambda>_.
      bindE (safeTime (rr_expiresAfterMs record) ''record.expiresAfterMs'') (\<lambda>expires.
      bindE (safeTime (ev_serverTimeMs evidence) ''evidence.serverTimeMs'') (\<lambda>server.
      bindE (safeTime (ev_stateVersion evidence) ''evidence.stateVersion'') (\<lambda>version.
      Inr (expires, server, version))))))))))))))"

definition sameIdentity :: "ReconciliationRecord \<Rightarrow> ObservedOrderIdentity \<Rightarrow> bool" where
  "sameIdentity record ident =
     (if \<not> js_eq_opt (rr_assetId record) (Some (id_assetId ident)) then False
      else case rr_cloid record of
             Some c \<Rightarrow> map_option toLowerCase (id_cloid ident) = Some (toLowerCase c)
           | None \<Rightarrow>
               (case rr_targetOid record of
                  Some oid \<Rightarrow> js_eq (id_oid ident) oid
                | None \<Rightarrow> False))"

fun exactObservedOrder :: "ReconciliationRecord \<Rightarrow> ObservedOrderEvidence \<Rightarrow> order_status option" where
  "exactObservedOrder record (ObservedOrder ident status) =
     (if sameIdentity record ident then Some status else None)"
| "exactObservedOrder record _ = None"

definition atOrAfterExpiry :: "ReconciliationRecord \<Rightarrow> ReconciliationEvidence \<Rightarrow> bool" where
  "atOrAfterExpiry record evidence = js_less (rr_expiresAfterMs record) (ev_serverTimeMs evidence)"

definition decideCreate ::
    "ReconciliationRecord \<Rightarrow> ReconciliationEvidence \<Rightarrow> ReconciliationDecision result" where
  "decideCreate record evidence =
     (case rr_cloid record of
        None \<Rightarrow> invalid ''record.cloid'' ''order creation requires an immutable cloid''
      | Some _ \<Rightarrow>
          let order = exactObservedOrder record (ev_order evidence);
              hasAcceptance =
                (order \<noteq> None \<and> order \<noteq> Some RejectedStatus) \<or>
                list_ex (sameIdentity record) (ev_openOrders evidence) \<or>
                list_ex (sameIdentity record) (ev_fills evidence);
              hasRejection = (order = Some RejectedStatus \<or> ev_definitiveRejection evidence)
          in if hasAcceptance \<and> hasRejection then Inr (Terminal ReconciledAmbiguous)
             else if hasRejection then Inr (Terminal Rejected)
             else if hasAcceptance then Inr (Terminal Accepted)
             else if \<not> atOrAfterExpiry record evidence then Inr (StillUnresolved BeforeExpiry)
             else Inr (Terminal Expired))"

definition decideCancel ::
    "ReconciliationRecord \<Rightarrow> ReconciliationEvidence \<Rightarrow> ReconciliationDecision result" where
  "decideCancel record evidence =
     (if (rr_cloid record = None) = (rr_targetOid record = None)
      then invalid ''record.cancelTarget'' ''cancel requires exactly one immutable order identity''
      else if ev_definitiveRejection evidence then Inr (Terminal Rejected)
      else
        let order = exactObservedOrder record (ev_order evidence) in
        if order = Some CanceledStatus \<or> order = Some FilledStatus \<or> order = Some TriggeredStatus
        then Inr (Terminal Accepted)
        else if list_ex (sameIdentity record) (ev_openOrders evidence)
        then Inr (if atOrAfterExpiry record evidence then Terminal Expired
                  else StillUnresolved ActionStillPending)
        else if member (rr_intent record) ''targetObservedBeforeSubmission'' = JBool True \<and>
                ev_order evidence = UnknownOrder
        then Inr (Terminal Accepted)
        else Inr (if atOrAfterExpiry record evidence then Terminal ReconciledAmbiguous
                  else StillUnresolved BeforeExpiry))"

definition decideClose ::
    "ReconciliationRecord \<Rightarrow> ReconciliationEvidence \<Rightarrow> ReconciliationDecision result" where
  "decideClose record evidence =
     bindE (decideCreate record evidence) (\<lambda>orderDecision.
       if orderDecision = Terminal Accepted \<or> orderDecision = Terminal Rejected then Inr orderDecision
       else if (case ev_position evidence of
                  None \<Rightarrow> False
                | Some position \<Rightarrow>
                    js_eq_opt (Some (pos_assetId position)) (rr_assetId record) \<and>
                    pos_size position = ''0'') \<and>
               (case member (rr_intent record) ''reviewedPositionSize'' of
                  JStr s \<Rightarrow> s \<noteq> ''0''
                | _ \<Rightarrow> False)
       then Inr (Terminal ReconciledAmbiguous)
       else Inr orderDecision)"

fun margin_mode_value :: "margin_mode \<Rightarrow> string" where
  "margin_mode_value Cross = ''cross''"
| "margin_mode_value Isolated = ''isolated''"
| "margin_mode_value (OtherMode s) = s"

definition decideLeverage ::
    "ReconciliationRecord \<Rightarrow> ReconciliationEvidence \<Rightarrow> ReconciliationDecision result" where
  "decideLeverage record evidence =
     (if ev_definitiveRejection evidence then Inr (Terminal Rejected)
      else
        let marginMode = member (rr_intent record) ''marginMode'' in
        case (member (rr_intent record) ''leverage'',
              safe_at_least 0 (member (rr_intent record) ''reviewedAccountStateVersion'')) of
          (JNum intentLeverage, Some reviewedStateVersion) \<Rightarrow>
            (if \<not> isSafeInteger intentLeverage \<or>
                (marginMode \<noteq> JStr ''cross'' \<and> marginMode \<noteq> JStr ''isolated'')
             then Inr (StillUnresolved IncompleteEvidence)
             else
               let pending =
                     (if \<not> atOrAfterExpiry record evidence then StillUnresolved BeforeExpiry
                      else if js_less (IntN reviewedStateVersion) (ev_stateVersion evidence)
                      then Terminal Expired else StillUnresolved IncompleteEvidence)
               in case ev_leverage evidence of
                    None \<Rightarrow> Inr pending
                  | Some leverage \<Rightarrow>
                      if js_eq_opt (Some (lev_assetId leverage)) (rr_assetId record) \<and>
                         js_eq (lev_leverage leverage) intentLeverage \<and>
                         JStr (margin_mode_value (lev_marginMode leverage)) = marginMode
                      then Inr (Terminal (if lev_causallyAttributed leverage then Accepted
                                          else ReconciledAmbiguous))
                      else Inr pending)
        | _ \<Rightarrow> Inr (StillUnresolved IncompleteEvidence))"

definition decideReconciliation ::
    "address_parser \<Rightarrow> ReconciliationRecord \<Rightarrow> ReconciliationEvidence \<Rightarrow> ReconciliationDecision result" where
  "decideReconciliation ga record evidence =
     bindE (assertContext ga record evidence) (\<lambda>_.
     if \<not> ev_complete evidence \<or> ev_order evidence = MalformedOrder
     then Inr (StillUnresolved IncompleteEvidence)
     else case rr_actionType record of
            MarketOrderType \<Rightarrow> decideCreate record evidence
          | LimitOrderType \<Rightarrow> decideCreate record evidence
          | PositionTpslType \<Rightarrow> decideCreate record evidence
          | ReduceOnlyCloseType \<Rightarrow> decideClose record evidence
          | CancelType \<Rightarrow> decideCancel record evidence
          | UpdateLeverageType \<Rightarrow> decideLeverage record evidence
          | BulkCancelType \<Rightarrow> invalid ''record.actionType'' ''bulk cancel is not a U7 public action''
          | OtherActionType _ \<Rightarrow> invalid ''record.actionType'' ''unsupported reconciliation action'')"

section \<open>Reading the provider's order status\<close>

definition CANCELED_ORDER_STATUSES :: "string list" where
  "CANCELED_ORDER_STATUSES =
     [''canceled'', ''marginCanceled'', ''vaultWithdrawalCanceled'', ''openInterestCapCanceled'',
      ''selfTradeCanceled'', ''reduceOnlyCanceled'', ''siblingFilledCanceled'', ''delistedCanceled'',
      ''liquidatedCanceled'', ''scheduledCancel'']"

definition REJECTED_ORDER_STATUSES :: "string list" where
  "REJECTED_ORDER_STATUSES =
     [''rejected'', ''tickRejected'', ''minTradeNtlRejected'', ''perpMarginRejected'',
      ''reduceOnlyRejected'', ''badAloPxRejected'', ''iocCancelRejected'', ''badTriggerPxRejected'',
      ''marketOrderNoLiquidityRejected'', ''positionIncreaseAtOpenInterestCapRejected'',
      ''positionFlipAtOpenInterestCapRejected'', ''tooAggressiveAtOpenInterestCapRejected'',
      ''openInterestIncreaseRejected'', ''insufficientSpotBalanceRejected'', ''oracleRejected'',
      ''perpMaxPositionRejected'']"

definition exactKeys :: "js_object \<Rightarrow> string list \<Rightarrow> bool" where
  "exactKeys value expected \<longleftrightarrow>
     length (object_keys value) = length expected \<and> list_all (hasOwn value) expected"

fun lifecycle_status :: "js_value \<Rightarrow> order_status option" where
  "lifecycle_status (JStr s) =
     (if s = ''open'' then Some OpenStatus
      else if s = ''filled'' then Some FilledStatus
      else if s = ''triggered'' then Some TriggeredStatus
      else if s \<in> set CANCELED_ORDER_STATUSES then Some CanceledStatus
      else if s \<in> set REJECTED_ORDER_STATUSES then Some RejectedStatus
      else None)"
| "lifecycle_status _ = None"

record ExpectedOrder =
  ex_assetId :: js_number
  ex_oid :: "js_number option"
  ex_cloid :: "string option"

definition order_cloid_ok :: "js_value \<Rightarrow> bool" where
  "order_cloid_ok v =
     (case v of JUndefined \<Rightarrow> True | JNull \<Rightarrow> True | JStr s \<Rightarrow> CLOID_PATTERN s | _ \<Rightarrow> False)"

fun order_cloid_of :: "js_value \<Rightarrow> string option" where
  "order_cloid_of (JStr s) = Some (toLowerCase s)"
| "order_cloid_of _ = None"

definition parseAuthoritativeOrderStatus :: "js_value \<Rightarrow> ExpectedOrder \<Rightarrow> ObservedOrderEvidence" where
  "parseAuthoritativeOrderStatus payload expected =
     (if (ex_oid expected = None) = (ex_cloid expected = None) \<or>
         (case ex_oid expected of
            None \<Rightarrow> False
          | Some oid \<Rightarrow> \<not> isSafeInteger oid \<or> js_less oid (IntN 0)) \<or>
         (case ex_cloid expected of None \<Rightarrow> False | Some c \<Rightarrow> \<not> CLOID_PATTERN c)
      then MalformedOrder
      else
        case plain_object payload of
          None \<Rightarrow> MalformedOrder
        | Some outer \<Rightarrow>
            if member outer ''status'' = JStr ''unknownOid''
            then (if exactKeys outer [''status''] then UnknownOrder else MalformedOrder)
            else if member outer ''status'' \<noteq> JStr ''order'' \<or> \<not> exactKeys outer [''status'', ''order'']
            then MalformedOrder
            else
              case plain_object (member outer ''order'') of
                None \<Rightarrow> MalformedOrder
              | Some wrapper \<Rightarrow>
                  (case (plain_object (member wrapper ''order''),
                         lifecycle_status (member wrapper ''status'')) of
                     (Some order, Some status) \<Rightarrow>
                       (case safe_at_least 0 (member order ''oid'') of
                          None \<Rightarrow> MalformedOrder
                        | Some oid \<Rightarrow>
                            if \<not> order_cloid_ok (member order ''cloid'') then MalformedOrder
                            else
                              let cloid = order_cloid_of (member order ''cloid'');
                                  expectedCloid = map_option toLowerCase (ex_cloid expected)
                              in if (ex_oid expected \<noteq> None \<and>
                                     \<not> js_eq_opt (ex_oid expected) (Some (IntN oid))) \<or>
                                    (expectedCloid \<noteq> None \<and> expectedCloid \<noteq> cloid)
                                 then MalformedOrder
                                 else ObservedOrder
                                        \<lparr>id_assetId = ex_assetId expected, id_oid = IntN oid,
                                         id_cloid = cloid\<rparr> status)
                   | _ \<Rightarrow> MalformedOrder))"

end
