(* ===== verification/Redaction.thy ===== *)
theory Redaction
  imports Reconciliation
begin

text \<open>
  Serialisation of intents without secrets: \<^verbatim>\<open>packages/hyperliquid/src/reconciliation/redaction.ts\<close>,
  and as much of \<^verbatim>\<open>JSON.stringify\<close> as it and the tombstone chain use.
\<close>

section \<open>JSON\<close>

definition hex_digit :: "nat \<Rightarrow> char" where
  "hex_digit n = ''0123456789abcdef'' ! n"

definition simple_escapes :: "(char \<times> char) list" where
  "simple_escapes = [(CHR 0x22, CHR 0x22), (CHR 0x5C, CHR 0x5C), (CHR 0x08, CHR ''b''),
     (CHR 0x09, CHR ''t''), (CHR 0x0A, CHR ''n''), (CHR 0x0C, CHR ''f''), (CHR 0x0D, CHR ''r'')]"

definition json_char :: "char \<Rightarrow> string" where
  "json_char c =
     (case map_of simple_escapes c of
        Some e \<Rightarrow> [CHR 0x5C, e]
      | None \<Rightarrow>
          if code c < 32
          then CHR 0x5C # ''u00'' @ [hex_digit (code c div 16), hex_digit (code c mod 16)]
          else [c])"

definition json_string :: "string \<Rightarrow> string" where
  "json_string s = CHR 0x22 # concat (map json_char s) @ [CHR 0x22]"

fun json_number :: "js_number \<Rightarrow> string" where
  "json_number (IntN i) = show_int i"
| "json_number _ = ''null''" \<comment> \<open>a fraction never reaches the callers modelled here\<close>

fun joined :: "string list \<Rightarrow> string" where
  "joined [] = ''''"
| "joined [s] = s"
| "joined (s # t # ss) = s @ '','' @ joined (t # ss)"

text \<open>Defined on the values that have a serialisation; the callers pass no others.\<close>

fun stringify :: "js_value \<Rightarrow> string" where
  "stringify (JBool b) = (if b then ''true'' else ''false'')"
| "stringify (JNum n) = json_number n"
| "stringify (JStr s) = json_string s"
| "stringify (JArr vs) = ''['' @ joined (map stringify vs) @ '']''"
| "stringify (JObj obj) =
     ''{'' @ joined (map (\<lambda>(k, v). json_string k @ '':'' @ stringify v) obj) @ ''}''"
| "stringify _ = ''null''"

text \<open>\<^verbatim>\<open>new TextEncoder().encode(s).length\<close> for characters below 256.\<close>

definition utf8_length :: "string \<Rightarrow> nat" where
  "utf8_length s = sum_list (map (\<lambda>c. if code c < 128 then 1 else 2) s)"

section \<open>Forbidden keys\<close>

text \<open>
  The alternatives of \<^verbatim>\<open>FORBIDDEN_KEY\<close>: one word, or two words with at most one
  character, not a line break, between them; anywhere in the key and in either case.
\<close>

definition forbidden_words :: "string list" where
  "forbidden_words = [''seed'', ''mnemonic'', ''secret'', ''signature'', ''preimage'']"

definition forbidden_pairs :: "(string \<times> string) list" where
  "forbidden_pairs = [(''private'', ''key''), (''signed'', ''payload''), (''signing'', ''payload''),
     (''action'', ''bytes''), (''exchange'', ''body'')]"

definition starts_with :: "string \<Rightarrow> string \<Rightarrow> bool" where
  "starts_with p s \<longleftrightarrow> take (length p) s = p"

definition pair_starts :: "string \<times> string \<Rightarrow> string \<Rightarrow> bool" where
  "pair_starts pq s =
     (case pq of (p, q) \<Rightarrow>
        starts_with p s \<and>
        (let rest = drop (length p) s in
         starts_with q rest \<or>
         (rest \<noteq> [] \<and> code (hd rest) \<noteq> 10 \<and> code (hd rest) \<noteq> 13 \<and> starts_with q (tl rest))))"

fun matches_anywhere :: "(string \<Rightarrow> bool) \<Rightarrow> string \<Rightarrow> bool" where
  "matches_anywhere p [] = p []"
| "matches_anywhere p (c # s) = (p (c # s) \<or> matches_anywhere p s)"

definition FORBIDDEN_KEY :: "string \<Rightarrow> bool" where
  "FORBIDDEN_KEY key =
     (let k = toLowerCase key in
      list_ex (\<lambda>w. matches_anywhere (starts_with w) k) forbidden_words \<or>
      list_ex (\<lambda>pq. matches_anywhere (pair_starts pq) k) forbidden_pairs)"

definition MAX_INTENT_BYTES :: nat where
  "MAX_INTENT_BYTES = 32768"

section \<open>Intents\<close>

fun validateValue :: "js_value \<Rightarrow> string \<Rightarrow> nat \<Rightarrow> unit result"
and validateItems :: "js_value list \<Rightarrow> nat \<Rightarrow> string \<Rightarrow> nat \<Rightarrow> unit result"
and validateEntries :: "(string \<times> js_value) list \<Rightarrow> string \<Rightarrow> nat \<Rightarrow> unit result" where
  "validateValue value path depth =
     (if depth > 12 then invalid path ''intent nesting is too deep''
      else case value of
        JNull \<Rightarrow> Inr ()
      | JStr _ \<Rightarrow> Inr ()
      | JBool _ \<Rightarrow> Inr ()
      | JNum n \<Rightarrow> (if isSafeInteger n then Inr () else invalid path ''intent contains an unsupported value'')
      | JArr vs \<Rightarrow> validateItems vs 0 path depth
      | JObj obj \<Rightarrow> validateEntries obj path depth
      | _ \<Rightarrow> invalid path ''intent contains an unsupported value'')"
| "validateItems [] i path depth = Inr ()"
| "validateItems (v # vs) i path depth =
     bindE (validateValue v (path @ ''['' @ show_nat i @ '']'') (depth + 1)) (\<lambda>_.
     validateItems vs (i + 1) path depth)"
| "validateEntries [] path depth = Inr ()"
| "validateEntries ((key, v) # obj) path depth =
     bindE (throw_if (FORBIDDEN_KEY key)
              (HyperliquidValidationError (path @ ''.'' @ key)
                 ''forbidden signing or secret material'')) (\<lambda>_.
     bindE (validateValue v (path @ ''.'' @ key) (depth + 1)) (\<lambda>_.
     validateEntries obj path depth))"

definition serializeSecretFreeIntent :: "js_value \<Rightarrow> string result" where
  "serializeSecretFreeIntent value =
     (case plain_object value of
        None \<Rightarrow> invalid ''intent'' ''expected a plain secret-free intent object''
      | Some _ \<Rightarrow>
          bindE (validateValue value ''intent'' 0) (\<lambda>_.
          let serialized = stringify value in
          if utf8_length serialized > MAX_INTENT_BYTES
          then invalid ''intent'' ''intent exceeds 32 KiB''
          else Inr serialized))"

definition assertSecretFreeIntent :: "js_value \<Rightarrow> unit result" where
  "assertSecretFreeIntent value = bindE (serializeSecretFreeIntent value) (\<lambda>_. Inr ())"

section \<open>Redacted events\<close>

record RedactedActionEvent =
  re_correlationId :: string
  re_actionType :: journal_action_type
  re_state :: string
  re_intentDigest :: string
  re_network :: network
  re_agentAddressSuffix :: string
  re_timestamp :: js_number

definition known_action_type :: "journal_action_type \<Rightarrow> bool" where
  "known_action_type t = (case t of OtherActionType _ \<Rightarrow> False | _ \<Rightarrow> True)"

definition createRedactedActionEvent :: "RedactedActionEvent \<Rightarrow> RedactedActionEvent result" where
  "createRedactedActionEvent event =
     bindE (throw_if (\<not> prefixed ''act_'' is_lower_hex 32 (re_correlationId event))
              (HyperliquidValidationError ''correlationId''
                 ''expected an opaque action correlation ID'')) (\<lambda>_.
     bindE (throw_if (\<not> prefixed ''0x'' is_lower_hex 64 (re_intentDigest event))
              (HyperliquidValidationError ''intentDigest''
                 ''expected a lowercase 32-byte digest'')) (\<lambda>_.
     bindE (throw_if (\<not> prefixed ''0x'' is_lower_hex 8 (toLowerCase (re_agentAddressSuffix event)))
              (HyperliquidValidationError ''agentAddressSuffix''
                 ''expected only the final four address bytes'')) (\<lambda>_.
     bindE (throw_if (\<not> known_action_type (re_actionType event))
              (HyperliquidValidationError ''actionType'' ''unknown action type'')) (\<lambda>_.
     bindE (throw_if (re_state event \<notin> set (map state_name JOURNAL_STATES))
              (HyperliquidValidationError ''state'' ''unknown journal state'')) (\<lambda>_.
     bindE (throw_if
              (\<not> known_network (re_network event) \<or> \<not> isSafeInteger (re_timestamp event) \<or>
               js_less (re_timestamp event) (IntN 0))
              (HyperliquidValidationError ''event'' ''invalid network or timestamp'')) (\<lambda>_.
     Inr event))))))"

section \<open>What a serialised intent is free of\<close>

text \<open>The keys and the depth of a value.\<close>

fun all_keys :: "js_value \<Rightarrow> string set" where
  "all_keys (JArr vs) = (\<Union>v \<in> set vs. all_keys v)"
| "all_keys (JObj obj) = (\<Union>(k, v) \<in> set obj. insert k (all_keys v))"
| "all_keys _ = {}"

fun depth_of :: "js_value \<Rightarrow> nat" where
  "depth_of (JArr vs) = (if vs = [] then 0 else Suc (Max (set (map depth_of vs))))"
| "depth_of (JObj obj) = (if obj = [] then 0 else Suc (Max (set (map (\<lambda>(_, v). depth_of v) obj))))"
| "depth_of _ = 0"

declare validateValue.simps [simp del]

definition clean :: "nat \<Rightarrow> js_value \<Rightarrow> bool" where
  "clean d v \<longleftrightarrow> (\<forall>k \<in> all_keys v. \<not> FORBIDDEN_KEY k) \<and> d + depth_of v \<le> 12"

lemma Max_depth: "xs \<noteq> [] \<Longrightarrow> (\<forall>x \<in> set xs. Suc (d + f x) \<le> n) \<Longrightarrow> d + Suc (Max (f ` set xs)) \<le> n"
proof -
  assume "xs \<noteq> []" "\<forall>x \<in> set xs. Suc (d + f x) \<le> n"
  moreover from this(1) have "Max (f ` set xs) \<in> f ` set xs" by (intro Max_in) auto
  then obtain x where "x \<in> set xs" "Max (f ` set xs) = f x" by auto
  ultimately show ?thesis by auto
qed

lemma clean_atom:
  "d \<le> 12 \<Longrightarrow> clean d JNull" "d \<le> 12 \<Longrightarrow> clean d (JStr t)" "d \<le> 12 \<Longrightarrow> clean d (JBool b)"
  "d \<le> 12 \<Longrightarrow> clean d (JNum n)"
  by (simp_all add: clean_def)

lemma clean_JArr: "d \<le> 12 \<Longrightarrow> \<forall>v \<in> set vs. clean (Suc d) v \<Longrightarrow> clean d (JArr vs)"
  using Max_depth [of vs d depth_of 12] by (auto simp: clean_def)

lemma clean_JObj:
  "d \<le> 12 \<Longrightarrow> \<forall>e \<in> set obj. \<not> FORBIDDEN_KEY (fst e) \<and> clean (Suc d) (snd e) \<Longrightarrow> clean d (JObj obj)"
  using Max_depth [of obj d "\<lambda>(_, v). depth_of v" 12] by (fastforce simp: clean_def split_beta)

lemma validateValue_clean:
  "validateValue v p d = Inr u \<Longrightarrow> clean d v"
  "validateItems vs i p d = Inr u \<Longrightarrow> \<forall>v \<in> set vs. clean (Suc d) v"
  "validateEntries obj p d = Inr u \<Longrightarrow>
     \<forall>e \<in> set obj. \<not> FORBIDDEN_KEY (fst e) \<and> clean (Suc d) (snd e)"
proof (induction v p d and vs i p d and obj p d rule: validateValue_validateItems_validateEntries.induct)
  case (1 w q d)
  then show ?case
    by (cases w) (auto simp: validateValue.simps clean_JArr clean_JObj clean_atom split: if_splits)
qed auto

text \<open>
  C38. An intent that is serialised, and so whatever the journal stores, has no key that names
  signing or secret material, at any depth; it nests at most twelve levels and takes at most
  32 KiB.
\<close>

theorem serialized_intent_is_secret_free:
  assumes "serializeSecretFreeIntent v = Inr s"
  shows "(\<forall>k \<in> all_keys v. \<not> FORBIDDEN_KEY k) \<and> depth_of v \<le> 12 \<and>
     s = stringify v \<and> utf8_length s \<le> 32768"
  using assms validateValue_clean(1) [of v "''intent''" 0]
  by (auto simp: serializeSecretFreeIntent_def result_simps Let_def MAX_INTENT_BYTES_def clean_def
      not_less)

definition sample_intent :: js_value where
  "sample_intent = JObj [(''type'', JStr ''cancel''), (''target'', JObj [(''oid'', JNum (IntN 42))])]"

lemmas forbidden_eval = FORBIDDEN_KEY_def forbidden_words_def forbidden_pairs_def toLowerCase_def
  lower_char_def starts_with_def pair_starts_def

lemma forbidden_examples:
  "FORBIDDEN_KEY ''agentPrivateKey''" "FORBIDDEN_KEY ''private_key''" "FORBIDDEN_KEY ''actionBytes''"
  by (simp_all add: forbidden_eval char_of_eq_iff)

lemma permitted_examples:
  "\<not> FORBIDDEN_KEY ''type''" "\<not> FORBIDDEN_KEY ''target''" "\<not> FORBIDDEN_KEY ''oid''"
  by (simp_all add: forbidden_eval char_of_eq_iff)

lemma sample_intent_serializes: "succeeds (serializeSecretFreeIntent sample_intent)"
proof -
  have "validateValue sample_intent ''intent'' 0 = Inr ()"
    by (simp add: sample_intent_def validateValue.simps permitted_examples safe_int_def max_safe_integer_def)
  moreover have "utf8_length (stringify sample_intent) \<le> 32768"
    by (simp add: sample_intent_def json_string_def json_char_def simple_escapes_def utf8_length_def
        show_int_def show_nat.simps)
  ultimately show ?thesis
    by (simp add: succeeds_def serializeSecretFreeIntent_def sample_intent_def MAX_INTENT_BYTES_def)
qed

theorem serialized_intent_is_secret_free_witness:
  "\<not> FORBIDDEN_KEY ''target'' \<and> depth_of sample_intent \<le> 12"
proof -
  obtain s where "serializeSecretFreeIntent sample_intent = Inr s"
    using sample_intent_serializes by (auto simp: succeeds_iff)
  from serialized_intent_is_secret_free [OF this] show ?thesis by (simp add: sample_intent_def)
qed

end
