(* ===== verification/Tombstone.thy ===== *)
theory Tombstone
  imports Redaction
begin

text \<open>
  Tombstones of retired signers: \<^verbatim>\<open>packages/hyperliquid/src/nonces/tombstone.ts\<close>. Each
  tombstone hashes its own fields and the root of the one before it. The composition
  \<^verbatim>\<open>keccak256(stringToHex(text))\<close> of viem is a parameter, \<open>digest\<close>.
\<close>

datatype retirement_reason =
    Rotated | Revoked | ExpiredReason | CredentialLost | ExternalRevocationUnconfirmed
  | OtherReason string

fun reason_name :: "retirement_reason \<Rightarrow> string" where
  "reason_name Rotated = ''rotated''"
| "reason_name Revoked = ''revoked''"
| "reason_name ExpiredReason = ''expired''"
| "reason_name CredentialLost = ''credential_lost''"
| "reason_name ExternalRevocationUnconfirmed = ''external_revocation_unconfirmed''"
| "reason_name (OtherReason s) = s"

definition known_reason :: "retirement_reason \<Rightarrow> bool" where
  "known_reason r = (case r of OtherReason _ \<Rightarrow> False | _ \<Rightarrow> True)"

definition EMPTY_RETIREMENT_CHAIN_ROOT :: string where
  "EMPTY_RETIREMENT_CHAIN_ROOT = ''0x'' @ replicate 64 CHR ''0''"

record RetiredSignerTombstoneInput =
  ti_installationEpoch :: string
  ti_sequence :: js_number
  ti_priorChainRoot :: string
  ti_network :: network
  ti_agentAddressFingerprint :: string
  ti_lastIssuedNonce :: js_number
  ti_generation :: js_number
  ti_retiredAt :: js_number
  ti_reason :: retirement_reason

record RetiredSignerTombstone = RetiredSignerTombstoneInput +
  ti_chainRoot :: string

definition HASH_PATTERN :: "string \<Rightarrow> bool" where
  "HASH_PATTERN = prefixed ''0x'' is_lower_hex 64"

definition validateHash :: "string \<Rightarrow> string \<Rightarrow> unit result" where
  "validateHash v path =
     throw_if (\<not> HASH_PATTERN v)
       (HyperliquidValidationError path ''expected a 32-byte lowercase hash'')"

definition agentAddressFingerprint :: "(string \<Rightarrow> string) \<Rightarrow> string \<Rightarrow> string result" where
  "agentAddressFingerprint digest address =
     (if \<not> prefixed ''0x'' is_hex 40 address
      then invalid ''agentAddress'' ''expected a 20-byte Ethereum address''
      else Inr (digest (''hyper-trader-retired-agent/v1'' @ [char_of (0 :: nat)] @ toLowerCase address)))"

fun safe_at :: "int \<Rightarrow> js_number \<Rightarrow> bool" where
  "safe_at m (IntN i) = (safe_int i \<and> m \<le> i)"
| "safe_at m _ = False"

definition assertSafeField :: "string \<Rightarrow> js_number \<Rightarrow> int \<Rightarrow> unit result" where
  "assertSafeField path v minimum =
     throw_if (\<not> safe_at minimum v) (HyperliquidValidationError path ''expected a safe integer'')"

text \<open>The text that is hashed, and the object the function returns.\<close>

definition canonical_tombstone :: "('a) RetiredSignerTombstoneInput_scheme \<Rightarrow> string" where
  "canonical_tombstone t =
     stringify (JArr
       [JStr ''hyper-trader-retirement/v1'', JStr (ti_installationEpoch t), JNum (ti_sequence t),
        JStr (ti_priorChainRoot t), JStr (network_name (ti_network t)),
        JStr (ti_agentAddressFingerprint t), JNum (ti_lastIssuedNonce t), JNum (ti_generation t),
        JNum (ti_retiredAt t), JStr (reason_name (ti_reason t))])"

definition createRetiredSignerTombstone ::
    "(string \<Rightarrow> string) \<Rightarrow> RetiredSignerTombstoneInput \<Rightarrow> RetiredSignerTombstone result" where
  "createRetiredSignerTombstone digest t =
     bindE (validateHash (ti_priorChainRoot t) ''priorChainRoot'') (\<lambda>_.
     bindE (validateHash (ti_agentAddressFingerprint t) ''agentAddressFingerprint'') (\<lambda>_.
     bindE (throw_if (length (ti_installationEpoch t) < 16 \<or> length (ti_installationEpoch t) > 128)
              (HyperliquidValidationError ''installationEpoch''
                 ''expected a bounded opaque installation epoch'')) (\<lambda>_.
     bindE (throw_if (\<not> known_network (ti_network t))
              (HyperliquidValidationError ''network'' ''unknown network'')) (\<lambda>_.
     bindE (throw_if (\<not> known_reason (ti_reason t))
              (HyperliquidValidationError ''reason'' ''unknown retirement reason'')) (\<lambda>_.
     bindE (assertSafeField ''sequence'' (ti_sequence t) 1) (\<lambda>_.
     bindE (assertSafeField ''lastIssuedNonce'' (ti_lastIssuedNonce t) 0) (\<lambda>_.
     bindE (assertSafeField ''generation'' (ti_generation t) 1) (\<lambda>_.
     bindE (assertSafeField ''retiredAt'' (ti_retiredAt t) 0) (\<lambda>_.
     Inr (RetiredSignerTombstoneInput.extend t
            \<lparr>ti_chainRoot = digest (canonical_tombstone t)\<rparr>))))))))))"

section \<open>The text of a tombstone determines it\<close>

lemma safe_at_iff [simp]: "safe_at m v \<longleftrightarrow> (\<exists>i. v = IntN i \<and> safe_int i \<and> m \<le> i)"
  by (cases v) auto

definition valid_tombstone :: "RetiredSignerTombstoneInput \<Rightarrow> bool" where
  "valid_tombstone t \<longleftrightarrow>
     HASH_PATTERN (ti_priorChainRoot t) \<and> HASH_PATTERN (ti_agentAddressFingerprint t) \<and>
     16 \<le> length (ti_installationEpoch t) \<and> length (ti_installationEpoch t) \<le> 128 \<and>
     known_network (ti_network t) \<and> known_reason (ti_reason t) \<and>
     safe_at 1 (ti_sequence t) \<and> safe_at 0 (ti_lastIssuedNonce t) \<and> safe_at 1 (ti_generation t) \<and>
     safe_at 0 (ti_retiredAt t)"

lemma createRetiredSignerTombstone_Inr:
  "createRetiredSignerTombstone digest t = Inr r \<longleftrightarrow>
     valid_tombstone t \<and>
     r = RetiredSignerTombstoneInput.extend t \<lparr>ti_chainRoot = digest (canonical_tombstone t)\<rparr>"
  by (auto simp: createRetiredSignerTombstone_def validateHash_def assertSafeField_def
      valid_tombstone_def not_less)

lemma hex_digit_inj: "a < 16 \<Longrightarrow> b < 16 \<Longrightarrow> hex_digit a = hex_digit b \<Longrightarrow> a = b"
  using nth_eq_iff_index_eq [of "''0123456789abcdef''" a b] by (simp add: hex_digit_def)

lemma simple_escape_inj:
  "map_of simple_escapes c = Some e \<Longrightarrow> map_of simple_escapes d = Some e \<Longrightarrow> c = d"
  by (auto simp: simple_escapes_def split: if_splits)

lemma simple_escape_not_u: "map_of simple_escapes c \<noteq> Some CHR ''u''"
  by (auto simp: simple_escapes_def)

lemma plain_char:
  "map_of simple_escapes c = None \<Longrightarrow> c \<noteq> CHR 0x5C \<and> c \<noteq> CHR 0x22"
  by (auto simp: simple_escapes_def split: if_splits)

lemma json_char_first [simp]:
  "json_char c \<noteq> []" "json_char c \<noteq> CHR 0x22 # z" "CHR 0x22 # z \<noteq> json_char c"
  using plain_char [of c] by (auto simp: json_char_def split: option.splits)

lemma control_char_inj:
  assumes "code c < 32" "code d < 32" "hex_digit (code c div 16) = hex_digit (code d div 16)"
    "hex_digit (code c mod 16) = hex_digit (code d mod 16)"
  shows "c = d"
proof -
  have "code c div 16 = code d div 16" by (rule hex_digit_inj [OF _ _ assms(3)]) (use assms in auto)
  moreover have "code c mod 16 = code d mod 16" by (rule hex_digit_inj [OF _ _ assms(4)]) auto
  ultimately have "code c = code d" by (metis mult_div_mod_eq)
  then show ?thesis by simp
qed

lemma json_char_prefix:
  assumes "json_char c @ x = json_char d @ y"
  shows "c = d \<and> x = y"
proof -
  have "c = d"
    using assms simple_escape_inj [of c _ d] simple_escape_not_u [of c] simple_escape_not_u [of d]
      plain_char [of c] plain_char [of d] control_char_inj [of c d]
    by (auto simp: json_char_def split: option.splits if_splits)
  with assms show ?thesis by simp
qed

lemma json_string_delimited:
  "concat (map json_char s) @ CHR 0x22 # x = concat (map json_char t) @ CHR 0x22 # y \<Longrightarrow> s = t \<and> x = y"
proof (induction s arbitrary: t)
  case Nil
  then show ?case by (cases t) (auto simp: Cons_eq_append_conv)
next
  case (Cons c s)
  show ?case
  proof (cases t)
    case Nil
    with Cons.prems show ?thesis by (auto simp: append_eq_Cons_conv)
  next
    case (Cons d u)
    with Cons.prems json_char_prefix [of c _ d] have "c = d"
      "concat (map json_char s) @ CHR 0x22 # x = concat (map json_char u) @ CHR 0x22 # y"
      by auto
    with Cons.IH [of u] Cons show ?thesis by simp
  qed
qed

lemma json_string_inj: "json_string s @ x = json_string t @ y \<Longrightarrow> s = t \<and> x = y"
  by (rule json_string_delimited) (simp add: json_string_def)

lemma show_nat_no_mark: "CHR '','' \<notin> set (show_nat n)" "CHR ''-'' \<notin> set (show_nat n)"
  using show_nat_digits [of n] by (auto simp: list_all_iff is_digit_def)

lemma show_int_no_comma: "CHR '','' \<notin> set (show_int i)"
  using show_nat_no_mark by (auto simp: show_int_def)

lemma show_int_inject: "show_int i = show_int j \<Longrightarrow> i = j"
proof -
  assume eq: "show_int i = show_int j"
  have "show_nat n \<noteq> CHR ''-'' # t" for n t
    using show_nat_no_mark(2) [of n] by auto
  then have "(i < 0) = (j < 0)"
    using eq by (auto simp: show_int_def split: if_splits) metis+
  with eq show "i = j" by (auto simp: show_int_def split: if_splits)
qed

lemma comma_delimited:
  "CHR '','' \<notin> set s \<Longrightarrow> CHR '','' \<notin> set t \<Longrightarrow> s @ CHR '','' # x = t @ CHR '','' # y \<Longrightarrow> s = t \<and> x = y"
proof (induction s arbitrary: t)
  case Nil
  then show ?case by (cases t) auto
next
  case (Cons c s)
  then show ?case by (cases t) auto
qed

lemma json_int_inj:
  "show_int i @ CHR '','' # x = show_int j @ CHR '','' # y \<Longrightarrow> i = j \<and> x = y"
  using comma_delimited [OF show_int_no_comma show_int_no_comma] show_int_inject by blast

lemma network_name_inj: "known_network m \<Longrightarrow> known_network n \<Longrightarrow> network_name m = network_name n \<Longrightarrow> m = n"
  by (auto simp: known_network_def)

lemma reason_name_inj: "known_reason q \<Longrightarrow> known_reason r \<Longrightarrow> reason_name q = reason_name r \<Longrightarrow> q = r"
  by (cases q; cases r) (auto simp: known_reason_def)

lemma canonical_tombstone_text:
  assumes "ti_sequence t = IntN a" "ti_lastIssuedNonce t = IntN b" "ti_generation t = IntN c"
    "ti_retiredAt t = IntN d"
  shows "canonical_tombstone t =
     ''['' @ json_string ''hyper-trader-retirement/v1'' @ '','' @ json_string (ti_installationEpoch t) @ '','' @
     show_int a @ '','' @ json_string (ti_priorChainRoot t) @ '','' @
     json_string (network_name (ti_network t)) @ '','' @ json_string (ti_agentAddressFingerprint t) @ '','' @
     show_int b @ '','' @ show_int c @ '','' @ show_int d @ '','' @ json_string (reason_name (ti_reason t)) @ '']''"
  using assms by (simp add: canonical_tombstone_def)

lemma canonical_tombstone_inj:
  assumes "valid_tombstone t" "valid_tombstone u" "canonical_tombstone t = canonical_tombstone u"
  shows "t = u"
proof -
  from assms(1) obtain a b c d where t: "ti_sequence t = IntN a" "ti_lastIssuedNonce t = IntN b"
    "ti_generation t = IntN c" "ti_retiredAt t = IntN d" by (auto simp: valid_tombstone_def)
  from assms(2) obtain a' b' c' d' where u: "ti_sequence u = IntN a'" "ti_lastIssuedNonce u = IntN b'"
    "ti_generation u = IntN c'" "ti_retiredAt u = IntN d'" by (auto simp: valid_tombstone_def)
  have "ti_installationEpoch t = ti_installationEpoch u \<and> a = a' \<and>
      ti_priorChainRoot t = ti_priorChainRoot u \<and>
      network_name (ti_network t) = network_name (ti_network u) \<and>
      ti_agentAddressFingerprint t = ti_agentAddressFingerprint u \<and> b = b' \<and> c = c' \<and> d = d' \<and>
      reason_name (ti_reason t) = reason_name (ti_reason u)"
    using assms(3) unfolding canonical_tombstone_text [OF t] canonical_tombstone_text [OF u]
    using json_string_inj [of "reason_name (ti_reason t)" "[]" "reason_name (ti_reason u)" "[]"]
    by (auto dest!: json_string_inj json_int_inj)
  moreover from this have "ti_network t = ti_network u" "ti_reason t = ti_reason u"
    using assms(1,2) network_name_inj reason_name_inj by (auto simp: valid_tombstone_def)
  ultimately show ?thesis using t u by (cases t; cases u) simp
qed

end
