(* ===== verification/Settlement.thy ===== *)
theory Settlement
  imports Reconciliation
begin

text \<open>
  The state machine of the journal and what the reconciliation policy guarantees: states only
  move forward, an action is called expired only after its expiry and with nothing seen of it,
  accepted only on evidence of its own identity, and complete evidence after the expiry settles
  every order.
\<close>

section \<open>The state machine\<close>

inductive journal_step :: "journal_state \<Rightarrow> journal_state \<Rightarrow> bool" where
  "assertJournalTransition s t = Inr () \<Longrightarrow> journal_step s t"

inductive_simps journal_step_iff: "journal_step s t"

lemma assertJournalTransition_Inr [result_simps]:
  "assertJournalTransition s t = Inr u \<longleftrightarrow> t \<in> set (ALLOWED_TRANSITIONS s)"
  by (simp add: assertJournalTransition_def)

lemma assertJournalResultClass_Inr [result_simps]:
  "assertJournalResultClass s c = Inr u \<longleftrightarrow> c = RESULT_FOR_STATE s"
  by (simp add: assertJournalResultClass_def)

fun stage :: "journal_state \<Rightarrow> nat" where
  "stage Prepared = 0"
| "stage SubmissionStarted = 1"
| "stage Unresolved = 2"
| "stage _ = 3"

lemma journal_step_stage: "journal_step s t \<Longrightarrow> stage s < stage t"
  by (cases s; cases t) (auto simp: journal_step_iff result_simps)

lemma journal_steps_stage: "(journal_step ^^ n) s t \<Longrightarrow> stage s + n \<le> stage t"
  by (induction n arbitrary: t) (fastforce dest: journal_step_stage)+

lemma terminal_iff_no_step: "isTerminalJournalState s \<longleftrightarrow> (\<forall>t. \<not> journal_step s t)"
  by (cases s) (auto simp: isTerminalJournalState_def TERMINAL_JOURNAL_STATES_def
      journal_step_iff result_simps)

lemma stage_bound: "stage s \<le> 3"
  by (cases s) auto

text \<open>
  C37. Every path of the journal moves forward and ends: from any state at most three transitions
  are possible, no state is entered twice, and the terminal states are those without a
  transition.
\<close>

theorem journal_paths_end:
  "((journal_step ^^ n) s t \<longrightarrow> n \<le> 3 \<and> (0 < n \<longrightarrow> s \<noteq> t)) \<and>
   (isTerminalJournalState s \<longleftrightarrow> (\<forall>t. \<not> journal_step s t))"
proof -
  have "n \<le> 3 \<and> (0 < n \<longrightarrow> s \<noteq> t)" if "(journal_step ^^ n) s t"
    using journal_steps_stage [OF that] stage_bound [of t] by auto
  then show ?thesis using terminal_iff_no_step by blast
qed

theorem journal_paths_end_witness:
  "(journal_step ^^ 3) Prepared Accepted \<and> (3 :: nat) \<le> 3 \<and> Prepared \<noteq> Accepted"
proof -
  have "journal_step Prepared SubmissionStarted" "journal_step SubmissionStarted Unresolved"
    "journal_step Unresolved Accepted"
    by (simp_all add: journal_step_iff result_simps)
  then have "(journal_step ^^ 3) Prepared Accepted"
    by (auto simp: numeral_3_eq_3 relcompp_apply)
  then show ?thesis using journal_paths_end [of 3 Prepared Accepted] by simp
qed

section \<open>Contexts and identities\<close>

lemma normalizeContextAddress_Inr [result_simps]:
  "normalizeContextAddress ga v p = Inr a \<longleftrightarrow> (\<exists>b. ga v = Some b \<and> a = toLowerCase b)"
  by (auto simp: normalizeContextAddress_def split: option.splits)

lemma safeTime_Inr [result_simps]:
  "safeTime v p = Inr i \<longleftrightarrow> v = IntN i \<and> safe_int i \<and> 0 \<le> i"
  by (cases v) (auto simp: safeTime_def)

definition same_context :: "address_parser \<Rightarrow> ReconciliationRecord \<Rightarrow> ReconciliationEvidence \<Rightarrow> bool" where
  "same_context ga record evidence \<longleftrightarrow>
     rr_network record = ev_network evidence \<and>
     js_eq_opt (rr_assetId record) (ev_assetId evidence) \<and>
     (\<exists>m m'. ga (rr_masterAccount record) = Some m \<and> ga (ev_masterAccount evidence) = Some m' \<and>
        toLowerCase m = toLowerCase m') \<and>
     (\<exists>t t'. ga (rr_targetAccount record) = Some t \<and> ga (ev_targetAccount evidence) = Some t' \<and>
        toLowerCase t = toLowerCase t')"

lemma assertContext_Inr:
  assumes "assertContext ga record evidence = Inr x"
  obtains expires server version where "same_context ga record evidence"
    "rr_expiresAfterMs record = IntN expires" "ev_serverTimeMs evidence = IntN server"
    "ev_stateVersion evidence = IntN version" "x = (expires, server, version)"
  using assms by (auto simp: assertContext_def result_simps Let_def same_context_def)

text \<open>Evidence that the provider took the order on: it is or was on the book, or has filled.\<close>

definition order_seen :: "ReconciliationRecord \<Rightarrow> ReconciliationEvidence \<Rightarrow> bool" where
  "order_seen record evidence \<longleftrightarrow>
     (\<exists>ident status. ev_order evidence = ObservedOrder ident status \<and> sameIdentity record ident \<and>
        status \<noteq> RejectedStatus) \<or>
     (\<exists>ident \<in> set (ev_openOrders evidence) \<union> set (ev_fills evidence). sameIdentity record ident)"

definition order_refused :: "ReconciliationRecord \<Rightarrow> ReconciliationEvidence \<Rightarrow> bool" where
  "order_refused record evidence \<longleftrightarrow>
     ev_definitiveRejection evidence \<or>
     (\<exists>ident. ev_order evidence = ObservedOrder ident RejectedStatus \<and> sameIdentity record ident)"

definition creates_order :: "journal_action_type \<Rightarrow> bool" where
  "creates_order t \<longleftrightarrow> t \<in> {MarketOrderType, LimitOrderType, PositionTpslType, ReduceOnlyCloseType}"

lemma exactObservedOrder_Some:
  "exactObservedOrder record e = Some status \<longleftrightarrow>
     (\<exists>ident. e = ObservedOrder ident status \<and> sameIdentity record ident)"
  by (cases e) auto

lemma decideCreate_eq:
  "decideCreate record evidence =
     (if rr_cloid record = None
      then invalid ''record.cloid'' ''order creation requires an immutable cloid''
      else Inr (if order_seen record evidence \<and> order_refused record evidence
                then Terminal ReconciledAmbiguous
                else if order_refused record evidence then Terminal Rejected
                else if order_seen record evidence then Terminal Accepted
                else if atOrAfterExpiry record evidence then Terminal Expired
                else StillUnresolved BeforeExpiry))"
proof -
  let ?order = "exactObservedOrder record (ev_order evidence)"
  have seen: "order_seen record evidence \<longleftrightarrow>
      (?order \<noteq> None \<and> ?order \<noteq> Some RejectedStatus) \<or>
      list_ex (sameIdentity record) (ev_openOrders evidence) \<or>
      list_ex (sameIdentity record) (ev_fills evidence)"
    by (auto simp: order_seen_def exactObservedOrder_Some list_ex_iff)
  have refused: "order_refused record evidence \<longleftrightarrow>
      ?order = Some RejectedStatus \<or> ev_definitiveRejection evidence"
    by (auto simp: order_refused_def exactObservedOrder_Some)
  show ?thesis
    by (cases "rr_cloid record") (simp_all add: decideCreate_def Let_def seen refused)
qed

lemma decideReconciliation_cases:
  assumes "decideReconciliation ga record evidence = Inr (Terminal s)"
  obtains (create) "rr_actionType record \<in> {MarketOrderType, LimitOrderType, PositionTpslType}"
      "decideCreate record evidence = Inr (Terminal s)"
  | (close) "rr_actionType record = ReduceOnlyCloseType" "decideClose record evidence = Inr (Terminal s)"
  | (cancel) "rr_actionType record = CancelType" "decideCancel record evidence = Inr (Terminal s)"
  | (leverage) "rr_actionType record = UpdateLeverageType"
      "decideLeverage record evidence = Inr (Terminal s)"
  using assms by (cases "rr_actionType record")
    (auto simp: decideReconciliation_def split: if_splits)

lemma decided_context:
  assumes "decideReconciliation ga record evidence = Inr (Terminal s)"
  shows "same_context ga record evidence" "ev_complete evidence" "ev_order evidence \<noteq> MalformedOrder"
  using assms
  by (auto simp: decideReconciliation_def split: if_splits elim!: assertContext_Inr)

section \<open>What a decision rests on\<close>

text \<open>
  An action is declared expired only on complete evidence from its own context, with the
  server's clock past the action's expiry and no definitive rejection; an order only if
  nothing was seen of it, neither on the book nor among the fills.
\<close>

theorem expired_only_after_expiry:
  assumes "decideReconciliation ga record evidence = Inr (Terminal Expired)"
  shows "same_context ga record evidence \<and> ev_complete evidence \<and>
     js_less (rr_expiresAfterMs record) (ev_serverTimeMs evidence) \<and>
     \<not> ev_definitiveRejection evidence \<and>
     (creates_order (rr_actionType record) \<longrightarrow>
        \<not> order_seen record evidence \<and> \<not> order_refused record evidence)"
  using assms
proof (cases rule: decideReconciliation_cases)
  case create
  then show ?thesis using decided_context [OF assms]
    by (auto simp: decideCreate_eq atOrAfterExpiry_def order_refused_def split: if_splits)
next
  case close
  then show ?thesis using decided_context [OF assms]
    by (auto simp: decideClose_def decideCreate_eq atOrAfterExpiry_def order_refused_def
        split: if_splits)
next
  case cancel
  then show ?thesis using decided_context [OF assms]
    by (auto simp: decideCancel_def Let_def atOrAfterExpiry_def creates_order_def split: if_splits)
next
  case leverage
  then show ?thesis using decided_context [OF assms]
    by (auto simp: decideLeverage_def Let_def atOrAfterExpiry_def creates_order_def
        split: if_splits js_value.splits option.splits)
qed

text \<open>The evidence on which each kind of action counts as accepted.\<close>

definition cancel_effective :: "ReconciliationRecord \<Rightarrow> ReconciliationEvidence \<Rightarrow> bool" where
  "cancel_effective record evidence \<longleftrightarrow>
     (\<exists>ident status. ev_order evidence = ObservedOrder ident status \<and> sameIdentity record ident \<and>
        status \<in> {CanceledStatus, FilledStatus, TriggeredStatus}) \<or>
     (ev_order evidence = UnknownOrder \<and>
      (\<forall>ident \<in> set (ev_openOrders evidence). \<not> sameIdentity record ident) \<and>
      member (rr_intent record) ''targetObservedBeforeSubmission'' = JBool True)"

definition leverage_effective :: "ReconciliationRecord \<Rightarrow> ReconciliationEvidence \<Rightarrow> bool" where
  "leverage_effective record evidence \<longleftrightarrow>
     (\<exists>l. ev_leverage evidence = Some l \<and> lev_causallyAttributed l \<and>
        rr_assetId record = Some (lev_assetId l) \<and>
        member (rr_intent record) ''leverage'' = JNum (lev_leverage l) \<and>
        member (rr_intent record) ''marginMode'' = JStr (margin_mode_value (lev_marginMode l)))"

text \<open>
  An action is declared accepted only on complete evidence from its own context: an order that
  was seen and not refused, a cancel whose target is gone, or a leverage that matches the
  intent and is attributed to this action.
\<close>

theorem accepted_only_on_evidence:
  assumes "decideReconciliation ga record evidence = Inr (Terminal Accepted)"
  shows "same_context ga record evidence \<and> ev_complete evidence \<and>
     (if creates_order (rr_actionType record)
      then order_seen record evidence \<and> \<not> order_refused record evidence
      else if rr_actionType record = CancelType then cancel_effective record evidence
      else rr_actionType record = UpdateLeverageType \<and> leverage_effective record evidence)"
  using assms
proof (cases rule: decideReconciliation_cases)
  case create
  then show ?thesis using decided_context [OF assms]
    by (auto simp: decideCreate_eq creates_order_def split: if_splits)
next
  case close
  then show ?thesis using decided_context [OF assms]
    by (auto simp: decideClose_def decideCreate_eq creates_order_def split: if_splits)
next
  case cancel
  then show ?thesis using decided_context [OF assms]
    by (auto simp: decideCancel_def Let_def cancel_effective_def creates_order_def
        exactObservedOrder_Some list_ex_iff split: if_splits)
next
  case leverage
  then show ?thesis using decided_context [OF assms]
    by (auto simp: decideLeverage_def Let_def leverage_effective_def creates_order_def js_eq_opt_def
        dest!: js_eqD split: if_splits js_value.splits option.splits)
qed

lemma decided_states:
  assumes "decideReconciliation ga record evidence = Inr (Terminal s)"
  shows "s \<in> {Accepted, Rejected, Expired, ReconciledAmbiguous}"
  using assms
proof (cases rule: decideReconciliation_cases)
  case create
  then show ?thesis by (auto simp: decideCreate_eq split: if_splits)
next
  case close
  then show ?thesis by (auto simp: decideClose_def decideCreate_eq split: if_splits)
next
  case cancel
  then show ?thesis by (auto simp: decideCancel_def Let_def split: if_splits)
next
  case leverage
  then show ?thesis
    by (auto simp: decideLeverage_def Let_def split: if_splits js_value.splits option.splits)
qed

text \<open>
  Every terminal decision is a state in which the journal may put an action that was submitted
  or is unresolved.
\<close>

theorem decision_is_a_transition:
  assumes "decideReconciliation ga record evidence = Inr (Terminal s)"
  shows "journal_step SubmissionStarted s \<and> journal_step Unresolved s \<and> isTerminalJournalState s"
  using decided_states [OF assms]
  by (auto simp: journal_step_iff result_simps isTerminalJournalState_def TERMINAL_JOURNAL_STATES_def)

lemma late_evidence_settles:
  assumes "assertContext ga record evidence = Inr (expires, server, version)"
    and "ev_complete evidence" "ev_order evidence \<noteq> MalformedOrder" "expires < server"
    and "creates_order (rr_actionType record) \<and> rr_cloid record \<noteq> None \<or>
         rr_actionType record = CancelType \<and> (rr_cloid record = None) \<noteq> (rr_targetOid record = None)"
  shows "\<exists>s. decideReconciliation ga record evidence = Inr (Terminal s)"
proof -
  from assms(1,4) have late: "atOrAfterExpiry record evidence"
    by (auto elim!: assertContext_Inr simp: atOrAfterExpiry_def)
  have c: "\<exists>s. decideCreate record evidence = Inr (Terminal s)" if "rr_cloid record \<noteq> None"
    using that late by (simp add: decideCreate_eq)
  have "\<exists>s. decideClose record evidence = Inr (Terminal s)" if "rr_cloid record \<noteq> None"
  proof -
    from c [OF that] obtain s where s: "decideCreate record evidence = Inr (Terminal s)" ..
    show ?thesis by (simp add: decideClose_def s)
  qed
  moreover have "\<exists>s. decideCancel record evidence = Inr (Terminal s)"
    if "(rr_cloid record = None) \<noteq> (rr_targetOid record = None)"
    using that late by (auto simp: decideCancel_def Let_def)
  ultimately show ?thesis
    using assms c by (auto simp: decideReconciliation_def creates_order_def)
qed

text \<open>
  Reconciliation settles: once the server's clock is past the expiry, complete evidence from the
  action's context decides every order and every cancel that names its target.
\<close>

theorem reconciliation_settles:
  assumes "assertContext ga record evidence = Inr (expires, server, version)"
    and "ev_complete evidence" "ev_order evidence \<noteq> MalformedOrder" "expires < server"
    and "creates_order (rr_actionType record) \<and> rr_cloid record \<noteq> None \<or>
         rr_actionType record = CancelType \<and> (rr_cloid record = None) \<noteq> (rr_targetOid record = None)"
  shows "\<exists>s. decideReconciliation ga record evidence = Inr (Terminal s)"
  using assms by (rule late_evidence_settles)

section \<open>The provider's order status as evidence\<close>

lemma observed_order_expected:
  assumes "parseAuthoritativeOrderStatus payload expected = ObservedOrder ident status"
  shows "id_assetId ident = ex_assetId expected"
    and "ex_oid expected = Some x \<Longrightarrow> id_oid ident = x"
    and "ex_cloid expected = Some c \<Longrightarrow> id_cloid ident = Some (toLowerCase c)"
    and "(ex_oid expected = None) \<noteq> (ex_cloid expected = None)"
  using assms
  by (auto simp: parseAuthoritativeOrderStatus_def Let_def js_eq_opt_def
      split: if_splits option.splits dest!: js_eqD)

text \<open>
  An order status counts as an observation of the order it was asked for only: its identity is
  the expected asset with the expected order ID, or the expected client order ID in lower case.
  So it is the exact order of any record with that identity, whatever else the response holds.
\<close>

theorem order_status_is_about_the_expected_order:
  assumes "parseAuthoritativeOrderStatus payload expected = ObservedOrder ident status"
    and "rr_assetId record = Some (ex_assetId expected)" "ex_assetId expected \<noteq> NaN"
    and "rr_cloid record = ex_cloid expected" "rr_targetOid record = ex_oid expected"
  shows "exactObservedOrder record (parseAuthoritativeOrderStatus payload expected) = Some status"
proof -
  note o = observed_order_expected [OF assms(1)]
  have "sameIdentity record ident"
  proof (cases "ex_cloid expected")
    case (Some c)
    with assms o(1) o(3) [OF Some] show ?thesis
      by (simp add: sameIdentity_def js_eq_opt_def js_eq_def)
  next
    case None
    with o(4) obtain x where x: "ex_oid expected = Some x" by auto
    have "x \<noteq> NaN"
      using assms(1) x by (auto simp: parseAuthoritativeOrderStatus_def split: if_splits)
    with None x assms o(1) o(2) [OF x] show ?thesis
      by (simp add: sameIdentity_def js_eq_opt_def js_eq_def)
  qed
  with assms(1) show ?thesis by simp
qed

section \<open>Concrete evidence\<close>

definition sample_record :: "journal_action_type \<Rightarrow> ReconciliationRecord" where
  "sample_record t =
     \<lparr>rr_network = Testnet, rr_masterAccount = ''m'', rr_targetAccount = ''t'', rr_actionType = t,
      rr_assetId = Some (IntN 7), rr_cloid = Some ''0x000000000000000000000000000000AB'',
      rr_targetOid = None, rr_expiresAfterMs = IntN 16000, rr_intent = []\<rparr>"

definition sample_evidence :: "ObservedOrderEvidence \<Rightarrow> ReconciliationEvidence" where
  "sample_evidence observed =
     \<lparr>ev_network = Testnet, ev_masterAccount = ''M'', ev_targetAccount = ''T'',
      ev_assetId = Some (IntN 7), ev_serverTimeMs = IntN 16001, ev_complete = True,
      ev_order = observed, ev_openOrders = [], ev_fills = [], ev_position = None,
      ev_leverage = None, ev_stateVersion = IntN 3, ev_definitiveRejection = False\<rparr>"

definition sample_status :: "string \<Rightarrow> js_value" where
  "sample_status status =
     JObj [(''status'', JStr ''order''),
           (''order'', JObj [(''order'', JObj [(''oid'', JNum (IntN 42)),
              (''cloid'', JStr ''0x000000000000000000000000000000ab'')]), (''status'', JStr status)])]"

definition sample_expected :: ExpectedOrder where
  "sample_expected = \<lparr>ex_assetId = IntN 7, ex_oid = None,
     ex_cloid = Some ''0x000000000000000000000000000000AB''\<rparr>"

definition sample_observed :: ObservedOrderEvidence where
  "sample_observed = ObservedOrder \<lparr>id_assetId = IntN 7, id_oid = IntN 42,
     id_cloid = Some ''0x000000000000000000000000000000ab''\<rparr> FilledStatus"

lemma sample_status_parses:
  "parseAuthoritativeOrderStatus (sample_status ''filled'') sample_expected = sample_observed"
  by code_simp

lemma sample_decisions:
  "decideReconciliation Some (sample_record LimitOrderType) (sample_evidence sample_observed) =
     Inr (Terminal Accepted)"
  "decideReconciliation Some (sample_record LimitOrderType) (sample_evidence UnknownOrder) =
     Inr (Terminal Expired)"
  by code_simp+

theorem expired_only_after_expiry_witness:
  "js_less (rr_expiresAfterMs (sample_record LimitOrderType))
     (ev_serverTimeMs (sample_evidence UnknownOrder)) \<and>
   \<not> order_seen (sample_record LimitOrderType) (sample_evidence UnknownOrder)"
  using expired_only_after_expiry [OF sample_decisions(2)]
  by (simp add: creates_order_def sample_record_def)

theorem accepted_only_on_evidence_witness:
  "order_seen (sample_record LimitOrderType) (sample_evidence sample_observed)"
  using accepted_only_on_evidence [OF sample_decisions(1)]
  by (simp add: creates_order_def sample_record_def)

theorem decision_is_a_transition_witness: "journal_step Unresolved Expired"
  using decision_is_a_transition [OF sample_decisions(2)] by simp

theorem reconciliation_settles_witness:
  "\<exists>s. decideReconciliation Some (sample_record CancelType) (sample_evidence UnknownOrder) = Inr (Terminal s)"
proof (rule reconciliation_settles)
  show "assertContext Some (sample_record CancelType) (sample_evidence UnknownOrder) = Inr (16000, 16001, 3)"
    by code_simp
qed (simp_all add: sample_evidence_def sample_record_def)

theorem order_status_is_about_the_expected_order_witness:
  "exactObservedOrder (sample_record LimitOrderType)
     (parseAuthoritativeOrderStatus (sample_status ''filled'') sample_expected) = Some FilledStatus"
  by (rule order_status_is_about_the_expected_order [OF sample_status_parses [unfolded sample_observed_def]])
    (simp_all add: sample_record_def sample_expected_def)

end
