(* ===== verification/Journal.thy ===== *)
theory Journal
  imports Nonces Redaction Tombstone Settlement
begin

text \<open>
  The durable action journal: \<^verbatim>\<open>apps/mobile/src/platform/persistence/action-journal.ts\<close>
  and \<^verbatim>\<open>validation.ts\<close>. A table is a list of rows. A row of \<^verbatim>\<open>action_journal\<close> is the
  record that is read from it; its JSON text is the value that the text denotes. A statement
  yields the rows it changed and the tables after it, or the error of a constraint.

  The journal's database also holds the signer scopes and the tombstones of theory
  \<open>Nonce_Repository\<close>, which extends the class modelled here.
\<close>

section \<open>Checks of stored values\<close>

definition LOWERCASE_HASH_PATTERN :: "string \<Rightarrow> bool" where
  "LOWERCASE_HASH_PATTERN = prefixed ''0x'' is_lower_hex 64"

definition JOURNAL_ID_PATTERN :: "string \<Rightarrow> bool" where
  "JOURNAL_ID_PATTERN = prefixed ''jrnl_'' is_lower_hex 32"

definition CORRELATION_ID_PATTERN :: "string \<Rightarrow> bool" where
  "CORRELATION_ID_PATTERN = prefixed ''act_'' is_lower_hex 32"

definition LOWERCASE_ADDRESS_PATTERN :: "string \<Rightarrow> bool" where
  "LOWERCASE_ADDRESS_PATTERN = prefixed ''0x'' is_lower_hex 40"

definition LOWERCASE_CLOID_PATTERN :: "string \<Rightarrow> bool" where
  "LOWERCASE_CLOID_PATTERN = prefixed ''0x'' is_lower_hex 32"

definition assertTime :: "js_number \<Rightarrow> string \<Rightarrow> int result" where
  "assertTime v path =
     (case v of
        IntN i \<Rightarrow> (if \<not> isSafeInteger v \<or> i < 0
                  then Inl (TypeErr (path @ '' must be a non-negative safe integer.'')) else Inr i)
      | _ \<Rightarrow> Inl (TypeErr (path @ '' must be a non-negative safe integer.'')))"

definition is_key_char :: "char \<Rightarrow> bool" where
  "is_key_char c \<longleftrightarrow> is_digit c \<or> (97 \<le> code c \<and> code c \<le> 122) \<or> c \<in> set '':_-''"

definition is_owner_char :: "char \<Rightarrow> bool" where
  "is_owner_char c \<longleftrightarrow> is_alnum c \<or> c \<in> set ''_-''"

record PreparedActionFields =
  pf_actionType :: journal_action_type
  pf_intentVersion :: js_number
  pf_cloid :: "string option"
  pf_assetId :: "js_number option"
  pf_targetOid :: "js_number option"
  pf_reconciliationKey :: string

fun action_type_name :: "journal_action_type \<Rightarrow> string" where
  "action_type_name MarketOrderType = ''market_order''"
| "action_type_name LimitOrderType = ''limit_order''"
| "action_type_name CancelType = ''cancel''"
| "action_type_name BulkCancelType = ''bulk_cancel''"
| "action_type_name UpdateLeverageType = ''update_leverage''"
| "action_type_name ReduceOnlyCloseType = ''reduce_only_close''"
| "action_type_name PositionTpslType = ''position_tpsl''"
| "action_type_name (OtherActionType s) = s"

definition assertPreparedActionFields :: "PreparedActionFields \<Rightarrow> unit result" where
  "assertPreparedActionFields f =
     (let hasCloid = pf_cloid f \<noteq> None; hasAsset = pf_assetId f \<noteq> None; hasOid = pf_targetOid f \<noteq> None in
      bindE (throw_if (\<not> known_action_type (pf_actionType f))
               (TypeErr ''actionType is not supported by this journal version.'')) (\<lambda>_.
      bindE (throw_if (\<not> js_eq (pf_intentVersion f) (IntN 1))
               (TypeErr ''intentVersion is not supported by this repository.'')) (\<lambda>_.
      bindE (throw_if (case pf_cloid f of None \<Rightarrow> False | Some c \<Rightarrow> \<not> LOWERCASE_CLOID_PATTERN c)
               (TypeErr ''cloid must be a lowercase 128-bit client order ID.'')) (\<lambda>_.
      bindE (throw_if (case pf_assetId f of None \<Rightarrow> False | Some a \<Rightarrow> \<not> safe_at 0 a)
               (TypeErr ''assetId must be a non-negative safe integer when present.'')) (\<lambda>_.
      bindE (throw_if (case pf_targetOid f of None \<Rightarrow> False | Some oid \<Rightarrow> \<not> safe_at 1 oid)
               (TypeErr ''targetOid must be a positive safe integer when present.'')) (\<lambda>_.
      bindE (throw_if
               (length (pf_reconciliationKey f) < 3 \<or> length (pf_reconciliationKey f) > 256 \<or>
                \<not> list_all is_key_char (pf_reconciliationKey f))
               (TypeErr ''reconciliationKey must be a bounded derived identifier.'')) (\<lambda>_.
      case pf_actionType f of
        CancelType \<Rightarrow>
          throw_if (\<not> hasAsset \<or> hasCloid = hasOid)
            (TypeErr ''cancel requires assetId and exactly one of cloid or targetOid.'')
      | BulkCancelType \<Rightarrow>
          throw_if (hasAsset \<or> hasCloid \<or> hasOid)
            (TypeErr ''bulk_cancel stores its targets only in the normalized intent.'')
      | UpdateLeverageType \<Rightarrow>
          throw_if (\<not> hasAsset \<or> hasCloid \<or> hasOid)
            (TypeErr ''update_leverage requires assetId and forbids cloid and targetOid.'')
      | OtherActionType _ \<Rightarrow>
          Inl (TypeErr ''actionType is not supported by this journal version.'')
      | t \<Rightarrow>
          throw_if (\<not> hasCloid \<or> \<not> hasAsset \<or> hasOid)
            (TypeErr (action_type_name t @
               '' requires assetId and cloid, and forbids targetOid.'')))))))))"

definition record_fields :: "PreparedActionRecord \<Rightarrow> PreparedActionFields" where
  "record_fields r =
     \<lparr>pf_actionType = r_actionType r, pf_intentVersion = IntN (r_intentVersion r),
      pf_cloid = r_cloid r, pf_assetId = map_option IntN (r_assetId r),
      pf_targetOid = map_option IntN (r_targetOid r), pf_reconciliationKey = r_reconciliationKey r\<rparr>"

definition assertLeaseOwner :: "string \<Rightarrow> unit result" where
  "assertLeaseOwner owner =
     throw_if (\<not> (8 \<le> length owner \<and> length owner \<le> 64 \<and> list_all is_owner_char owner))
       (TypeErr ''Lease owner must be a bounded opaque ID.'')"

fun assertSafeFields :: "(string \<times> int \<times> int) list \<Rightarrow> unit result" where
  "assertSafeFields [] = Inr ()"
| "assertSafeFields ((path, v, minimum) # fs) =
     bindE (throw_if (\<not> safe_int v \<or> v < minimum)
              (TypeErr (''The stored action has an invalid '' @ path @ ''.''))) (\<lambda>_.
     assertSafeFields fs)"

definition not_submitted :: "journal_state \<Rightarrow> bool" where
  "not_submitted s \<longleftrightarrow> s = Prepared \<or> s = AbandonedBeforeSubmission"

definition reconcilable :: "journal_state \<Rightarrow> bool" where
  "reconcilable s \<longleftrightarrow> s = SubmissionStarted \<or> s = Unresolved"

definition assertStoredRecord :: "PreparedActionRecord \<Rightarrow> unit result" where
  "assertStoredRecord r =
     bindE (throw_if (\<not> JOURNAL_ID_PATTERN (r_journalId r) \<or> \<not> CORRELATION_ID_PATTERN (r_correlationId r))
              (TypeErr ''The stored action has an invalid opaque identifier.'')) (\<lambda>_.
     bindE (throw_if
              (\<not> known_network (r_network r) \<or> \<not> LOWERCASE_ADDRESS_PATTERN (r_masterAccount r) \<or>
               \<not> LOWERCASE_ADDRESS_PATTERN (r_targetAccount r) \<or>
               \<not> LOWERCASE_ADDRESS_PATTERN (r_agentAddress r))
              (TypeErr ''The stored action has an invalid signer binding.'')) (\<lambda>_.
     bindE (throw_if
              (\<not> LOWERCASE_HASH_PATTERN (r_intentDigest r) \<or>
               \<not> LOWERCASE_HASH_PATTERN (r_equivalenceFingerprint r))
              (TypeErr ''The stored action has an invalid digest.'')) (\<lambda>_.
     bindE (throw_if (r_state r \<notin> set JOURNAL_STATES)
              (TypeErr ''The stored action has an invalid state.'')) (\<lambda>_.
     bindE (assertSafeFields
              [(''signerGeneration'', r_signerGeneration r, 1),
               (''capturedContextEpoch'', r_capturedContextEpoch r, 0),
               (''nonce'', r_nonce r, 0),
               (''expiresAfterMs'', r_expiresAfterMs r, 0),
               (''preparedAt'', r_preparedAt r, 0),
               (''reconciliationAttempts'', r_reconciliationAttempts r, 0),
               (''nextReconciliationAt'', r_nextReconciliationAt r, 0),
               (''createdAt'', r_createdAt r, 0),
               (''updatedAt'', r_updatedAt r, 0)]) (\<lambda>_.
     bindE (throw_if
              (r_expiresAfterMs r \<le> r_nonce r \<or> r_expiresAfterMs r - r_nonce r > ACTION_EXPIRY_MS)
              (TypeErr ''The stored action expiry must be after its nonce and within 15 seconds.'')) (\<lambda>_.
     bindE (assertPreparedActionFields (record_fields r)) (\<lambda>_.
     bindE (assertJournalResultClass (r_state r) (r_lastResultClass r)) (\<lambda>_.
     bindE (throw_if
              (case r_submissionStartedAt r of
                 Some started \<Rightarrow> \<not> safe_int started \<or> started < r_preparedAt r \<or>
                                 not_submitted (r_state r) \<or> started \<ge> r_expiresAfterMs r
               | None \<Rightarrow> \<not> not_submitted (r_state r))
              (TypeErr ''The stored action has an inconsistent submission marker.'')) (\<lambda>_.
     bindE (throw_if ((r_leaseOwner r = None) \<noteq> (r_leaseExpiresAt r = None))
              (TypeErr ''The stored action has an incomplete lease.'')) (\<lambda>_.
     case (r_leaseOwner r, r_leaseExpiresAt r) of
       (Some owner, Some expiresAt) \<Rightarrow>
         bindE (assertLeaseOwner owner) (\<lambda>_.
         bindE (assertTime (IntN expiresAt) ''leaseExpiresAt'') (\<lambda>_.
         throw_if (\<not> reconcilable (r_state r))
           (TypeErr ''Only a reconcilable action may hold a lease.'')))
     | _ \<Rightarrow> Inr ()))))))))))"

definition fromRow :: "PreparedActionRecord \<Rightarrow> PreparedActionRecord result" where
  "fromRow row =
     bindE (assertSecretFreeIntent (r_intent row)) (\<lambda>_.
     bindE (assertStoredRecord row) (\<lambda>_.
     Inr row))"

definition leaseDuration :: "js_number option \<Rightarrow> int result" where
  "leaseDuration v =
     (case (case v of None \<Rightarrow> IntN 30000 | Some d \<Rightarrow> d) of
        IntN d \<Rightarrow> (if \<not> safe_int d \<or> d < 1000 \<or> d > 60000
                  then Inl (TypeErr ''Lease duration must be between 1 and 60 seconds.'') else Inr d)
      | _ \<Rightarrow> Inl (TypeErr ''Lease duration must be between 1 and 60 seconds.''))"

section \<open>The database\<close>

datatype scope_status = ActiveScope | RetiringScope | RetiredScope

record SignerScopeRow =
  s_network :: network
  s_agent_address :: string
  s_master_account :: string
  s_target_account :: string
  s_signer_generation :: int
  s_status :: scope_status
  s_last_issued_nonce :: "int option"
  s_last_observed_wall_ms :: "int option"
  s_activated_at :: int
  s_updated_at :: int

record TombstoneRow =
  t_installation_epoch :: string
  t_sequence :: int
  t_prior_chain_root :: string
  t_chain_root :: string
  t_network :: network
  t_agent_address_fingerprint :: string
  t_last_issued_nonce :: int
  t_signer_generation :: int
  t_retired_at :: int
  t_reason :: retirement_reason

record journal_db =
  signer_scopes :: "SignerScopeRow list"
  retired_signer_tombstones :: "TombstoneRow list"
  action_journal :: "PreparedActionRecord list"

text \<open>
  The constraints of \<^verbatim>\<open>CREATE TABLE\<close> and \<^verbatim>\<open>CREATE UNIQUE INDEX\<close>; columns that are
  not null, and the states, have their types.
\<close>

definition scopes_constraints :: "SignerScopeRow list \<Rightarrow> bool" where
  "scopes_constraints ss \<longleftrightarrow>
     list_all (\<lambda>s. known_network (s_network s) \<and> 0 < s_signer_generation s) ss \<and>
     distinct (map (\<lambda>s. (s_network s, s_agent_address s)) ss)"

definition tombstones_constraints :: "TombstoneRow list \<Rightarrow> bool" where
  "tombstones_constraints ts \<longleftrightarrow>
     list_all (\<lambda>t. 0 < t_sequence t \<and> known_network (t_network t) \<and> 0 < t_signer_generation t) ts \<and>
     distinct (map (\<lambda>t. (t_installation_epoch t, t_sequence t)) ts) \<and>
     distinct (map (\<lambda>t. (t_network t, t_agent_address_fingerprint t)) ts) \<and>
     distinct (map (\<lambda>t. (t_installation_epoch t, t_chain_root t)) ts)"

definition cloid_key :: "PreparedActionRecord \<Rightarrow> (network \<times> string \<times> string option)" where
  "cloid_key r = (r_network r, r_targetAccount r, r_cloid r)"

definition fingerprint_key ::
    "PreparedActionRecord \<Rightarrow> (network \<times> string \<times> string \<times> journal_action_type \<times> string)" where
  "fingerprint_key r =
     (r_network r, r_masterAccount r, r_targetAccount r, r_actionType r, r_equivalenceFingerprint r)"

definition actions_constraints :: "SignerScopeRow list \<Rightarrow> PreparedActionRecord list \<Rightarrow> bool" where
  "actions_constraints scopes rs \<longleftrightarrow>
     list_all (\<lambda>r. known_network (r_network r) \<and> 0 < r_signerGeneration r \<and>
                   0 \<le> r_capturedContextEpoch r \<and> 0 < r_intentVersion r \<and>
                   (r_network r, r_agentAddress r) \<in> set (map (\<lambda>s. (s_network s, s_agent_address s)) scopes)) rs \<and>
     distinct (map r_journalId rs) \<and>
     distinct (map r_correlationId rs) \<and>
     distinct (map (\<lambda>r. (r_network r, r_agentAddress r, r_nonce r)) rs) \<and>
     distinct (map cloid_key (filter (\<lambda>r. r_cloid r \<noteq> None) rs)) \<and>
     distinct (map fingerprint_key (filter (\<lambda>r. \<not> isTerminalJournalState (r_state r)) rs))"

definition constraint_failed :: js_error where
  "constraint_failed = SqliteError ''constraint failed''"

definition update_actions ::
    "(PreparedActionRecord \<Rightarrow> bool) \<Rightarrow> (PreparedActionRecord \<Rightarrow> PreparedActionRecord) \<Rightarrow>
     journal_db \<Rightarrow> (nat \<times> journal_db) result" where
  "update_actions p f d =
     (let rs = map (\<lambda>r. if p r then f r else r) (action_journal d) in
      if actions_constraints (signer_scopes d) rs
      then Inr (length (filter p (action_journal d)), d\<lparr>action_journal := rs\<rparr>)
      else Inl constraint_failed)"

definition insert_action :: "PreparedActionRecord \<Rightarrow> journal_db \<Rightarrow> journal_db result" where
  "insert_action r d =
     (let rs = action_journal d @ [r] in
      if actions_constraints (signer_scopes d) rs then Inr (d\<lparr>action_journal := rs\<rparr>)
      else Inl constraint_failed)"

text \<open>\<^verbatim>\<open>ORDER BY a, b, journal_id\<close>\<close>

definition ordered_by ::
    "(PreparedActionRecord \<Rightarrow> int) \<Rightarrow> (PreparedActionRecord \<Rightarrow> int) \<Rightarrow>
     PreparedActionRecord list \<Rightarrow> PreparedActionRecord list" where
  "ordered_by a b rs = sort_key a (sort_key b (sort_key r_journalId rs))"

section \<open>The repository\<close>

text \<open>
  The state of a repository object: the database it is connected to, and the reservations made
  in this process, a \<^verbatim>\<open>Map\<close> from journal IDs to expiries.
\<close>

record journal_repo =
  database :: journal_db
  preparedInThisProcess :: "(string \<times> int) list"

text \<open>What the database engine does with a transaction that the operation completes.\<close>

datatype engine = Commits | BusyAtBegin | FailsAtCommit

definition immediate ::
    "engine \<Rightarrow> (journal_db \<Rightarrow> ('a \<times> journal_db) result) \<Rightarrow> journal_repo \<Rightarrow> 'a result \<times> journal_repo" where
  "immediate engine operation repo =
     (if engine = BusyAtBegin then (Inl (SqliteError ''database is locked''), repo)
      else case operation (database repo) of
             Inl e \<Rightarrow> (Inl e, repo)
           | Inr (x, d) \<Rightarrow>
               if engine = FailsAtCommit then (Inl (SqliteError ''commit failed''), repo)
               else (Inr x, repo\<lparr>database := d\<rparr>))"

definition getAction :: "string \<Rightarrow> journal_db \<Rightarrow> PreparedActionRecord option result" where
  "getAction journalId d =
     (case find (\<lambda>r. r_journalId r = journalId) (action_journal d) of
        None \<Rightarrow> Inr None
      | Some row \<Rightarrow> bindE (fromRow row) (\<lambda>r. Inr (Some r)))"

definition requireAction :: "string \<Rightarrow> journal_db \<Rightarrow> PreparedActionRecord result" where
  "requireAction journalId d =
     bindE (getAction journalId d) (\<lambda>found.
       case found of
         None \<Rightarrow> Inl (Err ''The action journal record does not exist.'')
       | Some r \<Rightarrow> Inr r)"

definition listReconcilableActions :: "journal_db \<Rightarrow> PreparedActionRecord list result" where
  "listReconcilableActions d =
     mapE fromRow
       (ordered_by r_nextReconciliationAt r_preparedAt
          (filter (\<lambda>r. reconcilable (r_state r)) (action_journal d)))"

section \<open>Starting a submission\<close>

record TransportWritePermit =
  permit_journalId :: string
  permit_available :: bool

definition createTransportWritePermit :: "string \<Rightarrow> TransportWritePermit" where
  "createTransportWritePermit journalId = \<lparr>permit_journalId = journalId, permit_available = True\<rparr>"

definition consume :: "TransportWritePermit \<Rightarrow> unit result \<times> TransportWritePermit" where
  "consume p =
     (if \<not> permit_available p
      then (Inl (Err ''This transport write permit has already been consumed.''), p)
      else (Inr (), p\<lparr>permit_available := False\<rparr>))"

definition forget :: "string \<Rightarrow> journal_repo \<Rightarrow> journal_repo" where
  "forget journalId repo =
     repo\<lparr>preparedInThisProcess := filter (\<lambda>(k, _). k \<noteq> journalId) (preparedInThisProcess repo)\<rparr>"

definition startSubmission :: "string \<Rightarrow> int \<Rightarrow> journal_db \<Rightarrow> (PreparedActionRecord \<times> journal_db) result" where
  "startSubmission journalId now d =
     bindE (requireAction journalId d) (\<lambda>current.
     bindE (throw_if (\<not> mayMarkSubmissionStarted current now)
              (Err ''The action cannot start submission.'')) (\<lambda>_.
     bindE (update_actions
              (\<lambda>r. r_journalId r = journalId \<and> r_state r = Prepared \<and> r_submissionStartedAt r = None)
              (\<lambda>r. r\<lparr>r_state := SubmissionStarted, r_submissionStartedAt := Some now, r_updatedAt := now\<rparr>) d)
       (\<lambda>(changes, d').
     bindE (throw_if (changes \<noteq> 1)
              (Err ''The action submission marker lost its compare-and-swap.'')) (\<lambda>_.
     bindE (requireAction journalId d') (\<lambda>r. Inr (r, d'))))))"

definition markSubmissionStarted ::
    "engine \<Rightarrow> string \<Rightarrow> js_number \<Rightarrow> journal_repo \<Rightarrow>
     (PreparedActionRecord \<times> TransportWritePermit) result \<times> journal_repo" where
  "markSubmissionStarted engine journalId nowArg repo =
     (case assertTime nowArg ''now'' of
        Inl e \<Rightarrow> (Inl e, repo)
      | Inr now \<Rightarrow>
          (case map_of (preparedInThisProcess repo) journalId of
             None \<Rightarrow>
               (Inl (Err ''Transport authority is unavailable for a reservation from another process lifetime.''), repo)
           | Some processLocalExpiry \<Rightarrow>
               let repo = (if now \<ge> processLocalExpiry then forget journalId repo else repo) in
               case immediate engine (startSubmission journalId now) repo of
                 (Inl e, repo) \<Rightarrow> (Inl e, repo)
               | (Inr record, repo) \<Rightarrow>
                   (Inr (record, createTransportWritePermit journalId), forget journalId repo)))"

section \<open>Transitions\<close>

definition moveAction ::
    "string \<Rightarrow> journal_state \<Rightarrow> journal_result_class option \<Rightarrow> int \<Rightarrow> journal_db \<Rightarrow>
     (PreparedActionRecord \<times> journal_db) result" where
  "moveAction journalId next resultClass now d =
     bindE (requireAction journalId d) (\<lambda>current.
     bindE (assertJournalTransition (r_state current) next) (\<lambda>_.
     bindE (assertJournalResultClass next resultClass) (\<lambda>_.
     bindE (update_actions
              (\<lambda>r. r_journalId r = journalId \<and> r_state r = r_state current)
              (\<lambda>r. r\<lparr>r_state := next, r_lastResultClass := resultClass, r_leaseOwner := None,
                     r_leaseExpiresAt := None, r_updatedAt := now\<rparr>) d)
       (\<lambda>(changes, d').
     bindE (throw_if (changes \<noteq> 1)
              (Err ''The journal transition lost its compare-and-swap.'')) (\<lambda>_.
     bindE (requireAction journalId d') (\<lambda>r. Inr (r, d')))))))"

definition transitionAction ::
    "engine \<Rightarrow> string \<Rightarrow> journal_state \<Rightarrow> journal_result_class option \<Rightarrow> js_number \<Rightarrow> journal_repo \<Rightarrow>
     PreparedActionRecord result \<times> journal_repo" where
  "transitionAction engine journalId next resultClass nowArg repo =
     (case assertTime nowArg ''now'' of
        Inl e \<Rightarrow> (Inl e, repo)
      | Inr now \<Rightarrow>
          (case immediate engine (moveAction journalId next resultClass now) repo of
             (Inl e, repo) \<Rightarrow> (Inl e, repo)
           | (Inr record, repo) \<Rightarrow> (Inr record, forget journalId repo)))"

section \<open>Leases\<close>

record ReconciliationLease =
  l_journalId :: string
  l_owner :: string
  l_expiresAt :: int

text \<open>
  \<^verbatim>\<open>now + duration\<close>: exact up to \<open>2 ^ 53\<close>, beyond it the even neighbour with the even
  significand.
\<close>

definition plus_ms :: "int \<Rightarrow> int \<Rightarrow> int" where
  "plus_ms a b =
     (let r = a + b in
      if r \<le> 2 ^ 53 \<or> r mod 2 = 0 then r else if (r div 2) mod 2 = 0 then r - 1 else r + 1)"

definition lease_free :: "int \<Rightarrow> PreparedActionRecord \<Rightarrow> bool" where
  "lease_free now r \<longleftrightarrow>
     r_leaseOwner r = None \<or> (case r_leaseExpiresAt r of Some e \<Rightarrow> e \<le> now | None \<Rightarrow> False)"

definition with_lease :: "string \<Rightarrow> int \<Rightarrow> int \<Rightarrow> PreparedActionRecord \<Rightarrow> PreparedActionRecord" where
  "with_lease owner expiresAt now r =
     r\<lparr>r_leaseOwner := Some owner, r_leaseExpiresAt := Some expiresAt, r_updatedAt := now\<rparr>"

text \<open>The three checks the lease operations begin with, and the expiry of the new lease.\<close>

definition lease_terms :: "string \<Rightarrow> js_number \<Rightarrow> js_number option \<Rightarrow> (int \<times> int) result" where
  "lease_terms owner nowArg durationArg =
     bindE (assertLeaseOwner owner) (\<lambda>_.
     bindE (assertTime nowArg ''now'') (\<lambda>now.
     bindE (leaseDuration durationArg) (\<lambda>duration.
     Inr (now, plus_ms now duration))))"

definition claimLease ::
    "string \<Rightarrow> string \<Rightarrow> int \<Rightarrow> int \<Rightarrow> journal_db \<Rightarrow> (ReconciliationLease option \<times> journal_db) result" where
  "claimLease journalId owner now expiresAt d =
     bindE (update_actions
              (\<lambda>r. r_journalId r = journalId \<and> reconcilable (r_state r) \<and> lease_free now r)
              (with_lease owner expiresAt now) d)
       (\<lambda>(changes, d').
     Inr (if changes = 1
          then Some \<lparr>l_journalId = journalId, l_owner = owner, l_expiresAt = expiresAt\<rparr> else None, d'))"

definition claimReconciliationLease ::
    "engine \<Rightarrow> string \<Rightarrow> string \<Rightarrow> js_number \<Rightarrow> js_number option \<Rightarrow> journal_repo \<Rightarrow>
     ReconciliationLease option result \<times> journal_repo" where
  "claimReconciliationLease engine journalId owner nowArg durationArg repo =
     (case lease_terms owner nowArg durationArg of
        Inl e \<Rightarrow> (Inl e, repo)
      | Inr (now, expiresAt) \<Rightarrow> immediate engine (claimLease journalId owner now expiresAt) repo)"

definition claimNext ::
    "string \<Rightarrow> int \<Rightarrow> int \<Rightarrow> journal_db \<Rightarrow>
     ((PreparedActionRecord \<times> ReconciliationLease) option \<times> journal_db) result" where
  "claimNext owner now expiresAt d =
     (case ordered_by r_nextReconciliationAt r_preparedAt
             (filter (\<lambda>r. reconcilable (r_state r) \<and> r_nextReconciliationAt r \<le> now \<and> lease_free now r)
                (action_journal d)) of
        [] \<Rightarrow> Inr (None, d)
      | candidate # _ \<Rightarrow>
          let journalId = r_journalId candidate in
          bindE (update_actions
                   (\<lambda>r. r_journalId r = journalId \<and> lease_free now r)
                   (with_lease owner expiresAt now) d)
            (\<lambda>(changes, d').
          if changes \<noteq> 1 then Inr (None, d')
          else bindE (requireAction journalId d') (\<lambda>r.
                 Inr (Some (r, \<lparr>l_journalId = journalId, l_owner = owner, l_expiresAt = expiresAt\<rparr>), d'))))"

definition claimNextReconciliation ::
    "engine \<Rightarrow> string \<Rightarrow> js_number \<Rightarrow> js_number option \<Rightarrow> journal_repo \<Rightarrow>
     (PreparedActionRecord \<times> ReconciliationLease) option result \<times> journal_repo" where
  "claimNextReconciliation engine owner nowArg durationArg repo =
     (case lease_terms owner nowArg durationArg of
        Inl e \<Rightarrow> (Inl e, repo)
      | Inr (now, expiresAt) \<Rightarrow> immediate engine (claimNext owner now expiresAt) repo)"

text \<open>A single statement outside a transaction of its own.\<close>

definition statement ::
    "engine \<Rightarrow> (journal_db \<Rightarrow> (nat \<times> journal_db) result) \<Rightarrow> journal_repo \<Rightarrow> nat result \<times> journal_repo" where
  "statement engine run repo =
     (if engine = BusyAtBegin \<or> engine = FailsAtCommit
      then (Inl (SqliteError ''database is locked''), repo)
      else case run (database repo) of
             Inl e \<Rightarrow> (Inl e, repo)
           | Inr (changes, d) \<Rightarrow> (Inr changes, repo\<lparr>database := d\<rparr>))"

definition holds_lease :: "ReconciliationLease \<Rightarrow> PreparedActionRecord \<Rightarrow> bool" where
  "holds_lease lease r \<longleftrightarrow>
     r_journalId r = l_journalId lease \<and> r_leaseOwner r = Some (l_owner lease) \<and>
     r_leaseExpiresAt r = Some (l_expiresAt lease)"

definition renewReconciliationLease ::
    "engine \<Rightarrow> ReconciliationLease \<Rightarrow> js_number \<Rightarrow> js_number option \<Rightarrow> journal_repo \<Rightarrow>
     ReconciliationLease option result \<times> journal_repo" where
  "renewReconciliationLease engine lease nowArg durationArg repo =
     (case lease_terms (l_owner lease) nowArg durationArg of
        Inl e \<Rightarrow> (Inl e, repo)
      | Inr (now, expiresAt) \<Rightarrow>
          (case statement engine
                  (update_actions (\<lambda>r. holds_lease lease r \<and> l_expiresAt lease > now)
                     (\<lambda>r. r\<lparr>r_leaseExpiresAt := Some expiresAt, r_updatedAt := now\<rparr>)) repo of
             (Inl e, repo) \<Rightarrow> (Inl e, repo)
           | (Inr changes, repo) \<Rightarrow>
               (Inr (if changes = 1 then Some (lease\<lparr>l_expiresAt := expiresAt\<rparr>) else None), repo)))"

definition releaseReconciliationLease ::
    "engine \<Rightarrow> ReconciliationLease \<Rightarrow> js_number \<Rightarrow> journal_repo \<Rightarrow> bool result \<times> journal_repo" where
  "releaseReconciliationLease engine lease nowArg repo =
     (case bindE (assertLeaseOwner (l_owner lease)) (\<lambda>_. assertTime nowArg ''now'') of
        Inl e \<Rightarrow> (Inl e, repo)
      | Inr now \<Rightarrow>
          (case statement engine
                  (update_actions (holds_lease lease)
                     (\<lambda>r. r\<lparr>r_leaseOwner := None, r_leaseExpiresAt := None, r_updatedAt := now\<rparr>)) repo of
             (Inl e, repo) \<Rightarrow> (Inl e, repo)
           | (Inr changes, repo) \<Rightarrow> (Inr (changes = 1), repo)))"

section \<open>Rescheduling and recovery\<close>

definition scheduleAction ::
    "string \<Rightarrow> string \<Rightarrow> int \<Rightarrow> int \<Rightarrow> journal_db \<Rightarrow> (PreparedActionRecord \<times> journal_db) result" where
  "scheduleAction journalId owner now nextAttemptAt d =
     bindE (requireAction journalId d) (\<lambda>current.
     bindE (throw_if
              (r_leaseOwner current \<noteq> Some owner \<or>
               (case r_leaseExpiresAt current of None \<Rightarrow> True | Some e \<Rightarrow> e \<le> now))
              (Err ''A current reconciliation lease is required.'')) (\<lambda>_.
     bindE (update_actions
              (\<lambda>r. r_journalId r = journalId \<and> r_leaseOwner r = Some owner \<and>
                   (case r_leaseExpiresAt r of None \<Rightarrow> False | Some e \<Rightarrow> e > now))
              (\<lambda>r. r\<lparr>r_state := Unresolved, r_lastResultClass := Some UnresolvedResult,
                     r_reconciliationAttempts := r_reconciliationAttempts r + 1,
                     r_nextReconciliationAt := nextAttemptAt, r_leaseOwner := None,
                     r_leaseExpiresAt := None, r_updatedAt := now\<rparr>) d)
       (\<lambda>(changes, d').
     bindE (throw_if (changes \<noteq> 1) (Err ''The reconciliation schedule lost its lease.'')) (\<lambda>_.
     bindE (requireAction journalId d') (\<lambda>r. Inr (r, d'))))))"

definition scheduleReconciliation ::
    "engine \<Rightarrow> string \<Rightarrow> string \<Rightarrow> js_number \<Rightarrow> js_number \<Rightarrow> journal_repo \<Rightarrow>
     PreparedActionRecord result \<times> journal_repo" where
  "scheduleReconciliation engine journalId owner nowArg nextArg repo =
     (case bindE (assertLeaseOwner owner) (\<lambda>_.
           bindE (assertTime nowArg ''now'') (\<lambda>now.
           bindE (assertTime nextArg ''nextAttemptAt'') (\<lambda>next.
           bindE (throw_if (next < now)
                    (TypeErr ''The next reconciliation time cannot be in the past.'')) (\<lambda>_.
           Inr (now, next))))) of
        Inl e \<Rightarrow> (Inl e, repo)
      | Inr (now, next) \<Rightarrow> immediate engine (scheduleAction journalId owner now next) repo)"

text \<open>The body of the loop of \<^verbatim>\<open>recoverAfterRestart\<close> for one row, and the loop.\<close>

definition recoverRow ::
    "int \<Rightarrow> PreparedActionRecord \<Rightarrow> journal_db \<Rightarrow> (PreparedActionRecord list \<times> journal_db) result" where
  "recoverRow now row d =
     bindE (fromRow row) (\<lambda>current.
       case restartRecoveryDecision current of
         Unchanged \<Rightarrow> Inr ([], d)
       | TransitionTo state \<Rightarrow>
           bindE (update_actions
                    (\<lambda>r. r_journalId r = r_journalId current \<and> r_state r = r_state current)
                    (\<lambda>r. r\<lparr>r_state := state,
                           r_lastResultClass := (if state = Unresolved then Some UnresolvedResult else None),
                           r_updatedAt := now\<rparr>) d)
             (\<lambda>(changes, d').
           bindE (throw_if (changes \<noteq> 1) (Err ''Restart recovery lost its compare-and-swap.'')) (\<lambda>_.
           bindE (requireAction (r_journalId current) d') (\<lambda>r. Inr ([r], d')))))"

fun recoverRows ::
    "int \<Rightarrow> PreparedActionRecord list \<Rightarrow> journal_db \<Rightarrow> (PreparedActionRecord list \<times> journal_db) result" where
  "recoverRows now [] d = Inr ([], d)"
| "recoverRows now (row # rows) d =
     bindE (recoverRow now row d) (\<lambda>(changed, d').
     bindE (recoverRows now rows d') (\<lambda>(rest, d''). Inr (changed @ rest, d'')))"

definition recoverAll :: "int \<Rightarrow> journal_db \<Rightarrow> (PreparedActionRecord list \<times> journal_db) result" where
  "recoverAll now d =
     recoverRows now
       (sort_key r_preparedAt (sort_key r_journalId
          (filter (\<lambda>r. r_state r = Prepared \<or> reconcilable (r_state r)) (action_journal d)))) d"

definition recoverAfterRestart ::
    "engine \<Rightarrow> js_number \<Rightarrow> journal_repo \<Rightarrow> PreparedActionRecord list result \<times> journal_repo" where
  "recoverAfterRestart engine nowArg repo =
     (case assertTime nowArg ''now'' of
        Inl e \<Rightarrow> (Inl e, repo)
      | Inr now \<Rightarrow> immediate engine (recoverAll now) (repo\<lparr>preparedInThisProcess := []\<rparr>))"

definition registerCurrentProcessReservation :: "string \<Rightarrow> int \<Rightarrow> int \<Rightarrow> journal_repo \<Rightarrow> journal_repo" where
  "registerCurrentProcessReservation journalId expiresAfter now repo =
     (let live = filter (\<lambda>(_, expiry). \<not> expiry \<le> now) (preparedInThisProcess repo) in
      repo\<lparr>preparedInThisProcess := (journalId, expiresAfter) # filter (\<lambda>(k, _). k \<noteq> journalId) live\<rparr>)"

end
