(* ===== verification/Nonce_Repository.thy ===== *)
theory Nonce_Repository
  imports Journal
begin

text \<open>
  Signer scopes, nonce reservation and retirement:
  \<^verbatim>\<open>apps/mobile/src/platform/persistence/nonce-repository.ts\<close>, the subclass of the journal
  repository that issues nonces. What the repository is given is in \<open>repo_env\<close>: the program's
  capabilities, viem's address parser and hash, and the context-epoch authority, which refuses
  a commit for a context that is no longer current.
\<close>

record repo_env =
  env_caps :: capabilities
  env_getAddress :: address_parser
  env_digest :: "string \<Rightarrow> string"
  env_authority :: "SignerBinding \<Rightarrow> int \<Rightarrow> js_error option"

section \<open>Scopes\<close>

definition scope_is :: "network \<Rightarrow> string \<Rightarrow> SignerScopeRow \<Rightarrow> bool" where
  "scope_is n agent s \<longleftrightarrow> s_network s = n \<and> s_agent_address s = agent"

definition scope :: "network \<Rightarrow> string \<Rightarrow> journal_db \<Rightarrow> SignerScopeRow option" where
  "scope n agent d = find (scope_is n agent) (signer_scopes d)"

definition bindingFromScope :: "SignerScopeRow \<Rightarrow> SignerBinding" where
  "bindingFromScope s =
     \<lparr>sb_network = s_network s, sb_masterAccount = s_master_account s,
      sb_targetAccount = s_target_account s, sb_agentAddress = s_agent_address s,
      sb_generation = IntN (s_signer_generation s)\<rparr>"

text \<open>A foreign key refers to the scopes, and no statement changes the key of a scope.\<close>

definition update_scopes ::
    "(SignerScopeRow \<Rightarrow> bool) \<Rightarrow> (SignerScopeRow \<Rightarrow> SignerScopeRow) \<Rightarrow>
     journal_db \<Rightarrow> (nat \<times> journal_db) result" where
  "update_scopes p f d =
     (let ss = map (\<lambda>s. if p s then f s else s) (signer_scopes d) in
      if scopes_constraints ss
      then Inr (length (filter p (signer_scopes d)), d\<lparr>signer_scopes := ss\<rparr>)
      else Inl constraint_failed)"

definition insert_scope :: "SignerScopeRow \<Rightarrow> journal_db \<Rightarrow> journal_db result" where
  "insert_scope s d =
     (let ss = signer_scopes d @ [s] in
      if scopes_constraints ss then Inr (d\<lparr>signer_scopes := ss\<rparr>) else Inl constraint_failed)"

definition insert_tombstone :: "TombstoneRow \<Rightarrow> journal_db \<Rightarrow> journal_db result" where
  "insert_tombstone t d =
     (let ts = retired_signer_tombstones d @ [t] in
      if tombstones_constraints ts then Inr (d\<lparr>retired_signer_tombstones := ts\<rparr>)
      else Inl constraint_failed)"

text \<open>The generation of a normalised binding is a safe integer; no other value reaches a row.\<close>

fun int_of_number :: "js_number \<Rightarrow> int" where
  "int_of_number (IntN i) = i"
| "int_of_number _ = 0"

definition registerScope ::
    "repo_env \<Rightarrow> SignerBinding \<Rightarrow> int \<Rightarrow> journal_db \<Rightarrow> (unit \<times> journal_db) result" where
  "registerScope env binding activatedAt d =
     bindE (agentAddressFingerprint (env_digest env) (sb_agentAddress binding)) (\<lambda>fingerprint.
     bindE (throw_if
              (list_ex (\<lambda>t. t_network t = sb_network binding \<and> t_agent_address_fingerprint t = fingerprint)
                 (retired_signer_tombstones d))
              (Err ''A retired agent address can never become active again.'')) (\<lambda>_.
     case scope (sb_network binding) (sb_agentAddress binding) d of
       Some existing \<Rightarrow>
         bindE (assertSignerBinding (env_getAddress env) binding (bindingFromScope existing)) (\<lambda>_.
         bindE (throw_if (s_status existing \<noteq> ActiveScope)
                  (Err ''The signer scope is not active.'')) (\<lambda>_.
         Inr ((), d)))
     | None \<Rightarrow>
         bindE (insert_scope
                  \<lparr>s_network = sb_network binding, s_agent_address = sb_agentAddress binding,
                   s_master_account = sb_masterAccount binding,
                   s_target_account = sb_targetAccount binding,
                   s_signer_generation = int_of_number (sb_generation binding),
                   s_status = ActiveScope, s_last_issued_nonce = None, s_last_observed_wall_ms = None,
                   s_activated_at = activatedAt, s_updated_at = activatedAt\<rparr> d) (\<lambda>d'.
         Inr ((), d'))))"

definition registerActiveSignerScope ::
    "repo_env \<Rightarrow> engine \<Rightarrow> SignerBinding \<Rightarrow> js_number \<Rightarrow> journal_repo \<Rightarrow> unit result \<times> journal_repo" where
  "registerActiveSignerScope env engine bindingArg activatedArg repo =
     (case bindE (normalizeSignerBinding (env_getAddress env) bindingArg) (\<lambda>binding.
           bindE (assertTradingActionCapability (env_caps env) (sb_network binding)) (\<lambda>_.
           bindE (assertTime activatedArg ''activatedAt'') (\<lambda>activatedAt.
           Inr (binding, activatedAt)))) of
        Inl e \<Rightarrow> (Inl e, repo)
      | Inr (binding, activatedAt) \<Rightarrow> immediate engine (registerScope env binding activatedAt) repo)"

section \<open>Reservation\<close>

record PreparedActionArgs =
  pa_journalId :: string
  pa_correlationId :: string
  pa_intent :: js_value
  pa_intentDigest :: string
  pa_equivalenceFingerprint :: string
  pa_fields :: PreparedActionFields

record AtomicActionReservationInput =
  ri_binding :: SignerBinding
  ri_capturedContextEpoch :: js_number
  ri_clock :: ClockGateInput
  ri_preparedAction :: PreparedActionArgs

definition assertReservationIdentifiers :: "PreparedActionArgs \<Rightarrow> string result" where
  "assertReservationIdentifiers a =
     bindE (throw_if (\<not> JOURNAL_ID_PATTERN (pa_journalId a))
              (TypeErr ''journalId must be a generated opaque journal ID.'')) (\<lambda>_.
     bindE (throw_if (\<not> CORRELATION_ID_PATTERN (pa_correlationId a))
              (TypeErr ''correlationId must be a generated opaque action ID.'')) (\<lambda>_.
     bindE (throw_if
              (\<not> LOWERCASE_HASH_PATTERN (pa_intentDigest a) \<or>
               \<not> LOWERCASE_HASH_PATTERN (pa_equivalenceFingerprint a))
              (TypeErr ''Intent digest and fingerprint must be lowercase hashes.'')) (\<lambda>_.
     bindE (assertPreparedActionFields (pa_fields a)) (\<lambda>_.
     serializeSecretFreeIntent (pa_intent a)))))"

definition prepared_row ::
    "SignerBinding \<Rightarrow> int \<Rightarrow> NonceAllocation \<Rightarrow> PreparedActionArgs \<Rightarrow> PreparedActionRecord" where
  "prepared_row binding epoch allocation a =
     (let now = observedWallMs allocation; f = pa_fields a in
      \<lparr>r_journalId = pa_journalId a, r_correlationId = pa_correlationId a,
       r_network = sb_network binding, r_masterAccount = sb_masterAccount binding,
       r_targetAccount = sb_targetAccount binding, r_agentAddress = sb_agentAddress binding,
       r_signerGeneration = int_of_number (sb_generation binding),
       r_capturedContextEpoch = epoch, r_actionType = pf_actionType f,
       r_intentVersion = int_of_number (pf_intentVersion f), r_intent = pa_intent a,
       r_intentDigest = pa_intentDigest a, r_equivalenceFingerprint = pa_equivalenceFingerprint a,
       r_nonce = nonce allocation, r_expiresAfterMs = expiresAfterMs allocation,
       r_cloid = pf_cloid f, r_assetId = map_option int_of_number (pf_assetId f),
       r_targetOid = map_option int_of_number (pf_targetOid f),
       r_reconciliationKey = pf_reconciliationKey f, r_preparedAt = now, r_state = Prepared,
       r_submissionStartedAt = None, r_lastResultClass = None, r_leaseOwner = None,
       r_leaseExpiresAt = None, r_reconciliationAttempts = 0, r_nextReconciliationAt = now,
       r_createdAt = now, r_updatedAt = now\<rparr>)"

definition reserve ::
    "repo_env \<Rightarrow> SignerBinding \<Rightarrow> int \<Rightarrow> ClockGateInput \<Rightarrow> PreparedActionArgs \<Rightarrow> journal_db \<Rightarrow>
     (PreparedActionRecord \<times> journal_db) result" where
  "reserve env binding epoch clock a d =
     (case scope (sb_network binding) (sb_agentAddress binding) d of
        None \<Rightarrow> Inl (Err ''The signer scope is not registered.'')
      | Some sc \<Rightarrow>
          bindE (assertSignerBinding (env_getAddress env) binding (bindingFromScope sc)) (\<lambda>_.
          bindE (throw_if (s_status sc \<noteq> ActiveScope)
                   (Err ''The signer scope cannot issue another nonce.'')) (\<lambda>_.
          bindE (allocateNonce
                   (clock\<lparr>lastObservedWallMs := map_option IntN (s_last_observed_wall_ms sc)\<rparr>)
                   (map_option IntN (s_last_issued_nonce sc))) (\<lambda>allocation.
          bindE (update_scopes
                   (\<lambda>s. scope_is (sb_network binding) (sb_agentAddress binding) s \<and>
                        s_status s = ActiveScope \<and>
                        IntN (s_signer_generation s) = sb_generation binding)
                   (\<lambda>s. s\<lparr>s_last_issued_nonce := Some (nonce allocation),
                          s_last_observed_wall_ms := Some (observedWallMs allocation),
                          s_updated_at := observedWallMs allocation\<rparr>) d) (\<lambda>(changes, d').
          bindE (throw_if (changes \<noteq> 1)
                   (Err ''The signer scope changed during nonce reservation.'')) (\<lambda>_.
          bindE (insert_action (prepared_row binding epoch allocation a) d') (\<lambda>d''.
          bindE (requireAction (pa_journalId a) d'') (\<lambda>r. Inr (r, d'')))))))))"

definition reservePreparedAction ::
    "repo_env \<Rightarrow> engine \<Rightarrow> AtomicActionReservationInput \<Rightarrow> journal_repo \<Rightarrow>
     PreparedActionRecord result \<times> journal_repo" where
  "reservePreparedAction env engine inp repo =
     (case bindE (normalizeSignerBinding (env_getAddress env) (ri_binding inp)) (\<lambda>binding.
           bindE (assertTradingActionCapability (env_caps env) (sb_network binding)) (\<lambda>_.
           bindE (case ri_capturedContextEpoch inp of
                    IntN i \<Rightarrow> (if \<not> safe_int i \<or> i < 0
                              then Inl (TypeErr ''capturedContextEpoch must be a non-negative integer.'')
                              else Inr i)
                  | _ \<Rightarrow> Inl (TypeErr ''capturedContextEpoch must be a non-negative integer.'')) (\<lambda>epoch.
           bindE (assertReservationIdentifiers (ri_preparedAction inp)) (\<lambda>_.
           bindE (case env_authority env binding epoch of None \<Rightarrow> Inr () | Some e \<Rightarrow> Inl e) (\<lambda>_.
           Inr (binding, epoch)))))) of
        Inl e \<Rightarrow> (Inl e, repo)
      | Inr (binding, epoch) \<Rightarrow>
          (case immediate engine (reserve env binding epoch (ri_clock inp) (ri_preparedAction inp)) repo of
             (Inl e, repo) \<Rightarrow> (Inl e, repo)
           | (Inr record, repo) \<Rightarrow>
               (Inr record,
                registerCurrentProcessReservation (r_journalId record) (r_expiresAfterMs record)
                  (r_preparedAt record) repo)))"

section \<open>Retirement\<close>

definition markRetiring ::
    "repo_env \<Rightarrow> SignerBinding \<Rightarrow> int \<Rightarrow> journal_db \<Rightarrow> (unit \<times> journal_db) result" where
  "markRetiring env binding now d =
     (case scope (sb_network binding) (sb_agentAddress binding) d of
        None \<Rightarrow> Inl (Err ''The signer scope does not exist.'')
      | Some sc \<Rightarrow>
          bindE (assertSignerBinding (env_getAddress env) binding (bindingFromScope sc)) (\<lambda>_.
          if s_status sc = RetiringScope then Inr ((), d)
          else if s_status sc \<noteq> ActiveScope then Inl (Err ''Only an active signer can begin retirement.'')
          else bindE (update_scopes
                        (\<lambda>s. scope_is (sb_network binding) (sb_agentAddress binding) s \<and>
                             s_status s = ActiveScope)
                        (\<lambda>s. s\<lparr>s_status := RetiringScope, s_updated_at := now\<rparr>) d) (\<lambda>(_, d').
               Inr ((), d'))))"

definition markSignerRetiring ::
    "repo_env \<Rightarrow> engine \<Rightarrow> SignerBinding \<Rightarrow> js_number \<Rightarrow> journal_repo \<Rightarrow> unit result \<times> journal_repo" where
  "markSignerRetiring env engine bindingArg nowArg repo =
     (case bindE (normalizeSignerBinding (env_getAddress env) bindingArg) (\<lambda>binding.
           bindE (assertKnownActionNetwork (env_caps env) (sb_network binding)) (\<lambda>_.
           bindE (assertTime nowArg ''now'') (\<lambda>now. Inr (binding, now)))) of
        Inl e \<Rightarrow> (Inl e, repo)
      | Inr (binding, now) \<Rightarrow> immediate engine (markRetiring env binding now) repo)"

record TombstoneHeadRow =
  h_installation_epoch :: string
  h_sequence :: int
  h_chain_root :: string

definition row_tombstone :: "TombstoneRow \<Rightarrow> RetiredSignerTombstoneInput" where
  "row_tombstone t =
     \<lparr>ti_installationEpoch = t_installation_epoch t, ti_sequence = IntN (t_sequence t),
      ti_priorChainRoot = t_prior_chain_root t, ti_network = t_network t,
      ti_agentAddressFingerprint = t_agent_address_fingerprint t,
      ti_lastIssuedNonce = IntN (t_last_issued_nonce t), ti_generation = IntN (t_signer_generation t),
      ti_retiredAt = IntN (t_retired_at t), ti_reason = t_reason t\<rparr>"

text \<open>The loop of \<^verbatim>\<open>verifyTombstoneChain\<close>: the reason of the first row that does not fit.\<close>

fun verifyRows ::
    "(string \<Rightarrow> string) \<Rightarrow> string \<Rightarrow> TombstoneRow list \<Rightarrow> nat \<Rightarrow> string \<Rightarrow> string option" where
  "verifyRows digest installationEpoch [] index priorChainRoot = None"
| "verifyRows digest installationEpoch (row # rows) index priorChainRoot =
     (if t_installation_epoch row \<noteq> installationEpoch \<or> t_sequence row \<noteq> int index + 1 \<or>
         t_prior_chain_root row \<noteq> priorChainRoot
      then Some ''retirement_chain_gap_or_link''
      else case createRetiredSignerTombstone digest (row_tombstone row) of
             Inl _ \<Rightarrow> Some ''retirement_chain_invalid_row''
           | Inr recomputed \<Rightarrow>
               if ti_chainRoot recomputed \<noteq> t_chain_root row
               then Some ''retirement_chain_root_mismatch''
               else verifyRows digest installationEpoch rows (index + 1) (t_chain_root row))"

definition verifyTombstoneChain ::
    "(string \<Rightarrow> string) \<Rightarrow> journal_db \<Rightarrow> string + TombstoneHeadRow option" where
  "verifyTombstoneChain digest d =
     (let rows = sort_key t_sequence (retired_signer_tombstones d) in
      case rows of
        [] \<Rightarrow> Inr None
      | first # _ \<Rightarrow>
          (case verifyRows digest (t_installation_epoch first) rows 0 EMPTY_RETIREMENT_CHAIN_ROOT of
             Some reason \<Rightarrow> Inl reason
           | None \<Rightarrow>
               let lst = last rows in
               Inr (Some \<lparr>h_installation_epoch = t_installation_epoch lst, h_sequence = t_sequence lst,
                          h_chain_root = t_chain_root lst\<rparr>)))"

definition tombstone_row :: "RetiredSignerTombstone \<Rightarrow> TombstoneRow" where
  "tombstone_row t =
     \<lparr>t_installation_epoch = ti_installationEpoch t, t_sequence = int_of_number (ti_sequence t),
      t_prior_chain_root = ti_priorChainRoot t, t_chain_root = ti_chainRoot t,
      t_network = ti_network t, t_agent_address_fingerprint = ti_agentAddressFingerprint t,
      t_last_issued_nonce = int_of_number (ti_lastIssuedNonce t),
      t_signer_generation = int_of_number (ti_generation t),
      t_retired_at = int_of_number (ti_retiredAt t), t_reason = ti_reason t\<rparr>"

definition retire ::
    "repo_env \<Rightarrow> SignerBinding \<Rightarrow> RetiredSignerTombstoneInput \<Rightarrow> journal_db \<Rightarrow>
     (RetiredSignerTombstone \<times> journal_db) result" where
  "retire env binding t d =
     (case scope (sb_network binding) (sb_agentAddress binding) d of
        None \<Rightarrow> Inl (Err ''The signer scope does not exist.'')
      | Some sc \<Rightarrow>
          bindE (assertSignerBinding (env_getAddress env) binding (bindingFromScope sc)) (\<lambda>_.
          bindE (throw_if (s_status sc \<noteq> RetiringScope)
                   (Err ''The signer must be locked for retirement first.'')) (\<lambda>_.
          bindE (throw_if
                   ((ti_reason t = Rotated \<or> ti_reason t = ExpiredReason) \<and>
                    filter (\<lambda>r. r_network r = sb_network binding \<and>
                                r_agentAddress r = sb_agentAddress binding \<and>
                                \<not> isTerminalJournalState (r_state r)) (action_journal d) \<noteq> [])
                   (Err ''Ordinary signer retirement requires terminal actions.'')) (\<lambda>_.
          case verifyTombstoneChain (env_digest env) d of
            Inl reason \<Rightarrow> Inl (Err (''The retirement chain is corrupt: '' @ reason @ ''.''))
          | Inr head \<Rightarrow>
              bindE (agentAddressFingerprint (env_digest env) (sb_agentAddress binding))
                (\<lambda>expectedFingerprint.
              bindE (throw_if
                       (ti_installationEpoch t \<noteq>
                          (case head of None \<Rightarrow> ti_installationEpoch t | Some h \<Rightarrow> h_installation_epoch h) \<or>
                        \<not> js_eq (ti_sequence t) (IntN ((case head of None \<Rightarrow> 0 | Some h \<Rightarrow> h_sequence h) + 1)) \<or>
                        ti_priorChainRoot t \<noteq>
                          (case head of None \<Rightarrow> EMPTY_RETIREMENT_CHAIN_ROOT | Some h \<Rightarrow> h_chain_root h) \<or>
                        ti_network t \<noteq> sb_network binding \<or>
                        ti_agentAddressFingerprint t \<noteq> expectedFingerprint \<or>
                        \<not> js_eq (ti_lastIssuedNonce t)
                            (IntN (case s_last_issued_nonce sc of None \<Rightarrow> 0 | Some n \<Rightarrow> n)) \<or>
                        \<not> js_eq (ti_generation t) (sb_generation binding))
                       (Err ''The signer retirement tombstone does not match durable state.'')) (\<lambda>_.
              bindE (createRetiredSignerTombstone (env_digest env) t) (\<lambda>tombstone.
              bindE (insert_tombstone (tombstone_row tombstone) d) (\<lambda>d'.
              bindE (update_scopes
                       (\<lambda>s. scope_is (sb_network binding) (sb_agentAddress binding) s \<and>
                            s_status s = RetiringScope)
                       (\<lambda>s. s\<lparr>s_status := RetiredScope,
                              s_updated_at := int_of_number (ti_retiredAt tombstone)\<rparr>) d')
                (\<lambda>(changes, d'').
              bindE (throw_if (changes \<noteq> 1)
                       (Err ''The signer retirement lost its compare-and-swap.'')) (\<lambda>_.
              Inr (tombstone, d''))))))))))) "

definition retireSignerScope ::
    "repo_env \<Rightarrow> engine \<Rightarrow> SignerBinding \<Rightarrow> RetiredSignerTombstoneInput \<Rightarrow> journal_repo \<Rightarrow>
     RetiredSignerTombstone result \<times> journal_repo" where
  "retireSignerScope env engine bindingArg t repo =
     (case bindE (normalizeSignerBinding (env_getAddress env) bindingArg) (\<lambda>binding.
           bindE (assertKnownActionNetwork (env_caps env) (sb_network binding)) (\<lambda>_.
           Inr binding)) of
        Inl e \<Rightarrow> (Inl e, repo)
      | Inr binding \<Rightarrow> immediate engine (retire env binding t) repo)"

section \<open>The manifest\<close>

record RetirementManifest =
  mf_installationEpoch :: string
  mf_sequence :: js_number
  mf_chainRoot :: string

datatype manifest_comparison =
    ManifestMatch
  | SqliteAhead int string
  | Quarantine string

definition compareRetirementManifest ::
    "(string \<Rightarrow> string) \<Rightarrow> RetirementManifest \<Rightarrow> journal_db \<Rightarrow> manifest_comparison" where
  "compareRetirementManifest digest m d =
     (if \<not> safe_at 0 (mf_sequence m) \<or> \<not> LOWERCASE_HASH_PATTERN (mf_chainRoot m) \<or>
         length (mf_installationEpoch m) < 16 \<or> length (mf_installationEpoch m) > 128
      then Quarantine ''invalid_manifest''
      else
        case verifyTombstoneChain digest d of
          Inl reason \<Rightarrow> Quarantine reason
        | Inr None \<Rightarrow>
            (if mf_sequence m = IntN 0 \<and> mf_chainRoot m = EMPTY_RETIREMENT_CHAIN_ROOT
             then ManifestMatch else Quarantine ''manifest_ahead_or_sqlite_restored'')
        | Inr (Some head) \<Rightarrow>
            if h_installation_epoch head \<noteq> mf_installationEpoch m
            then Quarantine ''installation_epoch_mismatch''
            else if IntN (h_sequence head) = mf_sequence m \<and> h_chain_root head = mf_chainRoot m
            then ManifestMatch
            else if h_sequence head = int_of_number (mf_sequence m) + 1 \<and>
                    (case find (\<lambda>t. t_installation_epoch t = h_installation_epoch head \<and>
                                    t_sequence t = h_sequence head) (retired_signer_tombstones d) of
                       None \<Rightarrow> False
                     | Some prior \<Rightarrow> t_prior_chain_root prior = mf_chainRoot m)
            then SqliteAhead (h_sequence head) (h_chain_root head)
            else Quarantine ''retirement_chain_mismatch'')"

end
