(* ===== verification/Journal_Laws.thy ===== *)
theory Journal_Laws
  imports Journal
begin

text \<open>
  How the journal's rows may change. Every operation leaves what identifies an action as it was
  and moves its state along the state machine of theory \<open>Settlement\<close>; an operation that fails
  changes nothing.
\<close>

section \<open>Transactions\<close>

lemma assertTime_Inr [result_simps]:
  "assertTime v p = Inr i \<longleftrightarrow> v = IntN i \<and> safe_int i \<and> 0 \<le> i"
  by (cases v) (auto simp: assertTime_def)

lemma immediate_Inr:
  "immediate e operation repo = (Inr x, repo') \<longleftrightarrow>
     e = Commits \<and> (\<exists>d. operation (database repo) = Inr (x, d) \<and> repo' = repo\<lparr>database := d\<rparr>)"
  by (cases e) (auto simp: immediate_def split: sum.splits prod.splits)

lemma immediate_Inl: "immediate e operation repo = (Inl err, repo') \<Longrightarrow> repo' = repo"
  by (auto simp: immediate_def split: if_splits sum.splits prod.splits)

lemma immediate_database:
  "immediate e operation repo = (res, repo') \<Longrightarrow>
     database repo' = database repo \<or> (\<exists>x. res = Inr x \<and> operation (database repo) = Inr (x, database repo'))"
  by (auto simp: immediate_def split: if_splits sum.splits prod.splits)

lemma forget_database [simp]: "database (forget k repo) = database repo"
  by (simp add: forget_def)

lemma register_database [simp]:
  "database (registerCurrentProcessReservation k e n repo) = database repo"
  by (simp add: registerCurrentProcessReservation_def Let_def)

section \<open>Rows\<close>

definition row_of :: "journal_db \<Rightarrow> string \<Rightarrow> PreparedActionRecord option" where
  "row_of d journalId = find (\<lambda>r. r_journalId r = journalId) (action_journal d)"

text \<open>What no operation changes: the identity of the action, its intent, nonce and expiry.\<close>

definition frozen :: "PreparedActionRecord \<Rightarrow> PreparedActionRecord" where
  "frozen r = r\<lparr>r_state := Prepared, r_submissionStartedAt := None, r_lastResultClass := None,
     r_leaseOwner := None, r_leaseExpiresAt := None, r_reconciliationAttempts := 0,
     r_nextReconciliationAt := 0, r_updatedAt := 0\<rparr>"

definition evolved :: "PreparedActionRecord \<Rightarrow> PreparedActionRecord \<Rightarrow> bool" where
  "evolved r r' \<longleftrightarrow> frozen r' = frozen r \<and> journal_step\<^sup>*\<^sup>* (r_state r) (r_state r')"

definition evolves :: "journal_db \<Rightarrow> journal_db \<Rightarrow> bool" where
  "evolves d d' \<longleftrightarrow> (\<forall>journalId r. row_of d journalId = Some r \<longrightarrow>
     (\<exists>r'. row_of d' journalId = Some r' \<and> evolved r r'))"

lemma evolved_refl [simp]: "evolved r r"
  by (simp add: evolved_def)

lemma evolved_trans: "evolved a b \<Longrightarrow> evolved b c \<Longrightarrow> evolved a c"
  by (auto simp: evolved_def intro: rtranclp_trans)

lemma evolves_refl [simp]: "evolves d d"
  by (simp add: evolves_def)

lemma evolves_trans: "evolves a b \<Longrightarrow> evolves b c \<Longrightarrow> evolves a c"
  unfolding evolves_def by (meson evolved_trans)

lemma frozen_journalId: "frozen r = frozen r' \<Longrightarrow> r_journalId r = r_journalId r'"
  by (drule arg_cong [of _ _ r_journalId]) (simp add: frozen_def)

lemma frozen_updates [simp]:
  "frozen (r\<lparr>r_state := s\<rparr>) = frozen r" "frozen (r\<lparr>r_submissionStartedAt := t\<rparr>) = frozen r"
  "frozen (r\<lparr>r_lastResultClass := c\<rparr>) = frozen r" "frozen (r\<lparr>r_leaseOwner := w\<rparr>) = frozen r"
  "frozen (r\<lparr>r_leaseExpiresAt := e\<rparr>) = frozen r" "frozen (r\<lparr>r_reconciliationAttempts := n\<rparr>) = frozen r"
  "frozen (r\<lparr>r_nextReconciliationAt := n\<rparr>) = frozen r" "frozen (r\<lparr>r_updatedAt := u\<rparr>) = frozen r"
  by (simp_all add: frozen_def)

lemma find_map_same_key:
  assumes "\<And>x. k (g x) = k x"
  shows "find (\<lambda>x. k x = i) (map g xs) = map_option g (find (\<lambda>x. k x = i) xs)"
  using assms by (induction xs) auto

lemma update_actions_Inr:
  assumes "update_actions p f d = Inr (n, d')"
  shows "action_journal d' = map (\<lambda>r. if p r then f r else r) (action_journal d)"
    and "n = length (filter p (action_journal d))"
    and "actions_constraints (signer_scopes d) (action_journal d')"
    and "signer_scopes d' = signer_scopes d"
    and "retired_signer_tombstones d' = retired_signer_tombstones d"
  using assms by (auto simp: update_actions_def Let_def split: if_splits)

lemma update_row_of:
  assumes "update_actions p f d = Inr (n, d')" "\<And>r. r_journalId (f r) = r_journalId r"
  shows "row_of d' i = map_option (\<lambda>r. if p r then f r else r) (row_of d i)"
  unfolding row_of_def update_actions_Inr(1) [OF assms(1)]
  by (rule find_map_same_key) (use assms(2) in simp)

text \<open>An operation on the journal alone: no row appears or disappears, every row evolves, and the
  other tables stay as they are.\<close>

definition kept :: "journal_db \<Rightarrow> journal_db \<Rightarrow> bool" where
  "kept d d' \<longleftrightarrow> evolves d d' \<and> map frozen (action_journal d') = map frozen (action_journal d) \<and>
     signer_scopes d' = signer_scopes d \<and> retired_signer_tombstones d' = retired_signer_tombstones d"

lemma kept_refl [simp]: "kept d d"
  by (simp add: kept_def)

lemma kept_trans: "kept a b \<Longrightarrow> kept b c \<Longrightarrow> kept a c"
  by (auto simp: kept_def intro: evolves_trans)

lemma update_kept:
  assumes "update_actions p f d = Inr (n, d')"
    and "\<And>r. frozen (f r) = frozen r"
    and "\<And>r. r \<in> set (action_journal d) \<Longrightarrow> p r \<Longrightarrow> journal_step\<^sup>*\<^sup>* (r_state r) (r_state (f r))"
  shows "kept d d'"
proof -
  have k: "r_journalId (f r) = r_journalId r" for r
    using assms(2) by (rule frozen_journalId)
  have "evolved r (f r)" if "row_of d i = Some r" "p r" for i r
  proof -
    have "r \<in> set (action_journal d)" using that(1) by (auto simp: row_of_def find_Some_iff)
    with that(2) assms(2,3) show ?thesis by (simp add: evolved_def)
  qed
  then have "evolves d d'" by (auto simp: evolves_def update_row_of [OF assms(1) k])
  then show ?thesis using assms(2) update_actions_Inr(1,4,5) [OF assms(1)] by (auto simp: kept_def)
qed

lemma fromRow_Inr:
  "fromRow row = Inr r \<longleftrightarrow> r = row \<and> assertSecretFreeIntent (r_intent row) = Inr () \<and>
     assertStoredRecord row = Inr ()"
  by (auto simp: fromRow_def)

definition valid_row :: "PreparedActionRecord \<Rightarrow> bool" where
  "valid_row r \<longleftrightarrow> fromRow r = Inr r"

lemma requireAction_Inr:
  "requireAction i d = Inr r \<longleftrightarrow> row_of d i = Some r \<and> valid_row r"
  by (auto simp: requireAction_def getAction_def row_of_def valid_row_def fromRow_Inr
      split: option.splits)

lemma row_of_SomeD: "row_of d i = Some r \<Longrightarrow> r \<in> set (action_journal d) \<and> r_journalId r = i"
  by (auto simp: row_of_def find_Some_iff)

text \<open>What a valid row satisfies, as far as the laws below need it.\<close>

lemma valid_row_marker:
  assumes "valid_row r"
  shows "r_submissionStartedAt r = None \<longleftrightarrow> not_submitted (r_state r)"
    and "r_leaseOwner r \<noteq> None \<Longrightarrow> reconcilable (r_state r)"
    and "r_submissionStartedAt r = Some t \<Longrightarrow> t < r_expiresAfterMs r"
    and "r_nonce r < r_expiresAfterMs r \<and> r_expiresAfterMs r \<le> r_nonce r + 15000"
    and "r_lastResultClass r = RESULT_FOR_STATE (r_state r)"
  using assms
  by (auto simp: valid_row_def fromRow_Inr assertStoredRecord_def result_simps ACTION_EXPIRY_MS_def
      split: option.splits)

section \<open>The operations move rows along the state machine\<close>

lemma reachable_state:
  "t \<in> set (ALLOWED_TRANSITIONS s) \<Longrightarrow> journal_step\<^sup>*\<^sup>* s t"
  by (rule r_into_rtranclp) (simp add: journal_step_iff result_simps)

lemma startSubmission_Inr:
  assumes "startSubmission i now d = Inr (r', d')"
  obtains r where "row_of d i = Some r" "valid_row r" "mayMarkSubmissionStarted r now"
    "row_of d' i = Some r'" "valid_row r'"
    "r' = r\<lparr>r_state := SubmissionStarted, r_submissionStartedAt := Some now, r_updatedAt := now\<rparr>"
    "kept d d'" "actions_constraints (signer_scopes d) (action_journal d')"
proof -
  let ?p = "\<lambda>r. r_journalId r = i \<and> r_state r = Prepared \<and> r_submissionStartedAt r = None"
  let ?f = "\<lambda>r. r\<lparr>r_state := SubmissionStarted, r_submissionStartedAt := Some now, r_updatedAt := now\<rparr>"
  from assms obtain r where r: "row_of d i = Some r" "valid_row r" "mayMarkSubmissionStarted r now"
    and u: "update_actions ?p ?f d = Inr (1, d')" and r': "row_of d' i = Some r'" "valid_row r'"
    by (auto simp: startSubmission_def requireAction_Inr split: prod.splits)
  have eq: "r' = ?f r"
    using r r' row_of_SomeD [OF r(1)] update_row_of [OF u, of i]
    by (auto simp: mayMarkSubmissionStarted_def)
  have ev: "kept d d'"
    by (rule update_kept [OF u]) (auto intro!: reachable_state)
  show thesis
    using that [OF r r' eq ev] update_actions_Inr(3) [OF u] by blast
qed

text \<open>The journal is well-formed: the constraints hold and every row can be read.\<close>

definition journal_ok :: "journal_db \<Rightarrow> bool" where
  "journal_ok d \<longleftrightarrow>
     actions_constraints (signer_scopes d) (action_journal d) \<and>
     (\<forall>r \<in> set (action_journal d). valid_row r)"

lemma row_unique:
  assumes "actions_constraints ss (action_journal d)" "row_of d i = Some r" "q \<in> set (action_journal d)"
    "r_journalId q = i"
  shows "q = r"
proof -
  have "distinct (map r_journalId (action_journal d))"
    using assms(1) by (simp add: actions_constraints_def)
  then have "inj_on r_journalId (set (action_journal d))" by (simp add: distinct_map)
  with row_of_SomeD [OF assms(2)] assms(3,4) show ?thesis by (auto dest: inj_onD)
qed

lemma update_journal_ok:
  assumes "update_actions p f d = Inr (n, d')" "journal_ok d"
    and "\<And>r. r \<in> set (action_journal d) \<Longrightarrow> p r \<Longrightarrow> valid_row (f r)"
  shows "journal_ok d'"
  using assms(2,3) update_actions_Inr [OF assms(1)] by (auto simp: journal_ok_def)

text \<open>An update of the one row that is read back afterwards.\<close>

lemma update_one_ok:
  assumes u: "update_actions p f d = Inr (n, d')" and ok: "journal_ok d"
    and p: "\<And>r. p r \<Longrightarrow> r_journalId r = i" and k: "\<And>r. r_journalId (f r) = r_journalId r"
    and r': "row_of d' i = Some r'" "valid_row r'"
  shows "journal_ok d'"
proof (rule update_journal_ok [OF u ok])
  fix r assume r: "r \<in> set (action_journal d)" "p r"
  obtain q where q: "row_of d i = Some q"
    using r' update_row_of [OF u k, of i] by auto
  have "r = q" using row_unique [OF _ q r(1) p [OF r(2)]] ok by (auto simp: journal_ok_def)
  with q r(2) r' update_row_of [OF u k, of i] show "valid_row (f r)" by auto
qed

lemma startSubmission_ok:
  assumes "startSubmission i now d = Inr (r', d')" "journal_ok d"
  shows "journal_ok d'"
proof -
  from assms(1) obtain n where
    u: "update_actions (\<lambda>r. r_journalId r = i \<and> r_state r = Prepared \<and> r_submissionStartedAt r = None)
         (\<lambda>r. r\<lparr>r_state := SubmissionStarted, r_submissionStartedAt := Some now, r_updatedAt := now\<rparr>) d =
         Inr (n, d')" and r': "row_of d' i = Some r'" "valid_row r'"
    by (auto simp: startSubmission_def requireAction_Inr split: prod.splits)
  show ?thesis by (rule update_one_ok [OF u assms(2) _ _ r']) auto
qed

lemma moveAction_Inr:
  assumes "moveAction i next c now d = Inr (r', d')"
  obtains r where "row_of d i = Some r" "valid_row r" "journal_step (r_state r) next"
    "c = RESULT_FOR_STATE next" "row_of d' i = Some r'" "valid_row r'"
    "r' = r\<lparr>r_state := next, r_lastResultClass := c, r_leaseOwner := None, r_leaseExpiresAt := None,
            r_updatedAt := now\<rparr>"
    "kept d d'" "actions_constraints (signer_scopes d) (action_journal d')"
    "journal_ok d \<Longrightarrow> journal_ok d'"
proof -
  let ?f = "\<lambda>r. r\<lparr>r_state := next, r_lastResultClass := c, r_leaseOwner := None,
                  r_leaseExpiresAt := None, r_updatedAt := now\<rparr>"
  from assms obtain r where r: "row_of d i = Some r" "valid_row r"
    and s: "next \<in> set (ALLOWED_TRANSITIONS (r_state r))" "c = RESULT_FOR_STATE next"
    and u: "update_actions (\<lambda>q. r_journalId q = i \<and> r_state q = r_state r) ?f d = Inr (1, d')"
    and r': "row_of d' i = Some r'" "valid_row r'"
    by (auto simp: moveAction_def requireAction_Inr result_simps split: prod.splits)
  have st: "journal_step (r_state r) next" using s(1) by (simp add: journal_step_iff result_simps)
  have eq: "r' = ?f r"
    using r r' row_of_SomeD [OF r(1)] update_row_of [OF u, of i] by auto
  have ev: "kept d d'"
    by (rule update_kept [OF u]) (use s(1) in \<open>auto intro!: reachable_state\<close>)
  have ok: "journal_ok d \<Longrightarrow> journal_ok d'"
    by (rule update_one_ok [OF u _ _ _ r']) auto
  show thesis
    using that [OF r st s(2) r' eq ev _ ok] update_actions_Inr(3) [OF u] by blast
qed

section \<open>Leases\<close>

lemma record_fields_updates [simp]:
  "record_fields (r\<lparr>r_state := s\<rparr>) = record_fields r"
  "record_fields (r\<lparr>r_leaseOwner := w\<rparr>) = record_fields r"
  "record_fields (r\<lparr>r_leaseExpiresAt := e\<rparr>) = record_fields r"
  "record_fields (r\<lparr>r_updatedAt := u\<rparr>) = record_fields r"
  "record_fields (r\<lparr>r_lastResultClass := c\<rparr>) = record_fields r"
  by (simp_all add: record_fields_def)

lemma valid_with_lease:
  assumes "valid_row r" "reconcilable (r_state r)" "assertLeaseOwner owner = Inr ()"
    "safe_int e" "0 \<le> e" "safe_int now" "0 \<le> now"
  shows "valid_row (with_lease owner e now r)"
  using assms
  by (simp add: valid_row_def fromRow_Inr assertStoredRecord_def with_lease_def result_simps
      cong: option.case_cong)

lemma valid_without_lease:
  assumes "valid_row r" "safe_int now" "0 \<le> now"
  shows "valid_row (r\<lparr>r_leaseOwner := None, r_leaseExpiresAt := None, r_updatedAt := now\<rparr>)"
  using assms
  by (simp add: valid_row_def fromRow_Inr assertStoredRecord_def result_simps cong: option.case_cong)

lemma with_lease_simps [simp]:
  "frozen (with_lease w e n r) = frozen r" "r_state (with_lease w e n r) = r_state r"
  "r_journalId (with_lease w e n r) = r_journalId r"
  by (simp_all add: with_lease_def)

lemma claimLease_Inr:
  assumes "claimLease i owner now e d = Inr (res, d')"
  shows "kept d d'" "actions_constraints (signer_scopes d) (action_journal d')"
    "journal_ok d \<Longrightarrow> assertLeaseOwner owner = Inr () \<Longrightarrow> safe_int e \<Longrightarrow> 0 \<le> e \<Longrightarrow> safe_int now \<Longrightarrow> 0 \<le> now
       \<Longrightarrow> journal_ok d'"
proof -
  from assms obtain n where u: "update_actions
      (\<lambda>r. r_journalId r = i \<and> reconcilable (r_state r) \<and> lease_free now r) (with_lease owner e now) d =
      Inr (n, d')"
    by (auto simp: claimLease_def split: prod.splits)
  show "kept d d'" by (rule update_kept [OF u]) auto
  show "actions_constraints (signer_scopes d) (action_journal d')"
    using update_actions_Inr(3) [OF u] .
  assume "journal_ok d" "assertLeaseOwner owner = Inr ()" "safe_int e" "0 \<le> e" "safe_int now" "0 \<le> now"
  then show "journal_ok d'"
    by (intro update_journal_ok [OF u]) (auto simp: journal_ok_def intro!: valid_with_lease)
qed

lemma distinct_filter_key:
  "distinct (map k xs) \<Longrightarrow> x \<in> set xs \<Longrightarrow> filter (\<lambda>y. k y = k x) xs = [x]"
proof (induction xs)
  case (Cons a xs)
  show ?case
  proof (cases "a = x")
    case True
    with Cons.prems(1) have "filter (\<lambda>y. k y = k x) xs = []"
      by (simp add: filter_empty_conv image_iff) metis
    with True show ?thesis by simp
  next
    case False
    with Cons.prems have "x \<in> set xs" "k a \<noteq> k x" by force+
    with Cons show ?thesis by simp
  qed
qed simp

lemma set_ordered_by [simp]: "set (ordered_by a b rs) = set rs"
  by (simp add: ordered_by_def)

lemma claimNext_Inr:
  assumes "claimNext owner now e d = Inr (res, d')"
  shows "kept d d'" "journal_ok d \<Longrightarrow> journal_ok d'"
    proof -
  have "kept d d' \<and> (journal_ok d \<longrightarrow> journal_ok d')"
  proof (cases "ordered_by r_nextReconciliationAt r_preparedAt
      (filter (\<lambda>r. reconcilable (r_state r) \<and> r_nextReconciliationAt r \<le> now \<and> lease_free now r)
         (action_journal d))")
    case Nil
    with assms show ?thesis by (auto simp: claimNext_def)
  next
    case (Cons candidate rest)
    let ?i = "r_journalId candidate"
    from assms Cons obtain n where u: "update_actions
        (\<lambda>r. r_journalId r = ?i \<and> lease_free now r) (with_lease owner e now) d = Inr (n, d')"
      and v: "n \<noteq> 1 \<or> (\<exists>r'. row_of d' ?i = Some r' \<and> valid_row r')"
      by (auto simp: claimNext_def Let_def requireAction_Inr split: prod.splits if_splits)
    have cand: "candidate \<in> set (action_journal d)" "lease_free now candidate"
      using arg_cong [OF Cons, of set] by auto
    have "journal_ok d'" if ok: "journal_ok d"
    proof -
      have "distinct (map r_journalId (action_journal d))"
        using ok by (simp add: journal_ok_def actions_constraints_def)
      then have one: "filter (\<lambda>r. r_journalId r = ?i) (action_journal d) = [candidate]"
        using cand(1) by (rule distinct_filter_key)
      have "filter (\<lambda>r. r_journalId r = ?i \<and> lease_free now r) (action_journal d) =
          filter (lease_free now) (filter (\<lambda>r. r_journalId r = ?i) (action_journal d))"
        by (simp add: conj_commute)
      then have "n = 1" using update_actions_Inr(2) [OF u] cand(2) one by simp
      with v obtain r' where "row_of d' ?i = Some r'" "valid_row r'" by auto
      then show ?thesis by (intro update_one_ok [OF u ok]) auto
    qed
    moreover have "kept d d'" by (rule update_kept [OF u]) auto
    ultimately show ?thesis by blast
  qed
  then show "kept d d'" "journal_ok d \<Longrightarrow> journal_ok d'"
        by blast+
qed

section \<open>Rescheduling and recovery\<close>

lemma scheduleAction_Inr:
  assumes "scheduleAction i owner now t d = Inr (r', d')"
    and "actions_constraints (signer_scopes d) (action_journal d)"
  shows "kept d d'" "journal_ok d \<Longrightarrow> journal_ok d'" "r_state r' = Unresolved"
    proof -
  let ?p = "\<lambda>r. r_journalId r = i \<and> r_leaseOwner r = Some owner \<and>
              (case r_leaseExpiresAt r of None \<Rightarrow> False | Some e \<Rightarrow> e > now)"
  let ?f = "\<lambda>r. r\<lparr>r_state := Unresolved, r_lastResultClass := Some UnresolvedResult,
                  r_reconciliationAttempts := r_reconciliationAttempts r + 1,
                  r_nextReconciliationAt := t, r_leaseOwner := None,
                  r_leaseExpiresAt := None, r_updatedAt := now\<rparr>"
  from assms(1) obtain r where r: "row_of d i = Some r" "valid_row r"
    and l: "r_leaseOwner r = Some owner" "\<not> (case r_leaseExpiresAt r of None \<Rightarrow> True | Some e \<Rightarrow> e \<le> now)"
    and u: "update_actions ?p ?f d = Inr (1, d')" and r': "row_of d' i = Some r'" "valid_row r'"
    by (auto simp: scheduleAction_def requireAction_Inr split: prod.splits)
  have st: "reconcilable (r_state r)" using valid_row_marker(2) [OF r(2)] l(1) by simp
  have step: "journal_step\<^sup>*\<^sup>* (r_state q) Unresolved" if "q \<in> set (action_journal d)" "?p q" for q
  proof -
    have "q = r" using row_unique [OF assms(2) r(1)] that by blast
    with st show ?thesis by (auto simp: reconcilable_def intro: reachable_state)
  qed
  show "kept d d'" by (rule update_kept [OF u]) (use step in auto)
  show "journal_ok d \<Longrightarrow> journal_ok d'" by (rule update_one_ok [OF u _ _ _ r']) auto
  show "r_state r' = Unresolved"
    using r r' l update_row_of [OF u, of i] row_of_SomeD [OF r(1)] by (auto split: option.splits)
qed

lemma recovery_step:
  assumes "valid_row r" "restartRecoveryDecision r = TransitionTo s"
  shows "s \<in> set (ALLOWED_TRANSITIONS (r_state r))"
  using assms(2) valid_row_marker(1) [OF assms(1)]
  by (cases "r_state r") (auto simp: restartRecoveryDecision_def isTerminalJournalState_def
      TERMINAL_JOURNAL_STATES_def not_submitted_def split: if_splits)

lemma recoverRow_Inr:
  assumes "recoverRow now row d = Inr (changed, d')"
  shows "kept d d'" "journal_ok d \<Longrightarrow> journal_ok d'"
    "actions_constraints (signer_scopes d) (action_journal d) \<Longrightarrow>
       actions_constraints (signer_scopes d') (action_journal d')"
    proof -
  have v: "valid_row row" using assms by (auto simp: recoverRow_def valid_row_def fromRow_Inr)
  then have f: "fromRow row = Inr row" by (simp add: valid_row_def)
  have "kept d d' \<and> (journal_ok d \<longrightarrow> journal_ok d') \<and>
      (actions_constraints (signer_scopes d) (action_journal d) \<longrightarrow>
         actions_constraints (signer_scopes d') (action_journal d'))"
  proof (cases "restartRecoveryDecision row")
    case Unchanged
    with assms f show ?thesis by (auto simp: recoverRow_def)
  next
    case (TransitionTo s)
    from assms f TransitionTo obtain r' where
      u: "update_actions (\<lambda>r. r_journalId r = r_journalId row \<and> r_state r = r_state row)
           (\<lambda>r. r\<lparr>r_state := s, r_lastResultClass := (if s = Unresolved then Some UnresolvedResult else None),
                  r_updatedAt := now\<rparr>) d = Inr (1, d')"
      and r': "row_of d' (r_journalId row) = Some r'" "valid_row r'"
      by (auto simp: recoverRow_def requireAction_Inr split: prod.splits)
    have "kept d d'"
      by (rule update_kept [OF u]) (use recovery_step [OF v TransitionTo] in \<open>auto intro!: reachable_state\<close>)
    moreover have "journal_ok d \<Longrightarrow> journal_ok d'"
      by (rule update_one_ok [OF u _ _ _ r']) auto
    ultimately show ?thesis using update_actions_Inr(3,4) [OF u] by auto
  qed
  then show "kept d d'" "journal_ok d \<Longrightarrow> journal_ok d'"
    "actions_constraints (signer_scopes d) (action_journal d) \<Longrightarrow>
       actions_constraints (signer_scopes d') (action_journal d')"
        by blast+
qed

lemma recoverRows_Inr:
  assumes "recoverRows now rows d = Inr (changed, d')"
  shows "kept d d' \<and> (journal_ok d \<longrightarrow> journal_ok d') \<and>
    (actions_constraints (signer_scopes d) (action_journal d) \<longrightarrow>
       actions_constraints (signer_scopes d') (action_journal d'))"
  using assms
proof (induction now rows d arbitrary: changed rule: recoverRows.induct)
  case (2 now row rows d)
  then obtain c1 d1 c2 where one: "recoverRow now row d = Inr (c1, d1)"
    and rest: "recoverRows now rows d1 = Inr (c2, d')"
    by (auto split: prod.splits)
  with "2.IH" [OF rest] recoverRow_Inr [OF one] show ?case
    by (auto intro: kept_trans)
qed simp

end
