(* ===== verification/Repository_Laws.thy ===== *)
theory Repository_Laws
  imports Nonce_Repository Journal_Laws
begin

text \<open>
  The repository as a whole: its calls in any order, from any process, with any outcome of the
  database engine. What one call may do to the journal, the scopes and the tombstones is stated
  once as \<open>lawful\<close>; the properties of sequences of calls follow from it.
\<close>

section \<open>Scopes\<close>

fun scope_stage :: "scope_status \<Rightarrow> nat" where
  "scope_stage ActiveScope = 0"
| "scope_stage RetiringScope = 1"
| "scope_stage RetiredScope = 2"

text \<open>The key, the accounts and the generation of a scope never change; its status and its last
  nonce only advance.\<close>

definition scope_advances :: "SignerScopeRow \<Rightarrow> SignerScopeRow \<Rightarrow> bool" where
  "scope_advances s s' \<longleftrightarrow>
     s_master_account s' = s_master_account s \<and> s_target_account s' = s_target_account s \<and>
     s_signer_generation s' = s_signer_generation s \<and>
     scope_stage (s_status s) \<le> scope_stage (s_status s') \<and>
     (\<forall>n. s_last_issued_nonce s = Some n \<longrightarrow> (\<exists>m. s_last_issued_nonce s' = Some m \<and> n \<le> m))"

definition scopes_advance :: "journal_db \<Rightarrow> journal_db \<Rightarrow> bool" where
  "scopes_advance d d' \<longleftrightarrow> (\<forall>n a s. scope n a d = Some s \<longrightarrow>
     (\<exists>s'. scope n a d' = Some s' \<and> scope_advances s s'))"

lemma scope_advances_refl [simp]: "scope_advances s s"
  by (simp add: scope_advances_def)

lemma scope_advances_trans: "scope_advances a b \<Longrightarrow> scope_advances b c \<Longrightarrow> scope_advances a c"
  unfolding scope_advances_def by (metis order_trans)

lemma scopes_advance_trans: "scopes_advance a b \<Longrightarrow> scopes_advance b c \<Longrightarrow> scopes_advance a c"
  unfolding scopes_advance_def by (meson scope_advances_trans)

lemma scopes_advance_same: "signer_scopes d' = signer_scopes d \<Longrightarrow> scopes_advance d d'"
  by (simp add: scopes_advance_def scope_def)

lemma update_scopes_Inr:
  assumes "update_scopes p f d = Inr (n, d')"
  shows "signer_scopes d' = map (\<lambda>s. if p s then f s else s) (signer_scopes d)"
    and "n = length (filter p (signer_scopes d))" and "scopes_constraints (signer_scopes d')"
    and "action_journal d' = action_journal d"
    and "retired_signer_tombstones d' = retired_signer_tombstones d"
  using assms by (auto simp: update_scopes_def Let_def split: if_splits)

lemma find_map_inv:
  assumes "\<And>x. q (g x) = q x"
  shows "find q (map g xs) = map_option g (find q xs)"
  using assms by (induction xs) auto

lemma update_scope_of:
  assumes "update_scopes p f d = Inr (n, d')"
    "\<And>s. s_network (f s) = s_network s" "\<And>s. s_agent_address (f s) = s_agent_address s"
  shows "scope m a d' = map_option (\<lambda>s. if p s then f s else s) (scope m a d)"
  unfolding scope_def update_scopes_Inr(1) [OF assms(1)]
  by (rule find_map_inv) (use assms(2,3) in \<open>simp add: scope_is_def\<close>)

lemma scope_SomeD: "scope n a d = Some s \<Longrightarrow> s \<in> set (signer_scopes d) \<and> s_network s = n \<and> s_agent_address s = a"
  by (auto simp: scope_def scope_is_def find_Some_iff)

text \<open>Updates of scopes keep the keys the journal's rows refer to.\<close>

lemma update_scopes_keys:
  assumes "update_scopes p f d = Inr (n, d')"
    "\<And>s. s_network (f s) = s_network s" "\<And>s. s_agent_address (f s) = s_agent_address s"
  shows "map (\<lambda>s. (s_network s, s_agent_address s)) (signer_scopes d') =
         map (\<lambda>s. (s_network s, s_agent_address s)) (signer_scopes d)"
  unfolding update_scopes_Inr(1) [OF assms(1)] using assms(2,3) by simp

lemma actions_constraints_keys:
  assumes "set (map (\<lambda>s. (s_network s, s_agent_address s)) ss) \<subseteq>
      set (map (\<lambda>s. (s_network s, s_agent_address s)) ss')" "actions_constraints ss rs"
  shows "actions_constraints ss' rs"
  using assms unfolding actions_constraints_def list_all_iff by (meson subsetD)

section \<open>What one operation may do\<close>

definition tombstones_grow :: "journal_db \<Rightarrow> journal_db \<Rightarrow> bool" where
  "tombstones_grow d d' \<longleftrightarrow> (\<exists>ts. retired_signer_tombstones d' = retired_signer_tombstones d @ ts)"

text \<open>The scope of every action remembers a nonce at least as large as the action's own.\<close>

definition nonces_covered :: "journal_db \<Rightarrow> bool" where
  "nonces_covered d \<longleftrightarrow> (\<forall>r \<in> set (action_journal d). \<exists>s n.
     scope (r_network r) (r_agentAddress r) d = Some s \<and> s_last_issued_nonce s = Some n \<and> r_nonce r \<le> n)"

definition db_ok :: "journal_db \<Rightarrow> bool" where
  "db_ok d \<longleftrightarrow> journal_ok d \<and> scopes_constraints (signer_scopes d) \<and> nonces_covered d"

definition lawful :: "journal_db \<Rightarrow> journal_db \<Rightarrow> bool" where
  "lawful d d' \<longleftrightarrow> db_ok d' \<and> evolves d d' \<and> scopes_advance d d' \<and> tombstones_grow d d'"

lemma lawful_refl: "db_ok d \<Longrightarrow> lawful d d"
  by (simp add: lawful_def scopes_advance_same tombstones_grow_def)

lemma lawful_trans: "lawful a b \<Longrightarrow> lawful b c \<Longrightarrow> lawful a c"
  unfolding lawful_def tombstones_grow_def
  by (metis append.assoc evolves_trans scopes_advance_trans)

lemma frozen_fields [simp]:
  "r_network (frozen r) = r_network r" "r_agentAddress (frozen r) = r_agentAddress r"
  "r_nonce (frozen r) = r_nonce r"
  by (simp_all add: frozen_def)

lemma frozen_nonce:
  assumes "frozen r = frozen r'"
  shows "r_network r = r_network r' \<and> r_agentAddress r = r_agentAddress r' \<and> r_nonce r = r_nonce r'"
  using arg_cong [OF assms, of r_network] arg_cong [OF assms, of r_agentAddress]
    arg_cong [OF assms, of r_nonce] by simp

lemma kept_nonces:
  assumes "kept d d'" "nonces_covered d"
  shows "nonces_covered d'"
  unfolding nonces_covered_def
proof
  fix r assume "r \<in> set (action_journal d')"
  then have "frozen r \<in> set (map frozen (action_journal d'))" by simp
  then have "frozen r \<in> set (map frozen (action_journal d))" using assms(1) by (simp only: kept_def)
  then obtain q where q: "q \<in> set (action_journal d)" "frozen r = frozen q" by auto
  have "scope n a d' = scope n a d" for n a using assms(1) by (simp add: kept_def scope_def)
  with q frozen_nonce [OF q(2)] assms(2)
  show "\<exists>s n. scope (r_network r) (r_agentAddress r) d' = Some s \<and> s_last_issued_nonce s = Some n \<and> r_nonce r \<le> n"
    by (simp add: nonces_covered_def)
qed

lemma kept_lawful:
  assumes "db_ok d" "kept d d'" "journal_ok d'"
  shows "lawful d d'"
  using assms kept_nonces [OF assms(2)]
  by (auto simp: lawful_def db_ok_def kept_def scopes_advance_same tombstones_grow_def)

lemma startSubmission_lawful:
  assumes "db_ok d" "startSubmission i now d = Inr (r, d')"
  shows "lawful d d'"
proof (rule kept_lawful [OF assms(1)])
  show "kept d d'" by (rule startSubmission_Inr [OF assms(2)])
  show "journal_ok d'" using assms startSubmission_ok by (auto simp: db_ok_def)
qed

lemma moveAction_lawful:
  assumes "db_ok d" "moveAction i s c now d = Inr (r, d')"
  shows "lawful d d'"
proof (rule kept_lawful [OF assms(1)])
  show "kept d d'" by (rule moveAction_Inr [OF assms(2)])
  show "journal_ok d'" by (rule moveAction_Inr [OF assms(2)]) (use assms(1) in \<open>simp add: db_ok_def\<close>)
qed

lemma claimNext_lawful:
  assumes "db_ok d" "claimNext owner now e d = Inr (res, d')"
  shows "lawful d d'"
  using assms(1) claimNext_Inr [OF assms(2)] by (intro kept_lawful) (auto simp: db_ok_def)

lemma scheduleAction_lawful:
  assumes "db_ok d" "scheduleAction i owner now t d = Inr (r, d')"
  shows "lawful d d'"
  using assms(1) scheduleAction_Inr [OF assms(2)]
  by (intro kept_lawful) (auto simp: db_ok_def journal_ok_def)

lemma recoverAll_lawful:
  assumes "db_ok d" "recoverAll now d = Inr (res, d')"
  shows "lawful d d'"
  using assms(1) recoverRows_Inr [OF assms(2) [unfolded recoverAll_def]]
  by (intro kept_lawful) (auto simp: db_ok_def)

lemma claimLease_lawful:
  assumes "db_ok d" "claimLease i owner now e d = Inr (res, d')"
    "assertLeaseOwner owner = Inr ()" "safe_int e" "0 \<le> e" "safe_int now" "0 \<le> now"
  shows "lawful d d'"
  using assms claimLease_Inr [OF assms(2)] by (intro kept_lawful) (auto simp: db_ok_def)

section \<open>Scopes, reservations and retirement\<close>

lemma row_of_append:
  "row_of (d\<lparr>action_journal := action_journal d @ [r]\<rparr>) i =
     (case row_of d i of Some q \<Rightarrow> Some q | None \<Rightarrow> if r_journalId r = i then Some r else None)"
proof -
  have "find P (xs @ [r]) = (case find P xs of Some q \<Rightarrow> Some q | None \<Rightarrow> if P r then Some r else None)"
    for P and xs :: "PreparedActionRecord list"
    by (induction xs) auto
  then show ?thesis by (simp add: row_of_def)
qed

lemma insert_scope_Inr:
  assumes "insert_scope s d = Inr d'"
  shows "d' = d\<lparr>signer_scopes := signer_scopes d @ [s]\<rparr>" "scopes_constraints (signer_scopes d')"
  using assms by (auto simp: insert_scope_def Let_def split: if_splits)

lemma insert_action_Inr:
  assumes "insert_action r d = Inr d'"
  shows "d' = d\<lparr>action_journal := action_journal d @ [r]\<rparr>"
    "actions_constraints (signer_scopes d) (action_journal d @ [r])"
  using assms by (auto simp: insert_action_def Let_def split: if_splits)

lemma find_append: "find P (xs @ ys) = (case find P xs of Some x \<Rightarrow> Some x | None \<Rightarrow> find P ys)"
  by (induction xs) auto

lemma insert_scope_lawful:
  assumes "db_ok d" "insert_scope s d = Inr d'"
  shows "lawful d d'"
proof -
  note i = insert_scope_Inr [OF assms(2)]
  have sc: "scope n a d = Some x \<Longrightarrow> scope n a d' = Some x" for n a x
    by (simp add: i(1) scope_def find_append)
  have "nonces_covered d'"
    using assms(1) sc by (fastforce simp: db_ok_def nonces_covered_def i(1))
  moreover have "journal_ok d'"
    using assms(1) actions_constraints_keys [of "signer_scopes d" "signer_scopes d'" "action_journal d"]
    by (auto simp: db_ok_def journal_ok_def i(1))
  moreover have "evolves d d'" by (simp add: evolves_def row_of_def i(1))
  moreover have "scopes_advance d d'" using sc by (force simp: scopes_advance_def)
  ultimately show ?thesis
    using i(2) by (simp add: lawful_def db_ok_def tombstones_grow_def i(1))
qed

text \<open>An update of scopes that keeps their keys and accounts and lets status and nonce advance.\<close>

lemma update_scopes_lawful:
  assumes ok: "db_ok d" and u: "update_scopes p f d = Inr (n, d')"
    and k: "\<And>s. s_network (f s) = s_network s" "\<And>s. s_agent_address (f s) = s_agent_address s"
    and f: "\<And>s. s \<in> set (signer_scopes d) \<Longrightarrow> p s \<Longrightarrow> scope_advances s (f s)"
  shows "lawful d d'"
proof -
  note i = update_scopes_Inr [OF u] and sc = update_scope_of [OF u k]
  have adv: "scopes_advance d d'"
    using f by (auto simp: scopes_advance_def sc dest: scope_SomeD)
  have "nonces_covered d'"
    unfolding nonces_covered_def i(4)
  proof
    fix r assume "r \<in> set (action_journal d)"
    then obtain s m where s: "scope (r_network r) (r_agentAddress r) d = Some s"
      "s_last_issued_nonce s = Some m" "r_nonce r \<le> m"
      using ok by (auto simp: db_ok_def nonces_covered_def)
    obtain s' where "scope (r_network r) (r_agentAddress r) d' = Some s'" "scope_advances s s'"
      using adv s(1) unfolding scopes_advance_def by blast
    with s show "\<exists>s n. scope (r_network r) (r_agentAddress r) d' = Some s \<and>
        s_last_issued_nonce s = Some n \<and> r_nonce r \<le> n"
      by (fastforce simp: scope_advances_def)
  qed
  moreover have "journal_ok d'"
    using ok actions_constraints_keys [of "signer_scopes d" "signer_scopes d'" "action_journal d"]
      update_scopes_keys [OF u k]
    by (simp add: db_ok_def journal_ok_def i(4) del: set_map)
  moreover have "evolves d d'" by (simp add: evolves_def row_of_def i(4))
  ultimately show ?thesis
    using adv i(3,5) by (simp add: lawful_def db_ok_def tombstones_grow_def)
qed

lemma registerScope_lawful:
  assumes "db_ok d" "registerScope env b t d = Inr (u, d')"
  shows "lawful d d'"
  using assms lawful_refl insert_scope_lawful
  by (auto simp: registerScope_def split: option.splits)

lemma markRetiring_lawful:
  assumes "db_ok d" "markRetiring env b now d = Inr (u, d')"
  shows "lawful d d'"
  using assms lawful_refl
  by (auto simp: markRetiring_def scope_advances_def split: option.splits if_splits prod.splits
      intro!: update_scopes_lawful [where p = "\<lambda>s. scope_is (sb_network b) (sb_agentAddress b) s \<and> s_status s = ActiveScope"])

end
