(* ===== verification/Reservation_Laws.thy ===== *)
theory Reservation_Laws
  imports Repository_Laws
begin

text \<open>
  What a reservation and a retirement do to the database: the nonce that is issued is larger than
  every nonce the signer used before, the new row is the one that is read back, and a retired
  scope leaves a tombstone at the end of the chain.
\<close>

section \<open>Reservation\<close>

lemma scope_key_unique:
  assumes "scopes_constraints (signer_scopes d)" "scope n a d = Some s" "s' \<in> set (signer_scopes d)"
    "scope_is n a s'"
  shows "s' = s"
proof -
  have "inj_on (\<lambda>s. (s_network s, s_agent_address s)) (set (signer_scopes d))"
    using assms(1) by (simp add: scopes_constraints_def distinct_map)
  with scope_SomeD [OF assms(2)] assms(3,4) show ?thesis
    by (auto simp: scope_is_def dest: inj_onD)
qed

text \<open>A reservation, decomposed: the scope, the allocation, and the row that is appended.\<close>

lemma reserve_Inr:
  assumes "reserve env b epoch clock a d = Inr (r, d')" "scopes_constraints (signer_scopes d)"
  obtains sc alloc d1 where
    "scope (sb_network b) (sb_agentAddress b) d = Some sc" "s_status sc = ActiveScope"
    "allocateNonce (clock\<lparr>lastObservedWallMs := map_option IntN (s_last_observed_wall_ms sc)\<rparr>)
       (map_option IntN (s_last_issued_nonce sc)) = Inr alloc"
    "update_scopes
       (\<lambda>s. scope_is (sb_network b) (sb_agentAddress b) s \<and> s_status s = ActiveScope \<and>
            IntN (s_signer_generation s) = sb_generation b)
       (\<lambda>s. s\<lparr>s_last_issued_nonce := Some (nonce alloc), s_last_observed_wall_ms := Some (observedWallMs alloc),
              s_updated_at := observedWallMs alloc\<rparr>) d = Inr (1, d1)"
    "scope (sb_network b) (sb_agentAddress b) d1 =
       Some (sc\<lparr>s_last_issued_nonce := Some (nonce alloc), s_last_observed_wall_ms := Some (observedWallMs alloc),
                s_updated_at := observedWallMs alloc\<rparr>)"
    "insert_action (prepared_row b epoch alloc a) d1 = Inr d'"
    "row_of d' (pa_journalId a) = Some r" "valid_row r"
proof -
  let ?p = "\<lambda>s. scope_is (sb_network b) (sb_agentAddress b) s \<and> s_status s = ActiveScope \<and>
            IntN (s_signer_generation s) = sb_generation b"
  from assms(1) obtain sc alloc d1 where
    s: "scope (sb_network b) (sb_agentAddress b) d = Some sc" "s_status sc = ActiveScope"
    and al: "allocateNonce (clock\<lparr>lastObservedWallMs := map_option IntN (s_last_observed_wall_ms sc)\<rparr>)
       (map_option IntN (s_last_issued_nonce sc)) = Inr alloc"
    and u: "update_scopes ?p
       (\<lambda>s. s\<lparr>s_last_issued_nonce := Some (nonce alloc), s_last_observed_wall_ms := Some (observedWallMs alloc),
              s_updated_at := observedWallMs alloc\<rparr>) d = Inr (1, d1)"
    and i: "insert_action (prepared_row b epoch alloc a) d1 = Inr d'"
      "row_of d' (pa_journalId a) = Some r" "valid_row r"
    by (auto simp: reserve_def requireAction_Inr split: option.splits prod.splits)
  have "?p sc"
  proof -
    have "filter ?p (signer_scopes d) \<noteq> []" using update_scopes_Inr(2) [OF u] by auto
    then obtain s' where "s' \<in> set (signer_scopes d)" "?p s'" by (auto simp: filter_empty_conv)
    then show ?thesis using scope_key_unique [OF assms(2) s(1)] by auto
  qed
  then have "scope (sb_network b) (sb_agentAddress b) d1 =
       Some (sc\<lparr>s_last_issued_nonce := Some (nonce alloc), s_last_observed_wall_ms := Some (observedWallMs alloc),
                s_updated_at := observedWallMs alloc\<rparr>)"
    using update_scope_of [OF u, of "sb_network b" "sb_agentAddress b"] s(1) by simp
  with that [OF s al u _ i] show thesis .
qed

lemma allocated_after: "allocateNonce clock (map_option IntN prior) = Inr al \<Longrightarrow> prior = Some n \<Longrightarrow> n < nonce al"
  by (auto simp: allocateNonce_Inr split: option.splits)

lemma prepared_row_fields [simp]:
  "r_journalId (prepared_row b e al a) = pa_journalId a" "r_nonce (prepared_row b e al a) = nonce al"
  "r_network (prepared_row b e al a) = sb_network b" "r_agentAddress (prepared_row b e al a) = sb_agentAddress b"
  "r_state (prepared_row b e al a) = Prepared" "r_expiresAfterMs (prepared_row b e al a) = expiresAfterMs al"
  "r_preparedAt (prepared_row b e al a) = observedWallMs al"
  by (simp_all add: prepared_row_def Let_def)

lemma insert_row_of:
  assumes "insert_action q d = Inr d'"
  shows "row_of d (r_journalId q) = None" "row_of d' (r_journalId q) = Some q"
    "i \<noteq> r_journalId q \<Longrightarrow> row_of d' i = row_of d i"
proof -
  note i = insert_action_Inr [OF assms]
  have "distinct (map r_journalId (action_journal d @ [q]))"
    using i(2) unfolding actions_constraints_def by blast
  then have "r_journalId q \<notin> r_journalId ` set (action_journal d)" by simp
  then show none: "row_of d (r_journalId q) = None"
    unfolding row_of_def find_None_iff by (metis imageI)
  show "row_of d' (r_journalId q) = Some q"
    using none by (simp add: i(1) row_of_append)
  show "i \<noteq> r_journalId q \<Longrightarrow> row_of d' i = row_of d i"
    by (auto simp: i(1) row_of_append split: option.splits)
qed

lemma insert_action_lawful:
  assumes ok: "db_ok d" and i: "insert_action q d = Inr d'" and v: "valid_row q"
    and s: "scope (r_network q) (r_agentAddress q) d = Some s" "s_last_issued_nonce s = Some (r_nonce q)"
  shows "lawful d d'"
proof -
  note j = insert_action_Inr [OF i] and rows = insert_row_of [OF i]
  have sc: "scope n a d' = scope n a d" for n a by (simp add: j(1) scope_def)
  have "nonces_covered d'"
    using ok s unfolding nonces_covered_def sc by (auto simp: db_ok_def nonces_covered_def j(1))
  moreover have "journal_ok d'"
    using ok v j by (auto simp: db_ok_def journal_ok_def)
  moreover have "evolves d d'"
    using rows by (auto simp: evolves_def) (metis evolved_refl option.distinct(1))
  moreover have "scopes_advance d d'" by (rule scopes_advance_same) (simp add: j(1))
  ultimately show ?thesis
    using ok by (simp add: lawful_def db_ok_def tombstones_grow_def j(1))
qed

lemma reserve_lawful:
  assumes ok: "db_ok d" and r: "reserve env b epoch clock a d = Inr (r, d')"
  shows "lawful d d'"
proof -
  have sc: "scopes_constraints (signer_scopes d)" using ok by (simp add: db_ok_def)
  from r sc show ?thesis
  proof (rule reserve_Inr, goal_cases)
    case (1 s al d1)
    have "lawful d d1"
    proof (rule update_scopes_lawful [OF ok 1(4)])
      fix s' assume "s' \<in> set (signer_scopes d)" and p: "scope_is (sb_network b) (sb_agentAddress b) s' \<and>
        s_status s' = ActiveScope \<and> IntN (s_signer_generation s') = sb_generation b"
      then have "s' = s" using scope_key_unique [OF sc 1(1)] by blast
      then show "scope_advances s' (s'\<lparr>s_last_issued_nonce := Some (nonce al),
          s_last_observed_wall_ms := Some (observedWallMs al), s_updated_at := observedWallMs al\<rparr>)"
        using allocated_after [OF 1(3)] by (auto simp: scope_advances_def intro: less_imp_le)
    qed simp_all
    moreover from this have "db_ok d1" by (simp add: lawful_def)
    then have "lawful d1 d'"
      using 1(5,8) insert_row_of(2) [OF 1(6)] 1(7)
      by (intro insert_action_lawful [OF _ 1(6)]) auto
    ultimately show ?thesis by (rule lawful_trans)
  qed
qed

text \<open>The new row, and how its nonce compares with those of the signer's earlier actions.\<close>

lemma reserve_row:
  assumes ok: "db_ok d" and r: "reserve env b epoch clock a d = Inr (r, d')"
  shows "r_journalId r = pa_journalId a \<and> r_network r = sb_network b \<and>
    r_agentAddress r = sb_agentAddress b \<and> r_state r = Prepared \<and>
    row_of d (r_journalId r) = None \<and> action_journal d' = action_journal d @ [r] \<and>
    (\<forall>q \<in> set (action_journal d). r_network q = r_network r \<longrightarrow> r_agentAddress q = r_agentAddress r \<longrightarrow>
       r_nonce q < r_nonce r)"
proof -
  have sc: "scopes_constraints (signer_scopes d)" using ok by (simp add: db_ok_def)
  from r sc show ?thesis
  proof (rule reserve_Inr, goal_cases)
    case (1 s al d1)
    have j: "action_journal d1 = action_journal d" by (rule update_scopes_Inr(4) [OF 1(4)])
    have eq: "r = prepared_row b epoch al a" using insert_row_of(2) [OF 1(6)] 1(7) by simp
    have "r_nonce q < nonce al" if "q \<in> set (action_journal d)" "r_network q = sb_network b"
      "r_agentAddress q = sb_agentAddress b" for q
      using ok that 1(1) allocated_after [OF 1(3)] by (fastforce simp: db_ok_def nonces_covered_def)
    moreover have "row_of d (pa_journalId a) = None"
      using insert_row_of(1) [OF 1(6)] by (simp add: row_of_def j)
    ultimately show ?thesis
      using insert_action_Inr(1) [OF 1(6)] j by (simp add: eq)
  qed
qed

section \<open>Retirement\<close>

lemma insert_tombstone_Inr:
  assumes "insert_tombstone t d = Inr d'"
  shows "d' = d\<lparr>retired_signer_tombstones := retired_signer_tombstones d @ [t]\<rparr>"
    "tombstones_constraints (retired_signer_tombstones d @ [t])"
  using assms by (auto simp: insert_tombstone_def Let_def split: if_splits)

lemma insert_tombstone_lawful:
  assumes "db_ok d" "insert_tombstone t d = Inr d'"
  shows "lawful d d'"
  using assms(1) unfolding insert_tombstone_Inr(1) [OF assms(2)]
  by (auto simp: lawful_def db_ok_def journal_ok_def nonces_covered_def scope_def evolves_def row_of_def
      scopes_advance_def tombstones_grow_def)

lemma retire_Inr:
  assumes "retire env b t d = Inr (ts, d')"
  obtains sc head d1 where
    "scope (sb_network b) (sb_agentAddress b) d = Some sc" "s_status sc = RetiringScope"
    "(ti_reason t = Rotated \<or> ti_reason t = ExpiredReason) \<longrightarrow>
       (\<forall>r \<in> set (action_journal d). r_network r = sb_network b \<longrightarrow>
          r_agentAddress r = sb_agentAddress b \<longrightarrow> isTerminalJournalState (r_state r))"
    "verifyTombstoneChain (env_digest env) d = Inr head"
    "ti_installationEpoch t = (case head of None \<Rightarrow> ti_installationEpoch t | Some h \<Rightarrow> h_installation_epoch h)"
    "ti_sequence t = IntN ((case head of None \<Rightarrow> 0 | Some h \<Rightarrow> h_sequence h) + 1)"
    "ti_priorChainRoot t = (case head of None \<Rightarrow> EMPTY_RETIREMENT_CHAIN_ROOT | Some h \<Rightarrow> h_chain_root h)"
    "agentAddressFingerprint (env_digest env) (sb_agentAddress b) = Inr (ti_agentAddressFingerprint t)"
    "ti_network t = sb_network b"
    "ti_lastIssuedNonce t = IntN (case s_last_issued_nonce sc of None \<Rightarrow> 0 | Some n \<Rightarrow> n)"
    "createRetiredSignerTombstone (env_digest env) t = Inr ts"
    "insert_tombstone (tombstone_row ts) d = Inr d1"
    "update_scopes (\<lambda>s. scope_is (sb_network b) (sb_agentAddress b) s \<and> s_status s = RetiringScope)
       (\<lambda>s. s\<lparr>s_status := RetiredScope, s_updated_at := int_of_number (ti_retiredAt ts)\<rparr>) d1 = Inr (1, d')"
  using assms
  by (auto simp: retire_def filter_empty_conv split: option.splits sum.splits prod.splits
      dest!: js_eqD elim!: meta_mp)

lemma retire_lawful:
  assumes "db_ok d" "retire env b t d = Inr (ts, d')"
  shows "lawful d d'"
  using assms(2)
proof (rule retire_Inr, goal_cases)
  case (1 sc head d1)
  have "lawful d d1" by (rule insert_tombstone_lawful [OF assms(1) 1(12)])
  moreover from this have "db_ok d1" by (simp add: lawful_def)
  then have "lawful d1 d'"
    by (rule update_scopes_lawful [OF _ 1(13)]) (auto simp: scope_advances_def)
  ultimately show ?thesis by (rule lawful_trans)
qed

section \<open>Leases that are renewed and released\<close>

lemma statement_Inr:
  "statement e run repo = (Inr n, repo') \<longleftrightarrow>
     e = Commits \<and> (\<exists>d. run (database repo) = Inr (n, d) \<and> repo' = repo\<lparr>database := d\<rparr>)"
  by (cases e) (auto simp: statement_def split: sum.splits prod.splits)

lemma statement_Inl: "statement e run repo = (Inl err, repo') \<Longrightarrow> repo' = repo"
  by (auto simp: statement_def split: if_splits sum.splits prod.splits)

lemma renew_lawful:
  assumes "db_ok d" "update_actions (\<lambda>r. holds_lease lease r \<and> now < l_expiresAt lease)
      (\<lambda>r. r\<lparr>r_leaseExpiresAt := Some e, r_updatedAt := now\<rparr>) d = Inr (n, d')"
    and "assertLeaseOwner (l_owner lease) = Inr ()" "safe_int e" "0 \<le> e" "safe_int now" "0 \<le> now"
  shows "lawful d d'"
proof (rule kept_lawful [OF assms(1)])
  show "kept d d'" by (rule update_kept [OF assms(2)]) auto
  show "journal_ok d'"
  proof (rule update_journal_ok [OF assms(2)])
    fix r assume "r \<in> set (action_journal d)" "holds_lease lease r \<and> now < l_expiresAt lease"
    moreover from this have "r\<lparr>r_leaseExpiresAt := Some e, r_updatedAt := now\<rparr> = with_lease (l_owner lease) e now r"
      by (simp add: with_lease_def holds_lease_def)
    moreover have "valid_row r" using assms(1) calculation(1) by (auto simp: db_ok_def journal_ok_def)
    moreover from this have "reconcilable (r_state r)"
      using calculation(2) by (intro valid_row_marker(2)) (auto simp: holds_lease_def)
    ultimately show "valid_row (r\<lparr>r_leaseExpiresAt := Some e, r_updatedAt := now\<rparr>)"
      using valid_with_lease assms(3-) by simp
  qed (use assms(1) in \<open>simp add: db_ok_def\<close>)
qed

lemma release_lawful:
  assumes "db_ok d" "update_actions (holds_lease lease)
      (\<lambda>r. r\<lparr>r_leaseOwner := None, r_leaseExpiresAt := None, r_updatedAt := now\<rparr>) d = Inr (n, d')"
    and "safe_int now" "0 \<le> now"
  shows "lawful d d'"
proof (rule kept_lawful [OF assms(1)])
  show "kept d d'" by (rule update_kept [OF assms(2)]) auto
  show "journal_ok d'"
    by (rule update_journal_ok [OF assms(2)])
      (use assms(1,3,4) in \<open>auto simp: db_ok_def journal_ok_def intro: valid_without_lease\<close>)
qed

end
