(* ===== verification/Machines.thy ===== *)
theory Machines
  imports Main
begin

text \<open>
  State machines that answer each event with an outcome, and what holds of whole runs when single
  steps keep an invariant and relate the states before and after: permissions that are granted at
  most once, and numbers that are issued in increasing order. The contracts are locales; the
  repository interprets them.
\<close>

fun run_all :: "('e \<Rightarrow> 's \<Rightarrow> 'o \<times> 's) \<Rightarrow> 'e list \<Rightarrow> 's \<Rightarrow> 'o list \<times> 's" where
  "run_all f [] s = ([], s)"
| "run_all f (e # es) s =
     (case f e s of (out, s') \<Rightarrow> case run_all f es s' of (outs, s'') \<Rightarrow> (out # outs, s''))"

lemma run_all_Cons:
  assumes "run_all f (e # es) s = (outs, s'')"
  obtains out s' rest where "f e s = (out, s')" "run_all f es s' = (rest, s'')" "outs = out # rest"
  using assms by (auto split: prod.splits)

lemma run_all_append:
  "run_all f (es @ fs) s =
     (case run_all f es s of (outs, s') \<Rightarrow> case run_all f fs s' of (rest, s'') \<Rightarrow> (outs @ rest, s''))"
  by (induction es arbitrary: s) (auto split: prod.splits)

text \<open>The numbers that a run issues for one key, in order.\<close>

fun numbers :: "('o \<Rightarrow> ('k \<times> int) option) \<Rightarrow> 'k \<Rightarrow> 'o list \<Rightarrow> int list" where
  "numbers issued k [] = []"
| "numbers issued k (out # outs) =
     (case issued out of
        Some (k', n) \<Rightarrow> (if k' = k then [n] else [])
      | None \<Rightarrow> []) @ numbers issued k outs"

locale machine =
  fixes step :: "'e \<Rightarrow> 's \<Rightarrow> 'o \<times> 's"
    and inv :: "'s \<Rightarrow> bool"
    and admissible :: "'e \<Rightarrow> bool"
    and rel :: "'s \<Rightarrow> 's \<Rightarrow> bool"
  assumes rel_refl: "inv s \<Longrightarrow> rel s s"
    and rel_trans: "rel s t \<Longrightarrow> rel t u \<Longrightarrow> rel s u"
    and step_rel: "inv s \<Longrightarrow> admissible e \<Longrightarrow> step e s = (out, s') \<Longrightarrow> inv s' \<and> rel s s'"
begin

lemma run_rel:
  assumes "inv s" "list_all admissible es" "run_all step es s = (outs, s')"
  shows "inv s' \<and> rel s s'"
  using assms
proof (induction es arbitrary: s outs)
  case Nil
  then show ?case by (simp add: rel_refl)
next
  case (Cons e es)
  from Cons.prems(3) obtain out t rest where t: "step e s = (out, t)" "run_all step es t = (rest, s')"
    by (rule run_all_Cons)
  with Cons.prems(1,2) have "inv t" "rel s t" using step_rel [of s e out t] by auto
  with Cons.IH [OF _ _ t(2)] Cons.prems(2) show ?case by (auto intro: rel_trans)
qed

text \<open>A condition that the relation carries along, and what it says of every outcome.\<close>

lemma run_outcomes:
  assumes "inv s" "list_all admissible es" "run_all step es s = (outs, s')" "P s"
    and stable: "\<And>t u. P t \<Longrightarrow> rel t u \<Longrightarrow> P u"
    and outcome: "\<And>t e out u. inv t \<Longrightarrow> P t \<Longrightarrow> step e t = (out, u) \<Longrightarrow> Q out"
  shows "list_all Q outs"
  using assms(1-4)
proof (induction es arbitrary: s outs)
  case (Cons e es)
  from Cons.prems(3) obtain out t rest where
    t: "step e s = (out, t)" "run_all step es t = (rest, s')" "outs = out # rest"
    by (rule run_all_Cons)
  with Cons.prems(1,2) have "inv t" "rel s t" using step_rel [of s e out t] by auto
  moreover from this have "P t" using stable Cons.prems(4) by blast
  ultimately show ?case
    using Cons.IH [OF _ _ t(2)] Cons.prems outcome [OF _ _ t(1)] by (simp add: t(3))
qed simp

end

text \<open>A key is granted only while it is unused, is used from then on, and stays used.\<close>

locale once_only = machine +
  fixes used :: "'s \<Rightarrow> 'k \<Rightarrow> bool"
    and grant :: "'o \<Rightarrow> 'k option"
  assumes used_rel: "rel s s' \<Longrightarrow> used s k \<Longrightarrow> used s' k"
    and grant_fresh: "inv s \<Longrightarrow> admissible e \<Longrightarrow> step e s = (out, s') \<Longrightarrow> grant out = Some k \<Longrightarrow>
      \<not> used s k \<and> used s' k"
begin

lemma grants_bounded:
  assumes "inv s" "list_all admissible es" "run_all step es s = (outs, s')"
  shows "length (filter (\<lambda>out. grant out = Some k) outs) \<le> (if used s k then 0 else 1)"
  using assms
proof (induction es arbitrary: s outs)
  case (Cons e es)
  from Cons.prems(3) obtain out t rest where
    t: "step e s = (out, t)" "run_all step es t = (rest, s')" "outs = out # rest"
    by (rule run_all_Cons)
  with Cons.prems(1,2) have it: "inv t" "rel s t" using step_rel [of s e out t] by auto
  then have "length (filter (\<lambda>out. grant out = Some k) rest) \<le> (if used t k then 0 else 1)"
    using Cons.IH [OF _ _ t(2)] Cons.prems(2) by simp
  moreover have "used s k \<Longrightarrow> used t k" using used_rel it(2) by blast
  moreover have "grant out = Some k \<Longrightarrow> \<not> used s k \<and> used t k"
    using grant_fresh [OF Cons.prems(1) _ t(1)] Cons.prems(2) by simp
  ultimately show ?case by (auto simp: t(3) split: if_splits)
qed simp

end

text \<open>A number is issued for a key above every number that the state covers, and is covered from
  then on.\<close>

locale issuer = machine +
  fixes covered :: "'s \<Rightarrow> 'k \<Rightarrow> int \<Rightarrow> bool"
    and issued :: "'o \<Rightarrow> ('k \<times> int) option"
  assumes covered_rel: "rel s s' \<Longrightarrow> covered s k n \<Longrightarrow> covered s' k n"
    and issued_above: "inv s \<Longrightarrow> admissible e \<Longrightarrow> step e s = (out, s') \<Longrightarrow> issued out = Some (k, n) \<Longrightarrow>
      covered s' k n \<and> (\<forall>m. covered s k m \<longrightarrow> m < n)"
begin

lemma issued_increasing:
  assumes "inv s" "list_all admissible es" "run_all step es s = (outs, s')"
  shows "sorted_wrt (<) (numbers issued k outs) \<and> (\<forall>n \<in> set (numbers issued k outs). \<forall>m. covered s k m \<longrightarrow> m < n)"
  using assms
proof (induction es arbitrary: s outs)
  case Nil
  then show ?case by simp
next
  case (Cons e es)
  from Cons.prems(3) obtain out t rest where
    t: "step e s = (out, t)" "run_all step es t = (rest, s')" "outs = out # rest"
    by (rule run_all_Cons)
  with Cons.prems(1,2) have it: "inv t" "rel s t" using step_rel [of s e out t] by auto
  then have IH: "sorted_wrt (<) (numbers issued k rest)" "\<forall>n \<in> set (numbers issued k rest). \<forall>m. covered t k m \<longrightarrow> m < n"
    using Cons.IH [OF _ _ t(2)] Cons.prems(2) by auto
  have later: "covered s k m \<Longrightarrow> covered t k m" for m using covered_rel it(2) by blast
  have now: "covered t k n \<and> (\<forall>m. covered s k m \<longrightarrow> m < n)" if "issued out = Some (k, n)" for n
    using issued_above [OF Cons.prems(1) _ t(1) that] Cons.prems(2) by simp
  show ?case
    using IH later now by (auto simp: t(3) split: option.splits)
qed

end

end
