(* ===== verification/Repository_Runs.thy ===== *)
theory Repository_Runs
  imports Reservation_Laws Machines
begin

text \<open>
  A device: one database and the processes that hold a repository object on it. A process makes
  any call with any arguments, the database engine answers as it likes, and a process may end and
  start again at any time, with no reservation of its own.
\<close>

section \<open>Calls and runs\<close>

datatype repo_call =
    RegisterActiveSignerScope engine SignerBinding js_number
  | ReservePreparedAction engine AtomicActionReservationInput
  | MarkSignerRetiring engine SignerBinding js_number
  | RetireSignerScope engine SignerBinding RetiredSignerTombstoneInput
  | MarkSubmissionStarted engine string js_number
  | TransitionAction engine string journal_state "journal_result_class option" js_number
  | ClaimReconciliationLease engine string string js_number "js_number option"
  | ClaimNextReconciliation engine string js_number "js_number option"
  | RenewReconciliationLease engine ReconciliationLease js_number "js_number option"
  | ReleaseReconciliationLease engine ReconciliationLease js_number
  | ScheduleReconciliation engine string string js_number js_number
  | RecoverAfterRestart engine js_number

datatype outcome =
    Refused js_error
  | Done
  | Reserved PreparedActionRecord
  | Permitted PreparedActionRecord TransportWritePermit

definition report :: "('a \<Rightarrow> outcome) \<Rightarrow> 'a result \<times> journal_repo \<Rightarrow> outcome \<times> journal_repo" where
  "report f = (\<lambda>(res, repo). (case res of Inl e \<Rightarrow> Refused e | Inr x \<Rightarrow> f x, repo))"

fun run_call :: "repo_env \<Rightarrow> repo_call \<Rightarrow> journal_repo \<Rightarrow> outcome \<times> journal_repo" where
  "run_call env (RegisterActiveSignerScope e b t) repo =
     report (\<lambda>_. Done) (registerActiveSignerScope env e b t repo)"
| "run_call env (ReservePreparedAction e inp) repo = report Reserved (reservePreparedAction env e inp repo)"
| "run_call env (MarkSignerRetiring e b t) repo = report (\<lambda>_. Done) (markSignerRetiring env e b t repo)"
| "run_call env (RetireSignerScope e b t) repo = report (\<lambda>_. Done) (retireSignerScope env e b t repo)"
| "run_call env (MarkSubmissionStarted e i t) repo =
     report (\<lambda>(r, p). Permitted r p) (markSubmissionStarted e i t repo)"
| "run_call env (TransitionAction e i s c t) repo = report (\<lambda>_. Done) (transitionAction e i s c t repo)"
| "run_call env (ClaimReconciliationLease e i w t n) repo =
     report (\<lambda>_. Done) (claimReconciliationLease e i w t n repo)"
| "run_call env (ClaimNextReconciliation e w t n) repo =
     report (\<lambda>_. Done) (claimNextReconciliation e w t n repo)"
| "run_call env (RenewReconciliationLease e l t n) repo =
     report (\<lambda>_. Done) (renewReconciliationLease e l t n repo)"
| "run_call env (ReleaseReconciliationLease e l t) repo =
     report (\<lambda>_. Done) (releaseReconciliationLease e l t repo)"
| "run_call env (ScheduleReconciliation e i w t n) repo =
     report (\<lambda>_. Done) (scheduleReconciliation e i w t n repo)"
| "run_call env (RecoverAfterRestart e t) repo = report (\<lambda>_. Done) (recoverAfterRestart e t repo)"

record device =
  dev_database :: journal_db
  dev_processes :: "nat \<Rightarrow> (string \<times> int) list"

datatype event = Call nat repo_call | Restart nat

fun device_step :: "repo_env \<Rightarrow> event \<Rightarrow> device \<Rightarrow> outcome \<times> device" where
  "device_step env (Call p c) v =
     (case run_call env c \<lparr>database = dev_database v, preparedInThisProcess = dev_processes v p\<rparr> of
        (out, repo) \<Rightarrow>
          (out, v\<lparr>dev_database := database repo,
                 dev_processes := (dev_processes v)(p := preparedInThisProcess repo)\<rparr>))"
| "device_step env (Restart p) v = (Done, v\<lparr>dev_processes := (dev_processes v)(p := [])\<rparr>)"

text \<open>
  A lease that would end after the largest safe integer, some 285 thousand years from the epoch,
  makes its row unreadable; the laws below leave such calls out.
\<close>

definition lease_in_range :: "js_number \<Rightarrow> bool" where
  "lease_in_range now \<longleftrightarrow> (case now of IntN t \<Rightarrow> t \<le> max_safe_integer - 60000 | _ \<Rightarrow> True)"

fun call_in_range :: "repo_call \<Rightarrow> bool" where
  "call_in_range (ClaimReconciliationLease e i w t n) = lease_in_range t"
| "call_in_range (RenewReconciliationLease e l t n) = lease_in_range t"
| "call_in_range _ = True"

fun event_in_range :: "event \<Rightarrow> bool" where
  "event_in_range (Call p c) = call_in_range c"
| "event_in_range (Restart p) = True"

section \<open>Every call is lawful\<close>

lemma report_Refused: "(\<And>x. f x \<noteq> Refused e) \<Longrightarrow> report f m = (Refused e, repo) \<Longrightarrow> m = (Inl e, repo)"
  by (auto simp: report_def split: prod.splits sum.splits)

lemma report_snd: "report f m = (out, repo) \<Longrightarrow> snd m = repo"
  by (auto simp: report_def split: prod.splits)

lemma immediate_lawful:
  assumes "db_ok (database repo)" "immediate e operation repo = (res, repo')"
    and "\<And>x d. operation (database repo) = Inr (x, d) \<Longrightarrow> lawful (database repo) d"
  shows "lawful (database repo) (database repo')"
  using immediate_database [OF assms(2)] assms(1,3) lawful_refl by auto

lemma lease_terms_Inr:
  "lease_terms w t n = Inr (now, e) \<longleftrightarrow>
     (\<exists>m. assertLeaseOwner w = Inr () \<and> t = IntN now \<and> safe_int now \<and> 0 \<le> now \<and>
       leaseDuration n = Inr m \<and> e = plus_ms now m)"
  by (auto simp: lease_terms_def result_simps)

lemma leaseDuration_Inr: "leaseDuration n = Inr m \<Longrightarrow> 1000 \<le> m \<and> m \<le> 60000"
  by (auto simp: leaseDuration_def split: option.splits js_number.splits if_splits)

lemma lease_expiry_safe:
  assumes "lease_terms w t n = Inr (now, e)" "lease_in_range t"
  shows "safe_int e" "0 \<le> e" "now < e" "e \<le> now + 60000"
  using assms leaseDuration_Inr [of n]
  by (auto simp: lease_terms_Inr lease_in_range_def plus_ms_def Let_def safe_int_def max_safe_integer_def)

lemmas immediate_lawfulE = immediate_lawful [rotated]

lemma registerActiveSignerScope_lawful:
  "registerActiveSignerScope env e b t repo = (res, repo') \<Longrightarrow> db_ok (database repo) \<Longrightarrow>
     lawful (database repo) (database repo')"
  by (auto simp: registerActiveSignerScope_def split: sum.splits prod.splits
      elim!: immediate_lawfulE intro: lawful_refl registerScope_lawful)

lemma reservePreparedAction_lawful:
  "reservePreparedAction env e inp repo = (res, repo') \<Longrightarrow> db_ok (database repo) \<Longrightarrow>
     lawful (database repo) (database repo')"
  by (auto simp: reservePreparedAction_def split: sum.splits prod.splits elim!: immediate_lawfulE intro: lawful_refl reserve_lawful)

lemma markSignerRetiring_lawful:
  "markSignerRetiring env e b t repo = (res, repo') \<Longrightarrow> db_ok (database repo) \<Longrightarrow>
     lawful (database repo) (database repo')"
  by (auto simp: markSignerRetiring_def split: sum.splits prod.splits elim!: immediate_lawfulE intro: lawful_refl markRetiring_lawful)

lemma retireSignerScope_lawful:
  "retireSignerScope env e b t repo = (res, repo') \<Longrightarrow> db_ok (database repo) \<Longrightarrow>
     lawful (database repo) (database repo')"
  by (auto simp: retireSignerScope_def split: sum.splits prod.splits elim!: immediate_lawfulE intro: lawful_refl retire_lawful)

lemma markSubmissionStarted_lawful:
  assumes "markSubmissionStarted e i t repo = (res, repo')" "db_ok (database repo)"
  shows "lawful (database repo) (database repo')"
proof -
  have "lawful (database repo) (database q)"
    if "immediate e (startSubmission i now) p = (x, q)" "database p = database repo" for now p x q
    using immediate_lawful [OF _ that(1)] startSubmission_lawful assms(2) that(2) by auto
  moreover have "lawful (database repo) (database repo)" using assms(2) by (rule lawful_refl)
  ultimately show ?thesis
    using assms(1)
    by (auto simp: markSubmissionStarted_def Let_def split: sum.splits prod.splits option.splits if_splits)
qed

lemma transitionAction_lawful:
  "transitionAction e i s c t repo = (res, repo') \<Longrightarrow> db_ok (database repo) \<Longrightarrow>
     lawful (database repo) (database repo')"
  by (auto simp: transitionAction_def split: sum.splits prod.splits elim!: immediate_lawfulE intro: lawful_refl moveAction_lawful)

lemma claimReconciliationLease_lawful:
  assumes "claimReconciliationLease e i w t n repo = (res, repo')" "db_ok (database repo)" "lease_in_range t"
  shows "lawful (database repo) (database repo')"
proof (cases "lease_terms w t n")
  case (Inr p)
  then obtain now x where p: "lease_terms w t n = Inr (now, x)" by (cases p) simp
  have "assertLeaseOwner w = Inr ()" "safe_int now" "0 \<le> now" using p by (auto simp: lease_terms_Inr)
  with assms p lease_expiry_safe [OF p assms(3)] show ?thesis
    by (auto simp: claimReconciliationLease_def elim!: immediate_lawfulE intro: lawful_refl claimLease_lawful)
qed (use assms in \<open>auto simp: claimReconciliationLease_def intro: lawful_refl\<close>)

lemma claimNextReconciliation_lawful:
  "claimNextReconciliation e w t n repo = (res, repo') \<Longrightarrow> db_ok (database repo) \<Longrightarrow>
     lawful (database repo) (database repo')"
  by (auto simp: claimNextReconciliation_def split: sum.splits prod.splits elim!: immediate_lawfulE intro: lawful_refl claimNext_lawful)

lemma statement_lawful:
  assumes "db_ok (database repo)" "statement e run repo = (res, repo')"
    and "\<And>x d. run (database repo) = Inr (x, d) \<Longrightarrow> lawful (database repo) d"
  shows "lawful (database repo) (database repo')"
  using assms statement_Inl [of e run repo] statement_Inr [of e run repo] lawful_refl
  by (cases res) auto

lemma renewReconciliationLease_lawful:
  assumes "renewReconciliationLease e l t n repo = (res, repo')" "db_ok (database repo)" "lease_in_range t"
  shows "lawful (database repo) (database repo')"
proof (cases "lease_terms (l_owner l) t n")
  case (Inr p)
  then obtain now x where p: "lease_terms (l_owner l) t n = Inr (now, x)" by (cases p) simp
  have "assertLeaseOwner (l_owner l) = Inr ()" "safe_int now" "0 \<le> now" using p by (auto simp: lease_terms_Inr)
  with assms p lease_expiry_safe [OF p assms(3)] show ?thesis
    by (auto simp: renewReconciliationLease_def split: prod.splits sum.splits
        elim!: statement_lawful [rotated] intro: renew_lawful)
qed (use assms in \<open>auto simp: renewReconciliationLease_def intro: lawful_refl\<close>)

lemma releaseReconciliationLease_lawful:
  "releaseReconciliationLease e l t repo = (res, repo') \<Longrightarrow> db_ok (database repo) \<Longrightarrow>
     lawful (database repo) (database repo')"
  by (auto simp: releaseReconciliationLease_def result_simps split: prod.splits sum.splits
      elim!: statement_lawful [rotated] intro: release_lawful lawful_refl)

lemma scheduleReconciliation_lawful:
  "scheduleReconciliation e i w t n repo = (res, repo') \<Longrightarrow> db_ok (database repo) \<Longrightarrow>
     lawful (database repo) (database repo')"
  by (auto simp: scheduleReconciliation_def split: sum.splits prod.splits elim!: immediate_lawfulE intro: lawful_refl scheduleAction_lawful)

lemma recoverAfterRestart_lawful:
  assumes "recoverAfterRestart e t repo = (res, repo')" "db_ok (database repo)"
  shows "lawful (database repo) (database repo')"
proof -
  have "lawful (database repo) (database q)"
    if "immediate e (recoverAll now) (repo\<lparr>preparedInThisProcess := []\<rparr>) = (x, q)" for now x q
    using immediate_lawful [OF _ that] recoverAll_lawful assms(2) by auto
  then show ?thesis
    using assms by (auto simp: recoverAfterRestart_def split: sum.splits intro: lawful_refl)
qed

lemmas operations_lawful = registerActiveSignerScope_lawful reservePreparedAction_lawful
  markSignerRetiring_lawful retireSignerScope_lawful markSubmissionStarted_lawful
  transitionAction_lawful claimReconciliationLease_lawful claimNextReconciliation_lawful
  renewReconciliationLease_lawful releaseReconciliationLease_lawful scheduleReconciliation_lawful
  recoverAfterRestart_lawful

lemma run_call_lawful:
  assumes "run_call env c repo = (out, repo')" "db_ok (database repo)" "call_in_range c"
  shows "lawful (database repo) (database repo')"
  using assms
  by (cases c) (auto simp: report_def split: prod.splits dest: operations_lawful)

lemma device_step_lawful:
  assumes "db_ok (dev_database v)" "event_in_range ev" "device_step env ev v = (out, v')"
  shows "db_ok (dev_database v') \<and> lawful (dev_database v) (dev_database v')"
proof (cases ev)
  case (Call p c)
  with assms run_call_lawful [of env c "\<lparr>database = dev_database v, preparedInThisProcess = dev_processes v p\<rparr>"]
  show ?thesis by (auto simp: lawful_def split: prod.splits)
qed (use assms in \<open>auto simp: lawful_refl\<close>)

end
