(* ===== verification/Sample_Device.thy ===== *)
theory Sample_Device
  imports Repository_Runs
begin

text \<open>
  A concrete device: a fresh database on which a signer is registered and one cancellation is
  reserved, submitted and recovered. The properties of the repository are applied to it.
\<close>

definition sample_env :: repo_env where
  "sample_env = \<lparr>env_caps = ACTION_CAPABILITIES, env_getAddress = (\<lambda>s. if length s = 42 then Some s else None),
     env_digest = (\<lambda>s. ''0x'' @ replicate 64 (CHR ''0'')), env_authority = (\<lambda>_ _. None)\<rparr>"

definition sample_account :: string where "sample_account = ''0x00000000000000000000000000000000000000aa''"
definition sample_agent :: string where "sample_agent = ''0x00000000000000000000000000000000000000bb''"
definition sample_journal_id :: string where "sample_journal_id = ''jrnl_00000000000000000000000000000001''"
definition sample_hash :: string where "sample_hash = ''0x'' @ replicate 64 (CHR ''1'')"

definition sample_binding :: SignerBinding where
  "sample_binding = \<lparr>sb_network = Testnet, sb_masterAccount = sample_account, sb_targetAccount = sample_account,
     sb_agentAddress = sample_agent, sb_generation = IntN 1\<rparr>"

definition sample_reservation :: AtomicActionReservationInput where
  "sample_reservation = \<lparr>ri_binding = sample_binding, ri_capturedContextEpoch = IntN 3,
     ri_clock = \<lparr>wallTimeMs = IntN 1000, monotonicTimeMs = IntN 50, serverTimeMs = IntN 990,
       serverSampledAtMonotonicMs = IntN 40, lastObservedWallMs = None\<rparr>,
     ri_preparedAction = \<lparr>pa_journalId = sample_journal_id,
       pa_correlationId = ''act_00000000000000000000000000000001'', pa_intent = JObj [],
       pa_intentDigest = sample_hash, pa_equivalenceFingerprint = sample_hash,
       pa_fields = \<lparr>pf_actionType = CancelType, pf_intentVersion = IntN 1, pf_cloid = None,
         pf_assetId = Some (IntN 7), pf_targetOid = Some (IntN 42), pf_reconciliationKey = ''cancel:7:42''\<rparr>\<rparr>\<rparr>"

definition sample_events :: "event list" where
  "sample_events = [
     Call 0 (RegisterActiveSignerScope Commits sample_binding (IntN 900)),
     Call 0 (ReservePreparedAction Commits sample_reservation),
     Call 1 (MarkSubmissionStarted Commits sample_journal_id (IntN 1010)),
     Call 0 (MarkSubmissionStarted Commits sample_journal_id (IntN 1010)),
     Call 0 (MarkSubmissionStarted Commits sample_journal_id (IntN 1020)),
     Restart 0,
     Call 0 (RecoverAfterRestart Commits (IntN 2000))]"

definition sample_device :: device where
  "sample_device = \<lparr>dev_database = \<lparr>signer_scopes = [], retired_signer_tombstones = [], action_journal = []\<rparr>,
     dev_processes = (\<lambda>_. [])\<rparr>"


definition sample_row :: PreparedActionRecord where
  "sample_row = prepared_row sample_binding 3 \<lparr>nonce = 1000, expiresAfterMs = 16000, observedWallMs = 1000\<rparr>
     (ri_preparedAction sample_reservation)"

definition sample_scope :: "int option \<Rightarrow> SignerScopeRow" where
  "sample_scope n = \<lparr>s_network = Testnet, s_agent_address = sample_agent, s_master_account = sample_account,
     s_target_account = sample_account, s_signer_generation = 1, s_status = ActiveScope,
     s_last_issued_nonce = n, s_last_observed_wall_ms = n, s_activated_at = 900,
     s_updated_at = (case n of None \<Rightarrow> 900 | Some t \<Rightarrow> t)\<rparr>"

definition empty_repo :: journal_repo where
  "empty_repo = \<lparr>database = dev_database sample_device, preparedInThisProcess = []\<rparr>"

definition registered_repo :: journal_repo where
  "registered_repo = \<lparr>database = \<lparr>signer_scopes = [sample_scope None], retired_signer_tombstones = [],
     action_journal = []\<rparr>, preparedInThisProcess = []\<rparr>"

definition reserved_repo :: journal_repo where
  "reserved_repo = \<lparr>database = \<lparr>signer_scopes = [sample_scope (Some 1000)], retired_signer_tombstones = [],
     action_journal = [sample_row]\<rparr>, preparedInThisProcess = [(sample_journal_id, 16000)]\<rparr>"

lemma sample_binding_ok:
  "normalizeSignerBinding (env_getAddress sample_env) sample_binding = Inr sample_binding"
  "assertTradingActionCapability (env_caps sample_env) Testnet = Inr ()"
  "agentAddressFingerprint (env_digest sample_env) sample_agent = Inr (''0x'' @ replicate 64 (CHR ''0''))"
  by code_simp+

lemma sample_binding_fields [simp]:
  "sb_network sample_binding = Testnet" "sb_agentAddress sample_binding = sample_agent"
  "sb_masterAccount sample_binding = sample_account" "sb_targetAccount sample_binding = sample_account"
  "sb_generation sample_binding = IntN 1"
  by (simp_all add: sample_binding_def)

lemma sample_intent_ok: "serializeSecretFreeIntent (JObj []) = Inr ''{}''"
  by (simp add: serializeSecretFreeIntent_def validateValue.simps utf8_length_def MAX_INTENT_BYTES_def)

lemma sample_identifiers:
  "JOURNAL_ID_PATTERN sample_journal_id" "CORRELATION_ID_PATTERN ''act_00000000000000000000000000000001''"
  "LOWERCASE_HASH_PATTERN sample_hash"
  "assertPreparedActionFields (pa_fields (ri_preparedAction sample_reservation)) = Inr ()"
  by code_simp+

lemma sample_row_stored: "assertStoredRecord sample_row = Inr ()"
  by code_simp

lemma sample_row_valid: "valid_row sample_row"
  using sample_row_stored sample_intent_ok
  by (simp add: valid_row_def fromRow_Inr assertSecretFreeIntent_def sample_row_def prepared_row_def
      sample_reservation_def Let_def)

lemma sample_registers:
  "run_call sample_env (RegisterActiveSignerScope Commits sample_binding (IntN 900)) empty_repo =
     (Done, registered_repo)"
  by (simp add: report_def registerActiveSignerScope_def sample_binding_ok registerScope_def assertTime_def
      empty_repo_def sample_device_def registered_repo_def immediate_def scope_def insert_scope_def
      sample_scope_def scopes_constraints_def known_network_def safe_int_def max_safe_integer_def)

lemma sample_reservation_fields [simp]:
  "ri_binding sample_reservation = sample_binding" "ri_capturedContextEpoch sample_reservation = IntN 3"
  "pa_journalId (ri_preparedAction sample_reservation) = sample_journal_id"
  "pa_correlationId (ri_preparedAction sample_reservation) = ''act_00000000000000000000000000000001''"
  "pa_intent (ri_preparedAction sample_reservation) = JObj []"
  "pa_intentDigest (ri_preparedAction sample_reservation) = sample_hash"
  "pa_equivalenceFingerprint (ri_preparedAction sample_reservation) = sample_hash"
  by (simp_all add: sample_reservation_def)

lemma sample_reservation_ok: "assertReservationIdentifiers (ri_preparedAction sample_reservation) = Inr ''{}''"
  using sample_identifiers sample_intent_ok by (simp add: assertReservationIdentifiers_def)

lemma sample_allocates:
  "allocateNonce ((ri_clock sample_reservation)\<lparr>lastObservedWallMs := None\<rparr>) None =
     Inr \<lparr>nonce = 1000, expiresAfterMs = 16000, observedWallMs = 1000\<rparr>"
  by code_simp

lemma sample_row_fields [simp]:
  "r_journalId sample_row = sample_journal_id" "r_network sample_row = Testnet"
  "r_agentAddress sample_row = sample_agent" "r_nonce sample_row = 1000" "r_state sample_row = Prepared"
  "r_submissionStartedAt sample_row = None" "r_expiresAfterMs sample_row = 16000"
  "r_preparedAt sample_row = 1000" "r_signerGeneration sample_row = 1" "r_capturedContextEpoch sample_row = 3"
  "r_intentVersion sample_row = 1" "r_leaseOwner sample_row = None"
  by (simp_all add: sample_row_def prepared_row_def sample_reservation_def)

lemma sample_constraints:
  "actions_constraints [sample_scope n] [sample_row]"
  "actions_constraints [sample_scope n]
     [sample_row\<lparr>r_state := SubmissionStarted, r_submissionStartedAt := Some t, r_updatedAt := t\<rparr>]"
  by (simp_all add: actions_constraints_def sample_scope_def known_network_def)

lemma sample_same_binding:
  "assertSignerBinding (env_getAddress sample_env) sample_binding (bindingFromScope (sample_scope None)) = Inr ()"
  by code_simp

lemma sample_reserve:
  "reserve sample_env sample_binding 3 (ri_clock sample_reservation) (ri_preparedAction sample_reservation)
     (database registered_repo) = Inr (sample_row, database reserved_repo)"
proof -
  have s: "s_status (sample_scope None) = ActiveScope" "s_last_issued_nonce (sample_scope None) = None"
    "s_last_observed_wall_ms (sample_scope None) = None" "scope_is Testnet sample_agent (sample_scope None)"
    "s_signer_generation (sample_scope None) = 1"
    by (simp_all add: sample_scope_def scope_is_def)
  have u: "(sample_scope None)\<lparr>s_last_issued_nonce := Some 1000, s_last_observed_wall_ms := Some 1000,
      s_updated_at := 1000\<rparr> = sample_scope (Some 1000)" by (simp add: sample_scope_def)
  have c: "scopes_constraints [sample_scope (Some 1000)]"
    by (simp add: scopes_constraints_def sample_scope_def known_network_def)
  have r: "requireAction sample_journal_id \<lparr>signer_scopes = [sample_scope (Some 1000)],
      retired_signer_tombstones = [], action_journal = [sample_row]\<rparr> = Inr sample_row"
    by (simp add: requireAction_Inr sample_row_valid row_of_def)
  show ?thesis
    unfolding reserve_def registered_repo_def reserved_repo_def
    by (simp add: scope_def s sample_same_binding sample_allocates update_scopes_def u c insert_action_def
        sample_row_def [symmetric] sample_constraints r)
qed

lemma sample_reserves:
  "run_call sample_env (ReservePreparedAction Commits sample_reservation) registered_repo =
     (Reserved sample_row, reserved_repo)"
proof -
  have "env_authority sample_env b e = None" for b e by (simp add: sample_env_def)
  then have "reservePreparedAction sample_env Commits sample_reservation registered_repo =
     (Inr sample_row, reserved_repo)"
    using sample_reserve
    by (simp add: reservePreparedAction_def sample_binding_ok sample_reservation_ok immediate_def
        registerCurrentProcessReservation_def safe_int_def max_safe_integer_def)
      (simp add: reserved_repo_def registered_repo_def)
  then show ?thesis by (simp add: report_def)
qed

lemma empty_ok: "db_ok (database empty_repo)"
  by (simp add: db_ok_def journal_ok_def actions_constraints_def scopes_constraints_def nonces_covered_def
      empty_repo_def sample_device_def)

lemma registered_ok: "db_ok (database registered_repo)"
  using run_call_lawful [OF sample_registers empty_ok] by (simp add: lawful_def)

lemma reserved_ok: "db_ok (database reserved_repo)"
  using run_call_lawful [OF sample_reserves registered_ok] by (simp add: lawful_def)

section \<open>A submitted and leased action\<close>

definition submitted_row :: PreparedActionRecord where
  "submitted_row = sample_row\<lparr>r_state := SubmissionStarted, r_submissionStartedAt := Some 1010, r_updatedAt := 1010\<rparr>"

definition submitted_repo :: journal_repo where
  "submitted_repo = \<lparr>database = (database reserved_repo)\<lparr>action_journal := [submitted_row]\<rparr>,
     preparedInThisProcess = []\<rparr>"

lemma submitted_row_stored: "assertStoredRecord submitted_row = Inr ()"
  by code_simp

lemma submitted_row_valid: "valid_row submitted_row"
  using submitted_row_stored sample_row_valid
  by (simp add: valid_row_def fromRow_Inr submitted_row_def)

lemma sample_submits:
  "run_call sample_env (MarkSubmissionStarted Commits sample_journal_id (IntN 1010)) reserved_repo =
     (Permitted submitted_row (createTransportWritePermit sample_journal_id), submitted_repo)"
proof -
  let ?d = "database reserved_repo"
  have r: "requireAction sample_journal_id ?d = Inr sample_row"
    by (simp add: requireAction_Inr row_of_def reserved_repo_def sample_row_valid)
  have r': "requireAction sample_journal_id (?d\<lparr>action_journal := [submitted_row]\<rparr>) = Inr submitted_row"
    using submitted_row_valid by (simp add: requireAction_Inr row_of_def) (simp add: submitted_row_def)
  have u: "update_actions (\<lambda>r. r_journalId r = sample_journal_id \<and> r_state r = Prepared \<and> r_submissionStartedAt r = None)
      (\<lambda>r. r\<lparr>r_state := SubmissionStarted, r_submissionStartedAt := Some 1010, r_updatedAt := 1010\<rparr>) ?d =
      Inr (1, ?d\<lparr>action_journal := [submitted_row]\<rparr>)"
    using sample_constraints(2)
    by (simp add: update_actions_def reserved_repo_def submitted_row_def)
  have "startSubmission sample_journal_id 1010 ?d = Inr (submitted_row, ?d\<lparr>action_journal := [submitted_row]\<rparr>)"
    using r' by (simp add: startSubmission_def r u mayMarkSubmissionStarted_def)
  then have "markSubmissionStarted Commits sample_journal_id (IntN 1010) reserved_repo =
      (Inr (submitted_row, createTransportWritePermit sample_journal_id), submitted_repo)"
    by (simp add: markSubmissionStarted_def assertTime_def safe_int_def max_safe_integer_def immediate_def
        Let_def forget_def submitted_repo_def) (simp add: reserved_repo_def immediate_def forget_def)
  then show ?thesis by (simp add: report_def)
qed

lemma submitted_ok: "db_ok (database submitted_repo)"
  using run_call_lawful [OF sample_submits reserved_ok] by (simp add: lawful_def)

definition leased_row :: PreparedActionRecord where
  "leased_row = with_lease ''owner-0001'' 31020 1020 submitted_row"

definition leased_repo :: journal_repo where
  "leased_repo = \<lparr>database = (database reserved_repo)\<lparr>action_journal := [leased_row]\<rparr>,
     preparedInThisProcess = []\<rparr>"

lemma sample_leases:
  "run_call sample_env (ClaimReconciliationLease Commits sample_journal_id ''owner-0001'' (IntN 1020) None)
     submitted_repo = (Done, leased_repo)"
proof -
  have terms: "lease_terms ''owner-0001'' (IntN 1020) None = Inr (1020, 31020)"
    by code_simp
  have "actions_constraints [sample_scope n] [leased_row]" for n
    by (simp add: actions_constraints_def sample_scope_def known_network_def leased_row_def with_lease_def
        submitted_row_def)
  then have "claimLease sample_journal_id ''owner-0001'' 1020 31020 (database submitted_repo) =
      Inr (Some \<lparr>l_journalId = sample_journal_id, l_owner = ''owner-0001'', l_expiresAt = 31020\<rparr>,
        database leased_repo)"
    by (simp add: claimLease_def update_actions_def submitted_repo_def leased_repo_def reserved_repo_def
        leased_row_def [symmetric] reconcilable_def lease_free_def) (simp add: submitted_row_def leased_row_def)
  then show ?thesis
    by (simp add: report_def claimReconciliationLease_def terms immediate_def)
      (simp add: submitted_repo_def leased_repo_def)
qed

lemma leased_ok: "db_ok (database leased_repo)"
  using run_call_lawful [OF sample_leases submitted_ok]
  by (simp add: lawful_def lease_in_range_def max_safe_integer_def)

end
