(* ===== verification/Recovery.thy ===== *)
theory Recovery
  imports Sample_Device
begin

text \<open>
  Recovery after a restart, as one map over the journal: what was only prepared is abandoned, what
  was submitted is unresolved, everything else stays. The loop of transactions in
  \<^verbatim>\<open>recoverAfterRestart\<close> computes this map and never fails on a well-formed database.
\<close>

definition recovered :: "int \<Rightarrow> PreparedActionRecord \<Rightarrow> PreparedActionRecord" where
  "recovered now r =
     (case r_state r of
        Prepared \<Rightarrow> r\<lparr>r_state := AbandonedBeforeSubmission, r_lastResultClass := None, r_updatedAt := now\<rparr>
      | SubmissionStarted \<Rightarrow>
          r\<lparr>r_state := Unresolved, r_lastResultClass := Some UnresolvedResult, r_updatedAt := now\<rparr>
      | _ \<Rightarrow> r)"

lemma recovered_simps [simp]:
  "frozen (recovered now r) = frozen r" "r_journalId (recovered now r) = r_journalId r"
  "r_state (recovered now r) \<noteq> Prepared" "r_state (recovered now r) \<noteq> SubmissionStarted"
  by (auto simp: recovered_def split: journal_state.splits)

lemma recovered_terminal: "isTerminalJournalState (r_state r) \<Longrightarrow> recovered now r = r"
  by (auto simp: recovered_def isTerminalJournalState_def TERMINAL_JOURNAL_STATES_def
      split: journal_state.splits)

lemma recovered_decision:
  assumes "valid_row r"
  shows "case restartRecoveryDecision r of
      Unchanged \<Rightarrow> recovered now r = r
    | TransitionTo s \<Rightarrow> recovered now r = r\<lparr>r_state := s,
        r_lastResultClass := (if s = Unresolved then Some UnresolvedResult else None), r_updatedAt := now\<rparr>"
  using valid_row_marker(1) [OF assms]
  by (auto simp: restartRecoveryDecision_def recovered_def not_submitted_def isTerminalJournalState_def
      TERMINAL_JOURNAL_STATES_def split: journal_state.splits)

lemma recovered_valid:
  assumes "valid_row r" "safe_int now" "0 \<le> now"
  shows "valid_row (recovered now r)"
proof -
  have f: "record_fields (recovered now r) = record_fields r"
    by (auto simp: recovered_def split: journal_state.splits)
  have "r_leaseOwner r = None" if "r_state r = Prepared"
    using valid_row_marker(2) [OF assms(1)] that by (cases "r_leaseOwner r") (auto simp: reconcilable_def)
  with assms f show ?thesis
    by (auto simp: valid_row_def fromRow_Inr assertStoredRecord_def recovered_def result_simps
        not_submitted_def reconcilable_def JOURNAL_STATES_def split: journal_state.splits option.splits)
qed

section \<open>Constraints under a map\<close>

lemma frozen_keys:
  assumes "frozen r = frozen q"
  shows "r_journalId r = r_journalId q" "r_correlationId r = r_correlationId q" "r_network r = r_network q"
    "r_agentAddress r = r_agentAddress q" "r_nonce r = r_nonce q" "cloid_key r = cloid_key q"
    "fingerprint_key r = fingerprint_key q" "r_signerGeneration r = r_signerGeneration q"
    "r_capturedContextEpoch r = r_capturedContextEpoch q" "r_intentVersion r = r_intentVersion q"
    "r_cloid r = r_cloid q"
proof -
  note f = arg_cong [OF assms]
  show "r_journalId r = r_journalId q" using f [of r_journalId] by (simp add: frozen_def)
  show "r_correlationId r = r_correlationId q" using f [of r_correlationId] by (simp add: frozen_def)
  show "r_network r = r_network q" using f [of r_network] by (simp add: frozen_def)
  show "r_agentAddress r = r_agentAddress q" using f [of r_agentAddress] by (simp add: frozen_def)
  show "r_nonce r = r_nonce q" using f [of r_nonce] by (simp add: frozen_def)
  show "cloid_key r = cloid_key q" using f [of cloid_key] by (simp add: frozen_def cloid_key_def)
  show "fingerprint_key r = fingerprint_key q"
    using f [of fingerprint_key] by (simp add: frozen_def fingerprint_key_def)
  show "r_signerGeneration r = r_signerGeneration q" using f [of r_signerGeneration] by (simp add: frozen_def)
  show "r_capturedContextEpoch r = r_capturedContextEpoch q"
    using f [of r_capturedContextEpoch] by (simp add: frozen_def)
  show "r_intentVersion r = r_intentVersion q" using f [of r_intentVersion] by (simp add: frozen_def)
  show "r_cloid r = r_cloid q" using f [of r_cloid] by (simp add: frozen_def)
qed

lemma distinct_filter_map:
  assumes "distinct (map k (filter P xs))" "\<And>x. k (f x) = k x" "\<And>x. P (f x) \<Longrightarrow> P x"
  shows "distinct (map k (filter P (map f xs)))"
  using assms(1)
proof (induction xs)
  case (Cons x xs)
  have "k y \<notin> k ` {z \<in> f ` set xs. P z}" if "k y \<notin> k ` {z \<in> set xs. P z}" for y
    using that assms(2,3) by (auto simp: image_iff) metis
  with Cons assms(2,3) show ?case by (auto split: if_splits)
qed simp

text \<open>An update that keeps what no operation changes, and revives no terminal action, cannot violate
  a constraint.\<close>

lemma constraints_map:
  assumes c: "actions_constraints ss rs" and f: "\<And>r. frozen (f r) = frozen r"
    and t: "\<And>r. isTerminalJournalState (r_state r) \<Longrightarrow> isTerminalJournalState (r_state (f r))"
  shows "actions_constraints ss (map f rs)"
proof -
  note k = frozen_keys [OF f]
  have "map g (map f rs) = map g rs" if "\<And>r. g (f r) = g r" for g :: "PreparedActionRecord \<Rightarrow> 'a"
    using that by simp
  moreover have "distinct (map cloid_key (filter (\<lambda>r. r_cloid r \<noteq> None) (map f rs)))"
    using c by (intro distinct_filter_map) (simp_all add: actions_constraints_def k)
  moreover have "distinct (map fingerprint_key (filter (\<lambda>r. \<not> isTerminalJournalState (r_state r)) (map f rs)))"
    using c t by (intro distinct_filter_map) (auto simp: actions_constraints_def k)
  ultimately show ?thesis
    using c unfolding actions_constraints_def by (simp add: k list_all_iff comp_def)
qed

section \<open>The loop\<close>

definition recover_where :: "int \<Rightarrow> string set \<Rightarrow> journal_db \<Rightarrow> journal_db" where
  "recover_where now ids d = d\<lparr>action_journal :=
     map (\<lambda>r. if r_journalId r \<in> ids then recovered now r else r) (action_journal d)\<rparr>"

lemma recover_where_ok:
  assumes "journal_ok d" "safe_int now" "0 \<le> now"
  shows "journal_ok (recover_where now ids d)"
  using assms constraints_map [of "signer_scopes d" "action_journal d"
      "\<lambda>r. if r_journalId r \<in> ids then recovered now r else r"]
  by (auto simp: journal_ok_def recover_where_def recovered_terminal recovered_valid)

lemma recover_where_insert:
  assumes "i \<notin> ids"
  shows "recover_where now ids (recover_where now {i} d) = recover_where now (insert i ids) d"
  using assms by (simp add: recover_where_def comp_def)

lemma recover_where_none:
  assumes "journal_ok d" "row_of d i = Some r" "recovered now r = r"
  shows "recover_where now {i} d = d"
proof -
  have "map (\<lambda>q. if r_journalId q \<in> {i} then recovered now q else q) (action_journal d) = action_journal d"
    using assms row_unique [OF _ assms(2)] by (intro map_idI) (auto simp: journal_ok_def)
  then show ?thesis by (simp add: recover_where_def)
qed

lemma row_of_member:
  assumes "journal_ok d" "r \<in> set (action_journal d)"
  shows "row_of d (r_journalId r) = Some r"
proof -
  obtain q where "row_of d (r_journalId r) = Some q"
    using assms(2) by (cases "row_of d (r_journalId r)") (auto simp: row_of_def find_None_iff)
  moreover from row_unique [OF _ this assms(2)] assms(1) have "r = q" by (auto simp: journal_ok_def)
  ultimately show ?thesis by simp
qed

lemma recoverRow_total:
  assumes ok: "journal_ok d" and r: "r \<in> set (action_journal d)" and now: "safe_int now" "0 \<le> now"
  shows "\<exists>c. recoverRow now r d = Inr (c, recover_where now {r_journalId r} d)"
proof -
  have v: "valid_row r" using ok r by (simp add: journal_ok_def)
  note row = row_of_member [OF ok r] and dec = recovered_decision [OF v, of now]
  have from_row: "fromRow r = Inr r" using v by (simp add: valid_row_def)
  show ?thesis
  proof (cases "restartRecoveryDecision r")
    case Unchanged
    with dec from_row recover_where_none [OF ok row] show ?thesis by (simp add: recoverRow_def)
  next
    case (TransitionTo s)
    let ?p = "\<lambda>q. r_journalId q = r_journalId r \<and> r_state q = r_state r"
    let ?f = "\<lambda>q. q\<lparr>r_state := s, r_lastResultClass := (if s = Unresolved then Some UnresolvedResult else None),
        r_updatedAt := now\<rparr>"
    let ?d = "recover_where now {r_journalId r} d"
    have same: "q = r" if "q \<in> set (action_journal d)" "r_journalId q = r_journalId r" for q
      using row_unique [OF _ row that] ok by (auto simp: journal_ok_def)
    have m: "map (\<lambda>q. if ?p q then ?f q else q) (action_journal d) = action_journal ?d"
    proof -
      have "recovered now r = ?f r" using dec by (simp add: TransitionTo)
      with same show ?thesis by (fastforce simp: recover_where_def dest: same)
    qed
    have "filter ?p (action_journal d) = [r]"
    proof -
      have "distinct (map r_journalId (action_journal d))"
        using ok by (simp add: journal_ok_def actions_constraints_def)
      from distinct_filter_key [OF this r] same show ?thesis by (metis (mono_tags, lifting) filter_cong)
    qed
    moreover have ok': "journal_ok ?d" by (rule recover_where_ok [OF ok now])
    moreover have "d\<lparr>action_journal := action_journal ?d\<rparr> = ?d" by (simp add: recover_where_def)
    ultimately have u: "update_actions ?p ?f d = Inr (1, ?d)"
      using m by (simp add: update_actions_def Let_def journal_ok_def) (simp add: recover_where_def)
    have mem: "recovered now r \<in> set (action_journal ?d)" using r by (force simp: recover_where_def)
    have "requireAction (r_journalId r) ?d = Inr (recovered now r)"
      using row_of_member [OF ok' mem] ok' mem by (simp add: requireAction_Inr journal_ok_def)
    with u from_row TransitionTo show ?thesis by (auto simp: recoverRow_def)
  qed
qed

lemma recoverRows_total:
  assumes "journal_ok d" "set rows \<subseteq> set (action_journal d)" "distinct (map r_journalId rows)"
    "safe_int now" "0 \<le> now"
  shows "\<exists>c. recoverRows now rows d = Inr (c, recover_where now (r_journalId ` set rows) d)"
  using assms
proof (induction rows arbitrary: d)
  case Nil
  then show ?case by (simp add: recover_where_def)
next
  case (Cons r rows)
  let ?d = "recover_where now {r_journalId r} d"
  from Cons.prems obtain c where one: "recoverRow now r d = Inr (c, ?d)"
    using recoverRow_total [of d r now] by auto
  have "set rows \<subseteq> set (action_journal ?d)"
  proof
    fix q assume "q \<in> set rows"
    moreover from this have "r_journalId q \<in> r_journalId ` set rows" by simp
    with Cons.prems(3) have "r_journalId q \<noteq> r_journalId r" by auto
    ultimately show "q \<in> set (action_journal ?d)" using Cons.prems(2) by (force simp: recover_where_def)
  qed
  then obtain c' where "recoverRows now rows ?d = Inr (c', recover_where now (r_journalId ` set rows) ?d)"
    using Cons.IH [of ?d] Cons.prems recover_where_ok by auto
  moreover have "recover_where now (r_journalId ` set rows) ?d =
      recover_where now (r_journalId ` set (r # rows)) d"
    using recover_where_insert [of "r_journalId r" "r_journalId ` set rows"] Cons.prems(3) by simp
  ultimately show ?case using one by simp
qed

lemma distinct_sort_key: "distinct (map k (sort_key f xs)) \<longleftrightarrow> distinct (map k xs)"
proof -
  have "mset (map k (sort_key f xs)) = mset (map k xs)" by simp
  then show ?thesis by (rule mset_eq_imp_distinct_iff)
qed

lemma recoverAll_total:
  assumes "journal_ok d" "safe_int now" "0 \<le> now"
  shows "\<exists>c. recoverAll now d = Inr (c, d\<lparr>action_journal := map (recovered now) (action_journal d)\<rparr>)"
proof -
  let ?rows = "filter (\<lambda>r. r_state r = Prepared \<or> reconcilable (r_state r)) (action_journal d)"
  let ?sorted = "sort_key r_preparedAt (sort_key r_journalId ?rows)"
  have "distinct (map r_journalId ?rows)"
    using assms(1) by (simp add: journal_ok_def actions_constraints_def distinct_map_filter)
  then have "distinct (map r_journalId ?sorted)" by (simp add: distinct_sort_key)
  then obtain c where "recoverRows now ?sorted d = Inr (c, recover_where now (r_journalId ` set ?sorted) d)"
    using recoverRows_total [of d ?sorted now] assms by auto
  moreover have "recover_where now (r_journalId ` set ?sorted) d =
      d\<lparr>action_journal := map (recovered now) (action_journal d)\<rparr>"
  proof -
    have "recovered now r = r" if "r \<in> set (action_journal d)" "r_journalId r \<notin> r_journalId ` set ?rows" for r
      using that by (auto simp: recovered_def reconcilable_def image_iff split: journal_state.splits)
    then show ?thesis by (auto simp: recover_where_def intro!: map_cong)
  qed
  ultimately show ?thesis by (simp add: recoverAll_def)
qed

text \<open>
  C8. Recovery succeeds on every well-formed database at every valid time. It forgets the process's
  reservations, abandons exactly the actions that were only prepared, calls exactly those that
  were being submitted unresolved, and touches no other row.
\<close>

theorem recovery_completes:
  assumes "db_ok (database repo)" "safe_int now" "0 \<le> now"
  shows "\<exists>changed. recoverAfterRestart Commits (IntN now) repo =
     (Inr changed, \<lparr>database = (database repo)\<lparr>action_journal :=
        map (recovered now) (action_journal (database repo))\<rparr>, preparedInThisProcess = []\<rparr>)"
proof -
  obtain c where "recoverAll now (database repo) =
      Inr (c, (database repo)\<lparr>action_journal := map (recovered now) (action_journal (database repo))\<rparr>)"
    using recoverAll_total assms by (auto simp: db_ok_def)
  then show ?thesis
    using assms(2,3) by (simp add: recoverAfterRestart_def assertTime_def immediate_def not_less)
qed

theorem recovery_completes_witness:
  "\<exists>changed. recoverAfterRestart Commits (IntN 2000) reserved_repo =
     (Inr changed, \<lparr>database = (database reserved_repo)\<lparr>action_journal :=
        [sample_row\<lparr>r_state := AbandonedBeforeSubmission, r_lastResultClass := None, r_updatedAt := 2000\<rparr>]\<rparr>,
        preparedInThisProcess = []\<rparr>)"
  using recovery_completes [OF reserved_ok, of 2000]
  by (simp add: safe_int_def max_safe_integer_def reserved_repo_def recovered_def)

end
