(* ===== verification/Retirement_Chain.thy ===== *)
theory Retirement_Chain
  imports Sample_Device
begin

text \<open>
  The chain of tombstones. A verified chain is determined by its length and its last root as long
  as the hash does not collide on the texts involved, so the manifest that is kept outside the
  database fixes every tombstone: a database that was rolled back or edited does not pass the
  comparison. A retirement extends the chain by one tombstone.
\<close>

section \<open>Verified chains\<close>

abbreviation chain_of :: "journal_db \<Rightarrow> TombstoneRow list" where
  "chain_of d \<equiv> sort_key t_sequence (retired_signer_tombstones d)"

definition linked :: "(string \<Rightarrow> string) \<Rightarrow> string \<Rightarrow> nat \<Rightarrow> string \<Rightarrow> TombstoneRow \<Rightarrow> bool" where
  "linked dg epoch index prior row \<longleftrightarrow>
     t_installation_epoch row = epoch \<and> t_sequence row = int index + 1 \<and> t_prior_chain_root row = prior \<and>
     valid_tombstone (row_tombstone row) \<and> t_chain_root row = dg (canonical_tombstone (row_tombstone row))"

definition last_root :: "string \<Rightarrow> TombstoneRow list \<Rightarrow> string" where
  "last_root prior rows = (if rows = [] then prior else t_chain_root (last rows))"

lemma last_root_simps [simp]:
  "last_root p [] = p" "last_root p (rows @ [r]) = t_chain_root r"
  "last_root p (r # rows) = last_root (t_chain_root r) rows"
  by (auto simp: last_root_def)

lemma verifyRows_Cons:
  "verifyRows dg epoch (row # rows) index prior = None \<longleftrightarrow>
     linked dg epoch index prior row \<and> verifyRows dg epoch rows (index + 1) (t_chain_root row) = None"
proof (cases "createRetiredSignerTombstone dg (row_tombstone row)")
  case (Inl e)
  then have "\<not> valid_tombstone (row_tombstone row)"
    using createRetiredSignerTombstone_Inr [of dg "row_tombstone row"] by auto
  with Inl show ?thesis by (simp add: linked_def)
next
  case (Inr r)
  then have "valid_tombstone (row_tombstone row)" "ti_chainRoot r = dg (canonical_tombstone (row_tombstone row))"
    by (auto simp: createRetiredSignerTombstone_Inr RetiredSignerTombstoneInput.defs)
  with Inr show ?thesis by (auto simp: linked_def)
qed

declare verifyRows.simps(2) [simp del]

lemma verifyRows_append:
  "verifyRows dg epoch (xs @ ys) i p = None \<longleftrightarrow>
     verifyRows dg epoch xs i p = None \<and> verifyRows dg epoch ys (i + length xs) (last_root p xs) = None"
  by (induction xs arbitrary: i p) (auto simp: verifyRows_Cons add.assoc)

lemma verifyRows_snoc:
  "verifyRows dg epoch (xs @ [x]) 0 p = None \<longleftrightarrow>
     verifyRows dg epoch xs 0 p = None \<and> linked dg epoch (length xs) (last_root p xs) x"
  by (simp add: verifyRows_append verifyRows_Cons)

lemma row_of_tombstone:
  "tombstone_row (RetiredSignerTombstoneInput.extend (row_tombstone x) \<lparr>ti_chainRoot = t_chain_root x\<rparr>) = x"
  by (simp add: tombstone_row_def row_tombstone_def RetiredSignerTombstoneInput.defs)

lemma linked_inj:
  assumes "linked dg e i p x" "linked dg e' i' p' y" "t_chain_root x = t_chain_root y"
    and "inj_on dg {canonical_tombstone (row_tombstone x), canonical_tombstone (row_tombstone y)}"
  shows "x = y"
proof -
  have "canonical_tombstone (row_tombstone x) = canonical_tombstone (row_tombstone y)"
  proof (rule inj_onD [OF assms(4)])
    show "dg (canonical_tombstone (row_tombstone x)) = dg (canonical_tombstone (row_tombstone y))"
      using assms(1-3) by (simp only: linked_def)
  qed blast+
  then have eq: "row_tombstone x = row_tombstone y"
    using assms(1,2) by (intro canonical_tombstone_inj) (simp_all add: linked_def)
  have "x = tombstone_row (RetiredSignerTombstoneInput.extend (row_tombstone x) \<lparr>ti_chainRoot = t_chain_root x\<rparr>)"
    by (rule row_of_tombstone [symmetric])
  also have "\<dots> = tombstone_row (RetiredSignerTombstoneInput.extend (row_tombstone y) \<lparr>ti_chainRoot = t_chain_root y\<rparr>)"
    unfolding eq assms(3) by (rule refl)
  also have "\<dots> = y" by (rule row_of_tombstone)
  finally show ?thesis .
qed

definition chain_texts :: "TombstoneRow list \<Rightarrow> string set" where
  "chain_texts rows = (\<lambda>r. canonical_tombstone (row_tombstone r)) ` set rows"

lemma chain_determined:
  assumes "verifyRows dg e xs 0 p = None" "verifyRows dg e' ys 0 p = None" "length xs = length ys"
    "last_root p xs = last_root p ys" "inj_on dg (chain_texts xs \<union> chain_texts ys)"
  shows "xs = ys"
  using assms
proof (induction xs arbitrary: ys rule: rev_induct)
  case (snoc x xs)
  then obtain y ys' where ys: "ys = ys' @ [y]" by (cases ys rule: rev_cases) auto
  have l: "linked dg e (length xs) (last_root p xs) x" "linked dg e' (length ys') (last_root p ys') y"
    using snoc.prems(1,2) unfolding ys by (simp_all add: verifyRows_snoc)
  have "x = y"
  proof (rule linked_inj [OF l])
    show "t_chain_root x = t_chain_root y" using snoc.prems(4) by (simp add: ys)
    show "inj_on dg {canonical_tombstone (row_tombstone x), canonical_tombstone (row_tombstone y)}"
      using snoc.prems(5) by (rule inj_on_subset) (auto simp: ys chain_texts_def)
  qed
  moreover have "xs = ys'"
  proof (rule snoc.IH)
    show "last_root p xs = last_root p ys'" using l \<open>x = y\<close> by (simp add: linked_def)
    show "inj_on dg (chain_texts xs \<union> chain_texts ys')"
      using snoc.prems(5) by (rule inj_on_subset) (auto simp: ys chain_texts_def)
  qed (use snoc.prems in \<open>auto simp: ys verifyRows_snoc\<close>)
  ultimately show ?case by (simp add: ys)
qed simp

lemma verified_ends:
  assumes "verifyRows dg e rows 0 p = None" "rows \<noteq> []"
  shows "t_installation_epoch (hd rows) = e" "t_installation_epoch (last rows) = e"
    "t_sequence (last rows) = int (length rows)"
proof -
  from assms(2) obtain ys y where y: "rows = ys @ [y]" by (cases rows rule: rev_cases) auto
  then have "linked dg e (length ys) (last_root p ys) y" using assms(1) by (simp add: verifyRows_snoc)
  then show "t_installation_epoch (last rows) = e" "t_sequence (last rows) = int (length rows)"
    by (auto simp: y linked_def)
  show "t_installation_epoch (hd rows) = e"
    using assms by (cases rows) (auto simp: verifyRows_Cons linked_def)
qed

lemma verifyTombstoneChain_rows:
  "verifyTombstoneChain dg d =
     (if chain_of d = [] then Inr None
      else case verifyRows dg (t_installation_epoch (hd (chain_of d))) (chain_of d) 0 EMPTY_RETIREMENT_CHAIN_ROOT of
             Some reason \<Rightarrow> Inl reason
           | None \<Rightarrow> Inr (Some \<lparr>h_installation_epoch = t_installation_epoch (last (chain_of d)),
               h_sequence = t_sequence (last (chain_of d)), h_chain_root = t_chain_root (last (chain_of d))\<rparr>))"
  by (cases "chain_of d") (simp_all add: verifyTombstoneChain_def Let_def cong: option.case_cong)

lemma verifyTombstoneChain_Some:
  "verifyTombstoneChain dg d = Inr (Some h) \<longleftrightarrow>
     chain_of d \<noteq> [] \<and>
     verifyRows dg (h_installation_epoch h) (chain_of d) 0 EMPTY_RETIREMENT_CHAIN_ROOT = None \<and>
     h_sequence h = int (length (chain_of d)) \<and> h_chain_root h = last_root EMPTY_RETIREMENT_CHAIN_ROOT (chain_of d)"
proof -
  define rows where "rows = chain_of d"
  let ?E = EMPTY_RETIREMENT_CHAIN_ROOT
  let ?head = "\<lparr>h_installation_epoch = t_installation_epoch (last rows),
      h_sequence = t_sequence (last rows), h_chain_root = t_chain_root (last rows)\<rparr>"
  have "verifyTombstoneChain dg d = Inr (Some h) \<longleftrightarrow> rows \<noteq> [] \<and>
      verifyRows dg (t_installation_epoch (hd rows)) rows 0 ?E = None \<and> h = ?head"
    unfolding verifyTombstoneChain_rows rows_def [symmetric] by (auto split: option.splits)
  also have "\<dots> \<longleftrightarrow> rows \<noteq> [] \<and> verifyRows dg (h_installation_epoch h) rows 0 ?E = None \<and>
      h_sequence h = int (length rows) \<and> h_chain_root h = last_root ?E rows"
  proof (intro iffI; elim conjE; intro conjI)
    assume ne: "rows \<noteq> []" and v: "verifyRows dg (t_installation_epoch (hd rows)) rows 0 ?E = None"
      and h: "h = ?head"
    note ends = verified_ends [OF v ne]
    show "verifyRows dg (h_installation_epoch h) rows 0 ?E = None" using v ends by (simp add: h)
    show "h_sequence h = int (length rows)" using ends by (simp add: h)
    show "h_chain_root h = last_root ?E rows" using ne by (simp add: h last_root_def)
  next
    assume ne: "rows \<noteq> []" and v: "verifyRows dg (h_installation_epoch h) rows 0 ?E = None"
      and h: "h_sequence h = int (length rows)" "h_chain_root h = last_root ?E rows"
    note ends = verified_ends [OF v ne]
    show "verifyRows dg (t_installation_epoch (hd rows)) rows 0 ?E = None" using v ends by simp
    show "h = ?head" using ends h ne by (cases h) (simp add: last_root_def)
  qed
  finally show ?thesis unfolding rows_def .
qed

lemma verifyTombstoneChain_None: "verifyTombstoneChain dg d = Inr None \<longleftrightarrow> chain_of d = []"
  by (simp add: verifyTombstoneChain_rows split: option.splits)

lemma verified_sequence:
  assumes "verifyRows dg e rows i p = None" "k < length rows"
  shows "t_sequence (rows ! k) = int (i + k) + 1"
  using assms
proof (induction rows arbitrary: i p k)
  case (Cons r rows)
  then show ?case by (cases k) (auto simp: verifyRows_Cons linked_def)
qed simp

lemma verified_last:
  assumes "verifyRows dg e rows 0 p = None" "r \<in> set rows" "t_sequence r = int (length rows)"
  shows "r = last rows"
proof -
  from assms(2) obtain k where k: "k < length rows" "r = rows ! k" by (auto simp: in_set_conv_nth)
  with verified_sequence [OF assms(1) k(1)] assms(3) have "k = length rows - 1" by simp
  moreover have "rows \<noteq> []" using assms(2) by auto
  ultimately show ?thesis using k last_conv_nth [of rows] by simp
qed

section \<open>The manifest\<close>

abbreviation head_manifest :: "TombstoneHeadRow \<Rightarrow> RetirementManifest" where
  "head_manifest h \<equiv> \<lparr>mf_installationEpoch = h_installation_epoch h, mf_sequence = IntN (h_sequence h),
     mf_chainRoot = h_chain_root h\<rparr>"

text \<open>What a comparison that does not quarantine has found.\<close>

lemma compare_accepts:
  assumes "compareRetirementManifest dg (head_manifest h) d = c" "c = ManifestMatch \<or> c = SqliteAhead n newest"
    and "0 < h_sequence h"
  obtains (same) "verifyRows dg (h_installation_epoch h) (chain_of d) 0 EMPTY_RETIREMENT_CHAIN_ROOT = None"
    "int (length (chain_of d)) = h_sequence h" "last_root EMPTY_RETIREMENT_CHAIN_ROOT (chain_of d) = h_chain_root h"
  | (ahead) rest row where "chain_of d = rest @ [row]"
    "verifyRows dg (h_installation_epoch h) rest 0 EMPTY_RETIREMENT_CHAIN_ROOT = None"
    "int (length rest) = h_sequence h" "last_root EMPTY_RETIREMENT_CHAIN_ROOT rest = h_chain_root h"
proof (cases "verifyTombstoneChain dg d")
  case (Inl e)
  with assms show ?thesis by (auto simp: compareRetirementManifest_def split: if_splits)
next
  case (Inr head)
  let ?E = EMPTY_RETIREMENT_CHAIN_ROOT
  from assms Inr obtain g where g: "head = Some g"
    by (cases head) (auto simp: compareRetirementManifest_def split: if_splits)
  note v = Inr [unfolded g verifyTombstoneChain_Some]
  from assms Inr g have e: "h_installation_epoch g = h_installation_epoch h"
    by (auto simp: compareRetirementManifest_def split: if_splits)
  from assms Inr g e consider (same) "h_sequence g = h_sequence h" "h_chain_root g = h_chain_root h"
    | (ahead) x where "h_sequence g = h_sequence h + 1" "t_prior_chain_root x = h_chain_root h"
      "x \<in> set (retired_signer_tombstones d)" "t_sequence x = h_sequence g"
    by (auto simp: compareRetirementManifest_def find_Some_iff split: if_splits option.splits)
  then show thesis
  proof cases
    case same
    with v e show ?thesis by (intro that(1)) auto
  next
    case ahead
    obtain rest row where c: "chain_of d = rest @ [row]"
      using v by (cases "chain_of d" rule: rev_cases) auto
    have x: "x \<in> set (chain_of d)" using ahead(3) by simp
    have "x = last (chain_of d)"
      by (rule verified_last [OF _ x]) (use v ahead(4) in \<open>blast, presburger\<close>)
    then have "x = row" by (simp only: c last_snoc)
    moreover have "verifyRows dg (h_installation_epoch h) (rest @ [row]) 0 ?E = None"
      using v e c by simp
    moreover have "int (length rest + 1) = h_sequence g" using v c by (metis length_append_singleton Suc_eq_plus1)
    ultimately show ?thesis
      using ahead c by (intro that(2) [of rest row]) (auto simp: verifyRows_snoc linked_def)
  qed
qed

text \<open>
  C9. A manifest taken from a verified chain accepts another database only if that database holds the
  same tombstones, or these and one more: a rollback, a gap or an edited tombstone is
  quarantined. The hash must not collide on the tombstones of the two databases.
\<close>

theorem manifest_detects_rollback:
  assumes "verifyTombstoneChain dg d0 = Inr (Some h)"
    and "compareRetirementManifest dg \<lparr>mf_installationEpoch = h_installation_epoch h,
           mf_sequence = IntN (h_sequence h), mf_chainRoot = h_chain_root h\<rparr> d = c"
    and "c = ManifestMatch \<or> c = SqliteAhead n newest"
    and "inj_on dg (chain_texts (chain_of d0) \<union> chain_texts (chain_of d))"
  shows "\<exists>ts. chain_of d = chain_of d0 @ ts \<and> length ts \<le> 1"
proof -
  let ?E = EMPTY_RETIREMENT_CHAIN_ROOT
  note v = assms(1) [unfolded verifyTombstoneChain_Some]
  have "0 < length (chain_of d0)" using v by (metis length_greater_0_conv)
  then have pos: "0 < h_sequence h" using v by (metis of_nat_0_less_iff)
  from assms(2,3) pos show ?thesis
  proof (rule compare_accepts, goal_cases)
    case 1
    have "length (chain_of d0) = length (chain_of d)" using 1(2) v by simp
    then have "chain_of d0 = chain_of d"
      using v 1(1,3) by (intro chain_determined [OF _ 1(1) _ _ assms(4)]) auto
    then show ?case by simp
  next
    case (2 rest row)
    have "inj_on dg (chain_texts (chain_of d0) \<union> chain_texts rest)"
      using assms(4) by (rule inj_on_subset) (auto simp: chain_texts_def 2(1) simp del: set_sort)
    moreover have "length (chain_of d0) = length rest" using 2(3) v by simp
    ultimately have "chain_of d0 = rest"
      using v 2(2,4) by (intro chain_determined [OF _ 2(2)]) auto
    with 2(1) show ?case by simp
  qed
qed

section \<open>A retirement extends the chain\<close>

lemma insort_key_snoc: "k x \<le> k y \<Longrightarrow> insort_key k x (zs @ [y]) = insort_key k x zs @ [y]"
  by (induction zs) auto

lemma sort_key_snoc: "\<forall>x \<in> set xs. k x \<le> k y \<Longrightarrow> sort_key k (xs @ [y]) = sort_key k xs @ [y]"
proof (induction xs)
  case (Cons x xs)
  then show ?case by (simp add: insort_key_snoc)
qed simp

lemma created_row:
  assumes "createRetiredSignerTombstone dg t = Inr ts"
  shows "row_tombstone (tombstone_row ts) = t" "t_chain_root (tombstone_row ts) = dg (canonical_tombstone t)"
    "valid_tombstone t" "ti_chainRoot ts = dg (canonical_tombstone t)"
    "ti_installationEpoch ts = ti_installationEpoch t" "ti_sequence ts = ti_sequence t"
    "ti_priorChainRoot ts = ti_priorChainRoot t"
  using assms
  by (auto simp: createRetiredSignerTombstone_Inr valid_tombstone_def tombstone_row_def row_tombstone_def
      RetiredSignerTombstoneInput.defs)

lemma retire_chain:
  assumes "retire env b t d = Inr (ts, d')"
  shows "chain_of d' = chain_of d @ [tombstone_row ts]"
    "verifyRows (env_digest env) (ti_installationEpoch t) (chain_of d') 0 EMPTY_RETIREMENT_CHAIN_ROOT = None"
    "createRetiredSignerTombstone (env_digest env) t = Inr ts"
    "ti_sequence t = IntN (int (length (chain_of d)) + 1)"
    "ti_priorChainRoot t = last_root EMPTY_RETIREMENT_CHAIN_ROOT (chain_of d)"
    "tombstones_constraints (retired_signer_tombstones d')"
proof -
  let ?E = EMPTY_RETIREMENT_CHAIN_ROOT and ?dg = "env_digest env" and ?e = "ti_installationEpoch t"
  obtain head d1 where
    chain: "verifyTombstoneChain ?dg d = Inr head"
    and epoch: "?e = (case head of None \<Rightarrow> ?e | Some h \<Rightarrow> h_installation_epoch h)"
    and seq: "ti_sequence t = IntN ((case head of None \<Rightarrow> 0 | Some h \<Rightarrow> h_sequence h) + 1)"
    and prior: "ti_priorChainRoot t = (case head of None \<Rightarrow> ?E | Some h \<Rightarrow> h_chain_root h)"
    and ts: "createRetiredSignerTombstone ?dg t = Inr ts"
    and ins: "insert_tombstone (tombstone_row ts) d = Inr d1"
    and upd: "retired_signer_tombstones d' = retired_signer_tombstones d1"
  proof (rule retire_Inr [OF assms], goal_cases)
    case (1 sc head d1)
    show ?case by (rule 1(1) [OF 1(5-8) 1(12,13) update_scopes_Inr(5) [OF 1(14)]])
  qed
  have v: "verifyRows ?dg ?e (chain_of d) 0 ?E = None"
    "ti_sequence t = IntN (int (length (chain_of d)) + 1)" "ti_priorChainRoot t = last_root ?E (chain_of d)"
  proof (atomize (full), cases head)
    case None
    with chain seq prior show "verifyRows ?dg ?e (chain_of d) 0 ?E = None \<and>
        ti_sequence t = IntN (int (length (chain_of d)) + 1) \<and> ti_priorChainRoot t = last_root ?E (chain_of d)"
      by (simp add: verifyTombstoneChain_None)
  next
    case (Some h)
    with chain have "verifyTombstoneChain ?dg d = Inr (Some h)" by simp
    then show "verifyRows ?dg ?e (chain_of d) 0 ?E = None \<and>
        ti_sequence t = IntN (int (length (chain_of d)) + 1) \<and> ti_priorChainRoot t = last_root ?E (chain_of d)"
      using epoch seq prior unfolding verifyTombstoneChain_Some Some by simp
  qed
  note row = created_row [OF ts]
  have fields: "t_sequence (tombstone_row ts) = int (length (chain_of d)) + 1"
    "t_installation_epoch (tombstone_row ts) = ?e"
    "t_prior_chain_root (tombstone_row ts) = last_root ?E (chain_of d)"
    using v(2,3) row(5-7) by (simp_all add: tombstone_row_def)
  have le: "t_sequence r \<le> t_sequence (tombstone_row ts)" if "r \<in> set (retired_signer_tombstones d)" for r
  proof -
    from that have "r \<in> set (chain_of d)" by simp
    then obtain k where "k < length (chain_of d)" "r = chain_of d ! k" unfolding in_set_conv_nth by blast
    with verified_sequence [OF v(1)] fields(1) show ?thesis by simp
  qed
  show c: "chain_of d' = chain_of d @ [tombstone_row ts]"
    using insert_tombstone_Inr(1) [OF ins] upd le by (simp add: sort_key_snoc)
  show "verifyRows ?dg ?e (chain_of d') 0 ?E = None"
    unfolding c verifyRows_snoc using v(1) fields row(1-3) by (simp add: linked_def)
  show "tombstones_constraints (retired_signer_tombstones d')"
    using insert_tombstone_Inr [OF ins] upd by simp
  show "createRetiredSignerTombstone (env_digest env) t = Inr ts" by (rule ts)
  show "ti_sequence t = IntN (int (length (chain_of d)) + 1)" by (rule v)
  show "ti_priorChainRoot t = last_root EMPTY_RETIREMENT_CHAIN_ROOT (chain_of d)" by (rule v)
qed

lemma find_unique:
  assumes "x \<in> set xs" "P x" and only: "\<And>y. y \<in> set xs \<Longrightarrow> P y \<Longrightarrow> y = x"
  shows "find P xs = Some x"
proof (cases "find P xs")
  case None
  with assms(1,2) show ?thesis by (auto simp: find_None_iff)
next
  case (Some z)
  then have "z \<in> set xs" "P z" by (auto simp: find_Some_iff)
  with only [of z] Some show ?thesis by simp
qed

lemma retire_compare:
  assumes "retire env b t d = Inr (ts, d')" and "\<And>text. LOWERCASE_HASH_PATTERN (env_digest env text)"
  shows "compareRetirementManifest (env_digest env)
       \<lparr>mf_installationEpoch = ti_installationEpoch ts, mf_sequence = ti_sequence ts,
        mf_chainRoot = ti_chainRoot ts\<rparr> d' = ManifestMatch \<and>
     compareRetirementManifest (env_digest env)
       \<lparr>mf_installationEpoch = ti_installationEpoch ts,
        mf_sequence = IntN (int (length (retired_signer_tombstones d))),
        mf_chainRoot = ti_priorChainRoot ts\<rparr> d' =
       SqliteAhead (int (length (retired_signer_tombstones d)) + 1) (ti_chainRoot ts)"
proof -
  let ?row = "tombstone_row ts" and ?n = "length (retired_signer_tombstones d)" and ?dg = "env_digest env"
  note c = retire_chain [OF assms(1)]
  note row = created_row [OF c(3)]
  have len: "length (chain_of d') = ?n + 1" unfolding c(1) by simp
  have fields: "t_chain_root ?row = ti_chainRoot ts" "t_sequence ?row = int ?n + 1"
    "t_installation_epoch ?row = ti_installationEpoch t" "t_prior_chain_root ?row = ti_priorChainRoot t"
    using c(4) row by (simp_all add: tombstone_row_def)
  have head: "verifyTombstoneChain ?dg d' = Inr (Some \<lparr>h_installation_epoch = ti_installationEpoch t,
      h_sequence = int ?n + 1, h_chain_root = ti_chainRoot ts\<rparr>)"
    unfolding verifyTombstoneChain_Some using c(2) len fields(1) by (simp add: c(1))
  have mem: "?row \<in> set (retired_signer_tombstones d')"
    using arg_cong [OF c(1), of set] by simp
  have only: "x = ?row" if "x \<in> set (retired_signer_tombstones d')" "t_sequence x = int ?n + 1" for x
  proof -
    from that(1) have "x \<in> set (chain_of d')" by simp
    from verified_last [OF c(2) this] that(2) have "x = last (chain_of d')" unfolding len by simp
    then show ?thesis by (simp only: c(1) last_snoc)
  qed
  have find: "find (\<lambda>x. t_installation_epoch x = ti_installationEpoch t \<and> t_sequence x = int ?n + 1)
      (retired_signer_tombstones d') = Some ?row"
  proof (rule find_unique [OF mem])
    show "t_installation_epoch ?row = ti_installationEpoch t \<and> t_sequence ?row = int ?n + 1"
      using fields by blast
  qed (blast intro: only)
  have "valid_tombstone t" by (rule row)
  then have ok: "safe_int (int ?n + 1)" "16 \<le> length (ti_installationEpoch t)"
    "length (ti_installationEpoch t) \<le> 128" "LOWERCASE_HASH_PATTERN (ti_priorChainRoot t)"
    using c(4) by (auto simp: valid_tombstone_def HASH_PATTERN_def LOWERCASE_HASH_PATTERN_def)
  have safe: "safe_int (int ?n)" using ok(1) by (simp add: safe_int_def)
  have root: "LOWERCASE_HASH_PATTERN (ti_chainRoot ts)" using row(4) assms(2) by simp
  show ?thesis
    unfolding row(5-7) compareRetirementManifest_def
    using ok safe root c(4) by (simp add: head find fields not_less)
qed

text \<open>
  After a retirement the manifest of the new head matches the database, and a manifest that was
  not yet advanced is recognised as one tombstone behind. The hash must have the form of
  keccak256, 32 bytes in lower-case hex.
\<close>

theorem retirement_extends_chain:
  assumes "retire env b t d = Inr (ts, d')" and "\<And>text. LOWERCASE_HASH_PATTERN (env_digest env text)"
  shows "compareRetirementManifest (env_digest env)
       \<lparr>mf_installationEpoch = ti_installationEpoch ts, mf_sequence = ti_sequence ts,
        mf_chainRoot = ti_chainRoot ts\<rparr> d' = ManifestMatch \<and>
     compareRetirementManifest (env_digest env)
       \<lparr>mf_installationEpoch = ti_installationEpoch ts,
        mf_sequence = IntN (int (length (retired_signer_tombstones d))),
        mf_chainRoot = ti_priorChainRoot ts\<rparr> d' =
       SqliteAhead (int (length (retired_signer_tombstones d)) + 1) (ti_chainRoot ts)"
  using assms by (rule retire_compare)

section \<open>A concrete chain\<close>

definition retiring_db :: journal_db where
  "retiring_db = \<lparr>signer_scopes = [(sample_scope None)\<lparr>s_status := RetiringScope\<rparr>],
     retired_signer_tombstones = [], action_journal = []\<rparr>"

definition sample_tombstone :: RetiredSignerTombstoneInput where
  "sample_tombstone = \<lparr>ti_installationEpoch = ''installation-0001'', ti_sequence = IntN 1,
     ti_priorChainRoot = EMPTY_RETIREMENT_CHAIN_ROOT, ti_network = Testnet,
     ti_agentAddressFingerprint = ''0x'' @ replicate 64 (CHR ''0''), ti_lastIssuedNonce = IntN 0,
     ti_generation = IntN 1, ti_retiredAt = IntN 2000, ti_reason = Revoked\<rparr>"

definition created_tombstone :: RetiredSignerTombstone where
  "created_tombstone = RetiredSignerTombstoneInput.extend sample_tombstone
     \<lparr>ti_chainRoot = ''0x'' @ replicate 64 (CHR ''0'')\<rparr>"

definition retired_db :: journal_db where
  "retired_db = \<lparr>signer_scopes = [(sample_scope None)\<lparr>s_status := RetiredScope, s_updated_at := 2000\<rparr>],
     retired_signer_tombstones = [tombstone_row created_tombstone], action_journal = []\<rparr>"

lemma sample_digest: "env_digest sample_env text = ''0x'' @ replicate 64 (CHR ''0'')"
  by (simp add: sample_env_def)

lemma sample_digest_form: "LOWERCASE_HASH_PATTERN (''0x'' @ replicate 64 (CHR ''0''))"
  by code_simp

lemma sample_tombstone_creates:
  "createRetiredSignerTombstone (env_digest sample_env) sample_tombstone = Inr created_tombstone"
proof -
  have "valid_tombstone sample_tombstone"
    using sample_digest_form
    by (simp add: valid_tombstone_def sample_tombstone_def EMPTY_RETIREMENT_CHAIN_ROOT_def HASH_PATTERN_def
        LOWERCASE_HASH_PATTERN_def known_network_def known_reason_def safe_int_def max_safe_integer_def)
  then show ?thesis by (simp add: createRetiredSignerTombstone_Inr created_tombstone_def sample_digest)
qed

lemma sample_retires:
  "retire sample_env sample_binding sample_tombstone retiring_db = Inr (created_tombstone, retired_db)"
proof -
  let ?s = "(sample_scope None)\<lparr>s_status := RetiringScope\<rparr>"
  have s: "scope_is Testnet sample_agent ?s" "scope Testnet sample_agent retiring_db = Some ?s"
    "s_status ?s = RetiringScope" "s_last_issued_nonce ?s = None"
    by (simp_all add: retiring_db_def scope_def scope_is_def sample_scope_def)
  have b: "assertSignerBinding (env_getAddress sample_env) sample_binding (bindingFromScope ?s) = Inr ()"
    using sample_same_binding by (simp add: bindingFromScope_def)
  have v: "verifyTombstoneChain (env_digest sample_env) retiring_db = Inr None"
    by (simp add: verifyTombstoneChain_None retiring_db_def)
  have c: "tombstones_constraints [tombstone_row created_tombstone]"
    by (simp add: tombstones_constraints_def tombstone_row_def created_tombstone_def sample_tombstone_def
        RetiredSignerTombstoneInput.defs known_network_def)
  have sc: "scopes_constraints [(sample_scope None)\<lparr>s_status := RetiredScope, s_updated_at := 2000\<rparr>]"
    by (simp add: scopes_constraints_def sample_scope_def known_network_def)
  have t: "int_of_number (ti_retiredAt created_tombstone) = 2000"
    by (simp add: created_tombstone_def sample_tombstone_def RetiredSignerTombstoneInput.defs)
  show ?thesis
    unfolding retire_def
    using sample_tombstone_creates sc
    by (simp add: s b v sample_binding_ok(3) insert_tombstone_def update_scopes_def c t)
      (simp add: sample_tombstone_def retiring_db_def retired_db_def c sc s t EMPTY_RETIREMENT_CHAIN_ROOT_def)
qed

theorem retirement_extends_chain_witness:
  "compareRetirementManifest (env_digest sample_env)
     \<lparr>mf_installationEpoch = ti_installationEpoch created_tombstone, mf_sequence = IntN 0,
      mf_chainRoot = ti_priorChainRoot created_tombstone\<rparr> retired_db =
     SqliteAhead 1 (ti_chainRoot created_tombstone)"
  using retirement_extends_chain [OF sample_retires] sample_digest_form
  by (simp add: sample_digest retiring_db_def)

theorem manifest_detects_rollback_witness:
  "\<exists>ts. chain_of (retired_db\<lparr>signer_scopes := []\<rparr>) = chain_of retired_db @ ts \<and> length ts \<le> 1"
proof -
  let ?h = "\<lparr>h_installation_epoch = ti_installationEpoch sample_tombstone, h_sequence = 1,
      h_chain_root = ti_chainRoot created_tombstone\<rparr>"
  note c = retire_chain [OF sample_retires] and row = created_row [OF sample_tombstone_creates]
  have one: "chain_of retired_db = [tombstone_row created_tombstone]" by (simp add: retired_db_def)
  have v: "verifyTombstoneChain (env_digest sample_env) retired_db = Inr (Some ?h)"
    unfolding verifyTombstoneChain_Some using c(2) row by (simp add: one tombstone_row_def retired_db_def)
  have m: "compareRetirementManifest (env_digest sample_env)
      \<lparr>mf_installationEpoch = h_installation_epoch ?h, mf_sequence = IntN (h_sequence ?h),
       mf_chainRoot = h_chain_root ?h\<rparr> retired_db = ManifestMatch"
    using retire_compare [OF sample_retires] sample_digest_form row(5,6)
    by (simp add: sample_digest sample_tombstone_def)
  have t: "retired_signer_tombstones (d\<lparr>signer_scopes := ss\<rparr>) = retired_signer_tombstones d"
    for d :: journal_db and ss by simp
  have "compareRetirementManifest dg n (retired_db\<lparr>signer_scopes := ss\<rparr>) = compareRetirementManifest dg n retired_db"
    for dg n ss unfolding compareRetirementManifest_def verifyTombstoneChain_def t by (rule refl)
  note m' = this [THEN trans, OF m]
  show ?thesis
    by (rule manifest_detects_rollback [OF v m']) (simp_all add: one chain_texts_def)
qed

end
