(* ===== verification/Exchange_Client.thy ===== *)
theory Exchange_Client
  imports Encoding Redaction
begin

text \<open>
  The exchange client: \<^verbatim>\<open>packages/hyperliquid/src/actions/exchange-client.ts\<close>. A signed
  request is checked, sent once, and the response is classified; whatever is not a documented
  response leaves the submission unresolved. The network is the argument \<open>fetch\<close>, which returns
  what \<^verbatim>\<open>fetch\<close> and the body reader give; \<open>aborted\<close> tells whether the timeout has
  fired by the time a failure is caught. \<^verbatim>\<open>JSON.parse\<close> and \<^verbatim>\<open>TextDecoder\<close> are
  the members of a \<open>text_lib\<close>.
\<close>

section \<open>Classifying a response\<close>

definition DEFAULT_REQUEST_TIMEOUT_MS :: int where
  "DEFAULT_REQUEST_TIMEOUT_MS = 10000"

definition MAX_REQUEST_TIMEOUT_MS :: int where
  "MAX_REQUEST_TIMEOUT_MS = 60000"

definition MAX_RESPONSE_BYTES :: nat where
  "MAX_RESPONSE_BYTES = 64 * 1024"

datatype rejection_reason = MinimumNotional | ProviderRejected

datatype uncertainty = MalformedResponse | TransportUncertain

datatype ExchangeSubmissionResult =
    SubmissionAccepted "int list"
  | SubmissionRejected rejection_reason
  | SubmissionExpired
  | SubmissionUnresolved uncertainty

definition MINIMUM_ORDER_NOTIONAL_MESSAGE :: string where
  "MINIMUM_ORDER_NOTIONAL_MESSAGE = ''Order must have minimum value of $10.''"

definition KNOWN_EXPIRED_ERRORS :: "string list" where
  "KNOWN_EXPIRED_ERRORS =
     [''Order has expired'', ''Action has expired'', ''expiresAfter timestamp has passed'']"

definition classifyError :: "js_value \<Rightarrow> ExchangeSubmissionResult" where
  "classifyError error =
     (case error of
        JStr e \<Rightarrow>
          (if length e = 0 \<or> length e > 2048 then SubmissionUnresolved MalformedResponse
           else if e \<in> set KNOWN_EXPIRED_ERRORS then SubmissionExpired
           else if e = MINIMUM_ORDER_NOTIONAL_MESSAGE then SubmissionRejected MinimumNotional
           else SubmissionRejected ProviderRejected)
      | _ \<Rightarrow> SubmissionUnresolved MalformedResponse)"

text \<open>The array of statuses of a response's data.\<close>

definition statuses_of :: "js_value \<Rightarrow> js_value list option" where
  "statuses_of value =
     (case plain_object value of
        None \<Rightarrow> None
      | Some data \<Rightarrow>
          if \<not> exactKeys data [''statuses''] then None
          else case member data ''statuses'' of JArr statuses \<Rightarrow> Some statuses | _ \<Rightarrow> None)"

definition classifyResting :: "js_value \<Rightarrow> ExchangeSubmissionResult" where
  "classifyResting value =
     (case plain_object value of
        None \<Rightarrow> SubmissionUnresolved MalformedResponse
      | Some resting \<Rightarrow>
          if \<not> exactKeys resting [''oid''] then SubmissionUnresolved MalformedResponse
          else case safe_at_least 0 (member resting ''oid'') of
                 Some oid \<Rightarrow> SubmissionAccepted [oid]
               | None \<Rightarrow> SubmissionUnresolved MalformedResponse)"

definition classifyFilled :: "js_value \<Rightarrow> ExchangeSubmissionResult" where
  "classifyFilled value =
     (case plain_object value of
        None \<Rightarrow> SubmissionUnresolved MalformedResponse
      | Some filled \<Rightarrow>
          if \<not> exactKeys filled [''totalSz'', ''avgPx'', ''oid''] then SubmissionUnresolved MalformedResponse
          else case (member filled ''totalSz'', member filled ''avgPx'', safe_at_least 0 (member filled ''oid'')) of
                 (JStr _, JStr _, Some oid) \<Rightarrow> SubmissionAccepted [oid]
               | _ \<Rightarrow> SubmissionUnresolved MalformedResponse)"

definition classifyOrderStatuses :: "js_value \<Rightarrow> ExchangeSubmissionResult" where
  "classifyOrderStatuses value =
     (case statuses_of value of
        None \<Rightarrow> SubmissionUnresolved MalformedResponse
      | Some statuses \<Rightarrow>
          if length statuses \<noteq> 1 then SubmissionUnresolved MalformedResponse
          else case plain_object (hd statuses) of
                 None \<Rightarrow> SubmissionUnresolved MalformedResponse
               | Some status \<Rightarrow>
                   if length (object_keys status) \<noteq> 1 then SubmissionUnresolved MalformedResponse
                   else if hasOwn status ''error'' then classifyError (member status ''error'')
                   else if hasOwn status ''resting'' then classifyResting (member status ''resting'')
                   else if hasOwn status ''filled'' then classifyFilled (member status ''filled'')
                   else SubmissionUnresolved MalformedResponse)"

text \<open>The loop over the statuses of a cancellation; \<open>sawError\<close> is its flag.\<close>

fun classifyCancels :: "bool \<Rightarrow> js_value list \<Rightarrow> ExchangeSubmissionResult" where
  "classifyCancels sawError [] = (if sawError then SubmissionRejected ProviderRejected else SubmissionAccepted [])"
| "classifyCancels sawError (raw # rest) =
     (if raw = JStr ''success'' then classifyCancels sawError rest
      else case plain_object raw of
             None \<Rightarrow> SubmissionUnresolved MalformedResponse
           | Some status \<Rightarrow>
               if \<not> exactKeys status [''error''] then SubmissionUnresolved MalformedResponse
               else case classifyError (member status ''error'') of
                      SubmissionExpired \<Rightarrow> SubmissionExpired
                    | SubmissionRejected _ \<Rightarrow> classifyCancels True rest
                    | _ \<Rightarrow> SubmissionUnresolved MalformedResponse)"

definition classifyCancelStatuses :: "js_value \<Rightarrow> ExchangeSubmissionResult" where
  "classifyCancelStatuses value =
     (case statuses_of value of
        None \<Rightarrow> SubmissionUnresolved MalformedResponse
      | Some statuses \<Rightarrow>
          if length statuses = 0 \<or> length statuses > MAX_BULK_CANCELS then SubmissionUnresolved MalformedResponse
          else classifyCancels False statuses)"

definition classifyExchangeResponse :: "js_value \<Rightarrow> ExchangeSubmissionResult" where
  "classifyExchangeResponse value =
     (case plain_object value of
        None \<Rightarrow> SubmissionUnresolved MalformedResponse
      | Some outer \<Rightarrow>
          if \<not> exactKeys outer [''status'', ''response''] then SubmissionUnresolved MalformedResponse
          else if member outer ''status'' = JStr ''err'' then classifyError (member outer ''response'')
          else if member outer ''status'' \<noteq> JStr ''ok'' then SubmissionUnresolved MalformedResponse
          else case plain_object (member outer ''response'') of
                 None \<Rightarrow> SubmissionUnresolved MalformedResponse
               | Some response \<Rightarrow>
                   (case member response ''type'' of
                      JStr kind \<Rightarrow>
                        if kind = ''default'' \<and> exactKeys response [''type''] then SubmissionAccepted []
                        else if \<not> exactKeys response [''type'', ''data''] then SubmissionUnresolved MalformedResponse
                        else if kind = ''order'' then classifyOrderStatuses (member response ''data'')
                        else if kind = ''cancel'' then classifyCancelStatuses (member response ''data'')
                        else SubmissionUnresolved MalformedResponse
                    | _ \<Rightarrow> SubmissionUnresolved MalformedResponse))"

section \<open>Checking a request\<close>

text \<open>
  A request with the keys of the object it comes from; \<open>rq_plain\<close> is false when its prototype is
  not that of a plain object. A vault address may be absent, null or a string.
\<close>

record SignedExchangeRequest =
  rq_plain :: bool
  rq_keys :: "string list"
  rq_action :: js_value
  rq_nonce :: js_number
  rq_signature :: js_value
  rq_vaultAddress :: "string option option"
  rq_expiresAfter :: js_number

definition request_vault :: "SignedExchangeRequest \<Rightarrow> string option" where
  "request_vault request = Option.bind (rq_vaultAddress request) id"

definition canonical_component :: "js_value \<Rightarrow> bool" where
  "canonical_component value =
     (case value of JStr s \<Rightarrow> prefixed ''0x'' is_lower_hex 64 s | _ \<Rightarrow> False)"

definition canonical_signature :: "js_value \<Rightarrow> bool" where
  "canonical_signature value =
     (case plain_object value of
        None \<Rightarrow> False
      | Some signature \<Rightarrow>
          exactKeys signature [''r'', ''s'', ''v''] \<and>
          canonical_component (member signature ''r'') \<and> canonical_component (member signature ''s'') \<and>
          (member signature ''v'' = JNum (IntN 27) \<or> member signature ''v'' = JNum (IntN 28)))"

fun is_object :: "js_value \<Rightarrow> bool" where
  "is_object (JArr _) = True"
| "is_object (JObj _) = True"
| "is_object JExotic = True"
| "is_object _ = False"

definition assertSignedRequest :: "codec_lib \<Rightarrow> SignedExchangeRequest \<Rightarrow> unit result" where
  "assertSignedRequest lib request =
     bindE (throw_if
       (\<not> rq_plain request \<or>
        (let expected =
           (if rq_vaultAddress request = None then [''action'', ''nonce'', ''signature'', ''expiresAfter'']
            else [''action'', ''nonce'', ''signature'', ''vaultAddress'', ''expiresAfter'']) in
         length (rq_keys request) \<noteq> length expected \<or>
         \<not> list_all (\<lambda>key. key \<in> set (rq_keys request)) expected))
       (HyperliquidValidationError ''exchange.request'' ''unexpected signed request fields'')) (\<lambda>_.
     bindE (throw_if
       (\<not> isSafeInteger (rq_nonce request) \<or> js_less (rq_nonce request) (IntN 0) \<or>
        \<not> isSafeInteger (rq_expiresAfter request) \<or> \<not> js_less (rq_nonce request) (rq_expiresAfter request))
       (HyperliquidValidationError ''exchange.request'' ''nonce and expiry are invalid'')) (\<lambda>_.
     bindE (throw_if (\<not> is_object (rq_action request))
       (HyperliquidValidationError ''exchange.action'' ''action is missing'')) (\<lambda>_.
     bindE (throw_if (\<not> canonical_signature (rq_signature request))
       (HyperliquidValidationError ''exchange.signature'' ''expected canonical signature components'')) (\<lambda>_.
     bindE (encodeL1Action lib
       \<lparr>l1_action = rq_action request, l1_nonce = rq_nonce request,
        l1_vaultAddress = request_vault request, l1_expiresAfter = Some (rq_expiresAfter request)\<rparr>) (\<lambda>_.
     Inr ())))))"

section \<open>Reading a response\<close>

datatype body_read = Chunk bytes | ReadFails

datatype response_body = Stream "body_read list" | WholeText "string option"

record response =
  rs_ok :: bool
  rs_contentLength :: "string option"
  rs_body :: response_body

record text_lib =
  json_parse :: "string \<Rightarrow> js_value option"
  decode_utf8 :: "bytes \<Rightarrow> string"

definition too_large :: js_error where
  "too_large = Err ''exchange response exceeds the byte limit''"

text \<open>The reading loop: the chunks of the stream, as long as their total stays within the limit.\<close>

fun readChunks :: "nat \<Rightarrow> body_read list \<Rightarrow> bytes list \<Rightarrow> bytes list result" where
  "readChunks totalBytes [] chunks = Inr chunks"
| "readChunks totalBytes (ReadFails # reads) chunks = Inl (Err ''read failed'')"
| "readChunks totalBytes (Chunk value # reads) chunks =
     (if totalBytes + length value > MAX_RESPONSE_BYTES then Inl too_large
      else readChunks (totalBytes + length value) reads (chunks @ [value]))"

definition parse_text :: "text_lib \<Rightarrow> string \<Rightarrow> js_value result" where
  "parse_text lib text =
     (case json_parse lib text of Some v \<Rightarrow> Inr v | None \<Rightarrow> Inl (Err ''SyntaxError''))"

definition readBoundedJson :: "text_lib \<Rightarrow> response \<Rightarrow> js_value result" where
  "readBoundedJson lib response =
     bindE (throw_if
       (case rs_contentLength response of
          None \<Rightarrow> False
        | Some declaredLength \<Rightarrow>
            \<not> (declaredLength \<noteq> [] \<and> list_all is_digit declaredLength) \<or>
            digits_val declaredLength > MAX_RESPONSE_BYTES) too_large) (\<lambda>_.
     case rs_body response of
       WholeText None \<Rightarrow> Inl (Err ''read failed'')
     | WholeText (Some text) \<Rightarrow>
         bindE (throw_if (utf8_length text > MAX_RESPONSE_BYTES) too_large) (\<lambda>_. parse_text lib text)
     | Stream reads \<Rightarrow>
         bindE (readChunks 0 reads []) (\<lambda>chunks. parse_text lib (decode_utf8 lib (concat chunks))))"

section \<open>Submitting\<close>

record ExchangeClient =
  xc_network :: network
  xc_endpoint :: string

definition createExchangeClient :: "network \<Rightarrow> js_number option \<Rightarrow> ExchangeClient result" where
  "createExchangeClient n timeoutMs =
     (case HYPERLIQUID_NETWORK_ORIGINS n of
        None \<Rightarrow> Inl (TypeErr ''undefined'')
      | Some origins \<Rightarrow>
          let timeout = (case timeoutMs of Some t \<Rightarrow> t | None \<Rightarrow> IntN DEFAULT_REQUEST_TIMEOUT_MS) in
          if \<not> isSafeInteger timeout \<or> js_less timeout (IntN 1) \<or> js_less (IntN MAX_REQUEST_TIMEOUT_MS) timeout
          then invalid ''exchange.timeoutMs'' ''expected whole milliseconds between 1 and 60000''
          else Inr \<lparr>xc_network = n, xc_endpoint = exchange origins\<rparr>)"

text \<open>What \<^verbatim>\<open>fetch\<close> gives: a rejection, or a response.\<close>

datatype fetch_outcome = FetchRejects | Responds response

record sent_request =
  to_endpoint :: string
  body_text :: string

definition request_body :: "SignedExchangeRequest \<Rightarrow> js_value" where
  "request_body request =
     JObj ([(''action'', rq_action request), (''nonce'', JNum (rq_nonce request)),
            (''signature'', rq_signature request), (''expiresAfter'', JNum (rq_expiresAfter request))] @
           (case request_vault request of None \<Rightarrow> [] | Some vault \<Rightarrow> [(''vaultAddress'', JStr vault)]))"

text \<open>The result of a submission, and the requests that were sent for it.\<close>

definition submit ::
    "capabilities \<Rightarrow> codec_lib \<Rightarrow> text_lib \<Rightarrow> ExchangeClient \<Rightarrow> (sent_request \<Rightarrow> fetch_outcome) \<Rightarrow> bool \<Rightarrow>
     SignedExchangeRequest \<Rightarrow> ExchangeSubmissionResult result \<times> sent_request list" where
  "submit caps lib text client fetch aborted request =
     (case bindE (assertExchangeTransportCapability caps (xc_network client)) (\<lambda>_.
             assertSignedRequest lib request) of
        Inl e \<Rightarrow> (Inl e, [])
      | Inr _ \<Rightarrow>
          let sent = \<lparr>to_endpoint = xc_endpoint client, body_text = stringify (request_body request)\<rparr> in
          (Inr (case fetch sent of
                  FetchRejects \<Rightarrow> SubmissionUnresolved TransportUncertain
                | Responds response \<Rightarrow>
                    if \<not> rs_ok response then SubmissionUnresolved TransportUncertain
                    else case readBoundedJson text response of
                           Inr value \<Rightarrow> classifyExchangeResponse value
                         | Inl _ \<Rightarrow> SubmissionUnresolved (if aborted then TransportUncertain else MalformedResponse)),
           [sent]))"

end
