(* ===== verification/Exchange_Properties.thy ===== *)
theory Exchange_Properties
  imports Exchange_Client
begin

text \<open>
  What the exchange client promises: a submission counts as accepted exactly on the documented
  responses, a request leaves the device only when it was checked and then only once, and
  whatever goes wrong after that leaves the submission unresolved.
\<close>

section \<open>Objects with given members\<close>

text \<open>The value is a plain object with exactly these members, in any order.\<close>

definition object_of :: "(string \<times> js_value) list \<Rightarrow> js_value \<Rightarrow> bool" where
  "object_of members value \<longleftrightarrow> (\<exists>obj. value = JObj obj \<and> mset obj = mset members)"

lemma exactKeys_distinct:
  assumes "exactKeys obj ks" "distinct ks"
  shows "distinct (map fst obj) \<and> set (map fst obj) = set ks"
proof -
  have sub: "set ks \<subseteq> set (map fst obj)" and len: "length (map fst obj) = length ks"
    using assms(1) by (auto simp: exactKeys_def hasOwn_def object_keys_def list_all_iff)
  have eq: "set (map fst obj) = set ks"
  proof (rule card_subset_eq [symmetric])
    show "card (set ks) = card (set (map fst obj))"
      using card_mono [OF _ sub] card_length [of "map fst obj"] len distinct_card [OF assms(2)] by simp
  qed (use sub in auto)
  moreover have "card (set (map fst obj)) = length (map fst obj)"
    using distinct_card [OF assms(2)] len by (simp only: eq)
  ultimately show ?thesis using card_distinct by blast
qed

lemma members_of_keys:
  assumes "distinct (map fst obj)" "set (map fst obj) = set ks" "distinct ks"
  shows "mset obj = mset (map (\<lambda>k. (k, member obj k)) ks)"
proof -
  have "(k, v) \<in> set obj \<longleftrightarrow> k \<in> set ks \<and> v = member obj k" for k v
  proof
    assume "(k, v) \<in> set obj"
    moreover from this have "map_of obj k = Some v" using assms(1) by simp
    ultimately show "k \<in> set ks \<and> v = member obj k"
      unfolding assms(2) [symmetric] by (force simp: member_def)
  next
    assume k: "k \<in> set ks \<and> v = member obj k"
    then obtain w where "(k, w) \<in> set obj" unfolding assms(2) [symmetric] by auto
    moreover from this have "member obj k = w" using assms(1) by (simp add: member_def)
    ultimately show "(k, v) \<in> set obj" using k by simp
  qed
  then have "set obj = set (map (\<lambda>k. (k, member obj k)) ks)" by auto
  moreover have "distinct obj" using assms(1) by (simp add: distinct_map)
  moreover have "distinct (map (\<lambda>k. (k, member obj k)) ks)"
    using assms(3) by (auto simp: distinct_map inj_on_def)
  ultimately show ?thesis using set_eq_iff_mset_eq_distinct by blast
qed

text \<open>A test of the keys, then of the members, is a match against an object pattern.\<close>

lemma object_of_exactKeys:
  assumes "distinct (map fst ms)"
  shows "object_of ms value \<longleftrightarrow>
     (\<exists>obj. plain_object value = Some obj \<and> exactKeys obj (map fst ms) \<and>
        list_all (\<lambda>(k, v). member obj k = v) ms)"
proof
  assume "object_of ms value"
  then obtain obj where obj: "value = JObj obj" "mset obj = mset ms" by (auto simp: object_of_def)
  have eq: "set obj = set ms" using obj(2) by (rule mset_eq_setD)
  have mem: "member obj = member ms" using member_perm [OF assms obj(2) [symmetric]] by (rule sym)
  have "member ms k = v" if "(k, v) \<in> set ms" for k v
    using that assms by (simp add: member_def)
  then have "list_all (\<lambda>(k, v). member obj k = v) ms" unfolding mem by (auto simp: list_all_iff)
  moreover have "length obj = length ms" using obj(2) by (rule mset_eq_length)
  moreover have "list_all (hasOwn obj) (map fst ms)"
    using eq by (auto simp: list_all_iff hasOwn_def object_keys_def)
  ultimately show "\<exists>obj. plain_object value = Some obj \<and> exactKeys obj (map fst ms) \<and>
      list_all (\<lambda>(k, v). member obj k = v) ms"
    unfolding obj(1) by (simp add: exactKeys_def object_keys_def)
next
  assume "\<exists>obj. plain_object value = Some obj \<and> exactKeys obj (map fst ms) \<and>
      list_all (\<lambda>(k, v). member obj k = v) ms"
  then obtain obj where obj: "value = JObj obj" "exactKeys obj (map fst ms)"
    and ms: "list_all (\<lambda>(k, v). member obj k = v) ms" by auto
  have "map (\<lambda>k. (k, member obj k)) (map fst ms) = ms"
    using ms by (induction ms) (auto split: prod.splits)
  moreover have "mset obj = mset (map (\<lambda>k. (k, member obj k)) (map fst ms))"
    using exactKeys_distinct [OF obj(2) assms] assms by (intro members_of_keys) auto
  ultimately have "mset obj = mset ms" by (simp only:)
  with obj(1) show "object_of ms value" by (auto simp: object_of_def)
qed

section \<open>The documented responses\<close>

inductive accepted_order :: "js_value \<Rightarrow> int \<Rightarrow> bool" where
  resting: "object_of [(''resting'', r)] status \<Longrightarrow> object_of [(''oid'', JNum (IntN oid))] r \<Longrightarrow>
     safe_int oid \<Longrightarrow> 0 \<le> oid \<Longrightarrow> accepted_order status oid"
| filled: "object_of [(''filled'', r)] status \<Longrightarrow>
     object_of [(''totalSz'', JStr sz), (''avgPx'', JStr px), (''oid'', JNum (IntN oid))] r \<Longrightarrow>
     safe_int oid \<Longrightarrow> 0 \<le> oid \<Longrightarrow> accepted_order status oid"

inductive accepted_response :: "js_value \<Rightarrow> int list \<Rightarrow> bool" where
  plain: "object_of [(''status'', JStr ''ok''), (''response'', r)] value \<Longrightarrow>
     object_of [(''type'', JStr ''default'')] r \<Longrightarrow> accepted_response value []"
| order: "object_of [(''status'', JStr ''ok''), (''response'', r)] value \<Longrightarrow>
     object_of [(''type'', JStr ''order''), (''data'', d)] r \<Longrightarrow>
     object_of [(''statuses'', JArr [status])] d \<Longrightarrow> accepted_order status oid \<Longrightarrow>
     accepted_response value [oid]"
| cancels: "object_of [(''status'', JStr ''ok''), (''response'', r)] value \<Longrightarrow>
     object_of [(''type'', JStr ''cancel''), (''data'', d)] r \<Longrightarrow>
     object_of [(''statuses'', JArr (replicate n (JStr ''success'')))] d \<Longrightarrow> 0 < n \<Longrightarrow> n \<le> 100 \<Longrightarrow>
     accepted_response value []"

lemma classifyError_not_accepted [simp]: "classifyError e \<noteq> SubmissionAccepted oids"
  by (simp add: classifyError_def split: js_value.splits)

lemma statuses_of_Some: "statuses_of d = Some ss \<longleftrightarrow> object_of [(''statuses'', JArr ss)] d"
  by (auto simp: statuses_of_def object_of_exactKeys split: option.splits js_value.splits)

lemma classifyResting_accepted:
  "classifyResting r = SubmissionAccepted oids \<longleftrightarrow>
     (\<exists>oid. oids = [oid] \<and> object_of [(''oid'', JNum (IntN oid))] r \<and> safe_int oid \<and> 0 \<le> oid)"
  by (auto simp: classifyResting_def object_of_exactKeys split: option.splits)

lemma classifyFilled_accepted:
  "classifyFilled r = SubmissionAccepted oids \<longleftrightarrow>
     (\<exists>oid sz px. oids = [oid] \<and> safe_int oid \<and> 0 \<le> oid \<and>
        object_of [(''totalSz'', JStr sz), (''avgPx'', JStr px), (''oid'', JNum (IntN oid))] r)"
  by (auto simp: classifyFilled_def object_of_exactKeys split: option.splits js_value.splits)

lemma one_key:
  assumes "length (object_keys status) = 1" "hasOwn status k"
  shows "object_of [(k, v)] (JObj status) \<longleftrightarrow> v = member status k"
  using assms by (auto simp: object_of_exactKeys exactKeys_def)

lemma one_key_only:
  assumes "length (object_keys status) = 1" "hasOwn status k" "k' \<noteq> k"
  shows "\<not> hasOwn status k'"
  using assms by (cases status) (auto simp: hasOwn_def object_keys_def)

lemma classifyOrderStatuses_accepted:
  "classifyOrderStatuses d = SubmissionAccepted oids \<longleftrightarrow>
     (\<exists>status oid. object_of [(''statuses'', JArr [status])] d \<and> accepted_order status oid \<and> oids = [oid])"
  (is "?L \<longleftrightarrow> ?R")
proof
  assume ?L
  then obtain st where d: "statuses_of d = Some [JObj st]" and one: "length (object_keys st) = 1"
    and st: "(if hasOwn st ''error'' then classifyError (member st ''error'')
        else if hasOwn st ''resting'' then classifyResting (member st ''resting'')
        else if hasOwn st ''filled'' then classifyFilled (member st ''filled'')
        else SubmissionUnresolved MalformedResponse) = SubmissionAccepted oids"
    by (auto simp: classifyOrderStatuses_def length_Suc_conv split: option.splits if_splits)
  then have "\<exists>oid. accepted_order (JObj st) oid \<and> oids = [oid]"
    by (auto simp: accepted_order.simps one_key classifyResting_accepted classifyFilled_accepted split: if_splits)
  with d show ?R by (auto simp: statuses_of_Some)
next
  assume ?R
  then obtain status oid where s: "statuses_of d = Some [status]" "accepted_order status oid"
    and o: "oids = [oid]" by (auto simp: statuses_of_Some)
  moreover from s(2) obtain st where "status = JObj st" by (auto simp: object_of_def elim: accepted_order.cases)
  ultimately have d: "statuses_of d = Some [JObj st]" and a: "accepted_order (JObj st) oid" by auto
  from a show ?L
  proof cases
    case (resting r)
    then have "length (object_keys st) = 1" "hasOwn st ''resting''" "member st ''resting'' = r"
      by (auto simp: object_of_exactKeys exactKeys_def)
    moreover from this have "\<not> hasOwn st ''error''" by (intro one_key_only) auto
    moreover have "classifyResting r = SubmissionAccepted oids"
      using resting o by (simp add: classifyResting_accepted)
    ultimately show ?thesis using d by (simp add: classifyOrderStatuses_def)
  next
    case (filled r sz px)
    then have "length (object_keys st) = 1" "hasOwn st ''filled''" "member st ''filled'' = r"
      by (auto simp: object_of_exactKeys exactKeys_def)
    moreover from this have "\<not> hasOwn st ''error''" "\<not> hasOwn st ''resting''"
      using one_key_only [of st "''filled''"] by simp_all
    moreover have "classifyFilled r = SubmissionAccepted oids"
      using filled o by (auto simp: classifyFilled_accepted)
    ultimately show ?thesis using d by (simp add: classifyOrderStatuses_def)
  qed
qed

lemma classifyCancels_accepted:
  "classifyCancels e ss = SubmissionAccepted oids \<longleftrightarrow>
     \<not> e \<and> oids = [] \<and> ss = replicate (length ss) (JStr ''success'')"
proof (induction e ss rule: classifyCancels.induct)
  case (2 e raw rest)
  then show ?case
    by (cases "raw = JStr ''success''")
      (auto split: option.splits ExchangeSubmissionResult.splits)
qed auto

lemma classifyCancelStatuses_accepted:
  "classifyCancelStatuses d = SubmissionAccepted oids \<longleftrightarrow>
     (\<exists>n. object_of [(''statuses'', JArr (replicate n (JStr ''success'')))] d \<and> 0 < n \<and> n \<le> 100 \<and> oids = [])"
proof -
  have "classifyCancelStatuses d = SubmissionAccepted oids \<longleftrightarrow>
      (\<exists>ss. statuses_of d = Some ss \<and> 0 < length ss \<and> length ss \<le> 100 \<and>
         classifyCancels False ss = SubmissionAccepted oids)"
    by (auto simp: classifyCancelStatuses_def MAX_BULK_CANCELS_def split: option.splits)
  then show ?thesis unfolding classifyCancels_accepted statuses_of_Some
    by (metis length_replicate)
qed

lemma classify_accepted:
  "classifyExchangeResponse value = SubmissionAccepted oids \<longleftrightarrow>
     (\<exists>r. object_of [(''status'', JStr ''ok''), (''response'', r)] value \<and>
        (object_of [(''type'', JStr ''default'')] r \<and> oids = [] \<or>
         (\<exists>d. object_of [(''type'', JStr ''order''), (''data'', d)] r \<and>
            classifyOrderStatuses d = SubmissionAccepted oids) \<or>
         (\<exists>d. object_of [(''type'', JStr ''cancel''), (''data'', d)] r \<and>
            classifyCancelStatuses d = SubmissionAccepted oids)))"
proof -
  have keys: "\<not> exactKeys r [''type'', ''data'']" if "exactKeys r [''type'']" for r
    using that by (simp add: exactKeys_def)
  show ?thesis
    by (auto simp: classifyExchangeResponse_def object_of_exactKeys keys
        split: option.splits js_value.splits if_splits)
qed

text \<open>
  C20. A response is an acceptance exactly when it is one of the documented ones: a plain success, one
  order that rests or was filled under a valid ID, or up to one hundred successful cancellations.
  A response with any other member, status or shape is not.
\<close>

theorem only_documented_responses_are_accepted:
  "classifyExchangeResponse value = SubmissionAccepted oids \<longleftrightarrow> accepted_response value oids"
  unfolding classify_accepted classifyOrderStatuses_accepted classifyCancelStatuses_accepted
    accepted_response.simps
  by blast

section \<open>Submitting\<close>

lemma createExchangeClient_Inr:
  "createExchangeClient n t = Inr client \<longleftrightarrow>
     (\<exists>origins. HYPERLIQUID_NETWORK_ORIGINS n = Some origins \<and>
        client = \<lparr>xc_network = n, xc_endpoint = exchange origins\<rparr>) \<and>
     (t = None \<or> (\<exists>i. t = Some (IntN i) \<and> 1 \<le> i \<and> i \<le> 60000))"
  by (auto simp: createExchangeClient_def Let_def DEFAULT_REQUEST_TIMEOUT_MS_def MAX_REQUEST_TIMEOUT_MS_def
      isSafeInteger_iff safe_int_def max_safe_integer_def not_less split: option.splits if_splits)

lemma readChunks_bounded:
  assumes "readChunks t reads chunks = Inr out" "t = length (concat chunks)" "t \<le> MAX_RESPONSE_BYTES"
  shows "length (concat out) \<le> MAX_RESPONSE_BYTES \<and>
     (\<exists>more. out = chunks @ more \<and> reads = map Chunk more)"
  using assms
proof (induction t reads chunks rule: readChunks.induct)
  case (3 t v reads chunks)
  then show ?case by (auto split: if_splits)
qed auto

text \<open>The checks that a request passes before it is sent.\<close>

lemma submit_sends:
  assumes "submit caps lib text client fetch aborted request = (out, sent)"
  shows "(\<exists>result. out = Inr result) \<longleftrightarrow> sent \<noteq> []" "length sent \<le> 1"
    "sent \<noteq> [] \<Longrightarrow> assertExchangeTransportCapability caps (xc_network client) = Inr () \<and>
       assertSignedRequest lib request = Inr () \<and>
       sent = [\<lparr>to_endpoint = xc_endpoint client, body_text = stringify (request_body request)\<rparr>]"
  using assms by (auto simp: submit_def Let_def split: sum.splits)

lemma assertSignedRequest_Inr:
  assumes "assertSignedRequest lib request = Inr u"
  obtains n t encoded where "rq_nonce request = IntN n" "0 \<le> n" "rq_expiresAfter request = IntN t" "n < t"
    "canonical_signature (rq_signature request)"
    "encodeL1Action lib \<lparr>l1_action = rq_action request, l1_nonce = IntN n,
        l1_vaultAddress = request_vault request, l1_expiresAfter = Some (IntN t)\<rparr> = Inr encoded"
  using assms by (auto simp: assertSignedRequest_def isSafeInteger_iff not_less)

text \<open>
  C18. A request is sent at most once, and only after every check: the network may submit, the
  endpoint is that network's, the nonce is before the expiry, the signature is canonical and the
  action has an encoding with that nonce, vault and expiry. A request that fails a check is
  refused with nothing sent; once it is sent the submission never throws.
\<close>

theorem request_is_checked_and_sent_once:
  assumes "createExchangeClient n timeout = Inr client"
    and "submit ACTION_CAPABILITIES lib text client fetch aborted request = (out, sent)"
  shows "((\<exists>result. out = Inr result) \<longleftrightarrow> sent \<noteq> []) \<and> length sent \<le> 1 \<and>
     (\<forall>req. req \<in> set sent \<longrightarrow>
        (\<exists>capability origins encoded k t. ACTION_CAPABILITIES n = Some capability \<and> exchangeTransport capability \<and>
           HYPERLIQUID_NETWORK_ORIGINS n = Some origins \<and> to_endpoint req = exchange origins \<and>
           body_text req = stringify (request_body request) \<and>
           rq_nonce request = IntN k \<and> rq_expiresAfter request = IntN t \<and> 0 \<le> k \<and> k < t \<and>
           canonical_signature (rq_signature request) \<and>
           encodeL1Action lib \<lparr>l1_action = rq_action request, l1_nonce = IntN k,
             l1_vaultAddress = request_vault request, l1_expiresAfter = Some (IntN t)\<rparr> = Inr encoded))"
proof -
  from assms(1) obtain origins where o: "HYPERLIQUID_NETWORK_ORIGINS n = Some origins"
    "client = \<lparr>xc_network = n, xc_endpoint = exchange origins\<rparr>" by (auto simp: createExchangeClient_Inr)
  note s = submit_sends [OF assms(2)]
  {
    fix req assume "req \<in> set sent"
    then have "sent \<noteq> []" by auto
    note c = s(3) [OF this]
    from c obtain capability where cap: "ACTION_CAPABILITIES n = Some capability" "exchangeTransport capability"
      by (auto simp: o(2) assertExchangeTransport_Inr)
    from c obtain k t encoded where "rq_nonce request = IntN k" "rq_expiresAfter request = IntN t" "0 \<le> k"
      "k < t" "canonical_signature (rq_signature request)"
      "encodeL1Action lib \<lparr>l1_action = rq_action request, l1_nonce = IntN k,
         l1_vaultAddress = request_vault request, l1_expiresAfter = Some (IntN t)\<rparr> = Inr encoded"
      by (auto elim: assertSignedRequest_Inr)
    moreover have "to_endpoint req = exchange origins" "body_text req = stringify (request_body request)"
      using c \<open>req \<in> set sent\<close> by (auto simp: o(2))
    ultimately have "\<exists>capability origins encoded k t. ACTION_CAPABILITIES n = Some capability \<and>
           exchangeTransport capability \<and>
           HYPERLIQUID_NETWORK_ORIGINS n = Some origins \<and> to_endpoint req = exchange origins \<and>
           body_text req = stringify (request_body request) \<and>
           rq_nonce request = IntN k \<and> rq_expiresAfter request = IntN t \<and> 0 \<le> k \<and> k < t \<and>
           canonical_signature (rq_signature request) \<and>
           encodeL1Action lib \<lparr>l1_action = rq_action request, l1_nonce = IntN k,
             l1_vaultAddress = request_vault request, l1_expiresAfter = Some (IntN t)\<rparr> = Inr encoded"
      using cap o(1) by blast
  }
  with s(1,2) show ?thesis by blast
qed

text \<open>
  The body of a response, as far as the client reads it: within the byte limit.
\<close>

definition body_within_limit :: "response \<Rightarrow> bool" where
  "body_within_limit response =
     (case rs_body response of
        Stream reads \<Rightarrow> list_all (\<lambda>r. r \<noteq> ReadFails) reads \<and>
          sum_list (map (\<lambda>r. case r of Chunk c \<Rightarrow> length c | ReadFails \<Rightarrow> 0) reads) \<le> 65536
      | WholeText text \<Rightarrow> (case text of Some s \<Rightarrow> utf8_length s \<le> 65536 | None \<Rightarrow> False))"

lemma readBoundedJson_bounded:
  assumes "readBoundedJson lib response = Inr v"
  shows "body_within_limit response"
proof (cases "rs_body response")
  case (Stream reads)
  with assms obtain chunks where "readChunks 0 reads [] = Inr chunks" by (auto simp: readBoundedJson_def)
  from readChunks_bounded [OF this] have "length (concat chunks) \<le> 65536" "reads = map Chunk chunks"
    by (auto simp: MAX_RESPONSE_BYTES_def)
  with Stream show ?thesis
    by (simp add: body_within_limit_def list_all_iff length_concat comp_def)
next
  case (WholeText whole)
  with assms show ?thesis
    by (auto simp: readBoundedJson_def body_within_limit_def MAX_RESPONSE_BYTES_def split: option.splits)
qed

text \<open>
  C19. A submission is decided only by a successful response within the size limit; every failure of
  the transport and every response that cannot be read leaves it unresolved. In particular it is
  accepted only on a documented acceptance.
\<close>

theorem failed_transport_is_unresolved:
  assumes "submit caps lib text client fetch aborted request = (Inr result, sent)"
  shows "(\<exists>why. result = SubmissionUnresolved why) \<or>
     (\<exists>req response value. sent = [req] \<and> fetch req = Responds response \<and> rs_ok response \<and>
        body_within_limit response \<and> readBoundedJson text response = Inr value \<and>
        classifyExchangeResponse value = result)"
proof -
  from submit_sends [OF assms] obtain req where sent: "sent = [req]" by (auto simp: length_Suc_conv le_Suc_eq)
  with assms have result: "result =
     (case fetch req of
        FetchRejects \<Rightarrow> SubmissionUnresolved TransportUncertain
      | Responds response \<Rightarrow>
          if \<not> rs_ok response then SubmissionUnresolved TransportUncertain
          else case readBoundedJson text response of
                 Inr value \<Rightarrow> classifyExchangeResponse value
               | Inl _ \<Rightarrow> SubmissionUnresolved (if aborted then TransportUncertain else MalformedResponse))"
    by (auto simp: submit_def Let_def split: sum.splits)
  then show ?thesis using sent
    by (auto split: fetch_outcome.splits if_splits sum.splits dest: readBoundedJson_bounded)
qed

section \<open>A concrete submission\<close>

definition sample_signature :: js_value where
  "sample_signature =
     JObj [(''v'', JNum (IntN 27)), (''r'', JStr (''0x'' @ replicate 64 CHR ''1'')),
           (''s'', JStr (''0x'' @ replicate 64 CHR ''2''))]"

definition sample_request :: SignedExchangeRequest where
  "sample_request =
     \<lparr>rq_plain = True, rq_keys = [''action'', ''nonce'', ''signature'', ''expiresAfter''],
      rq_action = action_js sample_update, rq_nonce = IntN 1000, rq_signature = sample_signature,
      rq_vaultAddress = None, rq_expiresAfter = IntN 16000\<rparr>"

definition sample_client :: ExchangeClient where
  "sample_client = \<lparr>xc_network = Testnet, xc_endpoint = ''https://api.hyperliquid-testnet.xyz/exchange''\<rparr>"

definition sample_acceptance :: js_value where
  "sample_acceptance =
     JObj [(''status'', JStr ''ok''), (''response'', JObj [(''type'', JStr ''default'')])]"

definition sample_text :: text_lib where
  "sample_text = \<lparr>json_parse = (\<lambda>_. Some sample_acceptance), decode_utf8 = (\<lambda>_. '''')\<rparr>"

definition sample_response :: response where
  "sample_response = \<lparr>rs_ok = True, rs_contentLength = Some ''2'', rs_body = Stream [Chunk [0, 1]]\<rparr>"

definition sample_sent :: sent_request where
  "sample_sent = \<lparr>to_endpoint = xc_endpoint sample_client, body_text = stringify (request_body sample_request)\<rparr>"

lemma sample_client_created: "createExchangeClient Testnet None = Inr sample_client"
  by (simp add: createExchangeClient_Inr HYPERLIQUID_NETWORK_ORIGINS_def sample_client_def)

lemma sample_request_checked: "assertSignedRequest sample_lib sample_request = Inr ()"
proof -
  have "canonical_signature sample_signature"
    by (simp add: canonical_signature_def sample_signature_def canonical_component_def exactKeys_def
        hasOwn_def object_keys_def prefixed_iff list_all_iff is_lower_hex_def is_digit_def)
  then show ?thesis
    using sample_encodes [OF sample_update_canonicalizes]
    by (simp add: assertSignedRequest_def sample_request_def request_vault_def sample_l1_def Let_def
        safe_int_def max_safe_integer_def sample_update_def)
qed

lemma sample_acceptance_read: "readBoundedJson sample_text sample_response = Inr sample_acceptance"
  by (simp add: readBoundedJson_def sample_text_def sample_response_def parse_text_def MAX_RESPONSE_BYTES_def
      is_digit_def digits_val_def digit_val_def)

lemma sample_submitted:
  "submit ACTION_CAPABILITIES sample_lib sample_text sample_client (\<lambda>_. Responds sample_response) False sample_request =
   (Inr (SubmissionAccepted []), [sample_sent])"
proof -
  have "assertExchangeTransportCapability ACTION_CAPABILITIES (xc_network sample_client) = Inr ()"
    by (simp add: assertExchangeTransportCapability_def sample_client_def)
  moreover have "classifyExchangeResponse sample_acceptance = SubmissionAccepted []"
    by (simp add: classifyExchangeResponse_def sample_acceptance_def exactKeys_def hasOwn_def object_keys_def)
  moreover have "rs_ok sample_response" by (simp add: sample_response_def)
  ultimately show ?thesis
    by (simp add: submit_def sample_request_checked sample_acceptance_read Let_def sample_sent_def)
qed

theorem request_is_checked_and_sent_once_witness:
  "\<exists>capability. ACTION_CAPABILITIES Testnet = Some capability \<and> exchangeTransport capability"
  using request_is_checked_and_sent_once [OF sample_client_created sample_submitted] by auto

theorem failed_transport_is_unresolved_witness: "body_within_limit sample_response"
  using failed_transport_is_unresolved [OF sample_submitted] by auto

end
