(* ===== verification/Typed_Data.thy ===== *)
theory Typed_Data
  imports Encoding Redaction
begin

text \<open>
  The payloads that wallets and agents sign: \<^verbatim>\<open>packages/hyperliquid/src/signing/typed-data.ts\<close>
  and the payload types of \<^verbatim>\<open>types.ts\<close>. An L1 payload carries the hash of an encoded
  action and the network; an approval names an agent and the end of its validity.
\<close>

section \<open>Payloads\<close>

record Eip712Field =
  f_name :: string
  f_type :: string

record eip712_domain =
  dm_name :: string
  dm_version :: string
  dm_chainId :: int
  dm_verifyingContract :: string

record Eip712Payload =
  td_domain :: eip712_domain
  td_types :: "(string \<times> Eip712Field list) list"
  td_primaryType :: string
  td_message :: js_object

record NetworkTypedData =
  nt_network :: network
  nt_typedData :: Eip712Payload

definition APPROVAL_CHAIN_ID :: int where
  "APPROVAL_CHAIN_ID = 421614"

definition AGENT_NAME_SUFFIX :: string where
  "AGENT_NAME_SUFFIX = '' valid_until ''"

definition MAX_AGENT_VALIDITY_MS :: int where
  "MAX_AGENT_VALIDITY_MS = 180 * 24 * 60 * 60 * 1000"

definition zeroAddress :: string where
  "zeroAddress = ''0x'' @ replicate 40 CHR ''0''"

definition L1_AGENT_TYPES :: "(string \<times> Eip712Field list) list" where
  "L1_AGENT_TYPES =
     [(''Agent'', [\<lparr>f_name = ''source'', f_type = ''string''\<rparr>,
                  \<lparr>f_name = ''connectionId'', f_type = ''bytes32''\<rparr>])]"

definition APPROVE_AGENT_TYPES :: "(string \<times> Eip712Field list) list" where
  "APPROVE_AGENT_TYPES =
     [(''HyperliquidTransaction:ApproveAgent'',
       [\<lparr>f_name = ''hyperliquidChain'', f_type = ''string''\<rparr>,
        \<lparr>f_name = ''agentAddress'', f_type = ''address''\<rparr>,
        \<lparr>f_name = ''agentName'', f_type = ''string''\<rparr>,
        \<lparr>f_name = ''nonce'', f_type = ''uint64''\<rparr>])]"

definition normalizeAgentAddress :: "address_parser \<Rightarrow> string \<Rightarrow> string \<Rightarrow> string result" where
  "normalizeAgentAddress parse value path =
     (case parse value of
        Some address \<Rightarrow> Inr address
      | None \<Rightarrow> invalid path ''expected a 20-byte Ethereum address'')"

definition validateNonce :: "js_number \<Rightarrow> int result" where
  "validateNonce n =
     (case n of
        IntN i \<Rightarrow> (if \<not> safe_int i \<or> i < 0 then invalid ''nonce'' ''expected a non-negative safe integer''
                   else Inr i)
      | _ \<Rightarrow> invalid ''nonce'' ''expected a non-negative safe integer'')"

definition validateNetwork :: "network \<Rightarrow> network result" where
  "validateNetwork n =
     (if n \<noteq> Mainnet \<and> n \<noteq> Testnet then invalid ''network'' ''unknown network'' else Inr n)"

section \<open>Actions\<close>

definition buildL1TypedData :: "network \<Rightarrow> EncodedL1Action \<Rightarrow> NetworkTypedData result" where
  "buildL1TypedData n encoded =
     bindE (validateNetwork n) (\<lambda>validatedNetwork.
     Inr \<lparr>nt_network = validatedNetwork,
          nt_typedData =
            \<lparr>td_domain = \<lparr>dm_name = ''Exchange'', dm_version = ''1'', dm_chainId = 1337,
                          dm_verifyingContract = zeroAddress\<rparr>,
             td_types = L1_AGENT_TYPES,
             td_primaryType = ''Agent'',
             td_message =
               [(''source'', JStr (if validatedNetwork = Mainnet then ''a'' else ''b'')),
                (''connectionId'', JStr (e_actionHash encoded))]\<rparr>\<rparr>)"

section \<open>Approvals\<close>

definition printable :: "char \<Rightarrow> bool" where
  "printable c \<longleftrightarrow> 0x20 \<le> code c \<and> code c \<le> 0x7e"

definition visible :: "char \<Rightarrow> bool" where
  "visible c \<longleftrightarrow> 0x21 \<le> code c \<and> code c \<le> 0x7e"

text \<open>\<^verbatim>\<open>/^[\x21-\x7e](?:[\x20-\x7e]{0,14}[\x21-\x7e])?$/\<close>\<close>

definition agent_name_pattern :: "string \<Rightarrow> bool" where
  "agent_name_pattern s \<longleftrightarrow>
     1 \<le> length s \<and> length s \<le> 16 \<and> visible (hd s) \<and> visible (last s) \<and> list_all printable s"

definition formatExpiringAgentName :: "string \<Rightarrow> js_number \<Rightarrow> string result" where
  "formatExpiringAgentName baseName validUntil =
     (if length baseName < 1 \<or> length baseName > 16 \<or> \<not> agent_name_pattern baseName \<or>
         matches_anywhere (starts_with AGENT_NAME_SUFFIX) baseName
      then invalid ''agentName''
             ''expected 1-16 printable ASCII characters without surrounding spaces or an expiry suffix''
      else case validUntil of
             IntN t \<Rightarrow>
               (if \<not> safe_int t \<or> t \<le> 0 then invalid ''validUntil'' ''expected a positive millisecond timestamp''
                else Inr (baseName @ AGENT_NAME_SUFFIX @ show_int t))
           | _ \<Rightarrow> invalid ''validUntil'' ''expected a positive millisecond timestamp'')"

record ApproveAgentInput =
  ai_network :: network
  ai_agentAddress :: string
  ai_agentBaseName :: string
  ai_validUntil :: js_number
  ai_nonce :: js_number

record ApproveAgentAction =
  aa_signatureChainId :: string
  aa_hyperliquidChain :: string
  aa_agentAddress :: string
  aa_agentName :: string
  aa_nonce :: int

text \<open>\<^verbatim>\<open>validUntil <= nonce || validUntil - nonce > MAX_AGENT_VALIDITY_MS\<close>\<close>

definition validity_refused :: "js_number \<Rightarrow> int \<Rightarrow> bool" where
  "validity_refused validUntil n \<longleftrightarrow>
     js_less validUntil (IntN n) \<or> js_eq validUntil (IntN n) \<or>
     js_less (IntN (n + MAX_AGENT_VALIDITY_MS)) validUntil"

definition buildApproveAgentAction :: "address_parser \<Rightarrow> ApproveAgentInput \<Rightarrow> ApproveAgentAction result" where
  "buildApproveAgentAction parse input =
     bindE (validateNetwork (ai_network input)) (\<lambda>n.
     bindE (validateNonce (ai_nonce input)) (\<lambda>nonce.
     bindE (throw_if (validity_refused (ai_validUntil input) nonce)
              (HyperliquidValidationError ''validUntil'' ''expected agent expiry after nonce and within 180 days'')) (\<lambda>_.
     bindE (normalizeAgentAddress parse (ai_agentAddress input) ''agentAddress'') (\<lambda>address.
     bindE (formatExpiringAgentName (ai_agentBaseName input) (ai_validUntil input)) (\<lambda>name.
     Inr \<lparr>aa_signatureChainId = ''0x66eee'',
          aa_hyperliquidChain = (if n = Mainnet then ''Mainnet'' else ''Testnet''),
          aa_agentAddress = address, aa_agentName = name, aa_nonce = nonce\<rparr>)))))"

definition buildApproveAgentTypedData ::
    "address_parser \<Rightarrow> ApproveAgentInput \<Rightarrow> (ApproveAgentAction \<times> NetworkTypedData) result" where
  "buildApproveAgentTypedData parse input =
     bindE (buildApproveAgentAction parse input) (\<lambda>action.
     Inr (action,
       \<lparr>nt_network = ai_network input,
        nt_typedData =
          \<lparr>td_domain = \<lparr>dm_name = ''HyperliquidSignTransaction'', dm_version = ''1'',
                        dm_chainId = APPROVAL_CHAIN_ID, dm_verifyingContract = zeroAddress\<rparr>,
           td_types = APPROVE_AGENT_TYPES,
           td_primaryType = ''HyperliquidTransaction:ApproveAgent'',
           td_message =
             [(''hyperliquidChain'', JStr (aa_hyperliquidChain action)),
              (''agentAddress'', JStr (aa_agentAddress action)),
              (''agentName'', JStr (aa_agentName action)),
              (''nonce'', JNum (IntN (aa_nonce action)))]\<rparr>\<rparr>))"

section \<open>What a signed payload fixes\<close>

lemma validateNetwork_Inr [result_simps]:
  "validateNetwork n = Inr m \<longleftrightarrow> m = n \<and> (n = Mainnet \<or> n = Testnet)"
  by (auto simp: validateNetwork_def)

lemma validateNonce_Inr [result_simps]:
  "validateNonce n = Inr i \<longleftrightarrow> n = IntN i \<and> safe_int i \<and> 0 \<le> i"
  by (cases n) (auto simp: validateNonce_def)

text \<open>
  C25. An L1 payload fixes the network and, when the preimages of the hashes do not collide, the
  canonical action, nonce, vault and expiry: one that is signed for the test network is never that
  of an action on the main network.
\<close>

theorem signed_payload_binds_network_and_action:
  assumes "self_delimiting lib" "eight_bytes lib" "address_bytes lib"
    and "encodeL1Action lib i = Inr x" "encodeL1Action lib j = Inr y"
    and "inj_on (keccak256 lib) {encoded_preimage lib x, encoded_preimage lib y}"
    and "buildL1TypedData n x = Inr p" "buildL1TypedData m y = Inr q" "nt_typedData p = nt_typedData q"
  shows "n = m \<and> nt_network p = n \<and> x = y \<and>
     canonicalizeExchangeAction (l1_action i) = canonicalizeExchangeAction (l1_action j)"
proof -
  have "e_actionHash x = e_actionHash y" "n = m" "nt_network p = n"
    using assms(7-9) by (auto simp: buildL1TypedData_def result_simps split: if_splits)
  with encoded_preimage_inj [OF assms(1-5)] same_hash_preimage [OF assms(4-6)] show ?thesis by blast
qed

section \<open>Agent names\<close>

text \<open>The name and the end of validity that an agent name stands for.\<close>

definition read_agent_name :: "string \<Rightarrow> string \<times> int" where
  "read_agent_name name =
     (let digits = rev (takeWhile (\<lambda>c. c \<noteq> CHR '' '') (rev name)) in
      (take (length name - length digits - length AGENT_NAME_SUFFIX) name, int (digits_val digits)))"

lemma formatExpiringAgentName_Inr:
  "formatExpiringAgentName base t = Inr name \<longleftrightarrow>
     agent_name_pattern base \<and> \<not> matches_anywhere (starts_with AGENT_NAME_SUFFIX) base \<and>
     (\<exists>i. t = IntN i \<and> safe_int i \<and> 0 < i \<and> name = base @ AGENT_NAME_SUFFIX @ show_int i)"
  by (cases t) (auto simp: formatExpiringAgentName_def agent_name_pattern_def)

lemma agent_name_read:
  assumes "formatExpiringAgentName base t = Inr name"
  shows "\<exists>i. t = IntN i \<and> read_agent_name name = (base, i)"
proof -
  from assms obtain i where i: "t = IntN i" "0 < i" "name = base @ AGENT_NAME_SUFFIX @ show_int i"
    by (auto simp: formatExpiringAgentName_Inr)
  have digits: "list_all (\<lambda>c. c \<noteq> CHR '' '') (rev (show_int i))"
    using show_nat_digits [of "nat i"] i(2) by (auto simp: show_int_def list_all_iff is_digit_def)
  have "rev name = rev (show_int i) @ CHR '' '' # rev ('' valid_until'' ) @ rev base"
    by (simp add: i(3) AGENT_NAME_SUFFIX_def)
  then have "takeWhile (\<lambda>c. c \<noteq> CHR '' '') (rev name) = rev (show_int i)"
    using digits by (subst \<open>rev name = _\<close>, subst takeWhile_append2) (auto simp: list_all_iff)
  then have "read_agent_name name = (base, int (digits_val (show_int i)))"
    by (simp add: read_agent_name_def i(3))
  then show ?thesis using i(1,2) by (simp add: show_int_def)
qed

text \<open>
  From a formatted agent name the base name and the end of validity can be read back; so two agents
  with different names or different ends have different formatted names.
\<close>

theorem agent_name_roundtrip:
  assumes "formatExpiringAgentName base t = Inr name"
  shows "\<exists>i. t = IntN i \<and> read_agent_name name = (base, i)"
  using assms by (rule agent_name_read)

section \<open>Approvals\<close>

text \<open>
  An approval is for a known network and a valid agent address; the agent's validity ends after the
  nonce and at most 180 days later, and that end is the one the signed name shows. The signed
  message is that of the action, and never an L1 payload.
\<close>

theorem approval_is_bounded:
  assumes "buildApproveAgentTypedData parse input = Inr (action, p)"
  shows "\<exists>t. ai_validUntil input = IntN t \<and> aa_nonce action < t \<and> t - aa_nonce action \<le> 15552000000 \<and>
     read_agent_name (aa_agentName action) = (ai_agentBaseName input, t) \<and>
     parse (ai_agentAddress input) = Some (aa_agentAddress action) \<and>
     nt_network p = ai_network input \<and> (ai_network input = Mainnet \<or> ai_network input = Testnet) \<and>
     member (td_message (nt_typedData p)) ''agentName'' = JStr (aa_agentName action) \<and>
     member (td_message (nt_typedData p)) ''nonce'' = JNum (ai_nonce input) \<and>
     (\<forall>m e q. buildL1TypedData m e = Inr q \<longrightarrow> nt_typedData q \<noteq> nt_typedData p)"
proof -
  from assms obtain name where name: "formatExpiringAgentName (ai_agentBaseName input) (ai_validUntil input) = Inr name"
      "aa_agentName action = name"
    and a: "validity_refused (ai_validUntil input) (aa_nonce action) = False" "ai_nonce input = IntN (aa_nonce action)"
      "parse (ai_agentAddress input) = Some (aa_agentAddress action)"
      "ai_network input = Mainnet \<or> ai_network input = Testnet"
    and p: "nt_network p = ai_network input"
      "td_message (nt_typedData p) =
        [(''hyperliquidChain'', JStr (aa_hyperliquidChain action)), (''agentAddress'', JStr (aa_agentAddress action)),
         (''agentName'', JStr name), (''nonce'', JNum (IntN (aa_nonce action)))]"
      "td_primaryType (nt_typedData p) = ''HyperliquidTransaction:ApproveAgent''"
    by (auto simp: buildApproveAgentTypedData_def buildApproveAgentAction_def normalizeAgentAddress_def result_simps
        split: option.splits)
  from agent_name_read [OF name(1)] obtain t where t: "ai_validUntil input = IntN t"
    "read_agent_name name = (ai_agentBaseName input, t)" by blast
  have "nt_typedData q \<noteq> nt_typedData p" if "buildL1TypedData m e = Inr q" for m e q
  proof -
    from that have "td_primaryType (nt_typedData q) = ''Agent''" by (auto simp: buildL1TypedData_def)
    with p(3) show ?thesis by auto
  qed
  with t a p name(2) show ?thesis
    by (auto simp: validity_refused_def MAX_AGENT_VALIDITY_MS_def js_eq_IntN not_less)
qed

section \<open>Concrete payloads\<close>

definition sample_approval :: ApproveAgentInput where
  "sample_approval =
     \<lparr>ai_network = Testnet, ai_agentAddress = zeroAddress, ai_agentBaseName = ''hyper trader'',
      ai_validUntil = IntN 86401000, ai_nonce = IntN 1000\<rparr>"

definition sample_payload :: NetworkTypedData where
  "sample_payload = (case buildL1TypedData Testnet sample_encoded of Inr p \<Rightarrow> p)"

lemma sample_payload_built: "buildL1TypedData Testnet sample_encoded = Inr sample_payload"
  by (simp add: sample_payload_def buildL1TypedData_def validateNetwork_def)

lemma sample_name:
  "formatExpiringAgentName ''hyper trader'' (IntN 86401000) = Inr (''hyper trader'' @ AGENT_NAME_SUFFIX @ show_int 86401000)"
  by (simp add: formatExpiringAgentName_Inr agent_name_pattern_def visible_def printable_def starts_with_def
      AGENT_NAME_SUFFIX_def safe_int_def max_safe_integer_def)

lemma sample_approval_built:
  "\<exists>action p. buildApproveAgentTypedData Some sample_approval = Inr (action, p)"
  by (simp add: buildApproveAgentTypedData_def buildApproveAgentAction_def sample_approval_def sample_name
      validateNetwork_def validateNonce_def safe_int_def max_safe_integer_def validity_refused_def
      MAX_AGENT_VALIDITY_MS_def js_eq_IntN normalizeAgentAddress_def)

theorem signed_payload_binds_network_and_action_witness:
  "nt_network sample_payload = Testnet \<and>
   canonicalizeExchangeAction (action_js sample_update) = canonicalizeExchangeAction sample_update_reordered"
  using signed_payload_binds_network_and_action [OF sample_lib_ok sample_encodes [OF sample_update_canonicalizes]
      sample_encodes [OF sample_canonicalizes] _ sample_payload_built sample_payload_built]
  by (simp add: sample_l1_def)

theorem agent_name_roundtrip_witness:
  "read_agent_name (''hyper trader'' @ AGENT_NAME_SUFFIX @ show_int 86401000) = (''hyper trader'', 86401000)"
  using agent_name_roundtrip [OF sample_name] by simp

theorem approval_is_bounded_witness:
  "\<exists>action p. buildApproveAgentTypedData Some sample_approval = Inr (action, p) \<and>
     86401000 - aa_nonce action \<le> 15552000000 \<and> nt_network p = Testnet"
proof -
  obtain action p where "buildApproveAgentTypedData Some sample_approval = Inr (action, p)"
    using sample_approval_built by blast
  from this approval_is_bounded [OF this] show ?thesis by (auto simp: sample_approval_def)
qed

end
