(* ===== verification/Action_Flow.thy ===== *)
theory Action_Flow
  imports Machines Prelude
begin

text \<open>
  The state machine of an action on the screen:
  \<^verbatim>\<open>apps/mobile/src/features/actions/state-machine.ts\<close>. The asynchronous steps of an action
  report back with the generation in which they were started.
\<close>

datatype ActionFlowPhase =
    Review
  | Unlocking
  | Refreshing
  | Reserving
  | SigningPhase
  | SubmissionStart
  | Submitting
  | Reconciling
  | AcceptedPhase
  | RejectedPhase
  | ExpiredPhase
  | AmbiguousPhase
  | FailedBeforeSubmission

record ActionFlowState =
  phase :: ActionFlowPhase
  generation :: nat
  flow_journalId :: "string option"
  message :: "string option"

definition INITIAL_ACTION_FLOW :: ActionFlowState where
  "INITIAL_ACTION_FLOW = \<lparr>phase = Review, generation = 0, flow_journalId = None, message = None\<rparr>"

datatype ActionFlowAction =
    CONFIRM
  | ADVANCE nat ActionFlowPhase "string option"
  | UNRESOLVED nat string
  | TERMINAL nat string ActionFlowPhase "string option"
  | FAIL_BEFORE_SUBMISSION nat "string option" string
  | RESET

definition CRITICAL_PHASES :: "ActionFlowPhase list" where
  "CRITICAL_PHASES = [Unlocking, Refreshing, Reserving, SigningPhase, SubmissionStart, Submitting]"

fun NEXT_PHASE :: "ActionFlowPhase \<Rightarrow> ActionFlowPhase option" where
  "NEXT_PHASE Refreshing = Some Unlocking"
| "NEXT_PHASE Unlocking = Some Reserving"
| "NEXT_PHASE Reserving = Some SigningPhase"
| "NEXT_PHASE SigningPhase = Some SubmissionStart"
| "NEXT_PHASE SubmissionStart = Some Submitting"
| "NEXT_PHASE _ = None"

definition actionFlowConsumesBack :: "ActionFlowPhase \<Rightarrow> bool" where
  "actionFlowConsumesBack p \<longleftrightarrow> p \<in> set CRITICAL_PHASES"

definition isCurrent :: "ActionFlowState \<Rightarrow> nat \<Rightarrow> bool" where
  "isCurrent state g \<longleftrightarrow> generation state = g"

text \<open>\<^verbatim>\<open>a ?? b\<close>\<close>

fun or_else :: "'a option \<Rightarrow> 'a option \<Rightarrow> 'a option" where
  "or_else (Some x) _ = Some x"
| "or_else None y = y"

fun reduceActionFlow :: "ActionFlowState \<Rightarrow> ActionFlowAction \<Rightarrow> ActionFlowState" where
  "reduceActionFlow state CONFIRM =
     (if phase state \<noteq> Review \<and> phase state \<noteq> FailedBeforeSubmission then state
      else \<lparr>phase = Refreshing, generation = generation state + 1, flow_journalId = None, message = None\<rparr>)"
| "reduceActionFlow state (ADVANCE g p journalId) =
     (if \<not> isCurrent state g then state
      else if NEXT_PHASE (phase state) \<noteq> Some p then state
      else state\<lparr>phase := p, flow_journalId := or_else journalId (flow_journalId state), message := None\<rparr>)"
| "reduceActionFlow state (UNRESOLVED g journalId) =
     (if \<not> isCurrent state g \<or> phase state \<noteq> Submitting then state
      else state\<lparr>phase := Reconciling, flow_journalId := Some journalId,
                 message := Some ''Hyperliquid has not confirmed the result yet.''\<rparr>)"
| "reduceActionFlow state (TERMINAL g journalId p msg) =
     (if \<not> isCurrent state g \<or> (phase state \<noteq> Submitting \<and> phase state \<noteq> Reconciling) then state
      else state\<lparr>phase := p, flow_journalId := Some journalId, message := msg\<rparr>)"
| "reduceActionFlow state (FAIL_BEFORE_SUBMISSION g journalId msg) =
     (if \<not> isCurrent state g \<or>
         (phase state \<noteq> Unlocking \<and> phase state \<noteq> Refreshing \<and> phase state \<noteq> Reserving \<and>
          phase state \<noteq> SigningPhase \<and> phase state \<noteq> SubmissionStart) then state
      else state\<lparr>phase := FailedBeforeSubmission,
                 flow_journalId := or_else journalId (flow_journalId state), message := Some msg\<rparr>)"
| "reduceActionFlow state RESET = INITIAL_ACTION_FLOW\<lparr>generation := generation state + 1\<rparr>"

section \<open>Progress\<close>

text \<open>
  The types of the source limit the phases an action may carry: the phases on the way to the
  submission for an advance, the four outcomes for a terminal action.
\<close>

fun well_typed :: "ActionFlowAction \<Rightarrow> bool" where
  "well_typed (ADVANCE g p i) \<longleftrightarrow> p \<in> set CRITICAL_PHASES"
| "well_typed (TERMINAL g i p m) \<longleftrightarrow> p \<in> {AcceptedPhase, RejectedPhase, ExpiredPhase, AmbiguousPhase}"
| "well_typed _ \<longleftrightarrow> True"

text \<open>How far an action has come. The outcome of a submission and a failure before it are both ends.\<close>

fun progress :: "ActionFlowPhase \<Rightarrow> nat" where
  "progress Review = 0"
| "progress Refreshing = 1"
| "progress Unlocking = 2"
| "progress Reserving = 3"
| "progress SigningPhase = 4"
| "progress SubmissionStart = 5"
| "progress Submitting = 6"
| "progress Reconciling = 7"
| "progress _ = 8"

text \<open>The exchange may have received the action.\<close>

definition past_submission :: "ActionFlowPhase \<Rightarrow> bool" where
  "past_submission p \<longleftrightarrow> 6 \<le> progress p \<and> p \<noteq> FailedBeforeSubmission"

text \<open>The order in which a flow may move: a new generation, or further in the same one.\<close>

definition flows_to :: "ActionFlowState \<Rightarrow> ActionFlowState \<Rightarrow> bool" where
  "flows_to s t \<longleftrightarrow> t = s \<or> generation s < generation t \<or>
     generation s = generation t \<and> progress (phase s) < progress (phase t) \<and>
     (phase t = FailedBeforeSubmission \<longrightarrow> \<not> past_submission (phase s))"

lemma NEXT_PHASE_progress:
  "NEXT_PHASE p = Some q \<Longrightarrow> progress q = progress p + 1 \<and> q \<noteq> FailedBeforeSubmission"
  by (cases p) auto

lemma reduce_flows:
  assumes "well_typed a"
  shows "flows_to s (reduceActionFlow s a)"
  using assms
  by (cases "(s, a)" rule: reduceActionFlow.cases)
    (auto simp: flows_to_def past_submission_def dest!: NEXT_PHASE_progress)

lemma flows_to_refl [simp]: "flows_to s s"
  by (simp add: flows_to_def)

lemma flows_to_trans: "flows_to s t \<Longrightarrow> flows_to t u \<Longrightarrow> flows_to s u"
  by (auto simp: flows_to_def past_submission_def)

section \<open>Runs\<close>

text \<open>The states that a flow goes through, the first and the last included.\<close>

fun flow_states :: "ActionFlowState \<Rightarrow> ActionFlowAction list \<Rightarrow> ActionFlowState list" where
  "flow_states s [] = [s]"
| "flow_states s (a # as) = s # flow_states (reduceActionFlow s a) as"

lemma flow_states_ordered:
  "list_all well_typed as \<Longrightarrow>
     list_all (flows_to s) (flow_states s as) \<and> sorted_wrt flows_to (flow_states s as)"
proof (induction as arbitrary: s)
  case (Cons a as)
  then have IH: "list_all (flows_to (reduceActionFlow s a)) (flow_states (reduceActionFlow s a) as)"
    "sorted_wrt flows_to (flow_states (reduceActionFlow s a) as)"
    and step: "flows_to s (reduceActionFlow s a)"
    using reduce_flows by auto
  have "list_all (flows_to s) (flow_states (reduceActionFlow s a) as)"
    using IH(1) flows_to_trans [OF step] by (auto simp: list_all_iff)
  with IH(2) show ?case by (simp add: list_all_iff)
qed simp

text \<open>
  C39. A flow never goes back: over any run of actions, late reports of earlier attempts included, the
  generation and, within a generation, the progress only grow. A failure before submission is
  never shown for an attempt that the exchange may have received, neither after it was shown as
  submitting nor before.
\<close>

theorem flow_never_regresses:
  assumes "list_all well_typed as"
  shows "sorted_wrt (\<lambda>s t. generation s < generation t \<or>
            generation s = generation t \<and> progress (phase s) \<le> progress (phase t)) (flow_states s0 as) \<and>
     (\<forall>s t. s \<in> set (flow_states s0 as) \<longrightarrow> t \<in> set (flow_states s0 as) \<longrightarrow> generation s = generation t \<longrightarrow>
        past_submission (phase s) \<longrightarrow> phase t \<noteq> FailedBeforeSubmission)"
proof (intro conjI allI impI notI)
  note sorted = conjunct2 [OF flow_states_ordered [OF assms, of s0]]
  show "sorted_wrt (\<lambda>s t. generation s < generation t \<or>
      generation s = generation t \<and> progress (phase s) \<le> progress (phase t)) (flow_states s0 as)"
    by (rule sorted_wrt_mono_rel [OF _ sorted]) (auto simp: flows_to_def)
  fix s t assume st: "s \<in> set (flow_states s0 as)" "t \<in> set (flow_states s0 as)" "generation s = generation t"
    "past_submission (phase s)" "phase t = FailedBeforeSubmission"
  then obtain i j where ij: "i < length (flow_states s0 as)" "j < length (flow_states s0 as)"
    "flow_states s0 as ! i = s" "flow_states s0 as ! j = t" by (auto simp: in_set_conv_nth)
  have "s \<noteq> t" using st(4,5) by (auto simp: past_submission_def)
  then consider "i < j" | "j < i" using ij by fastforce
  then show False
  proof cases
    case 1
    then have "flows_to s t" using sorted_wrt_nth_less [OF sorted] ij by blast
    then show False using st \<open>s \<noteq> t\<close> by (auto simp: flows_to_def)
  next
    case 2
    then have "flows_to t s" using sorted_wrt_nth_less [OF sorted] ij by blast
    moreover have "progress (phase s) \<le> progress (phase t)" by (cases "phase s") (simp_all add: st(5))
    ultimately show False using st \<open>s \<noteq> t\<close> by (auto simp: flows_to_def)
  qed
qed

definition sample_actions :: "ActionFlowAction list" where
  "sample_actions = [CONFIRM, ADVANCE 1 Unlocking None, ADVANCE 1 Reserving None, FAIL_BEFORE_SUBMISSION 0 None ''late'',
     ADVANCE 1 SigningPhase (Some ''jrnl''), ADVANCE 1 SubmissionStart None, ADVANCE 1 Submitting None,
     FAIL_BEFORE_SUBMISSION 1 None ''lost'', UNRESOLVED 1 ''jrnl'', TERMINAL 1 ''jrnl'' AcceptedPhase None]"

theorem flow_never_regresses_witness:
  "sorted_wrt (\<lambda>s t. generation s < generation t \<or>
            generation s = generation t \<and> progress (phase s) \<le> progress (phase t))
     (flow_states INITIAL_ACTION_FLOW sample_actions) \<and>
   phase (last (flow_states INITIAL_ACTION_FLOW sample_actions)) = AcceptedPhase"
proof -
  have "list_all well_typed sample_actions" by (simp add: sample_actions_def CRITICAL_PHASES_def)
  moreover have "phase (last (flow_states INITIAL_ACTION_FLOW sample_actions)) = AcceptedPhase"
    by (simp add: sample_actions_def INITIAL_ACTION_FLOW_def isCurrent_def)
  ultimately show ?thesis using flow_never_regresses by blast
qed

text \<open>
  A report of another generation changes nothing.
\<close>

lemma stale_report_ignored:
  assumes "g \<noteq> generation s"
  shows "reduceActionFlow s (ADVANCE g p i) = s" "reduceActionFlow s (UNRESOLVED g j) = s"
    "reduceActionFlow s (TERMINAL g j p m) = s" "reduceActionFlow s (FAIL_BEFORE_SUBMISSION g i t) = s"
  using assms by (auto simp: isCurrent_def)

end
