(* ===== verification/Context_Supervisor.thy ===== *)
theory Context_Supervisor
  imports Tombstone
begin

text \<open>
  The trading context: \<^verbatim>\<open>apps/mobile/src/core/context/supervisor.ts\<close> and the commit check of
  \<^verbatim>\<open>features/actions/development-trading-runtime.tsx\<close>. A switch of context waits for the
  private queries to be cancelled; until it resumes, other switches may begin. Work that was
  started in a context captures it and may commit only while the capture still holds.
\<close>

section \<open>Contexts\<close>

record SignerIdentity =
  si_agentAddress :: string
  si_generation :: int

record TradingContextIdentity =
  tc_network :: network
  tc_masterAccount :: "string option"
  tc_targetAccount :: "string option"
  tc_signer :: "SignerIdentity option"

type_synonym NormalizedTradingContext = TradingContextIdentity

text \<open>\<^verbatim>\<open>String.prototype.trim\<close> for characters below 256.\<close>

definition is_space :: "char \<Rightarrow> bool" where
  "is_space c \<longleftrightarrow> code c \<in> {9, 10, 11, 12, 13, 32, 160}"

definition trim :: "string \<Rightarrow> string" where
  "trim s = rev (dropWhile is_space (rev (dropWhile is_space s)))"

definition normalizeContextText :: "string option \<Rightarrow> string option" where
  "normalizeContextText address =
     (case map_option (\<lambda>a. toLowerCase (trim a)) address of
        Some s \<Rightarrow> (if s = '''' then None else Some s)
      | None \<Rightarrow> None)"

definition normalizeTradingContext :: "TradingContextIdentity \<Rightarrow> NormalizedTradingContext" where
  "normalizeTradingContext c =
     \<lparr>tc_network = tc_network c,
      tc_masterAccount = normalizeContextText (tc_masterAccount c),
      tc_targetAccount = normalizeContextText (tc_targetAccount c),
      tc_signer = map_option (\<lambda>s.
        \<lparr>si_agentAddress = (case normalizeContextText (Some (si_agentAddress s)) of Some a \<Rightarrow> a | None \<Rightarrow> ''''),
         si_generation = si_generation s\<rparr>) (tc_signer c)\<rparr>"

fun nullable :: "string option \<Rightarrow> js_value" where
  "nullable (Some s) = JStr s"
| "nullable None = JNull"

definition contextIdentityKey :: "TradingContextIdentity \<Rightarrow> string" where
  "contextIdentityKey c =
     (let n = normalizeTradingContext c in
      stringify (JArr [JStr (network_name (tc_network n)), nullable (tc_masterAccount n),
                       nullable (tc_targetAccount n)]))"

definition signerScopeKey :: "TradingContextIdentity \<Rightarrow> string option" where
  "signerScopeKey c =
     (let n = normalizeTradingContext c in
      map_option (\<lambda>s.
        stringify (JArr [JStr (network_name (tc_network n)), nullable (tc_masterAccount n),
                         nullable (tc_targetAccount n), JStr (si_agentAddress s),
                         JNum (IntN (si_generation s))])) (tc_signer n))"

section \<open>The supervisor\<close>

record ContextCapture =
  cc_epoch :: nat
  cc_identityKey :: string
  cc_signerScopeKey :: "string option"

text \<open>
  The variables of the supervisor, and the switches that wait for \<^verbatim>\<open>cancelPrivateQueries\<close>:
  each with its epoch and its normalised context.
\<close>

record supervisor =
  sv_current :: NormalizedTradingContext
  sv_epoch :: nat
  sv_waiting :: "(nat \<times> NormalizedTradingContext) list"

definition createContextSupervisor :: "TradingContextIdentity \<Rightarrow> supervisor" where
  "createContextSupervisor initial =
     \<lparr>sv_current = normalizeTradingContext initial, sv_epoch = 0, sv_waiting = []\<rparr>"

definition capture :: "supervisor \<Rightarrow> ContextCapture" where
  "capture s =
     \<lparr>cc_epoch = sv_epoch s, cc_identityKey = contextIdentityKey (sv_current s),
      cc_signerScopeKey = signerScopeKey (sv_current s)\<rparr>"

definition canCommit :: "ContextCapture \<Rightarrow> supervisor \<Rightarrow> bool" where
  "canCommit cap s \<longleftrightarrow>
     cc_epoch cap = sv_epoch s \<and>
     cc_identityKey cap = contextIdentityKey (sv_current s) \<and>
     cc_signerScopeKey cap = signerScopeKey (sv_current s)"

text \<open>The callbacks of a switch; one of them may throw.\<close>

datatype hook = CancelPrivateQueries | LockSignerSession | InvalidateDrafts | RemovePrivateQueries | OnCommit

datatype switch_outcome = Committed nat | Superseded nat | SwitchThrows

text \<open>A switch up to its \<^verbatim>\<open>await\<close>, and from there on; with the callbacks that were called.\<close>

definition switchContext :: "TradingContextIdentity \<Rightarrow> supervisor \<Rightarrow> supervisor" where
  "switchContext next_context s =
     (let switchEpoch = sv_epoch s + 1 in
      s\<lparr>sv_epoch := switchEpoch,
        sv_waiting := sv_waiting s @ [(switchEpoch, normalizeTradingContext next_context)]\<rparr>)"

definition resumeSwitch ::
    "hook option \<Rightarrow> nat \<Rightarrow> NormalizedTradingContext \<Rightarrow> supervisor \<Rightarrow> switch_outcome \<times> hook list \<times> supervisor" where
  "resumeSwitch fails switchEpoch normalized s0 =
     (let s = s0\<lparr>sv_waiting := filter (\<lambda>w. fst w \<noteq> switchEpoch) (sv_waiting s0)\<rparr> in
      if fails = Some CancelPrivateQueries then (SwitchThrows, [], s)
      else if switchEpoch \<noteq> sv_epoch s then (Superseded switchEpoch, [], s)
      else if fails = Some LockSignerSession then (SwitchThrows, [LockSignerSession], s)
      else if fails = Some InvalidateDrafts then (SwitchThrows, [LockSignerSession, InvalidateDrafts], s)
      else if fails = Some RemovePrivateQueries
      then (SwitchThrows, [LockSignerSession, InvalidateDrafts, RemovePrivateQueries], s)
      else
        (if fails = Some OnCommit then SwitchThrows else Committed switchEpoch,
         [LockSignerSession, InvalidateDrafts, RemovePrivateQueries, OnCommit],
         s\<lparr>sv_current := normalized\<rparr>))"

section \<open>Committing\<close>

definition bindingForContext :: "capabilities \<Rightarrow> NormalizedTradingContext \<Rightarrow> SignerBinding option result" where
  "bindingForContext caps c =
     bindE (hasTradingActionCapability caps (tc_network c)) (\<lambda>able.
     Inr (case (tc_masterAccount c, tc_targetAccount c, tc_signer c) of
            (Some m, Some t, Some s) \<Rightarrow>
              if able
              then Some \<lparr>sb_network = tc_network c, sb_masterAccount = m, sb_targetAccount = t,
                         sb_agentAddress = si_agentAddress s, sb_generation = IntN (si_generation s)\<rparr>
              else None
          | _ \<Rightarrow> None))"

text \<open>
  The authority of the running application: \<open>shown\<close> is the context of the last rendering, which
  follows the supervisor's when the screen is drawn again. \<open>None\<close> lets the reservation commit.
\<close>

definition commitIfCurrent ::
    "capabilities \<Rightarrow> address_parser \<Rightarrow> NormalizedTradingContext \<Rightarrow> supervisor \<Rightarrow>
     SignerBinding \<Rightarrow> int \<Rightarrow> js_error option" where
  "commitIfCurrent caps getAddress shown live b capturedContextEpoch =
     (let cap = capture live in
      case bindingForContext caps shown of
        Inl e \<Rightarrow> Some e
      | Inr None \<Rightarrow> Some (Err ''The trading context changed before nonce reservation.'')
      | Inr (Some binding) \<Rightarrow>
          if int (cc_epoch cap) \<noteq> capturedContextEpoch \<or> \<not> canCommit cap live
          then Some (Err ''The trading context changed before nonce reservation.'')
          else case assertSignerBinding getAddress b binding of Inl e \<Rightarrow> Some e | Inr _ \<Rightarrow> None)"

end
