(* ===== verification/Context_Laws.thy ===== *)
theory Context_Laws
  imports Context_Supervisor
begin

text \<open>
  What captures of a trading context promise: the keys name the context, switches that overlap
  commit in no order but the last one's, and work that may still commit has seen one context only.
\<close>

section \<open>The keys\<close>

lemma nullable_delimited:
  "stringify (nullable a) @ CHR '','' # x = stringify (nullable b) @ CHR '','' # y \<Longrightarrow> a = b \<and> x = y"
  by (cases a; cases b; auto simp: json_string_def dest: json_string_delimited)

lemma nullable_inj: "stringify (nullable a) = stringify (nullable b) \<Longrightarrow> a = b"
  using nullable_delimited [of a "[]" b "[]"] by simp

text \<open>
  Two contexts have the same identity key exactly when they are the same network and accounts
  after normalisation, and the same scope key exactly when their signers are the same too.
\<close>

theorem context_keys_name_the_context:
  assumes "known_network (tc_network a)" "known_network (tc_network b)"
  defines "na \<equiv> normalizeTradingContext a" and "nb \<equiv> normalizeTradingContext b"
  shows "(contextIdentityKey a = contextIdentityKey b \<longleftrightarrow>
       tc_network na = tc_network nb \<and> tc_masterAccount na = tc_masterAccount nb \<and>
       tc_targetAccount na = tc_targetAccount nb) \<and>
     (tc_signer na \<noteq> None \<longrightarrow> (signerScopeKey a = signerScopeKey b \<longleftrightarrow> na = nb))"
proof (intro conjI impI)
  have net: "known_network (tc_network na)" "known_network (tc_network nb)"
    using assms(1,2) by (simp_all add: na_def nb_def normalizeTradingContext_def)
  show "contextIdentityKey a = contextIdentityKey b \<longleftrightarrow>
      tc_network na = tc_network nb \<and> tc_masterAccount na = tc_masterAccount nb \<and>
      tc_targetAccount na = tc_targetAccount nb"
    using network_name_inj [OF net]
    by (auto simp: contextIdentityKey_def Let_def na_def [symmetric] nb_def [symmetric]
        dest!: json_string_inj nullable_delimited nullable_inj)
  assume "tc_signer na \<noteq> None"
  then obtain s where s: "tc_signer na = Some s" by blast
  show "signerScopeKey a = signerScopeKey b \<longleftrightarrow> na = nb"
  proof
    assume "signerScopeKey a = signerScopeKey b"
    moreover from this obtain t where t: "tc_signer nb = Some t"
      by (cases "tc_signer nb") (auto simp: signerScopeKey_def Let_def na_def [symmetric] nb_def [symmetric] s)
    ultimately have keys: "network_name (tc_network na) = network_name (tc_network nb)"
        "tc_masterAccount na = tc_masterAccount nb" "tc_targetAccount na = tc_targetAccount nb"
        "si_agentAddress s = si_agentAddress t" "show_int (si_generation s) = show_int (si_generation t)"
      by (auto simp: signerScopeKey_def Let_def na_def [symmetric] nb_def [symmetric] s t
          dest!: json_string_inj nullable_delimited nullable_inj)
    have "s = t" using keys(4) show_int_inject [OF keys(5)] by simp
    then show "na = nb"
      using keys network_name_inj [OF net] s t by (cases na; cases nb) auto
  qed (simp add: signerScopeKey_def Let_def na_def [symmetric] nb_def [symmetric])
qed

section \<open>Steps\<close>

inductive supervisor_step :: "supervisor \<Rightarrow> supervisor \<Rightarrow> bool" where
  begins: "supervisor_step s (switchContext c s)"
| resumes: "(e, n) \<in> set (sv_waiting s) \<Longrightarrow> resumeSwitch fails e n s = (outcome, hooks, t) \<Longrightarrow>
     supervisor_step s t"

inductive_cases supervisor_stepE: "supervisor_step s t"

text \<open>The states from \<open>s\<close> on, up to the last one, \<open>t\<close>.\<close>

inductive supervisor_path :: "supervisor \<Rightarrow> supervisor list \<Rightarrow> supervisor \<Rightarrow> bool" where
  here: "supervisor_path s [s] s"
| further: "supervisor_path s visited t \<Longrightarrow> supervisor_step t u \<Longrightarrow> supervisor_path s (visited @ [u]) u"

definition reachable_supervisor :: "supervisor \<Rightarrow> bool" where
  "reachable_supervisor s \<longleftrightarrow> (\<exists>initial visited. supervisor_path (createContextSupervisor initial) visited s)"

text \<open>Every waiting switch has its own epoch, none later than the current one.\<close>

definition supervisor_ok :: "supervisor \<Rightarrow> bool" where
  "supervisor_ok s \<longleftrightarrow> distinct (map fst (sv_waiting s)) \<and> (\<forall>w \<in> set (sv_waiting s). fst w \<le> sv_epoch s)"

text \<open>The switch of the current epoch, if any, is over.\<close>

definition settled :: "supervisor \<Rightarrow> bool" where
  "settled s \<longleftrightarrow> sv_epoch s \<notin> fst ` set (sv_waiting s)"

lemma switchContext_simps [simp]:
  "sv_epoch (switchContext c s) = sv_epoch s + 1"
  "sv_current (switchContext c s) = sv_current s"
  "sv_waiting (switchContext c s) = sv_waiting s @ [(sv_epoch s + 1, normalizeTradingContext c)]"
  by (simp_all add: switchContext_def Let_def)

lemma resumeSwitch_result:
  assumes "resumeSwitch fails e n s = (outcome, hooks, t)"
  shows "sv_epoch t = sv_epoch s" "sv_waiting t = filter (\<lambda>w. fst w \<noteq> e) (sv_waiting s)"
    "sv_current t = sv_current s \<or> e = sv_epoch s \<and> sv_current t = n"
    "outcome = Committed k \<longleftrightarrow> k = e \<and> e = sv_epoch s \<and> fails = None"
    "outcome = Committed e \<Longrightarrow> sv_current t = n"
  using assms by (cases fails; auto simp: resumeSwitch_def Let_def split: if_splits; metis hook.exhaust)+

lemma supervisor_step_ok:
  assumes "supervisor_step s t" "supervisor_ok s"
  shows "supervisor_ok t"
  using assms(1)
proof cases
  case (begins c)
  with assms(2) show ?thesis by (fastforce simp: supervisor_ok_def)
next
  case (resumes e n fails outcome hooks)
  note r = resumeSwitch_result(1,2) [OF resumes(2)]
  show ?thesis using assms(2) by (simp add: supervisor_ok_def r distinct_map_filter)
qed

lemma supervisor_path_ok: "supervisor_path s visited t \<Longrightarrow> supervisor_ok s \<Longrightarrow> supervisor_ok t"
  by (induction rule: supervisor_path.induct) (auto intro: supervisor_step_ok)

lemma supervisor_step_epoch: "supervisor_step s t \<Longrightarrow> sv_epoch s \<le> sv_epoch t"
  by (erule supervisor_stepE) (auto simp: resumeSwitch_result(1))

text \<open>Within an epoch the context changes at most once, when the switch of the epoch ends.\<close>

lemma supervisor_step_same_epoch:
  assumes "supervisor_step s t" "sv_epoch t = sv_epoch s"
  shows "sv_current t = sv_current s \<and> (settled s \<longrightarrow> settled t) \<or> \<not> settled s \<and> settled t"
  using assms(1)
proof cases
  case (resumes e n fails outcome hooks)
  note r = resumeSwitch_result [OF resumes(2)]
  show ?thesis
  proof (cases "e = sv_epoch s")
    case True
    with resumes(1) have "\<not> settled s" by (force simp: settled_def)
    moreover have "settled t" using r(1,2) True by (auto simp: settled_def)
    ultimately show ?thesis by blast
  next
    case False
    with r show ?thesis by (auto simp: settled_def)
  qed
qed (use assms(2) in auto)

lemma supervisor_path_ends: "supervisor_path s visited t \<Longrightarrow> s \<in> set visited \<and> t \<in> set visited"
  by (induction rule: supervisor_path.induct) auto

lemma supervisor_path_epoch:
  "supervisor_path s visited t \<Longrightarrow> u \<in> set visited \<Longrightarrow> sv_epoch s \<le> sv_epoch u \<and> sv_epoch u \<le> sv_epoch t"
proof (induction arbitrary: u rule: supervisor_path.induct)
  case (further s visited t t')
  have "sv_epoch s \<le> sv_epoch t" using further.IH supervisor_path_ends [OF further(1)] by blast
  with further supervisor_step_epoch [OF further(2)] show ?case by (auto intro: order_trans)
qed simp

text \<open>
  Along a path within one epoch the context is the first one, up to the end of the epoch's switch,
  and the last one from there on.
\<close>

lemma supervisor_path_one_change:
  "supervisor_path s visited t \<Longrightarrow> sv_epoch t = sv_epoch s \<Longrightarrow>
     (\<forall>u \<in> set visited. sv_current u = sv_current s \<or> settled t \<and> sv_current u = sv_current t) \<and>
     (\<not> settled t \<longrightarrow> (\<forall>u \<in> set visited. sv_current u = sv_current s))"
proof (induction rule: supervisor_path.induct)
  case (further s visited t t')
  have "sv_epoch s \<le> sv_epoch t" "sv_epoch t \<le> sv_epoch t'"
    using supervisor_path_epoch [OF further(1)] supervisor_path_ends [OF further(1)]
      supervisor_step_epoch [OF further(2)] by blast+
  with further.prems have e: "sv_epoch t = sv_epoch s" "sv_epoch t' = sv_epoch t" by simp_all
  note step = supervisor_step_same_epoch [OF further(2) e(2)] and IH = further.IH [OF e(1)]
  have t: "t \<in> set visited" using supervisor_path_ends [OF further(1)] by blast
  show ?case
  proof (cases "settled t")
    case True
    with step have "sv_current t' = sv_current t" "settled t'" by blast+
    moreover have "sv_current u = sv_current s \<or> sv_current u = sv_current t" if "u \<in> set visited" for u
      using IH that by blast
    ultimately show ?thesis by simp
  next
    case False
    with IH have "\<forall>u \<in> set visited. sv_current u = sv_current s" by blast
    moreover from this t have "sv_current t = sv_current s" by blast
    ultimately show ?thesis using step by simp blast
  qed
qed simp

text \<open>
  C26. Work may commit only if it saw one context throughout: when a capture still holds, every state
  since then had the identity and the signer of the capture, so no other context came and went in
  between. Switches may begin, overlap, fail and commit in any order.
\<close>

theorem capture_holds_throughout:
  assumes "supervisor_path s visited t" "canCommit (capture s) t" "u \<in> set visited"
  shows "sv_epoch u = sv_epoch s \<and> contextIdentityKey (sv_current u) = contextIdentityKey (sv_current s) \<and>
     signerScopeKey (sv_current u) = signerScopeKey (sv_current s)"
proof -
  have e: "sv_epoch t = sv_epoch s" using assms(2) by (simp add: canCommit_def capture_def)
  from supervisor_path_one_change [OF assms(1) e] assms(3)
  have "sv_current u = sv_current s \<or> sv_current u = sv_current t" by blast
  moreover have "sv_epoch u = sv_epoch s" using supervisor_path_epoch [OF assms(1,3)] e by simp
  ultimately show ?thesis using assms(2) by (auto simp: canCommit_def capture_def)
qed

section \<open>The last switch wins\<close>

text \<open>
  The switches that begin and resume, without failures, in whatever order.
\<close>

inductive switching :: "supervisor \<Rightarrow> TradingContextIdentity list \<Rightarrow> supervisor \<Rightarrow> bool" where
  none: "switching s [] s"
| request: "switching s cs t \<Longrightarrow> switching s (cs @ [c]) (switchContext c t)"
| finish: "switching s cs t \<Longrightarrow> (e, n) \<in> set (sv_waiting t) \<Longrightarrow>
     resumeSwitch None e n t = (outcome, hooks, u) \<Longrightarrow> switching s cs u"

lemma switching_ok: "switching s cs t \<Longrightarrow> supervisor_ok s \<Longrightarrow> supervisor_ok t"
  by (induction rule: switching.induct) (auto intro: supervisor_step_ok supervisor_step.intros)

lemma resume_last:
  assumes "supervisor_ok t" "(e, n) \<in> set (sv_waiting t)" "resumeSwitch None e n t = (outcome, hooks, u)"
    and "(sv_epoch t, m) \<in> set (sv_waiting t) \<or> sv_current t = m \<and> settled t"
  shows "(sv_epoch u, m) \<in> set (sv_waiting u) \<or> sv_current u = m \<and> settled u"
proof (cases "e = sv_epoch t")
  case True
  with assms(2) have "\<not> settled t" by (force simp: settled_def)
  with assms(4) True have "(e, m) \<in> set (sv_waiting t)" by blast
  with assms(1,2) have "n = m" unfolding supervisor_ok_def using eq_key_imp_eq_value by metis
  moreover have "sv_current u = n" "settled u"
    using assms(3) True by (auto simp: resumeSwitch_def settled_def)
  ultimately show ?thesis by simp
next
  case False
  then have u: "sv_epoch u = sv_epoch t" "sv_current u = sv_current t"
    "sv_waiting u = filter (\<lambda>w. fst w \<noteq> e) (sv_waiting t)"
    using assms(3) by (auto simp: resumeSwitch_def)
  show ?thesis
  proof (cases "settled t")
    case True
    then have "settled u" by (auto simp: settled_def u)
    moreover from True assms(4) have "sv_current t = m" by (force simp: settled_def)
    ultimately show ?thesis by (simp add: u)
  next
    case False
    with assms(4) \<open>e \<noteq> sv_epoch t\<close> show ?thesis by (auto simp: u)
  qed
qed

lemma switching_last:
  "switching s cs t \<Longrightarrow> supervisor_ok s \<Longrightarrow> cs \<noteq> [] \<Longrightarrow>
     (sv_epoch t, normalizeTradingContext (last cs)) \<in> set (sv_waiting t) \<or>
     sv_current t = normalizeTradingContext (last cs) \<and> settled t"
proof (induction rule: switching.induct)
  case (finish s cs t e n outcome hooks u)
  from resume_last [OF switching_ok [OF finish(1,5)] finish(2,3) finish.IH [OF finish(5,6)]] show ?case .
qed simp_all

text \<open>
  Whenever overlapping switches have all ended, the context is the one that was requested last,
  however they resumed.
\<close>

theorem last_switch_wins:
  assumes "switching (createContextSupervisor initial) cs s" "cs \<noteq> []" "sv_waiting s = []"
  shows "sv_current s = normalizeTradingContext (last cs) \<and> sv_epoch s = length cs"
proof -
  have "supervisor_ok (createContextSupervisor initial)"
    by (simp add: supervisor_ok_def createContextSupervisor_def)
  from switching_last [OF assms(1) this assms(2)] assms(3)
  have "sv_current s = normalizeTradingContext (last cs)" by simp
  moreover have "sv_epoch t = sv_epoch s0 + length cs" if "switching s0 cs t" for s0 cs t
    using that by (induction rule: switching.induct) (auto simp: resumeSwitch_result(1))
  with assms(1) have "sv_epoch s = length cs" by (force simp: createContextSupervisor_def)
  ultimately show ?thesis by simp
qed

section \<open>Reservations\<close>

text \<open>
  The running application lets a reservation commit only for the signer of the context that is
  shown, on a network that may trade, and in the epoch that the action was reviewed in.
\<close>

theorem reservation_is_for_the_shown_context:
  assumes "commitIfCurrent caps getAddress shown live b epoch = None"
  shows "epoch = int (sv_epoch live) \<and>
     (\<exists>m t s n. tc_masterAccount shown = Some m \<and> tc_targetAccount shown = Some t \<and> tc_signer shown = Some s \<and>
        hasTradingActionCapability caps (tc_network shown) = Inr True \<and>
        normalizeSignerBinding getAddress b = Inr n \<and>
        normalizeSignerBinding getAddress \<lparr>sb_network = tc_network shown, sb_masterAccount = m, sb_targetAccount = t,
          sb_agentAddress = si_agentAddress s, sb_generation = IntN (si_generation s)\<rparr> = Inr n)"
  using assms
  by (auto simp: commitIfCurrent_def Let_def capture_def bindingForContext_def assertSignerBinding_Inr
      split: sum.splits option.splits if_splits)

text \<open>The capture that the check asks about was taken in the same call, so that part always holds.\<close>

lemma fresh_capture_holds: "canCommit (capture s) s"
  by (simp add: canCommit_def capture_def)

section \<open>Concrete switches\<close>

definition sample_context :: "string \<Rightarrow> TradingContextIdentity" where
  "sample_context account =
     \<lparr>tc_network = Testnet, tc_masterAccount = Some account, tc_targetAccount = Some account,
      tc_signer = Some \<lparr>si_agentAddress = ''0xaa'', si_generation = 1\<rparr>\<rparr>"

lemma sample_lower: "toLowerCase (trim ''0xAB '') = ''0xab''" "toLowerCase (trim ''0xab'') = ''0xab''"
  "toLowerCase ''0xAB'' = ''0xab''" "toLowerCase ''0xab'' = ''0xab''" "toLowerCase ''0xaa'' = ''0xaa''"
  by code_simp+

theorem context_keys_name_the_context_witness:
  "contextIdentityKey (sample_context ''0xAB '') = contextIdentityKey (sample_context ''0xab'')"
  using context_keys_name_the_context [of "sample_context ''0xAB ''" "sample_context ''0xab''"]
  by (simp add: sample_context_def known_network_def normalizeTradingContext_def normalizeContextText_def
      sample_lower)

theorem capture_holds_throughout_witness:
  "contextIdentityKey (sv_current (switchContext (sample_context ''0xcd'') (createContextSupervisor (sample_context ''0xab'')))) =
   contextIdentityKey (normalizeTradingContext (sample_context ''0xab''))"
proof -
  let ?s = "switchContext (sample_context ''0xcd'') (createContextSupervisor (sample_context ''0xab''))"
  from capture_holds_throughout [OF here fresh_capture_holds, of ?s ?s] show ?thesis
    by (simp add: createContextSupervisor_def)
qed

text \<open>Two switches that overlap and resume in the opposite order.\<close>

definition overlapped :: supervisor where
  "overlapped =
     (let s = switchContext (sample_context ''0xef'') (switchContext (sample_context ''0xcd'')
                (createContextSupervisor (sample_context ''0xab'')));
          t = snd (snd (resumeSwitch None 2 (normalizeTradingContext (sample_context ''0xef'')) s)) in
      snd (snd (resumeSwitch None 1 (normalizeTradingContext (sample_context ''0xcd'')) t)))"

lemma overlapped_switching:
  "switching (createContextSupervisor (sample_context ''0xab'')) [sample_context ''0xcd'', sample_context ''0xef''] overlapped"
  "sv_waiting overlapped = []"
proof -
  let ?i = "createContextSupervisor (sample_context ''0xab'')"
  let ?s = "switchContext (sample_context ''0xef'') (switchContext (sample_context ''0xcd'') ?i)"
  have s: "switching ?i ([sample_context ''0xcd''] @ [sample_context ''0xef'']) ?s"
    using request [OF request [OF none [of ?i], of "sample_context ''0xcd''"]] by simp
  obtain o1 h1 t where t: "resumeSwitch None 2 (normalizeTradingContext (sample_context ''0xef'')) ?s = (o1, h1, t)"
    using prod_cases3 by blast
  obtain o2 h2 u where u: "resumeSwitch None 1 (normalizeTradingContext (sample_context ''0xcd'')) t = (o2, h2, u)"
    using prod_cases3 by blast
  have w: "sv_waiting t = [(1, normalizeTradingContext (sample_context ''0xcd''))]"
    using resumeSwitch_result(2) [OF t] by (simp add: createContextSupervisor_def)
  have "switching ?i ([sample_context ''0xcd''] @ [sample_context ''0xef'']) t"
    by (rule finish [OF s _ t]) (simp add: createContextSupervisor_def)
  then have "switching ?i ([sample_context ''0xcd''] @ [sample_context ''0xef'']) u"
    by (rule finish [OF _ _ u]) (simp add: w)
  moreover have "overlapped = u" unfolding overlapped_def Let_def t snd_conv u by (rule refl)
  moreover have "sv_waiting u = []" using resumeSwitch_result(2) [OF u] by (simp add: w)
  ultimately show "switching ?i [sample_context ''0xcd'', sample_context ''0xef''] overlapped"
    "sv_waiting overlapped = []" by simp_all
qed

theorem last_switch_wins_witness: "sv_current overlapped = normalizeTradingContext (sample_context ''0xef'')"
  using last_switch_wins [OF overlapped_switching(1) _ overlapped_switching(2)] by simp

theorem reservation_is_for_the_shown_context_witness:
  "commitIfCurrent ACTION_CAPABILITIES Some (sample_context ''0xab'') (createContextSupervisor (sample_context ''0xab''))
     \<lparr>sb_network = Testnet, sb_masterAccount = ''0xAB'', sb_targetAccount = ''0xab'', sb_agentAddress = ''0xaa'',
      sb_generation = IntN 1\<rparr> 0 = None \<and> hasTradingActionCapability ACTION_CAPABILITIES Testnet = Inr True"
proof -
  have c: "commitIfCurrent ACTION_CAPABILITIES Some (sample_context ''0xab'') (createContextSupervisor (sample_context ''0xab''))
     \<lparr>sb_network = Testnet, sb_masterAccount = ''0xAB'', sb_targetAccount = ''0xab'', sb_agentAddress = ''0xaa'',
      sb_generation = IntN 1\<rparr> 0 = None"
    by (simp add: commitIfCurrent_def Let_def bindingForContext_def hasTradingActionCapability_def sample_context_def
        assertSignerBinding_def normalizeSignerBinding_def safe_int_def max_safe_integer_def fresh_capture_holds
        sample_lower capture_def canCommit_def createContextSupervisor_def js_eq_IntN)
  from c reservation_is_for_the_shown_context [OF c] show ?thesis by (simp add: sample_context_def)
qed

end
