(* ===== verification/Reconciler.thy ===== *)
theory Reconciler
  imports Nonce_Repository
begin

text \<open>
  The reconciler of submitted actions: \<^verbatim>\<open>apps/mobile/src/features/actions/reconciler.ts\<close>. It
  leases an action, loads evidence from the exchange, and writes the decision of the policy into
  the journal if it still holds the lease. Loading takes time, in which other work goes on:
  \<open>meanwhile\<close> is what that does to the repository. The clock, the outcomes of the database engine
  and the evidence (\<open>None\<close> when loading fails) are arguments.
\<close>

section \<open>Decisions\<close>

datatype ActionReconcilerResult =
    Decided ReconciliationDecision
  | LeaseLost
  | NotReconcilable
  | AlreadyTerminal journal_state

datatype ReconciledActionPhase = ReconciledAccepted | ReconciledRejected | ReconciledExpired | ReconciledUnclear

text \<open>What the policy reads of a record; the intent of a stored record is a plain object.\<close>

definition policy_record :: "PreparedActionRecord \<Rightarrow> ReconciliationRecord" where
  "policy_record r =
     \<lparr>rr_network = r_network r, rr_masterAccount = r_masterAccount r, rr_targetAccount = r_targetAccount r,
      rr_actionType = r_actionType r, rr_assetId = map_option IntN (r_assetId r), rr_cloid = r_cloid r,
      rr_targetOid = map_option IntN (r_targetOid r), rr_expiresAfterMs = IntN (r_expiresAfterMs r),
      rr_intent = (case plain_object (r_intent r) of Some obj \<Rightarrow> obj | None \<Rightarrow> [])\<rparr>"

definition nextAttempt :: "PreparedActionRecord \<Rightarrow> int \<Rightarrow> int" where
  "nextAttempt record now =
     (let delay = min 30000 (1000 * 2 ^ nat (min (r_reconciliationAttempts record) 5));
          expiryProbeAt = plus_ms (r_expiresAfterMs record) 1000 in
      if now < expiryProbeAt then min (plus_ms now delay) expiryProbeAt
      else min (plus_ms now delay) (plus_ms now 1000))"

text \<open>The result class of one of the four decided states; the others are excluded by its type.\<close>

fun resultClass :: "journal_state \<Rightarrow> journal_result_class option" where
  "resultClass ReconciledAmbiguous = Some AmbiguousResult"
| "resultClass Accepted = Some AcceptedResult"
| "resultClass Rejected = Some RejectedResult"
| "resultClass Expired = Some ExpiredResult"
| "resultClass _ = None"

fun terminalPhase :: "journal_state \<Rightarrow> ReconciledActionPhase option" where
  "terminalPhase ReconciledAmbiguous = Some ReconciledUnclear"
| "terminalPhase Accepted = Some ReconciledAccepted"
| "terminalPhase Rejected = Some ReconciledRejected"
| "terminalPhase Expired = Some ReconciledExpired"
| "terminalPhase _ = None"

section \<open>One attempt\<close>

definition scheduleAfterFailure ::
    "engine \<Rightarrow> engine \<Rightarrow> string \<Rightarrow> int \<Rightarrow> PreparedActionRecord \<Rightarrow> ReconciliationLease \<Rightarrow> journal_repo \<Rightarrow>
     ActionReconcilerResult result \<times> journal_repo" where
  "scheduleAfterFailure e1 e2 owner now record lease repo =
     (case renewReconciliationLease e1 lease (IntN now) None repo of
        (Inl err, repo) \<Rightarrow> (Inl err, repo)
      | (Inr None, repo) \<Rightarrow> (Inr LeaseLost, repo)
      | (Inr (Some _), repo) \<Rightarrow>
          (case scheduleReconciliation e2 (r_journalId record) owner (IntN now) (IntN (nextAttempt record now)) repo of
             (Inl err, repo) \<Rightarrow> (Inl err, repo)
           | (Inr _, repo) \<Rightarrow> (Inr (Decided (StillUnresolved IncompleteEvidence)), repo)))"

text \<open>With what is published: the decision, when the action belongs to the active context.\<close>

definition reconcileClaim ::
    "address_parser \<Rightarrow> (PreparedActionRecord \<Rightarrow> bool) \<Rightarrow> engine \<Rightarrow> engine \<Rightarrow> string \<Rightarrow> int \<Rightarrow>
     PreparedActionRecord \<Rightarrow> ReconciliationLease \<Rightarrow> ReconciliationEvidence option \<Rightarrow> journal_repo \<Rightarrow>
     ActionReconcilerResult result \<times> ReconciliationDecision list \<times> journal_repo" where
  "reconcileClaim ga isActiveContext e1 e2 owner now record lease loaded repo =
     (case loaded of
        None \<Rightarrow>
          (case scheduleAfterFailure e1 e2 owner now record lease repo of (out, repo) \<Rightarrow> (out, [], repo))
      | Some evidence \<Rightarrow>
          (case renewReconciliationLease e1 lease (IntN now) None repo of
             (Inl err, repo) \<Rightarrow> (Inl err, [], repo)
           | (Inr None, repo) \<Rightarrow> (Inr LeaseLost, [], repo)
           | (Inr (Some _), repo) \<Rightarrow>
               (case decideReconciliation ga (policy_record record) evidence of
                  Inl err \<Rightarrow> (Inl err, [], repo)
                | Inr decision \<Rightarrow>
                    (case (case decision of
                             StillUnresolved _ \<Rightarrow>
                               scheduleReconciliation e2 (r_journalId record) owner (IntN now)
                                 (IntN (nextAttempt record now)) repo
                           | Terminal state \<Rightarrow>
                               transitionAction e2 (r_journalId record) state (resultClass state) (IntN now) repo) of
                       (Inl err, repo) \<Rightarrow> (Inl err, [], repo)
                     | (Inr _, repo) \<Rightarrow>
                         (Inr (Decided decision), if isActiveContext record then [decision] else [], repo)))))"

text \<open>The part of \<^verbatim>\<open>reconcile\<close> and \<^verbatim>\<open>reconcileNext\<close> before the evidence is loaded.\<close>

datatype claim = Finished ActionReconcilerResult | Claimed PreparedActionRecord ReconciliationLease | NothingToDo

definition startReconcile :: "engine \<Rightarrow> string \<Rightarrow> int \<Rightarrow> string \<Rightarrow> journal_repo \<Rightarrow> claim result \<times> journal_repo" where
  "startReconcile e owner now journalId repo =
     (case getAction journalId (database repo) of
        Inl err \<Rightarrow> (Inl err, repo)
      | Inr None \<Rightarrow> (Inr (Finished NotReconcilable), repo)
      | Inr (Some record) \<Rightarrow>
          if isTerminalJournalState (r_state record) then (Inr (Finished (AlreadyTerminal (r_state record))), repo)
          else if r_state record \<noteq> SubmissionStarted \<and> r_state record \<noteq> Unresolved
          then (Inr (Finished NotReconcilable), repo)
          else
            (case claimReconciliationLease e (r_journalId record) owner (IntN now) None repo of
               (Inl err, repo) \<Rightarrow> (Inl err, repo)
             | (Inr None, repo) \<Rightarrow> (Inr (Finished LeaseLost), repo)
             | (Inr (Some lease), repo) \<Rightarrow> (Inr (Claimed record lease), repo)))"

definition startReconcileNext :: "engine \<Rightarrow> string \<Rightarrow> int \<Rightarrow> journal_repo \<Rightarrow> claim result \<times> journal_repo" where
  "startReconcileNext e owner now repo =
     (case claimNextReconciliation e owner (IntN now) None repo of
        (Inl err, repo) \<Rightarrow> (Inl err, repo)
      | (Inr None, repo) \<Rightarrow> (Inr NothingToDo, repo)
      | (Inr (Some (record, lease)), repo) \<Rightarrow> (Inr (Claimed record lease), repo))"

text \<open>
  The environment of one attempt: the clock and the engine at its three calls, the evidence source,
  and the other work while the evidence is loaded.
\<close>

record reconcile_env =
  re_getAddress :: address_parser
  re_owner :: string
  re_startTime :: int
  re_finishTime :: int
  re_engines :: "engine \<times> engine \<times> engine"
  re_load :: "PreparedActionRecord \<Rightarrow> ReconciliationEvidence option"
  re_isActiveContext :: "PreparedActionRecord \<Rightarrow> bool"
  re_meanwhile :: "journal_repo \<Rightarrow> journal_repo"

definition finishReconcile ::
    "reconcile_env \<Rightarrow> claim result \<times> journal_repo \<Rightarrow>
     ActionReconcilerResult option result \<times> ReconciliationDecision list \<times> journal_repo" where
  "finishReconcile env started =
     (case started of
        (Inl err, repo) \<Rightarrow> (Inl err, [], repo)
      | (Inr (Finished out), repo) \<Rightarrow> (Inr (Some out), [], repo)
      | (Inr NothingToDo, repo) \<Rightarrow> (Inr None, [], repo)
      | (Inr (Claimed record lease), repo) \<Rightarrow>
          (case re_engines env of (_, e1, e2) \<Rightarrow>
             case reconcileClaim (re_getAddress env) (re_isActiveContext env) e1 e2 (re_owner env)
                    (re_finishTime env) record lease (re_load env record) (re_meanwhile env repo) of
               (Inl err, published, repo) \<Rightarrow> (Inl err, published, repo)
             | (Inr out, published, repo) \<Rightarrow> (Inr (Some out), published, repo)))"

definition reconcile ::
    "reconcile_env \<Rightarrow> string \<Rightarrow> journal_repo \<Rightarrow>
     ActionReconcilerResult option result \<times> ReconciliationDecision list \<times> journal_repo" where
  "reconcile env journalId repo =
     finishReconcile env (startReconcile (fst (re_engines env)) (re_owner env) (re_startTime env) journalId repo)"

definition reconcileNext ::
    "reconcile_env \<Rightarrow> journal_repo \<Rightarrow>
     ActionReconcilerResult option result \<times> ReconciliationDecision list \<times> journal_repo" where
  "reconcileNext env repo =
     finishReconcile env (startReconcileNext (fst (re_engines env)) (re_owner env) (re_startTime env) repo)"

section \<open>Repeated attempts\<close>

definition DEFAULT_MAX_FOREGROUND_ATTEMPTS :: int where
  "DEFAULT_MAX_FOREGROUND_ATTEMPTS = 10"

definition LEASE_RETRY_MS :: int where
  "LEASE_RETRY_MS = 250"

text \<open>
  One round of the loop: whether to continue, before and after the wait, the clock, the other work
  during the two waits, and the attempt.
\<close>

record round =
  ro_continueBefore :: bool
  ro_now :: int
  ro_whileWaiting :: "journal_repo \<Rightarrow> journal_repo"
  ro_continueAfter :: bool
  ro_attempt :: reconcile_env
  ro_whileRetrying :: "journal_repo \<Rightarrow> journal_repo"

text \<open>The loop, with the milliseconds of its waits.\<close>

fun reconcileRounds ::
    "string \<Rightarrow> round list \<Rightarrow> journal_repo \<Rightarrow> ReconciledActionPhase option result \<times> int list \<times> journal_repo" where
  "reconcileRounds journalId [] repo = (Inr None, [], repo)"
| "reconcileRounds journalId (r # rounds) repo =
     (if \<not> ro_continueBefore r then (Inr None, [], repo)
      else case getAction journalId (database repo) of
        Inl err \<Rightarrow> (Inl err, [], repo)
      | Inr None \<Rightarrow> (Inr None, [], repo)
      | Inr (Some record) \<Rightarrow>
          if terminalPhase (r_state record) \<noteq> None then (Inr (terminalPhase (r_state record)), [], repo)
          else if r_state record \<noteq> SubmissionStarted \<and> r_state record \<noteq> Unresolved then (Inr None, [], repo)
          else
            let waitMs = max 0 (r_nextReconciliationAt record - ro_now r);
                waits = (if waitMs > 0 then [waitMs] else []);
                repo = (if waitMs > 0 then ro_whileWaiting r repo else repo) in
            if \<not> ro_continueAfter r then (Inr None, waits, repo)
            else
              (case reconcile (ro_attempt r) journalId repo of
                 (Inl err, _, repo) \<Rightarrow> (Inl err, waits, repo)
               | (Inr (Some (Decided (Terminal state))), _, repo) \<Rightarrow> (Inr (terminalPhase state), waits, repo)
               | (Inr (Some (AlreadyTerminal state)), _, repo) \<Rightarrow> (Inr (terminalPhase state), waits, repo)
               | (Inr (Some NotReconcilable), _, repo) \<Rightarrow> (Inr None, waits, repo)
               | (Inr (Some LeaseLost), _, repo) \<Rightarrow>
                   (case reconcileRounds journalId rounds (ro_whileRetrying r repo) of
                      (out, later, repo) \<Rightarrow> (out, waits @ LEASE_RETRY_MS # later, repo))
               | (Inr _, _, repo) \<Rightarrow>
                   (case reconcileRounds journalId rounds repo of
                      (out, later, repo) \<Rightarrow> (out, waits @ later, repo))))"

definition createActionReconciliationPort :: "js_number option \<Rightarrow> nat result" where
  "createActionReconciliationPort maxAttemptsArg =
     (case (case maxAttemptsArg of Some m \<Rightarrow> m | None \<Rightarrow> IntN DEFAULT_MAX_FOREGROUND_ATTEMPTS) of
        IntN m \<Rightarrow> (if \<not> safe_int m \<or> m < 1 then Inl (TypeErr ''maxAttempts must be a positive integer.'')
                   else Inr (nat m))
      | _ \<Rightarrow> Inl (TypeErr ''maxAttempts must be a positive integer.''))"

text \<open>The port's \<^verbatim>\<open>reconcile\<close>: at most as many rounds as attempts are allowed.\<close>

definition portReconcile ::
    "nat \<Rightarrow> string \<Rightarrow> round list \<Rightarrow> journal_repo \<Rightarrow>
     ReconciledActionPhase option result \<times> int list \<times> journal_repo" where
  "portReconcile maxAttempts journalId rounds repo = reconcileRounds journalId (take maxAttempts rounds) repo"

end
