(* ===== verification/Reconciler_Laws.thy ===== *)
theory Reconciler_Laws
  imports Reconciler Recovery
begin

text \<open>
  What an attempt of the reconciler does to the journal: who holds the lease can always write its
  decision, and nobody else can.
\<close>

section \<open>Writing one row\<close>

definition put_row :: "PreparedActionRecord \<Rightarrow> journal_db \<Rightarrow> journal_db" where
  "put_row r' d = d\<lparr>action_journal :=
     map (\<lambda>q. if r_journalId q = r_journalId r' then r' else q) (action_journal d)\<rparr>"

lemma put_row_ok:
  assumes "journal_ok d" "row_of d (r_journalId r) = Some r" "frozen r' = frozen r" "valid_row r'"
    and "isTerminalJournalState (r_state r) \<longrightarrow> isTerminalJournalState (r_state r')"
  shows "journal_ok (put_row r' d)" "row_of (put_row r' d) (r_journalId r) = Some r'"
    "action_journal (put_row r' d) = map (\<lambda>q. if q = r then r' else q) (action_journal d)"
proof -
  have i: "r_journalId r' = r_journalId r" using frozen_keys(1) [OF assms(3)] .
  have same: "q = r" if "q \<in> set (action_journal d)" "r_journalId q = r_journalId r" for q
    using row_unique [OF _ assms(2) that] assms(1) by (auto simp: journal_ok_def)
  show m: "action_journal (put_row r' d) = map (\<lambda>q. if q = r then r' else q) (action_journal d)"
    unfolding put_row_def by (simp add: i) (metis same)
  have "actions_constraints (signer_scopes d) (map (\<lambda>q. if q = r then r' else q) (action_journal d))"
    using assms(1,3,5) by (intro constraints_map) (auto simp: journal_ok_def)
  then show ok: "journal_ok (put_row r' d)"
    using assms(1,4) m by (auto simp: journal_ok_def) (simp_all add: put_row_def)
  have "r \<in> set (action_journal d)" using row_of_SomeD [OF assms(2)] by blast
  then have "r' \<in> set (action_journal (put_row r' d))" unfolding m by force
  from row_of_member [OF ok this] show "row_of (put_row r' d) (r_journalId r) = Some r'" by (simp add: i)
qed

text \<open>An update of one row that leaves it valid and revives nothing always succeeds.\<close>

lemma update_one_total:
  assumes ok: "journal_ok d" and r: "row_of d i = Some r"
    and p: "p r" "\<And>q. p q \<Longrightarrow> r_journalId q = i" and f: "frozen (f r) = frozen r" "valid_row (f r)"
    and t: "isTerminalJournalState (r_state r) \<longrightarrow> isTerminalJournalState (r_state (f r))"
  shows "update_actions p f d = Inr (1, put_row (f r) d)" "journal_ok (put_row (f r) d)"
    "row_of (put_row (f r) d) i = Some (f r)" "requireAction i (put_row (f r) d) = Inr (f r)"
proof -
  have i: "r_journalId r = i" using p by blast
  have mem: "r \<in> set (action_journal d)" using row_of_SomeD [OF r] by blast
  have same: "q = r" if "q \<in> set (action_journal d)" "r_journalId q = i" for q
    using row_unique [OF _ r that] ok by (auto simp: journal_ok_def)
  note put = put_row_ok [OF ok r [folded i] f t]
  have is_r: "p q \<longleftrightarrow> q = r" if "q \<in> set (action_journal d)" for q
    using that same [OF that] p by metis
  have "filter p (action_journal d) = filter (\<lambda>q. r_journalId q = r_journalId r) (action_journal d)"
    by (intro filter_cong refl) (metis is_r same i)
  also have "\<dots> = [r]"
    using ok mem by (intro distinct_filter_key) (simp_all add: journal_ok_def actions_constraints_def)
  finally have one: "filter p (action_journal d) = [r]" .
  have m: "map (\<lambda>q. if p q then f q else q) (action_journal d) = action_journal (put_row (f r) d)"
    unfolding put(3) by (intro map_cong refl) (simp add: is_r)
  moreover have "d\<lparr>action_journal := action_journal (put_row (f r) d)\<rparr> = put_row (f r) d" by (simp add: put_row_def)
  moreover have "actions_constraints (signer_scopes d) (action_journal (put_row (f r) d))"
    using put(1) by (simp add: journal_ok_def) (simp add: put_row_def)
  ultimately show "update_actions p f d = Inr (1, put_row (f r) d)"
    unfolding update_actions_def Let_def m one by simp
  show "journal_ok (put_row (f r) d)" "row_of (put_row (f r) d) i = Some (f r)"
    using put(1,2) i by simp_all
  then show "requireAction i (put_row (f r) d) = Inr (f r)" using f(2) by (simp add: requireAction_Inr)
qed

lemma put_row_twice:
  assumes "r_journalId a = r_journalId b"
  shows "put_row a (put_row b d) = put_row a d"
  using assms by (simp add: put_row_def comp_def if_distrib cong: if_cong)

section \<open>The operations of who holds the lease\<close>

text \<open>The lease as the row records it, still running at \<open>now\<close>; the clock far from the largest safe integer.\<close>

definition holds_at :: "ReconciliationLease \<Rightarrow> int \<Rightarrow> PreparedActionRecord \<Rightarrow> bool" where
  "holds_at lease now r \<longleftrightarrow> holds_lease lease r \<and> now < l_expiresAt lease \<and> 0 \<le> now \<and> now + 60000 \<le> max_safe_integer"

lemma near_now:
  assumes "0 \<le> now" "now + 60000 \<le> max_safe_integer" "0 \<le> k" "k \<le> 60000"
  shows "safe_int now" "safe_int (now + k)" "plus_ms now k = now + k"
  using assms by (auto simp: safe_int_def max_safe_integer_def plus_ms_def)

lemma lease_held:
  assumes "valid_row r" "holds_at lease now r"
  shows "assertLeaseOwner (l_owner lease) = Inr ()" "reconcilable (r_state r)" "0 \<le> l_expiresAt lease"
  using assms valid_row_marker(2) [OF assms(1)]
  by (auto simp: holds_at_def holds_lease_def valid_row_def fromRow_Inr assertStoredRecord_def result_simps)

definition renewed :: "int \<Rightarrow> PreparedActionRecord \<Rightarrow> PreparedActionRecord" where
  "renewed now r = r\<lparr>r_leaseExpiresAt := Some (now + 30000), r_updatedAt := now\<rparr>"

lemma renew_total:
  assumes ok: "journal_ok (database repo)" and r: "row_of (database repo) (l_journalId lease) = Some r"
    and h: "holds_at lease now r"
  shows "renewReconciliationLease Commits lease (IntN now) None repo =
      (Inr (Some (lease\<lparr>l_expiresAt := now + 30000\<rparr>)), repo\<lparr>database := put_row (renewed now r) (database repo)\<rparr>)"
    "journal_ok (put_row (renewed now r) (database repo))"
    "row_of (put_row (renewed now r) (database repo)) (l_journalId lease) = Some (renewed now r)"
    "holds_at (lease\<lparr>l_expiresAt := now + 30000\<rparr>) now (renewed now r)"
proof -
  have v: "valid_row r" using ok row_of_SomeD [OF r] by (auto simp: journal_ok_def)
  note n = near_now [of now 30000] lease_held [OF v h]
  have now: "0 \<le> now" "now + 60000 \<le> max_safe_integer" using h by (auto simp: holds_at_def)
  have terms: "lease_terms (l_owner lease) (IntN now) None = Inr (now, now + 30000)"
    using n now by (simp add: lease_terms_def assertTime_def leaseDuration_def safe_int_def max_safe_integer_def)
  let ?p = "\<lambda>q. holds_lease lease q \<and> l_expiresAt lease > now"
  let ?f = "\<lambda>q. q\<lparr>r_leaseExpiresAt := Some (now + 30000), r_updatedAt := now\<rparr>"
  have fr: "?f r = renewed now r" by (simp add: renewed_def)
  have "valid_row (renewed now r)"
    using v h n now by (simp add: renewed_def valid_row_def fromRow_Inr assertStoredRecord_def result_simps
        holds_at_def holds_lease_def cong: option.case_cong)
  then have u: "update_actions ?p ?f (database repo) = Inr (1, put_row (renewed now r) (database repo)) \<and>
      journal_ok (put_row (renewed now r) (database repo)) \<and>
      row_of (put_row (renewed now r) (database repo)) (l_journalId lease) = Some (renewed now r)"
    using update_one_total [OF ok r, of ?p ?f] h by (simp add: fr holds_at_def holds_lease_def) (simp add: renewed_def)
  then show "journal_ok (put_row (renewed now r) (database repo))"
    "row_of (put_row (renewed now r) (database repo)) (l_journalId lease) = Some (renewed now r)" by blast+
  show "renewReconciliationLease Commits lease (IntN now) None repo =
      (Inr (Some (lease\<lparr>l_expiresAt := now + 30000\<rparr>)), repo\<lparr>database := put_row (renewed now r) (database repo)\<rparr>)"
    using u by (simp add: renewReconciliationLease_def terms statement_def)
  show "holds_at (lease\<lparr>l_expiresAt := now + 30000\<rparr>) now (renewed now r)"
    using h by (simp add: holds_at_def holds_lease_def renewed_def)
qed

text \<open>The row with a decision, and the row put off.\<close>

definition decided_row :: "int \<Rightarrow> journal_state \<Rightarrow> PreparedActionRecord \<Rightarrow> PreparedActionRecord" where
  "decided_row now s r = r\<lparr>r_state := s, r_lastResultClass := resultClass s, r_leaseOwner := None,
     r_leaseExpiresAt := None, r_updatedAt := now\<rparr>"

definition deferred_row :: "int \<Rightarrow> int \<Rightarrow> PreparedActionRecord \<Rightarrow> PreparedActionRecord" where
  "deferred_row now t r = r\<lparr>r_state := Unresolved, r_lastResultClass := Some UnresolvedResult,
     r_reconciliationAttempts := r_reconciliationAttempts r + 1, r_nextReconciliationAt := t,
     r_leaseOwner := None, r_leaseExpiresAt := None, r_updatedAt := now\<rparr>"

lemma transition_total:
  assumes ok: "journal_ok (database repo)" and r: "row_of (database repo) i = Some r"
    and st: "reconcilable (r_state r)" and s: "s \<in> {Accepted, Rejected, Expired, ReconciledAmbiguous}"
    and now: "safe_int now" "0 \<le> now"
  shows "transitionAction Commits i s (resultClass s) (IntN now) repo =
      (Inr (decided_row now s r), forget i (repo\<lparr>database := put_row (decided_row now s r) (database repo)\<rparr>))"
    "journal_ok (put_row (decided_row now s r) (database repo))"
    "row_of (put_row (decided_row now s r) (database repo)) i = Some (decided_row now s r)"
proof -
  let ?d = "database repo"
  have v: "valid_row r" using ok row_of_SomeD [OF r] by (auto simp: journal_ok_def)
  have i: "r_journalId r = i" using row_of_SomeD [OF r] by blast
  have s': "resultClass s = RESULT_FOR_STATE s" "s \<in> set (ALLOWED_TRANSITIONS (r_state r))"
    "isTerminalJournalState s" "s \<in> set JOURNAL_STATES" "\<not> not_submitted s"
    using s st by (auto simp: reconcilable_def isTerminalJournalState_def TERMINAL_JOURNAL_STATES_def JOURNAL_STATES_def
        not_submitted_def)
  have ns: "\<not> not_submitted (r_state r)" using st by (auto simp: reconcilable_def not_submitted_def)
  have vd: "valid_row (decided_row now s r)"
    using v s' now ns by (auto simp: decided_row_def valid_row_def fromRow_Inr assertStoredRecord_def result_simps
        split: option.splits)
  let ?p = "\<lambda>q. r_journalId q = i \<and> r_state q = r_state r"
  let ?f = "\<lambda>q. q\<lparr>r_state := s, r_lastResultClass := resultClass s, r_leaseOwner := None,
      r_leaseExpiresAt := None, r_updatedAt := now\<rparr>"
  have fr: "?f r = decided_row now s r" by (simp add: decided_row_def)
  have u: "update_actions ?p ?f ?d = Inr (1, put_row (decided_row now s r) ?d)"
    "journal_ok (put_row (decided_row now s r) ?d)"
    "row_of (put_row (decided_row now s r) ?d) i = Some (decided_row now s r)"
    "requireAction i (put_row (decided_row now s r) ?d) = Inr (decided_row now s r)"
    using update_one_total [OF ok r, of ?p ?f] i vd s'(3) unfolding fr by (simp_all add: decided_row_def)
  show "journal_ok (put_row (decided_row now s r) ?d)"
    "row_of (put_row (decided_row now s r) ?d) i = Some (decided_row now s r)" by (fact u)+
  have "requireAction i ?d = Inr r" using r v by (simp add: requireAction_Inr)
  then have "moveAction i s (resultClass s) now ?d = Inr (decided_row now s r, put_row (decided_row now s r) ?d)"
    using u(1,4) s' by (simp add: moveAction_def assertJournalTransition_def assertJournalResultClass_def)
  then show "transitionAction Commits i s (resultClass s) (IntN now) repo =
      (Inr (decided_row now s r), forget i (repo\<lparr>database := put_row (decided_row now s r) ?d\<rparr>))"
    using now by (simp add: transitionAction_def assertTime_def immediate_def not_less)
qed

lemma schedule_total:
  assumes ok: "journal_ok (database repo)" and r: "row_of (database repo) (l_journalId lease) = Some r"
    and h: "holds_at lease now r" and t: "now \<le> t" "safe_int t"
    and a: "r_reconciliationAttempts r < max_safe_integer"
  shows "scheduleReconciliation Commits (l_journalId lease) (l_owner lease) (IntN now) (IntN t) repo =
      (Inr (deferred_row now t r), repo\<lparr>database := put_row (deferred_row now t r) (database repo)\<rparr>)"
    "journal_ok (put_row (deferred_row now t r) (database repo))"
    "row_of (put_row (deferred_row now t r) (database repo)) (l_journalId lease) = Some (deferred_row now t r)"
proof -
  let ?d = "database repo" and ?i = "l_journalId lease"
  have v: "valid_row r" using ok row_of_SomeD [OF r] by (auto simp: journal_ok_def)
  note l = lease_held [OF v h]
  have now: "0 \<le> now" "safe_int now" using h near_now(1) [of now 0] by (auto simp: holds_at_def)
  have i: "r_journalId r = ?i" "r_leaseOwner r = Some (l_owner lease)" "r_leaseExpiresAt r = Some (l_expiresAt lease)"
    "now < l_expiresAt lease" using h by (auto simp: holds_at_def holds_lease_def)
  have ns: "\<not> not_submitted (r_state r)" "\<not> isTerminalJournalState (r_state r)"
    using l(2) by (auto simp: reconcilable_def not_submitted_def isTerminalJournalState_def TERMINAL_JOURNAL_STATES_def)
  have fields: "record_fields (deferred_row now t r) = record_fields r"
    by (simp add: deferred_row_def record_fields_def)
  have "safe_int (r_reconciliationAttempts r + 1)" "0 \<le> r_reconciliationAttempts r"
    using v a by (auto simp: valid_row_def fromRow_Inr assertStoredRecord_def result_simps safe_int_def)
  then have vd: "valid_row (deferred_row now t r)"
    using v now t ns(1) unfolding valid_row_def fromRow_Inr assertStoredRecord_def fields
    by (auto simp: deferred_row_def result_simps JOURNAL_STATES_def not_submitted_def split: option.splits)
  let ?p = "\<lambda>q. r_journalId q = ?i \<and> r_leaseOwner q = Some (l_owner lease) \<and>
      (case r_leaseExpiresAt q of None \<Rightarrow> False | Some e \<Rightarrow> e > now)"
  let ?f = "\<lambda>q. q\<lparr>r_state := Unresolved, r_lastResultClass := Some UnresolvedResult,
      r_reconciliationAttempts := r_reconciliationAttempts q + 1, r_nextReconciliationAt := t,
      r_leaseOwner := None, r_leaseExpiresAt := None, r_updatedAt := now\<rparr>"
  have fr: "?f r = deferred_row now t r" by (simp add: deferred_row_def)
  have fz: "frozen (deferred_row now t r) = frozen r" by (simp add: deferred_row_def)
  have u: "update_actions ?p ?f ?d = Inr (1, put_row (deferred_row now t r) ?d)"
    "journal_ok (put_row (deferred_row now t r) ?d)"
    "row_of (put_row (deferred_row now t r) ?d) ?i = Some (deferred_row now t r)"
    "requireAction ?i (put_row (deferred_row now t r) ?d) = Inr (deferred_row now t r)"
    using update_one_total [OF ok r, of ?p ?f] i vd ns(2) fz unfolding fr by simp_all
  show "journal_ok (put_row (deferred_row now t r) ?d)"
    "row_of (put_row (deferred_row now t r) ?d) ?i = Some (deferred_row now t r)" by (fact u)+
  have "requireAction ?i ?d = Inr r" using r v by (simp add: requireAction_Inr)
  then have "scheduleAction ?i (l_owner lease) now t ?d = Inr (deferred_row now t r, put_row (deferred_row now t r) ?d)"
    using u(1,4) i by (simp add: scheduleAction_def)
  then show "scheduleReconciliation Commits ?i (l_owner lease) (IntN now) (IntN t) repo =
      (Inr (deferred_row now t r), repo\<lparr>database := put_row (deferred_row now t r) ?d\<rparr>)"
    using now t l(1) by (simp add: scheduleReconciliation_def assertTime_def immediate_def not_less)
qed

section \<open>When the next attempt is made\<close>

lemma attempt_delay:
  assumes "0 \<le> attempts"
  shows "1000 \<le> min 30000 (1000 * 2 ^ nat (min attempts 5) :: int)"
  using one_le_power [of "2 :: int" "nat (min attempts 5)"] by simp

lemma nextAttempt_bounds:
  assumes "0 \<le> now" "now + 60000 \<le> max_safe_integer" "0 \<le> r_reconciliationAttempts r"
    and "0 \<le> r_expiresAfterMs r" "r_expiresAfterMs r + 1000 \<le> max_safe_integer"
  shows "now < nextAttempt r now" "nextAttempt r now \<le> now + 30000"
    "now < r_expiresAfterMs r + 1000 \<Longrightarrow> nextAttempt r now \<le> r_expiresAfterMs r + 1000"
    "r_expiresAfterMs r + 1000 \<le> now \<Longrightarrow> nextAttempt r now = now + 1000"
proof -
  define delay where "delay = min 30000 (1000 * 2 ^ nat (min (r_reconciliationAttempts r) 5) :: int)"
  have d: "1000 \<le> delay" "delay \<le> 30000" using attempt_delay [OF assms(3)] by (simp_all add: delay_def)
  have p: "plus_ms now delay = now + delay" "plus_ms now 1000 = now + 1000"
    using near_now(3) [OF assms(1,2), of delay] near_now(3) [OF assms(1,2), of 1000] d by simp_all
  have e: "plus_ms (r_expiresAfterMs r) 1000 = r_expiresAfterMs r + 1000"
    using assms(4,5) by (simp add: plus_ms_def max_safe_integer_def)
  have n: "nextAttempt r now = (if now < r_expiresAfterMs r + 1000 then min (now + delay) (r_expiresAfterMs r + 1000)
      else min (now + delay) (now + 1000))"
    by (simp add: nextAttempt_def Let_def e p(2) delay_def [symmetric] p(1))
  show "now < nextAttempt r now" "nextAttempt r now \<le> now + 30000"
    "now < r_expiresAfterMs r + 1000 \<Longrightarrow> nextAttempt r now \<le> r_expiresAfterMs r + 1000"
    "r_expiresAfterMs r + 1000 \<le> now \<Longrightarrow> nextAttempt r now = now + 1000"
    using d by (auto simp: n)
qed

text \<open>
  The next attempt is after now and within thirty seconds. Before the expiry it is no later than a
  second after the expiry, and from then on exactly one second away.
\<close>

theorem next_attempt_is_soon:
  assumes "0 \<le> now" "now + 60000 \<le> max_safe_integer" "0 \<le> r_reconciliationAttempts r"
    and "0 \<le> r_expiresAfterMs r" "r_expiresAfterMs r + 1000 \<le> max_safe_integer"
  shows "now < nextAttempt r now \<and> nextAttempt r now \<le> now + 30000 \<and>
     (if now < r_expiresAfterMs r + 1000 then nextAttempt r now \<le> r_expiresAfterMs r + 1000
      else nextAttempt r now = now + 1000)"
  using nextAttempt_bounds [OF assms] by auto

theorem next_attempt_is_soon_witness:
  "1500 < nextAttempt sample_row 1500 \<and> nextAttempt sample_row 1500 \<le> 31500"
proof -
  have "r_reconciliationAttempts sample_row = 0"
    by (simp add: sample_row_def prepared_row_def sample_reservation_def Let_def)
  with next_attempt_is_soon [of 1500 sample_row] show ?thesis by (simp add: max_safe_integer_def)
qed

end
