(* ===== verification/Repository_Properties.thy ===== *)
theory Repository_Properties
  imports Sample_Device
begin

text \<open>
  What holds of every run of a device: the well-formedness of its database, one transport permit
  per action, increasing nonces, and the end of a signer's life.
\<close>

section \<open>The device as a machine\<close>

definition submitted :: "device \<Rightarrow> string \<Rightarrow> bool" where
  "submitted v i \<longleftrightarrow> (\<exists>r. row_of (dev_database v) i = Some r \<and> r_state r \<noteq> Prepared)"

fun granted :: "outcome \<Rightarrow> string option" where
  "granted (Permitted r p) = Some (permit_journalId p)"
| "granted _ = None"

definition nonce_covered :: "device \<Rightarrow> network \<times> string \<Rightarrow> int \<Rightarrow> bool" where
  "nonce_covered v k n \<longleftrightarrow> (\<exists>s m. scope (fst k) (snd k) (dev_database v) = Some s \<and>
     s_last_issued_nonce s = Some m \<and> n \<le> m)"

fun issued_nonce :: "outcome \<Rightarrow> ((network \<times> string) \<times> int) option" where
  "issued_nonce (Reserved r) = Some ((r_network r, r_agentAddress r), r_nonce r)"
| "issued_nonce _ = None"

lemma steps_stage: "journal_step\<^sup>*\<^sup>* s t \<Longrightarrow> stage s \<le> stage t"
  by (induction rule: rtranclp_induct) (auto dest: journal_step_stage)

lemma submitted_stays: "lawful (dev_database v) (dev_database v') \<Longrightarrow> submitted v i \<Longrightarrow> submitted v' i"
proof -
  assume l: "lawful (dev_database v) (dev_database v')" and "submitted v i"
  then obtain r where r: "row_of (dev_database v) i = Some r" "r_state r \<noteq> Prepared"
    by (auto simp: submitted_def)
  from l r(1) obtain r' where r': "row_of (dev_database v') i = Some r'" "evolved r r'"
    by (auto simp: lawful_def evolves_def)
  from r'(2) have "stage (r_state r) \<le> stage (r_state r')" by (auto simp: evolved_def steps_stage)
  then have "r_state r' \<noteq> Prepared" using r(2) by (cases "r_state r") auto
  with r'(1) show "submitted v' i" by (auto simp: submitted_def)
qed

lemma permit_fresh:
  assumes "markSubmissionStarted e i t repo = (Inr (r, p), repo')"
  shows "permit_journalId p = i \<and> (\<exists>r0. row_of (database repo) i = Some r0 \<and> r_state r0 = Prepared) \<and>
    (\<exists>r1. row_of (database repo') i = Some r1 \<and> r_state r1 = SubmissionStarted)"
proof -
  from assms obtain now q q' where
    m: "immediate e (startSubmission i now) q = (Inr r, q')" "database q = database repo"
      "database repo' = database q'" "p = createTransportWritePermit i"
    by (auto simp: markSubmissionStarted_def Let_def split: sum.splits prod.splits option.splits if_splits)
  from m(1) have "startSubmission i now (database q) = Inr (r, database q')"
    by (auto simp: immediate_Inr)
  then show ?thesis
    by (rule startSubmission_Inr)
      (use m in \<open>auto simp: createTransportWritePermit_def mayMarkSubmissionStarted_def\<close>)
qed

lemma report_cases:
  assumes "report f m = (out, repo')"
  obtains e where "m = (Inl e, repo')" "out = Refused e" | x where "m = (Inr x, repo')" "out = f x"
  using assms by (cases m; cases "fst m") (auto simp: report_def)

lemma permitted_call:
  assumes "run_call env c repo = (Permitted r q, repo')"
  shows "\<exists>e j t. markSubmissionStarted e j t repo = (Inr (r, q), repo')"
proof (cases c)
  case (MarkSubmissionStarted e j t)
  with assms show ?thesis by (auto elim!: report_cases split: prod.splits)
qed (use assms in \<open>auto elim: report_cases\<close>)

lemma reserved_call:
  assumes "run_call env c repo = (Reserved r, repo')"
  shows "\<exists>e inp. reservePreparedAction env e inp repo = (Inr r, repo')"
proof (cases c)
  case (ReservePreparedAction e inp)
  with assms show ?thesis by (auto elim!: report_cases)
qed (use assms in \<open>auto elim: report_cases split: prod.splits\<close>)

lemma device_call:
  assumes "device_step env (Call p c) v = (out, v')"
  obtains repo' where
    "run_call env c \<lparr>database = dev_database v, preparedInThisProcess = dev_processes v p\<rparr> = (out, repo')"
    "dev_database v' = database repo'"
    "dev_processes v' = (dev_processes v)(p := preparedInThisProcess repo')"
proof (cases "run_call env c \<lparr>database = dev_database v, preparedInThisProcess = dev_processes v p\<rparr>")
  case (Pair o1 repo')
  with assms show thesis by (intro that [of repo']) auto
qed

lemma grant_is_fresh:
  assumes "device_step env ev v = (out, v')" "granted out = Some i"
  shows "\<not> submitted v i \<and> submitted v' i"
proof (cases ev)
  case (Call p c)
  let ?repo = "\<lparr>database = dev_database v, preparedInThisProcess = dev_processes v p\<rparr>"
  obtain r q where o: "out = Permitted r q" "permit_journalId q = i" using assms(2) by (cases out) auto
  from assms(1) [unfolded Call o(1)] obtain repo' where "run_call env c ?repo = (Permitted r q, repo')"
    and i: "dev_database v' = database repo'"
    by (rule device_call)
  then obtain e j t where "markSubmissionStarted e j t ?repo = (Inr (r, q), repo')"
    using permitted_call by blast
  from permit_fresh [OF this] o i show ?thesis by (auto simp: submitted_def)
qed (use assms in auto)

lemma nonce_covered_stays:
  assumes "lawful (dev_database v) (dev_database v')" "nonce_covered v k n"
  shows "nonce_covered v' k n"
proof -
  from assms(2) obtain s m where s: "scope (fst k) (snd k) (dev_database v) = Some s"
    "s_last_issued_nonce s = Some m" "n \<le> m" by (auto simp: nonce_covered_def)
  from assms(1) s(1) obtain s' where "scope (fst k) (snd k) (dev_database v') = Some s'" "scope_advances s s'"
    unfolding lawful_def scopes_advance_def by blast
  with s(2,3) show ?thesis by (force simp: nonce_covered_def scope_advances_def)
qed

lemma reserve_covers:
  assumes "reserve env b epoch clock a d = Inr (r, d')" "db_ok d"
  shows "(\<exists>s. scope (r_network r) (r_agentAddress r) d = Some s \<and> s_status s = ActiveScope \<and>
      (\<forall>n. s_last_issued_nonce s = Some n \<longrightarrow> n < r_nonce r)) \<and>
    (\<exists>s. scope (r_network r) (r_agentAddress r) d' = Some s \<and> s_last_issued_nonce s = Some (r_nonce r))"
proof -
  have sc: "scopes_constraints (signer_scopes d)" using assms(2) by (simp add: db_ok_def)
  from assms(1) sc show ?thesis
  proof (rule reserve_Inr, goal_cases)
    case (1 s al d1)
    have eq: "r = prepared_row b epoch al a" using insert_row_of(2) [OF 1(6)] 1(7) by simp
    have "scope n a d' = scope n a d1" for n a
      using insert_action_Inr(1) [OF 1(6)] by (simp add: scope_def)
    with 1(1,2,5) allocated_after [OF 1(3)] show ?thesis by (simp add: eq)
  qed
qed

lemma reservation_step:
  assumes "device_step env ev v = (Reserved r, v')"
  obtains b epoch clock a where
    "reserve env b epoch clock a (dev_database v) = Inr (r, dev_database v')"
proof (cases ev)
  case (Call p c)
  let ?repo = "\<lparr>database = dev_database v, preparedInThisProcess = dev_processes v p\<rparr>"
  from assms [unfolded Call] obtain repo' where "run_call env c ?repo = (Reserved r, repo')"
    and d: "dev_database v' = database repo'"
    by (rule device_call)
  then obtain e inp where "reservePreparedAction env e inp ?repo = (Inr r, repo')"
    using reserved_call by blast
  then show thesis
    using that d by (auto simp: reservePreparedAction_def immediate_Inr split: sum.splits prod.splits)
qed (use assms in auto)

interpretation permits: once_only "device_step env" "\<lambda>v. db_ok (dev_database v)" event_in_range
    "\<lambda>v v'. lawful (dev_database v) (dev_database v')" submitted granted
  for env
proof (unfold_locales, goal_cases)
  case 1 then show ?case by (rule lawful_refl)
next
  case 2 then show ?case by (rule lawful_trans)
next
  case 3 then show ?case by (rule device_step_lawful)
next
  case 4 then show ?case by (rule submitted_stays)
next
  case 5 then show ?case by (intro grant_is_fresh)
qed

interpretation nonces: issuer "device_step env" "\<lambda>v. db_ok (dev_database v)" event_in_range
    "\<lambda>v v'. lawful (dev_database v) (dev_database v')" nonce_covered issued_nonce
  for env
proof unfold_locales
  fix s e out s' k n
  assume a: "db_ok (dev_database s)" "event_in_range e" "device_step env e s = (out, s')"
    "issued_nonce out = Some (k, n)"
  then obtain r where r: "out = Reserved r" "k = (r_network r, r_agentAddress r)" "n = r_nonce r"
    by (cases out) auto
  from a(3) [unfolded r(1)] obtain b epoch clock x where
    "reserve env b epoch clock x (dev_database s) = Inr (r, dev_database s')"
    by (rule reservation_step)
  from reserve_covers [OF this a(1)] show "nonce_covered s' k n \<and> (\<forall>m. nonce_covered s k m \<longrightarrow> m < n)"
    by (auto simp: r nonce_covered_def)
qed (blast intro: nonce_covered_stays)

section \<open>One permit per action\<close>

text \<open>
  C5. Whatever the processes of a device call, in whatever order and with whatever failures and
  restarts in between, at most one transport permit is issued for an action, and none for an
  action that was submitted before.
\<close>

theorem at_most_one_permit:
  assumes "db_ok (dev_database v)" "list_all event_in_range es"
    and "run_all (device_step env) es v = (outs, v')"
  shows "length (filter (\<lambda>out. granted out = Some i) outs) \<le> (if submitted v i then 0 else 1)"
  using assms by (rule permits.grants_bounded)

lemma sample_device_ok: "db_ok (dev_database sample_device)" "list_all event_in_range sample_events"
  using empty_ok by (simp_all add: empty_repo_def sample_events_def)

theorem at_most_one_permit_witness:
  "length (filter (\<lambda>out. granted out = Some sample_journal_id)
     (fst (run_all (device_step sample_env) sample_events sample_device))) \<le> 1"
  using at_most_one_permit [OF sample_device_ok, of sample_env "fst (run_all (device_step sample_env) sample_events sample_device)"
      "snd (run_all (device_step sample_env) sample_events sample_device)" sample_journal_id]
  by (simp split: if_splits)

section \<open>Nonces\<close>

text \<open>
  C6. The nonces that a run issues to one signer are strictly increasing, and larger than every nonce
  that was issued before the run.
\<close>

theorem issued_nonces_increase:
  assumes "db_ok (dev_database v)" "list_all event_in_range es"
    and "run_all (device_step env) es v = (outs, v')"
  shows "sorted_wrt (<) (numbers issued_nonce signer outs) \<and>
     (\<forall>n \<in> set (numbers issued_nonce signer outs). \<forall>m. nonce_covered v signer m \<longrightarrow> m < n)"
  using assms by (rule nonces.issued_increasing)

theorem issued_nonces_increase_witness:
  "sorted_wrt (<) (numbers issued_nonce (Testnet, sample_agent)
     (fst (run_all (device_step sample_env) sample_events sample_device)))"
  using issued_nonces_increase [OF sample_device_ok, of sample_env
      "fst (run_all (device_step sample_env) sample_events sample_device)"
      "snd (run_all (device_step sample_env) sample_events sample_device)" "(Testnet, sample_agent)"]
  by simp

section \<open>The database\<close>

text \<open>
  C7. Every run keeps the database well-formed: every row can be read, the constraints of the tables
  hold and every signer remembers its largest nonce. No action disappears or changes what it
  stands for, its state only moves along the state machine, no signer becomes active again, and
  tombstones are only added.
\<close>

theorem every_run_is_lawful:
  assumes "db_ok (dev_database v)" "list_all event_in_range es"
    and "run_all (device_step env) es v = (outs, v')"
  shows "db_ok (dev_database v') \<and> lawful (dev_database v) (dev_database v')"
  using assms by (rule permits.run_rel)

theorem every_run_is_lawful_witness:
  "db_ok (dev_database (snd (run_all (device_step sample_env) sample_events sample_device)))"
  using every_run_is_lawful [OF sample_device_ok, of sample_env
      "fst (run_all (device_step sample_env) sample_events sample_device)"
      "snd (run_all (device_step sample_env) sample_events sample_device)"]
  by simp

section \<open>Calls that fail\<close>

lemma statement_refused: "statement e run repo = (Inl err, repo') \<Longrightarrow> database repo' = database repo"
  by (drule statement_Inl) simp

lemma immediate_refused: "immediate e operation repo = (Inl err, repo') \<Longrightarrow> database repo' = database repo"
  by (drule immediate_Inl) simp

lemmas refused_splits = sum.splits prod.splits option.splits if_splits

lemma operations_refused:
  "registerActiveSignerScope env e b t repo = (Inl err, repo') \<Longrightarrow> database repo' = database repo"
  "reservePreparedAction env e inp repo = (Inl err, repo') \<Longrightarrow> database repo' = database repo"
  "markSignerRetiring env e b t repo = (Inl err, repo') \<Longrightarrow> database repo' = database repo"
  "retireSignerScope env e b ts repo = (Inl err, repo') \<Longrightarrow> database repo' = database repo"
  "transitionAction e i s c t repo = (Inl err, repo') \<Longrightarrow> database repo' = database repo"
  "claimReconciliationLease e i w t n repo = (Inl err, repo') \<Longrightarrow> database repo' = database repo"
  "claimNextReconciliation e w t n repo = (Inl err, repo') \<Longrightarrow> database repo' = database repo"
  "renewReconciliationLease e l t n repo = (Inl err, repo') \<Longrightarrow> database repo' = database repo"
  "releaseReconciliationLease e l t repo = (Inl err, repo') \<Longrightarrow> database repo' = database repo"
  "scheduleReconciliation e i w t next repo = (Inl err, repo') \<Longrightarrow> database repo' = database repo"
  by (auto simp: registerActiveSignerScope_def reservePreparedAction_def markSignerRetiring_def
      retireSignerScope_def transitionAction_def claimReconciliationLease_def claimNextReconciliation_def
      renewReconciliationLease_def releaseReconciliationLease_def scheduleReconciliation_def
      split: refused_splits dest: immediate_refused statement_refused)

lemma markSubmissionStarted_refused:
  "markSubmissionStarted e i t repo = (Inl err, repo') \<Longrightarrow> database repo' = database repo"
  by (auto simp: markSubmissionStarted_def Let_def split: refused_splits dest: immediate_refused)

lemma recoverAfterRestart_refused:
  "recoverAfterRestart e t repo = (Inl err, repo') \<Longrightarrow> database repo' = database repo"
  by (auto simp: recoverAfterRestart_def split: refused_splits dest!: immediate_refused)

text \<open>A call that throws, for whatever reason, leaves the database as it was.\<close>

theorem refused_call_changes_nothing:
  assumes "run_call env c repo = (Refused err, repo')"
  shows "database repo' = database repo"
  using assms
  by (cases c) (auto elim!: report_cases split: prod.splits
      dest: operations_refused markSubmissionStarted_refused recoverAfterRestart_refused)

theorem refused_call_changes_nothing_witness:
  "database (snd (run_call sample_env (MarkSubmissionStarted Commits sample_journal_id (IntN 5)) registered_repo)) =
   database registered_repo"
proof -
  have "run_call sample_env (MarkSubmissionStarted Commits sample_journal_id (IntN 5)) registered_repo =
      (Refused (Err ''Transport authority is unavailable for a reservation from another process lifetime.''),
       registered_repo)"
    by (simp add: report_def markSubmissionStarted_def assertTime_def safe_int_def max_safe_integer_def
        registered_repo_def)
  from this refused_call_changes_nothing [OF this] show ?thesis by simp
qed

section \<open>The end of a signer\<close>

definition scope_retired :: "device \<Rightarrow> network \<Rightarrow> string \<Rightarrow> bool" where
  "scope_retired v n a \<longleftrightarrow> (\<exists>s. scope n a (dev_database v) = Some s \<and> s_status s \<noteq> ActiveScope)"

lemma scope_retired_stays:
  assumes "scope_retired v n a" "lawful (dev_database v) (dev_database v')"
  shows "scope_retired v' n a"
proof -
  from assms(1) obtain s where s: "scope n a (dev_database v) = Some s" "s_status s \<noteq> ActiveScope"
    by (auto simp: scope_retired_def)
  with assms(2) obtain s' where s': "scope n a (dev_database v') = Some s'" "scope_advances s s'"
    unfolding lawful_def scopes_advance_def by blast
  then have "scope_stage (s_status s) \<le> scope_stage (s_status s')" by (simp add: scope_advances_def)
  with s(2) have "s_status s' \<noteq> ActiveScope" by (cases "s_status s"; cases "s_status s'") auto
  with s'(1) show ?thesis by (auto simp: scope_retired_def)
qed

text \<open>
  Once a signer has begun to retire it stays so through every run, and no run issues it another
  nonce.
\<close>

theorem retired_signer_issues_nothing:
  assumes "db_ok (dev_database v)" "list_all event_in_range es"
    and "run_all (device_step env) es v = (outs, v')" and "scope_retired v n a"
  shows "scope_retired v' n a \<and> numbers issued_nonce (n, a) outs = []"
proof -
  have "list_all (\<lambda>out. \<forall>k. issued_nonce out \<noteq> Some ((n, a), k)) outs"
  proof (rule permits.run_outcomes [OF assms(1-3), where P = "\<lambda>v. scope_retired v n a"])
    show "scope_retired u n a" if "scope_retired t n a" "lawful (dev_database t) (dev_database u)" for t u
      using that by (rule scope_retired_stays)
    fix t e out u assume t: "db_ok (dev_database t)" "scope_retired t n a" "device_step env e t = (out, u)"
    show "\<forall>k. issued_nonce out \<noteq> Some ((n, a), k)"
    proof (cases out)
      case (Reserved r)
      with t(3) obtain b ep cl x where "reserve env b ep cl x (dev_database t) = Inr (r, dev_database u)"
        by (auto elim: reservation_step)
      from reserve_covers [OF this t(1)] t(2) Reserved show ?thesis by (auto simp: scope_retired_def)
    qed auto
  qed (rule assms(4))
  then have "numbers issued_nonce (n, a) outs = []" by (induction outs) (auto split: option.splits)
  moreover have "scope_retired v' n a"
    using permits.run_rel [OF assms(1-3)] scope_retired_stays [OF assms(4)] by blast
  ultimately show ?thesis by blast
qed

definition retiring_device :: device where
  "retiring_device = \<lparr>dev_database = \<lparr>signer_scopes = [(sample_scope None)\<lparr>s_status := RetiringScope\<rparr>],
     retired_signer_tombstones = [], action_journal = []\<rparr>, dev_processes = (\<lambda>_. [])\<rparr>"

theorem retired_signer_issues_nothing_witness:
  "numbers issued_nonce (Testnet, sample_agent)
     (fst (run_all (device_step sample_env) sample_events retiring_device)) = []"
proof -
  have "db_ok (dev_database retiring_device)"
    by (simp add: retiring_device_def db_ok_def journal_ok_def actions_constraints_def scopes_constraints_def
        nonces_covered_def sample_scope_def known_network_def)
  moreover have "scope_retired retiring_device Testnet sample_agent"
    by (simp add: scope_retired_def retiring_device_def scope_def scope_is_def sample_scope_def)
  ultimately show ?thesis
    using retired_signer_issues_nothing [OF _ sample_device_ok(2), of retiring_device sample_env
        "fst (run_all (device_step sample_env) sample_events retiring_device)"
        "snd (run_all (device_step sample_env) sample_events retiring_device)" Testnet sample_agent]
    by simp
qed

section \<open>What a reservation is\<close>

lemma distinct_snoc_key:
  "distinct (map f (filter P (xs @ [y]))) \<Longrightarrow> x \<in> set xs \<Longrightarrow> P x \<Longrightarrow> P y \<Longrightarrow> f x \<noteq> f y"
  by (simp add: image_iff) metis

lemma snoc_fresh:
  assumes "actions_constraints ss (qs @ [r])" "q \<in> set qs" "r_state r = Prepared"
  shows "r_journalId q \<noteq> r_journalId r"
    "isTerminalJournalState (r_state q) \<or> fingerprint_key q \<noteq> fingerprint_key r"
    "r_cloid q = None \<or> cloid_key q \<noteq> cloid_key r"
proof -
  have t: "\<not> isTerminalJournalState (r_state r)"
    using assms(3) by (simp add: isTerminalJournalState_def TERMINAL_JOURNAL_STATES_def)
  have c: "distinct (map r_journalId (filter (\<lambda>_. True) (qs @ [r])))"
    "distinct (map fingerprint_key (filter (\<lambda>r. \<not> isTerminalJournalState (r_state r)) (qs @ [r])))"
    "distinct (map cloid_key (filter (\<lambda>r. r_cloid r \<noteq> None) (qs @ [r])))"
    using assms(1) unfolding actions_constraints_def by simp_all
  show "r_journalId q \<noteq> r_journalId r" by (rule distinct_snoc_key [OF c(1) assms(2)]) auto
  show "isTerminalJournalState (r_state q) \<or> fingerprint_key q \<noteq> fingerprint_key r"
    using distinct_snoc_key [OF c(2) assms(2) _ t] by blast
  show "r_cloid q = None \<or> cloid_key q \<noteq> cloid_key r"
  proof (cases "r_cloid r")
    case (Some k)
    then show ?thesis using distinct_snoc_key [OF c(3) assms(2)] by auto
  qed (auto simp: cloid_key_def)
qed

text \<open>
  A reservation succeeds only for an action that is new: its ID is unused, no active action of the
  account has its fingerprint, no action of the account its client order ID, and every earlier
  nonce of its signer is smaller. It expires within fifteen seconds of its nonce.
\<close>

theorem reservation_is_fresh:
  assumes "run_call env (ReservePreparedAction e inp) repo = (Reserved r, repo')" "db_ok (database repo)"
  shows "r_state r = Prepared \<and> action_journal (database repo') = action_journal (database repo) @ [r] \<and>
     r_nonce r < r_expiresAfterMs r \<and> r_expiresAfterMs r \<le> r_nonce r + 15000 \<and>
     list_all (\<lambda>q. r_journalId q \<noteq> r_journalId r \<and>
        (isTerminalJournalState (r_state q) \<or> fingerprint_key q \<noteq> fingerprint_key r) \<and>
        (r_cloid q = None \<or> cloid_key q \<noteq> cloid_key r) \<and>
        (r_network q \<noteq> r_network r \<or> r_agentAddress q \<noteq> r_agentAddress r \<or> r_nonce q < r_nonce r))
       (action_journal (database repo))"
proof -
  from assms(1) have "reservePreparedAction env e inp repo = (Inr r, repo')"
    by (auto elim!: report_cases)
  then obtain b ep cl x where res: "reserve env b ep cl x (database repo) = Inr (r, database repo')"
    by (auto simp: reservePreparedAction_def immediate_Inr split: sum.splits prod.splits)
  note row = reserve_row [OF assms(2) res]
  have ok: "journal_ok (database repo')" using reserve_lawful [OF assms(2) res] by (simp add: lawful_def db_ok_def)
  have "actions_constraints (signer_scopes (database repo')) (action_journal (database repo) @ [r])"
    using ok row by (simp add: journal_ok_def)
  note new = snoc_fresh [OF this]
  have "valid_row r" using ok row by (simp add: journal_ok_def)
  then have "r_nonce r < r_expiresAfterMs r \<and> r_expiresAfterMs r \<le> r_nonce r + 15000"
    by (rule valid_row_marker)
  with row new show ?thesis by (simp add: list_all_iff)
qed

theorem reservation_is_fresh_witness:
  "action_journal (database reserved_repo) = action_journal (database registered_repo) @ [sample_row] \<and>
   r_expiresAfterMs sample_row \<le> r_nonce sample_row + 15000"
  using reservation_is_fresh [OF sample_reserves registered_ok] by blast

section \<open>Leases\<close>

lemma update_none:
  assumes "actions_constraints (signer_scopes d) (action_journal d)"
    "\<And>r. r \<in> set (action_journal d) \<Longrightarrow> \<not> p r"
  shows "update_actions p f d = Inr (0, d)"
proof -
  have "map (\<lambda>r. if p r then f r else r) (action_journal d) = action_journal d"
    using assms(2) by (simp add: map_idI)
  then show ?thesis using assms by (simp add: update_actions_def filter_empty_conv)
qed

lemma held_not_free:
  "r_leaseOwner r = Some w \<Longrightarrow> r_leaseExpiresAt r = Some t \<Longrightarrow> now < t \<Longrightarrow> \<not> lease_free now r"
  by (simp add: lease_free_def)

lemma claimLease_held:
  assumes "journal_ok d" "row_of d i = Some r" "\<not> lease_free now r"
  shows "claimLease i w now x d = Inr (None, d)"
proof -
  have "\<not> (r_journalId q = i \<and> reconcilable (r_state q) \<and> lease_free now q)"
    if "q \<in> set (action_journal d)" for q
    using assms row_unique [OF _ assms(2) that] by (auto simp: journal_ok_def)
  then show ?thesis
    using assms(1) update_none [of d "\<lambda>q. r_journalId q = i \<and> reconcilable (r_state q) \<and> lease_free now q"]
    by (auto simp: claimLease_def journal_ok_def)
qed

lemma claimNext_free:
  assumes "claimNext w now x d = Inr (Some (q, l), d')"
  shows "\<exists>r \<in> set (action_journal d). r_journalId r = l_journalId l \<and> lease_free now r"
proof (cases "ordered_by r_nextReconciliationAt r_preparedAt
    (filter (\<lambda>r. reconcilable (r_state r) \<and> r_nextReconciliationAt r \<le> now \<and> lease_free now r)
       (action_journal d))")
  case (Cons r rs)
  with assms have "l_journalId l = r_journalId r"
    by (auto simp: claimNext_def Let_def split: if_splits prod.splits)
  with arg_cong [OF Cons, of set] show ?thesis by auto
qed (use assms in \<open>simp add: claimNext_def\<close>)

text \<open>
  While a lease on an action has not expired, nobody else obtains one: a claim of the action
  changes nothing and returns no lease, and the search for the next action passes it over.
\<close>

theorem lease_is_exclusive:
  assumes "db_ok (database repo)" "row_of (database repo) i = Some r"
    and "r_leaseOwner r = Some w" "r_leaseExpiresAt r = Some t" "now < t"
  shows "(\<forall>lease. fst (claimReconciliationLease e i w' (IntN now) n repo) \<noteq> Inr (Some lease)) \<and>
     database (snd (claimReconciliationLease e i w' (IntN now) n repo)) = database repo \<and>
     (\<forall>q lease. fst (claimNextReconciliation e w' (IntN now) n repo) = Inr (Some (q, lease)) \<longrightarrow>
        l_journalId lease \<noteq> i)"
proof -
  have j: "journal_ok (database repo)" using assms(1) by (simp add: db_ok_def)
  have held: "\<not> lease_free now r" using held_not_free assms(3-5) .
  have terms: "now' = now" if "lease_terms w' (IntN now) n = Inr (now', x)" for now' x
    using that by (auto simp: lease_terms_Inr)
  have "l_journalId lease \<noteq> i"
    if "fst (claimNextReconciliation e w' (IntN now) n repo) = Inr (Some (q, lease))" for q lease
  proof
    assume i: "l_journalId lease = i"
    from that obtain x d' where "claimNext w' now x (database repo) = Inr (Some (q, lease), d')"
      by (cases e) (auto simp: claimNextReconciliation_def immediate_def dest!: terms
          split: sum.splits prod.splits if_splits)
    from claimNext_free [OF this] i obtain r' where
      "r' \<in> set (action_journal (database repo))" "r_journalId r' = i" "lease_free now r'" by auto
    with row_unique [OF _ assms(2)] j held show False by (auto simp: journal_ok_def)
  qed
  moreover have "(\<forall>lease. fst (claimReconciliationLease e i w' (IntN now) n repo) \<noteq> Inr (Some lease)) \<and>
     database (snd (claimReconciliationLease e i w' (IntN now) n repo)) = database repo"
    using claimLease_held [OF j assms(2) held]
    by (auto simp: claimReconciliationLease_def immediate_def dest!: terms split: sum.splits prod.splits)
  ultimately show ?thesis by blast
qed

theorem lease_is_exclusive_witness:
  "fst (claimReconciliationLease Commits sample_journal_id ''owner-0002'' (IntN 20000) None leased_repo) \<noteq>
     Inr (Some \<lparr>l_journalId = sample_journal_id, l_owner = ''owner-0002'', l_expiresAt = 50000\<rparr>)"
proof -
  have "row_of (database leased_repo) sample_journal_id = Some leased_row"
    by (simp add: leased_repo_def row_of_def leased_row_def with_lease_def submitted_row_def)
  moreover have "r_leaseOwner leased_row = Some ''owner-0001''" "r_leaseExpiresAt leased_row = Some 31020"
    by (simp_all add: leased_row_def with_lease_def)
  ultimately show ?thesis
    using lease_is_exclusive [OF leased_ok, of sample_journal_id leased_row "''owner-0001''" 31020 20000] by simp
qed

end
