(* ===== verification/Reconciler_Properties.thy ===== *)
theory Reconciler_Properties
  imports Reconciler_Laws Repository_Properties
begin

text \<open>
  The reconciler with the journal and the policy together: who holds the lease settles the action
  as soon as the evidence allows, only evidence settles it, and who lost the lease changes nothing.
\<close>

section \<open>Settling\<close>

lemma policy_record_frozen:
  assumes "frozen a = frozen b"
  shows "policy_record a = policy_record b"
proof -
  have "policy_record a = policy_record (frozen a)" for a by (simp add: policy_record_def frozen_def)
  then show ?thesis using assms by metis
qed

lemma renewed_simps [simp]:
  "frozen (renewed now r) = frozen r" "r_state (renewed now r) = r_state r"
  "r_journalId (renewed now r) = r_journalId r"
  "r_reconciliationAttempts (renewed now r) = r_reconciliationAttempts r"
  by (simp_all add: renewed_def)

lemma decided_row_simps [simp]:
  "frozen (decided_row now s r) = frozen r" "r_state (decided_row now s r) = s"
  by (simp_all add: decided_row_def)

text \<open>A decision that is reached is written.\<close>

lemma holder_writes_decision:
  assumes ok: "journal_ok (database repo)" and r: "row_of (database repo) (l_journalId lease) = Some r"
    and h: "holds_at lease now r" and i: "r_journalId record = l_journalId lease"
    and d: "decideReconciliation ga (policy_record record) evidence = Inr (Terminal s)"
  obtains repo' where
    "reconcileClaim ga active Commits Commits owner now record lease (Some evidence) repo =
       (Inr (Decided (Terminal s)), if active record then [Terminal s] else [], repo')"
    "row_of (database repo') (l_journalId lease) = Some (decided_row now s (renewed now r))"
proof -
  note w = renew_total [OF ok r h]
  let ?repo = "repo\<lparr>database := put_row (renewed now r) (database repo)\<rparr>"
  have v: "valid_row (renewed now r)" using w(2) row_of_SomeD [OF w(3)] by (auto simp: journal_ok_def)
  have now: "safe_int now" "0 \<le> now" using h near_now(1) [of now 0] by (auto simp: holds_at_def)
  have t: "transitionAction Commits (l_journalId lease) s (resultClass s) (IntN now) ?repo =
      (Inr (decided_row now s (renewed now r)), forget (l_journalId lease)
        (?repo\<lparr>database := put_row (decided_row now s (renewed now r)) (database ?repo)\<rparr>))"
    "row_of (put_row (decided_row now s (renewed now r)) (database ?repo)) (l_journalId lease) =
       Some (decided_row now s (renewed now r))"
    using transition_total [of ?repo "l_journalId lease" "renewed now r" s now] w(2,3) lease_held(2) [OF v w(4)]
      decided_states [OF d] now by simp_all
  show thesis
    by (rule that [of "forget (l_journalId lease)
        (?repo\<lparr>database := put_row (decided_row now s (renewed now r)) (database ?repo)\<rparr>)"])
      (use t in \<open>simp_all add: reconcileClaim_def w(1) d i\<close>)
qed

text \<open>
  C21. Whoever holds the lease settles an action that creates an order, and a cancel that names one target:
  once the server's clock is past the expiry, an attempt with complete evidence from the action's context, whose
  answer about the order is not malformed, writes a terminal state, and publishes the decision if the context
  is active. Leverage changes, cancels without a target and malformed answers are outside of this.
\<close>

theorem leaseholder_settles_orders_and_cancels:
  assumes "db_ok (database repo)" "row_of (database repo) (l_journalId lease) = Some r"
    and "holds_at lease now r" "frozen record = frozen r"
    and "assertContext ga (policy_record record) evidence = Inr (expires, server, version)"
    and "ev_complete evidence" "ev_order evidence \<noteq> MalformedOrder" "expires < server"
    and "creates_order (r_actionType r) \<and> r_cloid r \<noteq> None \<or>
         r_actionType r = CancelType \<and> (r_cloid r = None) \<noteq> (r_targetOid r = None)"
  shows "\<exists>s repo' r'. reconcileClaim ga active Commits Commits owner now record lease (Some evidence) repo =
       (Inr (Decided (Terminal s)), if active record then [Terminal s] else [], repo') \<and>
     row_of (database repo') (l_journalId lease) = Some r' \<and> r_state r' = s \<and>
     s \<in> {Accepted, Rejected, Expired, ReconciledAmbiguous} \<and> frozen r' = frozen r"
proof -
  have p: "policy_record record = policy_record r" by (rule policy_record_frozen [OF assms(4)])
  from late_evidence_settles [OF assms(5-8)] assms(9) obtain s where
    s: "decideReconciliation ga (policy_record record) evidence = Inr (Terminal s)"
    unfolding p by (auto simp: policy_record_def)
  have "r_journalId record = l_journalId lease"
    using frozen_keys(1) [OF assms(4)] row_of_SomeD [OF assms(2)] by simp
  then obtain repo' where
    "reconcileClaim ga active Commits Commits owner now record lease (Some evidence) repo =
       (Inr (Decided (Terminal s)), if active record then [Terminal s] else [], repo')"
    "row_of (database repo') (l_journalId lease) = Some (decided_row now s (renewed now r))"
    using holder_writes_decision [OF _ assms(2,3) _ s] assms(1) by (auto simp: db_ok_def)
  then show ?thesis using decided_states [OF s] by auto
qed

section \<open>Only evidence settles\<close>

definition row_state :: "journal_db \<Rightarrow> string \<Rightarrow> journal_state option" where
  "row_state d i = map_option r_state (row_of d i)"

lemma update_row_state:
  assumes "update_actions p f d = Inr (n, d')" "\<And>r. r_journalId (f r) = r_journalId r"
  shows "row_state d' i = row_state d i \<or> (\<exists>r. row_of d i = Some r \<and> p r \<and> row_state d' i = Some (r_state (f r)))"
  using update_row_of [OF assms, of i] by (cases "row_of d i") (auto simp: row_state_def)

lemma renew_states:
  assumes "renewReconciliationLease e lease t n repo = (out, repo')"
  shows "row_state (database repo') i = row_state (database repo) i"
proof -
  from assms consider "database repo' = database repo"
    | x now k where "update_actions (\<lambda>r. holds_lease lease r \<and> now < l_expiresAt lease)
        (\<lambda>r. r\<lparr>r_leaseExpiresAt := Some x, r_updatedAt := now\<rparr>) (database repo) = Inr (k, database repo')"
    by (auto simp: renewReconciliationLease_def statement_Inr dest!: statement_Inl split: sum.splits prod.splits)
  then show ?thesis
  proof cases
    case (2 x now k)
    from update_row_state [OF 2, of i] show ?thesis by (auto simp: row_state_def)
  qed simp
qed

lemma schedule_states:
  assumes "scheduleReconciliation e j w t n repo = (out, repo')"
  shows "row_state (database repo') i = row_state (database repo) i \<or> row_state (database repo') i = Some Unresolved"
proof -
  from assms consider "database repo' = database repo"
    | now m r0 where "scheduleAction j w now m (database repo) = Inr (r0, database repo')"
    by (auto simp: scheduleReconciliation_def immediate_def split: sum.splits prod.splits if_splits)
  then show ?thesis
  proof cases
    case (2 now m r0)
    then obtain k where u: "update_actions (\<lambda>r. r_journalId r = j \<and> r_leaseOwner r = Some w \<and>
          (case r_leaseExpiresAt r of None \<Rightarrow> False | Some e \<Rightarrow> e > now))
        (\<lambda>r. r\<lparr>r_state := Unresolved, r_lastResultClass := Some UnresolvedResult,
          r_reconciliationAttempts := r_reconciliationAttempts r + 1, r_nextReconciliationAt := m,
          r_leaseOwner := None, r_leaseExpiresAt := None, r_updatedAt := now\<rparr>) (database repo) = Inr (k, database repo')"
      by (auto simp: scheduleAction_def split: prod.splits)
    from update_row_state [OF u, of i] show ?thesis by auto
  qed simp
qed

lemma transition_states:
  assumes "transitionAction e j s c t repo = (out, repo')"
  shows "row_state (database repo') i = row_state (database repo) i \<or>
     i = j \<and> row_state (database repo') i = Some s \<and> (\<exists>r. out = Inr r)"
proof -
  from assms consider "database repo' = database repo"
    | now r0 where "moveAction j s c now (database repo) = Inr (r0, database repo')" "out = Inr r0"
    by (auto simp: transitionAction_def immediate_def split: sum.splits prod.splits if_splits)
  then show ?thesis
  proof cases
    case (2 now r0)
    then obtain st k where u: "update_actions (\<lambda>r. r_journalId r = j \<and> r_state r = st)
        (\<lambda>r. r\<lparr>r_state := s, r_lastResultClass := c, r_leaseOwner := None, r_leaseExpiresAt := None,
          r_updatedAt := now\<rparr>) (database repo) = Inr (k, database repo')"
      by (auto simp: moveAction_def split: prod.splits)
    from update_row_state [OF u, of i] 2(2) show ?thesis by (auto dest!: row_of_SomeD)
  qed simp
qed

text \<open>
  C22. Only evidence settles an action: when an attempt makes some action terminal, it is the action
  that was claimed, its evidence was loaded, and the state is the one that the policy decided on
  that evidence. Failing to load evidence never settles anything.
\<close>

theorem only_evidence_settles:
  assumes "reconcileClaim ga active e1 e2 owner now record lease loaded repo = (out, published, repo')"
    and "row_state (database repo) i \<noteq> row_state (database repo') i"
    and "row_state (database repo') i = Some s" "isTerminalJournalState s"
  shows "i = r_journalId record \<and> out = Inr (Decided (Terminal s)) \<and>
     (\<exists>evidence. loaded = Some evidence \<and> decideReconciliation ga (policy_record record) evidence = Inr (Terminal s))"
proof -
  have s: "s \<noteq> Unresolved" using assms(4) by (auto simp: isTerminalJournalState_def TERMINAL_JOURNAL_STATES_def)
  obtain renew repo1 where r: "renewReconciliationLease e1 lease (IntN now) None repo = (renew, repo1)"
    by fastforce
  note r1 = renew_states [OF r, of i]
  have change: "row_state (database repo') i \<noteq> row_state (database repo1) i" using assms(2) r1 by simp
  have no_schedule: False
    if "scheduleReconciliation e2 j w t n repo1 = (x, repo')" for j w t n x
    using schedule_states [OF that, of i] change s assms(3) by auto
  show ?thesis
  proof (cases loaded)
    case None
    with assms(1) r change show ?thesis
      by (auto simp: reconcileClaim_def scheduleAfterFailure_def dest: no_schedule
          split: prod.splits sum.splits option.splits)
  next
    case (Some evidence)
    from assms(1) r change Some obtain decision x where
      d: "decideReconciliation ga (policy_record record) evidence = Inr decision"
      and x: "(case decision of
          StillUnresolved _ \<Rightarrow> scheduleReconciliation e2 (r_journalId record) owner (IntN now)
             (IntN (nextAttempt record now)) repo1
        | Terminal state \<Rightarrow> transitionAction e2 (r_journalId record) state (resultClass state) (IntN now) repo1) = (x, repo')"
      and out: "out = (case x of Inl err \<Rightarrow> Inl err | Inr _ \<Rightarrow> Inr (Decided decision))"
      by (auto simp: reconcileClaim_def split: prod.splits sum.splits option.splits)
    show ?thesis
    proof (cases decision)
      case (Terminal s')
      with x transition_states [of e2 "r_journalId record" s' "resultClass s'" "IntN now" repo1 x repo' i] change assms(3)
      show ?thesis using out d Some by auto
    next
      case (StillUnresolved why)
      with x have "scheduleReconciliation e2 (r_journalId record) owner (IntN now)
          (IntN (nextAttempt record now)) repo1 = (x, repo')" by simp
      then show ?thesis using no_schedule by blast
    qed
  qed
qed

text \<open>
  Who lost the lease, because it ran out or because another claimed the action since, changes
  nothing in the journal and publishes nothing.
\<close>

theorem lost_lease_changes_nothing:
  assumes "db_ok (database repo)"
    and "list_all (\<lambda>r. \<not> (holds_lease lease r \<and> now < l_expiresAt lease)) (action_journal (database repo))"
    and "reconcileClaim ga active e1 e2 owner now record lease loaded repo = (out, published, repo')"
  shows "database repo' = database repo \<and> published = [] \<and> (out = Inr LeaseLost \<or> (\<exists>err. out = Inl err))"
proof -
  have none: "update_actions (\<lambda>r. holds_lease lease r \<and> now < l_expiresAt lease) f (database repo) =
      Inr (0, database repo)" for f
    using assms(1,2) by (intro update_none) (auto simp: db_ok_def journal_ok_def list_all_iff)
  have "\<exists>err. renewReconciliationLease e1 lease (IntN now) None repo \<in> {(Inl err, repo), (Inr None, repo)}"
  proof (cases "lease_terms (l_owner lease) (IntN now) None")
    case (Inr p)
    then obtain x where "lease_terms (l_owner lease) (IntN now) None = Inr (now, x)"
      by (cases p) (auto simp: lease_terms_Inr)
    then show ?thesis by (cases e1) (simp_all add: renewReconciliationLease_def statement_def none)
  qed (simp add: renewReconciliationLease_def)
  then show ?thesis
    using assms(3) by (auto simp: reconcileClaim_def scheduleAfterFailure_def split: option.splits)
qed

section \<open>A concrete attempt\<close>

definition sample_lease :: ReconciliationLease where
  "sample_lease = \<lparr>l_journalId = sample_journal_id, l_owner = ''owner-0001'', l_expiresAt = 31020\<rparr>"

definition sample_cancel_evidence :: ReconciliationEvidence where
  "sample_cancel_evidence =
     \<lparr>ev_network = Testnet, ev_masterAccount = sample_account, ev_targetAccount = sample_account,
      ev_assetId = Some (IntN 7), ev_serverTimeMs = IntN 20000, ev_complete = True,
      ev_order = ObservedOrder \<lparr>id_assetId = IntN 7, id_oid = IntN 42, id_cloid = None\<rparr> CanceledStatus,
      ev_openOrders = [], ev_fills = [], ev_position = None, ev_leverage = None,
      ev_stateVersion = IntN 3, ev_definitiveRejection = False\<rparr>"

lemma leased_row_fields:
  "row_of (database leased_repo) (l_journalId sample_lease) = Some leased_row"
  "r_actionType leased_row = CancelType" "r_cloid leased_row = None" "r_targetOid leased_row = Some 42"
  "r_journalId leased_row = sample_journal_id"
  by (simp_all add: leased_repo_def row_of_def leased_row_def with_lease_def submitted_row_def sample_lease_def
      sample_row_def prepared_row_def sample_reservation_def Let_def)

lemma sample_holds: "holds_at sample_lease 20000 leased_row"
  by (simp add: holds_at_def holds_lease_def sample_lease_def leased_row_def with_lease_def submitted_row_def
      max_safe_integer_def)

lemma sample_cancel_context:
  "assertContext Some (policy_record leased_row) sample_cancel_evidence = Inr (16000, 20000, 3)"
  by code_simp

theorem leaseholder_settles_orders_and_cancels_witness:
  "\<exists>s repo' r'. reconcileClaim Some (\<lambda>_. True) Commits Commits ''owner-0001'' 20000 leased_row sample_lease
       (Some sample_cancel_evidence) leased_repo = (Inr (Decided (Terminal s)), [Terminal s], repo') \<and>
     row_of (database repo') sample_journal_id = Some r' \<and> r_state r' = s"
  using leaseholder_settles_orders_and_cancels [OF leased_ok leased_row_fields(1) sample_holds refl sample_cancel_context,
      of "\<lambda>_. True" "''owner-0001''"]
  by (force simp: leased_row_fields sample_cancel_evidence_def sample_lease_def)

theorem only_evidence_settles_witness:
  "\<exists>s. decideReconciliation Some (policy_record leased_row) sample_cancel_evidence = Inr (Terminal s)"
proof -
  have "decideReconciliation Some (policy_record leased_row) sample_cancel_evidence = Inr (Terminal Accepted)"
    by code_simp
  from holder_writes_decision [OF _ leased_row_fields(1) sample_holds _ this, of "\<lambda>_. True" "''owner-0001''"]
  obtain repo' where r: "reconcileClaim Some (\<lambda>_. True) Commits Commits ''owner-0001'' 20000 leased_row sample_lease
      (Some sample_cancel_evidence) leased_repo = (Inr (Decided (Terminal Accepted)), [Terminal Accepted], repo')"
    "row_of (database repo') (l_journalId sample_lease) = Some (decided_row 20000 Accepted (renewed 20000 leased_row))"
    using leased_ok leased_row_fields(5) by (auto simp: db_ok_def sample_lease_def)
  have "row_state (database repo') sample_journal_id = Some Accepted"
    using r(2) by (simp add: row_state_def sample_lease_def)
  moreover have "row_state (database leased_repo) sample_journal_id = Some SubmissionStarted"
    using leased_row_fields(1) by (simp add: row_state_def sample_lease_def leased_row_def submitted_row_def)
  ultimately show ?thesis
    using only_evidence_settles [OF r(1), of sample_journal_id Accepted]
    by (auto simp: isTerminalJournalState_def TERMINAL_JOURNAL_STATES_def)
qed

theorem lost_lease_changes_nothing_witness:
  "database (snd (snd (reconcileClaim Some (\<lambda>_. True) Commits Commits ''owner-0001'' 40000 leased_row sample_lease
     None leased_repo))) = database leased_repo"
proof -
  have "list_all (\<lambda>r. \<not> (holds_lease sample_lease r \<and> 40000 < l_expiresAt sample_lease))
      (action_journal (database leased_repo))"
    by (simp add: sample_lease_def list_all_iff)
  from lost_lease_changes_nothing [OF leased_ok this prod.collapse [symmetric, THEN trans]]
  show ?thesis by (metis prod.collapse)
qed

end
