(* ===== verification/Session.thy ===== *)
theory Session
  imports Signing
begin

text \<open>
  The signer session: \<^verbatim>\<open>apps/mobile/src/core/session/manager.ts\<close>. An unlock authenticates the
  user, reads the protected secret and makes a signer of it, with an \<^verbatim>\<open>await\<close> at each
  step; in between the session may be locked or another unlock may begin. The components it
  relies on answer with values: the device authentication, the vault and the signer factory with a
  binding or an error. What the application shows when the code looks is a \<open>view\<close>. A secret and a
  signer are named by the epoch of their unlock; those not yet disposed of are part of the state.
  When the application is in front, waiting for its focus ends at once, so the checks after it are
  made in the same step.
\<close>

definition SIGNER_SESSION_DURATION_MS :: int where
  "SIGNER_SESSION_DURATION_MS = 5 * 60 * 1000"

datatype SignerSessionStopReason =
    AppInactive | AppBackground | AndroidBlur | ContextChanged | Manual | Timeout
  | MemoryWarning | AppTerminated | AuthenticationError | CredentialInvalidated | CompromisedDevice

datatype SignerSessionSnapshot =
    Locked nat "SignerSessionStopReason option"
  | UnlockingSession nat SignerBinding int
  | Unlocked nat SignerBinding int int int \<comment> \<open>epoch, binding, captured epoch, unlocked at, expires at\<close>

definition SignerSessionUnlockError :: "string \<Rightarrow> js_error" where
  "SignerSessionUnlockError c =
     CodedError c ''The signer unlock could not complete in the current app context.''"

definition shouldLockSignerSessionForLifecycle :: "SignerSessionSnapshot \<Rightarrow> SignerSessionStopReason \<Rightarrow> bool" where
  "shouldLockSignerSessionForLifecycle snapshot reason \<longleftrightarrow>
     \<not> ((case snapshot of UnlockingSession _ _ _ \<Rightarrow> True | _ \<Rightarrow> False) \<and>
        (reason = AppInactive \<or> reason = AndroidBlur))"

definition sameUnlockRequest :: "address_parser \<Rightarrow> SignerSessionSnapshot \<Rightarrow> SignerBinding \<Rightarrow> int \<Rightarrow> bool" where
  "sameUnlockRequest ga state binding capturedContextEpoch =
     (case state of
        UnlockingSession _ b c \<Rightarrow> succeeds (assertSignerBinding ga b binding) \<and> c = capturedContextEpoch
      | _ \<Rightarrow> False)"

definition unlockFailureReason :: "js_error \<Rightarrow> SignerSessionStopReason" where
  "unlockFailureReason error =
     (case error of
        CodedError c _ \<Rightarrow>
          if c = ''missing_or_invalidated'' \<or> c = ''malformed_record'' then CredentialInvalidated
          else if c = ''context_changed'' then ContextChanged
          else if c = ''app_not_active'' then AppInactive
          else AuthenticationError
      | _ \<Rightarrow> AuthenticationError)"

section \<open>The state of a manager\<close>

text \<open>An unlock that waits: for the device, for the focus of the application, the vault or the factory.\<close>

datatype unlock_stage = AwaitDevice | AwaitFocusForVault | AwaitVault | AwaitFocusForSigner | AwaitSigner

record attempt =
  at_epoch :: nat
  at_binding :: SignerBinding
  at_context :: int
  at_stage :: unlock_stage

record session =
  ss_epoch :: nat
  ss_state :: SignerSessionSnapshot
  ss_signer :: "(nat \<times> SignerBinding) option"
  ss_timer :: "nat option"
  ss_inFlight :: "nat option"
  ss_attempts :: "attempt list"
  ss_secrets :: "nat list" \<comment> \<open>not disposed of\<close>
  ss_signers :: "nat list" \<comment> \<open>not destroyed\<close>

record view =
  v_active :: bool
  v_contextCurrent :: bool
  v_now :: int

definition createSignerSessionManager :: session where
  "createSignerSessionManager =
     \<lparr>ss_epoch = 0, ss_state = Locked 0 None, ss_signer = None, ss_timer = None, ss_inFlight = None,
      ss_attempts = [], ss_secrets = [], ss_signers = []\<rparr>"

definition clearSigner :: "session \<Rightarrow> session" where
  "clearSigner s =
     s\<lparr>ss_timer := None,
       ss_signers := (case ss_signer s of Some (i, _) \<Rightarrow> removeAll i (ss_signers s) | None \<Rightarrow> ss_signers s),
       ss_signer := None\<rparr>"

definition lock :: "SignerSessionStopReason \<Rightarrow> session \<Rightarrow> session" where
  "lock reason s =
     (let t = clearSigner (s\<lparr>ss_epoch := ss_epoch s + 1\<rparr>) in
      t\<lparr>ss_inFlight := None, ss_state := Locked (ss_epoch t) (Some reason)\<rparr>)"

definition assertUnlockCurrent :: "nat \<Rightarrow> view \<Rightarrow> session \<Rightarrow> unit result" where
  "assertUnlockCurrent unlockEpoch v s =
     bindE (throw_if (ss_epoch s \<noteq> unlockEpoch) (SignerSessionUnlockError ''session_invalidated'')) (\<lambda>_.
     bindE (throw_if (\<not> v_contextCurrent v) (SignerSessionUnlockError ''context_changed'')) (\<lambda>_.
     throw_if (\<not> v_active v) (SignerSessionUnlockError ''app_not_active'')))"

text \<open>The part of \<^verbatim>\<open>settleActiveFocus\<close> after its wait.\<close>

definition focusRestored :: "nat \<Rightarrow> bool \<Rightarrow> view \<Rightarrow> session \<Rightarrow> unit result" where
  "focusRestored unlockEpoch restored v s =
     bindE (throw_if (ss_epoch s \<noteq> unlockEpoch) (SignerSessionUnlockError ''session_invalidated'')) (\<lambda>_.
     bindE (throw_if (\<not> v_contextCurrent v) (SignerSessionUnlockError ''context_changed'')) (\<lambda>_.
     throw_if (\<not> restored \<or> \<not> v_active v) (SignerSessionUnlockError ''app_not_active'')))"

section \<open>Unlocking\<close>

datatype unlock_reply = UnlockThrows js_error | JoinsInFlight | StaysUnlocked | Starts nat

definition unlock ::
    "capabilities \<Rightarrow> address_parser \<Rightarrow> SignerBinding \<Rightarrow> int \<Rightarrow> view \<Rightarrow> session \<Rightarrow> unlock_reply \<times> session" where
  "unlock caps ga bindingArg capturedContextEpoch v s =
     (case bindE (assertSignerAccessCapability caps (sb_network bindingArg)) (\<lambda>_.
             normalizeSignerBinding ga bindingArg) of
        Inl e \<Rightarrow> (UnlockThrows e, s)
      | Inr binding \<Rightarrow>
          if ss_inFlight s \<noteq> None \<and> sameUnlockRequest ga (ss_state s) binding capturedContextEpoch
          then (JoinsInFlight, s)
          else if (case ss_state s of
                     Unlocked _ b c _ expiresAt \<Rightarrow>
                       succeeds (assertSignerBinding ga b binding) \<and> c = capturedContextEpoch \<and>
                       v_contextCurrent v \<and> v_active v \<and> v_now v < expiresAt
                   | _ \<Rightarrow> False)
          then (StaysUnlocked, s)
          else
            let t = lock ContextChanged s; unlockEpoch = ss_epoch t in
            (Starts unlockEpoch,
             t\<lparr>ss_state := UnlockingSession unlockEpoch binding capturedContextEpoch,
               ss_attempts := ss_attempts t @
                 [\<lparr>at_epoch = unlockEpoch, at_binding = binding, at_context = capturedContextEpoch,
                   at_stage = AwaitDevice\<rparr>],
               ss_inFlight := Some unlockEpoch\<rparr>))"

definition set_stage :: "attempt \<Rightarrow> unlock_stage \<Rightarrow> session \<Rightarrow> session" where
  "set_stage a stage s =
     s\<lparr>ss_attempts := map (\<lambda>b. if at_epoch b = at_epoch a then b\<lparr>at_stage := stage\<rparr> else b) (ss_attempts s)\<rparr>"

text \<open>The \<^verbatim>\<open>finally\<close> block of an unlock, and its \<^verbatim>\<open>catch\<close> block before that.\<close>

definition endAttempt :: "attempt \<Rightarrow> session \<Rightarrow> session" where
  "endAttempt a s =
     s\<lparr>ss_attempts := filter (\<lambda>b. at_epoch b \<noteq> at_epoch a) (ss_attempts s),
       ss_secrets := removeAll (at_epoch a) (ss_secrets s),
       ss_inFlight := (if ss_inFlight s = Some (at_epoch a) then None else ss_inFlight s)\<rparr>"

definition failAttempt :: "attempt \<Rightarrow> js_error \<Rightarrow> session \<Rightarrow> session" where
  "failAttempt a error s =
     endAttempt a (if ss_epoch s = at_epoch a then lock (unlockFailureReason error) s else s)"

text \<open>From a settled focus on: the checks, and the next call.\<close>

definition proceed :: "attempt \<Rightarrow> unlock_stage \<Rightarrow> view \<Rightarrow> session \<Rightarrow> session" where
  "proceed a stage v s =
     (case assertUnlockCurrent (at_epoch a) v s of
        Inl e \<Rightarrow> failAttempt a e s
      | Inr _ \<Rightarrow> set_stage a stage s)"

text \<open>The answers an unlock waits for.\<close>

datatype answer =
    DeviceAnswers "unit result"
  | FocusAnswers "bool result"
  | VaultAnswers "SignerBinding result"
  | SignerAnswers "SignerBinding result"

fun answers_stage :: "answer \<Rightarrow> unlock_stage \<Rightarrow> bool" where
  "answers_stage (DeviceAnswers _) stage \<longleftrightarrow> stage = AwaitDevice"
| "answers_stage (FocusAnswers _) stage \<longleftrightarrow> stage = AwaitFocusForVault \<or> stage = AwaitFocusForSigner"
| "answers_stage (VaultAnswers _) stage \<longleftrightarrow> stage = AwaitVault"
| "answers_stage (SignerAnswers _) stage \<longleftrightarrow> stage = AwaitSigner"

text \<open>Installing the signer, from \<^verbatim>\<open>signer = candidate\<close> on.\<close>

definition install :: "attempt \<Rightarrow> SignerBinding \<Rightarrow> view \<Rightarrow> session \<Rightarrow> session" where
  "install a candidate v s =
     endAttempt a
       (s\<lparr>ss_signer := Some (at_epoch a, candidate),
          ss_state := Unlocked (at_epoch a) (at_binding a) (at_context a) (v_now v)
                        (v_now v + SIGNER_SESSION_DURATION_MS),
          ss_timer := Some (at_epoch a)\<rparr>)"

fun resume :: "address_parser \<Rightarrow> attempt \<Rightarrow> answer \<Rightarrow> view \<Rightarrow> session \<Rightarrow> session" where
  "resume ga a (DeviceAnswers (Inl e)) v s = failAttempt a e s"
| "resume ga a (DeviceAnswers (Inr _)) v s =
     (if v_active v then proceed a AwaitVault v s else set_stage a AwaitFocusForVault s)"
| "resume ga a (FocusAnswers (Inl e)) v s = failAttempt a e s"
| "resume ga a (FocusAnswers (Inr restored)) v s =
     (case focusRestored (at_epoch a) restored v s of
        Inl e \<Rightarrow> failAttempt a e s
      | Inr _ \<Rightarrow> proceed a (if at_stage a = AwaitFocusForVault then AwaitVault else AwaitSigner) v s)"
| "resume ga a (VaultAnswers (Inl e)) v s = failAttempt a e s"
| "resume ga a (VaultAnswers (Inr b)) v s =
     (let t = s\<lparr>ss_secrets := at_epoch a # ss_secrets s\<rparr> in
      case assertSignerBinding ga (at_binding a) b of
        Inl e \<Rightarrow> failAttempt a e t
      | Inr _ \<Rightarrow> if v_active v then proceed a AwaitSigner v t else set_stage a AwaitFocusForSigner t)"
| "resume ga a (SignerAnswers (Inl e)) v s = failAttempt a e s"
| "resume ga a (SignerAnswers (Inr candidate)) v s =
     (let t = s\<lparr>ss_signers := at_epoch a # ss_signers s\<rparr> in
      case bindE (assertSignerBinding ga (at_binding a) candidate) (\<lambda>_. assertUnlockCurrent (at_epoch a) v t) of
        Inl e \<Rightarrow> failAttempt a e (t\<lparr>ss_signers := removeAll (at_epoch a) (ss_signers t)\<rparr>)
      | Inr _ \<Rightarrow> install a candidate v t)"

section \<open>Signing\<close>

text \<open>
  Signing up to its \<^verbatim>\<open>await\<close>: the epoch in which it began and the binding of the signer that is
  asked; and from there on, with what the signer answered.
\<close>

definition startSign ::
    "capabilities \<Rightarrow> address_parser \<Rightarrow> SignerBinding \<Rightarrow> int \<Rightarrow> view \<Rightarrow> session \<Rightarrow>
     (nat \<times> SignerBinding) result \<times> session" where
  "startSign caps ga expected capturedContextEpoch v s =
     (case assertSignerAccessCapability caps (sb_network expected) of
        Inl e \<Rightarrow> (Inl e, s)
      | Inr _ \<Rightarrow>
          (case (ss_state s, ss_signer s) of
             (Unlocked _ b c _ expiresAt, Some (_, signerBinding)) \<Rightarrow>
               if v_now v \<ge> expiresAt then (Inl (Err ''The signer session expired.''), lock Timeout s)
               else
                 (case assertSignerBinding ga expected b of
                    Inl e \<Rightarrow> (Inl e, s)
                  | Inr _ \<Rightarrow>
                      if c \<noteq> capturedContextEpoch \<or> \<not> v_contextCurrent v \<or> \<not> v_active v
                      then (Inl (Err ''The signer session context changed.''), lock ContextChanged s)
                      else (Inr (ss_epoch s, signerBinding), s))
           | _ \<Rightarrow> (Inl (Err ''The signer session is locked.''), s)))"

definition finishSign ::
    "capabilities \<Rightarrow> address_parser \<Rightarrow> SignerBinding \<Rightarrow> 'payload \<Rightarrow> nat \<times> SignerBinding \<Rightarrow>
     ('payload \<Rightarrow> Eip712Signature result) \<Rightarrow> view \<Rightarrow> session \<Rightarrow> Eip712Signature result \<times> session" where
  "finishSign caps ga expected payload started signTypedData v s =
     (case signNetworkTypedData caps ga expected (sb_network expected, payload) (snd started) signTypedData of
        Inl e \<Rightarrow> (Inl e, s)
      | Inr signature \<Rightarrow>
          if ss_epoch s \<noteq> fst started \<or> \<not> v_contextCurrent v \<or> \<not> v_active v
          then (Inl (Err ''The signing result belongs to a stale session.''), lock ContextChanged s)
          else (Inr signature, s))"

end
