(* ===== verification/Session_Laws.thy ===== *)
theory Session_Laws
  imports Session
begin

text \<open>
  What the signer session promises over every run: a signer lives only while the session is
  unlocked, secrets live only in the unlock that read them, an unlock that was locked out never
  installs its signer, and a signature belongs to one unlocked session from beginning to end.
\<close>

section \<open>Steps\<close>

inductive session_step :: "capabilities \<Rightarrow> address_parser \<Rightarrow> session \<Rightarrow> session \<Rightarrow> bool" for caps ga where
  unlocks: "session_step caps ga s (snd (unlock caps ga b c v s))"
| answered: "a \<in> set (ss_attempts s) \<Longrightarrow> answers_stage x (at_stage a) \<Longrightarrow> session_step caps ga s (resume ga a x v s)"
| locks: "session_step caps ga s (lock reason s)"
| expires: "ss_timer s = Some e \<Longrightarrow> session_step caps ga s (lock Timeout s)"
| signs: "session_step caps ga s (snd (startSign caps ga b c v s))"
| signed: "session_step caps ga s (snd (finishSign caps ga b () started answer v s))"

section \<open>The invariant\<close>

text \<open>An unlock is not newer than the session, and the one of the current epoch is what the state says.\<close>

definition attempt_ok :: "nat \<Rightarrow> SignerSessionSnapshot \<Rightarrow> attempt \<Rightarrow> bool" where
  "attempt_ok ep st a \<longleftrightarrow> at_epoch a \<le> ep \<and>
     (at_epoch a = ep \<longrightarrow> st = UnlockingSession ep (at_binding a) (at_context a))"

text \<open>A signer is installed exactly while the session is unlocked, and it is that of the session.\<close>

definition state_ok ::
    "address_parser \<Rightarrow> nat \<Rightarrow> SignerSessionSnapshot \<Rightarrow> (nat \<times> SignerBinding) option \<Rightarrow> nat option \<Rightarrow> bool" where
  "state_ok ga ep st signer timer \<longleftrightarrow>
     (case st of
        Locked e r \<Rightarrow> e = ep \<and> signer = None \<and> timer = None
      | UnlockingSession e b c \<Rightarrow> e = ep \<and> signer = None \<and> timer = None
      | Unlocked e b c u x \<Rightarrow> e = ep \<and> x = u + SIGNER_SESSION_DURATION_MS \<and> timer = Some e \<and>
          (\<exists>sb n. signer = Some (e, sb) \<and> normalizeSignerBinding ga b = Inr n \<and>
             normalizeSignerBinding ga sb = Inr n))"

definition session_core :: "address_parser \<Rightarrow> session \<Rightarrow> bool" where
  "session_core ga s \<longleftrightarrow>
     distinct (map at_epoch (ss_attempts s)) \<and> list_all (attempt_ok (ss_epoch s) (ss_state s)) (ss_attempts s) \<and>
     ss_signers s = (case ss_signer s of Some (i, _) \<Rightarrow> [i] | None \<Rightarrow> []) \<and>
     state_ok ga (ss_epoch s) (ss_state s) (ss_signer s) (ss_timer s)"

definition reads_secret :: "unlock_stage \<Rightarrow> bool" where
  "reads_secret stage \<longleftrightarrow> stage = AwaitFocusForSigner \<or> stage = AwaitSigner"

text \<open>Every secret belongs to an unlock that has read it; but for that of one attempt.\<close>

definition secrets_but :: "nat set \<Rightarrow> session \<Rightarrow> bool" where
  "secrets_but is s \<longleftrightarrow>
     (\<forall>i \<in> set (ss_secrets s). i \<in> is \<or> (\<exists>a \<in> set (ss_attempts s). at_epoch a = i \<and> reads_secret (at_stage a)))"

definition session_ok :: "address_parser \<Rightarrow> session \<Rightarrow> bool" where
  "session_ok ga s \<longleftrightarrow> session_core ga s \<and> secrets_but {} s"

lemma lock_simps [simp]:
  "ss_epoch (lock r s) = ss_epoch s + 1" "ss_state (lock r s) = Locked (ss_epoch s + 1) (Some r)"
  "ss_signer (lock r s) = None" "ss_timer (lock r s) = None" "ss_attempts (lock r s) = ss_attempts s"
  "ss_secrets (lock r s) = ss_secrets s" "ss_inFlight (lock r s) = None"
  by (simp_all add: lock_def clearSigner_def Let_def)

lemma lock_signers: "session_core ga s \<Longrightarrow> ss_signers (lock r s) = []"
  by (auto simp: lock_def clearSigner_def Let_def session_core_def split: option.splits prod.splits)

lemma attempts_older:
  "list_all (attempt_ok ep st) as \<Longrightarrow> ep < ep' \<Longrightarrow> list_all (attempt_ok ep' st') as"
  by (auto simp: list_all_iff attempt_ok_def)

lemma lock_core: "session_core ga s \<Longrightarrow> session_core ga (lock r s)"
  using lock_signers [of ga s r] by (simp add: session_core_def state_ok_def) (auto intro: attempts_older)

lemma lock_secrets [simp]: "secrets_but is (lock r s) = secrets_but is s"
  by (simp add: secrets_but_def)

lemma set_stage_simps [simp]:
  "ss_epoch (set_stage a g s) = ss_epoch s" "ss_state (set_stage a g s) = ss_state s"
  "ss_signer (set_stage a g s) = ss_signer s" "ss_timer (set_stage a g s) = ss_timer s"
  "ss_secrets (set_stage a g s) = ss_secrets s" "ss_signers (set_stage a g s) = ss_signers s"
  "ss_attempts (set_stage a g s) =
     map (\<lambda>b. if at_epoch b = at_epoch a then b\<lparr>at_stage := g\<rparr> else b) (ss_attempts s)"
  by (simp_all add: set_stage_def)

lemma endAttempt_simps [simp]:
  "ss_epoch (endAttempt a s) = ss_epoch s" "ss_state (endAttempt a s) = ss_state s"
  "ss_signer (endAttempt a s) = ss_signer s" "ss_timer (endAttempt a s) = ss_timer s"
  "ss_secrets (endAttempt a s) = removeAll (at_epoch a) (ss_secrets s)" "ss_signers (endAttempt a s) = ss_signers s"
  "ss_attempts (endAttempt a s) = filter (\<lambda>b. at_epoch b \<noteq> at_epoch a) (ss_attempts s)"
  by (simp_all add: endAttempt_def)

lemma set_stage_core: "session_core ga s \<Longrightarrow> session_core ga (set_stage a g s)"
proof -
  assume c: "session_core ga s"
  let ?f = "\<lambda>b. if at_epoch b = at_epoch a then b\<lparr>at_stage := g\<rparr> else b"
  have d: "map at_epoch (map ?f xs) = map at_epoch xs" for xs by simp
  have "attempt_ok ep st (?f b) = attempt_ok ep st b" for ep st b by (simp add: attempt_ok_def)
  then have l: "list_all (attempt_ok ep st) (map ?f xs) = list_all (attempt_ok ep st) xs" for ep st xs
    unfolding list.pred_map comp_def by (simp only:)
  show ?thesis using c unfolding session_core_def set_stage_simps d l .
qed

lemma set_stage_secrets:
  assumes "a \<in> set (ss_attempts s)" "secrets_but is s" "is \<subseteq> {at_epoch a}"
    and "reads_secret g \<or> is = {} \<and> \<not> reads_secret (at_stage a)" "distinct (map at_epoch (ss_attempts s))"
  shows "secrets_but {} (set_stage a g s)"
  unfolding secrets_but_def
proof
  fix i assume i: "i \<in> set (ss_secrets (set_stage a g s))"
  let ?f = "\<lambda>b. if at_epoch b = at_epoch a then b\<lparr>at_stage := g\<rparr> else b"
  from i assms(2) consider "i \<in> is"
    | b where "b \<in> set (ss_attempts s)" "at_epoch b = i" "reads_secret (at_stage b)"
    by (auto simp: secrets_but_def)
  then have "\<exists>b \<in> set (map ?f (ss_attempts s)). at_epoch b = i \<and> reads_secret (at_stage b)"
  proof cases
    case 1
    with assms(1,3,4) have "?f a \<in> set (map ?f (ss_attempts s))" "at_epoch (?f a) = i" "reads_secret (at_stage (?f a))"
      by (auto intro!: imageI)
    then show ?thesis by blast
  next
    case (2 b)
    have "reads_secret (at_stage (?f b))"
    proof (cases "at_epoch b = at_epoch a")
      case True
      with assms(1,5) 2(1) have "b = a" by (auto simp: distinct_map dest: inj_onD)
      with assms(4) 2(3) show ?thesis by auto
    qed (use 2(3) in simp)
    moreover have "at_epoch (?f b) = i" using 2(2) by simp
    moreover have "?f b \<in> set (map ?f (ss_attempts s))" using 2(1) by simp
    ultimately show ?thesis by blast
  qed
  then show "i \<in> {} \<or> (\<exists>b \<in> set (ss_attempts (set_stage a g s)). at_epoch b = i \<and> reads_secret (at_stage b))" by simp
qed

lemma endAttempt_core: "session_core ga s \<Longrightarrow> session_core ga (endAttempt a s)"
  by (auto simp: session_core_def list_all_iff distinct_map_filter)

lemma endAttempt_secrets: "secrets_but {at_epoch a} s \<Longrightarrow> secrets_but {} (endAttempt a s)"
  by (fastforce simp: secrets_but_def)

lemma failAttempt_ok:
  assumes "session_core ga s" "secrets_but {at_epoch a} s"
  shows "session_ok ga (failAttempt a e s)"
  using assms by (simp add: failAttempt_def session_ok_def endAttempt_core endAttempt_secrets lock_core)

lemma secrets_but_mono: "secrets_but {} s \<Longrightarrow> secrets_but is s"
  by (auto simp: secrets_but_def)

lemma assertUnlockCurrent_Inr:
  "assertUnlockCurrent e v s = Inr u \<longleftrightarrow> ss_epoch s = e \<and> v_contextCurrent v \<and> v_active v"
  by (auto simp: assertUnlockCurrent_def)

lemma proceed_ok:
  assumes "a \<in> set (ss_attempts s)" "session_core ga s" "secrets_but is s" "is \<subseteq> {at_epoch a}"
    and "reads_secret g \<or> is = {} \<and> \<not> reads_secret (at_stage a)"
  shows "session_ok ga (proceed a g v s)"
proof -
  have "secrets_but {at_epoch a} s" using assms(3,4) by (auto simp: secrets_but_def)
  moreover have "secrets_but {} (set_stage a g s)"
    using assms by (intro set_stage_secrets) (auto simp: session_core_def)
  ultimately show ?thesis using assms(2)
    by (auto simp: proceed_def session_ok_def set_stage_core failAttempt_ok [unfolded session_ok_def] split: sum.splits)
qed

lemma resume_ok:
  assumes "session_ok ga s" "a \<in> set (ss_attempts s)" "answers_stage x (at_stage a)"
  shows "session_ok ga (resume ga a x v s)"
proof -
  have c: "session_core ga s" "secrets_but {} s" "secrets_but {at_epoch a} s"
    using assms(1) secrets_but_mono by (auto simp: session_ok_def)
  note fail = failAttempt_ok [OF c(1,3)]
  have stage: "session_ok ga (set_stage a g s)" if "reads_secret g \<or> \<not> reads_secret (at_stage a)" for g
  proof -
    have "distinct (map at_epoch (ss_attempts s))" using c(1) by (simp add: session_core_def)
    with that set_stage_secrets [OF assms(2) c(2)] c(1) show ?thesis by (auto simp: session_ok_def set_stage_core)
  qed
  have go: "session_ok ga (proceed a g v s)" if "reads_secret g \<or> \<not> reads_secret (at_stage a)" for g
    using proceed_ok [OF assms(2) c(1,2)] that by auto
  show ?thesis
  proof (cases "(ga, a, x, v, s)" rule: resume.cases)
    case (6 ga' a' b v' s')
    let ?t = "s\<lparr>ss_secrets := at_epoch a # ss_secrets s\<rparr>"
    have t: "session_core ga ?t" "secrets_but {at_epoch a} ?t" "a \<in> set (ss_attempts ?t)"
      using c assms(2) by (auto simp: session_core_def secrets_but_def)
    have "session_ok ga (proceed a AwaitSigner v ?t)"
      by (rule proceed_ok [OF t(3,1,2)]) (auto simp: reads_secret_def)
    moreover have "session_ok ga (set_stage a AwaitFocusForSigner ?t)"
    proof -
      have "distinct (map at_epoch (ss_attempts ?t))" using t(1) by (simp add: session_core_def)
      with set_stage_secrets [OF t(3,2), of AwaitFocusForSigner] t(1) show ?thesis
        by (auto simp: session_ok_def set_stage_core reads_secret_def)
    qed
    ultimately show ?thesis using 6 failAttempt_ok [OF t(1,2)] by (auto simp: Let_def split: sum.splits)
  next
    case (8 ga' a' candidate v' s')
    let ?t = "s\<lparr>ss_signers := at_epoch a # ss_signers s\<rparr>"
    show ?thesis
    proof (cases "bindE (assertSignerBinding ga (at_binding a) candidate) (\<lambda>_. assertUnlockCurrent (at_epoch a) v ?t)")
      case (Inl e)
      have none: "at_epoch a \<notin> set (ss_signers s)"
      proof
        assume "at_epoch a \<in> set (ss_signers s)"
        then obtain sb where "ss_signer s = Some (at_epoch a, sb)"
          using c(1) by (auto simp: session_core_def split: option.splits)
        moreover from this c(1) have "at_epoch a = ss_epoch s" "\<exists>b d u z. ss_state s = Unlocked (at_epoch a) b d u z"
          by (auto simp: session_core_def state_ok_def split: SignerSessionSnapshot.splits)
        ultimately show False using c(1) assms(2) by (auto simp: session_core_def list_all_iff attempt_ok_def)
      qed
      then have "?t\<lparr>ss_signers := removeAll (at_epoch a) (ss_signers ?t)\<rparr> = s" by simp
      with 8 Inl fail show ?thesis by (simp add: Let_def)
    next
      case (Inr u)
      then obtain n where n: "normalizeSignerBinding ga (at_binding a) = Inr n" "normalizeSignerBinding ga candidate = Inr n"
        and cur: "ss_epoch s = at_epoch a"
        by (auto simp: assertSignerBinding_Inr assertUnlockCurrent_Inr)
      have "ss_state s = UnlockingSession (at_epoch a) (at_binding a) (at_context a)"
        using c(1) assms(2) cur by (auto simp: session_core_def list_all_iff attempt_ok_def)
      then have signer: "ss_signer s = None" using c(1) by (auto simp: session_core_def state_ok_def)
      have "at_epoch b \<noteq> ss_epoch s \<longrightarrow> attempt_ok (ss_epoch s) st b" if "b \<in> set (ss_attempts s)" for b st
        using c(1) that by (auto simp: session_core_def list_all_iff attempt_ok_def)
      then have "session_core ga (install a candidate v ?t)"
        using c(1) n cur signer
        by (auto simp: session_core_def install_def state_ok_def list_all_iff distinct_map_filter)
      moreover have "secrets_but {} (install a candidate v ?t)"
        unfolding install_def using c(3) by (intro endAttempt_secrets) (simp add: secrets_but_def)
      ultimately show ?thesis using 8 Inr by (simp add: Let_def session_ok_def)
    qed
  qed (use assms(3) fail stage go in \<open>auto simp: reads_secret_def split: sum.splits\<close>)
qed

lemma lock_ok: "session_ok ga s \<Longrightarrow> session_ok ga (lock r s)"
  by (simp add: session_ok_def lock_core)

lemma unlock_ok:
  assumes "session_ok ga s"
  shows "session_ok ga (snd (unlock caps ga b c v s))"
proof -
  have "session_ok ga ((lock ContextChanged s)\<lparr>ss_state := UnlockingSession (ss_epoch s + 1) n c,
      ss_attempts := ss_attempts s @
        [\<lparr>at_epoch = ss_epoch s + 1, at_binding = n, at_context = c, at_stage = AwaitDevice\<rparr>],
      ss_inFlight := Some (ss_epoch s + 1)\<rparr>)" for n
    using lock_ok [OF assms, of ContextChanged] assms lock_signers [of ga s ContextChanged]
    by (auto simp: session_ok_def session_core_def state_ok_def secrets_but_def list_all_iff attempt_ok_def)
  then show ?thesis using assms by (auto simp: unlock_def Let_def split: sum.splits)
qed

lemma session_step_ok:
  assumes "session_step caps ga s t" "session_ok ga s"
  shows "session_ok ga t"
  using assms
proof (cases rule: session_step.cases)
  case (signs b c v)
  then show ?thesis using assms(2) lock_ok [OF assms(2)]
    by (auto simp: startSign_def split: sum.splits SignerSessionSnapshot.splits option.splits prod.splits)
next
  case (signed b started answer v)
  then show ?thesis using assms(2) lock_ok [OF assms(2)] by (auto simp: finishSign_def split: sum.splits)
qed (use assms(2) in \<open>auto intro: unlock_ok resume_ok lock_ok\<close>)

section \<open>Runs\<close>

abbreviation session_run :: "capabilities \<Rightarrow> address_parser \<Rightarrow> session \<Rightarrow> session \<Rightarrow> bool" where
  "session_run caps ga \<equiv> (session_step caps ga)\<^sup>*\<^sup>*"

lemma session_run_ok: "session_run caps ga s t \<Longrightarrow> session_ok ga s \<Longrightarrow> session_ok ga t"
  by (induction rule: rtranclp_induct) (auto intro: session_step_ok)

lemma created_ok: "session_ok ga createSignerSessionManager"
  by (simp add: session_ok_def session_core_def state_ok_def secrets_but_def createSignerSessionManager_def)

lemma resume_epoch: "ss_epoch s \<le> ss_epoch (resume ga a x v s)"
proof -
  have f: "ss_epoch t \<le> ss_epoch (failAttempt a e t)" for t e by (simp add: failAttempt_def)
  have p: "ss_epoch t \<le> ss_epoch (proceed a g v t)" for t g using f by (simp add: proceed_def split: sum.splits)
  show ?thesis
    using f [of s] p [of s] f [of "s\<lparr>ss_secrets := at_epoch a # ss_secrets s\<rparr>"]
      p [of "s\<lparr>ss_secrets := at_epoch a # ss_secrets s\<rparr>"]
      f [of "s\<lparr>ss_signers := removeAll (at_epoch a) (at_epoch a # ss_signers s)\<rparr>"]
    by (cases "(ga, a, x, v, s)" rule: resume.cases) (auto simp: Let_def install_def split: sum.splits)
qed

lemma session_step_epoch: "session_step caps ga s t \<Longrightarrow> ss_epoch s \<le> ss_epoch t"
  by (erule session_step.cases)
    (auto simp: resume_epoch unlock_def startSign_def finishSign_def Let_def
      split: sum.splits SignerSessionSnapshot.splits option.splits prod.splits)

lemma session_run_epoch: "session_run caps ga s t \<Longrightarrow> ss_epoch s \<le> ss_epoch t"
  by (induction rule: rtranclp_induct) (auto dest: session_step_epoch)

text \<open>
  C28. In every state that a run of a new manager reaches: a signer lives only while the session is
  unlocked, then it is the only one, it is bound to the very signer of the session, and a timer will
  lock it after five minutes; and every secret that is not disposed of is that of an unlock still
  waiting for its signer.
\<close>

theorem signers_live_only_while_unlocked:
  assumes "session_run caps ga createSignerSessionManager s"
  shows "(case ss_state s of
        Unlocked e b c u x \<Rightarrow> ss_signers s = [e] \<and> x = u + 300000 \<and> ss_timer s = Some e \<and>
          (\<exists>sb. ss_signer s = Some (e, sb) \<and> assertSignerBinding ga b sb = Inr ())
      | _ \<Rightarrow> ss_signers s = [] \<and> ss_signer s = None) \<and>
     (\<forall>i. i \<in> set (ss_secrets s) \<longrightarrow>
        (\<exists>a. a \<in> set (ss_attempts s) \<and> at_epoch a = i \<and> at_stage a \<in> {AwaitFocusForSigner, AwaitSigner}))"
proof -
  have ok: "session_core ga s" "secrets_but {} s"
    using session_run_ok [OF assms created_ok] by (auto simp: session_ok_def)
  from ok(1) have "case ss_state s of
        Unlocked e b c u x \<Rightarrow> ss_signers s = [e] \<and> x = u + 300000 \<and> ss_timer s = Some e \<and>
          (\<exists>sb. ss_signer s = Some (e, sb) \<and> assertSignerBinding ga b sb = Inr ())
      | _ \<Rightarrow> ss_signers s = [] \<and> ss_signer s = None"
    by (auto simp: session_core_def state_ok_def assertSignerBinding_Inr SIGNER_SESSION_DURATION_MS_def
        split: SignerSessionSnapshot.splits)
  with ok(2) show ?thesis by (auto simp: secrets_but_def reads_secret_def)
qed

text \<open>
  A lock is final for what it locks out: no unlock that was waiting when the session was locked
  ever installs its signer; a later unlocked session was requested after the lock.
\<close>

theorem locked_out_unlock_never_installs:
  assumes "session_run caps ga createSignerSessionManager s" "session_run caps ga (lock reason s) t"
    and "ss_state t = Unlocked e b c u x"
  shows "ss_epoch s < e \<and> e \<notin> at_epoch ` set (ss_attempts s)"
proof -
  have ok: "session_ok ga s" using session_run_ok [OF assms(1) created_ok] .
  then have "session_ok ga t" using session_run_ok [OF assms(2)] lock_ok by blast
  then have "e = ss_epoch t" using assms(3) by (auto simp: session_ok_def session_core_def state_ok_def)
  moreover have "ss_epoch s + 1 \<le> ss_epoch t" using session_run_epoch [OF assms(2)] by simp
  moreover have "at_epoch a \<le> ss_epoch s" if "a \<in> set (ss_attempts s)" for a
    using ok that by (auto simp: session_ok_def session_core_def list_all_iff attempt_ok_def)
  ultimately show ?thesis by fastforce
qed

section \<open>Signatures\<close>

text \<open>Within an epoch, an unlocked session stays as it is.\<close>

lemma startSign_Inr:
  assumes "startSign caps ga expected captured v s = (Inr (e, sb), s')"
  obtains b u x i n where "s' = s" "e = ss_epoch s" "ss_state s = Unlocked i b captured u x" "ss_signer s = Some (n, sb)"
    "v_now v < x" "assertSignerBinding ga expected b = Inr ()" "v_contextCurrent v" "v_active v"
  using assms
  by (auto simp: startSign_def not_le split: sum.splits SignerSessionSnapshot.splits option.splits prod.splits if_splits)

lemma unlocked_step:
  assumes "session_step caps ga s t" "session_ok ga s" "ss_state s = Unlocked e b c u x" "ss_epoch t = ss_epoch s"
  shows "ss_state t = ss_state s"
  using assms(1)
proof cases
  case (unlocks b c v)
  with assms(4) show ?thesis by (auto simp: unlock_def Let_def split: sum.splits if_splits)
next
  case (answered a y v)
  have a: "at_epoch a \<noteq> ss_epoch s"
    using assms(2,3) answered(2) by (auto simp: session_ok_def session_core_def list_all_iff attempt_ok_def)
  have f: "ss_state (failAttempt a err r) = ss_state r" if "ss_epoch r = ss_epoch s" for err r
    using a that by (simp add: failAttempt_def)
  have p: "ss_state (proceed a g v r) = ss_state r" if "ss_epoch r = ss_epoch s" for g r
    using f [OF that] by (simp add: proceed_def split: sum.splits)
  show ?thesis unfolding answered(1)
    using a f p by (cases "(ga, a, y, v, s)" rule: resume.cases)
      (auto simp: Let_def assertUnlockCurrent_Inr split: sum.splits)
qed (use assms(4) in \<open>auto simp: startSign_def finishSign_def
      split: sum.splits SignerSessionSnapshot.splits option.splits prod.splits if_splits\<close>)

lemma unlocked_run:
  "session_run caps ga s t \<Longrightarrow> session_ok ga s \<Longrightarrow> ss_state s = Unlocked e b c u x \<Longrightarrow> ss_epoch t = ss_epoch s \<Longrightarrow>
     ss_state t = ss_state s"
proof (induction rule: rtranclp_induct)
  case (step t t')
  have "ss_epoch s \<le> ss_epoch t" "ss_epoch t \<le> ss_epoch t'"
    using session_run_epoch [OF step(1)] session_step_epoch [OF step(2)] .
  with step.prems(3) have e: "ss_epoch t = ss_epoch s" "ss_epoch t' = ss_epoch t" by simp_all
  with step have "ss_state t = Unlocked e b c u x" by simp
  from unlocked_step [OF step(2) session_run_ok [OF step(1) step.prems(1)] this e(2)] step e show ?case by simp
qed simp

text \<open>
  C27. A signature is handed out only by one and the same unlocked session, from the request to the
  answer: unlocked for the requested signer in the requested context epoch, not expired when the
  signer was asked, with the context current and the application in front at both ends; and it is
  a signature of that session's signer in canonical form.
\<close>

theorem signature_belongs_to_one_session:
  assumes "session_run caps ga createSignerSessionManager s"
    and "startSign caps ga expected captured v s = (Inr started, s')"
    and "session_run caps ga s' t"
    and "finishSign caps ga expected payload started signTypedData w t = (Inr signature, t')"
  shows "(\<exists>e b u x sb. ss_state s = Unlocked e b captured u x \<and> ss_state t = ss_state s \<and>
        v_now v < x \<and> x = u + 300000 \<and> assertSignerBinding ga expected b = Inr () \<and>
        ss_signer s = Some (e, sb) \<and> assertSignerBinding ga expected sb = Inr () \<and>
        v_contextCurrent v \<and> v_active v \<and> v_contextCurrent w \<and> v_active w) \<and>
     (\<exists>raw. signTypedData payload = Inr raw \<and> validateSignature raw = Inr signature) \<and>
     assertSignerAccessCapability caps (sb_network expected) = Inr ()"
proof -
  obtain k sb where st: "started = (k, sb)" by fastforce
  from startSign_Inr [OF assms(2) [unfolded st]] obtain b u x i n where s: "s' = s" "k = ss_epoch s"
    "ss_state s = Unlocked i b captured u x" "ss_signer s = Some (n, sb)" "v_now v < x"
    "assertSignerBinding ga expected b = Inr ()" "v_contextCurrent v" "v_active v" .
  have ok: "session_ok ga s" using session_run_ok [OF assms(1) created_ok] .
  then have in': "n = i" "x = u + 300000"
    using s(3,4) by (auto simp: session_ok_def session_core_def state_ok_def SIGNER_SESSION_DURATION_MS_def)
  from assms(4) have f: "signNetworkTypedData caps ga expected (sb_network expected, payload) sb signTypedData = Inr signature"
      "ss_epoch t = k" "v_contextCurrent w" "v_active w"
    by (auto simp: finishSign_def st split: sum.splits if_splits)
  have "ss_state t = ss_state s" using unlocked_run [of caps ga s t] assms(3) ok s(1-3) f(2) by simp
  moreover from f(1) obtain raw where "signTypedData payload = Inr raw" "validateSignature raw = Inr signature"
      "assertSignerBinding ga expected sb = Inr ()" "assertSignerAccessCapability caps (sb_network expected) = Inr ()"
    by (auto simp: signNetworkTypedData_def sign_network_def)
  ultimately show ?thesis using s in' f(3,4) by auto
qed

section \<open>A concrete session\<close>

definition session_binding :: SignerBinding where
  "session_binding = \<lparr>sb_network = Testnet, sb_masterAccount = ''0xaa'', sb_targetAccount = ''0xaa'',
     sb_agentAddress = ''0xbb'', sb_generation = IntN 1\<rparr>"

definition session_view :: view where
  "session_view = \<lparr>v_active = True, v_contextCurrent = True, v_now = 1000\<rparr>"

definition idle_session :: "nat \<Rightarrow> SignerSessionStopReason option \<Rightarrow> session" where
  "idle_session n r =
     \<lparr>ss_epoch = n, ss_state = Locked n r, ss_signer = None, ss_timer = None, ss_inFlight = None,
      ss_attempts = [], ss_secrets = [], ss_signers = []\<rparr>"

definition waiting_session :: "nat \<Rightarrow> unlock_stage \<Rightarrow> session" where
  "waiting_session n stage =
     \<lparr>ss_epoch = n, ss_state = UnlockingSession n session_binding 3, ss_signer = None, ss_timer = None,
      ss_inFlight = Some n,
      ss_attempts = [\<lparr>at_epoch = n, at_binding = session_binding, at_context = 3, at_stage = stage\<rparr>],
      ss_secrets = (if stage = AwaitSigner then [n] else []), ss_signers = []\<rparr>"

definition unlocked_session :: "nat \<Rightarrow> session" where
  "unlocked_session n =
     \<lparr>ss_epoch = n, ss_state = Unlocked n session_binding 3 1000 301000, ss_signer = Some (n, session_binding),
      ss_timer = Some n, ss_inFlight = None, ss_attempts = [], ss_secrets = [], ss_signers = [n]\<rparr>"

lemma session_binding_ok: "normalizeSignerBinding Some session_binding = Inr session_binding"
  by code_simp

lemma session_same_binding: "assertSignerBinding Some session_binding session_binding = Inr ()"
  using session_binding_ok by (simp add: assertSignerBinding_Inr)

lemma session_access: "assertSignerAccessCapability ACTION_CAPABILITIES (sb_network session_binding) = Inr ()"
  by (simp add: assertSignerAccessCapability_def session_binding_def)

lemma session_unlocks:
  "session_step ACTION_CAPABILITIES Some (idle_session n r) (waiting_session (Suc n) AwaitDevice)"
proof -
  have "unlock ACTION_CAPABILITIES Some session_binding 3 session_view (idle_session n r) =
      (Starts (Suc n), waiting_session (Suc n) AwaitDevice)"
    by (simp add: unlock_def session_access session_binding_ok idle_session_def lock_def
        clearSigner_def waiting_session_def Let_def)
  with unlocks [of ACTION_CAPABILITIES Some "idle_session n r" session_binding 3 session_view] show ?thesis by simp
qed

lemma session_answers:
  "session_step ACTION_CAPABILITIES Some (waiting_session n AwaitDevice) (waiting_session n AwaitVault)"
  "session_step ACTION_CAPABILITIES Some (waiting_session n AwaitVault) (waiting_session n AwaitSigner)"
  "session_step ACTION_CAPABILITIES Some (waiting_session n AwaitSigner) (unlocked_session n)"
proof -
  let ?a = "\<lambda>stage. \<lparr>at_epoch = n, at_binding = session_binding, at_context = 3, at_stage = stage\<rparr>"
  have "resume Some (?a AwaitDevice) (DeviceAnswers (Inr ())) session_view (waiting_session n AwaitDevice) =
      waiting_session n AwaitVault"
    by (simp add: waiting_session_def session_view_def proceed_def assertUnlockCurrent_def set_stage_def)
  then show "session_step ACTION_CAPABILITIES Some (waiting_session n AwaitDevice) (waiting_session n AwaitVault)"
    using answered [of "?a AwaitDevice" "waiting_session n AwaitDevice" "DeviceAnswers (Inr ())" _ Some session_view]
    by (simp add: waiting_session_def)
  have "resume Some (?a AwaitVault) (VaultAnswers (Inr session_binding)) session_view (waiting_session n AwaitVault) =
      waiting_session n AwaitSigner"
    by (simp add: waiting_session_def session_view_def proceed_def assertUnlockCurrent_def set_stage_def
        session_same_binding)
  then show "session_step ACTION_CAPABILITIES Some (waiting_session n AwaitVault) (waiting_session n AwaitSigner)"
    using answered [of "?a AwaitVault" "waiting_session n AwaitVault" "VaultAnswers (Inr session_binding)" _ Some session_view]
    by (simp add: waiting_session_def)
  have "resume Some (?a AwaitSigner) (SignerAnswers (Inr session_binding)) session_view (waiting_session n AwaitSigner) =
      unlocked_session n"
    by (simp add: waiting_session_def session_view_def assertUnlockCurrent_def install_def endAttempt_def
        session_same_binding unlocked_session_def SIGNER_SESSION_DURATION_MS_def)
  then show "session_step ACTION_CAPABILITIES Some (waiting_session n AwaitSigner) (unlocked_session n)"
    using answered [of "?a AwaitSigner" "waiting_session n AwaitSigner" "SignerAnswers (Inr session_binding)" _ Some session_view]
    by (simp add: waiting_session_def)
qed

lemma session_unlocked:
  "session_run ACTION_CAPABILITIES Some (idle_session n r) (unlocked_session (Suc n))"
  using session_unlocks session_answers by (meson rtranclp.rtrancl_into_rtrancl rtranclp.rtrancl_refl)

lemma idle_sessions: "createSignerSessionManager = idle_session 0 None" "lock r (idle_session n q) = idle_session (Suc n) (Some r)"
  by (simp_all add: createSignerSessionManager_def idle_session_def lock_def clearSigner_def Let_def)

lemma first_session: "session_run ACTION_CAPABILITIES Some createSignerSessionManager (unlocked_session 1)"
  using session_unlocked [of 0 None] by (simp add: idle_sessions)

theorem signers_live_only_while_unlocked_witness:
  "ss_signers (unlocked_session 1) = [1] \<and> (\<exists>sb. ss_signer (unlocked_session 1) = Some (1, sb))"
  using signers_live_only_while_unlocked [OF first_session] by (simp add: unlocked_session_def)

text \<open>A session that was locked while an unlock waited, and the unlock that came after.\<close>

theorem locked_out_unlock_never_installs_witness:
  "ss_epoch createSignerSessionManager < ss_epoch (unlocked_session 2)"
proof -
  have "session_run ACTION_CAPABILITIES Some (lock Manual createSignerSessionManager) (unlocked_session 2)"
    using session_unlocked [of 1 "Some Manual"] by (simp add: idle_sessions numeral_2_eq_2)
  from locked_out_unlock_never_installs [OF rtranclp.rtrancl_refl this] show ?thesis
    by (simp add: unlocked_session_def)
qed

theorem signature_belongs_to_one_session_witness:
  "assertSignerBinding Some session_binding session_binding = Inr () \<and> v_now session_view < 301000"
proof -
  have start: "startSign ACTION_CAPABILITIES Some session_binding 3 session_view (unlocked_session 1) =
      (Inr (1, session_binding), unlocked_session 1)"
    by (simp add: startSign_def session_access unlocked_session_def session_view_def session_same_binding)
  define raw where "raw = \<lparr>sig_r = ''0x'' @ replicate 64 CHR ''1'', sig_s = ''0x'' @ replicate 64 CHR ''2'', sig_v = IntN 27\<rparr>"
  have v: "validateSignature raw = Inr raw" unfolding raw_def by code_simp
  have finish: "finishSign ACTION_CAPABILITIES Some session_binding () (1, session_binding) (\<lambda>_. Inr raw) session_view
      (unlocked_session 1) = (Inr raw, unlocked_session 1)"
    by (simp add: finishSign_def signNetworkTypedData_def sign_network_def session_access session_same_binding v
        session_view_def unlocked_session_def)
  from signature_belongs_to_one_session [OF first_session start rtranclp.rtrancl_refl finish]
  show ?thesis by (auto simp: unlocked_session_def)
qed

end
