(* ===== verification/Order_Price.thy ===== *)
theory Order_Price
  imports Validated
begin

text \<open>
  The prices the application fills in:
  \<^verbatim>\<open>apps/mobile/src/features/actions/aggressive-order-price.ts\<close>. The limit price of a market
  order is the reference price moved by the slippage and rounded towards the reference; the editable
  price is the reference rounded to the nearest valid price. Big integers are unbounded here.
\<close>

section \<open>Numbers\<close>

definition math_min :: "js_number \<Rightarrow> js_number \<Rightarrow> js_number" where
  "math_min a b = (if a = NaN \<or> b = NaN then NaN else if js_less b a then b else a)"

definition math_max :: "js_number \<Rightarrow> js_number \<Rightarrow> js_number" where
  "math_max a b = (if a = NaN \<or> b = NaN then NaN else if js_less a b then b else a)"

fun minus_int :: "js_number \<Rightarrow> int \<Rightarrow> js_number" where
  "minus_int (IntN a) b = IntN (a - b)"
| "minus_int (FracN q) b = FracN (q - of_int b)"
| "minus_int n _ = n"

text \<open>\<^verbatim>\<open>BigInt(scale)\<close> as the exponent of a power of ten.\<close>

definition exponent :: "js_number \<Rightarrow> nat result" where
  "exponent n =
     (case n of
        IntN i \<Rightarrow> if i < 0 then Inl (RangeErr ''Exponent must be non-negative'') else Inr (nat i)
      | _ \<Rightarrow> Inl (RangeErr ''The number cannot be converted to a BigInt because it is not an integer''))"

definition formatCoefficient :: "int \<Rightarrow> nat \<Rightarrow> string" where
  "formatCoefficient c s =
     (if s = 0 then show_nat (nat c)
      else
        let digits = padStart (show_nat (nat c)) (s + 1) CHR ''0'';
            split = length digits - s;
            fraction = trim_trailing_zeros (drop split digits)
        in if fraction = [] then take split digits else take split digits @ ''.'' @ fraction)"

text \<open>\<^verbatim>\<open>split(".")\<close> of a decimal string, as the big integer of its digits and their scale.\<close>

definition split_decimal :: "string \<Rightarrow> int \<times> nat" where
  "split_decimal text =
     (int (digits_val (before_dot text @ drop 1 (from_dot text))), length (drop 1 (from_dot text)))"

definition targetScale :: "PricePrecisionInputs \<Rightarrow> int \<Rightarrow> js_number" where
  "targetScale precision wholeDigits =
     math_max (IntN 0)
       (math_min (maxDecimalPlaces precision) (minus_int (maxSignificantFigures precision) wholeDigits))"

section \<open>The two prices\<close>

definition roundedPriceInputValue :: "string option \<Rightarrow> PricePrecisionInputs option \<Rightarrow> string option result" where
  "roundedPriceInputValue priceArg precisionArg =
     (case (priceArg, precisionArg) of
        (Some price, Some precision) \<Rightarrow>
          if \<not> isDecimalString price \<or> starts_minus price then Inr None
          else
            let (coefficient, fractionDigits) = split_decimal price in
            if coefficient \<le> 0 then Inr None
            else
              let wholeDigits = int (length (show_nat (nat coefficient))) - int fractionDigits in
              bindE (exponent (targetScale precision wholeDigits)) (\<lambda>target.
                let numerator = coefficient * powerOfTen target;
                    denominator = powerOfTen fractionDigits;
                    rounded = numerator div denominator;
                    rounded = (if numerator mod denominator * 2 \<ge> denominator then rounded + 1 else rounded)
                in Inr (if rounded > 0 then Some (formatCoefficient rounded target) else None))
      | _ \<Rightarrow> Inr None)"

definition aggressiveOrderPrice ::
    "string \<Rightarrow> order_side \<Rightarrow> js_number \<Rightarrow> PricePrecisionInputs \<Rightarrow> string result" where
  "aggressiveOrderPrice referencePrice side slippageBps precision =
     (case slippageBps of
        IntN bps \<Rightarrow>
          bindE (throw_if (\<not> isSafeInteger slippageBps \<or> bps < 0 \<or> bps > 500)
                   (Err ''Slippage must be whole basis points from 0 through 500.'')) (\<lambda>_.
          bindE (throw_if (\<not> isDecimalString referencePrice \<or> starts_minus referencePrice)
                   (Err ''Reference price must be a positive decimal value.'')) (\<lambda>_.
          let (coefficient, scale) = split_decimal referencePrice in
          bindE (throw_if (coefficient \<le> 0) (Err ''Reference price must be greater than zero.'')) (\<lambda>_.
          let wholeDigits = max 1 (int (length (show_nat (nat coefficient))) - int scale);
              factor = (if side = Buy then 10000 + bps else 10000 - bps)
          in
          bindE (exponent (targetScale precision wholeDigits)) (\<lambda>target.
          let numerator = coefficient * factor * powerOfTen target;
              denominator = powerOfTen scale * 10000;
              quotient = numerator div denominator;
              bound = (if side = Sell \<and> numerator mod denominator \<noteq> 0 then quotient + 1 else quotient)
          in
          bindE (throw_if (bound \<le> 0) (Err ''The slippage price bound is not positive.'')) (\<lambda>_.
          Inr (formatCoefficient bound target))))))
      | _ \<Rightarrow> Inl (Err ''Slippage must be whole basis points from 0 through 500.''))"

section \<open>Formatting a coefficient\<close>

lemma show_nat_snoc:
  assumes "10 \<le> n"
  shows "show_nat n = show_nat (n div 10) @ [digit_char (n mod 10)]"
  using assms by (subst show_nat.simps) simp

lemma length_show_nat_snoc: "10 \<le> n \<Longrightarrow> length (show_nat n) = Suc (length (show_nat (n div 10)))"
  by (simp add: show_nat_snoc)

text \<open>A multiple of ten, padded, is the tenth of it, padded, with a zero after it.\<close>

lemma padStart_snoc_zero:
  assumes "0 < n" "n mod 10 = 0"
  shows "padStart (show_nat n) (Suc k) CHR ''0'' = padStart (show_nat (n div 10)) k CHR ''0'' @ ''0''"
proof -
  have "10 \<le> n" using assms by presburger
  then show ?thesis using assms(2) by (simp add: show_nat_snoc padStart_def)
qed

lemma trim_trailing_snoc_zero [simp]: "trim_trailing_zeros (s @ ''0'') = trim_trailing_zeros s"
  by (simp add: trim_trailing_zeros_def)

lemma trim_trailing_Nil [simp]: "trim_trailing_zeros [] = []"
  by (simp add: trim_trailing_zeros_def)

lemma formatCoefficient_tenth:
  assumes "0 < c" "c mod 10 = 0"
  shows "formatCoefficient c (Suc s) = formatCoefficient (c div 10) s"
proof -
  let ?n = "nat c"
  have n: "0 < ?n" "nat (c div 10) = ?n div 10" using assms(1) by (simp_all add: nat_div_distrib)
  have "int (?n mod 10) = c mod 10" using assms(1) by (simp add: zmod_int)
  then have m: "?n mod 10 = 0" using assms(2) by simp
  define w where "w = padStart (show_nat (?n div 10)) (s + 1) CHR ''0''"
  have pad: "padStart (show_nat ?n) (Suc s + 1) CHR ''0'' = w @ ''0''"
    using padStart_snoc_zero [OF n(1) m, of "s + 1"] by (simp add: w_def)
  have len: "s < length w" by (simp add: w_def padStart_def)
  show ?thesis
  proof (cases "s = 0")
    case True
    have "w = show_nat (?n div 10)"
      using True by (cases "show_nat (?n div 10)") (simp_all add: w_def padStart_def)
    then show ?thesis
      using pad True n(2) by (simp add: formatCoefficient_def Let_def trim_trailing_zeros_def)
  next
    case False
    have "formatCoefficient (c div 10) s =
        (let fraction = trim_trailing_zeros (drop (length w - s) w) in
         if fraction = [] then take (length w - s) w else take (length w - s) w @ ''.'' @ fraction)"
      using False n(2) by (simp add: formatCoefficient_def Let_def w_def)
    moreover have "formatCoefficient c (Suc s) =
        (let fraction = trim_trailing_zeros (drop (length w - s) (w @ ''0'')) in
         if fraction = [] then take (length w - s) (w @ ''0'') else take (length w - s) (w @ ''0'') @ ''.'' @ fraction)"
      using pad by (simp add: formatCoefficient_def Let_def)
    ultimately show ?thesis using len by (simp add: Let_def)
  qed
qed

lemma formatCoefficient_reduce:
  "0 < c \<Longrightarrow> formatCoefficient c s = formatDecimal (reduceScale c s)"
proof (induction c s rule: reduceScale.induct)
  case (1 c)
  then show ?case by (simp add: formatCoefficient_def formatDecimal_def)
next
  case (2 c s)
  show ?case
  proof (cases "c mod 10 = 0")
    case True
    then have "0 < c div 10" using "2.prems" by presburger
    with True 2 show ?thesis by (simp add: formatCoefficient_tenth)
  next
    case False
    let ?w = "padStart (show_nat (nat c)) (Suc s + 1) CHR ''0''"
    let ?f = "drop (length ?w - Suc s) ?w"
    have n: "0 < nat c" using "2.prems" by simp
    note w = padded_split [OF n zero_less_Suc [of s]]
    have ne: "?f \<noteq> []" using w(3) by (metis length_0_conv nat.distinct(1))
    have "int (nat c mod 10) = c mod 10" using "2.prems" by (simp add: zmod_int)
    then have "nat c mod 10 \<noteq> 0" using False by simp
    then have "digit_char (nat c mod 10) \<noteq> CHR ''0''"
      by (metis digit_val_char digit_val_0 mod_less_divisor zero_less_numeral)
    then have "last ?f \<noteq> CHR ''0''" using w(5) ne by (metis last_drop length_drop length_greater_0_conv zero_less_diff)
    then have "trim_trailing_zeros ?f = ?f" by (simp add: trim_trailing_fixed)
    then show ?thesis
      using False "2.prems" ne by (simp add: formatCoefficient_def formatDecimal_def Let_def)
  qed
qed

lemma split_decimal_value:
  assumes "split_decimal s = (c, k)" "\<not> starts_minus s"
  shows "decimal_value s = of_int c / 10 ^ k" "0 \<le> c"
proof -
  have "unsigned_part s = s" using assms(2) by (simp add: unsigned_part_def)
  then show "decimal_value s = of_int c / 10 ^ k" "0 \<le> c"
    using assms by (auto simp: split_decimal_def decimal_value_def digits_val_append add_divide_distrib)
qed

lemma formatCoefficient_value:
  assumes "0 < c"
  shows "decimal_value (formatCoefficient c s) = of_int c / 10 ^ s"
    "isDecimalString (formatCoefficient c s)"
    "length (formatCoefficient c s) \<le> MAX_DECIMAL_INPUT_LENGTH \<Longrightarrow>
       parseDecimal (formatCoefficient c s) p = Inr (reduceScale c s)"
  using assms by (simp_all add: formatCoefficient_reduce formatDecimal_value reduceScale_val
      isDecimalString_def formatDecimal_pattern parse_formatDecimal reduceScale_canonical)

section \<open>Number of digits\<close>

lemma digits_bound: "n < 10 ^ length (show_nat n)"
proof (induction n rule: show_nat.induct)
  case (1 n)
  show ?case
  proof (cases "n < 10")
    case True
    then show ?thesis by (subst show_nat.simps) simp
  next
    case False
    then have "Suc (n div 10) \<le> 10 ^ length (show_nat (n div 10))"
      using 1 by simp
    then have "10 * Suc (n div 10) \<le> 10 * 10 ^ length (show_nat (n div 10))" by (rule mult_le_mono2)
    moreover have "n < 10 * Suc (n div 10)" by presburger
    ultimately show ?thesis using False by (simp add: length_show_nat_snoc)
  qed
qed

lemma reduceScale_bounds:
  assumes "0 < c"
  shows "scale (reduceScale c s) \<le> s" "0 < coefficient (reduceScale c s)" "coefficient (reduceScale c s) \<le> c"
  using assms
proof (induction c s rule: reduceScale.induct)
  case (2 c s)
  { case 1 then show ?case using 2 by (cases "c mod 10 = 0") (auto simp: le_SucI)
  next case 2
    show ?case
    proof (cases "c mod 10 = 0")
      case True
      then have "0 < c div 10" using 2 by presburger
      then show ?thesis using "2.IH" True by simp
    qed (use 2 in simp)
  next case 3
    show ?case
    proof (cases "c mod 10 = 0")
      case True
      then have "0 < c div 10" "c div 10 \<le> c" using 3 by presburger+
      then show ?thesis using "2.IH" True by fastforce
    qed simp }
qed simp_all

text \<open>
  A coefficient of at most \<open>10 ^ k\<close> has, once the trailing zeros are dropped, at most \<open>k\<close>
  significant digits unless it is a whole number.
\<close>

lemma significantDigits_le:
  assumes "0 < c" "c \<le> 10 ^ k" "0 < scale (reduceScale c s)"
  shows "significantDigits (reduceScale c s) \<le> max 1 k"
proof -
  let ?d = "reduceScale c s"
  note b = reduceScale_bounds [OF assms(1), of s]
  have "coefficient ?d mod 10 \<noteq> 0"
    using reduceScale_canonical [of c s] assms(3) by (auto simp: canonical_decimal_def)
  moreover have "coefficient ?d \<le> 10 ^ k" using b(3) assms(2) by linarith
  ultimately have "coefficient ?d < 10 ^ max 1 k"
  proof (cases k)
    case (Suc j)
    then have "(10 ^ k :: int) mod 10 = 0" by simp
    then have "coefficient ?d \<noteq> 10 ^ k" using \<open>coefficient ?d mod 10 \<noteq> 0\<close> by metis
    with \<open>coefficient ?d \<le> 10 ^ k\<close> have "coefficient ?d < 10 ^ k" by linarith
    moreover have "max 1 k = k" using Suc by simp
    ultimately show ?thesis by simp
  qed simp
  then have "nat (coefficient ?d) < 10 ^ max 1 k"
    by (metis (mono_tags) b(2) less_imp_le nat_less_eq_zless nat_numeral nat_power_eq zero_le_numeral)
  then have "length (show_nat (nat (coefficient ?d))) \<le> max 1 k"
    by (intro length_show_nat_le) auto
  moreover have "hd (show_nat (nat (coefficient ?d))) \<noteq> CHR ''0''"
    using show_nat_hd [of "nat (coefficient ?d)"] b(2) by simp
  then have "dropWhile (\<lambda>c. c = CHR ''0'') (show_nat (nat (coefficient ?d))) = show_nat (nat (coefficient ?d))"
    by (cases "show_nat (nat (coefficient ?d))") simp_all
  moreover have "\<not> coefficient ?d < 0" using b(2) by simp
  ultimately show ?thesis by (simp add: significantDigits_def)
qed

section \<open>The market-order price keeps to the slippage\<close>

lemma targetScale_integral:
  assumes "maxSignificantFigures p = IntN sf" "maxDecimalPlaces p = IntN places"
  shows "targetScale p w = IntN (max 0 (min places (sf - w)))"
  using assms by (simp add: targetScale_def math_min_def math_max_def max_def min_def)

lemma exponent_nonneg [simp]: "0 \<le> i \<Longrightarrow> exponent (IntN i) = Inr (nat i)"
  by (simp add: exponent_def)

lemma div_bounds:
  assumes "0 < d"
  shows "of_int (n div d) \<le> (of_int n / of_int d :: rat)" "(of_int n / of_int d :: rat) < of_int (n div d) + 1"
    "n mod d = 0 \<Longrightarrow> (of_int n / of_int d :: rat) = of_int (n div d)"
proof -
  have f: "n div d = \<lfloor>of_int n / of_int d :: rat\<rfloor>" by (simp add: floor_divide_of_int_eq)
  show "of_int (n div d) \<le> (of_int n / of_int d :: rat)" "(of_int n / of_int d :: rat) < of_int (n div d) + 1"
    unfolding f by linarith+
  assume "n mod d = 0"
  then have "n = d * (n div d)" by auto
  then have "(of_int n :: rat) = of_int d * of_int (n div d)" by (metis of_int_mult)
  then show "(of_int n / of_int d :: rat) = of_int (n div d)" using assms by simp
qed

lemma aggressive_parts:
  assumes "aggressiveOrderPrice ref side slippage p = Inr price"
    and "maxSignificantFigures p = IntN sf" "maxDecimalPlaces p = IntN places" "side = Buy \<or> side = Sell"
  obtains bps c k w t q where
    "slippage = IntN bps" "0 \<le> bps" "bps \<le> 500" "isDecimalString ref" "\<not> starts_minus ref"
    "split_decimal ref = (c, k)" "0 < c" "w = max 1 (int (length (show_nat (nat c))) - int k)"
    "int t = max 0 (min places (sf - w))" "0 < q" "price = formatCoefficient q t"
    "side = Buy \<longrightarrow> of_int q \<le> decimal_value ref * (1 + of_int bps / 10000) * 10 ^ t \<and>
       decimal_value ref * (1 + of_int bps / 10000) * 10 ^ t < of_int q + 1"
    "side = Sell \<longrightarrow> of_int q - 1 < decimal_value ref * (1 - of_int bps / 10000) * 10 ^ t \<and>
       decimal_value ref * (1 - of_int bps / 10000) * 10 ^ t \<le> of_int q"
proof -
  obtain c k where ck: "split_decimal ref = (c, k)" by fastforce
  define w where "w = max 1 (int (length (show_nat (nat c))) - int k)"
  define t where "t = nat (max 0 (min places (sf - w)))"
  from assms(1) obtain bps where bps: "slippage = IntN bps"
    by (auto simp: aggressiveOrderPrice_def split: js_number.splits)
  define factor where "factor = (if side = Buy then 10000 + bps else 10000 - bps)"
  define num where "num = c * factor * powerOfTen t"
  define den where "den = powerOfTen k * 10000"
  define q where "q = (if side = Sell \<and> num mod den \<noteq> 0 then num div den + 1 else num div den)"
  have target: "exponent (targetScale p w) = Inr t"
    by (simp add: targetScale_integral [OF assms(2,3)] t_def)
  have r0: "0 \<le> bps" "bps \<le> 500" "isDecimalString ref" "\<not> starts_minus ref" "0 < c"
    using assms(1) unfolding aggressiveOrderPrice_def bps ck
    by (simp_all add: bindE_throw_if split: if_splits)
  then have "isSafeInteger (IntN bps)" by (simp add: safe_int_def max_safe_integer_def)
  with r0 have "aggressiveOrderPrice ref side slippage p =
      bindE (exponent (targetScale p w)) (\<lambda>target.
        let numerator = c * factor * powerOfTen target;
            denominator = powerOfTen k * 10000;
            quotient = numerator div denominator;
            bound = (if side = Sell \<and> numerator mod denominator \<noteq> 0 then quotient + 1 else quotient)
        in bindE (throw_if (bound \<le> 0) (Err ''The slippage price bound is not positive.'')) (\<lambda>_.
           Inr (formatCoefficient bound target)))"
    by (simp add: aggressiveOrderPrice_def bps ck Let_def flip: w_def factor_def)
  also have "\<dots> = bindE (throw_if (q \<le> 0) (Err ''The slippage price bound is not positive.'')) (\<lambda>_.
      Inr (formatCoefficient q t))"
    by (simp only: target bindE.simps Let_def num_def den_def q_def)
  finally have "0 < q" "price = formatCoefficient q t"
    using assms(1) by (simp_all add: bindE_throw_if split: if_splits)
  note r = r0 this
  have den: "0 < den" by (simp add: den_def powerOfTen_def)
  have x: "(of_int num / of_int den :: rat) = decimal_value ref * (of_int factor / 10000) * 10 ^ t"
    using split_decimal_value(1) [OF ck r0(4)] by (simp add: num_def den_def powerOfTen_def)
  note b = div_bounds [OF den, of num, unfolded x]
  have buy: "of_int q \<le> decimal_value ref * (1 + of_int bps / 10000) * 10 ^ t \<and>
       decimal_value ref * (1 + of_int bps / 10000) * 10 ^ t < of_int q + 1" if "side = Buy"
    using b(1,2) that by (simp add: q_def factor_def add_divide_distrib)
  have sell: "of_int q - 1 < decimal_value ref * (1 - of_int bps / 10000) * 10 ^ t \<and>
       decimal_value ref * (1 - of_int bps / 10000) * 10 ^ t \<le> of_int q" if "side = Sell"
  proof -
    have f: "(of_int factor / 10000 :: rat) = 1 - of_int bps / 10000"
      using that by (simp add: factor_def diff_divide_distrib)
    have "num mod den = 0 \<or> of_int (num div den) < (of_int num / of_int den :: rat)"
    proof (rule disjCI)
      assume "\<not> of_int (num div den) < (of_int num / of_int den :: rat)"
      then have "of_int (num div den) = (of_int num / of_int den :: rat)" using b(1) unfolding x by linarith
      then have "of_int num = (of_int (num div den * den) :: rat)" using den by (simp add: field_simps)
      then have "num = num div den * den" by (simp only: of_int_eq_iff)
      then show "num mod den = 0" by (metis mod_mult_self2_is_0)
    qed
    then show ?thesis using b that unfolding x f q_def by (auto simp: f)
  qed
  show thesis
  proof (rule that [OF bps r(1-4) ck r(5) w_def _ r(6,7)])
    show "int t = max 0 (min places (sf - w))" by (simp add: t_def)
  qed (use buy sell in blast)+
qed

lemma scaled_compare:
  fixes x y :: rat
  shows "x / 10 ^ t \<le> y \<longleftrightarrow> x \<le> y * 10 ^ t" "y \<le> x / 10 ^ t \<longleftrightarrow> y * 10 ^ t \<le> x"
    "x / 10 ^ t < y \<longleftrightarrow> x < y * 10 ^ t" "y < x / 10 ^ t \<longleftrightarrow> y * 10 ^ t < x"
  by (simp_all add: field_simps)

text \<open>
  The limit price of a market order stays within the slippage that was asked for, and no price with
  the same number of decimals is nearer to the bound: a buy price is the largest one not above it,
  a sell price the smallest one not below it. The check of the validator accepts it.
\<close>

lemma aggressive_price_tight:
  assumes "aggressiveOrderPrice ref side (IntN bps) p = Inr price"
    and "maxSignificantFigures p = IntN sf" "maxDecimalPlaces p = IntN places" "side = Buy \<or> side = Sell"
    and "bound = decimal_value ref * (if side = Buy then 1 + of_int bps / 10000 else 1 - of_int bps / 10000)"
  shows "0 < decimal_value price"
    "within_slippage side bps (decimal_value ref) (decimal_value price)"
    "\<exists>t. int t \<le> max 0 places \<and> \<bar>decimal_value price - bound\<bar> < 1 / 10 ^ t \<and>
       (\<exists>q. decimal_value price = of_int q / 10 ^ t)"
    "k_slippageBps (i_controls input) = Some (IntN bps) \<Longrightarrow> m_referencePrice (i_market input) = Some ref \<Longrightarrow>
       length ref \<le> MAX_DECIMAL_INPUT_LENGTH \<Longrightarrow> length price \<le> MAX_DECIMAL_INPUT_LENGTH \<Longrightarrow>
       assertSlippage input side price = Inr ()"
proof -
  obtain b c k w t q where b: "IntN bps = IntN b" and
    r0: "0 \<le> b" "b \<le> 500" "isDecimalString ref" "\<not> starts_minus ref" "split_decimal ref = (c, k)" "0 < c"
      "int t = max 0 (min places (sf - w))" "0 < q" "price = formatCoefficient q t"
    and buy0: "side = Buy \<longrightarrow> of_int q \<le> decimal_value ref * (1 + of_int b / 10000) * 10 ^ t \<and>
       decimal_value ref * (1 + of_int b / 10000) * 10 ^ t < of_int q + 1"
    and sell0: "side = Sell \<longrightarrow> of_int q - 1 < decimal_value ref * (1 - of_int b / 10000) * 10 ^ t \<and>
       decimal_value ref * (1 - of_int b / 10000) * 10 ^ t \<le> of_int q"
    by (rule aggressive_parts [OF assms(1-4)]) blast
  from b have b: "b = bps" by simp
  note r = r0 [unfolded b]
  have buy: "side = Buy \<longrightarrow> of_int q \<le> bound * 10 ^ t \<and> bound * 10 ^ t < of_int q + 1"
    using buy0 unfolding assms(5) b by simp
  have sell: "side = Sell \<longrightarrow> of_int q - 1 < bound * 10 ^ t \<and> bound * 10 ^ t \<le> of_int q"
    using sell0 unfolding assms(5) b by simp
  note price = formatCoefficient_value [OF r(8), of t, folded r(9)]
  show pos: "0 < decimal_value price" using price(1) r(8) by simp
  show within: "within_slippage side bps (decimal_value ref) (decimal_value price)"
    using buy sell assms(4,5) unfolding within_slippage_def price(1) scaled_compare by auto
  have "\<bar>of_int q - bound * 10 ^ t\<bar> < 1"
    using buy sell assms(4) by (auto simp: abs_less_iff)
  then have "\<bar>of_int q - bound * 10 ^ t\<bar> / 10 ^ t < 1 / 10 ^ t" by (rule divide_strict_right_mono) simp
  moreover have "decimal_value price - bound = (of_int q - bound * 10 ^ t) / 10 ^ t"
    unfolding price(1) by (simp add: field_simps)
  then have "\<bar>decimal_value price - bound\<bar> = \<bar>of_int q - bound * 10 ^ t\<bar> / 10 ^ t"
    by (simp only: abs_divide) simp
  ultimately have "\<bar>decimal_value price - bound\<bar> < 1 / 10 ^ t" by simp
  moreover have "int t \<le> max 0 places" using r(7) by simp
  ultimately show "\<exists>t. int t \<le> max 0 places \<and> \<bar>decimal_value price - bound\<bar> < 1 / 10 ^ t \<and>
       (\<exists>q. decimal_value price = of_int q / 10 ^ t)"
    using price(1) by blast
  assume i: "k_slippageBps (i_controls input) = Some (IntN bps)" "m_referencePrice (i_market input) = Some ref"
    and len: "length ref \<le> MAX_DECIMAL_INPUT_LENGTH" "length price \<le> MAX_DECIMAL_INPUT_LENGTH"
  obtain d where d: "parseDecimal ref ''market.referencePrice'' = Inr d"
    using parseDecimal_InrI r(3) len(1) unfolding isDecimalString_def by blast
  then have dv: "dec_val d = decimal_value ref" by (rule parseDecimal_value)
  have "0 < decimal_value ref" using split_decimal_value(1) [OF r(5,4)] r(6) by simp
  then have "0 < coefficient d" using dec_val_pos [of d] dv by simp
  moreover note price(3) [OF len(2), of "''intent.price''"]
  moreover from this have "dec_val (reduceScale q t) = decimal_value price" by (rule parseDecimal_value)
  ultimately show "assertSlippage input side price = Inr ()"
    unfolding assertSlippage_Inr using i r(1,2) d dv within by metis
qed

section \<open>Precision\<close>

definition wholeDigitsOf :: "string \<Rightarrow> int" where
  "wholeDigitsOf ref =
     (case split_decimal ref of (c, k) \<Rightarrow> max 1 (int (length (show_nat (nat c))) - int k))"

lemma split_below:
  assumes "split_decimal ref = (c, k)" "0 < c"
  shows "of_int c / 10 ^ k < (10 ^ nat (wholeDigitsOf ref) :: rat)"
proof -
  let ?n = "length (show_nat (nat c))"
  have "nat c < 10 ^ ?n" by (rule digits_bound)
  then have "c < 10 ^ ?n" using assms(2) by (simp add: nat_less_iff)
  then have "(of_int c :: rat) < of_int (10 ^ ?n)" by (simp only: of_int_less_iff)
  then have "(of_int c :: rat) < 10 ^ ?n" by simp
  also have "(10 ^ ?n :: rat) \<le> 10 ^ (nat (wholeDigitsOf ref) + k)"
    using assms(1) by (intro power_increasing) (auto simp: wholeDigitsOf_def)
  finally show ?thesis by (simp add: power_add field_simps)
qed

lemma normalizePrice_formatted:
  assumes "0 < q" "length (formatCoefficient q t) \<le> MAX_DECIMAL_INPUT_LENGTH"
    "m_pricePrecision market = Some p" "maxSignificantFigures p = IntN sf" "maxDecimalPlaces p = IntN places"
    "int t = max 0 (min places (sf - w))" "0 \<le> places" "1 \<le> sf" "0 \<le> w + int t" "q \<le> 10 ^ nat (w + int t)"
  shows "normalizePrice (formatCoefficient q t) market = Inr (formatCoefficient q t)"
proof -
  let ?d = "reduceScale q t"
  note b = reduceScale_bounds [OF assms(1), of t]
  have "int (scale ?d) \<le> places" using b(1) assms(6,7) by linarith
  moreover have "scale ?d = 0 \<or> int (significantDigits ?d) \<le> sf"
  proof (cases "scale ?d = 0")
    case False
    then have "0 < t" using b(1) by simp
    then have "w + int t \<le> sf" using assms(6) by linarith
    moreover have "significantDigits ?d \<le> max 1 (nat (w + int t))"
      using significantDigits_le [OF assms(1,10)] False by simp
    ultimately show ?thesis using assms(8) by linarith
  qed simp
  ultimately have "price_within p ?d" using assms(4,5) by (auto simp: price_within_def)
  then show ?thesis
    unfolding normalizePrice_Inr using formatCoefficient_value(3) [OF assms(1,2)] assms(1,3) b(2)
    by (auto simp: formatCoefficient_reduce)
qed

text \<open>The validator's checks of precision accept the price.\<close>

lemma aggressive_price_accepted:
  assumes "aggressiveOrderPrice ref side slippage p = Inr price"
    and "m_pricePrecision market = Some p" "maxSignificantFigures p = IntN sf" "maxDecimalPlaces p = IntN places"
    and "1 \<le> sf" "0 \<le> places" "length price \<le> MAX_DECIMAL_INPUT_LENGTH"
    and "side = Sell \<or> side = Buy \<and> decimal_value price \<le> 10 ^ nat (wholeDigitsOf ref)"
  shows "normalizePrice price market = Inr price"
proof -
  have side: "side = Buy \<or> side = Sell" using assms(8) by blast
  obtain b c k w t q where b: "0 \<le> b" "b \<le> 500" "\<not> starts_minus ref" "split_decimal ref = (c, k)" "0 < c"
    and w: "w = max 1 (int (length (show_nat (nat c))) - int k)" and t: "int t = max 0 (min places (sf - w))"
    and q: "0 < q" "price = formatCoefficient q t"
    and sell: "side = Sell \<longrightarrow> of_int q - 1 < decimal_value ref * (1 - of_int b / 10000) * 10 ^ t \<and>
       decimal_value ref * (1 - of_int b / 10000) * 10 ^ t \<le> of_int q"
    by (rule aggressive_parts [OF assms(1,3,4) side]) blast
  have w': "wholeDigitsOf ref = w" "1 \<le> w" using b(4) w by (simp_all add: wholeDigitsOf_def)
  have ref: "decimal_value ref = of_int c / 10 ^ k" "0 < decimal_value ref"
    using split_decimal_value(1) [OF b(4,3)] b(5) by simp_all
  have "of_int q \<le> (10 ^ nat w * 10 ^ t :: rat)"
  proof (cases "side = Sell")
    case True
    have "decimal_value ref * (1 - of_int b / 10000) \<le> decimal_value ref"
      using ref(2) b(1) by (simp add: mult_left_le)
    then have "decimal_value ref * (1 - of_int b / 10000) * 10 ^ t \<le> decimal_value ref * 10 ^ t"
      by (rule mult_right_mono) simp
    also have "\<dots> < 10 ^ nat w * 10 ^ t"
      using split_below [OF b(4,5)] unfolding ref(1) w'(1) by (intro mult_strict_right_mono) simp_all
    finally have "decimal_value ref * (1 - of_int b / 10000) * 10 ^ t < 10 ^ nat w * 10 ^ t" .
    with sell True have "of_int q - 1 < (10 ^ nat w * 10 ^ t :: rat)" by (meson less_trans)
    then have "of_int (q - 1) < (of_int (10 ^ nat w * 10 ^ t) :: rat)" by simp
    then have "q - 1 < 10 ^ nat w * 10 ^ t" by (simp only: of_int_less_iff)
    then have "q \<le> 10 ^ nat w * 10 ^ t" by simp
    then have "(of_int q :: rat) \<le> of_int (10 ^ nat w * 10 ^ t)" by (simp only: of_int_le_iff)
    then show ?thesis by simp
  next
    case False
    then have "decimal_value price \<le> 10 ^ nat w" using assms(8) w'(1) by simp
    then show ?thesis using formatCoefficient_value(1) [OF q(1), of t] q(2) by (simp add: field_simps)
  qed
  then have "(of_int q :: rat) \<le> of_int (10 ^ (nat w + t))" by (simp add: power_add)
  then have "q \<le> 10 ^ (nat w + t)" by (simp only: of_int_le_iff)
  moreover have "nat w + t = nat (w + int t)" using w'(2) by simp
  ultimately show ?thesis
    using normalizePrice_formatted [OF q(1) assms(7) [unfolded q(2)] assms(2-4) t assms(6,5)] w'(2) q(2) by simp
qed

text \<open>
  C34. The limit price of a market order passes the validator as it is: it is within the slippage, and its
  precision is that of the market, as long as it has no more digits before the point than the
  reference; which holds for every sell, and for a buy unless the slippage carries the price over the
  next power of ten.
\<close>

theorem market_price_is_valid:
  assumes "aggressiveOrderPrice ref side (IntN bps) p = Inr price"
    and "m_referencePrice (i_market input) = Some ref" "k_slippageBps (i_controls input) = Some (IntN bps)"
    and "m_pricePrecision (i_market input) = Some p"
    and "maxSignificantFigures p = IntN sf" "maxDecimalPlaces p = IntN places" "1 \<le> sf" "0 \<le> places"
    and "length ref \<le> MAX_DECIMAL_INPUT_LENGTH" "length price \<le> MAX_DECIMAL_INPUT_LENGTH"
    and "side = Sell \<or> side = Buy \<and> decimal_value price \<le> 10 ^ nat (wholeDigitsOf ref)"
  shows "within_slippage side bps (decimal_value ref) (decimal_value price) \<and>
    assertSlippage input side price = Inr () \<and> normalizePrice price (i_market input) = Inr price"
proof -
  have "side = Buy \<or> side = Sell" using assms(11) by blast
  note tight = aggressive_price_tight(2,4) [OF assms(1,5,6) this refl]
  show ?thesis
    using tight(1) tight(2) [OF assms(3,2,9,10)] aggressive_price_accepted [OF assms(1,4-8,10,11)] by blast
qed

definition perp_precision :: PricePrecisionInputs where
  "perp_precision = \<lparr>maxSignificantFigures = IntN 5, maxDecimalPlaces = IntN 6\<rparr>"

definition priced_market :: ActionMarketRules where
  "priced_market =
     \<lparr>m_canonicalId = ''perp:BTC'', m_metadataFingerprint = ''f'', m_orderAssetId = IntN 0, m_family = Perp,
      m_lifecycle = Active, m_orderAvailability = Enabled, m_sizeDecimals = Some (IntN 0),
      m_pricePrecision = Some perp_precision, m_maxLeverage = Some (IntN 10), m_onlyIsolated = Some False,
      m_referencePrice = Some ''100.5'', m_minimumNotional = Some ''10''\<rparr>"

lemma sample_aggressive:
  "aggressiveOrderPrice ''100.5'' Buy (IntN 100) perp_precision = Inr ''101.5''"
  by code_simp

definition priced_input :: TradingActionValidationInput where
  "priced_input = sample_market_order\<lparr>i_market := priced_market, i_controls := \<lparr>k_slippageBps = Some (IntN 100), k_trigger = None\<rparr>\<rparr>"

theorem market_price_is_valid_witness:
  "normalizePrice ''101.5'' priced_market = Inr ''101.5'' \<and> assertSlippage priced_input Buy ''101.5'' = Inr ()"
proof -
  have p: "maxSignificantFigures perp_precision = IntN 5" "maxDecimalPlaces perp_precision = IntN 6"
    by (simp_all add: perp_precision_def)
  have i: "m_referencePrice (i_market priced_input) = Some ''100.5''"
    "k_slippageBps (i_controls priced_input) = Some (IntN 100)"
    "m_pricePrecision (i_market priced_input) = Some perp_precision" "i_market priced_input = priced_market"
    by (simp_all add: priced_input_def priced_market_def)
  have "decimal_value ''101.5'' = dec_val \<lparr>coefficient = 1015, scale = 1\<rparr>"
    by (rule parseDecimal_value [symmetric, where p = "[]"]) code_simp
  moreover have "wholeDigitsOf ''100.5'' = 3" by code_simp
  ultimately have "Buy = Sell \<or> Buy = Buy \<and> decimal_value ''101.5'' \<le> 10 ^ nat (wholeDigitsOf ''100.5'')"
    by (simp add: dec_val_def)
  from market_price_is_valid [OF sample_aggressive i(1-3) p _ _ _ _ this] show ?thesis
    by (simp add: MAX_DECIMAL_INPUT_LENGTH_def i(4))
qed

text \<open>
  A buy below a power of ten: the number of decimals is computed from the reference, the price has one
  more digit before the point, and the validator refuses what the application filled in.
\<close>

theorem slippage_over_power_of_ten_is_refused:
  "aggressiveOrderPrice ''9.9999'' Buy (IntN 500) perp_precision = Inr ''10.4998'' \<and>
   normalizePrice ''10.4998'' priced_market =
     Inl (HyperliquidValidationError ''intent.price'' ''price exceeds the current significant-figure limit'')"
  by code_simp

end
