(* ===== verification/Markets.thy ===== *)
theory Markets
  imports Order_Price Redaction
begin

text \<open>
  Markets as the application reads them: \<^verbatim>\<open>packages/hyperliquid/src/markets/types.ts\<close>, their
  fingerprint (\<^verbatim>\<open>apps/mobile/src/core/actions/metadata-fingerprint.ts\<close>) and their reference
  price (\<^verbatim>\<open>apps/mobile/src/features/trade/trade-model.ts\<close>). A member that may be absent or null
  is one option where the code does not tell the two apart.
\<close>

record MarketContext =
  mc_dayNtlVlm :: "string option"
  mc_dayBaseVlm :: "string option"
  mc_funding :: "string option"
  mc_impactPxs :: "(string \<times> string) option"
  mc_markPx :: "string option"
  mc_midPx :: "string option"
  mc_openInterest :: "string option"
  mc_oraclePx :: "string option"
  mc_premium :: "string option"
  mc_prevDayPx :: "string option"

record TokenEvmContract =
  ec_address :: string
  ec_extraWeiDecimals :: js_number

record TokenIdentity =
  ti_index :: js_number
  ti_tokenId :: string
  ti_name :: string
  ti_fullName :: "string option"
  ti_sizeDecimals :: js_number
  ti_weiDecimals :: js_number
  ti_isCanonical :: bool
  ti_evmContract :: "TokenEvmContract option"

record BaseMarket =
  bm_canonicalId :: string
  bm_displaySymbol :: string
  bm_coin :: string
  bm_universeIndex :: js_number
  bm_orderAssetId :: js_number
  bm_lifecycle :: lifecycle
  bm_orderAvailability :: availability
  bm_validationReasons :: "string list"
  bm_context :: MarketContext

record PerpDetails =
  pd_dexIndex :: js_number
  pd_dexName :: string
  pd_dexFullName :: "string option"
  pd_sizeDecimals :: js_number
  pd_pricePrecision :: PricePrecisionInputs
  pd_maxLeverage :: js_number
  pd_onlyIsolated :: bool
  pd_marginMode :: "string option"
  pd_marginTableId :: "js_number option"

record SpotDetails =
  sd_sizeDecimals :: js_number
  sd_pricePrecision :: PricePrecisionInputs
  sd_baseToken :: TokenIdentity
  sd_quoteToken :: TokenIdentity
  sd_isCanonical :: bool

record OutcomeDetails =
  od_outcome :: js_number
  od_outcomeName :: string
  od_description :: string
  od_side :: nat
  od_sideName :: string
  od_encoding :: js_number

datatype Market =
    PerpMarket BaseMarket PerpDetails
  | SpotMarket BaseMarket SpotDetails
  | OutcomeMarket BaseMarket OutcomeDetails

section \<open>Members of every market\<close>

fun base :: "Market \<Rightarrow> BaseMarket" where
  "base (PerpMarket b _) = b" | "base (SpotMarket b _) = b" | "base (OutcomeMarket b _) = b"

fun market_family_of :: "Market \<Rightarrow> market_family" where
  "market_family_of (PerpMarket _ _) = Perp"
| "market_family_of (SpotMarket _ _) = Spot"
| "market_family_of (OutcomeMarket _ _) = Outcome"

fun market_sizeDecimals :: "Market \<Rightarrow> js_number option" where
  "market_sizeDecimals (PerpMarket _ d) = Some (pd_sizeDecimals d)"
| "market_sizeDecimals (SpotMarket _ d) = Some (sd_sizeDecimals d)"
| "market_sizeDecimals (OutcomeMarket _ _) = None"

fun market_pricePrecision :: "Market \<Rightarrow> PricePrecisionInputs option" where
  "market_pricePrecision (PerpMarket _ d) = Some (pd_pricePrecision d)"
| "market_pricePrecision (SpotMarket _ d) = Some (sd_pricePrecision d)"
| "market_pricePrecision (OutcomeMarket _ _) = None"

section \<open>Fingerprint and reference price\<close>

fun family_name :: "market_family \<Rightarrow> string" where
  "family_name Perp = ''perp''"
| "family_name Spot = ''spot''"
| "family_name Outcome = ''outcome''"
| "family_name (OtherFamily s) = s"

fun lifecycle_name :: "lifecycle \<Rightarrow> string" where
  "lifecycle_name Active = ''active''"
| "lifecycle_name Delisted = ''delisted''"
| "lifecycle_name (OtherLifecycle s) = s"

fun availability_name :: "availability \<Rightarrow> string" where
  "availability_name Enabled = ''enabled''"
| "availability_name BrowseOnly = ''browse_only''"
| "availability_name (OtherAvailability s) = s"

record MarketMetadataFingerprintInput =
  mf_canonicalId :: string
  mf_orderAssetId :: js_number
  mf_family :: market_family
  mf_pricePrecision :: "PricePrecisionInputs option"
  mf_sizeDecimals :: "js_number option"
  mf_maxLeverage :: "js_number option"
  mf_onlyIsolated :: "bool option"
  mf_marginMode :: "string option"
  mf_marginTableId :: "js_number option"
  mf_lifecycle :: lifecycle
  mf_orderAvailability :: availability

definition or_null :: "('a \<Rightarrow> js_value) \<Rightarrow> 'a option \<Rightarrow> js_value" where
  "or_null f v = (case v of None \<Rightarrow> JNull | Some x \<Rightarrow> f x)"

definition MARKET_METADATA_FINGERPRINT_VERSION :: string where
  "MARKET_METADATA_FINGERPRINT_VERSION = ''hyper-trader-market-safety-v1''"

definition fingerprint_value :: "MarketMetadataFingerprintInput \<Rightarrow> js_value" where
  "fingerprint_value metadata =
     JArr [JStr MARKET_METADATA_FINGERPRINT_VERSION, JStr (mf_canonicalId metadata), JNum (mf_orderAssetId metadata),
       JStr (family_name (mf_family metadata)),
       or_null (\<lambda>p. JArr [JNum (maxSignificantFigures p), JNum (maxDecimalPlaces p)]) (mf_pricePrecision metadata),
       or_null JNum (mf_sizeDecimals metadata), or_null JNum (mf_maxLeverage metadata),
       or_null JBool (mf_onlyIsolated metadata), or_null JStr (mf_marginMode metadata),
       or_null JNum (mf_marginTableId metadata), JStr (lifecycle_name (mf_lifecycle metadata)),
       JStr (availability_name (mf_orderAvailability metadata))]"

definition marketMetadataFingerprint :: "MarketMetadataFingerprintInput \<Rightarrow> string" where
  "marketMetadataFingerprint metadata = stringify (fingerprint_value metadata)"

definition market_metadata :: "Market \<Rightarrow> MarketMetadataFingerprintInput" where
  "market_metadata market =
     \<lparr>mf_canonicalId = bm_canonicalId (base market), mf_orderAssetId = bm_orderAssetId (base market),
      mf_family = market_family_of market, mf_pricePrecision = market_pricePrecision market,
      mf_sizeDecimals = market_sizeDecimals market,
      mf_maxLeverage = (case market of PerpMarket _ d \<Rightarrow> Some (pd_maxLeverage d) | _ \<Rightarrow> None),
      mf_onlyIsolated = (case market of PerpMarket _ d \<Rightarrow> Some (pd_onlyIsolated d) | _ \<Rightarrow> None),
      mf_marginMode = (case market of PerpMarket _ d \<Rightarrow> pd_marginMode d | _ \<Rightarrow> None),
      mf_marginTableId = (case market of PerpMarket _ d \<Rightarrow> pd_marginTableId d | _ \<Rightarrow> None),
      mf_lifecycle = bm_lifecycle (base market), mf_orderAvailability = bm_orderAvailability (base market)\<rparr>"

definition tradeMarketFingerprint :: "Market \<Rightarrow> string" where
  "tradeMarketFingerprint market = marketMetadataFingerprint (market_metadata market)"

definition tradeReferencePrice :: "Market \<Rightarrow> string" where
  "tradeReferencePrice market =
     (case mc_midPx (bm_context (base market)) of
        Some price \<Rightarrow> price
      | None \<Rightarrow> (case mc_markPx (bm_context (base market)) of Some price \<Rightarrow> price | None \<Rightarrow> []))"

end
