(* ===== verification/Account_State.thy ===== *)
theory Account_State
  imports Markets
begin

text \<open>
  The state of an account as the exchange reports it (\<^verbatim>\<open>packages/hyperliquid/src/accounts/types.ts\<close>)
  and the snapshot of it that a trade is based on
  (\<^verbatim>\<open>apps/mobile/src/features/trade/trade-account-snapshot.ts\<close>). Big integers are unbounded.
\<close>

section \<open>What the exchange reports\<close>

datatype AccountTarget =
    MasterTarget string
  | SubaccountTarget string string
  | VaultTarget string "string option"

record MarginSummary =
  ms_accountValue :: string
  ms_totalNtlPos :: string
  ms_totalRawUsd :: string
  ms_totalMarginUsed :: string

record PositionLeverage =
  pl_type :: margin_mode
  pl_value :: js_number
  pl_rawUsd :: "string option"

record CumulativeFunding =
  cf_allTime :: string
  cf_sinceChange :: string
  cf_sinceOpen :: string

record PerpPosition =
  pp_coin :: string
  pp_size :: string
  pp_entryPrice :: "string option"
  pp_liquidationPrice :: "string option"
  pp_marginUsed :: string
  pp_positionValue :: string
  pp_returnOnEquity :: string
  pp_unrealizedPnl :: string
  pp_maxLeverage :: js_number
  pp_leverage :: PositionLeverage
  pp_cumulativeFunding :: CumulativeFunding

record ClearinghouseState =
  cs_positions :: "PerpPosition list"
  cs_crossMaintenanceMarginUsed :: string
  cs_crossMarginSummary :: MarginSummary
  cs_marginSummary :: MarginSummary
  cs_time :: js_number
  cs_withdrawable :: string

record ActiveAssetData =
  aa_user :: string
  aa_coin :: string
  aa_leverage :: PositionLeverage
  aa_maxTradeSizes :: "string \<times> string"
  aa_availableToTrade :: "string \<times> string"
  aa_markPrice :: string

record SpotBalance =
  bal_coin :: string
  bal_token :: js_number
  bal_hold :: string
  bal_total :: string
  bal_entryNtl :: string

record OpenOrder =
  op_coin :: string
  op_limitPrice :: string
  op_oid :: js_number
  op_side :: string
  op_size :: string
  op_timestamp :: js_number

record FrontendOpenOrder = OpenOrder +
  fo_originalSize :: string
  fo_triggerCondition :: string
  fo_isTrigger :: bool
  fo_triggerPrice :: string
  fo_isPositionTpsl :: bool
  fo_reduceOnly :: bool
  fo_orderType :: string

section \<open>Snapshots\<close>

record TradeAccountSnapshot =
  ts_buyFunds :: string
  ts_sellFunds :: string
  ts_leverage :: "js_number option"
  ts_marginMode :: "margin_mode option"
  ts_positionSize :: string
  ts_entryPrice :: "string option"
  ts_liquidationPrice :: "string option"
  ts_version :: js_number
  ts_observedAtMs :: js_number

definition decimalParts :: "string \<Rightarrow> (int \<times> nat) result" where
  "decimalParts v =
     (if \<not> isDecimalString v then Inl (Err ''Account balance is invalid.'')
      else let unsigned = (if starts_minus v then drop 1 v else v); (c, s) = split_decimal unsigned in
           Inr (if starts_minus v then - c else c, s))"

definition formatUnsignedDecimal :: "int \<Rightarrow> nat \<Rightarrow> string option" where
  "formatUnsignedDecimal c s = (if c < 0 then None else Some (formatCoefficient c s))"

definition availableSpotFunds :: "string \<Rightarrow> string \<Rightarrow> string option result" where
  "availableSpotFunds totalArg hold =
     bindE (decimalParts totalArg) (\<lambda>(tc, ts).
     bindE (decimalParts hold) (\<lambda>(hc, hs).
     let s = max ts hs in
     Inr (formatUnsignedDecimal (tc * 10 ^ (s - ts) - hc * 10 ^ (s - hs)) s)))"

definition validObservationTime :: "js_number \<Rightarrow> bool" where
  "validObservationTime t \<longleftrightarrow> isSafeInteger t \<and> \<not> js_less t (IntN 0)"

definition unsigned_decimal :: "string \<Rightarrow> bool" where
  "unsigned_decimal v \<longleftrightarrow> isDecimalString v \<and> \<not> starts_minus v"

definition whole_leverage :: "js_number \<Rightarrow> bool" where
  "whole_leverage v \<longleftrightarrow> isSafeInteger v \<and> \<not> js_less v (IntN 1)"

definition tradePerpAccountSnapshot ::
    "ClearinghouseState \<Rightarrow> ActiveAssetData \<Rightarrow> BaseMarket \<Rightarrow> js_number \<Rightarrow> TradeAccountSnapshot option" where
  "tradePerpAccountSnapshot state activeAsset market observedAtMs =
     (if \<not> validObservationTime observedAtMs \<or> \<not> isSafeInteger (cs_time state) \<or> js_less (cs_time state) (IntN 0) \<or>
         aa_coin activeAsset \<noteq> bm_coin market \<or>
         \<not> unsigned_decimal (fst (aa_availableToTrade activeAsset)) \<or>
         \<not> unsigned_decimal (snd (aa_availableToTrade activeAsset)) \<or>
         \<not> whole_leverage (pl_value (aa_leverage activeAsset))
      then None
      else
        let positions = filter (\<lambda>p. pp_coin p = bm_coin market) (cs_positions state);
            snapshot = (\<lambda>sz entry liquidation.
              \<lparr>ts_buyFunds = fst (aa_availableToTrade activeAsset), ts_sellFunds = snd (aa_availableToTrade activeAsset),
               ts_leverage = Some (pl_value (aa_leverage activeAsset)),
               ts_marginMode = Some (pl_type (aa_leverage activeAsset)), ts_positionSize = sz,
               ts_entryPrice = entry, ts_liquidationPrice = liquidation, ts_version = cs_time state,
               ts_observedAtMs = observedAtMs\<rparr>) in
        case positions of
          [] \<Rightarrow> Some (snapshot ''0'' None None)
        | [position] \<Rightarrow>
            if \<not> isDecimalString (pp_size position) \<or> \<not> whole_leverage (pl_value (pp_leverage position)) \<or>
               \<not> js_eq (pl_value (pp_leverage position)) (pl_value (aa_leverage activeAsset)) \<or>
               pl_type (pp_leverage position) \<noteq> pl_type (aa_leverage activeAsset)
            then None
            else Some (snapshot (pp_size position) (pp_entryPrice position) (pp_liquidationPrice position))
        | _ \<Rightarrow> None)"

definition tradeSpotAccountSnapshot ::
    "SpotBalance list \<Rightarrow> SpotDetails \<Rightarrow> js_number \<Rightarrow> TradeAccountSnapshot option result" where
  "tradeSpotAccountSnapshot balances market observedAtMs =
     (if \<not> validObservationTime observedAtMs then Inr None
      else
        let quotes = filter (\<lambda>b. js_eq (bal_token b) (ti_index (sd_quoteToken market))) balances;
            bases = filter (\<lambda>b. js_eq (bal_token b) (ti_index (sd_baseToken market))) balances in
        case quotes of
          [quote] \<Rightarrow>
            if length bases > 1 then Inr None
            else bindE (availableSpotFunds (bal_total quote) (bal_hold quote)) (\<lambda>funds.
              let positionSize = (case bases of [] \<Rightarrow> ''0'' | b # _ \<Rightarrow> bal_total b) in
              case funds of
                None \<Rightarrow> Inr None
              | Some available \<Rightarrow>
                  if \<not> isDecimalString positionSize then Inr None
                  else Inr (Some
                    \<lparr>ts_buyFunds = available, ts_sellFunds = available, ts_leverage = None, ts_marginMode = None,
                     ts_positionSize = positionSize, ts_entryPrice = None, ts_liquidationPrice = None,
                     ts_version = observedAtMs, ts_observedAtMs = observedAtMs\<rparr>))
        | _ \<Rightarrow> Inr None)"

section \<open>Spot funds\<close>

lemma decimalParts_value:
  "decimalParts v = Inr (c, s) \<Longrightarrow> isDecimalString v \<and> decimal_value v = of_int c / 10 ^ s"
proof -
  assume d: "decimalParts v = Inr (c, s)"
  obtain k f where p: "split_decimal (unsigned_part v) = (k, f)" by fastforce
  from d p have v: "isDecimalString v" and c: "c = (if starts_minus v then - k else k)" "s = f"
    by (auto simp: decimalParts_def unsigned_part_def Let_def split: if_splits)
  have "decimal_value v = (if starts_minus v then - 1 else 1) * (of_int k / 10 ^ f)"
    using p by (auto simp: split_decimal_def decimal_value_def Let_def digits_val_append add_divide_distrib)
  then show ?thesis using v c by simp
qed

lemma formatCoefficient_0: "formatCoefficient 0 s = ''0''"
proof (cases s)
  case (Suc k)
  have "padStart ''0'' (Suc s) CHR ''0'' = replicate (Suc s) CHR ''0''"
    by (simp add: padStart_def replicate_append_same [symmetric])
  moreover have "trim_trailing_zeros (replicate s CHR ''0'') = []"
    by (simp add: trim_trailing_zeros_def)
  ultimately show ?thesis by (simp add: formatCoefficient_def Suc)
qed (simp add: formatCoefficient_def)

lemma formatUnsignedDecimal_value:
  "formatUnsignedDecimal c s = Some t \<Longrightarrow> 0 \<le> c \<and> isDecimalString t \<and> decimal_value t = of_int c / 10 ^ s"
proof -
  assume f: "formatUnsignedDecimal c s = Some t"
  have zero: "isDecimalString ''0''" "decimal_value ''0'' = 0" by code_simp+
  show ?thesis
    using f formatCoefficient_value [of c s] formatCoefficient_0 [of s] zero
    by (cases "c = 0") (auto simp: formatUnsignedDecimal_def split: if_splits)
qed

text \<open>
  The funds a spot order may use are what the balance holds less what is on hold, exactly; there are
  none when more is on hold than is there, and the subtraction never throws on decimal strings.
\<close>

theorem spot_funds_are_exact:
  assumes "isDecimalString totalArg" "isDecimalString hold"
  shows "\<exists>funds. availableSpotFunds totalArg hold = Inr funds \<and>
    (case funds of
       None \<Rightarrow> decimal_value totalArg < decimal_value hold
     | Some f \<Rightarrow> isDecimalString f \<and> 0 \<le> decimal_value f \<and>
         decimal_value f = decimal_value totalArg - decimal_value hold)"
proof -
  obtain tc ts hc hs where t: "decimalParts totalArg = Inr (tc, ts)" and h: "decimalParts hold = Inr (hc, hs)"
    using assms by (cases "split_decimal (unsigned_part totalArg)"; cases "split_decimal (unsigned_part hold)")
      (auto simp: decimalParts_def unsigned_part_def Let_def split: if_splits)
  let ?s = "max ts hs"
  let ?c = "tc * 10 ^ (?s - ts) - hc * 10 ^ (?s - hs)"
  have a: "availableSpotFunds totalArg hold = Inr (formatUnsignedDecimal ?c ?s)"
    by (simp add: availableSpotFunds_def t h Let_def)
  have shift: "(of_int x / 10 ^ k :: rat) = of_int (x * 10 ^ (?s - k)) / 10 ^ ?s" if "k \<le> ?s" for x k
  proof -
    have "(10 :: rat) ^ ?s = 10 ^ k * 10 ^ (?s - k)" using that by (simp flip: power_add)
    then show ?thesis by simp
  qed
  have v: "decimal_value totalArg - decimal_value hold = of_int ?c / 10 ^ ?s"
    using decimalParts_value [OF t] decimalParts_value [OF h] shift [of ts tc] shift [of hs hc]
    by (simp add: diff_divide_distrib)
  have "?c < 0 \<longleftrightarrow> decimal_value totalArg < decimal_value hold"
  proof -
    have "(of_int ?c / 10 ^ ?s :: rat) < 0 \<longleftrightarrow> ?c < 0"
      by (simp add: divide_less_0_iff del: of_int_diff of_int_mult)
    then show ?thesis using v by (metis diff_less_0_iff_less)
  qed
  moreover define c where "c = ?c"
  moreover define k where "k = ?s"
  ultimately have n: "c < 0 \<longleftrightarrow> decimal_value totalArg < decimal_value hold"
    and a: "availableSpotFunds totalArg hold = Inr (formatUnsignedDecimal c k)"
    and v: "decimal_value totalArg - decimal_value hold = of_int c / 10 ^ k"
    using a v by blast+
  show ?thesis
  proof (cases "formatUnsignedDecimal c k")
    case None
    then show ?thesis using a n by (simp add: formatUnsignedDecimal_def split: if_splits)
  next
    case (Some f)
    then show ?thesis using a v formatUnsignedDecimal_value [OF Some] by simp
  qed
qed

theorem spot_funds_are_exact_witness:
  "\<exists>funds. availableSpotFunds ''12.50'' ''2.125'' = Inr funds \<and>
    (case funds of
       None \<Rightarrow> decimal_value ''12.50'' < decimal_value ''2.125''
     | Some f \<Rightarrow> isDecimalString f \<and> 0 \<le> decimal_value f \<and>
         decimal_value f = decimal_value ''12.50'' - decimal_value ''2.125'')"
proof (rule spot_funds_are_exact)
  show "isDecimalString ''12.50''" "isDecimalString ''2.125''" by code_simp+
qed

end
