(* ===== verification/Evidence_Source.thy ===== *)
theory Evidence_Source
  imports Account_State Settlement Reconciler Sample_Device
begin

text \<open>
  Where the reconciler gets its evidence:
  \<^verbatim>\<open>apps/mobile/src/features/actions/authoritative-reconciliation.ts\<close>. The answers of the
  exchange, and the readings of the clock between them, are arguments: a record of functions, one for
  each request.
\<close>

section \<open>Requests\<close>

datatype order_reference = RefCloid string | RefOid int

record exchange_reads =
  xr_network :: network
  xr_orderStatus :: "AccountTarget \<Rightarrow> order_reference \<Rightarrow> js_value result"
  xr_catalog :: "string \<Rightarrow> Market list result"
  xr_clearinghouse :: "AccountTarget \<Rightarrow> string \<Rightarrow> ClearinghouseState result"
  xr_activeAsset :: "AccountTarget \<Rightarrow> string \<Rightarrow> ActiveAssetData result"
  xr_spotBalances :: "AccountTarget \<Rightarrow> SpotBalance list result"
  xr_openOrders :: "AccountTarget \<Rightarrow> string \<Rightarrow> OpenOrder list result"
  xr_frontendOpenOrders :: "AccountTarget \<Rightarrow> string \<Rightarrow> FrontendOpenOrder list result"

definition accountTarget :: "PreparedActionRecord \<Rightarrow> AccountTarget" where
  "accountTarget record =
     (if r_masterAccount record = r_targetAccount record then MasterTarget (r_targetAccount record)
      else VaultTarget (r_targetAccount record) (Some (r_masterAccount record)))"

section \<open>The clock\<close>

fun js_minus :: "js_number \<Rightarrow> js_number \<Rightarrow> js_number" where
  "js_minus (IntN a) (IntN b) = IntN (a - b)"
| "js_minus _ _ = NaN"

fun js_plus :: "js_number \<Rightarrow> js_number \<Rightarrow> js_number" where
  "js_plus (IntN a) (IntN b) = IntN (a + b)"
| "js_plus _ _ = NaN"

text \<open>
  The sums matter only when all readings are safe integers; of other readings only the refusal does.
\<close>

definition currentServerTime :: "ClockGateInput result \<Rightarrow> int result" where
  "currentServerTime reading =
     bindE reading (\<lambda>sample.
       let elapsedMs = js_minus (monotonicTimeMs sample) (serverSampledAtMonotonicMs sample);
           currentMs = js_plus (serverTimeMs sample) elapsedMs in
       if \<not> isSafeInteger (serverTimeMs sample) \<or> js_less (serverTimeMs sample) (IntN 0) \<or>
          \<not> isSafeInteger (monotonicTimeMs sample) \<or> \<not> isSafeInteger (serverSampledAtMonotonicMs sample) \<or>
          js_less (serverSampledAtMonotonicMs sample) (IntN 0) \<or> js_less elapsedMs (IntN 0) \<or>
          \<not> isSafeInteger currentMs \<or> js_less currentMs (IntN 0)
       then Inl (Err ''Hyperliquid server time is unavailable for reconciliation.'')
       else case currentMs of IntN t \<Rightarrow> Inr t | _ \<Rightarrow> Inl (Err ''''))"

section \<open>Evidence\<close>

definition baseEvidence :: "PreparedActionRecord \<Rightarrow> int \<Rightarrow> ReconciliationEvidence" where
  "baseEvidence record serverNow =
     \<lparr>ev_network = r_network record, ev_masterAccount = r_masterAccount record,
      ev_targetAccount = r_targetAccount record, ev_assetId = map_option IntN (r_assetId record),
      ev_serverTimeMs = IntN serverNow, ev_complete = True, ev_order = UnknownOrder, ev_openOrders = [],
      ev_fills = [], ev_position = None, ev_leverage = None, ev_stateVersion = IntN serverNow,
      ev_definitiveRejection = False\<rparr>"

definition loadOrderEvidence ::
    "exchange_reads \<Rightarrow> ClockGateInput result \<Rightarrow> PreparedActionRecord \<Rightarrow> ReconciliationEvidence result" where
  "loadOrderEvidence client clock record =
     (case r_assetId record of
        None \<Rightarrow> Inl (Err ''Order reconciliation requires an asset ID.'')
      | Some assetId \<Rightarrow>
          bindE (case (r_cloid record, r_targetOid record) of
                   (Some c, _) \<Rightarrow> Inr (RefCloid c)
                 | (None, Some oid) \<Rightarrow> Inr (RefOid oid)
                 | _ \<Rightarrow> Inl (Err ''Order reconciliation requires an order identity.'')) (\<lambda>oid.
          bindE (xr_orderStatus client (accountTarget record) oid) (\<lambda>raw.
          bindE (currentServerTime clock) (\<lambda>serverNow.
          let order = parseAuthoritativeOrderStatus raw
                \<lparr>ex_assetId = IntN assetId, ex_oid = map_option IntN (r_targetOid record), ex_cloid = r_cloid record\<rparr>
          in Inr ((baseEvidence record serverNow)
               \<lparr>ev_order := order,
                ev_openOrders := (case order of ObservedOrder ident OpenStatus \<Rightarrow> [ident] | _ \<Rightarrow> [])\<rparr>)))))"

definition native_id :: "string \<Rightarrow> bool" where
  "native_id canonicalId \<longleftrightarrow> starts_with ''perp:0:'' canonicalId"

definition loadPerpMarket ::
    "exchange_reads \<Rightarrow> PreparedActionRecord \<Rightarrow> (BaseMarket \<times> PerpDetails) result" where
  "loadPerpMarket client record =
     (case (r_assetId record, member (case plain_object (r_intent record) of Some obj \<Rightarrow> obj | None \<Rightarrow> [])
              ''marketCanonicalId'') of
        (Some assetId, JStr marketCanonicalId) \<Rightarrow>
          bindE (xr_catalog client (if native_id marketCanonicalId then ''native'' else ''complete'')) (\<lambda>markets.
            case filter (\<lambda>m. market_family_of m = Perp \<and> bm_canonicalId (base m) = marketCanonicalId \<and>
                           js_eq (bm_orderAssetId (base m)) (IntN assetId)) markets of
              [PerpMarket b d] \<Rightarrow> Inr (b, d)
            | _ \<Rightarrow> Inl (Err ''The perpetual market is unavailable for reconciliation.''))
      | _ \<Rightarrow> Inl (Err ''Reconciliation requires an exact perpetual market.''))"

text \<open>With the clock as it reads after the order status, and after the account state.\<close>

definition loadReduceCloseEvidence ::
    "exchange_reads \<Rightarrow> ClockGateInput result \<Rightarrow> ClockGateInput result \<Rightarrow> PreparedActionRecord \<Rightarrow>
     ReconciliationEvidence result" where
  "loadReduceCloseEvidence client clock1 clock2 record =
     bindE (loadOrderEvidence client clock1 record) (\<lambda>evidence.
       if ev_order evidence \<noteq> UnknownOrder \<or>
          \<not> js_less (IntN (r_expiresAfterMs record)) (ev_serverTimeMs evidence)
       then Inr evidence
       else
         bindE (loadPerpMarket client record) (\<lambda>(market, details).
         bindE (xr_clearinghouse client (accountTarget record) (pd_dexName details)) (\<lambda>state.
         bindE (currentServerTime clock2) (\<lambda>serverNow.
         Inr (evidence\<lparr>ev_serverTimeMs := IntN serverNow,
                ev_position := Some \<lparr>pos_assetId = bm_orderAssetId market,
                  pos_size = (case find (\<lambda>p. pp_coin p = bm_coin market) (cs_positions state) of
                                Some p \<Rightarrow> pp_size p | None \<Rightarrow> ''0'')\<rparr>,
                ev_stateVersion := IntN serverNow\<rparr>)))))"

definition loadLeverageEvidence ::
    "exchange_reads \<Rightarrow> ClockGateInput result \<Rightarrow> PreparedActionRecord \<Rightarrow> ReconciliationEvidence result" where
  "loadLeverageEvidence client clock record =
     bindE (loadPerpMarket client record) (\<lambda>(market, _).
     bindE (xr_activeAsset client (accountTarget record) (bm_coin market)) (\<lambda>activeAsset.
     bindE (currentServerTime clock) (\<lambda>serverNow.
     Inr ((baseEvidence record serverNow)
       \<lparr>ev_order := UnknownOrder,
        ev_leverage := Some \<lparr>lev_assetId = bm_orderAssetId market, lev_leverage = pl_value (aa_leverage activeAsset),
          lev_marginMode = pl_type (aa_leverage activeAsset), lev_causallyAttributed = False\<rparr>\<rparr>))))"

text \<open>An action of an unknown type falls through the switch, and what is returned is no evidence.\<close>

definition loadEvidence ::
    "exchange_reads \<Rightarrow> ClockGateInput result \<Rightarrow> ClockGateInput result \<Rightarrow> PreparedActionRecord \<Rightarrow>
     ReconciliationEvidence result" where
  "loadEvidence client clock1 clock2 record =
     (if xr_network client \<noteq> r_network record
      then Inl (Err ''The reconciliation client must match the journal network.'')
      else case r_actionType record of
        MarketOrderType \<Rightarrow> loadOrderEvidence client clock1 record
      | LimitOrderType \<Rightarrow> loadOrderEvidence client clock1 record
      | PositionTpslType \<Rightarrow> loadOrderEvidence client clock1 record
      | CancelType \<Rightarrow> loadOrderEvidence client clock1 record
      | ReduceOnlyCloseType \<Rightarrow> loadReduceCloseEvidence client clock1 clock2 record
      | UpdateLeverageType \<Rightarrow> loadLeverageEvidence client clock1 record
      | BulkCancelType \<Rightarrow> Inl (Err ''Bulk cancel reconciliation is unavailable.'')
      | OtherActionType _ \<Rightarrow> Inl (TypeErr ''evidence is undefined''))"

section \<open>What the evidence says\<close>

lemma currentServerTime_Inr: "currentServerTime reading = Inr t \<Longrightarrow> 0 \<le> t \<and> safe_int t"
proof -
  assume a: "currentServerTime reading = Inr t"
  then obtain x where x: "reading = Inr x" by (auto simp: currentServerTime_def result_simps)
  define c where "c = js_plus (serverTimeMs x) (js_minus (monotonicTimeMs x) (serverSampledAtMonotonicMs x))"
  from a have "isSafeInteger c \<and> \<not> js_less c (IntN 0) \<and> c = IntN t"
    by (cases c) (auto simp: currentServerTime_def x Let_def c_def [symmetric] split: if_splits)
  then show ?thesis by (auto simp: isSafeInteger_iff)
qed

text \<open>Evidence for a record: of its context, and not attributed to it by anything but its identity.\<close>

definition evidence_for :: "PreparedActionRecord \<Rightarrow> ReconciliationEvidence \<Rightarrow> bool" where
  "evidence_for record evidence \<longleftrightarrow>
     ev_network evidence = r_network record \<and> ev_masterAccount evidence = r_masterAccount record \<and>
     ev_targetAccount evidence = r_targetAccount record \<and> ev_assetId evidence = map_option IntN (r_assetId record) \<and>
     ev_complete evidence \<and> ev_fills evidence = [] \<and> \<not> ev_definitiveRejection evidence \<and>
     (\<exists>t. ev_serverTimeMs evidence = IntN t \<and> ev_stateVersion evidence = IntN t \<and> 0 \<le> t \<and> safe_int t) \<and>
     ev_openOrders evidence = (case ev_order evidence of ObservedOrder ident OpenStatus \<Rightarrow> [ident] | _ \<Rightarrow> []) \<and>
     (case ev_leverage evidence of None \<Rightarrow> True | Some l \<Rightarrow> \<not> lev_causallyAttributed l)"

lemma loadOrderEvidence_for:
  assumes "loadOrderEvidence client clock record = Inr evidence"
  shows "evidence_for record evidence" "ev_leverage evidence = None" "ev_position evidence = None"
    "\<exists>raw assetId. r_assetId record = Some assetId \<and> ev_order evidence = parseAuthoritativeOrderStatus raw
       \<lparr>ex_assetId = IntN assetId, ex_oid = map_option IntN (r_targetOid record), ex_cloid = r_cloid record\<rparr>"
proof -
  from assms obtain raw assetId t where
    a: "r_assetId record = Some assetId" and t: "currentServerTime clock = Inr t"
    and e: "evidence = (let order = parseAuthoritativeOrderStatus raw
        \<lparr>ex_assetId = IntN assetId, ex_oid = map_option IntN (r_targetOid record), ex_cloid = r_cloid record\<rparr>
       in (baseEvidence record t)\<lparr>ev_order := order,
            ev_openOrders := (case order of ObservedOrder ident OpenStatus \<Rightarrow> [ident] | _ \<Rightarrow> [])\<rparr>)"
    by (auto simp: loadOrderEvidence_def result_simps Let_def split: option.splits)
  note t' = currentServerTime_Inr [OF t]
  show "evidence_for record evidence" "ev_leverage evidence = None" "ev_position evidence = None"
    using t' by (simp_all add: e evidence_for_def baseEvidence_def Let_def)
  show "\<exists>raw assetId. r_assetId record = Some assetId \<and> ev_order evidence = parseAuthoritativeOrderStatus raw
       \<lparr>ex_assetId = IntN assetId, ex_oid = map_option IntN (r_targetOid record), ex_cloid = r_cloid record\<rparr>"
    using a by (auto simp: e Let_def)
qed

lemma loadEvidence_for:
  assumes "loadEvidence client clock1 clock2 record = Inr evidence"
  shows "evidence_for record evidence"
proof -
  have close: "evidence_for record evidence" if "loadReduceCloseEvidence client clock1 clock2 record = Inr evidence"
  proof -
    from that obtain loaded where l: "loadOrderEvidence client clock1 record = Inr loaded"
      and "evidence = loaded \<or> (\<exists>t pos. currentServerTime clock2 = Inr t \<and>
        evidence = loaded\<lparr>ev_serverTimeMs := IntN t, ev_position := pos, ev_stateVersion := IntN t\<rparr>)"
      by (fastforce simp: loadReduceCloseEvidence_def result_simps Let_def split: if_splits)
    with loadOrderEvidence_for(1) [OF l] show ?thesis
      by (auto simp: evidence_for_def dest: currentServerTime_Inr)
  qed
  have leverage: "evidence_for record evidence" if "loadLeverageEvidence client clock1 record = Inr evidence"
    using that by (auto simp: loadLeverageEvidence_def result_simps evidence_for_def baseEvidence_def
        dest: currentServerTime_Inr)
  show ?thesis
    using assms close leverage loadOrderEvidence_for(1)
    by (auto simp: loadEvidence_def split: if_splits journal_action_type.splits)
qed

text \<open>
  An account is known by its address: the parser accepts the addresses of a stored action. Then
  evidence for it never crosses its context.
\<close>

definition addresses_parse :: "address_parser \<Rightarrow> PreparedActionRecord \<Rightarrow> bool" where
  "addresses_parse ga record \<longleftrightarrow> ga (r_masterAccount record) \<noteq> None \<and> ga (r_targetAccount record) \<noteq> None"

lemma evidence_for_context:
  assumes "evidence_for record evidence" "addresses_parse ga record" "known_network (r_network record)"
    "0 \<le> r_expiresAfterMs record" "safe_int (r_expiresAfterMs record)" "ev_serverTimeMs evidence = IntN t"
  shows "assertContext ga (policy_record record) evidence = Inr (r_expiresAfterMs record, t, t)"
proof -
  have asset: "js_eq_opt (map_option IntN a) (map_option IntN a)" for a
    by (cases a) (simp_all add: js_eq_opt_def)
  show ?thesis
    using assms asset [of "r_assetId record"]
    by (auto simp: assertContext_def policy_record_def evidence_for_def addresses_parse_def result_simps
        normalizeContextAddress_def safeTime_def Let_def)
qed

text \<open>
  C23. Evidence loaded for an order that creates or changes a position by its client order ID settles it
  as soon as the expiry has passed and the answer was understood: an order that the exchange does
  not know has expired, one it rejected is rejected, any other is accepted. Before the expiry, an
  unknown order stays open, so that it is not sent twice.
\<close>

theorem loaded_order_evidence_settles:
  assumes "loadEvidence client clock1 clock2 record = Inr evidence"
    and "r_actionType record \<in> {MarketOrderType, LimitOrderType, PositionTpslType}"
    and "r_cloid record = Some c" "addresses_parse ga record" "valid_row record"
    and "ev_order evidence \<noteq> MalformedOrder"
  shows "decideReconciliation ga (policy_record record) evidence =
    Inr (case ev_order evidence of
           ObservedOrder _ RejectedStatus \<Rightarrow> Terminal Rejected
         | ObservedOrder _ _ \<Rightarrow> Terminal Accepted
         | _ \<Rightarrow> if js_less (IntN (r_expiresAfterMs record)) (ev_serverTimeMs evidence)
               then Terminal Expired else StillUnresolved BeforeExpiry)"
proof -
  let ?r = "policy_record record"
  have l: "loadOrderEvidence client clock1 record = Inr evidence"
    using assms(1,2) by (auto simp: loadEvidence_def split: if_splits)
  note e = loadOrderEvidence_for [OF l]
  from e(4) obtain raw assetId where a: "r_assetId record = Some assetId"
    and o: "ev_order evidence = parseAuthoritativeOrderStatus raw
       \<lparr>ex_assetId = IntN assetId, ex_oid = map_option IntN (r_targetOid record), ex_cloid = r_cloid record\<rparr>"
    by blast
  have row: "known_network (r_network record)" "0 \<le> r_expiresAfterMs record" "safe_int (r_expiresAfterMs record)"
    using assms(5) by (auto simp: valid_row_def fromRow_Inr assertStoredRecord_def result_simps)
  obtain t where "ev_serverTimeMs evidence = IntN t" using e(1) by (auto simp: evidence_for_def)
  from evidence_for_context [OF e(1) assms(4) row this]
  have ctx: "assertContext ga ?r evidence = Inr (r_expiresAfterMs record, t, t)" .
  have same: "sameIdentity ?r ident" if "ev_order evidence = ObservedOrder ident status" for ident status
    using observed_order_expected(1,3) [OF that [unfolded o]] assms(3) a
    by (simp add: sameIdentity_def policy_record_def js_eq_opt_def)
  have f: "ev_complete evidence" "ev_fills evidence = []" "\<not> ev_definitiveRejection evidence"
    "ev_openOrders evidence = (case ev_order evidence of ObservedOrder ident OpenStatus \<Rightarrow> [ident] | _ \<Rightarrow> [])"
    using e(1) by (simp_all add: evidence_for_def)
  have "decideReconciliation ga ?r evidence = decideCreate ?r evidence"
    using assms(2,6) ctx f(1) by (auto simp: decideReconciliation_def policy_record_def)
  also have "\<dots> = Inr (case ev_order evidence of
           ObservedOrder _ RejectedStatus \<Rightarrow> Terminal Rejected
         | ObservedOrder _ _ \<Rightarrow> Terminal Accepted
         | _ \<Rightarrow> if js_less (IntN (r_expiresAfterMs record)) (ev_serverTimeMs evidence)
               then Terminal Expired else StillUnresolved BeforeExpiry)"
    using f(2-4) same assms(3)
    by (auto simp: decideCreate_eq order_seen_def order_refused_def atOrAfterExpiry_def policy_record_def
        split: ObservedOrderEvidence.splits order_status.splits)
  finally show ?thesis .
qed

text \<open>
  Nothing the account state says attributes a change of leverage to the submission, so evidence that
  is loaded never declares one accepted: a leverage that matches is ambiguous.
\<close>

theorem leverage_is_never_accepted:
  assumes "loadEvidence client clock1 clock2 record = Inr evidence" "r_actionType record = UpdateLeverageType"
  shows "decideReconciliation ga (policy_record record) evidence \<noteq> Inr (Terminal Accepted)"
proof
  assume d: "decideReconciliation ga (policy_record record) evidence = Inr (Terminal Accepted)"
  have "\<not> (\<exists>l. ev_leverage evidence = Some l \<and> lev_causallyAttributed l)"
    using loadEvidence_for [OF assms(1)] by (auto simp: evidence_for_def)
  with d assms(2) show False
    by (auto simp: decideReconciliation_def policy_record_def decideLeverage_def Let_def
        split: if_splits option.splits js_value.splits)
qed

section \<open>A concrete answer\<close>

definition sample_order_row :: PreparedActionRecord where
  "sample_order_row = submitted_row\<lparr>r_actionType := LimitOrderType,
     r_cloid := Some ''0x000000000000000000000000000000ab'', r_targetOid := None\<rparr>"

definition sample_reads :: exchange_reads where
  "sample_reads = \<lparr>xr_network = Testnet, xr_orderStatus = (\<lambda>_ _. Inr (JObj [(''status'', JStr ''unknownOid'')])),
     xr_catalog = (\<lambda>_. Inr []), xr_clearinghouse = (\<lambda>_ _. Inl (Err [])), xr_activeAsset = (\<lambda>_ _. Inl (Err [])),
     xr_spotBalances = (\<lambda>_. Inr []), xr_openOrders = (\<lambda>_ _. Inr []), xr_frontendOpenOrders = (\<lambda>_ _. Inr [])\<rparr>"

definition late_clock :: "ClockGateInput result" where
  "late_clock = Inr \<lparr>wallTimeMs = IntN 20000, monotonicTimeMs = IntN 150, serverTimeMs = IntN 19990,
     serverSampledAtMonotonicMs = IntN 140, lastObservedWallMs = None\<rparr>"

lemma sample_order_row_valid: "valid_row sample_order_row"
proof -
  have "assertStoredRecord sample_order_row = Inr ()" by code_simp
  moreover have "r_intent sample_order_row = r_intent sample_row" by (simp add: sample_order_row_def submitted_row_def)
  ultimately show ?thesis using sample_row_valid by (simp add: valid_row_def fromRow_Inr)
qed

definition sample_evidence :: ReconciliationEvidence where
  "sample_evidence = baseEvidence sample_order_row 20000"

lemma sample_loads: "loadEvidence sample_reads late_clock late_clock sample_order_row = Inr sample_evidence"
proof -
  have "prefixed ''0x'' is_hex 32 ''0x000000000000000000000000000000ab''" by code_simp
  then show ?thesis
    by (simp add: loadEvidence_def loadOrderEvidence_def sample_reads_def sample_order_row_def submitted_row_def
      sample_row_def prepared_row_def sample_reservation_def late_clock_def currentServerTime_def safe_int_def
      max_safe_integer_def parseAuthoritativeOrderStatus_def sample_evidence_def baseEvidence_def CLOID_PATTERN_def
      exactKeys_def hasOwn_def object_keys_def)
qed

theorem loaded_order_evidence_settles_witness:
  "decideReconciliation (env_getAddress sample_env) (policy_record sample_order_row) sample_evidence = Inr (Terminal Expired)"
proof -
  have "addresses_parse (env_getAddress sample_env) sample_order_row"
    by (simp add: addresses_parse_def sample_env_def sample_order_row_def submitted_row_def sample_row_def
        prepared_row_def sample_account_def Let_def)
  moreover have "r_actionType sample_order_row \<in> {MarketOrderType, LimitOrderType, PositionTpslType}"
    "r_cloid sample_order_row = Some ''0x000000000000000000000000000000ab''"
    "ev_order sample_evidence = UnknownOrder" "r_expiresAfterMs sample_order_row = 16000"
    "ev_serverTimeMs sample_evidence = IntN 20000"
    by (simp_all add: sample_order_row_def submitted_row_def sample_evidence_def baseEvidence_def)
  ultimately show ?thesis
    using loaded_order_evidence_settles [OF sample_loads _ _ _ sample_order_row_valid] by simp
qed

end
