(* ===== verification/Review.thy ===== *)
theory Review
  imports Validated Order_Price Journal Action_Flow
begin

text \<open>
  Reviews of an action, from the head of \<^verbatim>\<open>apps/mobile/src/features/actions/orchestrator.ts\<close>:
  how a review is made, what of it is stored and by what it is identified, and when a refreshed
  action is still the reviewed one. Copies and freezing of the inputs are the identity here, and the
  texts shown with a review are left out. The keys of an intent keep the order they came in.
\<close>

section \<open>Intents as objects\<close>

fun intent_type :: "trading_intent \<Rightarrow> string" where
  "intent_type (MarketOrder _) = ''market_order''"
| "intent_type (LimitOrder _) = ''limit_order''"
| "intent_type (ReduceOnlyClose _) = ''reduce_only_close''"
| "intent_type (PositionTpsl _) = ''position_tpsl''"
| "intent_type (Cancel _) = ''cancel''"
| "intent_type (BulkCancel _) = ''bulk_cancel''"
| "intent_type (UpdateLeverage _) = ''update_leverage''"
| "intent_type (OtherIntent s) = s"

fun side_name :: "order_side \<Rightarrow> string" where
  "side_name Buy = ''buy''"
| "side_name Sell = ''sell''"
| "side_name (OtherSide s) = s"

fun tif_text :: "time_in_force \<Rightarrow> string" where
  "tif_text Alo = ''Alo''"
| "tif_text Gtc = ''Gtc''"
| "tif_text Ioc = ''Ioc''"
| "tif_text (OtherTif s) = s"

fun margin_mode_name :: "margin_mode \<Rightarrow> string" where
  "margin_mode_name Cross = ''cross''"
| "margin_mode_name Isolated = ''isolated''"
| "margin_mode_name (OtherMode s) = s"

fun tpsl_name :: "tpsl_kind \<Rightarrow> string" where
  "tpsl_name TakeProfit = ''take_profit''"
| "tpsl_name StopLoss = ''stop_loss''"
| "tpsl_name (OtherKind s) = s"

fun target_members :: "cancel_target \<Rightarrow> js_object" where
  "target_members (ByOid oid) = [(''kind'', JStr ''oid''), (''oid'', JNum oid)]"
| "target_members (ByCloid cloid) = [(''kind'', JStr ''cloid''), (''cloid'', JStr cloid)]"
| "target_members (OtherTarget kind cloid) = [(''kind'', JStr kind), (''cloid'', JStr cloid)]"

definition in_order :: "string list \<Rightarrow> js_object \<Rightarrow> js_object" where
  "in_order keys members = map (\<lambda>k. (k, member members k)) keys"

text \<open>The members of an intent; a bulk cancel or an unknown intent never passes validation.\<close>

fun intent_members :: "string list \<Rightarrow> trading_intent \<Rightarrow> js_object" where
  "intent_members targetKeys (MarketOrder i) =
     [(''type'', JStr ''market_order''), (''assetId'', JNum (mo_assetId i)), (''side'', JStr (side_name (mo_side i))),
      (''size'', JStr (mo_size i)), (''aggressiveLimitPrice'', JStr (mo_aggressiveLimitPrice i)),
      (''cloid'', JStr (mo_cloid i))]"
| "intent_members targetKeys (LimitOrder i) =
     [(''type'', JStr ''limit_order''), (''assetId'', JNum (lo_assetId i)), (''side'', JStr (side_name (lo_side i))),
      (''size'', JStr (lo_size i)), (''limitPrice'', JStr (lo_limitPrice i)),
      (''timeInForce'', JStr (tif_text (lo_timeInForce i))), (''reduceOnly'', JBool (lo_reduceOnly i)),
      (''cloid'', JStr (lo_cloid i))]"
| "intent_members targetKeys (ReduceOnlyClose i) =
     [(''type'', JStr ''reduce_only_close''), (''assetId'', JNum (rc_assetId i)),
      (''side'', JStr (side_name (rc_side i))), (''size'', JStr (rc_size i)),
      (''aggressiveLimitPrice'', JStr (rc_aggressiveLimitPrice i)), (''cloid'', JStr (rc_cloid i))]"
| "intent_members targetKeys (PositionTpsl i) =
     [(''type'', JStr ''position_tpsl''), (''assetId'', JNum (pt_assetId i)), (''side'', JStr (side_name (pt_side i))),
      (''size'', JStr (pt_size i)), (''triggerPrice'', JStr (pt_triggerPrice i)),
      (''aggressiveLimitPrice'', JStr (pt_aggressiveLimitPrice i)),
      (''triggerKind'', JStr (tpsl_name (pt_triggerKind i))),
      (''existingOid'', case pt_existingOid i of None \<Rightarrow> JNull | Some oid \<Rightarrow> JNum oid),
      (''cloid'', JStr (pt_cloid i))]"
| "intent_members targetKeys (Cancel i) =
     [(''type'', JStr ''cancel''), (''assetId'', JNum (ca_assetId i)),
      (''target'', JObj (in_order targetKeys (target_members (ca_target i))))]"
| "intent_members targetKeys (UpdateLeverage i) =
     [(''type'', JStr ''update_leverage''), (''assetId'', JNum (ul_assetId i)),
      (''marginMode'', JStr (margin_mode_name (ul_marginMode i))), (''leverage'', JNum (ul_leverage i))]"
| "intent_members targetKeys other = [(''type'', JStr (intent_type other))]"

definition intent_object :: "string list \<Rightarrow> string list \<Rightarrow> trading_intent \<Rightarrow> js_object" where
  "intent_object keys targetKeys intent = in_order keys (intent_members targetKeys intent)"

definition controls_value :: "ActionControls \<Rightarrow> js_value" where
  "controls_value controls =
     JObj [(''slippageBps'', case k_slippageBps controls of None \<Rightarrow> JNull | Some n \<Rightarrow> JNum n),
           (''trigger'', case k_trigger controls of
               None \<Rightarrow> JNull
             | Some t \<Rightarrow> JObj [(''price'', JStr (tr_price t)), (''direction'', JStr (direction_name (tr_direction t)))])]"

section \<open>Making a review\<close>

record ActionReviewSnapshot =
  rv_binding :: SignerBinding
  rv_validation :: TradingActionValidationInput
  rv_validated :: ValidatedTradingAction
  rv_vaultAddress :: "string option"

definition currentBinding :: "ActionReviewSnapshot \<Rightarrow> TradingActionValidationInput \<Rightarrow> SignerBinding" where
  "currentBinding review validation =
     \<lparr>sb_network = c_network (i_context validation), sb_masterAccount = c_masterAccount (i_context validation),
      sb_targetAccount = c_targetAccount (i_context validation),
      sb_agentAddress = sb_agentAddress (rv_binding review), sb_generation = sb_generation (rv_binding review)\<rparr>"

text \<open>
  The validation of a review, with the normalised intent: its keys are those of the intent it
  normalises, and a normalised target by client order ID has its two keys anew.
\<close>

definition reviewed_validation :: "TradingActionValidationInput \<Rightarrow> ValidatedTradingAction \<Rightarrow> TradingActionValidationInput" where
  "reviewed_validation validation validated =
     validation\<lparr>i_intent := v_intent validated,
       i_targetKeys := (case v_intent validated of
           Cancel i \<Rightarrow> (case ca_target i of ByCloid _ \<Rightarrow> [''kind'', ''cloid''] | _ \<Rightarrow> i_targetKeys validation)
         | _ \<Rightarrow> i_targetKeys validation)\<rparr>"

text \<open>The vault address of the input may be absent, null or a string.\<close>

definition createActionReview ::
    "capabilities \<Rightarrow> address_parser \<Rightarrow> SignerBinding \<Rightarrow> js_number \<Rightarrow> TradingActionValidationInput \<Rightarrow>
     string option option \<Rightarrow> ActionReviewSnapshot result" where
  "createActionReview caps ga bindingArg capturedContextEpoch validationArg vaultArg =
     bindE (assertTradingActionCapability caps (c_network (i_context validationArg))) (\<lambda>_.
     bindE (normalizeSignerBinding ga bindingArg) (\<lambda>binding.
     bindE (assertTradingActionCapability caps (sb_network binding)) (\<lambda>_.
     bindE (throw_if (\<not> js_eq capturedContextEpoch (c_capturedContextEpoch (i_context validationArg)))
              (Err ''The review does not match its captured context epoch.'')) (\<lambda>_.
     bindE (assertSignerBinding ga binding
              \<lparr>sb_network = c_network (i_context validationArg),
               sb_masterAccount = c_masterAccount (i_context validationArg),
               sb_targetAccount = c_targetAccount (i_context validationArg),
               sb_agentAddress = sb_agentAddress binding, sb_generation = sb_generation binding\<rparr>) (\<lambda>_.
     let requiredVaultAddress =
           (if sb_masterAccount binding = sb_targetAccount binding then None else Some (sb_targetAccount binding)) in
     bindE (case vaultArg of
              None \<Rightarrow> Inr ()
            | Some supplied \<Rightarrow>
                bindE (case supplied of
                         None \<Rightarrow> Inr None
                       | Some address \<Rightarrow>
                           bindE (normalizeSignerBinding ga (binding\<lparr>sb_targetAccount := address\<rparr>)) (\<lambda>b.
                           Inr (Some (sb_targetAccount b)))) (\<lambda>suppliedVaultAddress.
                throw_if (suppliedVaultAddress \<noteq> requiredVaultAddress)
                  (Err ''The vault address does not match the exact reviewed target.''))) (\<lambda>_.
     bindE (validateTradingAction caps ga validationArg) (\<lambda>validated.
     Inr \<lparr>rv_binding = binding, rv_validation = reviewed_validation validationArg validated,
          rv_validated = validated, rv_vaultAddress = requiredVaultAddress\<rparr>)))))))"

section \<open>What is stored of an action\<close>

definition has_cloid :: "trading_intent \<Rightarrow> bool" where
  "has_cloid intent =
     (case intent of MarketOrder _ \<Rightarrow> True | LimitOrder _ \<Rightarrow> True | ReduceOnlyClose _ \<Rightarrow> True
      | PositionTpsl _ \<Rightarrow> True | _ \<Rightarrow> False)"

definition withoutCloid :: "trading_intent \<Rightarrow> js_object \<Rightarrow> js_object" where
  "withoutCloid intent object =
     (if has_cloid intent then filter (\<lambda>(k, _). k \<noteq> ''cloid'') object else object)"

definition validated_object :: "TradingActionValidationInput \<Rightarrow> ValidatedTradingAction \<Rightarrow> js_object" where
  "validated_object validation validated =
     (let v = reviewed_validation validation validated in
      intent_object (i_intentKeys v) (i_targetKeys v) (v_intent validated))"

definition storedIntent :: "ValidatedTradingAction \<Rightarrow> TradingActionValidationInput \<Rightarrow> js_value" where
  "storedIntent validated validation =
     JObj (validated_object validation validated @
       [(''marketCanonicalId'', JStr (v_marketCanonicalId validated)),
        (''reviewedAccountStateVersion'', JNum (IntN (v_accountStateVersion validated)))] @
       (case a_positionSize (i_account validation) of
          None \<Rightarrow> [] | Some positionText \<Rightarrow> [(''reviewedPositionSize'', JStr positionText)]) @
       (case v_intent validated of
          Cancel _ \<Rightarrow> [(''targetObservedBeforeSubmission'', JBool True)] | _ \<Rightarrow> []))"

definition digest :: "(string \<Rightarrow> string) \<Rightarrow> js_value \<Rightarrow> string result" where
  "digest hash value = bindE (serializeSecretFreeIntent value) (\<lambda>s. Inr (hash s))"

text \<open>A number in a template string; the numbers of a validated intent are integral.\<close>

fun number_text :: "js_number \<Rightarrow> string" where
  "number_text (IntN i) = show_int i"
| "number_text NaN = ''NaN''"
| "number_text PosInfinity = ''Infinity''"
| "number_text NegInfinity = ''-Infinity''"
| "number_text (FracN _) = ''''"

record identity_fields =
  if_cloid :: "string option"
  if_assetId :: "js_number option"
  if_targetOid :: "js_number option"
  if_reconciliationKey :: string

definition order_identity :: "js_number \<Rightarrow> string \<Rightarrow> identity_fields" where
  "order_identity assetId cloid =
     \<lparr>if_cloid = Some (toLowerCase cloid), if_assetId = Some assetId, if_targetOid = None,
      if_reconciliationKey = ''order:'' @ number_text assetId @ '':cloid:'' @ toLowerCase cloid\<rparr>"

fun identityFields :: "trading_intent \<Rightarrow> identity_fields result" where
  "identityFields (MarketOrder i) = Inr (order_identity (mo_assetId i) (mo_cloid i))"
| "identityFields (LimitOrder i) = Inr (order_identity (lo_assetId i) (lo_cloid i))"
| "identityFields (ReduceOnlyClose i) = Inr (order_identity (rc_assetId i) (rc_cloid i))"
| "identityFields (PositionTpsl i) = Inr (order_identity (pt_assetId i) (pt_cloid i))"
| "identityFields (Cancel i) =
     Inr (case ca_target i of
            ByOid oid \<Rightarrow>
              \<lparr>if_cloid = None, if_assetId = Some (ca_assetId i), if_targetOid = Some oid,
               if_reconciliationKey = ''cancel:'' @ number_text (ca_assetId i) @ '':oid:'' @ number_text oid\<rparr>
          | target \<Rightarrow>
              \<lparr>if_cloid = Some (toLowerCase (target_cloid_text target)), if_assetId = Some (ca_assetId i),
               if_targetOid = None,
               if_reconciliationKey =
                 ''cancel:'' @ number_text (ca_assetId i) @ '':cloid:'' @ toLowerCase (target_cloid_text target)\<rparr>)"
| "identityFields (UpdateLeverage i) =
     Inr \<lparr>if_cloid = None, if_assetId = Some (ul_assetId i), if_targetOid = None,
          if_reconciliationKey = ''leverage:'' @ number_text (ul_assetId i) @ '':'' @
            margin_mode_name (ul_marginMode i) @ '':'' @ number_text (ul_leverage i)\<rparr>"
| "identityFields (BulkCancel _) = Inl (Err ''Bulk cancel is not a U7 public action.'')"
| "identityFields (OtherIntent _) = Inl (TypeErr ''identity is undefined'')"

section \<open>The refreshed action against the reviewed one\<close>

text \<open>The intent with another limit price, and the side of an order at market.\<close>

fun market_like :: "trading_intent \<Rightarrow> order_side option" where
  "market_like (MarketOrder i) = Some (mo_side i)"
| "market_like (ReduceOnlyClose i) = Some (rc_side i)"
| "market_like _ = None"

fun with_limit_price :: "string \<Rightarrow> trading_intent \<Rightarrow> trading_intent" where
  "with_limit_price price (MarketOrder i) = MarketOrder (i\<lparr>mo_aggressiveLimitPrice := price\<rparr>)"
| "with_limit_price price (ReduceOnlyClose i) = ReduceOnlyClose (i\<lparr>rc_aggressiveLimitPrice := price\<rparr>)"
| "with_limit_price price intent = intent"

text \<open>An intent with the objects it is serialised from.\<close>

record shown_intent =
  sh_intent :: trading_intent
  sh_keys :: "string list"
  sh_targetKeys :: "string list"

definition shown_value :: "shown_intent \<Rightarrow> js_value" where
  "shown_value s = JObj (intent_object (sh_keys s) (sh_targetKeys s) (sh_intent s))"

definition sameReviewedIntent :: "shown_intent \<Rightarrow> shown_intent \<Rightarrow> TradingActionValidationInput \<Rightarrow> bool result" where
  "sameReviewedIntent left right refreshedInput =
     (if intent_type (sh_intent left) \<noteq> intent_type (sh_intent right) then Inr False
      else case market_like (sh_intent left) of
        Some side \<Rightarrow>
          (case (k_slippageBps (i_controls refreshedInput), m_pricePrecision (i_market refreshedInput),
                 m_referencePrice (i_market refreshedInput)) of
             (Some slippageBps, Some precision, Some referencePrice) \<Rightarrow>
               (case bindE (aggressiveOrderPrice referencePrice side slippageBps precision) (\<lambda>price.
                     bindE (serializeSecretFreeIntent
                              (shown_value (left\<lparr>sh_intent := with_limit_price price (sh_intent left)\<rparr>))) (\<lambda>l.
                     bindE (serializeSecretFreeIntent (shown_value right)) (\<lambda>r. Inr (l = r)))) of
                  Inl _ \<Rightarrow> Inr False
                | Inr same \<Rightarrow> Inr same)
           | _ \<Rightarrow> Inr False)
      | None \<Rightarrow>
          bindE (serializeSecretFreeIntent (shown_value left)) (\<lambda>l.
          bindE (serializeSecretFreeIntent (shown_value right)) (\<lambda>r. Inr (l = r))))"

text \<open>The controls of both sides are objects with their members in the order of their type.\<close>

definition sameReviewedControls :: "ActionReviewSnapshot \<Rightarrow> TradingActionValidationInput \<Rightarrow> bool result" where
  "sameReviewedControls review refreshedInput =
     bindE (serializeSecretFreeIntent (controls_value (i_controls (rv_validation review)))) (\<lambda>l.
     bindE (serializeSecretFreeIntent (controls_value (i_controls refreshedInput))) (\<lambda>r. Inr (l = r)))"

section \<open>Messages\<close>

definition failureCode :: "js_error \<Rightarrow> string option" where
  "failureCode error = (case error of CodedError c _ \<Rightarrow> Some c | _ \<Rightarrow> None)"

definition preSubmissionFailureMessage :: "ActionFlowPhase \<Rightarrow> js_error \<Rightarrow> string" where
  "preSubmissionFailureMessage p error =
     (let code = failureCode error in
      if p = Unlocking then
        if code = Some ''missing_or_invalidated'' \<or> code = Some ''malformed_record''
        then ''The protected API wallet is no longer available. Set up a new API wallet on this network before trading.''
        else if code = Some ''authentication_failed''
        then ''Device authentication did not complete. Try again and finish the Face ID, biometric, or passcode prompt.''
        else if code = Some ''app_not_active'' \<or> code = Some ''session_invalidated''
        then ''Device authentication was interrupted. Keep Hyper Trader open and try again.''
        else if code = Some ''context_changed''
        then ''The selected account changed during confirmation. Return to the order and review it again.''
        else ''The selected account or API wallet could not be confirmed. Check the account and try again.''
      else case p of
        Refreshing \<Rightarrow>
          if code = Some ''cancel_target_not_open''
          then ''This order is no longer open. Refresh open orders before trying again.''
          else ''The latest market or account details could not be confirmed for this order. Return to the order, refresh, and try again.''
      | Reserving \<Rightarrow> ''The order could not be prepared safely. Return to the order and try again.''
      | SigningPhase \<Rightarrow> ''The API wallet could not sign this order. Unlock it and try again.''
      | SubmissionStart \<Rightarrow> ''The order was not submitted because safe submission could not be started. Return to the order and try again.''
      | _ \<Rightarrow> ''The order was not submitted. Return to the order and try again.'')"

end
