(* ===== verification/Orchestrator.thy ===== *)
theory Orchestrator
  imports Review Reconciler Typed_Data Exchange_Client
begin

text \<open>
  The orchestrator of one action: \<^verbatim>\<open>createActionOrchestrator\<close> of
  \<^verbatim>\<open>apps/mobile/src/features/actions/orchestrator.ts\<close>. \<open>confirm\<close> leads a reviewed action
  from its refresh to its result, with the session, the journal and the exchange client. At each of
  its \<^verbatim>\<open>await\<close>s other work may change the flow on the screen and the repository; what the
  awaited calls answer, and what other work does, are members of the environment. The observers of
  the flow are left out, as the code does not let them interfere.
\<close>

section \<open>Steps\<close>

text \<open>
  The state a confirmation works on: the flow, the repository, its own variable \<open>journalId\<close>, and
  the requests that went out. A step may throw and still have changed the state.
\<close>

record run =
  rn_flow :: ActionFlowState
  rn_repo :: journal_repo
  rn_journalId :: "string option"
  rn_sent :: "sent_request list"

type_synonym 'a step = "run \<Rightarrow> 'a result \<times> run"

definition andThen :: "'a step \<Rightarrow> ('a \<Rightarrow> 'b step) \<Rightarrow> 'b step" where
  "andThen m f s = (case m s of (Inl e, t) \<Rightarrow> (Inl e, t) | (Inr x, t) \<Rightarrow> f x t)"

definition lifted :: "'a result \<Rightarrow> 'a step" where
  "lifted r s = (r, s)"

definition dispatch :: "ActionFlowAction \<Rightarrow> unit step" where
  "dispatch a s = (Inr (), s\<lparr>rn_flow := reduceActionFlow (rn_flow s) a\<rparr>)"

definition onRepo :: "(journal_repo \<Rightarrow> 'a result \<times> journal_repo) \<Rightarrow> 'a step" where
  "onRepo operation s = (case operation (rn_repo s) of (r, repo) \<Rightarrow> (r, s\<lparr>rn_repo := repo\<rparr>))"

definition readFlow :: "ActionFlowState step" where
  "readFlow s = (Inr (rn_flow s), s)"

definition reset :: "unit step" where
  "reset = dispatch RESET"

section \<open>The environment\<close>

datatype check = BeforeRefresh | AfterRefresh | AfterUnlock | AfterReservation | AfterSigning
datatype pause = Refreshes | Unlocks | Signs | Submits | Reconciles

record confirm_env =
  oc_repo :: repo_env
  oc_codec :: codec_lib
  oc_text :: text_lib
  oc_hash :: "string \<Rightarrow> string"
  oc_client :: ExchangeClient
  oc_fetch :: "sent_request \<Rightarrow> fetch_outcome"
  oc_aborted :: bool
  oc_isCurrent :: "check \<Rightarrow> bool"
  oc_refreshed :: "TradingActionValidationInput result"
  oc_unlocked :: "unit result"
  oc_clock :: "ClockGateInput result"
  oc_newJournalId :: string
  oc_newCorrelationId :: string
  oc_sign :: "Eip712Payload \<Rightarrow> Eip712Signature result"
  oc_reserveEngine :: engine
  oc_startEngine :: engine
  oc_moveEngine :: engine
  oc_failEngine :: engine
  oc_startNow :: js_number
  oc_moveNow :: js_number
  oc_failNow :: js_number
  oc_reconciled :: "ReconciledActionPhase option result option" \<comment> \<open>none without a port\<close>
  oc_meanwhile :: "pause \<Rightarrow> ActionFlowState \<times> journal_repo \<Rightarrow> ActionFlowState \<times> journal_repo"

definition await :: "confirm_env \<Rightarrow> pause \<Rightarrow> unit step" where
  "await env p s =
     (case oc_meanwhile env p (rn_flow s, rn_repo s) of
        (flow, repo) \<Rightarrow> (Inr (), s\<lparr>rn_flow := flow, rn_repo := repo\<rparr>))"

definition requireCurrent :: "confirm_env \<Rightarrow> check \<Rightarrow> unit step" where
  "requireCurrent env c = lifted (throw_if (\<not> oc_isCurrent env c) (Err ''The active trading context changed.''))"

definition advance :: "nat \<Rightarrow> ActionFlowPhase \<Rightarrow> string option \<Rightarrow> unit step" where
  "advance g p journalId = dispatch (ADVANCE g p journalId)"

section \<open>Results\<close>

definition CLOSE_REJECTED_MESSAGE :: string where
  "CLOSE_REJECTED_MESSAGE = ''Hyperliquid did not execute this close. The position or market may have changed. Refresh and try again.''"

definition CANCEL_REJECTED_MESSAGE :: string where
  "CANCEL_REJECTED_MESSAGE = ''Hyperliquid did not cancel this order. Refresh open orders before trying again.''"

fun reconciled_phase :: "ReconciledActionPhase \<Rightarrow> ActionFlowPhase" where
  "reconciled_phase ReconciledAccepted = AcceptedPhase"
| "reconciled_phase ReconciledRejected = RejectedPhase"
| "reconciled_phase ReconciledExpired = ExpiredPhase"
| "reconciled_phase ReconciledUnclear = AmbiguousPhase"

definition reconcileUnresolved :: "confirm_env \<Rightarrow> nat \<Rightarrow> string \<Rightarrow> ActionFlowState step" where
  "reconcileUnresolved env g journalId =
     (case oc_reconciled env of
        None \<Rightarrow> readFlow
      | Some answer \<Rightarrow>
          andThen (await env Reconciles) (\<lambda>_.
          andThen (case answer of
                     Inr (Some p) \<Rightarrow> dispatch (TERMINAL g journalId (reconciled_phase p) None)
                   | _ \<Rightarrow> lifted (Inr ())) (\<lambda>_.
          readFlow)))"

fun durable_phase :: "journal_state \<Rightarrow> ActionFlowPhase option" where
  "durable_phase ReconciledAmbiguous = Some AmbiguousPhase"
| "durable_phase Accepted = Some AcceptedPhase"
| "durable_phase Rejected = Some RejectedPhase"
| "durable_phase Expired = Some ExpiredPhase"
| "durable_phase _ = None"

definition reflectDurable :: "nat \<Rightarrow> PreparedActionRecord \<Rightarrow> unit step" where
  "reflectDurable g record =
     andThen readFlow (\<lambda>state.
     andThen (if phase state = SubmissionStart then advance g Submitting (Some (r_journalId record))
              else lifted (Inr ())) (\<lambda>_.
     if r_state record = Unresolved \<or> r_state record = SubmissionStarted
     then dispatch (UNRESOLVED g (r_journalId record))
     else case durable_phase (r_state record) of
            Some p \<Rightarrow> dispatch (TERMINAL g (r_journalId record) p None)
          | None \<Rightarrow> lifted (Inr ())))"

text \<open>A transition that may fail, and then the record as it is stored.\<close>

definition moveOrRead ::
    "confirm_env \<Rightarrow> PreparedActionRecord \<Rightarrow> journal_state \<Rightarrow> journal_result_class option \<Rightarrow>
     PreparedActionRecord step" where
  "moveOrRead env record next rclass s =
     (case onRepo (transitionAction (oc_failEngine env) (r_journalId record) next rclass (oc_failNow env)) s of
        (Inr moved, t) \<Rightarrow> (Inr moved, t)
      | (Inl _, t) \<Rightarrow>
          (case getAction (r_journalId record) (database (rn_repo t)) of
             Inl e \<Rightarrow> (Inl e, t)
           | Inr found \<Rightarrow> (Inr (case found of Some r \<Rightarrow> r | None \<Rightarrow> record), t)))"

definition failBeforeSubmission :: "nat \<Rightarrow> string option \<Rightarrow> js_error \<Rightarrow> unit step" where
  "failBeforeSubmission g journalId error =
     andThen readFlow (\<lambda>state.
       dispatch (FAIL_BEFORE_SUBMISSION g journalId (preSubmissionFailureMessage (phase state) error)))"

definition reconcileFailure :: "confirm_env \<Rightarrow> nat \<Rightarrow> string option \<Rightarrow> js_error \<Rightarrow> unit step" where
  "reconcileFailure env g journalId error s =
     (case (case journalId of None \<Rightarrow> Inr None | Some i \<Rightarrow> getAction i (database (rn_repo s))) of
        Inl e \<Rightarrow> (Inl e, s)
      | Inr None \<Rightarrow> failBeforeSubmission g None error s
      | Inr (Some record) \<Rightarrow>
          if r_state record = SubmissionStarted
          then andThen (moveOrRead env record Unresolved (Some UnresolvedResult)) (reflectDurable g) s
          else if r_state record \<in> {Unresolved, Accepted, Rejected, Expired, ReconciledAmbiguous}
          then reflectDurable g record s
          else if r_state record = Prepared
          then
            (case onRepo (transitionAction (oc_failEngine env) (r_journalId record) AbandonedBeforeSubmission None
                    (oc_failNow env)) s of
               (Inr moved, t) \<Rightarrow>
                 if r_state moved = SubmissionStarted \<or> r_state moved = Unresolved then reflectDurable g moved t
                 else failBeforeSubmission g (Some (r_journalId moved)) error t
             | (Inl _, t) \<Rightarrow>
                 (case getAction (r_journalId record) (database (rn_repo t)) of
                    Inl e \<Rightarrow> (Inl e, t)
                  | Inr found \<Rightarrow>
                      let current = (case found of Some r \<Rightarrow> r | None \<Rightarrow> record) in
                      if r_state current \<noteq> Prepared then reflectDurable g current t
                      else failBeforeSubmission g (Some (r_journalId current)) error t))
          else failBeforeSubmission g (Some (r_journalId record)) error s)"

section \<open>Confirmation\<close>

text \<open>The checks of the refreshed input, and the refreshed action.\<close>

definition checkRefreshed ::
    "confirm_env \<Rightarrow> ActionReviewSnapshot \<Rightarrow> TradingActionValidationInput \<Rightarrow> ValidatedTradingAction result" where
  "checkRefreshed env review refreshedInput =
     (let ga = env_getAddress (oc_repo env); validation = rv_validation review in
      bindE (validateTradingAction (env_caps (oc_repo env)) ga refreshedInput) (\<lambda>refreshed.
      bindE (assertSignerBinding ga (rv_binding review) (currentBinding review refreshedInput)) (\<lambda>_.
      bindE (throw_if
        (\<not> js_eq (c_capturedContextEpoch (i_context refreshedInput)) (c_capturedContextEpoch (i_context validation)) \<or>
         v_marketCanonicalId refreshed \<noteq> m_canonicalId (i_market validation) \<or>
         m_metadataFingerprint (i_market refreshedInput) \<noteq> m_metadataFingerprint (i_market validation) \<or>
         v_accountStateVersion refreshed \<noteq> v_accountStateVersion (rv_validated review))
        (Err ''The reviewed market or account snapshot is stale.'')) (\<lambda>_.
      bindE (sameReviewedControls review refreshedInput) (\<lambda>controls.
      bindE (if controls
             then sameReviewedIntent
                    \<lparr>sh_intent = v_intent (rv_validated review), sh_keys = i_intentKeys validation,
                     sh_targetKeys = i_targetKeys validation\<rparr>
                    \<lparr>sh_intent = v_intent refreshed, sh_keys = i_intentKeys refreshedInput,
                     sh_targetKeys = i_targetKeys (reviewed_validation refreshedInput refreshed)\<rparr>
                    refreshedInput
             else Inr False) (\<lambda>same.
      bindE (throw_if (\<not> same) (Err ''Market or account rules changed the reviewed action.'')) (\<lambda>_.
      Inr refreshed)))))))"

fun action_type_of :: "trading_intent \<Rightarrow> journal_action_type" where
  "action_type_of (MarketOrder _) = MarketOrderType"
| "action_type_of (LimitOrder _) = LimitOrderType"
| "action_type_of (ReduceOnlyClose _) = ReduceOnlyCloseType"
| "action_type_of (PositionTpsl _) = PositionTpslType"
| "action_type_of (Cancel _) = CancelType"
| "action_type_of (BulkCancel _) = BulkCancelType"
| "action_type_of (UpdateLeverage _) = UpdateLeverageType"
| "action_type_of (OtherIntent s) = OtherActionType s"

definition equivalence_object :: "TradingActionValidationInput \<Rightarrow> ValidatedTradingAction \<Rightarrow> js_value" where
  "equivalence_object refreshedInput refreshed =
     JObj [(''action'', JObj (withoutCloid (v_intent refreshed) (validated_object refreshedInput refreshed))),
           (''marketCanonicalId'', JStr (v_marketCanonicalId refreshed))]"

definition reservationInput ::
    "confirm_env \<Rightarrow> ActionReviewSnapshot \<Rightarrow> TradingActionValidationInput \<Rightarrow> ValidatedTradingAction \<Rightarrow>
     AtomicActionReservationInput result" where
  "reservationInput env review refreshedInput refreshed =
     (let normalizedIntent = storedIntent refreshed refreshedInput in
      bindE (identityFields (v_intent refreshed)) (\<lambda>identity.
      bindE (oc_clock env) (\<lambda>clock.
      bindE (digest (oc_hash env) normalizedIntent) (\<lambda>intentDigest.
      bindE (digest (oc_hash env) (equivalence_object refreshedInput refreshed)) (\<lambda>fingerprint.
      Inr \<lparr>ri_binding = rv_binding review,
           ri_capturedContextEpoch = c_capturedContextEpoch (i_context (rv_validation review)),
           ri_clock = clock,
           ri_preparedAction =
             \<lparr>pa_journalId = oc_newJournalId env, pa_correlationId = oc_newCorrelationId env,
              pa_intent = normalizedIntent, pa_intentDigest = intentDigest,
              pa_equivalenceFingerprint = fingerprint,
              pa_fields =
                \<lparr>pf_actionType = action_type_of (v_intent refreshed), pf_intentVersion = IntN 1,
                 pf_cloid = if_cloid identity, pf_assetId = if_assetId identity,
                 pf_targetOid = if_targetOid identity,
                 pf_reconciliationKey = if_reconciliationKey identity\<rparr>\<rparr>\<rparr>)))))"

definition signature_value :: "Eip712Signature \<Rightarrow> js_value" where
  "signature_value s = JObj [(''r'', JStr (sig_r s)), (''s'', JStr (sig_s s)), (''v'', JNum (sig_v s))]"

definition exchange_request ::
    "exchange_action \<Rightarrow> PreparedActionRecord \<Rightarrow> EncodedL1Action \<Rightarrow> Eip712Signature \<Rightarrow> SignedExchangeRequest" where
  "exchange_request action prepared encoded signature =
     \<lparr>rq_plain = True, rq_keys = [''action'', ''nonce'', ''signature'', ''vaultAddress'', ''expiresAfter''],
      rq_action = action_js action, rq_nonce = IntN (r_nonce prepared), rq_signature = signature_value signature,
      rq_vaultAddress = Some (e_vaultAddress encoded), rq_expiresAfter = IntN (r_expiresAfterMs prepared)\<rparr>"

text \<open>The permit is consumed by the one write it was made for; the request goes out before the wait.\<close>

definition send :: "confirm_env \<Rightarrow> TransportWritePermit \<Rightarrow> SignedExchangeRequest \<Rightarrow> ExchangeSubmissionResult step" where
  "send env permit request s =
     (case consume permit of
        (Inl e, _) \<Rightarrow> (Inl e, s)
      | (Inr _, _) \<Rightarrow>
          (case submit (env_caps (oc_repo env)) (oc_codec env) (oc_text env) (oc_client env) (oc_fetch env)
                  (oc_aborted env) request of
             (answer, sent) \<Rightarrow>
               andThen (await env Submits) (\<lambda>_. lifted answer) (s\<lparr>rn_sent := rn_sent s @ sent\<rparr>)))"

definition rejection_message :: "rejection_reason \<Rightarrow> trading_intent \<Rightarrow> string option" where
  "rejection_message reason intent =
     (if reason = MinimumNotional then Some MINIMUM_ORDER_NOTIONAL_MESSAGE
      else case intent of
        ReduceOnlyClose _ \<Rightarrow> Some CLOSE_REJECTED_MESSAGE
      | Cancel _ \<Rightarrow> Some CANCEL_REJECTED_MESSAGE
      | _ \<Rightarrow> None)"

definition recordTerminal ::
    "confirm_env \<Rightarrow> nat \<Rightarrow> string \<Rightarrow> journal_state \<Rightarrow> journal_result_class \<Rightarrow> ActionFlowPhase \<Rightarrow> string option \<Rightarrow>
     ActionFlowState step" where
  "recordTerminal env g journalId next rclass p msg =
     andThen (onRepo (transitionAction (oc_moveEngine env) journalId next (Some rclass) (oc_moveNow env))) (\<lambda>_.
     andThen (dispatch (TERMINAL g journalId p msg)) (\<lambda>_.
     readFlow))"

definition recordResult ::
    "confirm_env \<Rightarrow> nat \<Rightarrow> string \<Rightarrow> trading_intent \<Rightarrow> ExchangeSubmissionResult \<Rightarrow> ActionFlowState step" where
  "recordResult env g journalId intent result =
     (case result of
        SubmissionUnresolved _ \<Rightarrow>
          andThen (onRepo (transitionAction (oc_moveEngine env) journalId Unresolved (Some UnresolvedResult)
                     (oc_moveNow env))) (\<lambda>_.
          andThen (dispatch (UNRESOLVED g journalId)) (\<lambda>_.
          reconcileUnresolved env g journalId))
      | SubmissionAccepted _ \<Rightarrow> recordTerminal env g journalId Accepted AcceptedResult AcceptedPhase None
      | SubmissionRejected reason \<Rightarrow>
          recordTerminal env g journalId Rejected RejectedResult RejectedPhase (rejection_message reason intent)
      | SubmissionExpired \<Rightarrow> recordTerminal env g journalId Expired ExpiredResult ExpiredPhase None)"

text \<open>From the reserved nonce to the result.\<close>

definition signAndSubmit ::
    "confirm_env \<Rightarrow> ActionReviewSnapshot \<Rightarrow> nat \<Rightarrow> trading_intent \<Rightarrow> PreparedActionRecord \<Rightarrow> ActionFlowState step" where
  "signAndSubmit env review g intent prepared =
     (let journalId = r_journalId prepared in
      andThen (requireCurrent env AfterReservation) (\<lambda>_.
      andThen (advance g SigningPhase (Some journalId)) (\<lambda>_.
      andThen (lifted (buildExchangeAction intent)) (\<lambda>action.
      andThen (lifted (encodeL1Action (oc_codec env)
        \<lparr>l1_action = action_js action, l1_nonce = IntN (r_nonce prepared),
         l1_vaultAddress = rv_vaultAddress review, l1_expiresAfter = Some (IntN (r_expiresAfterMs prepared))\<rparr>)) (\<lambda>encoded.
      andThen (lifted (buildL1TypedData (sb_network (rv_binding review)) encoded)) (\<lambda>payload.
      andThen (await env Signs) (\<lambda>_.
      andThen (lifted (oc_sign env (nt_typedData payload))) (\<lambda>signature.
      andThen (requireCurrent env AfterSigning) (\<lambda>_.
      andThen (advance g SubmissionStart (Some journalId)) (\<lambda>_.
      andThen (lifted (assertTradingActionCapability (env_caps (oc_repo env)) (sb_network (rv_binding review)))) (\<lambda>_.
      andThen (onRepo (markSubmissionStarted (oc_startEngine env) journalId (oc_startNow env))) (\<lambda>(_, permit).
      andThen (advance g Submitting (Some journalId)) (\<lambda>_.
      andThen (send env permit (exchange_request action prepared encoded signature)) (\<lambda>result.
      recordResult env g journalId intent result))))))))))))))"

definition confirmBody :: "confirm_env \<Rightarrow> ActionReviewSnapshot \<Rightarrow> nat \<Rightarrow> ActionFlowState step" where
  "confirmBody env review g =
     andThen (requireCurrent env BeforeRefresh) (\<lambda>_.
     andThen (await env Refreshes) (\<lambda>_.
     andThen (lifted (oc_refreshed env)) (\<lambda>refreshedInput.
     andThen (requireCurrent env AfterRefresh) (\<lambda>_.
     andThen (lifted (checkRefreshed env review refreshedInput)) (\<lambda>refreshed.
     andThen (advance g Unlocking None) (\<lambda>_.
     andThen (await env Unlocks) (\<lambda>_.
     andThen (lifted (oc_unlocked env)) (\<lambda>_.
     andThen (requireCurrent env AfterUnlock) (\<lambda>_.
     andThen (advance g Reserving None) (\<lambda>_.
     andThen (lifted (reservationInput env review refreshedInput refreshed)) (\<lambda>reservation.
     andThen (onRepo (reservePreparedAction (oc_repo env) (oc_reserveEngine env) reservation)) (\<lambda>prepared.
     andThen (\<lambda>s. (Inr (), s\<lparr>rn_journalId := Some (r_journalId prepared)\<rparr>)) (\<lambda>_.
     signAndSubmit env review g (v_intent refreshed) prepared)))))))))))))"

definition catchFailure :: "confirm_env \<Rightarrow> nat \<Rightarrow> js_error \<Rightarrow> ActionFlowState step" where
  "catchFailure env g error s =
     andThen (reconcileFailure env g (rn_journalId s) error) (\<lambda>_.
     andThen readFlow (\<lambda>recovered.
       case (phase recovered, flow_journalId recovered) of
         (Reconciling, Some journalId) \<Rightarrow> reconcileUnresolved env g journalId
       | _ \<Rightarrow> lifted (Inr recovered))) s"

definition confirm ::
    "confirm_env \<Rightarrow> ActionReviewSnapshot \<Rightarrow> ActionFlowState \<times> journal_repo \<Rightarrow> ActionFlowState result \<times> run" where
  "confirm env review start =
     (let s = \<lparr>rn_flow = fst start, rn_repo = snd start, rn_journalId = None, rn_sent = []\<rparr> in
      case bindE (assertTradingActionCapability (env_caps (oc_repo env)) (sb_network (rv_binding review))) (\<lambda>_.
           bindE (assertTradingActionCapability (env_caps (oc_repo env))
                    (c_network (i_context (rv_validation review)))) (\<lambda>_.
           throw_if (phase (fst start) \<noteq> Review \<and> phase (fst start) \<noteq> FailedBeforeSubmission)
             (Err ''An action confirmation is already in progress.''))) of
        Inl e \<Rightarrow> (Inl e, s)
      | Inr _ \<Rightarrow>
          let s = snd (dispatch CONFIRM s); g = generation (rn_flow s) in
          case confirmBody env review g s of
            (Inr state, t) \<Rightarrow> (Inr state, t)
          | (Inl error, t) \<Rightarrow> catchFailure env g error t)"

end
