(* ===== verification/Json_Laws.thy ===== *)
theory Json_Laws
  imports Tombstone
begin

text \<open>
  The serialisation of an intent determines the intent: \<^verbatim>\<open>JSON.stringify\<close> is injective on
  the values that \<^verbatim>\<open>serializeSecretFreeIntent\<close> admits. What is stored, hashed and
  compared as text is therefore compared as a value.
\<close>

section \<open>Numbers\<close>

definition number_char :: "char \<Rightarrow> bool" where
  "number_char c \<longleftrightarrow> is_digit c \<or> c = CHR ''-''"

lemma show_int_chars: "list_all number_char (show_int i)" "show_int i \<noteq> []"
proof -
  have "list_all number_char (show_nat n)" for n
    using show_nat_digits [of n] by (auto simp: list_all_iff number_char_def)
  then show "list_all number_char (show_int i)" "show_int i \<noteq> []"
    by (simp_all add: show_int_def number_char_def)
qed

definition delimited :: "string \<Rightarrow> bool" where
  "delimited x \<longleftrightarrow> x = [] \<or> hd x \<in> set '',]}''"

lemma delimited_number: "delimited x \<Longrightarrow> takeWhile number_char (show_int i @ x) = show_int i"
proof -
  assume x: "delimited x"
  have "takeWhile number_char x = []"
    using x by (cases x) (auto simp: delimited_def number_char_def is_digit_def)
  then show ?thesis using show_int_chars(1) [of i] by (simp add: list_all_iff takeWhile_append)
qed

lemma json_number_inject:
  assumes "delimited x" "delimited y" "show_int i @ x = show_int j @ y"
  shows "i = j \<and> x = y"
  using delimited_number [OF assms(1), of i] delimited_number [OF assms(2), of j] assms(3) show_int_inject
  by (metis append_same_eq same_append_eq)

section \<open>Values\<close>

text \<open>The values that an admitted intent is made of.\<close>

fun json_ok :: "js_value \<Rightarrow> bool" where
  "json_ok JNull = True"
| "json_ok (JBool b) = True"
| "json_ok (JNum n) = (case n of IntN _ \<Rightarrow> True | _ \<Rightarrow> False)"
| "json_ok (JStr s) = True"
| "json_ok (JArr vs) = (\<forall>v \<in> set vs. json_ok v)"
| "json_ok (JObj obj) = (\<forall>e \<in> set obj. json_ok (snd e))"
| "json_ok _ = False"

lemma validateValue_json_ok:
  "validateValue v p d = Inr u \<Longrightarrow> json_ok v"
  "validateItems vs i p d = Inr u \<Longrightarrow> \<forall>v \<in> set vs. json_ok v"
  "validateEntries obj p d = Inr u \<Longrightarrow> \<forall>e \<in> set obj. json_ok (snd e)"
proof (induction v p d and vs i p d and obj p d rule: validateValue_validateItems_validateEntries.induct)
  case (1 w q d)
  then show ?case
    by (cases w) (auto simp: validateValue.simps split: if_splits js_number.splits)
qed auto

lemma joined_Cons: "joined (s # ss) = s @ concat (map (\<lambda>t. CHR '','' # t) ss)"
  by (induction ss arbitrary: s) simp_all

definition rest_text :: "('a \<Rightarrow> string) \<Rightarrow> 'a list \<Rightarrow> string" where
  "rest_text f as = concat (map (\<lambda>a. CHR '','' # f a) as)"

lemma rest_text_simps [simp]:
  "rest_text f [] = []" "rest_text f (a # as) = CHR '','' # f a @ rest_text f as"
  by (simp_all add: rest_text_def)

lemma joined_map_Cons: "joined (map f (a # as)) = f a @ rest_text f as"
  by (simp add: joined_Cons rest_text_def comp_def del: joined.simps)

lemma delimited_rest:
  "c \<in> {CHR '']'', CHR ''}''} \<Longrightarrow> delimited (rest_text f as @ c # x)"
  by (cases as) (auto simp: delimited_def)

lemma rest_text_inject:
  assumes "\<And>a x b y. a \<in> set as \<Longrightarrow> ok b \<Longrightarrow> delimited x \<Longrightarrow> delimited y \<Longrightarrow> f a @ x = f b @ y \<Longrightarrow> a = b \<and> x = y"
    and "c \<in> {CHR '']'', CHR ''}''}" "\<forall>b \<in> set bs. ok b"
    and "rest_text f as @ c # x = rest_text f bs @ c # y"
  shows "as = bs \<and> x = y"
  using assms
proof (induction as arbitrary: bs)
  case Nil
  then show ?case by (cases bs) auto
next
  case (Cons a as)
  then obtain b bs' where bs: "bs = b # bs'" by (cases bs) auto
  have "a = b \<and> rest_text f as @ c # x = rest_text f bs' @ c # y"
    by (rule Cons.prems(1)) (use Cons.prems(3,4) bs delimited_rest [OF Cons.prems(2)] in simp_all)
  then show ?case using Cons.IH [of bs'] Cons.prems(1-3) bs by auto
qed

lemma joined_inject:
  assumes "\<And>a x b y. a \<in> set as \<Longrightarrow> ok b \<Longrightarrow> delimited x \<Longrightarrow> delimited y \<Longrightarrow> f a @ x = f b @ y \<Longrightarrow> a = b \<and> x = y"
    and "c \<in> {CHR '']'', CHR ''}''}" "\<forall>b \<in> set bs. ok b"
    and "\<And>a x y. a \<in> set as \<or> ok a \<Longrightarrow> f a @ x \<noteq> c # y"
    and "joined (map f as) @ c # x = joined (map f bs) @ c # y"
  shows "as = bs \<and> x = y"
proof (cases as)
  case Nil
  have "bs = []"
  proof (rule ccontr)
    assume "bs \<noteq> []"
    then obtain b bs' where "bs = b # bs'" by (cases bs) auto
    then show False using assms(3-5) Nil joined_map_Cons [of f b bs'] by (metis append.assoc append_Nil joined.simps(1) list.map(1) list.set_intros(1))
  qed
  then show ?thesis using Nil assms(5) by simp
next
  case a: (Cons a as')
  have "bs \<noteq> []"
  proof
    assume "bs = []"
    then show False using assms(4,5) a joined_map_Cons [of f a as'] by (metis append.assoc append_Nil joined.simps(1) list.map(1) list.set_intros(1))
  qed
  then obtain b bs' where b: "bs = b # bs'" by (cases bs) auto
  have e: "f a @ rest_text f as' @ c # x = f b @ rest_text f bs' @ c # y"
    using assms(5) by (simp add: a b joined_map_Cons del: list.map)
  have "a = b \<and> rest_text f as' @ c # x = rest_text f bs' @ c # y"
    by (rule assms(1)) (use e a b assms(3) delimited_rest [OF assms(2)] in simp_all)
  then show ?thesis using rest_text_inject [of as' ok f c bs' x y] assms(1-3) a b by auto
qed

fun first_char :: "js_value \<Rightarrow> char \<Rightarrow> bool" where
  "first_char (JBool b) c = (c = (if b then CHR ''t'' else CHR ''f''))"
| "first_char (JNum n) c = number_char c"
| "first_char (JStr s) c = (c = CHR 0x22)"
| "first_char (JArr vs) c = (c = CHR ''['')"
| "first_char (JObj obj) c = (c = CHR ''{'')"
| "first_char _ c = (c = CHR ''n'')"

lemma stringify_first:
  "json_ok v \<Longrightarrow> \<exists>c s. stringify v = c # s \<and> first_char v c"
proof (cases v)
  case (JNum n)
  moreover assume "json_ok v"
  ultimately obtain i where i: "v = JNum (IntN i)" by (cases n) auto
  show ?thesis using show_int_chars [of i] unfolding i by (cases "show_int i") auto
qed (auto simp: json_string_def)

lemma number_char_not:
  "\<not> number_char CHR ''t''" "\<not> number_char CHR ''f''" "\<not> number_char CHR ''n''" "\<not> number_char CHR 0x22"
  "\<not> number_char CHR ''[''" "\<not> number_char CHR ''{''" "\<not> number_char CHR '']''" "\<not> number_char CHR ''}''"
  by (simp_all add: number_char_def is_digit_def)

definition member_text :: "string \<times> js_value \<Rightarrow> string" where
  "member_text e = json_string (fst e) @ CHR '':'' # stringify (snd e)"

lemma stringify_JObj: "stringify (JObj obj) = CHR ''{'' # joined (map member_text obj) @ ''}''"
  by (simp add: member_text_def split_beta cong: map_cong)

lemma stringify_inject:
  "json_ok v \<Longrightarrow> json_ok w \<Longrightarrow> delimited x \<Longrightarrow> delimited y \<Longrightarrow> stringify v @ x = stringify w @ y \<Longrightarrow> v = w \<and> x = y"
proof (induction v arbitrary: w x y)
  case (JArr vs)
  obtain c s where c: "stringify w = c # s" "first_char w c" using stringify_first [OF JArr.prems(2)] by blast
  with JArr.prems(5) have "c = CHR ''[''" by simp
  with c(2) JArr.prems(2) obtain ws where w: "w = JArr ws" by (cases w) (auto simp: number_char_not split: if_splits)
  have no: "stringify u @ x' \<noteq> CHR '']'' # y'" if "json_ok u" for u x' y'
    using stringify_first [OF that] that by (cases u) (auto simp: number_char_not)
  have "vs = ws \<and> x = y"
  proof (rule joined_inject [where f = stringify and ok = json_ok])
    show "joined (map stringify vs) @ CHR '']'' # x = joined (map stringify ws) @ CHR '']'' # y"
      using JArr.prems(5) w by simp
  qed (use JArr.IH JArr.prems(1,2) w no in auto)
  then show ?case using w by simp
next
  case (JObj obj)
  obtain c s where c: "stringify w = c # s" "first_char w c" using stringify_first [OF JObj.prems(2)] by blast
  with JObj.prems(5) have "c = CHR ''{''" by simp
  with c(2) JObj.prems(2) obtain obj' where w: "w = JObj obj'" by (cases w) (auto simp: number_char_not split: if_splits)
  have no: "member_text e @ x' \<noteq> CHR ''}'' # y'" for e x' y'
    by (simp add: member_text_def json_string_def)
  have "obj = obj' \<and> x = y"
  proof (rule joined_inject [where f = member_text and ok = "\<lambda>e. json_ok (snd e)"])
    fix a b :: "string \<times> js_value" and x' y'
    assume a: "a \<in> set obj" "json_ok (snd b)" "delimited x'" "delimited y'" "member_text a @ x' = member_text b @ y'"
    then have k: "fst a = fst b" "stringify (snd a) @ x' = stringify (snd b) @ y'"
      using json_string_inj [of "fst a" "CHR '':'' # stringify (snd a) @ x'" "fst b" "CHR '':'' # stringify (snd b) @ y'"]
      by (simp_all add: member_text_def)
    moreover have "json_ok (snd a)" using a(1) JObj.prems(1) by simp
    ultimately show "a = b \<and> x' = y'"
      using JObj.IH [of a "snd a" "snd b" x' y'] a by (auto simp: prod_eq_iff snds.simps)
  qed (use JObj.prems w no in \<open>auto simp: stringify_JObj simp del: stringify.simps\<close>)
  then show ?case using w by simp
next
  case (JNum n)
  then obtain i where i: "n = IntN i" by (cases n) auto
  obtain c s where c: "stringify w = c # s" "first_char w c" using stringify_first [OF JNum.prems(2)] by blast
  obtain d r where d: "show_int i = d # r" "number_char d" using show_int_chars [of i] by (cases "show_int i") auto
  with c JNum.prems(5) have "number_char c" by (simp add: i)
  with c(2) JNum.prems(2) obtain j where w: "w = JNum (IntN j)"
    by (cases w) (auto simp: number_char_not split: if_splits js_number.splits)
  then show ?case using json_number_inject [OF JNum.prems(3,4), of i j] JNum.prems(5) i by simp
next
  case (JStr t)
  obtain c s where c: "stringify w = c # s" "first_char w c" using stringify_first [OF JStr.prems(2)] by blast
  with JStr.prems(5) have "c = CHR 0x22" by (simp add: json_string_def)
  with c(2) JStr.prems(2) obtain u where w: "w = JStr u" by (cases w) (auto simp: number_char_not split: if_splits)
  then show ?case using json_string_inj [of t x u y] JStr.prems(5) by simp
next
  case (JBool b)
  obtain c s where c: "stringify w = c # s" "first_char w c" using stringify_first [OF JBool.prems(2)] by blast
  with JBool.prems(5) have "c = (if b then CHR ''t'' else CHR ''f'')" by auto
  with c(2) JBool.prems(2) have "w = JBool b" by (cases w) (auto simp: number_char_not split: if_splits)
  then show ?case using JBool.prems(5) by simp
next
  case JNull
  obtain c s where c: "stringify w = c # s" "first_char w c" using stringify_first [OF JNull.prems(2)] by blast
  with JNull.prems(5) have "c = CHR ''n''" by auto
  with c(2) JNull.prems(2) have "w = JNull" by (cases w) (auto simp: number_char_not split: if_splits)
  then show ?case using JNull.prems(5) by simp
qed simp_all

lemma serializeSecretFreeIntent_inject:
  assumes "serializeSecretFreeIntent v = Inr s" "serializeSecretFreeIntent w = Inr s"
  shows "v = w"
proof -
  have j: "json_ok v \<and> s = stringify v" if "serializeSecretFreeIntent v = Inr s" for v
    using that validateValue_json_ok(1) [of v "''intent''" 0]
    by (auto simp: serializeSecretFreeIntent_def result_simps Let_def split: option.splits if_splits)
  show ?thesis using stringify_inject [of v w "[]" "[]"] j [OF assms(1)] j [OF assms(2)] by (simp add: delimited_def)
qed

end
