(* ===== verification/Review_Laws.thy ===== *)
theory Review_Laws
  imports Review Json_Laws
begin

text \<open>
  When a refreshed action counts as the reviewed one, it is the reviewed one: the comparison of
  theory \<open>Review\<close> goes over serialised objects, and what they say of an intent that passed
  validation determines the intent.
\<close>

section \<open>Objects and intents\<close>

fun intent_fields :: "trading_intent \<Rightarrow> string list" where
  "intent_fields (MarketOrder _) = aggressive_fields"
| "intent_fields (ReduceOnlyClose _) = aggressive_fields"
| "intent_fields (LimitOrder _) = limit_fields"
| "intent_fields (PositionTpsl _) = tpsl_fields"
| "intent_fields (Cancel _) = [''type'', ''assetId'', ''target'']"
| "intent_fields (UpdateLeverage _) = [''type'', ''assetId'', ''leverage'', ''marginMode'']"
| "intent_fields _ = []"

fun target_fields :: "trading_intent \<Rightarrow> string list" where
  "target_fields (Cancel i) =
     (case ca_target i of ByOid _ \<Rightarrow> [''kind'', ''oid''] | _ \<Rightarrow> [''kind'', ''cloid''])"
| "target_fields _ = []"

text \<open>The names of a validated intent are those of its type.\<close>

fun named :: "trading_intent \<Rightarrow> bool" where
  "named (MarketOrder i) = (mo_side i \<in> {Buy, Sell})"
| "named (ReduceOnlyClose i) = (rc_side i \<in> {Buy, Sell})"
| "named (LimitOrder i) = (lo_side i \<in> {Buy, Sell} \<and> lo_timeInForce i \<in> {Alo, Gtc, Ioc})"
| "named (PositionTpsl i) = (pt_side i \<in> {Buy, Sell} \<and> pt_triggerKind i \<in> {TakeProfit, StopLoss})"
| "named (Cancel i) = (case ca_target i of OtherTarget _ _ \<Rightarrow> False | _ \<Rightarrow> True)"
| "named (UpdateLeverage i) = (ul_marginMode i \<in> {Cross, Isolated})"
| "named _ = False"

definition covers :: "string list \<Rightarrow> string list \<Rightarrow> trading_intent \<Rightarrow> bool" where
  "covers keys targetKeys i \<longleftrightarrow> set (intent_fields i) \<subseteq> set keys \<and> set (target_fields i) \<subseteq> set targetKeys"

lemma in_order_inject:
  "in_order ks ms = in_order ks' ms' \<Longrightarrow> k \<in> set ks \<Longrightarrow> member ms k = member ms' k"
proof -
  assume e: "in_order ks ms = in_order ks' ms'" and k: "k \<in> set ks"
  have "ks = ks'" using arg_cong [OF e, of "map fst"] by (simp add: in_order_def comp_def)
  with e k show ?thesis by (simp add: in_order_def)
qed

lemma shown_names:
  "s \<in> {Buy, Sell} \<Longrightarrow> s' \<in> {Buy, Sell} \<Longrightarrow> side_name s = side_name s' \<longleftrightarrow> s = s'"
  "f \<in> {Alo, Gtc, Ioc} \<Longrightarrow> f' \<in> {Alo, Gtc, Ioc} \<Longrightarrow> tif_text f = tif_text f' \<longleftrightarrow> f = f'"
  "k \<in> {TakeProfit, StopLoss} \<Longrightarrow> k' \<in> {TakeProfit, StopLoss} \<Longrightarrow> tpsl_name k = tpsl_name k' \<longleftrightarrow> k = k'"
  "m \<in> {Cross, Isolated} \<Longrightarrow> m' \<in> {Cross, Isolated} \<Longrightarrow> margin_mode_name m = margin_mode_name m' \<longleftrightarrow> m = m'"
  by auto

lemma intent_object_inject:
  assumes e: "intent_object ks tks a = intent_object ks' tks' b"
    and "covers ks tks a" "named a" "named b" "intent_type a = intent_type b"
  shows "a = b"
proof -
  have f: "\<forall>k \<in> set (intent_fields a). member (intent_members tks a) k = member (intent_members tks' b) k"
    by (rule ballI, rule in_order_inject [OF e [unfolded intent_object_def]]) (use assms(2) in \<open>auto simp: covers_def\<close>)
  show ?thesis
  proof (cases a)
    case a: (MarketOrder i)
    then obtain j where b: "b = MarketOrder j" using assms(4,5) by (cases b) auto
    show ?thesis using f assms(3,4) shown_names(1) [of "mo_side i" "mo_side j"] by (cases i; cases j) (simp add: a b aggressive_fields_def)
  next
    case a: (ReduceOnlyClose i)
    then obtain j where b: "b = ReduceOnlyClose j" using assms(4,5) by (cases b) auto
    show ?thesis using f assms(3,4) shown_names(1) [of "rc_side i" "rc_side j"] by (cases i; cases j) (simp add: a b aggressive_fields_def)
  next
    case a: (LimitOrder i)
    then obtain j where b: "b = LimitOrder j" using assms(4,5) by (cases b) auto
    show ?thesis
      using f assms(3,4) shown_names(1) [of "lo_side i" "lo_side j"]
        shown_names(2) [of "lo_timeInForce i" "lo_timeInForce j"]
      by (cases i; cases j) (simp add: a b limit_fields_def)
  next
    case a: (PositionTpsl i)
    then obtain j where b: "b = PositionTpsl j" using assms(4,5) by (cases b) auto
    show ?thesis
      using f assms(3,4) shown_names(1) [of "pt_side i" "pt_side j"]
        shown_names(3) [of "pt_triggerKind i" "pt_triggerKind j"]
      by (cases i; cases j) (simp add: a b tpsl_fields_def split: option.splits)
  next
    case a: (Cancel i)
    then obtain j where b: "b = Cancel j" using assms(4,5) by (cases b) auto
    have "in_order tks (target_members (ca_target i)) = in_order tks' (target_members (ca_target j))"
      using f by (simp add: a b)
    then have t: "member (target_members (ca_target i)) k = member (target_members (ca_target j)) k"
      if "k \<in> set (target_fields a)" for k
      by (rule in_order_inject) (use that assms(2) in \<open>auto simp: covers_def\<close>)
    have "ca_target i = ca_target j"
      using assms(3,4) t [of "''kind''"] t [of "''oid''"] t [of "''cloid''"]
      by (cases "ca_target i"; cases "ca_target j") (simp_all add: a b)
    then show ?thesis using f by (cases i; cases j) (simp add: a b)
  next
    case a: (UpdateLeverage i)
    then obtain j where b: "b = UpdateLeverage j" using assms(4,5) by (cases b) auto
    show ?thesis using f assms(3,4) shown_names(4) [of "ul_marginMode i" "ul_marginMode j"]
      by (cases i; cases j) (simp add: a b)
  qed (use assms(3) in auto)
qed

section \<open>Validated intents\<close>

lemma assertExactFields_Inr [result_simps]:
  "assertExactFields keys expected p = Inr u \<longleftrightarrow> length keys = length expected \<and> set expected \<subseteq> set keys"
  by (auto simp: assertExactFields_def throw_if_def list_all_iff)

lemma first_step: "bindE r f = Inr v \<Longrightarrow> \<exists>x. r = Inr x"
  by (cases r) auto

lemma validateOrder_fields:
  "validateOrder input i = Inr v \<Longrightarrow>
     set (if is_limit i then limit_fields else aggressive_fields) \<subseteq> set (i_intentKeys input)"
  unfolding validateOrder_def by (drule first_step) (simp add: assertExactFields_Inr)

lemma validatePositionTpsl_fields:
  "validatePositionTpsl input i = Inr v \<Longrightarrow> set tpsl_fields \<subseteq> set (i_intentKeys input)"
  unfolding validatePositionTpsl_def by (drule first_step) (simp add: assertExactFields_Inr)

lemma validateLeverage_fields:
  "validateLeverage input i = Inr v \<Longrightarrow>
     set [''type'', ''assetId'', ''leverage'', ''marginMode''] \<subseteq> set (i_intentKeys input)"
  unfolding validateLeverage_def by (drule first_step) (simp add: assertExactFields_Inr)

lemma validateCancel_fields:
  "validateCancel input i = Inr v \<Longrightarrow>
     set [''type'', ''assetId'', ''target''] \<subseteq> set (i_intentKeys input) \<and>
     set (if target_kind (ca_target i) = ''oid'' then [''kind'', ''oid''] else [''kind'', ''cloid''])
       \<subseteq> set (i_targetKeys input)"
  unfolding validateCancel_def
  by (auto simp: assertExactFields_Inr result_simps split: if_splits simp del: list.set)

lemma dispatchIntent_named:
  assumes "dispatchIntent input i = Inr v"
  shows "named (v_intent v)"
  using assms
proof (cases rule: dispatchIntent_cases)
  case (Order o1)
  from Order(2) show ?thesis
    by (rule validateOrder_Inr) (cases o1; auto)
next
  case (Tpsl t1 t2)
  from Tpsl(2) show ?thesis by (rule validatePositionTpsl_Inr) auto
next
  case (Cancel c1 c2)
  from Cancel(2) show ?thesis by (rule validateCancel_Inr) (auto simp: names_order_def split: cancel_target.splits)
next
  case (Leverage l)
  then show ?thesis using validateLeverage_Inr [OF Leverage(2)] by auto
qed

lemma dispatchIntent_covers:
  assumes "dispatchIntent input i = Inr v"
  shows "covers (i_intentKeys input) (i_targetKeys (reviewed_validation input v)) (v_intent v)"
  using assms
proof (cases rule: dispatchIntent_cases)
  case (Order o1)
  note f = validateOrder_fields [OF Order(2)]
  from Order(2) show ?thesis
    by (rule validateOrder_Inr) (use f in \<open>cases o1; simp add: covers_def\<close>)
next
  case (Tpsl t1 t2)
  then show ?thesis using validatePositionTpsl_fields [OF Tpsl(2)] by (simp add: covers_def)
next
  case (Cancel c1 c2)
  note f = validateCancel_fields [OF Cancel(2)]
  from Cancel(2) have "ca_target c2 = ca_target c1 \<and> (\<exists>oid. ca_target c1 = ByOid oid) \<or> (\<exists>c. ca_target c2 = ByCloid c)"
    by (rule validateCancel_Inr) (use Cancel(3) in auto)
  then show ?thesis using f Cancel(3) by (auto simp: covers_def reviewed_validation_def)
next
  case (Leverage l)
  then show ?thesis using validateLeverage_fields [OF Leverage(2)] by (simp add: covers_def)
qed

text \<open>What is known of an action on either side of the comparison.\<close>

definition action_ok :: "TradingActionValidationInput \<Rightarrow> ValidatedTradingAction \<Rightarrow> bool" where
  "action_ok validation validated \<longleftrightarrow>
     named (v_intent validated) \<and> covers (i_intentKeys validation) (i_targetKeys validation) (v_intent validated)"

lemma validated_action_ok:
  "validateTradingAction caps ga input = Inr v \<Longrightarrow> action_ok (reviewed_validation input v) v"
  using dispatchIntent_named dispatchIntent_covers
  by (auto simp: action_ok_def reviewed_validation_def elim!: validateTradingAction_Inr)

lemma createActionReview_ok:
  "createActionReview caps ga b epoch input vault = Inr review \<Longrightarrow>
     action_ok (rv_validation review) (rv_validated review) \<and>
     (\<exists>i. validateTradingAction caps ga i = Inr (rv_validated review))"
  by (auto simp: createActionReview_def result_simps Let_def dest: validated_action_ok)

section \<open>The comparison\<close>

lemma shown_value_inject:
  assumes "serializeSecretFreeIntent (JObj (intent_object ks tks a)) = Inr s"
    and "serializeSecretFreeIntent (JObj (intent_object ks' tks' b)) = Inr s"
    and "covers ks tks a" "named a" "named b" "intent_type a = intent_type b"
  shows "a = b"
  using serializeSecretFreeIntent_inject [OF assms(1,2)] intent_object_inject assms(3-6) by auto

lemma with_limit_price_simps [simp]:
  "intent_type (with_limit_price p a) = intent_type a" "named (with_limit_price p a) = named a"
  "covers ks tks (with_limit_price p a) = covers ks tks a"
  by (cases a; simp add: covers_def)+

text \<open>The action that is sent in place of the reviewed one: at market, its limit price is computed anew.\<close>

definition refreshed_from :: "trading_intent \<Rightarrow> TradingActionValidationInput \<Rightarrow> trading_intent \<Rightarrow> bool" where
  "refreshed_from reviewed input refreshed \<longleftrightarrow>
     (case market_like reviewed of
        None \<Rightarrow> refreshed = reviewed
      | Some side \<Rightarrow>
          (case (k_slippageBps (i_controls input), m_pricePrecision (i_market input),
                 m_referencePrice (i_market input)) of
             (Some slippageBps, Some precision, Some referencePrice) \<Rightarrow>
               (case aggressiveOrderPrice referencePrice side slippageBps precision of
                  Inl _ \<Rightarrow> False
                | Inr price \<Rightarrow> refreshed = with_limit_price price reviewed)
           | _ \<Rightarrow> False))"

lemma sameReviewedIntent_refreshed:
  assumes "sameReviewedIntent \<lparr>sh_intent = a, sh_keys = ks, sh_targetKeys = tks\<rparr>
      \<lparr>sh_intent = b, sh_keys = ks', sh_targetKeys = tks'\<rparr> input = Inr True"
    and "covers ks tks a" "named a" "named b"
  shows "refreshed_from a input b"
proof (cases "market_like a")
  case None
  then show ?thesis using assms
    by (auto simp: sameReviewedIntent_def refreshed_from_def shown_value_def result_simps split: if_splits
        dest: shown_value_inject)
next
  case (Some side)
  from assms(1) Some obtain bps precision ref price s where
    c: "k_slippageBps (i_controls input) = Some bps" "m_pricePrecision (i_market input) = Some precision"
      "m_referencePrice (i_market input) = Some ref" "aggressiveOrderPrice ref side bps precision = Inr price"
    and e: "serializeSecretFreeIntent (JObj (intent_object ks tks (with_limit_price price a))) = Inr s"
      "serializeSecretFreeIntent (JObj (intent_object ks' tks' b)) = Inr s" "intent_type a = intent_type b"
    by (auto simp: sameReviewedIntent_def shown_value_def result_simps split: if_splits option.splits sum.splits)
  have "with_limit_price price a = b"
    by (rule shown_value_inject [OF e(1,2)]) (use assms(2-4) e(3) in simp_all)
  then show ?thesis using Some c by (simp add: refreshed_from_def)
qed

end
