(* ===== verification/Order_Refresh.thy ===== *)
theory Order_Refresh
  imports Evidence_Source Orchestrator Context_Supervisor Review_Laws
begin

text \<open>
  How a reviewed order is refreshed before it is signed:
  \<^verbatim>\<open>apps/mobile/src/features/actions/authoritative-order-refresh.ts\<close>. The clock keeps the last
  server time it saw; the answers of the exchange are the record of theory \<open>Evidence_Source\<close>. Of two
  reads that are awaited together and both fail, the error is the first one's here.
\<close>

section \<open>The clock\<close>

fun js_floor :: "js_number \<Rightarrow> js_number" where
  "js_floor (FracN q) = IntN \<lfloor>q\<rfloor>"
| "js_floor n = n"

definition clockMilliseconds :: "js_number \<Rightarrow> string \<Rightarrow> js_number result" where
  "clockMilliseconds v label =
     (let milliseconds = js_floor v in
      if \<not> isSafeInteger milliseconds \<or> js_less milliseconds (IntN 0)
      then Inl (Err (label @ '' is unavailable.'')) else Inr milliseconds)"

text \<open>The last server time and the monotonic time it was read at.\<close>

type_synonym server_sample = "(js_number \<times> js_number) option"

text \<open>A response with the time in its \<^verbatim>\<open>date\<close> header, as \<^verbatim>\<open>Date.parse\<close> reads it.\<close>

definition timedFetch :: "js_number option \<Rightarrow> js_number \<Rightarrow> server_sample \<Rightarrow> server_sample result" where
  "timedFetch serverDate monotonicNow sample =
     (case serverDate of
        None \<Rightarrow> Inr sample
      | Some parsed \<Rightarrow>
          if isSafeInteger parsed \<and> \<not> js_less parsed (IntN 0)
          then bindE (clockMilliseconds monotonicNow ''The monotonic clock'') (\<lambda>t. Inr (Some (parsed, t)))
          else Inr sample)"

definition readClock :: "js_number \<Rightarrow> js_number \<Rightarrow> server_sample \<Rightarrow> ClockGateInput result" where
  "readClock wallNow monotonicNow sample =
     (case sample of
        None \<Rightarrow> Inl (Err ''Hyperliquid server time is unavailable. Refresh before signing.'')
      | Some (server, sampled) \<Rightarrow>
          bindE (clockMilliseconds wallNow ''The device clock'') (\<lambda>wall.
          bindE (clockMilliseconds monotonicNow ''The monotonic clock'') (\<lambda>monotonic.
          Inr \<lparr>wallTimeMs = wall, monotonicTimeMs = monotonic, serverTimeMs = server,
               serverSampledAtMonotonicMs = sampled, lastObservedWallMs = None\<rparr>)))"

section \<open>The context of a review\<close>

record CurrentActionContext =
  cur_context :: NormalizedTradingContext
  cur_epoch :: js_number

definition exactBinding :: "NormalizedTradingContext \<Rightarrow> SignerBinding result" where
  "exactBinding c =
     (case (tc_masterAccount c, tc_targetAccount c, tc_signer c) of
        (Some m, Some t, Some s) \<Rightarrow>
          Inr \<lparr>sb_network = tc_network c, sb_masterAccount = m, sb_targetAccount = t,
               sb_agentAddress = si_agentAddress s, sb_generation = IntN (si_generation s)\<rparr>
      | _ \<Rightarrow> Inl (Err ''The exact signing context is unavailable.''))"

definition isActionReviewContextCurrent :: "address_parser \<Rightarrow> ActionReviewSnapshot \<Rightarrow> CurrentActionContext \<Rightarrow> bool" where
  "isActionReviewContextCurrent ga review now \<longleftrightarrow>
     (let ctx = i_context (rv_validation review) in
      js_eq (cur_epoch now) (c_capturedContextEpoch ctx) \<and>
      js_eq (c_currentContextEpoch ctx) (c_capturedContextEpoch ctx) \<and>
      succeeds (bindE (exactBinding (cur_context now)) (\<lambda>b. assertSignerBinding ga (rv_binding review) b)))"

definition bindingTarget :: "SignerBinding \<Rightarrow> AccountTarget" where
  "bindingTarget b =
     (if sb_masterAccount b = sb_targetAccount b then MasterTarget (sb_targetAccount b)
      else VaultTarget (sb_targetAccount b) (Some (sb_masterAccount b)))"

section \<open>The account\<close>

definition loadAccountSnapshot ::
    "exchange_reads \<Rightarrow> AccountTarget \<Rightarrow> Market \<Rightarrow> js_number \<Rightarrow> TradeAccountSnapshot result" where
  "loadAccountSnapshot client target market dateNow =
     bindE (case market of
              PerpMarket b d \<Rightarrow>
                bindE (xr_clearinghouse client target (pd_dexName d)) (\<lambda>state.
                bindE (xr_activeAsset client target (bm_coin b)) (\<lambda>activeAsset.
                Inr (tradePerpAccountSnapshot state activeAsset b dateNow)))
            | SpotMarket b d \<Rightarrow>
                bindE (xr_spotBalances client target) (\<lambda>balances.
                tradeSpotAccountSnapshot balances d dateNow)
            | OutcomeMarket _ _ \<Rightarrow> Inr None) (\<lambda>snapshot.
       case snapshot of
         Some account \<Rightarrow> Inr account
       | None \<Rightarrow> Inl (Err ''The refreshed account snapshot is unavailable.''))"

definition sameReviewedAccount :: "ActionReviewSnapshot \<Rightarrow> Market \<Rightarrow> TradeAccountSnapshot \<Rightarrow> bool" where
  "sameReviewedAccount review market refreshed \<longleftrightarrow>
     (let account = i_account (rv_validation review); spot = (market_family_of market = Spot) in
      js_eq_opt (a_leverage account) (if spot then Some (IntN 1) else ts_leverage refreshed) \<and>
      a_marginMode account = (if spot then None else ts_marginMode refreshed) \<and>
      a_positionSize account = Some (ts_positionSize refreshed))"

fun changedVersion :: "js_number \<Rightarrow> js_number" where
  "changedVersion (IntN i) = (if i = max_safe_integer then IntN 0 else IntN (i + 1))"
| "changedVersion (FracN q) = FracN (q + 1)"
| "changedVersion n = n"

section \<open>The market and the intent\<close>

definition MINIMUM_ORDER_NOTIONAL :: string where
  "MINIMUM_ORDER_NOTIONAL = ''10''"

definition refreshedMarketValidation :: "Market \<Rightarrow> ActionMarketRules result" where
  "refreshedMarketValidation market =
     (if tradeReferencePrice market = []
      then Inl (Err ''The refreshed market reference price is unavailable.'')
      else Inr
        \<lparr>m_canonicalId = bm_canonicalId (base market), m_metadataFingerprint = tradeMarketFingerprint market,
         m_orderAssetId = bm_orderAssetId (base market), m_family = market_family_of market,
         m_lifecycle = bm_lifecycle (base market), m_orderAvailability = bm_orderAvailability (base market),
         m_sizeDecimals = market_sizeDecimals market, m_pricePrecision = market_pricePrecision market,
         m_maxLeverage = (case market of PerpMarket _ d \<Rightarrow> Some (pd_maxLeverage d) | _ \<Rightarrow> None),
         m_onlyIsolated = (case market of PerpMarket _ d \<Rightarrow> Some (pd_onlyIsolated d) | _ \<Rightarrow> None),
         m_referencePrice = Some (tradeReferencePrice market),
         m_minimumNotional = Some MINIMUM_ORDER_NOTIONAL\<rparr>)"

definition refreshedOrderIntent :: "ActionReviewSnapshot \<Rightarrow> ActionMarketRules \<Rightarrow> trading_intent result" where
  "refreshedOrderIntent review market =
     (let intent = v_intent (rv_validated review) in
      case market_like intent of
        None \<Rightarrow> Inr intent
      | Some side \<Rightarrow>
          (case (k_slippageBps (i_controls (rv_validation review)), m_pricePrecision market, m_referencePrice market) of
             (Some slippageBps, Some precision, Some referencePrice) \<Rightarrow>
               bindE (aggressiveOrderPrice referencePrice side slippageBps precision) (\<lambda>price.
               Inr (with_limit_price price intent))
           | _ \<Rightarrow> Inl (Err ''Current slippage and price precision are required for a market order.'')))"

definition catalogScopeForReview :: "ActionReviewSnapshot \<Rightarrow> string" where
  "catalogScopeForReview review =
     (if m_family (i_market (rv_validation review)) = Spot then ''spot''
      else if intent_type (v_intent (rv_validated review)) = ''cancel'' \<and>
              \<not> native_id (v_marketCanonicalId (rv_validated review))
      then ''complete'' else ''native'')"

section \<open>Open orders\<close>

definition exactly_one ::
    "'a list \<Rightarrow> js_error \<Rightarrow> string \<Rightarrow> CurrentOpenOrderIdentity \<Rightarrow> CurrentOpenOrderIdentity list result" where
  "exactly_one matches none ambiguous identity =
     (if length matches = 0 then Inl none
      else if length matches \<noteq> 1 then Inl (Err ambiguous)
      else Inr [identity])"

definition cancelOpenOrderEvidence ::
    "ActionReviewSnapshot \<Rightarrow> BaseMarket \<Rightarrow> OpenOrder list \<Rightarrow> CurrentOpenOrderIdentity list result" where
  "cancelOpenOrderEvidence review market openOrders =
     (case v_intent (rv_validated review) of
        Cancel i \<Rightarrow>
          (case ca_target i of
             ByOid targetOid \<Rightarrow>
               exactly_one (filter (\<lambda>order. op_coin order = bm_coin market \<and> js_eq (op_oid order) targetOid) openOrders)
                 (CodedError ''cancel_target_not_open'' ''The reviewed order is no longer open.'')
                 ''The reviewed open-order evidence is ambiguous.''
                 \<lparr>oo_assetId = bm_orderAssetId market, oo_oid = Some targetOid, oo_cloid = None\<rparr>
           | _ \<Rightarrow> Inl (Err ''Current exact open-order evidence for client order ID cancellation is unavailable.''))
      | _ \<Rightarrow> Inr [])"

definition positionTpslOpenOrderEvidence ::
    "ActionReviewSnapshot \<Rightarrow> BaseMarket \<Rightarrow> FrontendOpenOrder list \<Rightarrow> CurrentOpenOrderIdentity list result" where
  "positionTpslOpenOrderEvidence review market openOrders =
     (case v_intent (rv_validated review) of
        PositionTpsl i \<Rightarrow>
          (case pt_existingOid i of
             None \<Rightarrow> Inr []
           | Some existingOid \<Rightarrow>
               let expectedOrderType = (if pt_triggerKind i = TakeProfit then ''Take Profit'' else ''Stop'');
                   expectedSide = (if pt_side i = Buy then ''B'' else ''A'') in
               exactly_one
                 (filter (\<lambda>order. op_coin order = bm_coin market \<and> js_eq (op_oid order) existingOid \<and>
                    op_side order = expectedSide \<and> fo_isPositionTpsl order \<and> fo_isTrigger order \<and>
                    fo_reduceOnly order \<and> starts_with expectedOrderType (fo_orderType order)) openOrders)
                 (CodedError ''position_tpsl_target_not_open'' ''The protective order is no longer open.'')
                 ''The protective-order evidence is ambiguous.''
                 \<lparr>oo_assetId = bm_orderAssetId market, oo_oid = Some existingOid, oo_cloid = None\<rparr>)
      | _ \<Rightarrow> Inr [])"

section \<open>The refresh\<close>

fun refreshable :: "trading_intent \<Rightarrow> bool" where
  "refreshable (MarketOrder _) = True"
| "refreshable (LimitOrder _) = True"
| "refreshable (ReduceOnlyClose _) = True"
| "refreshable (PositionTpsl _) = True"
| "refreshable (Cancel _) = True"
| "refreshable _ = False"

definition dex_of :: "Market \<Rightarrow> string" where
  "dex_of market = (case market of PerpMarket _ d \<Rightarrow> pd_dexName d | _ \<Rightarrow> [])"

fun intent_side :: "trading_intent \<Rightarrow> order_side option" where
  "intent_side (MarketOrder i) = Some (mo_side i)"
| "intent_side (LimitOrder i) = Some (lo_side i)"
| "intent_side (ReduceOnlyClose i) = Some (rc_side i)"
| "intent_side (PositionTpsl i) = Some (pt_side i)"
| "intent_side _ = None"

definition replaces_order :: "trading_intent \<Rightarrow> bool" where
  "replaces_order intent = (case intent of PositionTpsl i \<Rightarrow> pt_existingOid i \<noteq> None | _ \<Rightarrow> False)"

definition refreshedAccount ::
    "exchange_reads \<Rightarrow> js_number \<Rightarrow> ActionReviewSnapshot \<Rightarrow> Market \<Rightarrow> ActionAccountRules result" where
  "refreshedAccount client dateNow review market =
     (let intent = v_intent (rv_validated review); reviewed = i_account (rv_validation review);
          target = bindingTarget (rv_binding review) in
      case intent of
        Cancel _ \<Rightarrow>
          bindE (xr_openOrders client target (dex_of market)) (\<lambda>orders.
          bindE (cancelOpenOrderEvidence review (base market) orders) (\<lambda>evidence.
          Inr \<lparr>a_availableMargin = a_availableMargin reviewed, a_leverage = None, a_marginMode = None,
               a_positionSize = None, a_openOrders = Some evidence, a_version = a_version reviewed\<rparr>))
      | _ \<Rightarrow>
          bindE (loadAccountSnapshot client target market dateNow) (\<lambda>account.
          bindE (if replaces_order intent then xr_frontendOpenOrders client target (dex_of market) else Inr []) (\<lambda>orders.
          let accountVersion = (if sameReviewedAccount review market account then a_version reviewed
                                else changedVersion (a_version reviewed)) in
          bindE (if replaces_order intent
                 then bindE (positionTpslOpenOrderEvidence review (base market) orders) (\<lambda>e. Inr (Some e))
                 else Inr None) (\<lambda>evidence.
          Inr \<lparr>a_availableMargin = (if intent_side intent = Some Buy then ts_buyFunds account else ts_sellFunds account),
               a_leverage = (if market_family_of market = Spot then Some (IntN 1) else ts_leverage account),
               a_marginMode = (if market_family_of market = Perp then ts_marginMode account else None),
               a_positionSize = Some (ts_positionSize account), a_openOrders = evidence,
               a_version = accountVersion\<rparr>))))"

text \<open>
  With the context as it is read after the account, and the two clocks: \<open>dateNow\<close> for the snapshot,
  \<open>now\<close> for the validation.
\<close>

definition refreshReviewedOrder ::
    "repo_env \<Rightarrow> exchange_reads \<Rightarrow> js_number \<Rightarrow> js_number \<Rightarrow> CurrentActionContext \<Rightarrow> ActionReviewSnapshot \<Rightarrow>
     TradingActionValidationInput result" where
  "refreshReviewedOrder env client dateNow now present review =
     (let intent = v_intent (rv_validated review); validation = rv_validation review in
      bindE (assertTradingActionCapability (env_caps env) (sb_network (rv_binding review))) (\<lambda>_.
      bindE (throw_if (\<not> refreshable intent)
        (Err ''This runtime currently submits reviewed market, limit, protective, full reduce-only close, and order cancellation actions only.'')) (\<lambda>_.
      bindE (throw_if (xr_network client \<noteq> sb_network (rv_binding review))
        (Err ''The authoritative refresh client must match the review network.'')) (\<lambda>_.
      bindE (xr_catalog client (catalogScopeForReview review)) (\<lambda>catalog.
      case filter (\<lambda>m. bm_canonicalId (base m) = v_marketCanonicalId (rv_validated review)) catalog of
        [market] \<Rightarrow>
          bindE (refreshedAccount client dateNow review market) (\<lambda>account.
          bindE (exactBinding (cur_context present)) (\<lambda>currentBinding.
          bindE (assertSignerBinding (env_getAddress env) (rv_binding review) currentBinding) (\<lambda>_.
          bindE (clockMilliseconds now ''The refresh clock'') (\<lambda>nowMs.
          bindE (refreshedMarketValidation market) (\<lambda>marketValidation.
          bindE (refreshedOrderIntent review marketValidation) (\<lambda>refreshedIntent.
          Inr \<lparr>i_context = (i_context validation)
                 \<lparr>c_currentContextEpoch := cur_epoch present, c_currentNetwork := tc_network (cur_context present),
                  c_currentMasterAccount := sb_masterAccount currentBinding,
                  c_currentTargetAccount := sb_targetAccount currentBinding, c_nowMs := nowMs\<rparr>,
               i_market = marketValidation, i_account = account, i_controls = i_controls validation,
               i_intent = refreshedIntent, i_intentKeys = i_intentKeys validation,
               i_targetKeys = i_targetKeys validation\<rparr>))))))
      | _ \<Rightarrow> Inl (Err ''The exact reviewed market is no longer authoritative.''))))))"

section \<open>What a refresh keeps\<close>

text \<open>The version of the account that a validated action carries.\<close>

lemma validated_version:
  assumes "validateTradingAction caps ga input = Inr v"
  shows "a_version (i_account input) = IntN (v_accountStateVersion v)"
proof -
  have "a_version (i_account input) = IntN (v_accountStateVersion v)" if "validateOrder input i = Inr v" for i
    using that unfolding validateOrder_def
    by (auto simp: result_simps safeInteger_Inr Let_def simp del: case_option_Inr)
  moreover have "a_version (i_account input) = IntN (v_accountStateVersion v)" if "validatePositionTpsl input i = Inr v" for i
    using that unfolding validatePositionTpsl_def
    by (auto simp: result_simps safeInteger_Inr Let_def simp del: case_option_Inr split: option.splits)
  moreover have "a_version (i_account input) = IntN (v_accountStateVersion v)" if "validateCancel input i = Inr v" for i
    using that unfolding validateCancel_def
    by (auto simp: result_simps safeInteger_Inr simp del: case_option_Inr split: option.splits)
  moreover have "a_version (i_account input) = IntN (v_accountStateVersion v)" if "validateLeverage input i = Inr v" for i
    using that unfolding validateLeverage_def
    by (auto simp: result_simps safeInteger_Inr simp del: case_option_Inr split: option.splits js_number.splits prod.splits)
  moreover from assms have "dispatchIntent input (i_intent input) = Inr v" by (rule validateTradingAction_Inr)
  ultimately show ?thesis by (cases "i_intent input") auto
qed

lemma changedVersion_changes: "changedVersion (IntN i) \<noteq> IntN i"
  by (simp add: max_safe_integer_def)

lemma refreshReviewedOrder_Inr:
  assumes "refreshReviewedOrder env client dateNow now present review = Inr input"
  obtains catalog market b where
    "xr_catalog client (catalogScopeForReview review) = Inr catalog"
    "filter (\<lambda>m. bm_canonicalId (base m) = v_marketCanonicalId (rv_validated review)) catalog = [market]"
    "refreshedAccount client dateNow review market = Inr (i_account input)"
    "refreshedMarketValidation market = Inr (i_market input)"
    "refreshedOrderIntent review (i_market input) = Inr (i_intent input)"
    "exactBinding (cur_context present) = Inr b" "assertSignerBinding (env_getAddress env) (rv_binding review) b = Inr ()"
    "i_controls input = i_controls (rv_validation review)" "i_intentKeys input = i_intentKeys (rv_validation review)"
    "i_targetKeys input = i_targetKeys (rv_validation review)"
    "c_capturedContextEpoch (i_context input) = c_capturedContextEpoch (i_context (rv_validation review))"
    "c_currentContextEpoch (i_context input) = cur_epoch present"
    "currentBinding review input = currentBinding review (rv_validation review)"
    "refreshable (v_intent (rv_validated review))"
  using assms unfolding refreshReviewedOrder_def Let_def
  by (auto simp: result_simps currentBinding_def split: list.splits)

lemma refreshed_account_version:
  assumes "refreshedAccount client dateNow review market = Inr account"
    and "loadAccountSnapshot client (bindingTarget (rv_binding review)) market dateNow = Inr snapshot"
    and "intent_side (v_intent (rv_validated review)) \<noteq> None"
  shows "a_version account = (if sameReviewedAccount review market snapshot
    then a_version (i_account (rv_validation review)) else changedVersion (a_version (i_account (rv_validation review))))"
  using assms by (cases "v_intent (rv_validated review)")
    (auto simp: refreshedAccount_def Let_def result_simps split: if_splits)

text \<open>The intent after a refresh: the reviewed one, at market with its price computed anew.\<close>

lemma refreshedOrderIntent_from:
  assumes "refreshedOrderIntent review (i_market input) = Inr intent"
    and "i_controls input = i_controls (rv_validation review)"
  shows "refreshed_from (v_intent (rv_validated review)) input intent"
  using assms by (auto simp: refreshedOrderIntent_def refreshed_from_def Let_def result_simps split: option.splits)

text \<open>
  C24. A review of an order, at market, with a limit, closing or protective, whose account has changed since, in
  leverage, margin mode or position, is refused: the refresh gives the account another version, and the
  confirmation compares the versions. A cancel is not among them: its refresh gives the reviewed version back.
\<close>

theorem changed_account_refuses_the_order:
  assumes "createActionReview caps ga binding epoch reviewedInput vault = Inr review"
    and "intent_side (v_intent (rv_validated review)) \<noteq> None"
    and "refreshReviewedOrder (oc_repo env) client dateNow now present review = Inr input"
    and "xr_catalog client (catalogScopeForReview review) = Inr catalog" "market \<in> set catalog"
      "bm_canonicalId (base market) = v_marketCanonicalId (rv_validated review)"
    and "loadAccountSnapshot client (bindingTarget (rv_binding review)) market dateNow = Inr snapshot"
    and "\<not> sameReviewedAccount review market snapshot"
  shows "\<not> succeeds (checkRefreshed env review input)"
proof
  assume "succeeds (checkRefreshed env review input)"
  then obtain refreshed where r: "checkRefreshed env review input = Inr refreshed" by (auto simp: succeeds_iff)
  obtain ga' caps' where v: "validateTradingAction caps' ga' input = Inr refreshed"
    and same: "v_accountStateVersion refreshed = v_accountStateVersion (rv_validated review)"
    using r by (auto simp: checkRefreshed_def Let_def result_simps)
  obtain reviewed where rv: "validateTradingAction caps ga reviewed = Inr (rv_validated review)"
      "i_account reviewed = i_account (rv_validation review)"
    using assms(1) by (auto simp: createActionReview_def result_simps Let_def reviewed_validation_def)
  have "market = m" if "filter (\<lambda>m. bm_canonicalId (base m) = v_marketCanonicalId (rv_validated review)) catalog = [m]" for m
  proof -
    have "market \<in> set (filter (\<lambda>m. bm_canonicalId (base m) = v_marketCanonicalId (rv_validated review)) catalog)"
      using assms(5,6) by simp
    then show ?thesis unfolding that by simp
  qed
  then have "refreshedAccount client dateNow review market = Inr (i_account input)"
    using assms(4) by (metis refreshReviewedOrder_Inr [OF assms(3)] Inr_inject)
  from refreshed_account_version [OF this assms(7,2)] assms(8)
  have "a_version (i_account input) = changedVersion (a_version (i_account (rv_validation review)))" by simp
  then show False
    using validated_version [OF v] validated_version [OF rv(1)] rv(2) same changedVersion_changes by metis
qed

end
