(* ===== verification/Orchestrator_Laws.thy ===== *)
theory Orchestrator_Laws
  imports Orchestrator Repository_Runs
begin

text \<open>
  What a confirmation does to the journal and to the flow on the screen, whatever answers it gets and
  whatever happens while it waits. Its steps are followed with pre- and postconditions, for a
  return and for an exception.
\<close>

section \<open>Conditions on steps\<close>

definition triple ::
    "(run \<Rightarrow> bool) \<Rightarrow> 'a step \<Rightarrow> ('a \<Rightarrow> run \<Rightarrow> bool) \<Rightarrow> (run \<Rightarrow> bool) \<Rightarrow> bool" where
  "triple P m Q E \<longleftrightarrow> (\<forall>s. P s \<longrightarrow> (case m s of (Inl e, t) \<Rightarrow> E t | (Inr x, t) \<Rightarrow> Q x t))"

lemma triple_andThen:
  "triple P m Q E \<Longrightarrow> (\<And>x. triple (Q x) (f x) R E) \<Longrightarrow> triple P (andThen m f) R E"
  by (fastforce simp: triple_def andThen_def split: prod.splits sum.splits)

lemma triple_pre: "triple P' m Q E \<Longrightarrow> (\<And>s. P s \<Longrightarrow> P' s) \<Longrightarrow> triple P m Q E"
  by (simp add: triple_def)

lemma triple_post:
  "triple P m Q' E \<Longrightarrow> (\<And>x s. Q' x s \<Longrightarrow> Q x s) \<Longrightarrow> triple P m Q E"
  unfolding triple_def by (fastforce split: prod.splits sum.splits)

lemma triple_lifted: "(\<And>s. P s \<Longrightarrow> E s) \<Longrightarrow> triple P (lifted r) (\<lambda>x s. P s \<and> r = Inr x) E"
  by (auto simp: triple_def lifted_def split: sum.splits)

lemma triple_return: "(\<And>s. P s \<Longrightarrow> Q x s) \<Longrightarrow> triple P (lifted (Inr x)) Q E"
  by (simp add: triple_def lifted_def)

lemma triple_dispatch:
  "(\<And>s. P s \<Longrightarrow> Q () (s\<lparr>rn_flow := reduceActionFlow (rn_flow s) a\<rparr>)) \<Longrightarrow> triple P (dispatch a) Q E"
  by (simp add: triple_def dispatch_def)

lemma triple_readFlow: "(\<And>s. P s \<Longrightarrow> Q (rn_flow s) s) \<Longrightarrow> triple P readFlow Q E"
  by (simp add: triple_def readFlow_def)

lemma triple_onRepo:
  assumes "\<And>s x repo. P s \<Longrightarrow> operation (rn_repo s) = (Inr x, repo) \<Longrightarrow> Q x (s\<lparr>rn_repo := repo\<rparr>)"
    and "\<And>s e repo. P s \<Longrightarrow> operation (rn_repo s) = (Inl e, repo) \<Longrightarrow> E (s\<lparr>rn_repo := repo\<rparr>)"
  shows "triple P (onRepo operation) Q E"
  using assms by (auto simp: triple_def onRepo_def split: prod.splits sum.splits)

section \<open>The stages of a confirmation\<close>

text \<open>
  Other work is lawful for the confirmation of generation \<open>g\<close>: the calls it makes to the repository
  are, it does not submit the action of this confirmation, which is known by its fresh journal ID, and it takes the
  flow away from this confirmation only by beginning a later generation. Other confirmations may run all
  the while, and reserve, submit and settle actions of their own.
\<close>

definition lawful_meanwhile :: "confirm_env \<Rightarrow> nat \<Rightarrow> bool" where
  "lawful_meanwhile env g \<longleftrightarrow> (\<forall>p flow repo flow' repo'.
     oc_meanwhile env p (flow, repo) = (flow', repo') \<longrightarrow> db_ok (database repo) \<longrightarrow>
       lawful (database repo) (database repo') \<and>
       (\<forall>r r'. row_of (database repo) (oc_newJournalId env) = Some r \<longrightarrow>
          row_of (database repo') (oc_newJournalId env) = Some r' \<longrightarrow>
          not_submitted (r_state r) \<longrightarrow> not_submitted (r_state r')) \<and>
       (g \<le> generation flow \<longrightarrow> flow' = flow \<or> g < generation flow'))"

abbreviation run_db :: "run \<Rightarrow> journal_db" where
  "run_db s \<equiv> database (rn_repo s)"

definition at_phase :: "nat \<Rightarrow> ActionFlowPhase \<Rightarrow> run \<Rightarrow> bool" where
  "at_phase g p s \<longleftrightarrow> g < generation (rn_flow s) \<or> generation (rn_flow s) = g \<and> phase (rn_flow s) = p"

definition row_is :: "(journal_state \<Rightarrow> bool) \<Rightarrow> string \<Rightarrow> run \<Rightarrow> bool" where
  "row_is P i s \<longleftrightarrow> (\<exists>r. row_of (run_db s) i = Some r \<and> P (r_state r))"

definition early :: "nat \<Rightarrow> ActionFlowPhase \<Rightarrow> run \<Rightarrow> bool" where
  "early g p s \<longleftrightarrow> db_ok (run_db s) \<and> at_phase g p s \<and> rn_journalId s = None \<and> rn_sent s = []"

definition reserved :: "nat \<Rightarrow> ActionFlowPhase \<Rightarrow> string \<Rightarrow> run \<Rightarrow> bool" where
  "reserved g p i s \<longleftrightarrow> db_ok (run_db s) \<and> at_phase g p s \<and> rn_journalId s = Some i \<and> rn_sent s = [] \<and>
     row_is not_submitted i s"

definition submitted :: "nat \<Rightarrow> ActionFlowPhase \<Rightarrow> string \<Rightarrow> run \<Rightarrow> bool" where
  "submitted g p i s \<longleftrightarrow> db_ok (run_db s) \<and> at_phase g p s \<and> rn_journalId s = Some i \<and>
     row_is (\<lambda>st. \<not> not_submitted st) i s"

text \<open>Where an exception may leave a confirmation.\<close>

definition interrupted :: "string \<Rightarrow> nat \<Rightarrow> run \<Rightarrow> bool" where
  "interrupted own g s \<longleftrightarrow>
     (\<exists>p. p \<in> {Refreshing, Unlocking, Reserving} \<and> early g p s) \<or>
     (\<exists>p. p \<in> {Reserving, SigningPhase, SubmissionStart} \<and> reserved g p own s) \<or>
     (\<exists>i. submitted g Submitting i s)"

text \<open>
  The end of a confirmation: another generation has begun, or the screen shows what the journal says, or what the
  reconciliation port has answered. While the port is asked, the action may be settled by others, so that it is
  still shown to be reconciled is exact only without a port.
\<close>

definition port_answer :: "confirm_env \<Rightarrow> ActionFlowPhase option" where
  "port_answer env = (case oc_reconciled env of Some (Inr (Some p)) \<Rightarrow> Some (reconciled_phase p) | _ \<Rightarrow> None)"

definition shown_phase :: "bool \<Rightarrow> ActionFlowPhase option \<Rightarrow> ActionFlowPhase \<Rightarrow> journal_state \<Rightarrow> bool" where
  "shown_phase exact answer p st \<longleftrightarrow>
     \<not> not_submitted st \<and>
     (p = Reconciling \<and> (exact \<longrightarrow> reconcilable st) \<or> durable_phase st = Some p \<or> answer = Some p)"

definition settled :: "string \<Rightarrow> bool \<Rightarrow> ActionFlowPhase option \<Rightarrow> nat \<Rightarrow> run \<Rightarrow> bool" where
  "settled own exact answer g s \<longleftrightarrow> db_ok (run_db s) \<and>
     (rn_sent s = [] \<or> (\<exists>i. rn_journalId s = Some i \<and> row_is (\<lambda>st. \<not> not_submitted st) i s)) \<and>
     (g < generation (rn_flow s) \<or>
      generation (rn_flow s) = g \<and> phase (rn_flow s) = FailedBeforeSubmission \<and> rn_sent s = [] \<and>
        (\<forall>i. rn_journalId s = Some i \<longrightarrow> i = own \<and> row_is not_submitted i s) \<or>
      generation (rn_flow s) = g \<and>
        (\<exists>i. rn_journalId s = Some i \<and> row_is (shown_phase exact answer (phase (rn_flow s))) i s))"

lemma row_is_repo [simp]: "row_is P i (s\<lparr>rn_flow := f\<rparr>) = row_is P i s"
  "row_is P i (s\<lparr>rn_sent := x\<rparr>) = row_is P i s" "row_is P i (s\<lparr>rn_journalId := j\<rparr>) = row_is P i s"
  by (simp_all add: row_is_def)

lemma at_phase_simps [simp]:
  "at_phase g p (s\<lparr>rn_repo := r\<rparr>) = at_phase g p s" "at_phase g p (s\<lparr>rn_sent := x\<rparr>) = at_phase g p s"
  "at_phase g p (s\<lparr>rn_journalId := j\<rparr>) = at_phase g p s"
  by (simp_all add: at_phase_def)

lemma at_phase_advance:
  "at_phase g p s \<Longrightarrow> NEXT_PHASE p = Some q \<Longrightarrow>
     at_phase g q (s\<lparr>rn_flow := reduceActionFlow (rn_flow s) (ADVANCE g q j)\<rparr>)"
  by (auto simp: at_phase_def isCurrent_def)

section \<open>The calls of the repository\<close>

lemma transitionAction_Inr_row:
  assumes "transitionAction e i s c t repo = (Inr r, repo')"
  shows "row_of (database repo') i = Some r" "r_state r = s"
  using assms
  by (auto simp: transitionAction_def immediate_Inr result_simps split: sum.splits prod.splits elim!: moveAction_Inr)

lemma transitionAction_Inl_same:
  "transitionAction e i s c t repo = (Inl err, repo') \<Longrightarrow> database repo' = database repo"
  by (auto simp: transitionAction_def split: sum.splits prod.splits dest: immediate_Inl)

lemma markSubmissionStarted_Inr_row:
  assumes "markSubmissionStarted e i t repo = (Inr (r, permit), repo')"
  shows "row_of (database repo') i = Some r" "r_state r = SubmissionStarted" "permit = createTransportWritePermit i"
  using assms
  by (auto simp: markSubmissionStarted_def Let_def immediate_Inr split: sum.splits prod.splits option.splits
      elim!: startSubmission_Inr)

lemma markSubmissionStarted_Inl_same:
  "markSubmissionStarted e i t repo = (Inl err, repo') \<Longrightarrow> database repo' = database repo"
  by (auto simp: markSubmissionStarted_def Let_def split: sum.splits prod.splits option.splits if_splits
      dest: immediate_Inl)

lemma reservePreparedAction_Inr_row:
  assumes "reservePreparedAction env e inp repo = (Inr r, repo')" "db_ok (database repo)"
  shows "row_of (database repo') (r_journalId r) = Some r" "r_state r = Prepared"
    "r_journalId r = pa_journalId (ri_preparedAction inp)"
proof -
  from assms(1) obtain b epoch d where
    d: "reserve env b epoch (ri_clock inp) (ri_preparedAction inp) (database repo) = Inr (r, d)" "database repo' = d"
    by (auto simp: reservePreparedAction_def immediate_Inr split: sum.splits prod.splits)
  note row = reserve_row [OF assms(2) d(1)]
  show "r_state r = Prepared" "r_journalId r = pa_journalId (ri_preparedAction inp)" using row by blast+
  have "row_of d (r_journalId r) = Some r"
    using row by (auto simp: row_of_def find_append)
  then show "row_of (database repo') (r_journalId r) = Some r" by (simp add: d(2))
qed

lemma reservePreparedAction_Inl_same:
  "reservePreparedAction env e inp repo = (Inl err, repo') \<Longrightarrow> database repo' = database repo"
  by (auto simp: reservePreparedAction_def split: sum.splits prod.splits dest: immediate_Inl)

lemma submitted_step: "journal_step a b \<Longrightarrow> \<not> not_submitted a \<Longrightarrow> \<not> not_submitted b"
  by (cases a) (auto simp: journal_step_iff result_simps not_submitted_def)

lemma submitted_steps: "journal_step\<^sup>*\<^sup>* a b \<Longrightarrow> \<not> not_submitted a \<Longrightarrow> \<not> not_submitted b"
  by (induction rule: rtranclp_induct) (use submitted_step in blast)+

lemma lawful_submitted:
  assumes "lawful (run_db s) (run_db t)" "row_is (\<lambda>st. \<not> not_submitted st) i s"
  shows "row_is (\<lambda>st. \<not> not_submitted st) i t"
proof -
  from assms(2) obtain r where r: "row_of (run_db s) i = Some r" "\<not> not_submitted (r_state r)"
    by (auto simp: row_is_def)
  then obtain r' where "row_of (run_db t) i = Some r'" "evolved r r'"
    using assms(1) by (auto simp: lawful_def evolves_def)
  then show ?thesis using r(2) submitted_steps by (auto simp: row_is_def evolved_def)
qed

lemma db_ok_row:
  assumes "db_ok d" "row_of d i = Some r"
  shows "getAction i d = Inr (Some r)" "r_journalId r = i"
proof -
  have "valid_row r" using assms row_of_SomeD by (auto simp: db_ok_def journal_ok_def)
  then show "getAction i d = Inr (Some r)" using assms(2) by (simp add: getAction_def row_of_def valid_row_def)
  show "r_journalId r = i" using row_of_SomeD [OF assms(2)] by simp
qed

section \<open>Steps and stages\<close>

lemma interrupted_early: "early g p s \<Longrightarrow> p \<in> {Refreshing, Unlocking, Reserving} \<Longrightarrow> interrupted own g s"
  unfolding interrupted_def by blast

lemma interrupted_reserved:
  "reserved g p own s \<Longrightarrow> p \<in> {Reserving, SigningPhase, SubmissionStart} \<Longrightarrow> interrupted own g s"
  unfolding interrupted_def by blast

lemma interrupted_submitted: "submitted g Submitting i s \<Longrightarrow> interrupted own g s"
  unfolding interrupted_def by blast

lemmas interruptedI = interrupted_early interrupted_reserved interrupted_submitted

lemma await_at:
  assumes "lawful_meanwhile env g" "await env k s = (x, t)" "db_ok (run_db s)"
  shows "x = Inr ()" "lawful (run_db s) (run_db t)" "at_phase g p s \<Longrightarrow> at_phase g p t"
    "rn_journalId t = rn_journalId s" "rn_sent t = rn_sent s"
    "row_is not_submitted (oc_newJournalId env) s \<Longrightarrow> row_is not_submitted (oc_newJournalId env) t"
    "g < generation (rn_flow s) \<Longrightarrow> g < generation (rn_flow t)"
proof -
  obtain flow repo where w: "oc_meanwhile env k (rn_flow s, rn_repo s) = (flow, repo)" by fastforce
  with assms(2) have t: "x = Inr ()" "t = s\<lparr>rn_flow := flow, rn_repo := repo\<rparr>"
    by (simp_all add: await_def)
  from assms(1) w assms(3) have l: "lawful (run_db s) (database repo)"
    and n: "\<And>r r'. row_of (run_db s) (oc_newJournalId env) = Some r \<Longrightarrow>
      row_of (database repo) (oc_newJournalId env) = Some r' \<Longrightarrow> not_submitted (r_state r) \<Longrightarrow> not_submitted (r_state r')"
    and f: "g \<le> generation (rn_flow s) \<Longrightarrow> flow = rn_flow s \<or> g < generation flow"
    unfolding lawful_meanwhile_def by blast+
  show "x = Inr ()" "lawful (run_db s) (run_db t)" "rn_journalId t = rn_journalId s" "rn_sent t = rn_sent s"
    using t l by simp_all
  show "at_phase g p t" if "at_phase g p s" using that f by (auto simp: t at_phase_def)
  show "g < generation (rn_flow t)" if "g < generation (rn_flow s)" using that f by (auto simp: t)
  show "row_is not_submitted (oc_newJournalId env) t" if "row_is not_submitted (oc_newJournalId env) s"
  proof -
    from that obtain r where r: "row_of (run_db s) (oc_newJournalId env) = Some r" "not_submitted (r_state r)"
      by (auto simp: row_is_def)
    then obtain r' where "row_of (database repo) (oc_newJournalId env) = Some r'" using l by (auto simp: lawful_def evolves_def)
    then show ?thesis using n [OF r(1) _ r(2)] by (auto simp: row_is_def t)
  qed
qed

lemma triple_awaitI:
  assumes "\<And>s t. P s \<Longrightarrow> await env k s = (Inr (), t) \<Longrightarrow> Q t"
  shows "triple P (await env k) (\<lambda>_. Q) E"
  using assms by (auto simp: triple_def await_def split: prod.splits)

lemma triple_await:
  assumes env: "lawful_meanwhile env g"
  shows "triple (early g p) (await env k) (\<lambda>_. early g p) E"
    "triple (reserved g p (oc_newJournalId env)) (await env k) (\<lambda>_. reserved g p (oc_newJournalId env)) E"
    "triple (submitted g p i) (await env k) (\<lambda>_. submitted g p i) E"
proof (rule_tac [!] triple_awaitI)
  fix s t assume w: "await env k s = (Inr (), t)"
  { assume s: "early g p s"
    then have "db_ok (run_db s)" by (simp add: early_def)
    with s await_at [OF env w] show "early g p t" by (simp add: early_def lawful_def) }
  { assume s: "reserved g p (oc_newJournalId env) s"
    then have "db_ok (run_db s)" by (simp add: reserved_def)
    with s await_at [OF env w] show "reserved g p (oc_newJournalId env) t" by (simp add: reserved_def lawful_def) }
  { assume s: "submitted g p i s"
    then have ok: "db_ok (run_db s)" by (simp add: submitted_def)
    with s await_at [OF env w ok] lawful_submitted [of s t i] show "submitted g p i t"
      by (simp add: submitted_def lawful_def) }
qed

lemma triple_advance:
  assumes "NEXT_PHASE p = Some q"
  shows "triple (early g p) (advance g q j) (\<lambda>_. early g q) E"
    "triple (reserved g p i) (advance g q j) (\<lambda>_. reserved g q i) E"
    "triple (submitted g p i) (advance g q j) (\<lambda>_. submitted g q i) E"
  unfolding advance_def
  by (rule triple_dispatch, simp del: reduceActionFlow.simps
        add: early_def reserved_def submitted_def at_phase_advance [OF _ assms])+

lemma triple_lifted_drop: "(\<And>s. P s \<Longrightarrow> E s) \<Longrightarrow> triple P (lifted r) (\<lambda>x. P) E"
  by (auto simp: triple_def lifted_def split: sum.splits)

lemma triple_reserve:
  "triple (early g Reserving) (onRepo (reservePreparedAction env e inp))
     (\<lambda>r s. early g Reserving s \<and> row_is not_submitted (r_journalId r) s \<and> r_journalId r = pa_journalId (ri_preparedAction inp))
     (interrupted own g)"
proof (rule triple_onRepo)
  fix s x repo assume s: "early g Reserving s" and r: "reservePreparedAction env e inp (rn_repo s) = (Inr x, repo)"
  then have ok: "db_ok (run_db s)" by (simp add: early_def)
  have "db_ok (database repo)" using reservePreparedAction_lawful [OF r ok] by (simp add: lawful_def)
  with s reservePreparedAction_Inr_row [OF r ok]
  show "early g Reserving (s\<lparr>rn_repo := repo\<rparr>) \<and> row_is not_submitted (r_journalId x) (s\<lparr>rn_repo := repo\<rparr>) \<and>
      r_journalId x = pa_journalId (ri_preparedAction inp)"
    by (simp add: early_def row_is_def not_submitted_def)
next
  fix s err repo assume s: "early g Reserving s" and r: "reservePreparedAction env e inp (rn_repo s) = (Inl err, repo)"
  then have "early g Reserving (s\<lparr>rn_repo := repo\<rparr>)"
    using reservePreparedAction_Inl_same [OF r] by (simp add: early_def)
  then show "interrupted own g (s\<lparr>rn_repo := repo\<rparr>)" by (rule interruptedI) simp
qed

lemma triple_markStarted:
  "triple (reserved g SubmissionStart own) (onRepo (markSubmissionStarted e own t))
     (\<lambda>_. submitted g SubmissionStart own) (interrupted own g)"
proof (rule triple_onRepo)
  fix s x repo assume s: "reserved g SubmissionStart own s" and r: "markSubmissionStarted e own t (rn_repo s) = (Inr x, repo)"
  then have ok: "db_ok (run_db s)" by (simp add: reserved_def)
  obtain q permit where x: "x = (q, permit)" by fastforce
  have "db_ok (database repo)" using markSubmissionStarted_lawful [OF r ok] by (simp add: lawful_def)
  with s markSubmissionStarted_Inr_row [OF r [unfolded x]]
  show "submitted g SubmissionStart own (s\<lparr>rn_repo := repo\<rparr>)"
    by (simp add: reserved_def submitted_def row_is_def not_submitted_def)
next
  fix s err repo assume s: "reserved g SubmissionStart own s" and r: "markSubmissionStarted e own t (rn_repo s) = (Inl err, repo)"
  then have "reserved g SubmissionStart own (s\<lparr>rn_repo := repo\<rparr>)"
    using markSubmissionStarted_Inl_same [OF r] by (simp add: reserved_def row_is_def)
  then show "interrupted own g (s\<lparr>rn_repo := repo\<rparr>)" by (rule interruptedI) simp
qed

lemma triple_send:
  assumes "lawful_meanwhile env g"
  shows "triple (submitted g Submitting i) (send env permit request) (\<lambda>_. submitted g Submitting i) (interrupted own g)"
proof -
  have wait: "triple (submitted g Submitting i) (andThen (await env Submits) (\<lambda>_. lifted answer)) (\<lambda>_. submitted g Submitting i)
      (interrupted own g)" for answer :: "ExchangeSubmissionResult result"
    by (rule triple_andThen [OF triple_await(3) [OF assms]]) (rule triple_lifted_drop, rule interruptedI)
  have after: "case r of Inl e \<Rightarrow> interrupted own g t | Inr _ \<Rightarrow> submitted g Submitting i t"
    if "submitted g Submitting i s"
      "andThen (await env Submits) (\<lambda>_. lifted answer) (s\<lparr>rn_sent := x\<rparr>) = (r, t)"
    for answer :: "ExchangeSubmissionResult result" and s x r t
  proof -
    have "submitted g Submitting i (s\<lparr>rn_sent := x\<rparr>)" using that(1) by (simp add: submitted_def)
    from wait [of answer, unfolded triple_def, rule_format, OF this] that(2) show ?thesis by simp
  qed
  show ?thesis
    unfolding triple_def
  proof (intro allI impI)
    fix s assume s: "submitted g Submitting i s"
    show "case send env permit request s of
        (Inl e, t) \<Rightarrow> interrupted own g t | (Inr x, t) \<Rightarrow> submitted g Submitting i t"
      using interruptedI(3) [OF s] by (auto simp: send_def split: sum.splits prod.splits dest: after [OF s])
  qed
qed

section \<open>Ends\<close>

abbreviation sent_is_recorded :: "run \<Rightarrow> bool" where
  "sent_is_recorded s \<equiv> rn_sent s = [] \<or> (\<exists>i. rn_journalId s = Some i \<and> row_is (\<lambda>st. \<not> not_submitted st) i s)"

lemma settled_weaken: "settled own True None g s \<Longrightarrow> settled own exact answer g s"
  by (auto simp: settled_def shown_phase_def row_is_def)

lemma durable_stays: "journal_step\<^sup>*\<^sup>* a b \<Longrightarrow> durable_phase a = Some p \<Longrightarrow> b = a"
proof (induction rule: rtranclp_induct)
  case (step b c)
  then show ?case by (cases b) (auto simp: journal_step_iff result_simps)
qed simp

text \<open>What is shown stays true while others work, except that they may settle what is still to be reconciled.\<close>

lemma lawful_shown:
  assumes "lawful (run_db s) (run_db t)" "row_is (shown_phase False answer p) i s"
  shows "row_is (shown_phase False answer p) i t"
proof -
  from assms(2) obtain r where r: "row_of (run_db s) i = Some r" "shown_phase False answer p (r_state r)"
    by (auto simp: row_is_def)
  then obtain r' where r': "row_of (run_db t) i = Some r'" "journal_step\<^sup>*\<^sup>* (r_state r) (r_state r')"
    using assms(1) by (auto simp: lawful_def evolves_def evolved_def)
  with r(2) submitted_steps durable_stays have "shown_phase False answer p (r_state r')"
    by (fastforce simp: shown_phase_def)
  with r'(1) show ?thesis by (auto simp: row_is_def)
qed

lemma settled_await:
  assumes "lawful_meanwhile env g" "await env k s = (x, t)" "settled (oc_newJournalId env) False answer g s"
  shows "settled (oc_newJournalId env) False answer g t"
proof -
  have ok: "db_ok (run_db s)" using assms(3) by (simp add: settled_def)
  note w = await_at [OF assms(1,2) ok]
  have ok': "db_ok (run_db t)" using w(2) by (simp add: lawful_def)
  have sent: "sent_is_recorded t"
    using assms(3) w(4,5) lawful_submitted [OF w(2)] by (auto simp: settled_def)
  have at: "at_phase g (phase (rn_flow s)) t" if "generation (rn_flow s) = g"
    by (rule w(3)) (use that in \<open>simp add: at_phase_def\<close>)
  from assms(3) consider "g < generation (rn_flow s)"
    | "generation (rn_flow s) = g" "phase (rn_flow s) = FailedBeforeSubmission" "rn_sent s = []"
      "\<forall>i. rn_journalId s = Some i \<longrightarrow> i = oc_newJournalId env \<and> row_is not_submitted i s"
    | i where "generation (rn_flow s) = g" "rn_journalId s = Some i"
      "row_is (shown_phase False answer (phase (rn_flow s))) i s"
    by (auto simp: settled_def)
  then show ?thesis
  proof cases
    case 1
    then show ?thesis using w(7) ok' sent by (simp add: settled_def)
  next
    case 2
    then show ?thesis using at ok' sent w(4-6) by (auto simp: settled_def at_phase_def)
  next
    case 3
    then show ?thesis using at ok' sent w(4) lawful_shown [OF w(2) 3(3)] by (auto simp: settled_def at_phase_def)
  qed
qed

lemma reconciled_phase_range:
  "reconciled_phase p \<in> {AcceptedPhase, RejectedPhase, ExpiredPhase, AmbiguousPhase}"
  by (cases p) simp_all

lemma durable_phase_range:
  "durable_phase st = Some p \<Longrightarrow> p \<in> {AcceptedPhase, RejectedPhase, ExpiredPhase, AmbiguousPhase}"
  by (cases st) auto

lemma settled_terminal:
  assumes "settled own False (Some p) g s" "p \<in> {AcceptedPhase, RejectedPhase, ExpiredPhase, AmbiguousPhase}"
  shows "settled own False (Some p) g (s\<lparr>rn_flow := reduceActionFlow (rn_flow s) (TERMINAL g j p m)\<rparr>)"
proof (cases "phase (rn_flow s) = Reconciling \<and> generation (rn_flow s) = g")
  case True
  then obtain i where "rn_journalId s = Some i" "row_is (shown_phase False (Some p) Reconciling) i s"
    using assms(1) by (auto simp: settled_def)
  then show ?thesis using True assms by (auto simp: settled_def isCurrent_def row_is_def shown_phase_def)
next
  case False
  have "reduceActionFlow (rn_flow s) (TERMINAL g j p m) = rn_flow s"
    using False assms by (auto simp: settled_def isCurrent_def row_is_def shown_phase_def dest: durable_phase_range)
  then show ?thesis using assms(1) by simp
qed

lemma triple_reconcileUnresolved:
  assumes env: "lawful_meanwhile env g" and own: "own = oc_newJournalId env"
  shows "triple (settled own True None g) (reconcileUnresolved env g j)
     (\<lambda>x s. x = rn_flow s \<and> settled own (oc_reconciled env = None) (port_answer env) g s) E"
proof (cases "oc_reconciled env")
  case None
  then show ?thesis by (simp add: reconcileUnresolved_def triple_readFlow port_answer_def)
next
  case (Some answer)
  have wait: "triple (settled own True None g) (await env Reconciles) (\<lambda>_. settled own False (port_answer env) g) E"
    by (rule triple_awaitI, unfold own) (use settled_await [OF env] settled_weaken in blast)
  have step: "triple (settled own False (port_answer env) g)
      (case answer of Inr (Some p) \<Rightarrow> dispatch (TERMINAL g j (reconciled_phase p) None) | _ \<Rightarrow> lifted (Inr ()))
      (\<lambda>_. settled own False (port_answer env) g) E"
    by (auto simp: port_answer_def Some simp del: reduceActionFlow.simps split: sum.splits option.splits
        intro!: triple_return triple_dispatch settled_terminal reconciled_phase_range)
  show ?thesis
    unfolding reconcileUnresolved_def Some
    by (simp, intro triple_andThen [OF wait] triple_andThen [OF step] triple_readFlow) simp
qed

lemma triple_transition:
  "triple (submitted g p i) (onRepo (transitionAction e i next c t))
     (\<lambda>r s. submitted g p i s \<and> row_is (\<lambda>st. st = next) i s) (submitted g p i)"
proof (rule triple_onRepo)
  fix s x repo assume s: "submitted g p i s" and r: "transitionAction e i next c t (rn_repo s) = (Inr x, repo)"
  then have l: "lawful (run_db s) (database repo)"
    using transitionAction_lawful [OF r] by (simp add: submitted_def)
  have "row_is (\<lambda>st. \<not> not_submitted st) i (s\<lparr>rn_repo := repo\<rparr>)"
    using lawful_submitted [of s "s\<lparr>rn_repo := repo\<rparr>" i] l s by (simp add: submitted_def)
  then show "submitted g p i (s\<lparr>rn_repo := repo\<rparr>) \<and> row_is (\<lambda>st. st = next) i (s\<lparr>rn_repo := repo\<rparr>)"
    using s l transitionAction_Inr_row [OF r] by (simp add: submitted_def lawful_def row_is_def)
next
  fix s err repo assume s: "submitted g p i s" and r: "transitionAction e i next c t (rn_repo s) = (Inl err, repo)"
  then show "submitted g p i (s\<lparr>rn_repo := repo\<rparr>)"
    using transitionAction_Inl_same [OF r] by (simp add: submitted_def row_is_def)
qed

lemma triple_exception: "triple P m Q E' \<Longrightarrow> (\<And>s. E' s \<Longrightarrow> E s) \<Longrightarrow> triple P m Q E"
  unfolding triple_def by (fastforce split: prod.splits sum.splits)

lemma settled_dispatch:
  assumes "submitted g Submitting i s" "row_is (\<lambda>st. st = next) i s"
  shows "durable_phase next = Some p \<Longrightarrow>
      settled own True None g (s\<lparr>rn_flow := reduceActionFlow (rn_flow s) (TERMINAL g i p m)\<rparr>)"
    "reconcilable next \<Longrightarrow>
      settled own True None g (s\<lparr>rn_flow := reduceActionFlow (rn_flow s) (UNRESOLVED g i)\<rparr>)"
proof -
  have n: "\<not> not_submitted next" using assms by (auto simp: submitted_def row_is_def)
  have p: "durable_phase next = Some p \<Longrightarrow> p \<in> {AcceptedPhase, RejectedPhase, ExpiredPhase, AmbiguousPhase}"
    by (cases "next") auto
  show "durable_phase next = Some p \<Longrightarrow>
      settled own True None g (s\<lparr>rn_flow := reduceActionFlow (rn_flow s) (TERMINAL g i p m)\<rparr>)"
    using assms n p by (auto simp: settled_def submitted_def at_phase_def isCurrent_def shown_phase_def row_is_def)
  show "reconcilable next \<Longrightarrow>
      settled own True None g (s\<lparr>rn_flow := reduceActionFlow (rn_flow s) (UNRESOLVED g i)\<rparr>)"
    using assms n by (auto simp: settled_def submitted_def at_phase_def isCurrent_def shown_phase_def row_is_def)
qed

lemma triple_recordTerminal:
  assumes "durable_phase next = Some p"
  shows "triple (submitted g Submitting i) (recordTerminal env g i next c p m)
     (\<lambda>x s. x = rn_flow s \<and> settled own True None g s) (interrupted own g)"
  unfolding recordTerminal_def
proof (rule triple_andThen [OF triple_exception [OF triple_transition interruptedI(3)]])
  fix r
  have "triple (\<lambda>s. submitted g Submitting i s \<and> row_is (\<lambda>st. st = next) i s) (dispatch (TERMINAL g i p m))
      (\<lambda>_. settled own True None g) (interrupted own g)"
    by (rule triple_dispatch) (use settled_dispatch(1) [OF _ _ assms] in blast)
  then show "triple (\<lambda>s. submitted g Submitting i s \<and> row_is (\<lambda>st. st = next) i s)
      (andThen (dispatch (TERMINAL g i p m)) (\<lambda>_. readFlow))
      (\<lambda>x s. x = rn_flow s \<and> settled own True None g s) (interrupted own g)"
    by (rule triple_andThen) (simp add: triple_readFlow)
qed

lemma triple_recordResult:
  assumes "lawful_meanwhile env g" "own = oc_newJournalId env"
  shows "triple (submitted g Submitting i) (recordResult env g i intent result)
     (\<lambda>x s. x = rn_flow s \<and> settled own (oc_reconciled env = None) (port_answer env) g s) (interrupted own g)"
proof -
  have weak: "triple P m (\<lambda>x s. x = rn_flow s \<and> settled own True None g s) E \<Longrightarrow>
      triple P m (\<lambda>x s. x = rn_flow s \<and> settled own exact answer g s) E" for P :: "run \<Rightarrow> bool" and m E exact answer
    by (auto elim!: triple_post dest: settled_weaken)
  have unresolved: "triple (submitted g Submitting i)
      (andThen (onRepo (transitionAction e i Unresolved c t)) (\<lambda>_.
       andThen (dispatch (UNRESOLVED g i)) (\<lambda>_. reconcileUnresolved env g i)))
      (\<lambda>x s. x = rn_flow s \<and> settled own (oc_reconciled env = None) (port_answer env) g s) (interrupted own g)" for e c t
  proof (rule triple_andThen [OF triple_exception [OF triple_transition interruptedI(3)]])
    have "triple (\<lambda>s. submitted g Submitting i s \<and> row_is (\<lambda>st. st = Unresolved) i s) (dispatch (UNRESOLVED g i))
        (\<lambda>_. settled own True None g) (interrupted own g)"
      by (rule triple_dispatch) (use settled_dispatch(2) [of g i _ Unresolved] in \<open>simp add: reconcilable_def\<close>)
    then show "triple (\<lambda>s. submitted g Submitting i s \<and> row_is (\<lambda>st. st = Unresolved) i s)
        (andThen (dispatch (UNRESOLVED g i)) (\<lambda>_. reconcileUnresolved env g i))
        (\<lambda>x s. x = rn_flow s \<and> settled own (oc_reconciled env = None) (port_answer env) g s) (interrupted own g)"
      by (rule triple_andThen) (rule triple_reconcileUnresolved [OF assms])
  qed
  show ?thesis
    unfolding recordResult_def
    by (cases result) (auto intro!: weak triple_recordTerminal unresolved)
qed

section \<open>Failures\<close>

lemma failed_settled:
  assumes "db_ok (run_db s)" "p \<in> {Refreshing, Unlocking, Reserving, SigningPhase, SubmissionStart}"
    "at_phase g p s" "rn_sent s = []" "\<And>i. rn_journalId s = Some i \<Longrightarrow> i = own \<and> row_is not_submitted i s"
  shows "case failBeforeSubmission g j error s of (Inl e, t) \<Rightarrow> False | (Inr x, t) \<Rightarrow> settled own True None g t"
  using assms
  by (auto simp: failBeforeSubmission_def andThen_def readFlow_def dispatch_def settled_def at_phase_def isCurrent_def)

lemma reflect_settled:
  assumes s: "submitted g Submitting i s" and r: "row_of (run_db s) i = Some r" "r_journalId r = i"
  shows "case reflectDurable g r s of (Inl e, t) \<Rightarrow> False | (Inr x, t) \<Rightarrow> settled own True None g t"
proof -
  have n: "\<not> not_submitted (r_state r)" using s r(1) by (auto simp: submitted_def row_is_def)
  have st: "row_is (\<lambda>st. st = r_state r) i s" using r(1) by (simp add: row_is_def)
  have stale: "reduceActionFlow (rn_flow s) (ADVANCE g Submitting j) = rn_flow s" for j
    using s by (auto simp: submitted_def at_phase_def isCurrent_def)
  have same: "snd (advance g Submitting j s) = s" "fst (advance g Submitting j s) = Inr ()" for j
    by (simp_all add: advance_def dispatch_def stale del: reduceActionFlow.simps)
  have "reflectDurable g r s =
      (if reconcilable (r_state r) then dispatch (UNRESOLVED g i) s
       else case durable_phase (r_state r) of
              Some p \<Rightarrow> dispatch (TERMINAL g i p None) s | None \<Rightarrow> lifted (Inr ()) s)"
    using same [of "Some i"] r(2)
    by (auto simp: reflectDurable_def andThen_def readFlow_def lifted_def reconcilable_def
        split: prod.splits sum.splits option.splits)
  moreover have "reconcilable (r_state r) \<or> (\<exists>p. durable_phase (r_state r) = Some p)"
    using n by (cases "r_state r") (auto simp: reconcilable_def not_submitted_def)
  ultimately show ?thesis
    using settled_dispatch [OF s st] by (auto simp: dispatch_def)
qed

lemma reconcileFailure_settled:
  assumes "interrupted own g s"
  shows "case reconcileFailure env g (rn_journalId s) error s of (Inl e, t) \<Rightarrow> False | (Inr x, t) \<Rightarrow> settled own True None g t"
proof -
  from assms consider p where "p \<in> {Refreshing, Unlocking, Reserving}" "early g p s"
    | p where "p \<in> {Reserving, SigningPhase, SubmissionStart}" "reserved g p own s"
    | i where "submitted g Submitting i s"
    by (auto simp: interrupted_def)
  then show ?thesis
  proof cases
    case 1
    then show ?thesis
      using failed_settled [of s p g own None error] by (auto simp: reconcileFailure_def early_def)
  next
    case 2
    then obtain r where j: "rn_journalId s = Some own" and ok: "db_ok (run_db s)"
      and r: "row_of (run_db s) own = Some r" "not_submitted (r_state r)"
      and at: "at_phase g p s" "rn_sent s = []"
      by (auto simp: reserved_def row_is_def)
    note g = db_ok_row [OF ok r(1)]
    have here: "case failBeforeSubmission g k error (s\<lparr>rn_repo := repo\<rparr>) of
        (Inl e, t) \<Rightarrow> False | (Inr x, t) \<Rightarrow> settled own True None g t"
      if "db_ok (database repo)" "row_of (database repo) own = Some q" "not_submitted (r_state q)" for k repo q
      by (rule failed_settled [where p = p]) (use that at j 2(1) in \<open>auto simp: row_is_def\<close>)
    show ?thesis
    proof (cases "r_state r = Prepared")
      case False
      then have "r_state r = AbandonedBeforeSubmission" using r(2) by (simp add: not_submitted_def)
      then show ?thesis
        using here [of "rn_repo s" r "Some own"] ok r g by (simp add: reconcileFailure_def j)
    next
      case True
      obtain res repo where m: "transitionAction (oc_failEngine env) own AbandonedBeforeSubmission None
          (oc_failNow env) (rn_repo s) = (res, repo)" by fastforce
      show ?thesis
      proof (cases res)
        case (Inl e)
        with m have "database repo = run_db s" using transitionAction_Inl_same by blast
        then show ?thesis
          using here [of repo r "Some own"] ok r g m True Inl by (simp add: reconcileFailure_def j onRepo_def Let_def)
      next
        case (Inr q)
        note q = transitionAction_Inr_row [OF m [unfolded Inr]]
        have "db_ok (database repo)" using transitionAction_lawful [OF m ok] by (simp add: lawful_def)
        then show ?thesis
          using here [of repo q "Some own"] q g m True Inr db_ok_row(2) [of "database repo" own q]
          by (simp add: reconcileFailure_def j onRepo_def not_submitted_def)
      qed
    qed
  next
    case 3
    then obtain r where j: "rn_journalId s = Some i" and ok: "db_ok (run_db s)"
      and r: "row_of (run_db s) i = Some r" "\<not> not_submitted (r_state r)"
      by (auto simp: submitted_def row_is_def)
    note g = db_ok_row [OF ok r(1)]
    show ?thesis
    proof (cases "r_state r = SubmissionStarted")
      case False
      then have "r_state r \<in> {Unresolved, Accepted, Rejected, Expired, ReconciledAmbiguous}"
        using r(2) by (cases "r_state r") (auto simp: not_submitted_def)
      then have "reconcileFailure env g (rn_journalId s) error s = reflectDurable g r s"
        using False g by (auto simp: reconcileFailure_def j)
      then show ?thesis using reflect_settled [OF 3 r(1) g(2)] by simp
    next
      case True
      obtain res repo where m: "transitionAction (oc_failEngine env) i Unresolved (Some UnresolvedResult)
          (oc_failNow env) (rn_repo s) = (res, repo)" by fastforce
      show ?thesis
      proof (cases res)
        case (Inl e)
        with m have same: "database repo = run_db s" using transitionAction_Inl_same by blast
        have "submitted g Submitting i (s\<lparr>rn_repo := repo\<rparr>)"
          using 3 same by (simp add: submitted_def row_is_def)
        from reflect_settled [OF this _ g(2)] show ?thesis
          using r(1) g m True Inl same by (simp add: reconcileFailure_def j andThen_def moveOrRead_def onRepo_def)
      next
        case (Inr q)
        note q = transitionAction_Inr_row [OF m [unfolded Inr]]
        have ok': "db_ok (database repo)" using transitionAction_lawful [OF m ok] by (simp add: lawful_def)
        have "submitted g Submitting i (s\<lparr>rn_repo := repo\<rparr>)"
          using 3 q ok' by (simp add: submitted_def row_is_def not_submitted_def)
        from reflect_settled [OF this _ db_ok_row(2) [OF ok' q(1)]] show ?thesis
          using g m True Inr q by (simp add: reconcileFailure_def j andThen_def moveOrRead_def onRepo_def)
      qed
    qed
  qed
qed

section \<open>The whole confirmation\<close>

text \<open>Steps that change nothing, at each stage.\<close>

lemma triple_pure:
  "p \<in> {Refreshing, Unlocking, Reserving} \<Longrightarrow>
     triple (early g p) (lifted r) (\<lambda>_. early g p) (interrupted own g)"
  "p \<in> {Reserving, SigningPhase, SubmissionStart} \<Longrightarrow>
     triple (reserved g p own) (lifted r) (\<lambda>_. reserved g p own) (interrupted own g)"
  by (rule triple_lifted_drop, rule interruptedI, assumption+)+

lemma triple_current:
  "p \<in> {Refreshing, Unlocking, Reserving} \<Longrightarrow>
     triple (early g p) (requireCurrent env c) (\<lambda>_. early g p) (interrupted own g)"
  "p \<in> {Reserving, SigningPhase, SubmissionStart} \<Longrightarrow>
     triple (reserved g p own) (requireCurrent env c) (\<lambda>_. reserved g p own) (interrupted own g)"
  unfolding requireCurrent_def by (rule triple_pure, assumption)+

lemma triple_case_prod: "(\<And>a b. triple (P (a, b)) (f a b) Q E) \<Longrightarrow> triple (P x) (case x of (a, b) \<Rightarrow> f a b) Q E"
  by (cases x) simp

lemma triple_signAndSubmit:
  assumes env: "lawful_meanwhile env g" and own: "own = oc_newJournalId env" "r_journalId prepared = own"
  shows "triple (reserved g Reserving own) (signAndSubmit env review g intent prepared)
     (\<lambda>x s. x = rn_flow s \<and> settled own (oc_reconciled env = None) (port_answer env) g s) (interrupted own g)"
  unfolding signAndSubmit_def Let_def own(2)
  by (rule triple_andThen [OF triple_current(2)], simp,
      rule triple_andThen [OF triple_advance(2)], simp,
      rule triple_andThen [OF triple_pure(2)], simp,
      rule triple_andThen [OF triple_pure(2)], simp,
      rule triple_andThen [OF triple_pure(2)], simp,
      rule triple_andThen [OF triple_await(2) [OF env, folded own(1)]],
      rule triple_andThen [OF triple_pure(2)], simp,
      rule triple_andThen [OF triple_current(2)], simp,
      rule triple_andThen [OF triple_advance(2)], simp,
      rule triple_andThen [OF triple_pure(2)], simp,
      rule triple_andThen [OF triple_markStarted], rule triple_case_prod,
      rule triple_andThen [OF triple_advance(3)], simp,
      rule triple_andThen [OF triple_send [OF env]],
      rule triple_recordResult [OF env own(1)])

lemma reservation_own:
  "reservationInput env review input refreshed = Inr r \<Longrightarrow> pa_journalId (ri_preparedAction r) = oc_newJournalId env"
  by (auto simp: reservationInput_def Let_def)

lemma triple_confirmBody:
  assumes env: "lawful_meanwhile env g" and own: "own = oc_newJournalId env"
  shows "triple (early g Refreshing) (confirmBody env review g)
     (\<lambda>x s. x = rn_flow s \<and> settled own (oc_reconciled env = None) (port_answer env) g s) (interrupted own g)"
proof -
  let ?Q = "\<lambda>x s. x = rn_flow s \<and> settled own (oc_reconciled env = None) (port_answer env) g s"
  have remember: "triple (\<lambda>s. early g Reserving s \<and> row_is not_submitted (r_journalId r) s \<and> r_journalId r = own)
      (andThen (\<lambda>s. (Inr (), s\<lparr>rn_journalId := Some (r_journalId r)\<rparr>)) (\<lambda>_. signAndSubmit env review g intent r))
      ?Q (interrupted own g)" for r intent
  proof (cases "r_journalId r = own")
    case True
    show ?thesis
    proof (rule triple_andThen [where Q = "\<lambda>_. reserved g Reserving own"])
      show "triple (\<lambda>s. early g Reserving s \<and> row_is not_submitted (r_journalId r) s \<and> r_journalId r = own)
          (\<lambda>s. (Inr (), s\<lparr>rn_journalId := Some (r_journalId r)\<rparr>)) (\<lambda>_. reserved g Reserving own) (interrupted own g)"
        by (auto simp: triple_def early_def reserved_def)
    qed (rule triple_signAndSubmit [OF env own True])
  qed (simp add: triple_def)
  have reserve: "triple (\<lambda>s. early g Reserving s \<and> reservationInput env review input refreshed = Inr reservation)
      (andThen (onRepo (reservePreparedAction (oc_repo env) (oc_reserveEngine env) reservation)) (\<lambda>prepared.
       andThen (\<lambda>s. (Inr (), s\<lparr>rn_journalId := Some (r_journalId prepared)\<rparr>)) (\<lambda>_.
       signAndSubmit env review g intent prepared))) ?Q (interrupted own g)" for input refreshed reservation intent
  proof (cases "reservationInput env review input refreshed = Inr reservation")
    case True
    have "triple (early g Reserving) (onRepo (reservePreparedAction (oc_repo env) (oc_reserveEngine env) reservation))
        (\<lambda>r s. early g Reserving s \<and> row_is not_submitted (r_journalId r) s \<and> r_journalId r = own) (interrupted own g)"
      by (rule triple_post [OF triple_reserve]) (auto simp: reservation_own [OF True] own)
    from triple_andThen [OF this remember] show ?thesis by (rule triple_pre) simp
  qed (simp add: triple_def)
  show ?thesis
    unfolding confirmBody_def
    by (rule triple_andThen [OF triple_current(1)], simp,
        rule triple_andThen [OF triple_await(1) [OF env]],
        rule triple_andThen [OF triple_pure(1)], simp,
        rule triple_andThen [OF triple_current(1)], simp,
        rule triple_andThen [OF triple_pure(1)], simp,
        rule triple_andThen [OF triple_advance(1)], simp,
        rule triple_andThen [OF triple_await(1) [OF env]],
        rule triple_andThen [OF triple_pure(1)], simp,
        rule triple_andThen [OF triple_current(1)], simp,
        rule triple_andThen [OF triple_advance(1)], simp,
        rule triple_andThen [OF triple_lifted], rule interruptedI(1), assumption, simp,
        rule reserve)
qed

lemma catchFailure_settled:
  assumes "lawful_meanwhile env g" "interrupted own g s" "own = oc_newJournalId env"
  shows "case catchFailure env g error s of
      (Inl e, t) \<Rightarrow> False | (Inr x, t) \<Rightarrow> x = rn_flow t \<and> settled own (oc_reconciled env = None) (port_answer env) g t"
proof -
  obtain r t where f: "reconcileFailure env g (rn_journalId s) error s = (r, t)" by fastforce
  with reconcileFailure_settled [OF assms(2), of env error] have r: "r = Inr ()" and t: "settled own True None g t"
    by (auto split: sum.splits)
  have weak: "settled own (oc_reconciled env = None) (port_answer env) g t" using t by (rule settled_weaken)
  have rec: "case reconcileUnresolved env g j t of
      (Inl e, u) \<Rightarrow> False | (Inr x, u) \<Rightarrow> x = rn_flow u \<and> settled own (oc_reconciled env = None) (port_answer env) g u" for j
    using triple_reconcileUnresolved [OF assms(1,3), of j "\<lambda>_. False"] t by (simp add: triple_def)
  have c: "catchFailure env g error s =
      (case (phase (rn_flow t), flow_journalId (rn_flow t)) of
         (Reconciling, Some j) \<Rightarrow> reconcileUnresolved env g j t | _ \<Rightarrow> (Inr (rn_flow t), t))"
    using f r by (auto simp: catchFailure_def andThen_def readFlow_def lifted_def
        split: ActionFlowPhase.splits option.splits)
  show ?thesis unfolding c using rec weak by (auto split: ActionFlowPhase.splits option.splits)
qed

text \<open>
  C3. Whatever the session, the exchange and the database answer, a confirmation returns, while other work
  goes on that is lawful for it: other calls of the repository, other confirmations included, as long as none of
  them submits the action that this confirmation has reserved, and resets of the flow. Whatever it sent belongs to a row
  of the journal whose submission has begun. Unless another flow has been started meanwhile, the screen then
  agrees with the journal: it says that the action failed before submission only when nothing was sent and
  the journal has no submission of it. Otherwise the journal has a submission, and the screen shows the outcome the journal
  records, or what the reconciliation port has answered, or that the action is being reconciled, which without a port
  is what the journal records, too.
\<close>

theorem confirmation_agrees_with_journal:
  assumes "lawful_meanwhile env (generation flow + 1)" "db_ok (database repo)"
    and "assertTradingActionCapability (env_caps (oc_repo env)) (sb_network (rv_binding review)) = Inr ()"
    and "assertTradingActionCapability (env_caps (oc_repo env)) (c_network (i_context (rv_validation review))) = Inr ()"
    and "phase flow = Review \<or> phase flow = FailedBeforeSubmission"
    and "confirm env review (flow, repo) = (out, t)"
  shows "out = Inr (rn_flow t) \<and> db_ok (run_db t) \<and>
    (rn_sent t = [] \<or>
     (\<exists>i r. rn_journalId t = Some i \<and> row_of (run_db t) i = Some r \<and> r_state r \<notin> {Prepared, AbandonedBeforeSubmission})) \<and>
    (generation flow + 1 < generation (rn_flow t) \<or>
     phase (rn_flow t) = FailedBeforeSubmission \<and> rn_sent t = [] \<and>
       (case rn_journalId t of None \<Rightarrow> True
        | Some i \<Rightarrow> \<exists>r. row_of (run_db t) i = Some r \<and> r_state r \<in> {Prepared, AbandonedBeforeSubmission}) \<or>
     (\<exists>i r. rn_journalId t = Some i \<and> row_of (run_db t) i = Some r \<and>
        r_state r \<notin> {Prepared, AbandonedBeforeSubmission} \<and>
        (durable_phase (r_state r) = Some (phase (rn_flow t)) \<or>
         (\<exists>p. oc_reconciled env = Some (Inr (Some p)) \<and> phase (rn_flow t) = reconciled_phase p) \<or>
         phase (rn_flow t) = Reconciling \<and>
           (oc_reconciled env = None \<longrightarrow> r_state r \<in> {SubmissionStarted, Unresolved}))))"
proof -
  define s where "s = \<lparr>rn_flow = reduceActionFlow flow CONFIRM, rn_repo = repo, rn_journalId = None, rn_sent = []\<rparr>"
  define own where "own = oc_newJournalId env"
  let ?g = "generation (rn_flow s)"
  have g: "?g = generation flow + 1" and early: "early ?g Refreshing s"
    using assms(2,5) by (auto simp: s_def early_def at_phase_def)
  note env = assms(1) [folded g]
  have "confirm env review (flow, repo) =
      (case confirmBody env review ?g s of (Inr state, t) \<Rightarrow> (Inr state, t) | (Inl e, t) \<Rightarrow> catchFailure env ?g e t)"
    using assms(3-5) unfolding confirm_def
    by (auto simp: bindE_throw_if dispatch_def Let_def simp del: reduceActionFlow.simps simp flip: s_def)
  moreover obtain b u where b: "confirmBody env review ?g s = (b, u)" by fastforce
  ultimately have out: "(out, t) = (case b of Inr state \<Rightarrow> (Inr state, u) | Inl e \<Rightarrow> catchFailure env ?g e u)"
    using assms(6) by (simp split: sum.splits)
  have body: "case b of Inl e \<Rightarrow> interrupted own ?g u
      | Inr x \<Rightarrow> x = rn_flow u \<and> settled own (oc_reconciled env = None) (port_answer env) ?g u"
    using triple_confirmBody [OF env own_def, of review] early b by (auto simp: triple_def)
  have "out = Inr (rn_flow t) \<and> settled own (oc_reconciled env = None) (port_answer env) ?g t"
  proof (cases b)
    case (Inl e)
    then have "interrupted own ?g u" "(out, t) = catchFailure env ?g e u" using body out by simp_all
    then show ?thesis using catchFailure_settled [OF env _ own_def, of u e] by (cases out) (auto split: prod.splits)
  next
    case (Inr x)
    then show ?thesis using body out by simp
  qed
  moreover have "port_answer env = Some p \<Longrightarrow> \<exists>q. oc_reconciled env = Some (Inr (Some q)) \<and> p = reconciled_phase q" for p
    by (auto simp: port_answer_def split: option.splits sum.splits)
  ultimately show ?thesis unfolding g
    by (auto simp: settled_def shown_phase_def row_is_def reconcilable_def not_submitted_def split: option.splits if_splits)
qed

end
