(* ===== verification/Orchestrator_Safety.thy ===== *)
theory Orchestrator_Safety
  imports Orchestrator_Laws Review_Laws
begin

text \<open>
  What a confirmation sends: nothing, or the one request that was built and signed for the action
  that was reviewed, after every check of theory \<open>Orchestrator\<close> passed.
\<close>

section \<open>Steps that send nothing\<close>

definition keeps :: "'a step \<Rightarrow> bool" where
  "keeps m \<longleftrightarrow> (\<forall>s. rn_sent (snd (m s)) = rn_sent s \<and> rn_journalId (snd (m s)) = rn_journalId s)"

lemma keepsD: "keeps m \<Longrightarrow> m s = (r, t) \<Longrightarrow> rn_sent t = rn_sent s \<and> rn_journalId t = rn_journalId s"
  by (metis keeps_def snd_conv)

lemma keeps_andThen: "keeps m \<Longrightarrow> (\<And>x. keeps (f x)) \<Longrightarrow> keeps (andThen m f)"
  by (auto simp: keeps_def andThen_def split: prod.splits sum.splits) (metis snd_conv)+

lemma keeps_steps [simp]:
  "keeps (lifted r)" "keeps (dispatch a)" "keeps (onRepo operation)" "keeps readFlow" "keeps (await env p)"
  "keeps (requireCurrent env c)" "keeps (advance g q j)"
  by (auto simp: keeps_def lifted_def dispatch_def onRepo_def readFlow_def await_def requireCurrent_def
      advance_def split: prod.splits)

lemma keeps_reconcileUnresolved [simp]: "keeps (reconcileUnresolved env g i)"
  unfolding reconcileUnresolved_def by (auto intro!: keeps_andThen split: option.split sum.split)

lemma keeps_reflectDurable [simp]: "keeps (reflectDurable g r)"
  unfolding reflectDurable_def by (auto intro!: keeps_andThen split: option.split)

lemma keeps_moveOrRead [simp]: "keeps (moveOrRead env r q c)"
  unfolding keeps_def
proof
  fix s :: run
  obtain x t where m: "onRepo (transitionAction (oc_failEngine env) (r_journalId r) q c (oc_failNow env)) s = (x, t)"
    by fastforce
  have "snd (moveOrRead env r q c s) = t"
    using m by (auto simp: moveOrRead_def split: sum.splits option.splits)
  then show "rn_sent (snd (moveOrRead env r q c s)) = rn_sent s \<and>
      rn_journalId (snd (moveOrRead env r q c s)) = rn_journalId s"
    using keepsD [OF keeps_steps(3) m] by simp
qed

lemma keeps_failBeforeSubmission [simp]: "keeps (failBeforeSubmission g j e)"
  unfolding failBeforeSubmission_def by (auto intro!: keeps_andThen)

lemma keeps_result: "keeps m \<Longrightarrow> rn_sent (snd (m s)) = rn_sent s \<and> rn_journalId (snd (m s)) = rn_journalId s"
  by (simp add: keeps_def)

lemma keeps_reconcileFailure [simp]: "keeps (reconcileFailure env g j e)"
  unfolding keeps_def
proof
  fix s :: run
  have moved2: "keeps (andThen (moveOrRead env r Unresolved c) (reflectDurable g))" for r c
    by (simp add: keeps_andThen)
  show "rn_sent (snd (reconcileFailure env g j e s)) = rn_sent s \<and>
      rn_journalId (snd (reconcileFailure env g j e s)) = rn_journalId s"
    unfolding reconcileFailure_def
    by (auto split: sum.split option.split prod.split simp: keeps_result [OF moved2]
        keeps_result [OF keeps_reflectDurable] keeps_result [OF keeps_failBeforeSubmission] Let_def
        dest: keepsD [OF keeps_steps(3)])
qed

lemma keeps_recordTerminal [simp]: "keeps (recordTerminal env g i q c p m)"
  unfolding recordTerminal_def by (auto intro!: keeps_andThen)

lemma keeps_recordResult [simp]: "keeps (recordResult env g i intent r)"
  unfolding recordResult_def by (auto intro!: keeps_andThen split: ExchangeSubmissionResult.split)

lemma keeps_catchFailure [simp]: "keeps (catchFailure env g e)"
proof -
  have "keeps (\<lambda>s. andThen (reconcileFailure env g j e) (\<lambda>_. andThen readFlow (\<lambda>recovered.
       case (phase recovered, flow_journalId recovered) of
         (Reconciling, Some journalId) \<Rightarrow> reconcileUnresolved env g journalId
       | _ \<Rightarrow> lifted (Inr recovered))) s)" for j
    by (intro keeps_andThen) (auto split: ActionFlowPhase.split option.split)
  then show ?thesis by (simp add: keeps_def catchFailure_def)
qed

section \<open>The way to the request\<close>

text \<open>
  What holds before and after a step that sent something, of what was sent and of the journal entry
  the confirmation remembers. Each step before the request must have returned.
\<close>

abbreviation observed :: "run \<Rightarrow> sent_request list \<times> string option" where
  "observed s \<equiv> (rn_sent s, rn_journalId s)"

definition only_sends ::
    "'a step \<Rightarrow> (sent_request list \<times> string option \<Rightarrow> sent_request list \<times> string option \<Rightarrow> bool) \<Rightarrow> bool" where
  "only_sends m P \<longleftrightarrow> (\<forall>s. rn_sent (snd (m s)) \<noteq> rn_sent s \<longrightarrow> P (observed s) (observed (snd (m s))))"

lemma only_sends_keeps:
  assumes "keeps m" "\<And>s x t. m s = (Inr x, t) \<Longrightarrow> only_sends (f x) P"
  shows "only_sends (andThen m f) P"
  unfolding only_sends_def
proof (intro allI impI)
  fix s assume n: "rn_sent (snd (andThen m f s)) \<noteq> rn_sent s"
  obtain y u where m: "m s = (y, u)" by fastforce
  note k = keepsD [OF assms(1) m]
  show "P (observed s) (observed (snd (andThen m f s)))"
  proof (cases y)
    case (Inl e)
    then show ?thesis using n m k by (simp add: andThen_def)
  next
    case (Inr x)
    then have "only_sends (f x) P" using assms(2) m by blast
    from this [unfolded only_sends_def, rule_format, of u] show ?thesis
      using Inr n m k by (simp add: andThen_def)
  qed
qed

lemma only_sends_lifted:
  "(\<And>x. q = Inr x \<Longrightarrow> only_sends (f x) P) \<Longrightarrow> only_sends (andThen (lifted q) f) P"
  by (rule only_sends_keeps) (simp_all add: lifted_def)

lemma only_sends_current:
  "(oc_isCurrent env c \<Longrightarrow> only_sends (f ()) P) \<Longrightarrow> only_sends (andThen (requireCurrent env c) f) P"
  unfolding requireCurrent_def by (rule only_sends_lifted) (simp add: result_simps)

lemma only_sends_onRepo:
  "(\<And>x repo repo'. operation repo = (Inr x, repo') \<Longrightarrow> only_sends (f x) P) \<Longrightarrow>
     only_sends (andThen (onRepo operation) f) P"
  by (rule only_sends_keeps) (auto simp: onRepo_def split: prod.splits)

lemma only_sends_remember:
  assumes "only_sends (f ()) Q" "\<And>x j after. Q (x, i) after \<Longrightarrow> P (x, j) after"
  shows "only_sends (andThen (\<lambda>s. (Inr (), s\<lparr>rn_journalId := i\<rparr>)) f) P"
  unfolding only_sends_def
proof (intro allI impI)
  fix s :: run
  let ?u = "s\<lparr>rn_journalId := i\<rparr>"
  have e: "andThen (\<lambda>s. (Inr (), s\<lparr>rn_journalId := i\<rparr>)) f s = f () ?u" by (simp add: andThen_def)
  assume n: "rn_sent (snd (andThen (\<lambda>s. (Inr (), s\<lparr>rn_journalId := i\<rparr>)) f s)) \<noteq> rn_sent s"
  then have "Q (rn_sent s, i) (observed (snd (f () ?u)))"
    using assms(1) [unfolded only_sends_def, rule_format, of ?u] unfolding e by simp
  then show "P (observed s) (observed (snd (andThen (\<lambda>s. (Inr (), s\<lparr>rn_journalId := i\<rparr>)) f s)))"
    unfolding e by (rule assms(2))
qed

definition the_request :: "confirm_env \<Rightarrow> SignedExchangeRequest \<Rightarrow> sent_request" where
  "the_request env request =
     \<lparr>to_endpoint = xc_endpoint (oc_client env), body_text = stringify (request_body request)\<rparr>"

lemma only_sends_send:
  assumes "\<And>x. keeps (f x)"
    and "\<And>x j. assertSignedRequest (oc_codec env) request = Inr () \<Longrightarrow> P (x, j) (x @ [the_request env request], j)"
  shows "only_sends (andThen (send env permit request) f) P"
  unfolding only_sends_def
proof (intro allI impI)
  fix s assume n: "rn_sent (snd (andThen (send env permit request) f s)) \<noteq> rn_sent s"
  obtain y u where m: "send env permit request s = (y, u)" by fastforce
  have t: "observed (snd (andThen (send env permit request) f s)) = observed u"
    using m keeps_result [OF assms(1)] by (auto simp: andThen_def split: sum.splits)
  obtain answer sent where a: "submit (env_caps (oc_repo env)) (oc_codec env) (oc_text env) (oc_client env)
      (oc_fetch env) (oc_aborted env) request = (answer, sent)" by fastforce
  have k: "keeps (andThen (await env Submits) (\<lambda>_. lifted answer))"
    by (simp add: keeps_andThen)
  have u: "rn_sent u = rn_sent s @ sent \<and> rn_journalId u = rn_journalId s"
    using m a t n keepsD [OF k, of "s\<lparr>rn_sent := rn_sent s @ sent\<rparr>"]
    by (auto simp: send_def split: sum.splits prod.splits)
  then have "sent = [the_request env request]" "assertSignedRequest (oc_codec env) request = Inr ()"
    using a t n by (auto simp: submit_def Let_def result_simps the_request_def split: sum.splits)
  then show "P (observed s) (observed (snd (andThen (send env permit request) f s)))"
    unfolding t using assms(2) [of "rn_sent s" "rn_journalId s"] u by simp
qed

text \<open>What is sent for a reserved action, and from what.\<close>

definition request_of ::
    "confirm_env \<Rightarrow> ActionReviewSnapshot \<Rightarrow> trading_intent \<Rightarrow> PreparedActionRecord \<Rightarrow> SignedExchangeRequest result" where
  "request_of env review intent prepared =
     bindE (buildExchangeAction intent) (\<lambda>action.
     bindE (encodeL1Action (oc_codec env)
        \<lparr>l1_action = action_js action, l1_nonce = IntN (r_nonce prepared),
         l1_vaultAddress = rv_vaultAddress review, l1_expiresAfter = Some (IntN (r_expiresAfterMs prepared))\<rparr>) (\<lambda>encoded.
     bindE (buildL1TypedData (sb_network (rv_binding review)) encoded) (\<lambda>payload.
     bindE (oc_sign env (nt_typedData payload)) (\<lambda>signature.
     Inr (exchange_request action prepared encoded signature)))))"

definition sent_for ::
    "confirm_env \<Rightarrow> ActionReviewSnapshot \<Rightarrow> trading_intent \<Rightarrow> PreparedActionRecord \<Rightarrow>
     sent_request list \<times> string option \<Rightarrow> sent_request list \<times> string option \<Rightarrow> bool" where
  "sent_for env review intent prepared before after \<longleftrightarrow>
     oc_isCurrent env AfterReservation \<and> oc_isCurrent env AfterSigning \<and>
     (case request_of env review intent prepared of
        Inl _ \<Rightarrow> False
      | Inr request \<Rightarrow>
          assertSignedRequest (oc_codec env) request = Inr () \<and>
          after = (fst before @ [the_request env request], Some (r_journalId prepared)))"

lemma signAndSubmit_sends:
  "only_sends (signAndSubmit env review g intent prepared)
     (\<lambda>before after. snd before = Some (r_journalId prepared) \<longrightarrow> sent_for env review intent prepared before after)"
  unfolding signAndSubmit_def Let_def
  apply (rule only_sends_current)
  apply (rule only_sends_keeps, simp)
  apply (rule only_sends_lifted)
  apply (rule only_sends_lifted)
  apply (rule only_sends_lifted)
  apply (rule only_sends_keeps, simp)
  apply (rule only_sends_lifted)
  apply (rule only_sends_current)
  apply (rule only_sends_keeps, simp)
  apply (rule only_sends_lifted)
  apply (rule only_sends_onRepo)
  apply (simp only: split_beta)
  apply (rule only_sends_keeps, simp)
  apply (rule only_sends_send, simp)
  apply (simp add: sent_for_def request_of_def)
  done

text \<open>What was sent for a review, and from what: the action is built for the refreshed input.\<close>

definition sent_for_review ::
    "confirm_env \<Rightarrow> ActionReviewSnapshot \<Rightarrow> sent_request list \<times> string option \<Rightarrow>
     sent_request list \<times> string option \<Rightarrow> bool" where
  "sent_for_review env review before after \<longleftrightarrow>
     (\<exists>refreshedInput refreshed reservation prepared repo repo'.
        oc_isCurrent env BeforeRefresh \<and> oc_isCurrent env AfterRefresh \<and> oc_isCurrent env AfterUnlock \<and>
        oc_refreshed env = Inr refreshedInput \<and> oc_unlocked env = Inr () \<and>
        checkRefreshed env review refreshedInput = Inr refreshed \<and>
        reservationInput env review refreshedInput refreshed = Inr reservation \<and>
        reservePreparedAction (oc_repo env) (oc_reserveEngine env) reservation repo = (Inr prepared, repo') \<and>
        sent_for env review (v_intent refreshed) prepared before after)"

lemma confirmBody_sends: "only_sends (confirmBody env review g) (sent_for_review env review)"
  unfolding confirmBody_def
  apply (rule only_sends_current)
  apply (rule only_sends_keeps, simp)
  apply (rule only_sends_lifted)
  apply (rule only_sends_current)
  apply (rule only_sends_lifted)
  apply (rule only_sends_keeps, simp)
  apply (rule only_sends_keeps, simp)
  apply (rule only_sends_lifted)
  apply (rule only_sends_current)
  apply (rule only_sends_keeps, simp)
  apply (rule only_sends_lifted)
  apply (rule only_sends_onRepo)
  apply (rule only_sends_remember [OF signAndSubmit_sends])
  apply (clarsimp simp: sent_for_review_def)
  apply (intro exI conjI, assumption+)
  apply (simp add: sent_for_def split: sum.splits)
  done

lemma confirm_sends:
  assumes "confirm env review (flow, repo) = (out, t)" "rn_sent t \<noteq> []"
  shows "sent_for_review env review ([], None) (observed t)"
proof -
  define s where "s = \<lparr>rn_flow = reduceActionFlow flow CONFIRM, rn_repo = repo, rn_journalId = None, rn_sent = []\<rparr>"
  let ?g = "generation (rn_flow s)"
  obtain b u where b: "confirmBody env review ?g s = (b, u)" by fastforce
  have "observed t = observed u"
    using assms b unfolding confirm_def
    by (auto simp: dispatch_def Let_def s_def [symmetric] simp del: reduceActionFlow.simps
        split: sum.splits dest: keepsD [OF keeps_catchFailure])
  moreover from this have "rn_sent (snd (confirmBody env review ?g s)) \<noteq> rn_sent s"
    using assms(2) b by (simp add: s_def)
  ultimately show ?thesis
    using confirmBody_sends [of env review ?g, unfolded only_sends_def, rule_format, of s] b by (simp add: s_def)
qed

lemma checkRefreshed_Inr:
  assumes "checkRefreshed env review input = Inr refreshed"
    and "action_ok (rv_validation review) (rv_validated review)"
  shows "validateTradingAction (env_caps (oc_repo env)) (env_getAddress (oc_repo env)) input = Inr refreshed"
    "assertSignerBinding (env_getAddress (oc_repo env)) (rv_binding review) (currentBinding review input) = Inr ()"
    "v_marketCanonicalId refreshed = m_canonicalId (i_market (rv_validation review))"
    "v_accountStateVersion refreshed = v_accountStateVersion (rv_validated review)"
    "refreshed_from (v_intent (rv_validated review)) input (v_intent refreshed)"
proof -
  from assms(1) have v: "validateTradingAction (env_caps (oc_repo env)) (env_getAddress (oc_repo env)) input = Inr refreshed"
    and rest: "assertSignerBinding (env_getAddress (oc_repo env)) (rv_binding review) (currentBinding review input) = Inr ()"
      "v_marketCanonicalId refreshed = m_canonicalId (i_market (rv_validation review))"
      "v_accountStateVersion refreshed = v_accountStateVersion (rv_validated review)"
    and same: "sameReviewedIntent
        \<lparr>sh_intent = v_intent (rv_validated review), sh_keys = i_intentKeys (rv_validation review),
         sh_targetKeys = i_targetKeys (rv_validation review)\<rparr>
        \<lparr>sh_intent = v_intent refreshed, sh_keys = i_intentKeys input,
         sh_targetKeys = i_targetKeys (reviewed_validation input refreshed)\<rparr> input = Inr True"
    by (auto simp: checkRefreshed_def Let_def result_simps split: if_splits)
  show "refreshed_from (v_intent (rv_validated review)) input (v_intent refreshed)"
    by (rule sameReviewedIntent_refreshed [OF same])
      (use assms(2) validated_action_ok [OF v] in \<open>simp_all add: action_ok_def\<close>)
  show "validateTradingAction (env_caps (oc_repo env)) (env_getAddress (oc_repo env)) input = Inr refreshed"
    "assertSignerBinding (env_getAddress (oc_repo env)) (rv_binding review) (currentBinding review input) = Inr ()"
    "v_marketCanonicalId refreshed = m_canonicalId (i_market (rv_validation review))"
    "v_accountStateVersion refreshed = v_accountStateVersion (rv_validated review)"
    using v rest by auto
qed

lemma all_checks: "(\<forall>c. oc_isCurrent env c) \<longleftrightarrow>
    oc_isCurrent env BeforeRefresh \<and> oc_isCurrent env AfterRefresh \<and> oc_isCurrent env AfterUnlock \<and>
    oc_isCurrent env AfterReservation \<and> oc_isCurrent env AfterSigning"
  by (metis (full_types) check.exhaust)

text \<open>
  C2. A confirmation of a review that was made sends nothing, or one request. Then the context was current
  at each of the five checks, the session was unlocked, and the refreshed input passed validation with
  the signer of the review; the action is the reviewed one, but for the limit price of an order at
  market, which is computed from the refreshed reference price; and the request carries the encoding
  of that action with the nonce that was reserved for it, signed for the network of the review.
\<close>

theorem only_the_reviewed_action_is_sent:
  assumes "createActionReview caps ga binding epoch input vault = Inr review"
    and "confirm env review (flow, repo) = (out, t)" and "rn_sent t \<noteq> []"
  shows "\<exists>refreshedInput refreshed reservation prepared request before after.
    (\<forall>c. oc_isCurrent env c) \<and> oc_unlocked env = Inr () \<and> oc_refreshed env = Inr refreshedInput \<and>
    validateTradingAction (env_caps (oc_repo env)) (env_getAddress (oc_repo env)) refreshedInput = Inr refreshed \<and>
    assertSignerBinding (env_getAddress (oc_repo env)) (rv_binding review) (currentBinding review refreshedInput) = Inr () \<and>
    refreshed_from (v_intent (rv_validated review)) refreshedInput (v_intent refreshed) \<and>
    reservationInput env review refreshedInput refreshed = Inr reservation \<and>
    reservePreparedAction (oc_repo env) (oc_reserveEngine env) reservation before = (Inr prepared, after) \<and>
    request_of env review (v_intent refreshed) prepared = Inr request \<and>
    assertSignedRequest (oc_codec env) request = Inr () \<and>
    rn_sent t = [the_request env request] \<and> rn_journalId t = Some (r_journalId prepared)"
proof -
  have ok: "action_ok (rv_validation review) (rv_validated review)"
    using createActionReview_ok [OF assms(1)] by simp
  from confirm_sends [OF assms(2,3)] obtain refreshedInput refreshed reservation prepared before after
    where c: "oc_isCurrent env BeforeRefresh" "oc_isCurrent env AfterRefresh" "oc_isCurrent env AfterUnlock"
      "oc_refreshed env = Inr refreshedInput" "oc_unlocked env = Inr ()"
      "reservationInput env review refreshedInput refreshed = Inr reservation"
      "reservePreparedAction (oc_repo env) (oc_reserveEngine env) reservation before = (Inr prepared, after)"
    and r: "checkRefreshed env review refreshedInput = Inr refreshed"
    and s: "sent_for env review (v_intent refreshed) prepared ([], None) (observed t)"
    unfolding sent_for_review_def by blast
  from s obtain request where s': "oc_isCurrent env AfterReservation" "oc_isCurrent env AfterSigning"
      "request_of env review (v_intent refreshed) prepared = Inr request"
      "assertSignedRequest (oc_codec env) request = Inr ()"
      "rn_sent t = [the_request env request]" "rn_journalId t = Some (r_journalId prepared)"
    by (auto simp: sent_for_def split: sum.splits)
  show ?thesis
    using c s' checkRefreshed_Inr [OF r ok] unfolding all_checks by blast
qed

end
