(* ===== verification/Sample_Confirmation.thy ===== *)
theory Sample_Confirmation
  imports Orchestrator_Safety Sample_Device
begin

text \<open>
  A concrete confirmation, on the device of theory \<open>Sample_Device\<close>: a change of leverage is
  reviewed, refreshed, signed and sent, and the exchange does not answer. The properties of the
  orchestrator are applied to it.
\<close>

definition sample_reviewed :: ActionReviewSnapshot where
  "sample_reviewed =
     (let validated = \<lparr>v_intent = UpdateLeverage \<lparr>ul_assetId = IntN 7, ul_marginMode = Cross, ul_leverage = IntN 5\<rparr>,
            v_notional = None, v_accountStateVersion = 1, v_marketCanonicalId = ''perp:BTC''\<rparr> in
      \<lparr>rv_binding = sample_binding, rv_validation = reviewed_validation sample_leverage validated,
       rv_validated = validated, rv_vaultAddress = None\<rparr>)"

definition sample_confirm_env :: confirm_env where
  "sample_confirm_env =
     \<lparr>oc_repo = sample_env,
      oc_codec = \<lparr>encode = (\<lambda>_. []), numberToBytes8 = (\<lambda>_. []), hexToBytes = (\<lambda>_. []), keccak256 = (\<lambda>_. []),
        getAddress = (\<lambda>_. None)\<rparr>,
      oc_text = \<lparr>json_parse = (\<lambda>_. None), decode_utf8 = (\<lambda>_. [])\<rparr>,
      oc_hash = (\<lambda>_. sample_hash),
      oc_client = \<lparr>xc_network = Testnet, xc_endpoint = ''https://api.hyperliquid-testnet.xyz/exchange''\<rparr>,
      oc_fetch = (\<lambda>_. FetchRejects), oc_aborted = False, oc_isCurrent = (\<lambda>_. True),
      oc_refreshed = Inr sample_leverage, oc_unlocked = Inr (),
      oc_clock = Inr (ri_clock sample_reservation),
      oc_newJournalId = sample_journal_id, oc_newCorrelationId = ''act_00000000000000000000000000000001'',
      oc_sign = (\<lambda>_. Inr \<lparr>sig_r = ''0x'' @ replicate 64 CHR ''1'', sig_s = ''0x'' @ replicate 64 CHR ''2'', sig_v = IntN 27\<rparr>),
      oc_reserveEngine = Commits, oc_startEngine = Commits, oc_moveEngine = Commits, oc_failEngine = Commits,
      oc_startNow = IntN 1010, oc_moveNow = IntN 1020, oc_failNow = IntN 1020,
      oc_reconciled = None, oc_meanwhile = (\<lambda>_ x. x)\<rparr>"

lemma sample_reviewed_created:
  "createActionReview (env_caps sample_env) (env_getAddress sample_env) sample_binding (IntN 3) sample_leverage None =
     Inr sample_reviewed"
  by code_simp

section \<open>The steps before the request\<close>

lemma permitted_keys:
  "\<not> FORBIDDEN_KEY ''slippageBps''" "\<not> FORBIDDEN_KEY ''trigger''" "\<not> FORBIDDEN_KEY ''assetId''"
  "\<not> FORBIDDEN_KEY ''leverage''" "\<not> FORBIDDEN_KEY ''marginMode''" "\<not> FORBIDDEN_KEY ''marketCanonicalId''"
  "\<not> FORBIDDEN_KEY ''reviewedAccountStateVersion''" "\<not> FORBIDDEN_KEY ''reviewedPositionSize''"
  "\<not> FORBIDDEN_KEY ''action''"
  by (simp_all add: forbidden_eval char_of_eq_iff)

lemma serializes:
  "validateValue (JObj obj) ''intent'' 0 = Inr () \<Longrightarrow> utf8_length (stringify (JObj obj)) \<le> 32768 \<Longrightarrow>
     serializeSecretFreeIntent (JObj obj) = Inr (stringify (JObj obj))"
  by (simp add: serializeSecretFreeIntent_def MAX_INTENT_BYTES_def del: stringify.simps)

definition leverage_object :: js_object where
  "leverage_object = [(''type'', JStr ''update_leverage''), (''assetId'', JNum (IntN 7)),
     (''leverage'', JNum (IntN 5)), (''marginMode'', JStr ''cross'')]"

definition leverage_stored :: js_value where
  "leverage_stored = JObj (leverage_object @ [(''marketCanonicalId'', JStr ''perp:BTC''),
     (''reviewedAccountStateVersion'', JNum (IntN 1)), (''reviewedPositionSize'', JStr ''2.50'')])"

lemma leverage_objects:
  "controls_value (i_controls sample_leverage) = JObj [(''slippageBps'', JNull), (''trigger'', JNull)]"
  "shown_value \<lparr>sh_intent = v_intent (rv_validated sample_reviewed),
     sh_keys = i_intentKeys sample_leverage, sh_targetKeys = i_targetKeys sample_leverage\<rparr> = JObj leverage_object"
  "storedIntent (rv_validated sample_reviewed) sample_leverage = leverage_stored"
  "equivalence_object sample_leverage (rv_validated sample_reviewed) =
     JObj [(''action'', JObj leverage_object), (''marketCanonicalId'', JStr ''perp:BTC'')]"
  by (simp_all add: controls_value_def shown_value_def storedIntent_def equivalence_object_def validated_object_def
      reviewed_validation_def intent_object_def in_order_def withoutCloid_def has_cloid_def leverage_object_def
      leverage_stored_def sample_leverage_def sample_input_def sample_reviewed_def Let_def)

lemma utf8_length_append [simp]:
  "utf8_length (s @ t) = utf8_length s + utf8_length t" "utf8_length [] = 0"
  "utf8_length (c # s) = (if code c < 128 then 1 else 2) + utf8_length s"
  by (simp_all add: utf8_length_def)

lemma json_string_length: "utf8_length (json_string s) \<le> 2 + 12 * length s"
proof -
  have "utf8_length (json_char c) \<le> 12" for c
    by (auto simp: json_char_def split: option.split)
  then have "utf8_length (concat (map json_char s)) \<le> 12 * length s"
    by (induction s) (simp_all add: add_mono)
  then show ?thesis by (simp add: json_string_def)
qed

lemma json_text_length: "length s \<le> 100 \<Longrightarrow> utf8_length (json_string s) \<le> 1500"
  using json_string_length [of s] by simp

lemma leverage_lengths:
  "utf8_length (stringify (JObj leverage_object)) \<le> 32768" "utf8_length (stringify leverage_stored) \<le> 32768"
  "utf8_length (stringify (JObj [(''action'', JObj leverage_object), (''marketCanonicalId'', JStr ''perp:BTC'')])) \<le> 32768"
  "utf8_length (stringify (JObj [(''slippageBps'', JNull), (''trigger'', JNull)])) \<le> 32768"
  using json_text_length [of "''type''"] json_text_length [of "''assetId''"] json_text_length [of "''leverage''"]
    json_text_length [of "''marginMode''"] json_text_length [of "''marketCanonicalId''"]
    json_text_length [of "''reviewedAccountStateVersion''"] json_text_length [of "''reviewedPositionSize''"]
    json_text_length [of "''action''"] json_text_length [of "''slippageBps''"] json_text_length [of "''trigger''"]
    json_text_length [of "''update_leverage''"] json_text_length [of "''cross''"] json_text_length [of "''perp:BTC''"]
    json_text_length [of "''2.50''"]
  by (simp_all add: leverage_stored_def leverage_object_def show_int_def show_nat.simps)

lemma leverage_serializes:
  "serializeSecretFreeIntent (JObj leverage_object) = Inr (stringify (JObj leverage_object))"
  "serializeSecretFreeIntent leverage_stored = Inr (stringify leverage_stored)"
  "serializeSecretFreeIntent (JObj [(''action'', JObj leverage_object), (''marketCanonicalId'', JStr ''perp:BTC'')]) =
     Inr (stringify (JObj [(''action'', JObj leverage_object), (''marketCanonicalId'', JStr ''perp:BTC'')]))"
  "serializeSecretFreeIntent (JObj [(''slippageBps'', JNull), (''trigger'', JNull)]) =
     Inr (stringify (JObj [(''slippageBps'', JNull), (''trigger'', JNull)]))"
  unfolding leverage_stored_def
  by (rule serializes, simp add: validateValue.simps permitted_keys permitted_examples leverage_object_def
      safe_int_def max_safe_integer_def, rule leverage_lengths [unfolded leverage_stored_def])+

lemma sample_reviewed_fields [simp]:
  "rv_binding sample_reviewed = sample_binding" "rv_vaultAddress sample_reviewed = None"
  "rv_validation sample_reviewed = sample_leverage"
  "v_intent (rv_validated sample_reviewed) = UpdateLeverage \<lparr>ul_assetId = IntN 7, ul_marginMode = Cross, ul_leverage = IntN 5\<rparr>"
  by (simp_all add: sample_reviewed_def reviewed_validation_def sample_leverage_def sample_input_def)

lemma sample_confirm_env_fields [simp]:
  "oc_repo sample_confirm_env = sample_env" "oc_isCurrent sample_confirm_env c" "oc_reconciled sample_confirm_env = None"
  "oc_refreshed sample_confirm_env = Inr sample_leverage" "oc_unlocked sample_confirm_env = Inr ()"
  "oc_clock sample_confirm_env = Inr (ri_clock sample_reservation)" "oc_reserveEngine sample_confirm_env = Commits"
  "oc_startEngine sample_confirm_env = Commits" "oc_startNow sample_confirm_env = IntN 1010"
  "oc_meanwhile sample_confirm_env = (\<lambda>_ x. x)" "oc_hash sample_confirm_env = (\<lambda>_. sample_hash)"
  "oc_newJournalId sample_confirm_env = sample_journal_id"
  "oc_newCorrelationId sample_confirm_env = ''act_00000000000000000000000000000001''"
  by (simp_all add: sample_confirm_env_def)

lemma sample_leverage_revalidates:
  "validateTradingAction (env_caps sample_env) (env_getAddress sample_env) sample_leverage = Inr (rv_validated sample_reviewed)"
  by code_simp

lemma sample_still_bound:
  "assertSignerBinding (env_getAddress sample_env) sample_binding (currentBinding sample_reviewed sample_leverage) = Inr ()"
  by code_simp

lemma sample_refreshed:
  "checkRefreshed sample_confirm_env sample_reviewed sample_leverage = Inr (rv_validated sample_reviewed)"
proof -
  have l: "i_targetKeys (reviewed_validation sample_leverage (rv_validated sample_reviewed)) = i_targetKeys sample_leverage"
    by (simp add: reviewed_validation_def)
  have c: "v_marketCanonicalId (rv_validated sample_reviewed) = m_canonicalId (i_market sample_leverage)"
    "js_eq (c_capturedContextEpoch (i_context sample_leverage)) (c_capturedContextEpoch (i_context sample_leverage))"
    by (simp_all add: sample_reviewed_def sample_leverage_def sample_input_def Let_def)
  show ?thesis
    unfolding checkRefreshed_def Let_def
    using leverage_serializes(1,4) leverage_objects(1,2)
    by (simp add: sample_leverage_revalidates sample_still_bound c l sameReviewedControls_def sameReviewedIntent_def)
qed

section \<open>The reservation\<close>

definition leverage_prepared :: PreparedActionArgs where
  "leverage_prepared = \<lparr>pa_journalId = sample_journal_id,
     pa_correlationId = ''act_00000000000000000000000000000001'', pa_intent = leverage_stored,
     pa_intentDigest = sample_hash, pa_equivalenceFingerprint = sample_hash,
     pa_fields = \<lparr>pf_actionType = UpdateLeverageType, pf_intentVersion = IntN 1, pf_cloid = None,
       pf_assetId = Some (IntN 7), pf_targetOid = None, pf_reconciliationKey = ''leverage:7:cross:5''\<rparr>\<rparr>"

definition leverage_reservation :: AtomicActionReservationInput where
  "leverage_reservation = sample_reservation\<lparr>ri_preparedAction := leverage_prepared\<rparr>"

definition leverage_row :: PreparedActionRecord where
  "leverage_row = prepared_row sample_binding 3 \<lparr>nonce = 1000, expiresAfterMs = 16000, observedWallMs = 1000\<rparr>
     leverage_prepared"

definition leverage_repo :: journal_repo where
  "leverage_repo = \<lparr>database = \<lparr>signer_scopes = [sample_scope (Some 1000)], retired_signer_tombstones = [],
     action_journal = [leverage_row]\<rparr>, preparedInThisProcess = [(sample_journal_id, 16000)]\<rparr>"

lemma leverage_reservation_input:
  "reservationInput sample_confirm_env sample_reviewed sample_leverage (rv_validated sample_reviewed) =
     Inr leverage_reservation"
proof -
  have "identityFields (UpdateLeverage \<lparr>ul_assetId = IntN 7, ul_marginMode = Cross, ul_leverage = IntN 5\<rparr>) =
      Inr \<lparr>if_cloid = None, if_assetId = Some (IntN 7), if_targetOid = None, if_reconciliationKey = ''leverage:7:cross:5''\<rparr>"
    by code_simp
  moreover have "c_capturedContextEpoch (i_context sample_leverage) = IntN 3"
    by (simp add: sample_leverage_def sample_input_def)
  ultimately show ?thesis
    unfolding reservationInput_def Let_def digest_def
    using leverage_serializes(2,3) leverage_objects(3,4)
    by (simp add: leverage_reservation_def leverage_prepared_def sample_reservation_def del: identityFields.simps)
qed

lemma leverage_row_fields [simp]:
  "r_journalId leverage_row = sample_journal_id" "r_network leverage_row = Testnet"
  "r_agentAddress leverage_row = sample_agent" "r_nonce leverage_row = 1000" "r_state leverage_row = Prepared"
  "r_submissionStartedAt leverage_row = None" "r_expiresAfterMs leverage_row = 16000"
  "r_preparedAt leverage_row = 1000" "r_signerGeneration leverage_row = 1" "r_capturedContextEpoch leverage_row = 3"
  "r_intentVersion leverage_row = 1" "r_leaseOwner leverage_row = None" "r_intent leverage_row = leverage_stored"
  by (simp_all add: leverage_row_def prepared_row_def leverage_prepared_def)

lemma leverage_row_stored:
  "assertStoredRecord leverage_row = Inr ()"
  "assertStoredRecord (leverage_row\<lparr>r_state := SubmissionStarted, r_submissionStartedAt := Some 1010, r_updatedAt := 1010\<rparr>) = Inr ()"
  by code_simp+

lemma leverage_rows_valid:
  "valid_row leverage_row"
  "valid_row (leverage_row\<lparr>r_state := SubmissionStarted, r_submissionStartedAt := Some 1010, r_updatedAt := 1010\<rparr>)"
  using leverage_row_stored leverage_serializes(2)
  by (simp_all add: valid_row_def fromRow_Inr assertSecretFreeIntent_def)

lemma leverage_constraints:
  "actions_constraints [sample_scope n] [leverage_row]"
  "actions_constraints [sample_scope n]
     [leverage_row\<lparr>r_state := SubmissionStarted, r_submissionStartedAt := Some t, r_updatedAt := t\<rparr>]"
  by (simp_all add: actions_constraints_def sample_scope_def known_network_def)

lemma leverage_reserve:
  "reserve sample_env sample_binding 3 (ri_clock sample_reservation) leverage_prepared
     (database registered_repo) = Inr (leverage_row, database leverage_repo)"
proof -
  have s: "s_status (sample_scope None) = ActiveScope" "s_last_issued_nonce (sample_scope None) = None"
    "s_last_observed_wall_ms (sample_scope None) = None" "scope_is Testnet sample_agent (sample_scope None)"
    "s_signer_generation (sample_scope None) = 1"
    by (simp_all add: sample_scope_def scope_is_def)
  have u: "(sample_scope None)\<lparr>s_last_issued_nonce := Some 1000, s_last_observed_wall_ms := Some 1000,
      s_updated_at := 1000\<rparr> = sample_scope (Some 1000)" by (simp add: sample_scope_def)
  have c: "scopes_constraints [sample_scope (Some 1000)]"
    by (simp add: scopes_constraints_def sample_scope_def known_network_def)
  have r: "requireAction sample_journal_id \<lparr>signer_scopes = [sample_scope (Some 1000)],
      retired_signer_tombstones = [], action_journal = [leverage_row]\<rparr> = Inr leverage_row"
    by (simp add: requireAction_Inr leverage_rows_valid row_of_def)
  show ?thesis
    unfolding reserve_def registered_repo_def leverage_repo_def
    using r
    by (simp add: scope_def s sample_same_binding sample_allocates update_scopes_def u c insert_action_def
        leverage_row_def [symmetric] leverage_constraints) (simp add: leverage_prepared_def)
qed

lemma leverage_fields: "assertPreparedActionFields (pa_fields leverage_prepared) = Inr ()"
  by code_simp

lemma leverage_reserves:
  "reservePreparedAction sample_env Commits leverage_reservation registered_repo = (Inr leverage_row, leverage_repo)"
proof -
  have "assertReservationIdentifiers leverage_prepared = Inr (stringify leverage_stored)"
    using sample_identifiers leverage_serializes(2) leverage_fields
    by (simp add: assertReservationIdentifiers_def leverage_prepared_def)
  moreover have "env_authority sample_env b e = None" for b e by (simp add: sample_env_def)
  moreover have "ri_binding leverage_reservation = sample_binding" "ri_capturedContextEpoch leverage_reservation = IntN 3"
    "ri_clock leverage_reservation = ri_clock sample_reservation" "ri_preparedAction leverage_reservation = leverage_prepared"
    by (simp_all add: leverage_reservation_def)
  ultimately show ?thesis
    using leverage_reserve
    by (simp add: reservePreparedAction_def sample_binding_ok immediate_def
        registerCurrentProcessReservation_def safe_int_def max_safe_integer_def)
      (simp add: leverage_repo_def registered_repo_def)
qed

lemma leverage_starts:
  "\<exists>repo. markSubmissionStarted Commits sample_journal_id (IntN 1010) leverage_repo =
     (Inr (leverage_row\<lparr>r_state := SubmissionStarted, r_submissionStartedAt := Some 1010, r_updatedAt := 1010\<rparr>,
           createTransportWritePermit sample_journal_id), repo)"
proof -
  let ?d = "database leverage_repo"
  let ?row = "leverage_row\<lparr>r_state := SubmissionStarted, r_submissionStartedAt := Some 1010, r_updatedAt := 1010\<rparr>"
  have r: "requireAction sample_journal_id ?d = Inr leverage_row"
    by (simp add: requireAction_Inr row_of_def leverage_repo_def leverage_rows_valid)
  have r': "requireAction sample_journal_id (?d\<lparr>action_journal := [?row]\<rparr>) = Inr ?row"
    using leverage_rows_valid(2) by (simp add: requireAction_Inr row_of_def)
  have u: "update_actions (\<lambda>r. r_journalId r = sample_journal_id \<and> r_state r = Prepared \<and> r_submissionStartedAt r = None)
      (\<lambda>r. r\<lparr>r_state := SubmissionStarted, r_submissionStartedAt := Some 1010, r_updatedAt := 1010\<rparr>) ?d =
      Inr (1, ?d\<lparr>action_journal := [?row]\<rparr>)"
    using leverage_constraints(2) by (simp add: update_actions_def leverage_repo_def)
  have "startSubmission sample_journal_id 1010 ?d = Inr (?row, ?d\<lparr>action_journal := [?row]\<rparr>)"
    using r' by (simp add: startSubmission_def r u mayMarkSubmissionStarted_def)
  then show ?thesis
    by (simp add: markSubmissionStarted_def assertTime_def safe_int_def max_safe_integer_def immediate_def
        Let_def forget_def) (simp add: leverage_repo_def immediate_def forget_def)
qed

section \<open>The run\<close>

lemma run_simps [simp]:
  "andThen (lifted (Inr x)) f s = f x s"
  "oc_isCurrent env c \<Longrightarrow> andThen (requireCurrent env c) f1 s = f1 () s"
  "andThen (advance g p j) f1 s = f1 () (s\<lparr>rn_flow := reduceActionFlow (rn_flow s) (ADVANCE g p j)\<rparr>)"
  "oc_meanwhile env = (\<lambda>_ w. w) \<Longrightarrow> andThen (await env k) f1 s = f1 () s"
  "operation (rn_repo s) = (Inr y, repo) \<Longrightarrow> andThen (onRepo operation) f2 s = f2 y (s\<lparr>rn_repo := repo\<rparr>)"
  "andThen (\<lambda>s. (Inr (), s\<lparr>rn_journalId := i\<rparr>)) f1 s = f1 () (s\<lparr>rn_journalId := i\<rparr>)"
  by (simp_all add: andThen_def lifted_def requireCurrent_def advance_def dispatch_def await_def onRepo_def)

definition leverage_request :: SignedExchangeRequest where
  "leverage_request = (case request_of sample_confirm_env sample_reviewed
     (UpdateLeverage \<lparr>ul_assetId = IntN 7, ul_marginMode = Cross, ul_leverage = IntN 5\<rparr>) leverage_row of Inr r \<Rightarrow> r)"

lemma leverage_requested:
  "succeeds (request_of sample_confirm_env sample_reviewed
     (UpdateLeverage \<lparr>ul_assetId = IntN 7, ul_marginMode = Cross, ul_leverage = IntN 5\<rparr>) leverage_row)"
  "assertSignedRequest (oc_codec sample_confirm_env) leverage_request = Inr ()"
  "assertExchangeTransportCapability (env_caps sample_env) (xc_network (oc_client sample_confirm_env)) = Inr ()"
  by code_simp+

lemma sample_signs:
  assumes "rn_repo s = leverage_repo"
  shows "rn_sent (snd (signAndSubmit sample_confirm_env sample_reviewed g
    (UpdateLeverage \<lparr>ul_assetId = IntN 7, ul_marginMode = Cross, ul_leverage = IntN 5\<rparr>) leverage_row s)) \<noteq> []"
proof -
  obtain repo where m: "markSubmissionStarted Commits sample_journal_id (IntN 1010) leverage_repo =
     (Inr (leverage_row\<lparr>r_state := SubmissionStarted, r_submissionStartedAt := Some 1010, r_updatedAt := 1010\<rparr>,
           createTransportWritePermit sample_journal_id), repo)"
    using leverage_starts by blast
  obtain action encoded payload signature where r:
    "buildExchangeAction (UpdateLeverage \<lparr>ul_assetId = IntN 7, ul_marginMode = Cross, ul_leverage = IntN 5\<rparr>) = Inr action"
    "encodeL1Action (oc_codec sample_confirm_env)
       \<lparr>l1_action = action_js action, l1_nonce = IntN 1000, l1_vaultAddress = None, l1_expiresAfter = Some (IntN 16000)\<rparr> = Inr encoded"
    "buildL1TypedData Testnet encoded = Inr payload" "oc_sign sample_confirm_env (nt_typedData payload) = Inr signature"
    using leverage_requested(1) by (auto simp: succeeds_iff request_of_def result_simps)
  have q: "exchange_request action leverage_row encoded signature = leverage_request"
    using r by (simp add: leverage_request_def request_of_def)
  have k: "keeps (recordResult sample_confirm_env g sample_journal_id
      (UpdateLeverage \<lparr>ul_assetId = IntN 7, ul_marginMode = Cross, ul_leverage = IntN 5\<rparr>) x)" for x
    by simp
  have sent: "rn_sent (snd (andThen (send sample_confirm_env (createTransportWritePermit sample_journal_id) leverage_request)
      (recordResult sample_confirm_env g sample_journal_id
        (UpdateLeverage \<lparr>ul_assetId = IntN 7, ul_marginMode = Cross, ul_leverage = IntN 5\<rparr>)) u)) \<noteq> []" for u
  proof -
    obtain answer where a: "submit (env_caps sample_env) (oc_codec sample_confirm_env) (oc_text sample_confirm_env)
        (oc_client sample_confirm_env) (oc_fetch sample_confirm_env) (oc_aborted sample_confirm_env) leverage_request =
        (Inr answer, [the_request sample_confirm_env leverage_request])"
      using leverage_requested(2,3) by (simp add: submit_def Let_def the_request_def)
    obtain p where "consume (createTransportWritePermit sample_journal_id) = (Inr (), p)"
      by (simp add: consume_def createTransportWritePermit_def)
    then have "send sample_confirm_env (createTransportWritePermit sample_journal_id) leverage_request u =
        (Inr answer, u\<lparr>rn_sent := rn_sent u @ [the_request sample_confirm_env leverage_request]\<rparr>)"
      using a by (simp add: send_def) (simp add: lifted_def)
    then show ?thesis using keeps_result [OF k] by (simp add: andThen_def)
  qed
  show ?thesis
    using assms r m q sent sample_binding_ok(2) by (simp add: signAndSubmit_def Let_def)
qed

lemma sample_body:
  "rn_repo s = registered_repo \<Longrightarrow> rn_sent (snd (confirmBody sample_confirm_env sample_reviewed g s)) \<noteq> []"
  using sample_refreshed leverage_reservation_input leverage_reserves sample_signs
  by (simp add: confirmBody_def del: reduceActionFlow.simps)

lemma sample_confirms:
  "rn_sent (snd (confirm sample_confirm_env sample_reviewed (INITIAL_ACTION_FLOW, registered_repo))) \<noteq> []"
proof -
  define s where "s = \<lparr>rn_flow = reduceActionFlow INITIAL_ACTION_FLOW CONFIRM, rn_repo = registered_repo,
    rn_journalId = None, rn_sent = []\<rparr>"
  let ?g = "generation (rn_flow s)"
  have "rn_sent (snd (confirmBody sample_confirm_env sample_reviewed ?g s)) \<noteq> []"
    by (rule sample_body) (simp add: s_def)
  moreover have "rn_sent (snd (confirm sample_confirm_env sample_reviewed (INITIAL_ACTION_FLOW, registered_repo))) =
      rn_sent (snd (confirmBody sample_confirm_env sample_reviewed ?g s))"
  proof -
    obtain b u where b: "confirmBody sample_confirm_env sample_reviewed ?g s = (b, u)" by fastforce
    have "c_network (i_context sample_leverage) = Testnet" "phase INITIAL_ACTION_FLOW = Review"
      by (simp_all add: sample_leverage_def sample_input_def INITIAL_ACTION_FLOW_def)
    moreover have "reduceActionFlow INITIAL_ACTION_FLOW CONFIRM = rn_flow s"
      "\<lparr>rn_flow = rn_flow s, rn_repo = registered_repo, rn_journalId = None, rn_sent = []\<rparr> = s"
      by (simp_all add: s_def)
    ultimately show ?thesis
      using sample_binding_ok(2) b keeps_result [OF keeps_catchFailure] unfolding confirm_def
      by (auto simp: dispatch_def Let_def simp del: reduceActionFlow.simps split: sum.split)
  qed
  ultimately show ?thesis by simp
qed

section \<open>The properties at this confirmation\<close>

theorem only_the_reviewed_action_is_sent_witness:
  "\<exists>request. rn_sent (snd (confirm sample_confirm_env sample_reviewed (INITIAL_ACTION_FLOW, registered_repo))) =
     [the_request sample_confirm_env request]"
  using only_the_reviewed_action_is_sent [OF sample_reviewed_created prod.collapse [symmetric] sample_confirms] by blast

lemma sample_lawful: "lawful_meanwhile sample_confirm_env g"
  by (simp add: lawful_meanwhile_def lawful_refl)

theorem confirmation_agrees_with_journal_witness:
  "\<exists>state. fst (confirm sample_confirm_env sample_reviewed (INITIAL_ACTION_FLOW, registered_repo)) = Inr state"
proof -
  have "c_network (i_context sample_leverage) = Testnet" "phase INITIAL_ACTION_FLOW = Review"
    by (simp_all add: sample_leverage_def sample_input_def INITIAL_ACTION_FLOW_def)
  then show ?thesis
    using confirmation_agrees_with_journal [OF sample_lawful registered_ok _ _ _ prod.collapse [symmetric],
        of sample_reviewed INITIAL_ACTION_FLOW] sample_binding_ok(2)
    by auto
qed

end
