(* ===== verification/Sample_Refresh.thy ===== *)
theory Sample_Refresh
  imports Order_Refresh Sample_Confirmation
begin

text \<open>
  A concrete refresh: a market order is reviewed at ten times leverage, and the account has five by
  the time it is confirmed.
\<close>

definition sample_order_review :: ActionReviewSnapshot where
  "sample_order_review =
     (case createActionReview (env_caps sample_env) (env_getAddress sample_env) sample_binding (IntN 3)
        sample_market_order None of Inr r \<Rightarrow> r)"

lemma sample_order_reviewed:
  "createActionReview (env_caps sample_env) (env_getAddress sample_env) sample_binding (IntN 3) sample_market_order None =
     Inr sample_order_review"
proof -
  have "succeeds (createActionReview (env_caps sample_env) (env_getAddress sample_env) sample_binding (IntN 3)
      sample_market_order None)" by code_simp
  then show ?thesis by (auto simp: succeeds_iff sample_order_review_def)
qed

definition sample_perp :: Market where
  "sample_perp = PerpMarket
     \<lparr>bm_canonicalId = ''perp:BTC'', bm_displaySymbol = ''BTC'', bm_coin = ''BTC'', bm_universeIndex = IntN 7,
      bm_orderAssetId = IntN 7, bm_lifecycle = Active, bm_orderAvailability = Enabled, bm_validationReasons = [],
      bm_context = \<lparr>mc_dayNtlVlm = None, mc_dayBaseVlm = None, mc_funding = None, mc_impactPxs = None,
        mc_markPx = Some ''101'', mc_midPx = Some ''100'', mc_openInterest = None, mc_oraclePx = None,
        mc_premium = None, mc_prevDayPx = None\<rparr>\<rparr>
     \<lparr>pd_dexIndex = IntN 0, pd_dexName = [], pd_dexFullName = None, pd_sizeDecimals = IntN 2,
      pd_pricePrecision = \<lparr>maxSignificantFigures = IntN 5, maxDecimalPlaces = IntN 4\<rparr>,
      pd_maxLeverage = IntN 20, pd_onlyIsolated = False, pd_marginMode = None, pd_marginTableId = None\<rparr>"

definition sample_account_reads :: exchange_reads where
  "sample_account_reads = sample_reads
     \<lparr>xr_catalog := (\<lambda>_. Inr [sample_perp]),
      xr_clearinghouse := (\<lambda>_ _. Inr \<lparr>cs_positions = [], cs_crossMaintenanceMarginUsed = ''0'',
        cs_crossMarginSummary = \<lparr>ms_accountValue = ''0'', ms_totalNtlPos = ''0'', ms_totalRawUsd = ''0'', ms_totalMarginUsed = ''0''\<rparr>,
        cs_marginSummary = \<lparr>ms_accountValue = ''0'', ms_totalNtlPos = ''0'', ms_totalRawUsd = ''0'', ms_totalMarginUsed = ''0''\<rparr>,
        cs_time = IntN 1, cs_withdrawable = ''0''\<rparr>),
      xr_activeAsset := (\<lambda>_ _. Inr \<lparr>aa_user = sample_account, aa_coin = ''BTC'',
        aa_leverage = \<lparr>pl_type = Cross, pl_value = IntN 5, pl_rawUsd = None\<rparr>, aa_maxTradeSizes = (''9'', ''9''),
        aa_availableToTrade = (''50.5'', ''50.5''), aa_markPrice = ''101''\<rparr>)\<rparr>"

definition sample_present :: CurrentActionContext where
  "sample_present =
     \<lparr>cur_context = \<lparr>tc_network = Testnet, tc_masterAccount = Some sample_account, tc_targetAccount = Some sample_account,
        tc_signer = Some \<lparr>si_agentAddress = sample_agent, si_generation = 1\<rparr>\<rparr>, cur_epoch = IntN 3\<rparr>"

definition sample_refreshed_input :: TradingActionValidationInput where
  "sample_refreshed_input =
     (case refreshReviewedOrder sample_env sample_account_reads (IntN 1400) (IntN 1500) sample_present sample_order_review of
        Inr input \<Rightarrow> input)"

lemma sample_refreshes:
  "refreshReviewedOrder sample_env sample_account_reads (IntN 1400) (IntN 1500) sample_present sample_order_review =
     Inr sample_refreshed_input"
proof -
  have "succeeds (refreshReviewedOrder sample_env sample_account_reads (IntN 1400) (IntN 1500) sample_present
      sample_order_review)" by code_simp
  then show ?thesis by (auto simp: succeeds_iff sample_refreshed_input_def)
qed

definition sample_snapshot :: TradeAccountSnapshot where
  "sample_snapshot = \<lparr>ts_buyFunds = ''50.5'', ts_sellFunds = ''50.5'', ts_leverage = Some (IntN 5),
     ts_marginMode = Some Cross, ts_positionSize = ''0'', ts_entryPrice = None, ts_liquidationPrice = None,
     ts_version = IntN 1, ts_observedAtMs = IntN 1400\<rparr>"

lemma sample_snapshot_loaded:
  "loadAccountSnapshot sample_account_reads (bindingTarget (rv_binding sample_order_review)) sample_perp (IntN 1400) =
     Inr sample_snapshot"
  by code_simp

theorem changed_account_refuses_the_order_witness:
  "\<not> succeeds (checkRefreshed sample_confirm_env sample_order_review sample_refreshed_input)"
proof (rule changed_account_refuses_the_order [OF sample_order_reviewed _ _ _ _ _ sample_snapshot_loaded])
  show "intent_side (v_intent (rv_validated sample_order_review)) \<noteq> None" by code_simp
  show "refreshReviewedOrder (oc_repo sample_confirm_env) sample_account_reads (IntN 1400) (IntN 1500) sample_present
      sample_order_review = Inr sample_refreshed_input"
    using sample_refreshes by simp
  show "xr_catalog sample_account_reads (catalogScopeForReview sample_order_review) = Inr [sample_perp]"
    "sample_perp \<in> set [sample_perp]"
    by (simp_all add: sample_account_reads_def)
  show "bm_canonicalId (base sample_perp) = v_marketCanonicalId (rv_validated sample_order_review)" by code_simp
  show "\<not> sameReviewedAccount sample_order_review sample_perp sample_snapshot" by code_simp
qed

end
