(* ===== verification/Streams.thy ===== *)
theory Streams
  imports Js_Value Machines "HOL-Library.AList"
begin

text \<open>
  The manager of the foreground streams (\<^verbatim>\<open>apps/mobile/src/core/streams/manager.ts\<close>). A
  generation is one connection with a state per subscription; every change of the environment and
  every failure starts another one. What is read over HTTP, the baseline, is applied first; messages
  that come before it wait in a bounded buffer, and a gap in their sequence asks for another baseline.

  The closures of the code hold their run, so what they do later is an event that carries the
  generation of the run; a run is identified by its generation, since \<open>startGeneration\<close> is only
  called with a new one. An \<^verbatim>\<open>async\<close> function is split at its awaits. What the manager calls
  is listed in the order of the calls; these calls neither throw nor call the manager back. Sequence
  numbers and delays are integers, \<open>random\<close> is an argument of the step.
\<close>

section \<open>Data\<close>

record ManagedStreamSubscription =
  sub_key :: string
  sub_wire :: js_value

record ManagedStreamBaseline =
  base_sequence :: "int option"
  base_data :: js_value

record ManagedStreamMessage =
  msg_key :: string
  msg_sequence :: "int option"
  stableId :: string
  msg_data :: js_value
  isSnapshot :: "bool option"

record stream_options =
  heartbeatMs :: int
  reconnectBaseMs :: int
  reconnectMaxMs :: int
  maxReconnectAttempts :: nat
  maxResyncAttempts :: nat
  maxBufferedMessages :: nat

definition default_stream_options :: stream_options where
  "default_stream_options =
     \<lparr>heartbeatMs = 45000, reconnectBaseMs = 500, reconnectMaxMs = 30000,
      maxReconnectAttempts = 8, maxResyncAttempts = 2, maxBufferedMessages = 256\<rparr>"

text \<open>
  The promise of a rebaseline: it waits for its \<open>n\<close>-th baseline, or its function has ended, by
  returning or by throwing, and its \<^verbatim>\<open>finally\<close> has not run yet.
\<close>

datatype baseline_operation =
    AwaitingBaseline nat
  | OperationEnded "string option"

record SubscriptionRunState =
  run_subscription :: ManagedStreamSubscription
  lastSequence :: "int option"
  seenIds :: "string list" \<comment> \<open>the elements of the set, oldest first\<close>
  buffer :: "ManagedStreamMessage list"
  bufferOverflowed :: bool
  baselineReady :: bool
  baselinePromise :: "baseline_operation option"

record GenerationRun =
  run_generation :: nat
  run_aborted :: bool
  run_states :: "(string \<times> SubscriptionRunState) list"
  run_connected :: bool
  subscriptionCleanups :: "string list"
  disconnectCleanup :: bool
  heartbeatTimer :: bool
  run_failed :: bool
  run_awaiting :: "string list option" \<comment> \<open>what \<^verbatim>\<open>Promise.all\<close> waits for\<close>
  run_rejections :: "string list" \<comment> \<open>errors on their way to \<open>failRun\<close>\<close>

record stream_manager =
  sm_subscriptions :: "ManagedStreamSubscription list"
  sm_foreground :: bool
  sm_online :: bool
  sm_generation :: nat
  sm_currentRun :: "GenerationRun option"
  sm_reconnectTimer :: "nat option" \<comment> \<open>the generation its callback holds\<close>
  sm_reconnectAttempts :: nat
  sm_closed :: bool
  sm_connecting :: "nat list" \<comment> \<open>generations whose connection has not answered yet\<close>

datatype stream_effect =
    Connect nat
  | CloseConnection nat
  | AbortRun nat
  | Subscribe nat string
  | Unsubscribe nat string
  | LoadBaseline nat string
  | ApplyBaseline nat string ManagedStreamBaseline
  | ApplyDelta nat string ManagedStreamMessage
  | ScheduleHeartbeat nat int
  | CancelHeartbeat nat
  | Ping nat
  | ScheduleReconnect nat int
  | CancelReconnect
  | RemoveDisconnect nat
  | OnError string

definition initial_manager :: stream_manager where
  "initial_manager =
     \<lparr>sm_subscriptions = [], sm_foreground = False, sm_online = False, sm_generation = 0,
      sm_currentRun = None, sm_reconnectTimer = None, sm_reconnectAttempts = 0, sm_closed = False,
      sm_connecting = []\<rparr>"

section \<open>Runs\<close>

definition eligible :: "stream_manager \<Rightarrow> bool" where
  "eligible m \<longleftrightarrow> \<not> sm_closed m \<and> sm_foreground m \<and> sm_online m \<and> sm_subscriptions m \<noteq> []"

definition isCurrent_generation :: "nat \<Rightarrow> stream_manager \<Rightarrow> bool" where
  "isCurrent_generation g m \<longleftrightarrow>
     (case sm_currentRun m of
        None \<Rightarrow> False
      | Some r \<Rightarrow> run_generation r = g \<and> g = sm_generation m \<and> \<not> run_aborted r \<and> eligible m)"

definition teardownRun :: "GenerationRun option \<Rightarrow> stream_effect list" where
  "teardownRun r =
     (case r of
        None \<Rightarrow> []
      | Some r \<Rightarrow>
          (let g = run_generation r in
           [AbortRun g] @ (if heartbeatTimer r then [CancelHeartbeat g] else []) @
           (if disconnectCleanup r then [RemoveDisconnect g] else []) @
           map (Unsubscribe g) (subscriptionCleanups r) @
           (if run_connected r then [CloseConnection g] else [])))"

definition advanceGeneration :: "stream_manager \<Rightarrow> stream_effect list \<times> stream_manager" where
  "advanceGeneration m =
     ((if sm_reconnectTimer m \<noteq> None then [CancelReconnect] else []) @ teardownRun (sm_currentRun m),
      m\<lparr>sm_generation := sm_generation m + 1, sm_reconnectTimer := None, sm_currentRun := None\<rparr>)"

section \<open>Messages\<close>

definition rememberId :: "string \<Rightarrow> SubscriptionRunState \<Rightarrow> SubscriptionRunState" where
  "rememberId i s =
     (let ids = (if i \<in> set (seenIds s) then seenIds s else seenIds s @ [i]) in
      s\<lparr>seenIds := (if length ids \<le> 256 then ids else tl ids)\<rparr>)"

definition bufferMessage :: "stream_options \<Rightarrow> ManagedStreamMessage \<Rightarrow> SubscriptionRunState \<Rightarrow> SubscriptionRunState" where
  "bufferMessage cfg msg s =
     (if length (buffer s) \<ge> maxBufferedMessages cfg
      then s\<lparr>buffer := tl (buffer s) @ [msg], bufferOverflowed := True\<rparr>
      else s\<lparr>buffer := buffer s @ [msg]\<rparr>)"

datatype delivery = Applied | Ignored | Gap

text \<open>A rebaseline runs up to its first await at once.\<close>

definition rebaseline :: "nat \<Rightarrow> bool \<Rightarrow> SubscriptionRunState \<Rightarrow> stream_effect list \<times> SubscriptionRunState" where
  "rebaseline g current s =
     (if baselinePromise s \<noteq> None then ([], s)
      else if current
      then ([LoadBaseline g (sub_key (run_subscription s))],
            s\<lparr>baselineReady := False, baselinePromise := Some (AwaitingBaseline 1)\<rparr>)
      else ([], s\<lparr>baselineReady := False, baselinePromise := Some (OperationEnded None)\<rparr>))"

definition processReadyMessage ::
  "stream_options \<Rightarrow> nat \<Rightarrow> bool \<Rightarrow> bool \<Rightarrow> ManagedStreamMessage \<Rightarrow> SubscriptionRunState
     \<Rightarrow> delivery \<times> stream_effect list \<times> SubscriptionRunState" where
  "processReadyMessage cfg g current allowRebaseline msg s =
     (let applied = (\<lambda>s. (Applied, [ApplyDelta g (msg_key msg) msg], rememberId (stableId msg) s)) in
      if \<not> current \<or> stableId msg \<in> set (seenIds s) then (Ignored, [], s)
      else case (msg_sequence msg, lastSequence s) of
        (Some n, Some l) \<Rightarrow>
          if n \<le> l then (Ignored, [], s)
          else if n \<noteq> l + 1
          then if allowRebaseline
               then let (effects, s') = rebaseline g current (bufferMessage cfg msg (s\<lparr>baselineReady := False\<rparr>))
                    in (Gap, effects, s')
               else (Gap, [], s)
          else applied (s\<lparr>lastSequence := Some n\<rparr>)
      | (Some n, None) \<Rightarrow> applied (s\<lparr>lastSequence := Some n\<rparr>)
      | (None, _) \<Rightarrow> applied s)"

text \<open>The buffered messages after a baseline, and whether a gap remains.\<close>

fun replayBuffered ::
  "stream_options \<Rightarrow> nat \<Rightarrow> bool \<Rightarrow> ManagedStreamMessage list \<Rightarrow> SubscriptionRunState
     \<Rightarrow> bool \<times> stream_effect list \<times> SubscriptionRunState" where
  "replayBuffered cfg g current [] s = (False, [], s)"
| "replayBuffered cfg g current (msg # msgs) s =
     (if \<not> baselineReady s \<or> \<not> current
      then replayBuffered cfg g current msgs (bufferMessage cfg msg s)
      else case processReadyMessage cfg g current False msg s of
        (d, effects, s1) \<Rightarrow>
          (case replayBuffered cfg g current msgs (if d = Gap then bufferMessage cfg msg s1 else s1) of
             (gap, later, s2) \<Rightarrow> (d = Gap \<or> gap, effects @ later, s2)))"

definition discontinuous :: "string \<Rightarrow> nat \<Rightarrow> string" where
  "discontinuous key attempts =
     ''Stream '' @ key @ '' remained discontinuous after '' @ show_nat attempts @ '' baselines.''"

text \<open>A baseline has been loaded: the body of the loop, up to the next await or the end.\<close>

definition nextAttempt_baseline :: "nat \<Rightarrow> bool \<Rightarrow> nat \<Rightarrow> SubscriptionRunState \<Rightarrow> stream_effect list \<times> SubscriptionRunState" where
  "nextAttempt_baseline g current attempts s =
     (if current
      then ([LoadBaseline g (sub_key (run_subscription s))],
            s\<lparr>baselinePromise := Some (AwaitingBaseline (attempts + 1))\<rparr>)
      else ([], s\<lparr>baselinePromise := Some (OperationEnded None)\<rparr>))"

definition baselineLoaded ::
  "stream_options \<Rightarrow> nat \<Rightarrow> bool \<Rightarrow> nat \<Rightarrow> ManagedStreamBaseline \<Rightarrow> SubscriptionRunState
     \<Rightarrow> stream_effect list \<times> SubscriptionRunState" where
  "baselineLoaded cfg g current attempts baseline s =
     (if \<not> current then ([], s\<lparr>baselinePromise := Some (OperationEnded None)\<rparr>)
      else
        let key = sub_key (run_subscription s);
            buffered = buffer s;
            overflowed = bufferOverflowed s;
            s1 = s\<lparr>lastSequence := base_sequence baseline, seenIds := [], buffer := [],
                   bufferOverflowed := False\<rparr>;
            apply_it = ApplyBaseline g key baseline
        in if overflowed
           then let (effects, s2) = nextAttempt_baseline g current attempts s1 in (apply_it # effects, s2)
           else case replayBuffered cfg g current buffered (s1\<lparr>baselineReady := True\<rparr>) of
             (persistentGap, effects, s2) \<Rightarrow>
               if persistentGap
               then let s3 = s2\<lparr>baselineReady := False\<rparr> in
                 if attempts \<ge> maxResyncAttempts cfg
                 then (apply_it # effects,
                       s3\<lparr>baselinePromise := Some (OperationEnded (Some (discontinuous key attempts)))\<rparr>)
                 else let (loads, s4) = nextAttempt_baseline g current attempts s3 in (apply_it # effects @ loads, s4)
               else (apply_it # effects, s2\<lparr>baselinePromise := Some (OperationEnded None)\<rparr>))"

section \<open>Connecting and failing\<close>

definition fresh_state :: "ManagedStreamSubscription \<Rightarrow> SubscriptionRunState" where
  "fresh_state sub =
     \<lparr>run_subscription = sub, lastSequence = None, seenIds = [], buffer = [], bufferOverflowed = False,
      baselineReady = False, baselinePromise = None\<rparr>"

definition startGeneration :: "nat \<Rightarrow> stream_manager \<Rightarrow> stream_effect list \<times> stream_manager" where
  "startGeneration g m =
     ([Connect g],
      m\<lparr>sm_currentRun := Some
          \<lparr>run_generation = g, run_aborted = False, run_states = [], run_connected = False,
           subscriptionCleanups = [], disconnectCleanup = False, heartbeatTimer = False,
           run_failed = False, run_awaiting = None, run_rejections = []\<rparr>,
        sm_connecting := g # sm_connecting m\<rparr>)"

definition reconnect_delay :: "stream_options \<Rightarrow> rat \<Rightarrow> nat \<Rightarrow> int" where
  "reconnect_delay cfg random attempts =
     (let exponential = min (reconnectMaxMs cfg) (reconnectBaseMs cfg * 2 ^ attempts);
          jitter = \<lfloor>random * min 1000 (of_int exponential / 2)\<rfloor>
      in exponential + jitter)"

definition scheduleReconnect ::
  "stream_options \<Rightarrow> rat \<Rightarrow> nat \<Rightarrow> stream_manager \<Rightarrow> stream_effect list \<times> stream_manager" where
  "scheduleReconnect cfg random g m =
     (if g \<noteq> sm_generation m \<or> \<not> eligible m \<or> sm_reconnectAttempts m \<ge> maxReconnectAttempts cfg
      then ([], m)
      else ([ScheduleReconnect g (reconnect_delay cfg random (sm_reconnectAttempts m))],
            m\<lparr>sm_reconnectAttempts := sm_reconnectAttempts m + 1, sm_reconnectTimer := Some g\<rparr>))"

definition reconnectDue :: "stream_manager \<Rightarrow> stream_effect list \<times> stream_manager" where
  "reconnectDue m =
     (case sm_reconnectTimer m of
        None \<Rightarrow> ([], m)
      | Some g \<Rightarrow>
          let m1 = m\<lparr>sm_reconnectTimer := None\<rparr> in
          if g \<noteq> sm_generation m1 \<or> \<not> eligible m1 then ([], m1)
          else let (torn, m2) = advanceGeneration m1;
                   (started, m3) = startGeneration (sm_generation m2) m2
               in (torn @ started, m3))"

definition failRun :: "stream_options \<Rightarrow> rat \<Rightarrow> nat \<Rightarrow> string \<Rightarrow> stream_manager \<Rightarrow> stream_effect list \<times> stream_manager" where
  "failRun cfg random g e m =
     (if \<not> isCurrent_generation g m \<or> (case sm_currentRun m of Some r \<Rightarrow> run_failed r | None \<Rightarrow> False) then ([], m)
      else let (torn, m1) = advanceGeneration m;
               (scheduled, m2) = scheduleReconnect cfg random (sm_generation m1) m1
           in (OnError e # torn @ scheduled, m2))"

definition scheduleHeartbeat :: "stream_options \<Rightarrow> GenerationRun \<Rightarrow> stream_effect list \<times> GenerationRun" where
  "scheduleHeartbeat cfg r =
     ([ScheduleHeartbeat (run_generation r) (heartbeatMs cfg)], r\<lparr>heartbeatTimer := True\<rparr>)"

definition heartbeatDue :: "stream_options \<Rightarrow> rat \<Rightarrow> nat \<Rightarrow> string option \<Rightarrow> stream_manager \<Rightarrow> stream_effect list \<times> stream_manager" where
  "heartbeatDue cfg random g failure m =
     (case sm_currentRun m of
        None \<Rightarrow> ([], m)
      | Some r \<Rightarrow>
          if \<not> isCurrent_generation g m \<or> \<not> run_connected r \<or> \<not> heartbeatTimer r then ([], m)
          else case failure of
            Some e \<Rightarrow> let (effects, m') = failRun cfg random g e m in (Ping g # effects, m')
          | None \<Rightarrow>
              let (effects, r') = scheduleHeartbeat cfg (r\<lparr>heartbeatTimer := False\<rparr>)
              in (Ping g # effects, m\<lparr>sm_currentRun := Some r'\<rparr>))"

text \<open>Every initial rebaseline, in the order of the subscriptions.\<close>

fun rebaselineAll ::
  "nat \<Rightarrow> (string \<times> SubscriptionRunState) list \<Rightarrow> stream_effect list \<times> (string \<times> SubscriptionRunState) list" where
  "rebaselineAll g [] = ([], [])"
| "rebaselineAll g ((key, s) # rest) =
     (let (effects, s') = rebaseline g True s; (later, rest') = rebaselineAll g rest
      in (effects @ later, (key, s') # rest'))"

definition connected :: "stream_options \<Rightarrow> nat \<Rightarrow> bool \<Rightarrow> stream_manager \<Rightarrow> stream_effect list \<times> stream_manager" where
  "connected cfg g watchesDisconnect m =
     (if g \<notin> set (sm_connecting m) then ([], m)
      else
        let m1 = m\<lparr>sm_connecting := removeAll g (sm_connecting m)\<rparr> in
        case sm_currentRun m1 of
          Some r \<Rightarrow>
            if \<not> isCurrent_generation g m1 then ([CloseConnection g], m1)
            else
              let subs = sm_subscriptions m1;
                  states = fold (\<lambda>sub. AList.update (sub_key sub) (fresh_state sub)) subs [];
                  r1 = r\<lparr>run_connected := True, subscriptionCleanups := map sub_key subs,
                         disconnectCleanup := watchesDisconnect\<rparr>;
                  (beat, r2) = scheduleHeartbeat cfg r1;
                  (loads, states') = rebaselineAll g states
              in (map (Subscribe g \<circ> sub_key) subs @ beat @ loads,
                  m1\<lparr>sm_currentRun := Some (r2\<lparr>run_states := states', run_awaiting := Some (map fst states')\<rparr>)\<rparr>)
        | None \<Rightarrow> ([CloseConnection g], m1))"

definition connectFailed :: "stream_options \<Rightarrow> rat \<Rightarrow> nat \<Rightarrow> string \<Rightarrow> stream_manager \<Rightarrow> stream_effect list \<times> stream_manager" where
  "connectFailed cfg random g e m =
     (if g \<notin> set (sm_connecting m) then ([], m)
      else failRun cfg random g e (m\<lparr>sm_connecting := removeAll g (sm_connecting m)\<rparr>))"

definition restartIfEligible :: "stream_manager \<Rightarrow> stream_effect list \<times> stream_manager" where
  "restartIfEligible m =
     (let (torn, m1) = advanceGeneration m in
      if \<not> eligible m1 then (torn, m1)
      else let (started, m2) = startGeneration (sm_generation m1) m1 in (torn @ started, m2))"

section \<open>The state of one subscription of the current run\<close>

definition on_state ::
  "nat \<Rightarrow> string \<Rightarrow> (GenerationRun \<Rightarrow> SubscriptionRunState \<Rightarrow> stream_effect list \<times> SubscriptionRunState)
     \<Rightarrow> stream_manager \<Rightarrow> stream_effect list \<times> stream_manager" where
  "on_state g key f m =
     (case sm_currentRun m of
        None \<Rightarrow> ([], m)
      | Some r \<Rightarrow>
          if \<not> isCurrent_generation g m then ([], m)
          else case map_of (run_states r) key of
            None \<Rightarrow> ([], m)
          | Some s \<Rightarrow>
              let (effects, s') = f r s in
              (effects, m\<lparr>sm_currentRun := Some (r\<lparr>run_states := AList.update key s' (run_states r)\<rparr>)\<rparr>))"

definition handleMessage ::
  "stream_options \<Rightarrow> nat \<Rightarrow> ManagedStreamMessage \<Rightarrow> stream_manager \<Rightarrow> stream_effect list \<times> stream_manager" where
  "handleMessage cfg g msg m =
     (if isSnapshot msg = Some True then ([], m)
      else on_state g (msg_key msg) (\<lambda>r s.
        if \<not> baselineReady s then ([], bufferMessage cfg msg s)
        else let (d, effects, s') = processReadyMessage cfg g True True msg s in (effects, s')) m)"

text \<open>The answers to \<open>loadBaseline\<close>, and the end of the operation.\<close>

definition baselineAnswered ::
  "stream_options \<Rightarrow> nat \<Rightarrow> string \<Rightarrow> string + ManagedStreamBaseline \<Rightarrow> stream_manager
     \<Rightarrow> stream_effect list \<times> stream_manager" where
  "baselineAnswered cfg g key answer m =
     on_state g key (\<lambda>r s.
       case baselinePromise s of
         Some (AwaitingBaseline attempts) \<Rightarrow>
           (case answer of
              Inl e \<Rightarrow> ([], s\<lparr>baselinePromise := Some (OperationEnded (Some e))\<rparr>)
            | Inr baseline \<Rightarrow> baselineLoaded cfg g True attempts baseline s)
       | _ \<Rightarrow> ([], s)) m"

definition operationEnded :: "nat \<Rightarrow> string \<Rightarrow> stream_manager \<Rightarrow> stream_effect list \<times> stream_manager" where
  "operationEnded g key m =
     (case sm_currentRun m of
        None \<Rightarrow> ([], m)
      | Some r \<Rightarrow>
          if \<not> isCurrent_generation g m then ([], m)
          else case map_of (run_states r) key of
            None \<Rightarrow> ([], m)
          | Some s \<Rightarrow>
              (case baselinePromise s of
                 Some (OperationEnded failure) \<Rightarrow>
                   ([], m\<lparr>sm_currentRun := Some (r\<lparr>
                      run_states := AList.update key (s\<lparr>baselinePromise := None\<rparr>) (run_states r),
                      run_awaiting :=
                        (case run_awaiting r of
                           None \<Rightarrow> None
                         | Some keys \<Rightarrow>
                             if key \<in> set keys \<and> failure \<noteq> None then None else Some (removeAll key keys)),
                      run_rejections := run_rejections r @ (case failure of None \<Rightarrow> [] | Some e \<Rightarrow> [e])\<rparr>)\<rparr>)
               | _ \<Rightarrow> ([], m)))"

definition rejected :: "stream_options \<Rightarrow> rat \<Rightarrow> nat \<Rightarrow> stream_manager \<Rightarrow> stream_effect list \<times> stream_manager" where
  "rejected cfg random g m =
     (case sm_currentRun m of
        None \<Rightarrow> ([], m)
      | Some r \<Rightarrow>
          if \<not> isCurrent_generation g m then ([], m)
          else case run_rejections r of [] \<Rightarrow> ([], m) | e # es \<Rightarrow> failRun cfg random g e m)"

definition initialized :: "nat \<Rightarrow> stream_manager \<Rightarrow> stream_effect list \<times> stream_manager" where
  "initialized g m =
     (case sm_currentRun m of
        None \<Rightarrow> ([], m)
      | Some r \<Rightarrow>
          if isCurrent_generation g m \<and> run_awaiting r = Some []
          then ([], m\<lparr>sm_reconnectAttempts := 0, sm_currentRun := Some (r\<lparr>run_awaiting := None\<rparr>)\<rparr>)
          else ([], m))"

section \<open>Operations and events\<close>

definition setSubscriptions :: "ManagedStreamSubscription list \<Rightarrow> stream_manager \<Rightarrow> stream_effect list \<times> stream_manager" where
  "setSubscriptions subs m =
     (let m1 = m\<lparr>sm_subscriptions := subs\<rparr> in
      if eligible m1 then restartIfEligible m1
      else if sm_currentRun m1 \<noteq> None then advanceGeneration m1
      else ([], m1))"

definition setEnvironment :: "bool \<Rightarrow> bool \<Rightarrow> stream_manager \<Rightarrow> stream_effect list \<times> stream_manager" where
  "setEnvironment foreground online m =
     (if sm_foreground m = foreground \<and> sm_online m = online then ([], m)
      else restartIfEligible (m\<lparr>sm_foreground := foreground, sm_online := online\<rparr>))"

definition close :: "stream_manager \<Rightarrow> stream_effect list \<times> stream_manager" where
  "close m = advanceGeneration (m\<lparr>sm_closed := True\<rparr>)"

datatype stream_event =
    SetSubscriptions "ManagedStreamSubscription list"
  | SetEnvironment bool bool
  | CloseManager
  | Connected nat bool
  | ConnectFailed nat string
  | Disconnected nat string
  | MessageArrived nat ManagedStreamMessage
  | BaselineAnswered nat string "string + ManagedStreamBaseline"
  | BaselineOperationEnded nat string
  | RebaselineRejected nat
  | AllBaselinesLoaded nat
  | HeartbeatDue nat "string option"
  | ReconnectDue

definition disconnected :: "stream_options \<Rightarrow> rat \<Rightarrow> nat \<Rightarrow> string \<Rightarrow> stream_manager \<Rightarrow> stream_effect list \<times> stream_manager" where
  "disconnected cfg random g e m =
     (case sm_currentRun m of
        Some r \<Rightarrow> if disconnectCleanup r then failRun cfg random g e m else ([], m)
      | None \<Rightarrow> ([], m))"

fun stream_step :: "stream_options \<Rightarrow> rat \<times> stream_event \<Rightarrow> stream_manager \<Rightarrow> stream_effect list \<times> stream_manager" where
  "stream_step cfg (random, SetSubscriptions subs) m = setSubscriptions subs m"
| "stream_step cfg (random, SetEnvironment foreground online) m = setEnvironment foreground online m"
| "stream_step cfg (random, CloseManager) m = close m"
| "stream_step cfg (random, Connected g watches) m = connected cfg g watches m"
| "stream_step cfg (random, ConnectFailed g e) m = connectFailed cfg random g e m"
| "stream_step cfg (random, Disconnected g e) m = disconnected cfg random g e m"
| "stream_step cfg (random, MessageArrived g msg) m = handleMessage cfg g msg m"
| "stream_step cfg (random, BaselineAnswered g key answer) m = baselineAnswered cfg g key answer m"
| "stream_step cfg (random, BaselineOperationEnded g key) m = operationEnded g key m"
| "stream_step cfg (random, RebaselineRejected g) m = rejected cfg random g m"
| "stream_step cfg (random, AllBaselinesLoaded g) m = initialized g m"
| "stream_step cfg (random, HeartbeatDue g failure) m = heartbeatDue cfg random g failure m"
| "stream_step cfg (random, ReconnectDue) m = reconnectDue m"

end
