(* ===== verification/Stream_Laws.thy ===== *)
theory Stream_Laws
  imports Streams
begin

text \<open>
  What the consumers of a stream see. The specification is an automaton that reads the calls the
  manager makes: generations are opened one after another, nothing is applied outside the open one,
  a stream starts with a baseline, its sequenced messages then follow without a gap, and none of the
  last 256 messages since the baseline is applied again. Every run of the manager is accepted.
\<close>

section \<open>The specification\<close>

record feed =
  feed_opened :: nat
  feed_live :: "nat option"
  feed_marks :: "string \<Rightarrow> (int option \<times> string list) option"

definition initial_feed :: feed where
  "initial_feed = \<lparr>feed_opened = 0, feed_live = None, feed_marks = (\<lambda>_. None)\<rparr>"

definition next_in_sequence :: "int option \<Rightarrow> int option \<Rightarrow> bool" where
  "next_in_sequence latest n = (case (latest, n) of (Some l, Some k) \<Rightarrow> k = l + 1 | _ \<Rightarrow> True)"

fun feed_step :: "stream_effect \<Rightarrow> feed \<Rightarrow> feed option" where
  "feed_step (Connect g) f =
     (if feed_live f = None \<and> feed_opened f < g
      then Some \<lparr>feed_opened = g, feed_live = Some g, feed_marks = (\<lambda>_. None)\<rparr> else None)"
| "feed_step (AbortRun g) f = (if feed_live f = Some g then Some (f\<lparr>feed_live := None\<rparr>) else None)"
| "feed_step (LoadBaseline g key) f = (if feed_live f = Some g then Some f else None)"
| "feed_step (ApplyBaseline g key baseline) f =
     (if feed_live f = Some g
      then Some (f\<lparr>feed_marks := (feed_marks f)(key \<mapsto> (base_sequence baseline, []))\<rparr>) else None)"
| "feed_step (ApplyDelta g key msg) f =
     (case feed_marks f key of
        None \<Rightarrow> None
      | Some (latest, ids) \<Rightarrow>
          if feed_live f = Some g \<and> msg_key msg = key \<and> isSnapshot msg \<noteq> Some True \<and>
             stableId msg \<notin> set (take 256 ids) \<and> next_in_sequence latest (msg_sequence msg)
          then Some (f\<lparr>feed_marks := (feed_marks f)(key \<mapsto>
                 (if msg_sequence msg = None then latest else msg_sequence msg, stableId msg # ids))\<rparr>)
          else None)"
| "feed_step _ f = Some f"

fun feed_run :: "stream_effect list \<Rightarrow> feed \<Rightarrow> feed option" where
  "feed_run [] f = Some f"
| "feed_run (e # es) f = (case feed_step e f of None \<Rightarrow> None | Some f' \<Rightarrow> feed_run es f')"

lemma feed_run_append [simp]:
  "feed_run (xs @ ys) f = (case feed_run xs f of None \<Rightarrow> None | Some f' \<Rightarrow> feed_run ys f')"
  by (induction xs arbitrary: f) (auto split: option.splits)

section \<open>The relation between a state and its specification\<close>

definition follows :: "string \<Rightarrow> (int option \<times> string list) option \<Rightarrow> SubscriptionRunState \<Rightarrow> bool" where
  "follows key mark s \<longleftrightarrow>
     sub_key (run_subscription s) = key \<and>
     (\<forall>msg \<in> set (buffer s). msg_key msg = key \<and> isSnapshot msg \<noteq> Some True) \<and>
     (case mark of
        None \<Rightarrow> \<not> baselineReady s
      | Some (latest, ids) \<Rightarrow> lastSequence s = latest \<and> seenIds s = rev (take 256 ids))"

definition states_follow :: "(string \<times> SubscriptionRunState) list \<Rightarrow> feed \<Rightarrow> bool" where
  "states_follow states f \<longleftrightarrow>
     (\<forall>key. case map_of states key of
        None \<Rightarrow> feed_marks f key = None
      | Some s \<Rightarrow> follows key (feed_marks f key) s)"

definition refines :: "stream_manager \<Rightarrow> feed \<Rightarrow> bool" where
  "refines m f \<longleftrightarrow>
     feed_opened f \<le> sm_generation m \<and> (\<forall>g \<in> set (sm_connecting m). g \<le> sm_generation m) \<and>
     feed_live f = map_option run_generation (sm_currentRun m) \<and>
     (case sm_currentRun m of
        None \<Rightarrow> True
      | Some r \<Rightarrow>
          run_generation r = sm_generation m \<and> eligible m \<and> \<not> run_aborted r \<and> \<not> run_failed r \<and>
          (run_connected r \<longrightarrow> run_generation r \<notin> set (sm_connecting m)) \<and>
          (\<not> run_connected r \<longrightarrow> run_states r = []) \<and>
          states_follow (run_states r) f)"

text \<open>A step on one state moves the specification of its key only.\<close>

definition moves :: "nat \<Rightarrow> string \<Rightarrow> stream_effect list \<Rightarrow> SubscriptionRunState \<Rightarrow> feed \<Rightarrow> bool" where
  "moves g key effects s' f \<longleftrightarrow>
     (\<exists>mark. feed_run effects f = Some (f\<lparr>feed_marks := (feed_marks f)(key := mark)\<rparr>) \<and> follows key mark s')"

lemma moves_nothing: "follows key (feed_marks f key) s' \<Longrightarrow> moves g key [] s' f"
  by (auto simp: moves_def intro!: exI [of _ "feed_marks f key"])

lemma moves_load:
  "follows key (feed_marks f key) s' \<Longrightarrow> feed_live f = Some g \<Longrightarrow> moves g key [LoadBaseline g k] s' f"
  by (auto simp: moves_def intro!: exI [of _ "feed_marks f key"])

lemma moves_trans:
  assumes "moves g key xs s f"
    and "\<And>f'. feed_live f' = feed_live f \<Longrightarrow> follows key (feed_marks f' key) s \<Longrightarrow> moves g key ys s' f'"
  shows "moves g key (xs @ ys) s' f"
proof -
  from assms(1) obtain mark where m: "feed_run xs f = Some (f\<lparr>feed_marks := (feed_marks f)(key := mark)\<rparr>)"
    "follows key mark s"
    by (auto simp: moves_def)
  from assms(2) [of "f\<lparr>feed_marks := (feed_marks f)(key := mark)\<rparr>"] m show ?thesis
    by (auto simp: moves_def)
qed

lemma moves_mono:
  "moves g key effects s f \<Longrightarrow> (\<And>mark. follows key mark s \<Longrightarrow> follows key mark s') \<Longrightarrow> moves g key effects s' f"
  unfolding moves_def by blast

lemma follows_update [simp]:
  "follows key mark (s\<lparr>baselinePromise := p\<rparr>) = follows key mark s"
  "follows key mark (s\<lparr>bufferOverflowed := b\<rparr>) = follows key mark s"
  by (simp_all add: follows_def split: option.splits)

lemma follows_not_ready: "follows key mark s \<Longrightarrow> follows key mark (s\<lparr>baselineReady := False\<rparr>)"
  by (auto simp: follows_def split: option.splits)

lemma follows_bufferMessage:
  assumes "follows key mark s" "msg_key msg = key" "isSnapshot msg \<noteq> Some True"
  shows "follows key mark (bufferMessage cfg msg s)"
proof -
  have "set (tl (buffer s)) \<subseteq> set (buffer s)" by (cases "buffer s") auto
  with assms show ?thesis by (auto simp: follows_def bufferMessage_def split: option.splits)
qed

lemma rebaseline_moves:
  assumes "follows key (feed_marks f key) s" "feed_live f = Some g" "rebaseline g current s = (effects, s')"
  shows "moves g key effects s' f"
  using assms by (auto simp: rebaseline_def follows_not_ready split: if_splits intro: moves_nothing moves_load)

lemma rememberId_rev:
  assumes "seenIds s = rev (take 256 ids)" "i \<notin> set (take 256 ids)"
  shows "seenIds (rememberId i s) = rev (take 256 (i # ids))"
proof (cases "length ids \<le> 255")
  case True
  with assms show ?thesis by (simp add: rememberId_def Let_def)
next
  case False
  have "take 256 ids = take 255 ids @ [ids ! 255]"
    using False take_Suc_conv_app_nth [of 255 ids] by simp
  with assms False show ?thesis by (simp add: rememberId_def Let_def)
qed

lemma rememberId_keeps [simp]:
  "run_subscription (rememberId i s) = run_subscription s" "buffer (rememberId i s) = buffer s"
  "lastSequence (rememberId i s) = lastSequence s" "baselineReady (rememberId i s) = baselineReady s"
  by (simp_all add: rememberId_def Let_def)

text \<open>A message that is applied is the next one.\<close>

lemma applied_moves:
  assumes follows: "follows key (feed_marks f key) s" and ready: "baselineReady s"
    and live: "feed_live f = Some g" and key: "msg_key msg = key" and delta: "isSnapshot msg \<noteq> Some True"
    and new: "stableId msg \<notin> set (seenIds s)"
    and sequence: "next_in_sequence (lastSequence s) (msg_sequence msg)"
    and s': "run_subscription s' = run_subscription s" "buffer s' = buffer s"
      "lastSequence s' = (if msg_sequence msg = None then lastSequence s else msg_sequence msg)"
      "seenIds s' = seenIds (rememberId (stableId msg) s)"
  shows "moves g key [ApplyDelta g key msg] s' f"
proof -
  from follows ready obtain latest ids where m: "feed_marks f key = Some (latest, ids)"
    "lastSequence s = latest" "seenIds s = rev (take 256 ids)"
    by (auto simp: follows_def split: option.splits)
  have "seenIds s' = rev (take 256 (stableId msg # ids))"
    unfolding s' by (rule rememberId_rev) (use m new in auto)
  with m assms show ?thesis
    by (auto simp: moves_def follows_def fun_upd_def intro!: exI [of _ "Some (if msg_sequence msg = None then latest else msg_sequence msg, stableId msg # ids)"])
qed

lemma processReadyMessage_cases:
  assumes "processReadyMessage cfg g current allowed msg s = (d, effects, s')"
  obtains (same) "effects = []" "s' = s"
    | (gap) "allowed" "rebaseline g current (bufferMessage cfg msg (s\<lparr>baselineReady := False\<rparr>)) = (effects, s')"
    | (applied) "stableId msg \<notin> set (seenIds s)" "next_in_sequence (lastSequence s) (msg_sequence msg)"
        "effects = [ApplyDelta g (msg_key msg) msg]" "run_subscription s' = run_subscription s"
        "buffer s' = buffer s" "baselineReady s' = baselineReady s"
        "lastSequence s' = (if msg_sequence msg = None then lastSequence s else msg_sequence msg)"
        "seenIds s' = seenIds (rememberId (stableId msg) s)"
proof (cases "\<not> current \<or> stableId msg \<in> set (seenIds s)")
  case True
  with assms same show thesis by (auto simp: processReadyMessage_def Let_def)
next
  case False
  show thesis
  proof (cases "msg_sequence msg")
    case None
    with False assms show thesis
      by (intro applied) (auto simp: processReadyMessage_def next_in_sequence_def split: option.splits)
  next
    case (Some n)
    show thesis
    proof (cases "lastSequence s")
      case None
      with Some False assms show thesis
        by (intro applied) (auto simp: processReadyMessage_def next_in_sequence_def rememberId_def Let_def)
    next
      case l: (Some l)
      consider "n \<le> l" | "n = l + 1" | "n > l" "n \<noteq> l + 1" by linarith
      then show thesis
      proof cases
        case 1
        with Some l False assms same show thesis by (auto simp: processReadyMessage_def)
      next
        case 2
        with Some l False assms show thesis
          by (intro applied) (auto simp: processReadyMessage_def next_in_sequence_def rememberId_def Let_def)
      next
        case 3
        with Some l False assms show thesis
          by (cases allowed) (auto simp: processReadyMessage_def Let_def split: prod.splits intro: gap same)
      qed
    qed
  qed
qed

lemma processReadyMessage_moves:
  assumes "follows key (feed_marks f key) s" "baselineReady s" "feed_live f = Some g"
    and "msg_key msg = key" "isSnapshot msg \<noteq> Some True"
    and "processReadyMessage cfg g current allowed msg s = (d, effects, s')"
  shows "moves g key effects s' f \<and> (\<not> allowed \<longrightarrow> baselineReady s')"
  using assms(6)
proof (cases rule: processReadyMessage_cases)
  case same
  with assms show ?thesis by (auto intro: moves_nothing)
next
  case gap
  moreover have "follows key (feed_marks f key) (bufferMessage cfg msg (s\<lparr>baselineReady := False\<rparr>))"
    using assms by (intro follows_bufferMessage follows_not_ready)
  ultimately show ?thesis using assms(3) rebaseline_moves by blast
next
  case applied
  have "moves g key [ApplyDelta g key msg] s' f"
    by (rule applied_moves [OF assms(1-5) applied(1,2,4,5,7,8)])
  with applied assms show ?thesis by simp
qed

lemma bufferMessage_ready [simp]: "baselineReady (bufferMessage cfg msg s) = baselineReady s"
  by (simp add: bufferMessage_def)

lemma replayBuffered_moves:
  assumes "follows key (feed_marks f key) s" "baselineReady s" "feed_live f = Some g"
    and "\<forall>msg \<in> set msgs. msg_key msg = key \<and> isSnapshot msg \<noteq> Some True"
    and "replayBuffered cfg g current msgs s = (gap, effects, s')"
  shows "moves g key effects s' f"
  using assms
proof (induction msgs arbitrary: s f gap effects)
  case Nil
  then show ?case by (auto intro: moves_nothing)
next
  case (Cons msg msgs)
  have msg: "msg_key msg = key" "isSnapshot msg \<noteq> Some True" using Cons.prems(4) by auto
  show ?case
  proof (cases current)
    case False
    with Cons.prems have "replayBuffered cfg g current msgs (bufferMessage cfg msg s) = (gap, effects, s')"
      by simp
    from Cons.IH [OF _ _ _ _ this] Cons.prems msg show ?thesis by (simp add: follows_bufferMessage)
  next
    case True
    obtain d now s1 where p: "processReadyMessage cfg g current False msg s = (d, now, s1)"
      by (metis prod_cases3)
    define s2 where "s2 = (if d = Gap then bufferMessage cfg msg s1 else s1)"
    obtain gap' later where rest: "replayBuffered cfg g current msgs s2 = (gap', later, s')"
      and effects: "effects = now @ later"
      using Cons.prems(2,5) True p by (auto simp: s2_def split: prod.splits)
    have m1: "moves g key now s1 f" "baselineReady s1"
      using processReadyMessage_moves [OF Cons.prems(1-3) msg p] by auto
    then have ready: "baselineReady s2" by (simp add: s2_def)
    show ?thesis
      unfolding effects
    proof (rule moves_trans [OF m1(1)])
      fix f' :: feed assume f': "feed_live f' = feed_live f" "follows key (feed_marks f' key) s1"
      then have "follows key (feed_marks f' key) s2" using msg by (simp add: s2_def follows_bufferMessage)
      from Cons.IH [OF this ready _ _ rest] f' Cons.prems(3,4) show "moves g key later s' f'" by simp
    qed
  qed
qed

lemma nextAttempt_moves:
  assumes "follows key (feed_marks f key) s" "feed_live f = Some g" "nextAttempt_baseline g current n s = (effects, s')"
  shows "moves g key effects s' f"
  using assms by (auto simp: nextAttempt_baseline_def split: if_splits intro: moves_nothing moves_load)

lemma baseline_moves:
  assumes "feed_live f = Some g" "follows key (Some (base_sequence baseline, [])) s'"
  shows "moves g key [ApplyBaseline g key baseline] s' f"
  using assms by (auto simp: moves_def)

lemma baselineLoaded_moves:
  assumes follows: "follows key (feed_marks f key) s" and live: "feed_live f = Some g"
    and run: "baselineLoaded cfg g current n baseline s = (effects, s')"
  shows "moves g key effects s' f"
proof (cases current)
  case False
  with assms show ?thesis by (auto simp: baselineLoaded_def intro: moves_nothing)
next
  case True
  define s1 where "s1 = s\<lparr>lastSequence := base_sequence baseline, seenIds := [], buffer := [],
    bufferOverflowed := False\<rparr>"
  from follows have key: "sub_key (run_subscription s) = key"
    and msgs: "\<forall>msg \<in> set (buffer s). msg_key msg = key \<and> isSnapshot msg \<noteq> Some True"
    by (auto simp: follows_def)
  then have s1: "follows key (Some (base_sequence baseline, [])) s1"
    "follows key (Some (base_sequence baseline, [])) (s1\<lparr>baselineReady := True\<rparr>)"
    by (simp_all add: follows_def s1_def)
  show ?thesis
  proof (cases "bufferOverflowed s")
    case overflowed: True
    obtain loads where l: "nextAttempt_baseline g current n s1 = (loads, s')" "effects = [ApplyBaseline g key baseline] @ loads"
      using run True overflowed key by (auto simp: baselineLoaded_def s1_def Let_def split: prod.splits)
    show ?thesis
      unfolding l(2)
      by (rule moves_trans [OF baseline_moves [OF live s1(1)]]) (use l(1) live nextAttempt_moves in auto)
  next
    case False
    obtain gap replayed s2 where r: "replayBuffered cfg g current (buffer s) (s1\<lparr>baselineReady := True\<rparr>) = (gap, replayed, s2)"
      by (metis prod_cases3)
    have replay: "moves g key ([ApplyBaseline g key baseline] @ replayed) s2 f"
      by (rule moves_trans [OF baseline_moves [OF live s1(2)]])
        (use r live msgs in \<open>auto intro!: replayBuffered_moves simp: s1_def\<close>)
    consider (ended) "effects = [ApplyBaseline g key baseline] @ replayed"
        "\<And>mark. follows key mark s2 \<Longrightarrow> follows key mark s'"
      | (again) loads where "nextAttempt_baseline g current n (s2\<lparr>baselineReady := False\<rparr>) = (loads, s')"
          "effects = ([ApplyBaseline g key baseline] @ replayed) @ loads"
      using run True False key r
      by (auto simp: baselineLoaded_def s1_def [symmetric] Let_def follows_not_ready split: prod.splits if_splits)
    then show ?thesis
    proof cases
      case ended
      with moves_mono [OF replay] show ?thesis by simp
    next
      case again
      show ?thesis
        unfolding again(2)
      proof (rule moves_trans [OF replay])
        fix f' :: feed assume "feed_live f' = feed_live f" and f': "follows key (feed_marks f' key) s2"
        with live nextAttempt_moves [OF follows_not_ready [OF f'] _ again(1)]
        show "moves g key loads s' f'" by simp
      qed
    qed
  qed
qed

section \<open>Steps of the manager\<close>

lemma feed_run_quiet:
  "\<forall>e \<in> set es. \<forall>f. feed_step e f = Some f \<Longrightarrow> feed_run es f = Some f"
  by (induction es) auto

lemma feed_run_teardown:
  assumes "feed_live f = map_option run_generation r"
  shows "feed_run (teardownRun r) f = Some (f\<lparr>feed_live := None\<rparr>)"
proof (cases r)
  case None
  with assms show ?thesis by (cases f) (simp add: teardownRun_def)
next
  case (Some r')
  have "feed_run (map (Unsubscribe g) keys) h = Some h" for g keys h by (rule feed_run_quiet) auto
  with Some assms show ?thesis by (auto simp: teardownRun_def Let_def)
qed

text \<open>Every operation is one of these, or several of them after another.\<close>

definition simulates :: "stream_manager \<Rightarrow> feed \<Rightarrow> stream_effect list \<times> stream_manager \<Rightarrow> bool" where
  "simulates m f out \<longleftrightarrow> (\<exists>f'. feed_run (fst out) f = Some f' \<and> refines (snd out) f')"

lemma simulates_nothing [intro]: "refines m f \<Longrightarrow> simulates m f ([], m)"
  by (auto simp: simulates_def)

lemma simulates_trans:
  assumes "simulates m f (xs, m1)" "\<And>f'. refines m1 f' \<Longrightarrow> simulates m1 f' (ys, m2)"
  shows "simulates m f (xs @ ys, m2)"
  using assms by (fastforce simp: simulates_def)

lemma simulates_quiet:
  assumes "refines m' f" "\<forall>e \<in> set es. \<forall>f. feed_step e f = Some f"
  shows "simulates m f (es, m')"
  using assms feed_run_quiet by (auto simp: simulates_def)

text \<open>What advancing the generation needs of the state before it: not that its run is eligible.\<close>

definition torn_down :: "stream_manager \<Rightarrow> feed \<Rightarrow> bool" where
  "torn_down m f \<longleftrightarrow>
     feed_opened f \<le> sm_generation m \<and> (\<forall>g \<in> set (sm_connecting m). g \<le> sm_generation m) \<and>
     feed_live f = map_option run_generation (sm_currentRun m)"

lemma refines_torn_down: "refines m f \<Longrightarrow> torn_down m f"
  by (simp add: refines_def torn_down_def)

lemma advanceGeneration_simulates:
  assumes "torn_down m f" "advanceGeneration m = (effects, m')"
  shows "\<exists>f'. feed_run effects f = Some f' \<and> refines m' f' \<and> sm_currentRun m' = None \<and>
           feed_opened f' < sm_generation m' \<and> (\<forall>g \<in> set (sm_connecting m'). g < sm_generation m')"
  using assms feed_run_teardown [of f "sm_currentRun m"]
  by (fastforce simp: advanceGeneration_def refines_def torn_down_def)

lemma advanceGeneration_eligible: "advanceGeneration m = (effects, m') \<Longrightarrow> eligible m' = eligible m"
  by (auto simp: advanceGeneration_def eligible_def)

lemma advance_simulates: "torn_down m f \<Longrightarrow> simulates m' f (advanceGeneration m)"
  using advanceGeneration_simulates [of m f "fst (advanceGeneration m)" "snd (advanceGeneration m)"]
  by (auto simp: simulates_def)

lemma startGeneration_simulates:
  assumes "refines m f" "sm_currentRun m = None" "feed_opened f < sm_generation m" "eligible m"
  shows "simulates m f (startGeneration (sm_generation m) m)"
  using assms
  by (auto simp: simulates_def startGeneration_def refines_def eligible_def states_follow_def)

lemma restart_simulates:
  assumes "torn_down m f"
  shows "simulates m f (restartIfEligible m)"
proof -
  obtain torn m1 where a: "advanceGeneration m = (torn, m1)" by fastforce
  with advanceGeneration_simulates [OF assms a] obtain f1 where f1: "feed_run torn f = Some f1" "refines m1 f1"
    "sm_currentRun m1 = None" "feed_opened f1 < sm_generation m1" by blast
  obtain started m2 where s: "startGeneration (sm_generation m1) m1 = (started, m2)" by fastforce
  from f1 a s startGeneration_simulates [OF f1(2-4)] show ?thesis
    by (auto simp: restartIfEligible_def simulates_def split: if_splits)
qed

lemma failRun_simulates:
  assumes "refines m f"
  shows "simulates m f (failRun cfg random g e m)"
proof -
  obtain torn m1 where a: "advanceGeneration m = (torn, m1)" by fastforce
  from advanceGeneration_simulates [OF refines_torn_down [OF assms] a] obtain f1 where
    f1: "feed_run torn f = Some f1" "refines m1 f1" "sm_currentRun m1 = None" by blast
  then have "simulates m1 f1 (scheduleReconnect cfg random (sm_generation m1) m1)"
    by (auto simp: scheduleReconnect_def simulates_def refines_def eligible_def)
  with f1 a assms show ?thesis
    by (auto simp: failRun_def simulates_def split: prod.splits)
qed

lemma reconnectDue_simulates:
  assumes "refines m f"
  shows "simulates m f (reconnectDue m)"
proof (cases "sm_reconnectTimer m")
  case None
  with assms show ?thesis by (auto simp: reconnectDue_def)
next
  case (Some g)
  define m1 where "m1 = m\<lparr>sm_reconnectTimer := None\<rparr>"
  have r: "refines m1 f" using assms by (auto simp: refines_def m1_def eligible_def split: option.splits)
  obtain torn m2 where a: "advanceGeneration m1 = (torn, m2)" by fastforce
  from advanceGeneration_simulates [OF refines_torn_down [OF r] a] obtain f1 where
    f1: "feed_run torn f = Some f1" "refines m2 f1" "sm_currentRun m2 = None" "feed_opened f1 < sm_generation m2"
    by blast
  obtain started m3 where s: "startGeneration (sm_generation m2) m2 = (started, m3)" by fastforce
  have "eligible m1 \<Longrightarrow> simulates m f (torn @ started, m3)"
    using f1 s startGeneration_simulates [OF f1(2-4)] advanceGeneration_eligible [OF a] by (auto simp: simulates_def)
  moreover have "simulates m f ([], m1)" using r by (auto simp: simulates_def)
  ultimately show ?thesis using Some a s by (auto simp: reconnectDue_def m1_def [symmetric] Let_def)
qed

lemma refines_current:
  assumes "refines m f" "sm_currentRun m = Some r"
  shows "isCurrent_generation g m \<longleftrightarrow> g = sm_generation m" "feed_live f = Some (sm_generation m)"
    "run_generation r = sm_generation m" "states_follow (run_states r) f"
  using assms by (auto simp: refines_def isCurrent_generation_def)

lemma states_follow_mark:
  assumes "states_follow states f" "follows key mark s'"
  shows "states_follow (AList.update key s' states) (f\<lparr>feed_marks := (feed_marks f)(key := mark)\<rparr>)"
  unfolding states_follow_def
proof
  fix k
  show "case map_of (AList.update key s' states) k of
      None \<Rightarrow> feed_marks (f\<lparr>feed_marks := (feed_marks f)(key := mark)\<rparr>) k = None
    | Some s \<Rightarrow> follows k (feed_marks (f\<lparr>feed_marks := (feed_marks f)(key := mark)\<rparr>) k) s"
    using assms(1) [unfolded states_follow_def, rule_format, of k] assms(2)
    by (cases "map_of states k") (simp_all add: update_conv')
qed

text \<open>A step on one state that moves its part of the specification.\<close>

lemma on_state_simulates:
  assumes refines: "refines m f"
    and step: "\<And>r s effects s'. sm_currentRun m = Some r \<Longrightarrow> feed_live f = Some g \<Longrightarrow>
      follows key (feed_marks f key) s \<Longrightarrow> step r s = (effects, s') \<Longrightarrow> moves g key effects s' f"
  shows "simulates m f (on_state g key step m)"
proof (cases "sm_currentRun m")
  case None
  with refines show ?thesis by (auto simp: on_state_def)
next
  case (Some r)
  note c = refines_current [OF refines Some]
  show ?thesis
  proof (cases "isCurrent_generation g m \<and> map_of (run_states r) key \<noteq> None")
    case False
    with refines Some show ?thesis by (auto simp: on_state_def split: option.splits)
  next
    case True
    then obtain s where s: "map_of (run_states r) key = Some s" and g: "g = sm_generation m" using c by auto
    obtain effects s' where o: "step r s = (effects, s')" by fastforce
    have "follows key (feed_marks f key) s" using c(4) s by (auto simp: states_follow_def split: option.splits dest: spec [of _ key])
    from step [OF Some _ this o] c(2) g obtain mark where
      m: "feed_run effects f = Some (f\<lparr>feed_marks := (feed_marks f)(key := mark)\<rparr>)" "follows key mark s'"
      by (auto simp: moves_def)
    have "states_follow (AList.update key s' (run_states r)) (f\<lparr>feed_marks := (feed_marks f)(key := mark)\<rparr>)"
      using c(4) m(2) by (rule states_follow_mark)
    moreover have "run_connected r" using s refines Some by (auto simp: refines_def)
    ultimately show ?thesis
      using refines Some True o s m(1)
      by (auto simp: on_state_def simulates_def refines_def eligible_def)
  qed
qed

lemma handleMessage_simulates:
  assumes "refines m f"
  shows "simulates m f (handleMessage cfg g msg m)"
proof (cases "isSnapshot msg = Some True")
  case True
  with assms show ?thesis by (auto simp: handleMessage_def)
next
  case False
  define step where "step = (\<lambda>(r :: GenerationRun) s. if \<not> baselineReady s then ([], bufferMessage cfg msg s)
        else let (d, effects, s') = processReadyMessage cfg g True True msg s in (effects, s'))"
  have "simulates m f (on_state g (msg_key msg) step m)"
  proof (rule on_state_simulates [OF assms])
    fix r s effects s'
    assume *: "feed_live f = Some g" "follows (msg_key msg) (feed_marks f (msg_key msg)) s" "step r s = (effects, s')"
    show "moves g (msg_key msg) effects s' f"
    proof (cases "baselineReady s")
      case True
      with * obtain d where "processReadyMessage cfg g True True msg s = (d, effects, s')"
        by (auto simp: step_def split: prod.splits)
      with processReadyMessage_moves [OF *(2) True *(1) refl False] show ?thesis by simp
    next
      case unready: False
      with * False show ?thesis by (auto simp: step_def intro!: moves_nothing follows_bufferMessage)
    qed
  qed
  with False show ?thesis by (simp add: handleMessage_def step_def)
qed

lemma baselineAnswered_simulates:
  assumes "refines m f"
  shows "simulates m f (baselineAnswered cfg g key answer m)"
  unfolding baselineAnswered_def
proof (rule on_state_simulates [OF assms])
  fix r s effects s'
  assume *: "feed_live f = Some g" "follows key (feed_marks f key) s"
    "(case baselinePromise s of
        Some (AwaitingBaseline attempts) \<Rightarrow>
          (case answer of
             Inl e \<Rightarrow> ([], s\<lparr>baselinePromise := Some (OperationEnded (Some e))\<rparr>)
           | Inr baseline \<Rightarrow> baselineLoaded cfg g True attempts baseline s)
      | _ \<Rightarrow> ([], s)) = (effects, s')"
  then show "moves g key effects s' f"
    by (auto split: option.splits baseline_operation.splits sum.splits
        intro: moves_nothing baselineLoaded_moves)
qed

lemma states_follow_update:
  assumes "states_follow states f" "map_of states key = Some s" "\<And>mark. follows key mark s \<Longrightarrow> follows key mark s'"
  shows "states_follow (AList.update key s' states) f"
  using assms(1) assms(3) [of "feed_marks f key"] assms(2)
  by (auto simp: states_follow_def update_conv' split: option.splits dest: spec [of _ key])

text \<open>A change of the current run that its specification does not see.\<close>

lemma refines_current_run:
  assumes "refines m f" "sm_currentRun m = Some r" "states_follow (run_states r') f"
    and "run_generation r' = run_generation r" "run_aborted r' = run_aborted r" "run_failed r' = run_failed r"
    and "run_connected r' = run_connected r" "\<not> run_connected r \<Longrightarrow> run_states r' = []"
  shows "refines (m\<lparr>sm_currentRun := Some r'\<rparr>) f"
  using assms by (auto simp: refines_def eligible_def)

lemma operationEnded_simulates:
  assumes "refines m f"
  shows "simulates m f (operationEnded g key m)"
proof (rule ccontr)
  assume n: "\<not> simulates m f (operationEnded g key m)"
  then have "operationEnded g key m \<noteq> ([], m)" using assms by auto
  then obtain r s failure where r: "sm_currentRun m = Some r" and s: "map_of (run_states r) key = Some s"
    and p: "baselinePromise s = Some (OperationEnded failure)" and g: "isCurrent_generation g m"
    by (auto simp: operationEnded_def split: option.splits if_splits baseline_operation.splits)
  have "states_follow (AList.update key (s\<lparr>baselinePromise := None\<rparr>) (run_states r)) f"
    by (rule states_follow_update [OF refines_current(4) [OF assms r] s]) simp
  moreover have "run_connected r" using s assms r by (auto simp: refines_def)
  ultimately have "refines (m\<lparr>sm_currentRun := Some (r\<lparr>run_states := AList.update key (s\<lparr>baselinePromise := None\<rparr>) (run_states r),
      run_awaiting := a, run_rejections := b\<rparr>)\<rparr>) f" for a b
    by (intro refines_current_run [OF assms r]) simp_all
  with n r s p g show False by (simp add: operationEnded_def simulates_def)
qed

lemma rejected_simulates: "refines m f \<Longrightarrow> simulates m f (rejected cfg random g m)"
  by (auto simp: rejected_def failRun_simulates split: option.splits list.splits)

lemma disconnected_simulates: "refines m f \<Longrightarrow> simulates m f (disconnected cfg random g e m)"
  by (auto simp: disconnected_def failRun_simulates split: option.splits)

lemma initialized_simulates: "refines m f \<Longrightarrow> simulates m f (initialized g m)"
  by (auto simp: initialized_def simulates_def refines_def eligible_def split: option.splits)

lemma heartbeatDue_simulates:
  assumes "refines m f"
  shows "simulates m f (heartbeatDue cfg random g failure m)"
proof -
  have "simulates m f (Ping g # effects, m')" if "failRun cfg random g e m = (effects, m')" for e effects m'
    using failRun_simulates [OF assms, of cfg random g e] that by (auto simp: simulates_def)
  with assms show ?thesis
    by (auto simp: heartbeatDue_def scheduleHeartbeat_def split: option.splits prod.splits)
      (auto simp: simulates_def refines_def eligible_def)
qed

lemma connectFailed_simulates:
  assumes "refines m f"
  shows "simulates m f (connectFailed cfg random g e m)"
proof -
  have "refines (m\<lparr>sm_connecting := removeAll g (sm_connecting m)\<rparr>) f"
    using assms by (auto simp: refines_def eligible_def split: option.splits)
  from failRun_simulates [OF this] assms show ?thesis
    by (auto simp: connectFailed_def simulates_def)
qed

text \<open>A connection that is opened starts every stream with a baseline.\<close>

lemma fresh_states:
  "map_of (fold (\<lambda>sub. AList.update (sub_key sub) (fresh_state sub)) subs states) key = Some s \<Longrightarrow>
     map_of states key = Some s \<or> (\<exists>sub. sub_key sub = key \<and> s = fresh_state sub)"
  by (induction subs arbitrary: states) (fastforce simp: update_conv' split: if_splits)+

lemma distinct_states:
  "distinct (map fst states) \<Longrightarrow>
     distinct (map fst (fold (\<lambda>sub. AList.update (sub_key sub) (fresh_state sub)) subs states))"
  by (induction subs arbitrary: states) (simp_all add: distinct_update)

lemma rebaselineAll_fresh:
  assumes "\<forall>(key, s) \<in> set states. \<exists>sub. sub_key sub = key \<and> s = fresh_state sub"
    and "feed_live f = Some g" "rebaselineAll g states = (effects, states')"
  shows "feed_run effects f = Some f \<and> (\<forall>(key, s) \<in> set states'. follows key None s) \<and> map fst states' = map fst states"
  using assms
proof (induction states arbitrary: effects states')
  case (Cons x rest)
  obtain key s where x: "x = (key, s)" by fastforce
  with Cons.prems(1) obtain sub where s: "sub_key sub = key" "s = fresh_state sub" by auto
  then have r: "rebaseline g True s = ([LoadBaseline g key],
      s\<lparr>baselineReady := False, baselinePromise := Some (AwaitingBaseline 1)\<rparr>)"
    by (simp add: rebaseline_def fresh_state_def)
  obtain later rest' where l: "rebaselineAll g rest = (later, rest')" by fastforce
  from Cons.IH [OF _ Cons.prems(2) l] Cons.prems(1) have
    "feed_run later f = Some f \<and> (\<forall>(key, s) \<in> set rest'. follows key None s) \<and> map fst rest' = map fst rest" by simp
  moreover have "effects = LoadBaseline g key # later"
    "states' = (key, s\<lparr>baselineReady := False, baselinePromise := Some (AwaitingBaseline 1)\<rparr>) # rest'"
    using Cons.prems(3) by (simp_all add: x r l)
  moreover have "follows key None (s\<lparr>baselineReady := False, baselinePromise := Some (AwaitingBaseline 1)\<rparr>)"
    using s by (simp add: follows_def fresh_state_def)
  ultimately show ?case using Cons.prems(2) x by simp
qed simp

lemma connected_simulates:
  assumes refines: "refines m f"
  shows "simulates m f (connected cfg g watches m)"
proof -
  define m1 where "m1 = m\<lparr>sm_connecting := removeAll g (sm_connecting m)\<rparr>"
  have m1: "refines m1 f"
    using refines by (auto simp: refines_def eligible_def m1_def split: option.splits)
  have closed: "simulates m f ([CloseConnection g], m1)"
    using m1 by (auto simp: simulates_def)
  show ?thesis
  proof (cases "g \<in> set (sm_connecting m) \<and> isCurrent_generation g m1")
    case False
    with refines closed show ?thesis by (auto simp: connected_def m1_def [symmetric] Let_def split: option.splits)
  next
    case True
    then obtain r where r: "sm_currentRun m1 = Some r" and g: "g = sm_generation m"
      by (auto simp: isCurrent_generation_def m1_def split: option.splits)
    have mr: "sm_currentRun m = Some r" using r by (simp add: m1_def)
    note c = refines_current [OF refines mr]
    have "run_states r = []" using refines mr True g c(3) by (auto simp: refines_def)
    with c(4) have marks: "feed_marks f = (\<lambda>_. None)" by (auto simp: states_follow_def)
    define states where "states = fold (\<lambda>sub. AList.update (sub_key sub) (fresh_state sub)) (sm_subscriptions m1) []"
    have "distinct (map fst states)"
      unfolding states_def by (rule distinct_states) simp
    then have fresh: "\<forall>(key, s) \<in> set states. \<exists>sub. sub_key sub = key \<and> s = fresh_state sub"
      using fresh_states [of "sm_subscriptions m1" "[]"] by (auto simp: states_def [symmetric])
    obtain loads states' where l: "rebaselineAll g states = (loads, states')" by fastforce
    have live: "feed_live f = Some g" using c(2) g by simp
    note a = rebaselineAll_fresh [OF fresh live l]
    have follow: "states_follow states' f"
      using a by (force simp: states_follow_def marks split: option.splits dest: map_of_SomeD)
    have "feed_run (map (Subscribe g \<circ> sub_key) (sm_subscriptions m1)) f = Some f" by (rule feed_run_quiet) auto
    with a True r l follow refines mr g c(3) show ?thesis
      by (auto simp: connected_def m1_def states_def scheduleHeartbeat_def Let_def simulates_def refines_def eligible_def
          split: prod.splits)
  qed
qed

lemma setSubscriptions_simulates:
  assumes "refines m f"
  shows "simulates m f (setSubscriptions subs m)"
proof -
  have t: "torn_down (m\<lparr>sm_subscriptions := subs\<rparr>) f" using assms by (auto simp: refines_def torn_down_def)
  have "simulates m f (advanceGeneration (m\<lparr>sm_subscriptions := subs\<rparr>))"
    by (rule advance_simulates [OF t])
  moreover have "refines (m\<lparr>sm_subscriptions := subs\<rparr>) f" if "sm_currentRun m = None"
    using assms that by (simp add: refines_def)
  ultimately show ?thesis
    using restart_simulates [OF t] by (auto simp: setSubscriptions_def Let_def simulates_def)
qed

lemma setEnvironment_simulates:
  assumes "refines m f"
  shows "simulates m f (setEnvironment foreground online m)"
proof -
  have "torn_down (m\<lparr>sm_foreground := foreground, sm_online := online\<rparr>) f"
    using assms by (auto simp: refines_def torn_down_def)
  from restart_simulates [OF this] assms show ?thesis by (auto simp: setEnvironment_def simulates_def)
qed

lemma close_simulates:
  assumes "refines m f"
  shows "simulates m f (close m)"
proof -
  have "torn_down (m\<lparr>sm_closed := True\<rparr>) f" using assms by (auto simp: refines_def torn_down_def)
  then show ?thesis unfolding close_def by (rule advance_simulates)
qed

lemmas stream_simulations =
  setSubscriptions_simulates setEnvironment_simulates close_simulates connected_simulates connectFailed_simulates
  disconnected_simulates handleMessage_simulates baselineAnswered_simulates operationEnded_simulates
  rejected_simulates initialized_simulates heartbeatDue_simulates reconnectDue_simulates

lemma stream_step_simulates: "refines m f \<Longrightarrow> simulates m f (stream_step cfg e m)"
  by (cases "(cfg, e, m)" rule: stream_step.cases) (simp_all add: stream_simulations)

lemma initial_refines: "refines initial_manager initial_feed"
  by (simp add: refines_def initial_manager_def initial_feed_def)

lemma run_simulates:
  "refines m f \<Longrightarrow> run_all (stream_step cfg) es m = (outs, m') \<Longrightarrow>
     \<exists>f'. feed_run (concat outs) f = Some f' \<and> refines m' f'"
proof (induction es arbitrary: m f outs)
  case (Cons e es)
  from Cons.prems(2) obtain out t rest where
    t: "stream_step cfg e m = (out, t)" "run_all (stream_step cfg) es t = (rest, m')" "outs = out # rest"
    by (rule run_all_Cons)
  from stream_step_simulates [OF Cons.prems(1), of cfg e] t(1) obtain f1 where
    "feed_run out f = Some f1" "refines t f1" by (auto simp: simulates_def)
  with Cons.IH [OF _ t(2)] t(3) show ?case by fastforce
qed auto

end
