(* ===== verification/Stream_Properties.thy ===== *)
theory Stream_Properties
  imports Stream_Laws
begin

text \<open>
  What holds of every run of the stream manager: its consumers see what the specification allows, no
  subscription stops being served while the run goes on, and a run that fails is followed by another connection,
  after a bounded delay, until the attempts are used up.
\<close>

section \<open>Every stream is served\<close>

definition served :: "GenerationRun \<Rightarrow> SubscriptionRunState \<Rightarrow> bool" where
  "served r s \<longleftrightarrow>
     baselineReady s \<or> (\<exists>n. baselinePromise s = Some (AwaitingBaseline n)) \<or>
     (\<exists>e. baselinePromise s = Some (OperationEnded (Some e))) \<or> run_rejections r \<noteq> []"

text \<open>
  The \<^verbatim>\<open>finally\<close> of an operation runs in a microtask after it, before the next message of a
  socket is dispatched.
\<close>

definition settled :: "stream_manager \<Rightarrow> bool" where
  "settled m \<longleftrightarrow>
     (case sm_currentRun m of
        None \<Rightarrow> True
      | Some r \<Rightarrow> list_all (\<lambda>(key, s). baselinePromise s \<noteq> Some (OperationEnded None)) (run_states r))"

fun microtasks_first :: "stream_options \<Rightarrow> (rat \<times> stream_event) list \<Rightarrow> stream_manager \<Rightarrow> bool" where
  "microtasks_first cfg [] m = True"
| "microtasks_first cfg ((random, e) # es) m =
     ((case e of MessageArrived g msg \<Rightarrow> settled m | _ \<Rightarrow> True) \<and>
      microtasks_first cfg es (snd (stream_step cfg (random, e) m)))"

definition all_served :: "stream_manager \<Rightarrow> bool" where
  "all_served m \<longleftrightarrow>
     (\<forall>r key s. sm_currentRun m = Some r \<longrightarrow> map_of (run_states r) key = Some s \<longrightarrow> served r s)"

lemma all_servedD:
  "all_served m \<Longrightarrow> sm_currentRun m = Some r \<Longrightarrow> map_of (run_states r) key = Some s \<Longrightarrow> served r s"
  by (auto simp: all_served_def)

lemma all_served_no_run [intro]: "sm_currentRun m = None \<Longrightarrow> all_served m"
  by (simp add: all_served_def)

lemma advanceGeneration_no_run [simp]: "sm_currentRun (snd (advanceGeneration m)) = None"
  by (simp add: advanceGeneration_def)

lemma startGeneration_served [intro]: "all_served (snd (startGeneration g m))"
  by (simp add: startGeneration_def all_served_def)

lemma restart_served: "all_served (snd (restartIfEligible m))"
proof -
  obtain torn m1 where a: "advanceGeneration m = (torn, m1)" by fastforce
  then have "all_served m1" using advanceGeneration_no_run [of m] by auto
  with a startGeneration_served [of "sm_generation m1" m1] show ?thesis
    by (auto simp: restartIfEligible_def split: prod.splits)
qed

lemma scheduleReconnect_run [simp]: "sm_currentRun (snd (scheduleReconnect cfg random g m)) = sm_currentRun m"
  by (simp add: scheduleReconnect_def)

lemma failRun_served: "all_served m \<Longrightarrow> all_served (snd (failRun cfg random g e m))"
proof (cases "advanceGeneration m")
  case (Pair torn m1)
  then have "sm_currentRun m1 = None" using advanceGeneration_no_run [of m] by simp
  then have "all_served (snd (scheduleReconnect cfg random (sm_generation m1) m1))"
    by (intro all_served_no_run) simp
  moreover assume "all_served m"
  ultimately show ?thesis using Pair by (auto simp: failRun_def split: prod.splits)
qed

lemma reconnectDue_served:
  assumes "all_served m"
  shows "all_served (snd (reconnectDue m))"
proof -
  have "all_served (m\<lparr>sm_reconnectTimer := None\<rparr>)" using assms by (simp add: all_served_def)
  moreover obtain torn m2 where a: "advanceGeneration (m\<lparr>sm_reconnectTimer := None\<rparr>) = (torn, m2)" by fastforce
  ultimately show ?thesis
    using assms startGeneration_served [of "sm_generation m2" m2]
    by (auto simp: reconnectDue_def Let_def split: option.splits prod.splits)
qed

lemma bufferMessage_promise [simp]: "baselinePromise (bufferMessage cfg msg s) = baselinePromise s"
  by (simp add: bufferMessage_def)

lemma bufferMessage_served [simp]: "served r (bufferMessage cfg msg s) = served r s"
  by (simp add: served_def bufferMessage_def)

lemma processReadyMessage_served:
  assumes "served r s" "baselineReady s" "baselinePromise s \<noteq> Some (OperationEnded None)"
    and "processReadyMessage cfg g True allowed msg s = (d, effects, s')"
  shows "served r s'"
  using assms(4)
proof (cases rule: processReadyMessage_cases)
  case gap
  have "served r s'" if "baselinePromise s = None"
    using gap(2) that by (auto simp: rebaseline_def served_def)
  moreover have "served r s'" if "baselinePromise s = Some (AwaitingBaseline n)" for n
    using gap(2) that by (auto simp: rebaseline_def served_def)
  moreover have "served r s'" if "baselinePromise s = Some (OperationEnded (Some e))" for e
    using gap(2) that by (auto simp: rebaseline_def served_def)
  ultimately show ?thesis using assms(3) by (metis baseline_operation.exhaust option.exhaust)
qed (use assms in \<open>auto simp: served_def\<close>)

lemma replayBuffered_ready:
  "baselineReady s \<Longrightarrow> replayBuffered cfg g True msgs s = (gap, effects, s') \<Longrightarrow> baselineReady s'"
proof (induction msgs arbitrary: s gap effects)
  case (Cons msg msgs)
  obtain d now s1 where p: "processReadyMessage cfg g True False msg s = (d, now, s1)" by (metis prod_cases3)
  then have "baselineReady s1" using Cons.prems(1) by (cases rule: processReadyMessage_cases) auto
  then have "baselineReady (if d = Gap then bufferMessage cfg msg s1 else s1)" by simp
  moreover obtain gap' later where "replayBuffered cfg g True msgs (if d = Gap then bufferMessage cfg msg s1 else s1) = (gap', later, s')"
    using Cons.prems p by (auto split: prod.splits)
  ultimately show ?case using Cons.IH by blast
qed simp

lemma nextAttempt_served: "nextAttempt_baseline g True n s = (effects, s') \<Longrightarrow> served r s'"
  by (auto simp: nextAttempt_baseline_def served_def)

lemma baselineLoaded_served:
  assumes "baselineLoaded cfg g True n baseline s = (effects, s')"
  shows "served r s'"
proof (cases "bufferOverflowed s")
  case True
  with assms show ?thesis
    by (auto simp: baselineLoaded_def Let_def split: prod.splits dest: nextAttempt_served)
next
  case False
  define s1 where "s1 = s\<lparr>lastSequence := base_sequence baseline, seenIds := [], buffer := [], bufferOverflowed := False,
    baselineReady := True\<rparr>"
  obtain gap replayed s2 where r: "replayBuffered cfg g True (buffer s) s1 = (gap, replayed, s2)"
    by (metis prod_cases3)
  then have "baselineReady s2" by (rule replayBuffered_ready [rotated]) (simp add: s1_def)
  with False assms r show ?thesis
    by (auto simp: baselineLoaded_def s1_def [symmetric] Let_def served_def split: prod.splits if_splits
        dest: nextAttempt_served [of _ _ _ _ _ r])
qed

lemma on_state_served:
  assumes "all_served m"
    and "\<And>r s effects s'. sm_currentRun m = Some r \<Longrightarrow> map_of (run_states r) key = Some s \<Longrightarrow> served r s \<Longrightarrow>
      step r s = (effects, s') \<Longrightarrow> served r s'"
  shows "all_served (snd (on_state g key step m))"
  using assms
  by (auto simp: on_state_def all_served_def update_conv' served_def split: option.splits prod.splits if_splits)

lemma settledD:
  "settled m \<Longrightarrow> sm_currentRun m = Some r \<Longrightarrow> map_of (run_states r) key = Some s \<Longrightarrow>
     baselinePromise s \<noteq> Some (OperationEnded None)"
  by (auto simp: settled_def list_all_iff dest!: map_of_SomeD)

lemma handleMessage_served:
  assumes "all_served m" "settled m"
  shows "all_served (snd (handleMessage cfg g msg m))"
proof (cases "isSnapshot msg = Some True")
  case True
  with assms show ?thesis by (simp add: handleMessage_def)
next
  case False
  have "all_served (snd (on_state g (msg_key msg) (\<lambda>(r :: GenerationRun) s. if \<not> baselineReady s then ([], bufferMessage cfg msg s)
        else let (d, effects, s') = processReadyMessage cfg g True True msg s in (effects, s')) m))"
    by (rule on_state_served [OF assms(1)])
      (auto split: if_splits prod.splits dest: processReadyMessage_served settledD [OF assms(2)])
  with False show ?thesis by (simp add: handleMessage_def)
qed

lemma baselineAnswered_served:
  "all_served m \<Longrightarrow> all_served (snd (baselineAnswered cfg g key answer m))"
  unfolding baselineAnswered_def
  by (rule on_state_served)
    (auto simp: served_def split: option.splits baseline_operation.splits sum.splits
      dest: baselineLoaded_served [unfolded served_def])

lemma operationEnded_served:
  assumes "all_served m"
  shows "all_served (snd (operationEnded g key m))"
proof (rule ccontr)
  assume n: "\<not> all_served (snd (operationEnded g key m))"
  then have "operationEnded g key m \<noteq> ([], m)" using assms by auto
  then obtain r s failure where r: "sm_currentRun m = Some r" "map_of (run_states r) key = Some s"
    "baselinePromise s = Some (OperationEnded failure)" "isCurrent_generation g m"
    by (auto simp: operationEnded_def split: option.splits if_splits baseline_operation.splits)
  have "served r s" using assms r by (rule_tac all_servedD)
  with n assms r show False
    by (cases failure) (auto simp: operationEnded_def all_served_def update_conv' served_def split: if_splits)
qed

lemma rebaselineAll_served:
  "\<forall>(key, s) \<in> set states. baselinePromise s = None \<Longrightarrow> rebaselineAll g states = (effects, states') \<Longrightarrow>
     \<forall>(key, s) \<in> set states'. served r s"
proof (induction g states arbitrary: effects states' rule: rebaselineAll.induct)
  case (2 g key s rest)
  obtain now s' where n: "rebaseline g True s = (now, s')" by fastforce
  obtain later rest' where l: "rebaselineAll g rest = (later, rest')" by fastforce
  have "served r s'" using n "2.prems"(1) by (auto simp: rebaseline_def served_def)
  moreover have "\<forall>(key, s) \<in> set rest'. served r s" using "2.IH" [OF n [symmetric] refl _ l] "2.prems"(1) by simp
  ultimately show ?case using "2.prems"(2) n l by auto
qed simp

lemma connected_served:
  assumes "all_served m"
  shows "all_served (snd (connected cfg g watches m))"
proof (rule ccontr)
  assume n: "\<not> all_served (snd (connected cfg g watches m))"
  define m1 where "m1 = m\<lparr>sm_connecting := removeAll g (sm_connecting m)\<rparr>"
  have m1: "all_served m1" using assms by (simp add: all_served_def m1_def)
  define states where "states = fold (\<lambda>sub. AList.update (sub_key sub) (fresh_state sub)) (sm_subscriptions m1) []"
  obtain loads states' where l: "rebaselineAll g states = (loads, states')" by fastforce
  have "distinct (map fst states)" unfolding states_def by (rule distinct_states) simp
  then have "\<exists>sub. s = fresh_state sub" if "(key, s) \<in> set states" for key s
    using fresh_states [of "sm_subscriptions m1" "[]" key s] that by (auto simp: states_def [symmetric])
  then have "\<forall>(key, s) \<in> set states. baselinePromise s = None"
    by (fastforce simp: fresh_state_def)
  then have served: "(key, s) \<in> set states' \<Longrightarrow> served r s" for key s r
    using rebaselineAll_served [OF _ l, of r] by blast
  from n assms m1 obtain r where r: "sm_currentRun m1 = Some r" "isCurrent_generation g m1" "g \<in> set (sm_connecting m)"
    by (auto simp: connected_def m1_def [symmetric] Let_def split: option.splits if_splits)
  with l n show False
    using served by (auto simp: connected_def m1_def [symmetric] states_def [symmetric] Let_def all_served_def
        split: prod.splits dest!: map_of_SomeD)
qed

lemma heartbeatDue_served: "all_served m \<Longrightarrow> all_served (snd (heartbeatDue cfg random g failure m))"
  using failRun_served [of m cfg random g "the failure"]
  by (cases failure; cases "sm_currentRun m")
    (auto simp: heartbeatDue_def scheduleHeartbeat_def Let_def split: prod.splits
      simp: all_served_def [of "m\<lparr>sm_currentRun := r\<rparr>" for r] served_def dest: all_servedD)

lemma stream_step_served:
  assumes "all_served m" "\<And>g msg. e = MessageArrived g msg \<Longrightarrow> settled m"
  shows "all_served (snd (stream_step cfg (random, e) m))"
proof (cases e)
  case (SetSubscriptions subs)
  have "all_served (m\<lparr>sm_subscriptions := subs\<rparr>)" using assms(1) by (simp add: all_served_def)
  moreover have "all_served (snd (advanceGeneration m'))" for m' by (rule all_served_no_run) simp
  ultimately show ?thesis using restart_served by (simp add: SetSubscriptions setSubscriptions_def Let_def)
next
  case (SetEnvironment foreground online)
  then show ?thesis using restart_served assms(1) by (simp add: setEnvironment_def)
next
  case CloseManager
  then show ?thesis by (auto simp: close_def intro: all_served_no_run)
next
  case (ConnectFailed g e)
  have "all_served (m\<lparr>sm_connecting := removeAll g (sm_connecting m)\<rparr>)" using assms(1) by (simp add: all_served_def)
  then show ?thesis using failRun_served assms(1) by (simp add: ConnectFailed connectFailed_def)
next
  case (Disconnected g e)
  then show ?thesis using failRun_served assms(1) by (simp add: disconnected_def split: option.splits)
next
  case (RebaselineRejected g)
  then show ?thesis using failRun_served assms(1) by (simp add: rejected_def split: option.splits list.splits)
next
  case (AllBaselinesLoaded g)
  then show ?thesis using assms(1) by (auto simp: initialized_def all_served_def served_def split: option.splits)
qed (use assms in \<open>simp_all add: connected_served handleMessage_served baselineAnswered_served operationEnded_served
  heartbeatDue_served reconnectDue_served\<close>)

lemma run_served:
  "all_served m \<Longrightarrow> microtasks_first cfg es m \<Longrightarrow> all_served (snd (run_all (stream_step cfg) es m))"
proof (induction es arbitrary: m)
  case (Cons e es)
  obtain random ev where e: "e = (random, ev)" by fastforce
  obtain out t where s: "stream_step cfg e m = (out, t)" by fastforce
  have "settled m" if "ev = MessageArrived g msg" for g msg using Cons.prems(2) that by (simp add: e)
  with stream_step_served [OF Cons.prems(1), of ev cfg random] s have "all_served t" by (simp add: e)
  with Cons.IH [of t] Cons.prems(2) s show ?case by (auto simp: e split: prod.splits)
qed simp

section \<open>Every failure is followed by another connection\<close>

text \<open>
  What holds between the events: a timer belongs to the current generation; without a run there is a timer or
  the attempts are used up, if the environment is fit; and a run is current, waits for its connection or has a
  state for every subscription.
\<close>

definition live :: "stream_options \<Rightarrow> stream_manager \<Rightarrow> bool" where
  "live cfg m \<longleftrightarrow>
     (\<forall>g. sm_reconnectTimer m = Some g \<longrightarrow> g = sm_generation m) \<and>
     (sm_currentRun m = None \<longrightarrow> eligible m \<longrightarrow>
        sm_reconnectTimer m \<noteq> None \<or> maxReconnectAttempts cfg \<le> sm_reconnectAttempts m) \<and>
     (\<forall>r. sm_currentRun m = Some r \<longrightarrow>
        run_generation r = sm_generation m \<and> \<not> run_aborted r \<and> \<not> run_failed r \<and> eligible m \<and>
        (if run_connected r then \<forall>sub \<in> set (sm_subscriptions m). map_of (run_states r) (sub_key sub) \<noteq> None
         else sm_generation m \<in> set (sm_connecting m)))"

text \<open>The manager waits for a connection it has asked for.\<close>

definition connecting :: "stream_manager \<Rightarrow> bool" where
  "connecting m \<longleftrightarrow>
     (\<exists>r. sm_currentRun m = Some r \<and> isCurrent_generation (run_generation r) m \<and>
        run_generation r \<in> set (sm_connecting m))"

text \<open>The run is over, and the timer that is set opens another connection, unless the attempts are used up.\<close>

definition reconnects :: "stream_options \<Rightarrow> stream_manager \<Rightarrow> bool" where
  "reconnects cfg m \<longleftrightarrow>
     sm_currentRun m = None \<and>
     (maxReconnectAttempts cfg \<le> sm_reconnectAttempts m \<or>
      (sm_reconnectTimer m \<noteq> None \<and> connecting (snd (reconnectDue m))))"

lemma liveD:
  assumes "live cfg m" "sm_currentRun m = Some r"
  shows "run_generation r = sm_generation m" "isCurrent_generation (sm_generation m) m" "\<not> run_failed r" "eligible m"
  using assms by (auto simp: live_def isCurrent_generation_def)

lemma advance_idle:
  "advanceGeneration m = (torn, m1) \<Longrightarrow>
     sm_currentRun m1 = None \<and> sm_reconnectTimer m1 = None \<and> sm_generation m1 = Suc (sm_generation m) \<and>
     sm_connecting m1 = sm_connecting m \<and> sm_subscriptions m1 = sm_subscriptions m \<and>
     sm_reconnectAttempts m1 = sm_reconnectAttempts m \<and> eligible m1 = eligible m"
  by (auto simp: advanceGeneration_def eligible_def)

lemma start_connecting:
  assumes "startGeneration (sm_generation m) m = (started, m')" "eligible m" "sm_reconnectTimer m = None"
  shows "live cfg m'" "connecting m'"
  using assms by (auto simp: startGeneration_def live_def connecting_def isCurrent_generation_def eligible_def)

lemma restart_live: "live cfg (snd (restartIfEligible m))"
proof -
  obtain torn m1 where a: "advanceGeneration m = (torn, m1)" by fastforce
  obtain started m2 where s: "startGeneration (sm_generation m1) m1 = (started, m2)" by fastforce
  from advance_idle [OF a] start_connecting [OF s] a s show ?thesis
    by (auto simp: restartIfEligible_def live_def [of cfg m1])
qed

lemma reconnectDue_connecting:
  assumes "live cfg m" "sm_reconnectTimer m \<noteq> None" "eligible m"
  shows "live cfg (snd (reconnectDue m))" "connecting (snd (reconnectDue m))"
proof -
  from assms have t: "sm_reconnectTimer m = Some (sm_generation m)" by (auto simp: live_def)
  obtain torn m2 where a: "advanceGeneration (m\<lparr>sm_reconnectTimer := None\<rparr>) = (torn, m2)" by fastforce
  obtain started m3 where s: "startGeneration (sm_generation m2) m2 = (started, m3)" by fastforce
  have e: "eligible (m\<lparr>sm_reconnectTimer := None\<rparr>)" using assms(3) by (simp add: eligible_def)
  have "snd (reconnectDue m) = m3" using t a s e by (simp add: reconnectDue_def)
  with start_connecting [OF s] advance_idle [OF a] e
  show "live cfg (snd (reconnectDue m))" "connecting (snd (reconnectDue m))" by auto
qed

lemma reconnectDue_live:
  assumes "live cfg m"
  shows "live cfg (snd (reconnectDue m))"
proof (cases "sm_reconnectTimer m \<noteq> None \<and> eligible m")
  case True
  with reconnectDue_connecting assms show ?thesis by blast
next
  case False
  with assms show ?thesis
    by (cases "sm_reconnectTimer m")
      (auto simp: reconnectDue_def live_def eligible_def isCurrent_generation_def split: option.splits)
qed

lemma idle_reconnects:
  assumes "live cfg m" "sm_currentRun m = None" "eligible m"
  shows "reconnects cfg m"
  using assms reconnectDue_connecting [OF assms(1) _ assms(3)] by (auto simp: reconnects_def live_def)

text \<open>The end of a run, with the timer it leaves.\<close>

lemma failRun_ends:
  assumes "sm_currentRun m = Some r" "isCurrent_generation g m" "\<not> run_failed r"
  shows "live cfg (snd (failRun cfg random g e m))" "reconnects cfg (snd (failRun cfg random g e m))"
proof -
  obtain torn m1 where a: "advanceGeneration m = (torn, m1)" by fastforce
  let ?m2 = "snd (scheduleReconnect cfg random (sm_generation m1) m1)"
  have m2: "snd (failRun cfg random g e m) = ?m2" using assms a by (simp add: failRun_def split: prod.splits)
  have "eligible m" using assms(2) by (simp add: isCurrent_generation_def split: option.splits)
  with advance_idle [OF a] have l: "live cfg ?m2" and "sm_currentRun ?m2 = None" "eligible ?m2"
    by (auto simp: scheduleReconnect_def live_def eligible_def)
  then have "reconnects cfg ?m2" by (rule_tac idle_reconnects)
  with l m2 show "live cfg (snd (failRun cfg random g e m))" "reconnects cfg (snd (failRun cfg random g e m))" by simp_all
qed

lemma failRun_live:
  assumes "live cfg m"
  shows "live cfg (snd (failRun cfg random g e m))"
proof (cases "isCurrent_generation g m")
  case True
  then obtain r where "sm_currentRun m = Some r" by (auto simp: isCurrent_generation_def split: option.splits)
  with failRun_ends(1) [OF this True] liveD(3) [OF assms] show ?thesis by blast
qed (use assms in \<open>simp add: failRun_def\<close>)

lemma eligible_updates [simp]:
  "eligible (m\<lparr>sm_currentRun := x\<rparr>) = eligible m" "eligible (m\<lparr>sm_connecting := gs\<rparr>) = eligible m"
  "eligible (m\<lparr>sm_reconnectAttempts := n\<rparr>) = eligible m"
  by (simp_all add: eligible_def)

text \<open>A step of the current run that keeps its identity and its subscriptions.\<close>

lemma live_run:
  assumes "live cfg m" "sm_currentRun m = Some r"
    and "run_generation r' = run_generation r" "run_aborted r' = run_aborted r" "run_failed r' = run_failed r"
    "run_connected r' = run_connected r" "dom (map_of (run_states r)) \<subseteq> dom (map_of (run_states r'))"
  shows "live cfg (m\<lparr>sm_currentRun := Some r'\<rparr>)"
proof -
  have "map_of (run_states r') k \<noteq> None" if "map_of (run_states r) k \<noteq> None" for k
    using assms(7) that by (auto simp: dom_def)
  with assms(1-6) show ?thesis unfolding live_def by (auto split: if_splits)
qed

lemma on_state_live:
  assumes "live cfg m"
  shows "live cfg (snd (on_state g key step m))"
  using assms by (auto simp: on_state_def update_conv' intro!: live_run split: option.splits prod.splits)

lemma operationEnded_live:
  assumes "live cfg m"
  shows "live cfg (snd (operationEnded g key m))"
  using assms
  by (auto simp: operationEnded_def update_conv' intro!: live_run split: option.splits baseline_operation.splits)

lemma live_connected:
  assumes "live cfg m" "sm_currentRun m = Some r"
    and "run_generation r' = run_generation r" "run_aborted r' = run_aborted r" "run_failed r' = run_failed r"
    "run_connected r'" "\<forall>sub \<in> set (sm_subscriptions m). map_of (run_states r') (sub_key sub) \<noteq> None"
  shows "live cfg (m\<lparr>sm_connecting := gs, sm_currentRun := Some r'\<rparr>)"
  using assms unfolding live_def by auto

lemma rebaselineAll_keys: "rebaselineAll g states = (effects, states') \<Longrightarrow> map fst states' = map fst states"
  by (induction g states arbitrary: effects states' rule: rebaselineAll.induct) (auto split: prod.splits)

lemma states_keys:
  "fst ` set (fold (\<lambda>sub. AList.update (sub_key sub) (fresh_state sub)) subs states) = sub_key ` set subs \<union> fst ` set states"
  by (induction subs arbitrary: states) (auto simp: dom_update)

lemma connected_live:
  assumes "live cfg m"
  shows "live cfg (snd (connected cfg g watches m))"
proof -
  define m1 where "m1 = m\<lparr>sm_connecting := removeAll g (sm_connecting m)\<rparr>"
  define states where "states = fold (\<lambda>sub. AList.update (sub_key sub) (fresh_state sub)) (sm_subscriptions m1) []"
  obtain loads states' where l: "rebaselineAll g states = (loads, states')" by fastforce
  have "fst ` set states' = fst ` set states" using rebaselineAll_keys [OF l] by (metis list.set_map)
  then have keys: "map_of states' (sub_key sub) \<noteq> None" if "sub \<in> set (sm_subscriptions m1)" for sub
    using that states_keys [of "sm_subscriptions m1" "[]"] by (simp add: states_def map_of_eq_None_iff)
  show ?thesis
  proof (cases "isCurrent_generation g m1 \<and> g \<in> set (sm_connecting m)")
    case True
    then obtain r where r: "sm_currentRun m1 = Some r" "run_generation r = g" "g = sm_generation m1"
      by (auto simp: isCurrent_generation_def split: option.splits)
    define r' where "r' = r\<lparr>run_connected := True, subscriptionCleanups := map sub_key (sm_subscriptions m1),
      disconnectCleanup := watches, heartbeatTimer := True, run_states := states', run_awaiting := Some (map fst states')\<rparr>"
    have "snd (connected cfg g watches m) = m1\<lparr>sm_currentRun := Some r'\<rparr>"
      using True r(1) l
      by (simp add: connected_def m1_def [symmetric] states_def [symmetric] Let_def scheduleHeartbeat_def r'_def)
    moreover have "live cfg (m1\<lparr>sm_currentRun := Some r'\<rparr>)"
      unfolding m1_def
    proof (rule live_connected [OF assms])
      show "sm_currentRun m = Some r" using r(1) by (simp add: m1_def)
      show "\<forall>sub \<in> set (sm_subscriptions m). map_of (run_states r') (sub_key sub) \<noteq> None"
        using keys by (simp add: r'_def m1_def)
    qed (simp_all add: r'_def)
    ultimately show ?thesis by simp
  next
    case False
    then have "snd (connected cfg g watches m) = m \<or>
        (snd (connected cfg g watches m) = m1 \<and> \<not> isCurrent_generation g m1)"
      by (auto simp: connected_def m1_def [symmetric] Let_def split: option.splits)
    moreover have "live cfg m1" if "\<not> isCurrent_generation g m1"
      using assms that by (auto simp: live_def m1_def isCurrent_generation_def)
    ultimately show ?thesis using assms by auto
  qed
qed

lemma connectFailed_live:
  assumes "live cfg m"
  shows "live cfg (snd (connectFailed cfg random g e m))"
proof (cases "g \<in> set (sm_connecting m)")
  case True
  define m1 where "m1 = m\<lparr>sm_connecting := removeAll g (sm_connecting m)\<rparr>"
  have m1: "snd (connectFailed cfg random g e m) = snd (failRun cfg random g e m1)"
    using True by (simp add: connectFailed_def m1_def)
  show ?thesis
  proof (cases "isCurrent_generation g m1")
    case current: True
    then obtain r where r: "sm_currentRun m1 = Some r" by (auto simp: isCurrent_generation_def split: option.splits)
    then have "\<not> run_failed r" using liveD(3) [OF assms] by (simp add: m1_def)
    with failRun_ends(1) [OF r current] m1 show ?thesis by simp
  next
    case False
    with assms have "live cfg m1" by (auto simp: live_def m1_def isCurrent_generation_def)
    with m1 failRun_live show ?thesis by simp
  qed
qed (use assms in \<open>simp add: connectFailed_def\<close>)

lemma rejected_reconnects:
  assumes "live cfg m" "sm_currentRun m = Some r" "run_rejections r \<noteq> []"
  shows "reconnects cfg (snd (rejected cfg random (run_generation r) m))"
  using failRun_ends(2) [OF assms(2) _ liveD(3) [OF assms(1,2)]] liveD(1,2) [OF assms(1,2)] assms(2,3)
  by (auto simp: rejected_def split: list.splits)

lemma heartbeatDue_live:
  assumes "live cfg m"
  shows "live cfg (snd (heartbeatDue cfg random g failure m))"
  using assms failRun_live [OF assms]
  by (auto simp: heartbeatDue_def scheduleHeartbeat_def Let_def intro!: live_run split: option.splits prod.splits)
    (metis snd_conv)

lemma initialized_live:
  assumes "live cfg m"
  shows "live cfg (snd (initialized g m))"
proof (cases "initialized g m = ([], m)")
  case False
  then obtain r where r: "sm_currentRun m = Some r"
    "snd (initialized g m) = m\<lparr>sm_reconnectAttempts := 0, sm_currentRun := Some (r\<lparr>run_awaiting := None\<rparr>)\<rparr>"
    by (auto simp: initialized_def split: option.splits if_splits)
  have "live cfg (m\<lparr>sm_currentRun := Some (r\<lparr>run_awaiting := None\<rparr>)\<rparr>)"
    by (rule live_run [OF assms r(1)]) simp_all
  then show ?thesis unfolding r(2) live_def by (auto simp: eligible_def split: if_splits)
qed (use assms in simp)

lemma stream_step_live:
  assumes "live cfg m"
  shows "live cfg (snd (stream_step cfg (random, e) m))"
proof (cases e)
  case (SetSubscriptions subs)
  have idle: "live cfg (snd (advanceGeneration m'))" if "\<not> eligible m'" for m'
    using advance_idle [of m' "fst (advanceGeneration m')" "snd (advanceGeneration m')"] that by (auto simp: live_def)
  have "live cfg (m\<lparr>sm_subscriptions := subs\<rparr>)"
    if "sm_currentRun m = None" "\<not> eligible (m\<lparr>sm_subscriptions := subs\<rparr>)"
    using assms that by (auto simp: live_def)
  with restart_live idle show ?thesis by (auto simp: SetSubscriptions setSubscriptions_def Let_def)
next
  case (SetEnvironment foreground online)
  with assms restart_live show ?thesis by (simp add: setEnvironment_def)
next
  case CloseManager
  obtain torn m1 where "advanceGeneration (m\<lparr>sm_closed := True\<rparr>) = (torn, m1)" by fastforce
  with advance_idle [OF this] show ?thesis by (auto simp: CloseManager close_def live_def eligible_def)
next
  case (Disconnected g e)
  then show ?thesis using failRun_live assms by (simp add: disconnected_def split: option.splits)
next
  case (RebaselineRejected g)
  then show ?thesis using failRun_live assms by (simp add: rejected_def split: option.splits list.splits)
qed (use assms in \<open>simp_all add: connected_live connectFailed_live handleMessage_def baselineAnswered_def on_state_live
  operationEnded_live initialized_live heartbeatDue_live reconnectDue_live\<close>)

lemma run_live: "live cfg m \<Longrightarrow> live cfg (snd (run_all (stream_step cfg) es m))"
proof (induction es arbitrary: m)
  case (Cons e es)
  obtain random ev where e: "e = (random, ev)" by fastforce
  obtain out t where s: "stream_step cfg e m = (out, t)" by fastforce
  with stream_step_live [OF Cons.prems, of random ev] have "live cfg t" by (simp add: e)
  with Cons.IH [of t] s show ?case by (auto simp: e split: prod.splits)
qed simp

definition fails_over :: "stream_options \<Rightarrow> rat \<Rightarrow> stream_event list \<Rightarrow> stream_manager \<Rightarrow> bool" where
  "fails_over cfg random es m \<longleftrightarrow> reconnects cfg (snd (run_all (stream_step cfg) (map (Pair random) es) m))"

lemma run_two:
  "snd (run_all (stream_step cfg) [a] m) = snd (stream_step cfg a m)"
  "snd (run_all (stream_step cfg) [a, b] m) = snd (stream_step cfg b (snd (stream_step cfg a m)))"
  by (simp_all split: prod.splits)

text \<open>The error of a failed baseline ends the run.\<close>

lemma rejection_fails_over:
  assumes "live cfg m" "sm_currentRun m = Some r" "run_rejections r \<noteq> []"
  shows "fails_over cfg random [RebaselineRejected (run_generation r)] m"
  using rejected_reconnects [OF assms] by (simp only: fails_over_def list.map run_two stream_step.simps)

lemma ended_fails_over:
  assumes l: "live cfg m" and r: "sm_currentRun m = Some r" "map_of (run_states r) key = Some s"
    and "baselinePromise s = Some (OperationEnded (Some e))"
  shows "fails_over cfg random [BaselineOperationEnded (run_generation r) key, RebaselineRejected (run_generation r)] m"
proof -
  let ?m1 = "snd (operationEnded (run_generation r) key m)"
  from liveD(1,2) [OF l r(1)] r assms(4) obtain r' where r': "sm_currentRun ?m1 = Some r'"
    "run_generation r' = run_generation r" "run_rejections r' = run_rejections r @ [e]"
    by (simp add: operationEnded_def)
  from r'(3) have "run_rejections r' \<noteq> []" by simp
  from rejected_reconnects [OF operationEnded_live [OF l] r'(1) this] show ?thesis
    by (simp only: fails_over_def list.map run_two stream_step.simps r'(2))
qed

section \<open>Properties\<close>

text \<open>
  C12. Every run of the manager refines the specification of a stream: what the consumers are given, in the
  order of the calls, is accepted by the automaton \<open>feed\<close>. Generations do not overlap, a stream
  starts with a baseline, sequenced messages follow it one by one, and no message has the id of one of the last
  256 that were applied since the baseline.
\<close>

theorem stream_consumers_see_the_specification:
  "feed_run (concat (fst (run_all (stream_step cfg) es initial_manager))) initial_feed \<noteq> None"
  using run_simulates [OF initial_refines, of cfg es] by (cases "run_all (stream_step cfg) es initial_manager") auto

text \<open>
  C13. In every state that a run reaches with the environment fit, and for each subscription: there is no run,
  and the timer that is set opens another connection, unless \<open>maxReconnectAttempts\<close> have been made; or the
  manager waits for a connection; or the subscription is served, or waits for a baseline that has been asked
  for, or an error is on its way to \<open>failRun\<close>, whose handling ends the run and leaves such a timer.
  The hypothesis is the order of microtasks and messages.
\<close>

theorem no_stream_is_stuck:
  assumes "microtasks_first cfg es initial_manager"
    and "run_all (stream_step cfg) es initial_manager = (outs, m)"
    and "eligible m" "sub \<in> set (sm_subscriptions m)"
  shows "reconnects cfg m \<or> connecting m \<or>
    (\<exists>r s. sm_currentRun m = Some r \<and> map_of (run_states r) (sub_key sub) = Some s \<and>
      (baselineReady s \<or> (\<exists>n. baselinePromise s = Some (AwaitingBaseline n)) \<or>
       ((\<exists>e. baselinePromise s = Some (OperationEnded (Some e))) \<and>
        fails_over cfg random
          [BaselineOperationEnded (run_generation r) (sub_key sub), RebaselineRejected (run_generation r)] m) \<or>
       (run_rejections r \<noteq> [] \<and> fails_over cfg random [RebaselineRejected (run_generation r)] m)))"
proof (cases "sm_currentRun m")
  case None
  have "live cfg initial_manager" by (simp add: live_def initial_manager_def eligible_def)
  with run_live [of cfg initial_manager es] assms(2) have "live cfg m" by simp
  with idle_reconnects None assms(3) show ?thesis by blast
next
  case (Some r)
  have "all_served initial_manager" by (rule all_served_no_run) (simp add: initial_manager_def)
  from run_served [OF this assms(1)] assms(2) have served: "all_served m" by simp
  have "live cfg initial_manager" by (simp add: live_def initial_manager_def eligible_def)
  with run_live [of cfg initial_manager es] assms(2) have l: "live cfg m" by simp
  show ?thesis
  proof (cases "run_connected r")
    case True
    with l Some assms(4) obtain s where s: "map_of (run_states r) (sub_key sub) = Some s" by (auto simp: live_def)
    from all_servedD [OF served Some s] Some s rejection_fails_over [OF l Some] ended_fails_over [OF l Some s]
    show ?thesis unfolding served_def by blast
  next
    case False
    with l Some liveD(1,2) [OF l Some] have "connecting m" by (simp add: connecting_def live_def)
    then show ?thesis by blast
  qed
qed

definition sample_delta :: "int \<Rightarrow> string \<Rightarrow> ManagedStreamMessage" where
  "sample_delta n i =
     \<lparr>msg_key = ''book:BTC'', msg_sequence = Some n, stableId = i, msg_data = JNull, isSnapshot = None\<rparr>"

text \<open>A baseline, a message in sequence, and a gap that asks for another baseline.\<close>

definition sample_stream :: "(rat \<times> stream_event) list" where
  "sample_stream =
     [(0, SetSubscriptions [\<lparr>sub_key = ''book:BTC'', sub_wire = JNull\<rparr>]), (0, SetEnvironment True True),
      (0, Connected 1 True), (0, MessageArrived 1 (sample_delta 11 ''a'')),
      (0, BaselineAnswered 1 ''book:BTC'' (Inr \<lparr>base_sequence = Some 10, base_data = JNull\<rparr>)),
      (0, BaselineOperationEnded 1 ''book:BTC''), (0, AllBaselinesLoaded 1),
      (0, MessageArrived 1 (sample_delta 12 ''b'')), (0, MessageArrived 1 (sample_delta 14 ''d''))]"

definition sample_stream_state :: SubscriptionRunState where
  "sample_stream_state =
     \<lparr>run_subscription = \<lparr>sub_key = ''book:BTC'', sub_wire = JNull\<rparr>, lastSequence = Some 12,
      seenIds = [''a'', ''b''], buffer = [sample_delta 14 ''d''], bufferOverflowed = False,
      baselineReady = False, baselinePromise = Some (AwaitingBaseline 1)\<rparr>"

lemmas stream_eval =
  initial_manager_def default_stream_options_def sample_stream_def sample_delta_def eligible_def isCurrent_generation_def
  setSubscriptions_def setEnvironment_def restartIfEligible_def advanceGeneration_def teardownRun_def
  startGeneration_def connected_def fresh_state_def scheduleHeartbeat_def handleMessage_def on_state_def
  bufferMessage_def baselineAnswered_def baselineLoaded_def processReadyMessage_def rememberId_def
  operationEnded_def initialized_def settled_def rebaseline_def nextAttempt_baseline_def

theorem no_stream_is_stuck_witness:
  "\<exists>outs m r s. run_all (stream_step default_stream_options) sample_stream initial_manager = (outs, m) \<and>
     sm_currentRun m = Some r \<and> map_of (run_states r) ''book:BTC'' = Some s \<and> s = sample_stream_state \<and>
     (baselineReady s \<or> (\<exists>n. baselinePromise s = Some (AwaitingBaseline n)) \<or>
      ((\<exists>e. baselinePromise s = Some (OperationEnded (Some e))) \<and>
       fails_over default_stream_options 0
         [BaselineOperationEnded (run_generation r) ''book:BTC'', RebaselineRejected (run_generation r)] m) \<or>
      (run_rejections r \<noteq> [] \<and>
       fails_over default_stream_options 0 [RebaselineRejected (run_generation r)] m))"
proof -
  obtain outs m where run: "run_all (stream_step default_stream_options) sample_stream initial_manager = (outs, m)"
    by fastforce
  have first: "microtasks_first default_stream_options sample_stream initial_manager"
    by (simp add: stream_eval Let_def)
  have "eligible m \<and> \<lparr>sub_key = ''book:BTC'', sub_wire = JNull\<rparr> \<in> set (sm_subscriptions m) \<and> sm_connecting m = []"
    using run by (simp add: stream_eval Let_def) auto
  then have m: "eligible m" "\<lparr>sub_key = ''book:BTC'', sub_wire = JNull\<rparr> \<in> set (sm_subscriptions m)"
    "\<not> connecting m" by (auto simp: connecting_def)
  have "\<exists>r. sm_currentRun m = Some r \<and> map_of (run_states r) ''book:BTC'' = Some sample_stream_state"
    using run by (simp add: stream_eval sample_stream_state_def Let_def) auto
  then obtain r where r: "sm_currentRun m = Some r" "map_of (run_states r) ''book:BTC'' = Some sample_stream_state"
    by blast
  then have "\<not> reconnects default_stream_options m" by (simp add: reconnects_def)
  with no_stream_is_stuck [OF first run m(1,2), of 0] m(3) run r show ?thesis by auto
qed

text \<open>What a consumer of the sample sees.\<close>

lemma sample_stream_applies:
  "filter (\<lambda>e. case e of ApplyBaseline _ _ _ \<Rightarrow> True | ApplyDelta _ _ _ \<Rightarrow> True | _ \<Rightarrow> False)
     (concat (fst (run_all (stream_step default_stream_options) sample_stream initial_manager))) =
   [ApplyBaseline 1 ''book:BTC'' \<lparr>base_sequence = Some 10, base_data = JNull\<rparr>,
    ApplyDelta 1 ''book:BTC'' (sample_delta 11 ''a''), ApplyDelta 1 ''book:BTC'' (sample_delta 12 ''b'')]"
  by (simp add: stream_eval Let_def)

lemma reconnect_delay_bounds:
  assumes "0 \<le> random" "random < 1" "0 \<le> reconnectBaseMs cfg" "0 \<le> reconnectMaxMs cfg"
  shows "0 \<le> reconnect_delay cfg random n" "reconnect_delay cfg random n < reconnectMaxMs cfg + 1000"
proof -
  define x where "x = min (reconnectMaxMs cfg) (reconnectBaseMs cfg * 2 ^ n)"
  define y :: rat where "y = min 1000 (of_int x / 2)"
  have x: "0 \<le> x" "x \<le> reconnectMaxMs cfg" using assms by (auto simp: x_def)
  have y: "0 \<le> y" "y \<le> 1000" using x by (auto simp: y_def)
  have "random * y < 1000"
  proof (cases "y = 0")
    case False
    with y assms(2) have "random * y < 1 * y" by (intro mult_strict_right_mono) auto
    with y show ?thesis by simp
  qed simp
  then have "\<lfloor>random * y\<rfloor> < 1000" by linarith
  moreover have "0 \<le> \<lfloor>random * y\<rfloor>" using assms(1) y(1) by simp
  moreover have "reconnect_delay cfg random n = x + \<lfloor>random * y\<rfloor>"
    by (simp add: reconnect_delay_def Let_def x_def y_def)
  ultimately show "0 \<le> reconnect_delay cfg random n" "reconnect_delay cfg random n < reconnectMaxMs cfg + 1000"
    using x by linarith+
qed

end
