(* ===== verification/Delivery_Store.thy ===== *)
theory Delivery_Store
  imports Js_Value
begin

text \<open>
  The part of the notification service's database that delivers alerts
  (\<^verbatim>\<open>apps/api/src/db/notification-store.ts\<close>, schema in \<^verbatim>\<open>apps/api/migrations\<close>):
  alerts and their outbox, dispatch permits, provider tickets, the egress lease, and the revocation of
  installations and account links, which fences all of them.

  A table is the list of its rows, with the columns that these operations read or write. A transaction
  takes the locks it needs before it reads what it relies on, so it is one function of the database at
  one time \<open>now\<close>, in milliseconds; it changes nothing when it throws. What it reads without a lock is
  read from an earlier state, which is an argument. Rows that other transactions hold and
  \<^verbatim>\<open>SKIP LOCKED\<close> passes over are those with \<open>busy\<close>; random IDs are arguments.
\<close>

section \<open>Rows\<close>

datatype notification_network = Testnet | Mainnet

datatype notification_category = ExecutionAlert | RiskAlert | PriceAlert | FundingAlert

datatype scope_state = ScopeActive | ScopeDraining | ScopeInactive

datatype outbox_state =
    OutboxPending
  | OutboxLeased
  | ProviderSubmissionStarted
  | ProviderAccepted
  | ProviderRejected
  | ProviderOutcomeUnknown
  | OutboxCancelled

datatype permit_state = PermitActive | PermitSubmissionStarted | PermitFinished | PermitExpired

datatype receipt_state = ReceiptPending | ReceiptDelivered | ReceiptFailed | ReceiptUnknown

datatype scope_kind = InstallationScope | AccountLinkScope

record installation_row =
  i_id :: string
  i_state :: scope_state
  i_generation :: int
  i_credential_hash :: "string option"
  i_key_version :: string

record token_row =
  k_id :: string
  k_installation :: string
  k_active :: bool
  k_encrypted :: string

record link_row =
  l_id :: string
  l_installation :: string
  l_network :: notification_network
  l_state :: scope_state
  l_generation :: int
  l_key_version :: "string option"

record rule_row =
  r_id :: string
  r_digest :: string
  r_installation :: string
  r_link :: "string option"
  r_network :: notification_network
  r_active :: bool

record alert_row =
  a_id :: string
  a_installation :: string
  a_link :: "string option"
  a_scope :: "string option"
  a_rule :: "string option"
  a_category :: notification_category
  a_network :: notification_network
  a_route :: string
  a_deletion :: "string option"

record outbox_row =
  o_id :: string
  o_alert :: string
  o_installation :: string
  o_link :: "string option"
  o_scope :: "string option"
  o_link_generation :: "int option"
  o_network :: notification_network
  o_generation :: int
  o_state :: outbox_state
  o_lease_owner :: "string option"
  o_lease_expires :: "int option"
  o_created :: int
  o_attempts :: int
  o_error :: "string option"
  o_deletion :: "string option"

record permit_row =
  p_id :: string
  p_outbox :: string
  p_installation :: string
  p_link :: "string option"
  p_scope :: "string option"
  p_link_generation :: "int option"
  p_network :: notification_network
  p_generation :: int
  p_state :: permit_state
  p_expires :: int
  p_deadline :: int
  p_deletion :: "string option"

record ticket_row =
  t_id :: string
  t_outbox :: string
  t_token :: "string option"
  t_state :: receipt_state
  t_attempts :: int
  t_next :: int
  t_lease_owner :: "string option"
  t_lease_expires :: "int option"
  t_error :: "string option"

record lease_row =
  e_key :: string
  e_owner :: string
  e_generation :: int
  e_expires :: int

record operation_row =
  v_id :: string
  v_deletion :: string
  v_kind :: scope_kind
  v_scope :: string
  v_committed :: bool
  v_sequence :: "int option"

record deletion_item =
  d_deletion :: string
  d_kind :: scope_kind
  d_mac :: string
  d_generation :: int
  d_sequence :: int
  d_head :: int
  d_key_version :: string

record nstore =
  installations :: "installation_row list"
  tokens :: "token_row list"
  links :: "link_row list"
  rules :: "rule_row list"
  alerts :: "alert_row list"
  outbox :: "outbox_row list"
  permits :: "permit_row list"
  tickets :: "ticket_row list"
  receipts :: "(string \<times> string \<times> receipt_state) list"
  leases :: "lease_row list"
  dedupe :: "string list"
  operations :: "operation_row list"
  tombstones :: "deletion_item list"
  schema_contracted :: bool
  restore_ready :: bool
  mutations_enabled :: bool
  monitors_enabled :: bool
  delivery_enabled :: bool

section \<open>Checks\<close>

abbreviation StoreConflictError :: "string \<Rightarrow> js_error" where
  "StoreConflictError msg \<equiv> CodedError ''StoreConflictError'' msg"

abbreviation StoreUnauthorizedError :: "string \<Rightarrow> js_error" where
  "StoreUnauthorizedError msg \<equiv> CodedError ''StoreUnauthorizedError'' msg"

abbreviation StoreNotReadyError :: "string \<Rightarrow> js_error" where
  "StoreNotReadyError msg \<equiv> CodedError ''StoreNotReadyError'' msg"

definition DrainPendingError :: js_error where
  "DrainPendingError = CodedError ''DrainPendingError'' ''''"

definition DeliveryAuthorizationError :: js_error where
  "DeliveryAuthorizationError =
     CodedError ''DeliveryAuthorizationError'' ''notification delivery authorization is no longer active''"

abbreviation constraint_violated :: "'a result" where
  "constraint_violated \<equiv> Inl (CodedError ''PostgresError'' ''constraint'')"

definition hex_id :: "nat \<Rightarrow> string \<Rightarrow> bool" where
  "hex_id n s \<longleftrightarrow> length s = n \<and> list_all is_lower_hex s"

definition worker_char :: "char \<Rightarrow> bool" where
  "worker_char c \<longleftrightarrow> is_digit c \<or> (97 \<le> code c \<and> code c \<le> 122) \<or> c \<in> set '':_-''"

definition graphic_text :: "string \<Rightarrow> bool" where
  "graphic_text s \<longleftrightarrow> 1 \<le> length s \<and> length s \<le> 256 \<and> list_all (\<lambda>c. 33 \<le> code c \<and> code c \<le> 126) s"

definition worker_id :: "string \<Rightarrow> bool" where
  "worker_id s \<longleftrightarrow> 1 \<le> length s \<and> length s \<le> 128 \<and> list_all worker_char s"

definition EXPO_RECEIPT_BATCH_SIZE :: int where
  "EXPO_RECEIPT_BATCH_SIZE = 100"

definition validateLeaseIdentity :: "string \<Rightarrow> string \<Rightarrow> unit result" where
  "validateLeaseIdentity leaseKey ownerId =
     throw_if (\<not> graphic_text leaseKey \<or> \<not> worker_id ownerId) (StoreConflictError ''monitor lease identity is invalid'')"

definition validateWorkerId :: "string \<Rightarrow> unit result" where
  "validateWorkerId workerId =
     throw_if (\<not> worker_id workerId) (StoreConflictError ''notification worker ID is invalid'')"

definition validateHexId :: "string \<Rightarrow> string \<Rightarrow> unit result" where
  "validateHexId text label =
     throw_if (\<not> hex_id 32 text) (StoreConflictError (label @ '' ID is invalid''))"

definition validateBoundedBatch :: "js_number \<Rightarrow> string \<Rightarrow> int result" where
  "validateBoundedBatch limit msg =
     (case limit of
        IntN n \<Rightarrow>
          if safe_int n \<and> 1 \<le> n \<and> n \<le> EXPO_RECEIPT_BATCH_SIZE then Inr n else Inl (StoreConflictError msg)
      | _ \<Rightarrow> Inl (StoreConflictError msg))"

definition validateProviderErrorCode :: "string \<Rightarrow> unit result" where
  "validateProviderErrorCode s =
     throw_if (\<not> (s \<noteq> [] \<and> length s \<le> 64 \<and> 97 \<le> code (hd s) \<and> code (hd s) \<le> 122 \<and>
                  list_all (\<lambda>c. is_digit c \<or> (97 \<le> code c \<and> code c \<le> 122) \<or> c = CHR ''_'') (tl s)))
       (StoreConflictError ''provider error code is invalid'')"

section \<open>Queries\<close>

definition select_one :: "('r \<Rightarrow> bool) \<Rightarrow> 'r list \<Rightarrow> 'r option" where
  "select_one P rows = (case filter P rows of [] \<Rightarrow> None | row # _ \<Rightarrow> Some row)"

definition update_where :: "('r \<Rightarrow> bool) \<Rightarrow> ('r \<Rightarrow> 'r) \<Rightarrow> 'r list \<Rightarrow> 'r list" where
  "update_where P f rows = map (\<lambda>r. if P r then f r else r) rows"

text \<open>\<^verbatim>\<open>ORDER BY k LIMIT n\<close>\<close>

definition first_by :: "('r \<Rightarrow> int) \<Rightarrow> int \<Rightarrow> 'r list \<Rightarrow> 'r list" where
  "first_by k n rows = take (nat n) (sort_key k rows)"

definition same_row :: "string list \<Rightarrow> ('r \<Rightarrow> string) \<Rightarrow> 'r \<Rightarrow> bool" where
  "same_row ids f r \<longleftrightarrow> f r \<in> set ids"

definition assertMutable :: "nstore \<Rightarrow> unit result" where
  "assertMutable db =
     throw_if (\<not> schema_contracted db \<or> \<not> restore_ready db \<or> \<not> mutations_enabled db)
       (StoreNotReadyError ''notification storage is not ready for mutations'')"

definition assertMonitorsEnabled :: "nstore \<Rightarrow> unit result" where
  "assertMonitorsEnabled db =
     throw_if (\<not> schema_contracted db \<or> \<not> restore_ready db \<or> \<not> monitors_enabled db)
       (StoreNotReadyError ''notification monitors are not ready'')"

definition assertDeliveryEnabled :: "nstore \<Rightarrow> unit result" where
  "assertDeliveryEnabled db =
     throw_if (\<not> schema_contracted db \<or> \<not> restore_ready db \<or> \<not> delivery_enabled db)
       (StoreNotReadyError ''notification delivery is not ready'')"

definition active_installation :: "nstore \<Rightarrow> string \<Rightarrow> int \<Rightarrow> bool" where
  "active_installation db i g \<longleftrightarrow>
     (\<exists>row \<in> set (installations db). i_id row = i \<and> i_state row = ScopeActive \<and> i_generation row = g)"

definition active_token :: "nstore \<Rightarrow> string \<Rightarrow> token_row option" where
  "active_token db i = select_one (\<lambda>k. k_installation k = i \<and> k_active k) (tokens db)"

text \<open>The account link of a dispatch, where it has one, is still the one it was created under.\<close>

definition active_link :: "nstore \<Rightarrow> string \<Rightarrow> string option \<Rightarrow> int option \<Rightarrow> bool" where
  "active_link db i scope g \<longleftrightarrow>
     (case scope of
        None \<Rightarrow> True
      | Some s \<Rightarrow>
          (\<exists>row \<in> set (links db). l_id row = s \<and> l_installation row = i \<and> l_state row = ScopeActive \<and>
              Some (l_generation row) = g))"

section \<open>The egress lease\<close>

definition NOTIFICATION_EGRESS_LEASE_KEY :: string where
  "NOTIFICATION_EGRESS_LEASE_KEY = ''runtime:egress''"

record RuntimeEgressFence =
  f_leaseKey :: string
  f_ownerId :: string
  f_generation :: js_number

definition validateRuntimeEgressFence :: "RuntimeEgressFence \<Rightarrow> unit result" where
  "validateRuntimeEgressFence fence =
     throw_if (f_leaseKey fence \<noteq> NOTIFICATION_EGRESS_LEASE_KEY \<or> \<not> worker_id (f_ownerId fence) \<or>
               \<not> isSafeInteger (f_generation fence) \<or> js_less (f_generation fence) (IntN 1))
       (StoreConflictError ''notification egress fence is invalid'')"

definition fence_holds :: "nstore \<Rightarrow> int \<Rightarrow> RuntimeEgressFence \<Rightarrow> bool" where
  "fence_holds db now fence \<longleftrightarrow>
     (\<exists>e \<in> set (leases db). e_key e = f_leaseKey fence \<and> e_owner e = f_ownerId fence \<and>
        IntN (e_generation e) = f_generation fence \<and> now < e_expires e)"

definition assertRuntimeEgressFence :: "nstore \<Rightarrow> int \<Rightarrow> RuntimeEgressFence \<Rightarrow> unit result" where
  "assertRuntimeEgressFence db now fence =
     throw_if (\<not> fence_holds db now fence) (StoreNotReadyError ''notification egress ownership is unavailable'')"

definition acquireMonitorLease :: "string \<Rightarrow> string \<Rightarrow> int \<Rightarrow> nstore \<Rightarrow> (int option \<times> nstore) result" where
  "acquireMonitorLease leaseKey ownerId now db =
     bindE (validateLeaseIdentity leaseKey ownerId) (\<lambda>_.
     bindE (assertMonitorsEnabled db) (\<lambda>_.
     case select_one (\<lambda>e. e_key e = leaseKey) (leases db) of
       None \<Rightarrow>
         Inr (Some 1, db\<lparr>leases := leases db @
           [\<lparr>e_key = leaseKey, e_owner = ownerId, e_generation = 1, e_expires = now + 30000\<rparr>]\<rparr>)
     | Some e \<Rightarrow>
         if e_expires e \<le> now
         then Inr (Some (e_generation e + 1), db\<lparr>leases := update_where (\<lambda>e. e_key e = leaseKey)
                (\<lambda>e. e\<lparr>e_owner := ownerId, e_generation := e_generation e + 1, e_expires := now + 30000\<rparr>) (leases db)\<rparr>)
         else Inr (None, db)))"

definition lease_of :: "string \<Rightarrow> string \<Rightarrow> js_number \<Rightarrow> lease_row \<Rightarrow> bool" where
  "lease_of leaseKey ownerId generation e \<longleftrightarrow>
     e_key e = leaseKey \<and> e_owner e = ownerId \<and> IntN (e_generation e) = generation"

definition renewMonitorLease :: "string \<Rightarrow> string \<Rightarrow> js_number \<Rightarrow> int \<Rightarrow> nstore \<Rightarrow> (bool \<times> nstore) result" where
  "renewMonitorLease leaseKey ownerId generation now db =
     bindE (validateLeaseIdentity leaseKey ownerId) (\<lambda>_.
     bindE (throw_if (\<not> isSafeInteger generation \<or> js_less generation (IntN 1))
       (StoreConflictError ''monitor lease generation is invalid'')) (\<lambda>_.
     bindE (assertMonitorsEnabled db) (\<lambda>_.
     let held = (\<lambda>e. lease_of leaseKey ownerId generation e \<and> now < e_expires e) in
     Inr (length (filter held (leases db)) = 1,
          db\<lparr>leases := update_where held (\<lambda>e. e\<lparr>e_expires := now + 30000\<rparr>) (leases db)\<rparr>))))"

definition releaseMonitorLease :: "string \<Rightarrow> string \<Rightarrow> js_number \<Rightarrow> nstore \<Rightarrow> (unit \<times> nstore) result" where
  "releaseMonitorLease leaseKey ownerId generation db =
     bindE (validateLeaseIdentity leaseKey ownerId) (\<lambda>_.
     if \<not> isSafeInteger generation \<or> js_less generation (IntN 1) then Inr ((), db)
     else Inr ((), db\<lparr>leases := filter (\<lambda>e. \<not> lease_of leaseKey ownerId generation e) (leases db)\<rparr>))"

section \<open>Alerts\<close>

record alert_input =
  n_ruleId :: string
  n_identityDigest :: string
  n_eventKey :: string
  n_category :: notification_category
  n_routeHint :: string

text \<open>The rule with its installation, token and link, as the query joins them.\<close>

definition alertable_rule :: "nstore \<Rightarrow> alert_input \<Rightarrow> (rule_row \<times> installation_row \<times> int option) option" where
  "alertable_rule db input =
     (case select_one (\<lambda>r. r_id r = n_ruleId input \<and> r_digest r = n_identityDigest input \<and> r_active r) (rules db) of
        None \<Rightarrow> None
      | Some r \<Rightarrow>
          (case select_one (\<lambda>i. i_id i = r_installation r \<and> i_state i = ScopeActive) (installations db) of
             None \<Rightarrow> None
           | Some i \<Rightarrow>
               if active_token db (r_installation r) = None then None
               else case r_link r of
                 None \<Rightarrow> Some (r, i, None)
               | Some l \<Rightarrow>
                   (case select_one (\<lambda>x. l_id x = l \<and> l_installation x = r_installation r \<and> l_state x = ScopeActive)
                           (links db) of
                      None \<Rightarrow> None
                    | Some x \<Rightarrow> Some (r, i, Some (l_generation x)))))"

definition createAlertForRuleMatch ::
  "alert_input \<Rightarrow> string \<Rightarrow> string \<Rightarrow> int \<Rightarrow> nstore \<Rightarrow> ((string \<times> string) option \<times> nstore) result" where
  "createAlertForRuleMatch input alertId outboxId now db =
     (if \<not> hex_id 32 (n_ruleId input) \<or> \<not> hex_id 64 (n_identityDigest input) \<or> \<not> hex_id 64 (n_eventKey input) \<or>
         n_routeHint input \<notin> {''trade'', ''portfolio''}
      then Inl (StoreConflictError ''notification alert input is invalid'')
      else
        bindE (assertMonitorsEnabled db) (\<lambda>_.
        case alertable_rule db input of
          None \<Rightarrow> Inl (StoreUnauthorizedError ''notification rule is not active'')
        | Some (r, i, linkGeneration) \<Rightarrow>
            if n_eventKey input \<in> set (dedupe db) then Inr (None, db)
            else if alertId \<in> a_id ` set (alerts db) \<or> outboxId \<in> o_id ` set (outbox db) then constraint_violated
            else Inr (Some (alertId, outboxId),
              db\<lparr>dedupe := dedupe db @ [n_eventKey input],
                 alerts := alerts db @
                   [\<lparr>a_id = alertId, a_installation = r_installation r, a_link = r_link r, a_scope = r_link r,
                     a_rule = Some (n_ruleId input), a_category = n_category input, a_network = r_network r,
                     a_route = n_routeHint input, a_deletion = None\<rparr>],
                 outbox := outbox db @
                   [\<lparr>o_id = outboxId, o_alert = alertId, o_installation = r_installation r, o_link = r_link r,
                     o_scope = r_link r, o_link_generation = linkGeneration, o_network = r_network r,
                     o_generation = i_generation i, o_state = OutboxPending, o_lease_owner = None,
                     o_lease_expires = None, o_created = now, o_attempts = 0, o_error = None, o_deletion = None\<rparr>]\<rparr>)))"

section \<open>Permits\<close>

definition live_permit :: "permit_row \<Rightarrow> bool" where
  "live_permit p \<longleftrightarrow> p_state p \<in> {PermitActive, PermitSubmissionStarted}"

text \<open>The primary key, the unique index on live permits, the foreign key and the check of the ID.\<close>

definition insertPermit :: "permit_row \<Rightarrow> nstore \<Rightarrow> nstore result" where
  "insertPermit p db =
     (if \<not> hex_id 32 (p_id p) \<or> p_id p \<in> p_id ` set (permits db) \<or>
         (\<exists>q \<in> set (permits db). live_permit q \<and> p_outbox q = p_outbox p) \<or>
         \<not> (\<exists>o' \<in> set (outbox db). o_id o' = p_outbox p \<and> o_installation o' = p_installation p \<and>
              o_network o' = p_network p \<and> o_generation o' = p_generation p)
      then constraint_violated
      else Inr (db\<lparr>permits := permits db @ [p]\<rparr>))"

definition acquireDispatchPermit ::
  "string \<Rightarrow> string option \<Rightarrow> string \<Rightarrow> string \<Rightarrow> int \<Rightarrow> nstore \<Rightarrow> ((string \<times> int) \<times> nstore) result" where
  "acquireDispatchPermit installationId accountLinkId outboxId permitId now db =
     (case select_one (\<lambda>i. i_id i = installationId) (installations db) of
        None \<Rightarrow> Inl (StoreUnauthorizedError ''installation is not active'')
      | Some i \<Rightarrow>
          if i_state i \<noteq> ScopeActive then Inl (StoreUnauthorizedError ''installation is not active'')
          else bindE
            (case accountLinkId of
               None \<Rightarrow> Inr None
             | Some l \<Rightarrow>
                 if l = [] then Inr None
                 else (case select_one (\<lambda>x. l_id x = l \<and> l_installation x = installationId) (links db) of
                    None \<Rightarrow> Inl (StoreUnauthorizedError ''account link is not active'')
                  | Some x \<Rightarrow>
                      if l_state x \<noteq> ScopeActive then Inl (StoreUnauthorizedError ''account link is not active'')
                      else Inr (Some (l_generation x)))) (\<lambda>linkGeneration.
            case select_one (\<lambda>x. o_id x = outboxId \<and> o_installation x = installationId) (outbox db) of
              None \<Rightarrow> Inl (StoreConflictError ''outbox row is not dispatchable'')
            | Some x \<Rightarrow>
                if o_state x \<noteq> OutboxPending then Inl (StoreConflictError ''outbox row is not dispatchable'')
                else if o_link x \<noteq> accountLinkId then Inl (StoreConflictError ''dispatch scope does not match outbox row'')
                else bindE (insertPermit
                    \<lparr>p_id = permitId, p_outbox = outboxId, p_installation = installationId, p_link = accountLinkId,
                     p_scope = accountLinkId, p_link_generation = linkGeneration, p_network = o_network x,
                     p_generation = i_generation i, p_state = PermitActive, p_expires = now + 30000,
                     p_deadline = now + 10000, p_deletion = None\<rparr> db) (\<lambda>db.
                  Inr ((permitId, i_generation i),
                    db\<lparr>outbox := update_where (\<lambda>x. o_id x = outboxId \<and> o_state x = OutboxPending)
                         (\<lambda>x. x\<lparr>o_state := OutboxLeased, o_scope := accountLinkId, o_link_generation := linkGeneration\<rparr>)
                         (outbox db)\<rparr>))))"

text \<open>The dispatchable rows, and the first of them by age and then by ID.\<close>

definition dispatchable :: "nstore \<Rightarrow> outbox_row \<Rightarrow> bool" where
  "dispatchable db x \<longleftrightarrow>
     o_state x = OutboxPending \<and> o_attempts x < 8 \<and>
     o_alert x \<in> a_id ` set (alerts db) \<and>
     active_installation db (o_installation x) (o_generation x) \<and>
     active_token db (o_installation x) \<noteq> None \<and>
     active_link db (o_installation x) (o_scope x) (o_link_generation x)"

definition older :: "outbox_row \<Rightarrow> outbox_row \<Rightarrow> bool" where
  "older x y \<longleftrightarrow> o_created x < o_created y \<or> (o_created x = o_created y \<and> o_id x \<le> o_id y)"

fun oldest :: "outbox_row list \<Rightarrow> outbox_row option" where
  "oldest [] = None"
| "oldest (x # xs) = (case oldest xs of None \<Rightarrow> Some x | Some y \<Rightarrow> Some (if older x y then x else y))"

record DeliveryClaim =
  c_permitId :: string
  c_outboxId :: string
  c_alertId :: string
  c_category :: notification_category
  c_network :: notification_network
  c_routeHint :: string
  c_providerDeadlineAt :: int

definition claimNextDispatch ::
  "string \<Rightarrow> RuntimeEgressFence \<Rightarrow> (string \<Rightarrow> bool) \<Rightarrow> string \<Rightarrow> int \<Rightarrow> nstore
     \<Rightarrow> (DeliveryClaim option \<times> nstore) result" where
  "claimNextDispatch workerId fence busy permitId now db =
     bindE (validateWorkerId workerId) (\<lambda>_.
     bindE (validateRuntimeEgressFence fence) (\<lambda>_.
     bindE (assertDeliveryEnabled db) (\<lambda>_.
     bindE (assertRuntimeEgressFence db now fence) (\<lambda>_.
     case oldest (filter (\<lambda>x. dispatchable db x \<and> \<not> busy (o_id x)) (outbox db)) of
       None \<Rightarrow> Inr (None, db)
     | Some x \<Rightarrow>
         (case select_one (\<lambda>a. a_id a = o_alert x) (alerts db) of
            None \<Rightarrow> Inr (None, db)
          | Some a \<Rightarrow>
              bindE (insertPermit
                \<lparr>p_id = permitId, p_outbox = o_id x, p_installation = o_installation x, p_link = o_link x,
                 p_scope = o_link x, p_link_generation = o_link_generation x, p_network = o_network x,
                 p_generation = o_generation x, p_state = PermitActive, p_expires = now + 30000,
                 p_deadline = now + 10000, p_deletion = None\<rparr> db) (\<lambda>db.
              Inr (Some \<lparr>c_permitId = permitId, c_outboxId = o_id x, c_alertId = o_alert x,
                         c_category = a_category a, c_network = o_network x, c_routeHint = a_route a,
                         c_providerDeadlineAt = now + 10000\<rparr>,
                   db\<lparr>outbox := update_where (\<lambda>y. o_id y = o_id x \<and> o_state y = OutboxPending)
                        (\<lambda>y. y\<lparr>o_state := OutboxLeased, o_lease_owner := Some workerId,
                              o_lease_expires := Some (now + 30000), o_attempts := o_attempts y + 1\<rparr>)
                        (outbox db)\<rparr>)))))))"

text \<open>A claim that did not lead to a submission is given up: the row is pending again, eight times.\<close>

definition release_lease :: "outbox_row \<Rightarrow> outbox_row" where
  "release_lease x =
     x\<lparr>o_state := (if o_attempts x < 8 then OutboxPending else OutboxCancelled),
       o_lease_owner := None, o_lease_expires := None\<rparr>"

definition abandonUnstartedDispatch :: "string \<Rightarrow> nstore \<Rightarrow> (unit \<times> nstore) result" where
  "abandonUnstartedDispatch permitId db =
     bindE (validateHexId permitId ''dispatch permit'') (\<lambda>_.
     case select_one (\<lambda>p. p_id p = permitId \<and> p_state p = PermitActive) (permits db) of
       None \<Rightarrow> Inr ((), db)
     | Some p \<Rightarrow>
         Inr ((), db\<lparr>permits := update_where (\<lambda>p. p_id p = permitId \<and> p_state p = PermitActive)
                       (\<lambda>p. p\<lparr>p_state := PermitExpired\<rparr>) (permits db),
                     outbox := update_where (\<lambda>x. o_id x = p_outbox p \<and> o_state x = OutboxLeased) release_lease (outbox db)\<rparr>))"

text \<open>
  A submission starts only while everything its claim relied on still holds. The permit is first read
  without a lock, in \<open>observed\<close>, to know which rows to lock.
\<close>

definition markProviderSubmissionStarted ::
  "string \<Rightarrow> int \<Rightarrow> nstore \<Rightarrow> nstore \<Rightarrow> (unit \<times> nstore) result" where
  "markProviderSubmissionStarted permitId now observed db =
     bindE (validateHexId permitId ''dispatch permit'') (\<lambda>_.
     case select_one (\<lambda>p. p_id p = permitId) (permits observed) of
       None \<Rightarrow> Inl (StoreConflictError ''dispatch permit is not active'')
     | Some seen \<Rightarrow>
         bindE (throw_if (p_state seen \<noteq> PermitActive) (StoreConflictError ''dispatch permit is not active'')) (\<lambda>_.
         bindE (throw_if (\<not> active_installation db (p_installation seen) (p_generation seen))
           (StoreUnauthorizedError ''dispatch scope is no longer active'')) (\<lambda>_.
         bindE (throw_if (length (filter (\<lambda>k. k_installation k = p_installation seen \<and> k_active k) (tokens db)) \<noteq> 1)
           (StoreUnauthorizedError ''push token is no longer active'')) (\<lambda>_.
         bindE (throw_if (\<not> active_link db (p_installation seen) (p_scope seen) (p_link_generation seen))
           (StoreUnauthorizedError ''dispatch account-link scope is no longer active'')) (\<lambda>_.
         bindE (case select_one (\<lambda>x. o_id x = p_outbox seen \<and> o_installation x = p_installation seen) (outbox db) of
             None \<Rightarrow> Inl (StoreUnauthorizedError ''dispatch outbox is no longer active'')
           | Some x \<Rightarrow>
               throw_if (o_state x \<noteq> OutboxLeased \<or> o_scope x \<noteq> p_scope seen \<or> o_generation x \<noteq> p_generation seen)
                 (StoreUnauthorizedError ''dispatch outbox is no longer active'')) (\<lambda>_.
         case select_one (\<lambda>p. p_id p = permitId) (permits db) of
           None \<Rightarrow> Inl (StoreConflictError ''dispatch permit changed concurrently'')
         | Some p \<Rightarrow>
             bindE (throw_if (p_state p \<noteq> PermitActive \<or> p_installation p \<noteq> p_installation seen \<or>
                 p_outbox p \<noteq> p_outbox seen \<or> p_scope p \<noteq> p_scope seen \<or>
                 p_link_generation p \<noteq> p_link_generation seen \<or> p_generation p \<noteq> p_generation seen)
               (StoreConflictError ''dispatch permit changed concurrently'')) (\<lambda>_.
             bindE (throw_if (\<not> (now < p_expires p \<and> now < p_deadline p)) (StoreConflictError ''dispatch permit expired'')) (\<lambda>_.
             let starting = (\<lambda>x. o_id x = p_outbox p \<and> o_state x = OutboxLeased \<and> o_generation x = p_generation p \<and>
                                 o_scope x = p_scope p) in
             bindE (throw_if (length (filter starting (outbox db)) \<noteq> 1)
               (StoreConflictError ''dispatch outbox changed concurrently'')) (\<lambda>_.
             Inr ((), db\<lparr>permits := update_where (\<lambda>p. p_id p = permitId \<and> p_state p = PermitActive)
                           (\<lambda>p. p\<lparr>p_state := PermitSubmissionStarted\<rparr>) (permits db),
                         outbox := update_where starting (\<lambda>x. x\<lparr>o_state := ProviderSubmissionStarted\<rparr>) (outbox db)\<rparr>))))))))))"

text \<open>The end of a submission.\<close>

definition finishDispatch ::
  "bool \<Rightarrow> string \<Rightarrow> outbox_state \<Rightarrow> nstore \<Rightarrow> (unit \<times> nstore) result" where
  "finishDispatch clears permitId final db =
     (case select_one (\<lambda>p. p_id p = permitId \<and> p_state p = PermitSubmissionStarted) (permits db) of
        None \<Rightarrow> Inl (StoreConflictError ''dispatch attempt is not in flight'')
      | Some p \<Rightarrow>
          let finishing = (\<lambda>x. o_id x = p_outbox p \<and> o_state x = ProviderSubmissionStarted) in
          if length (filter finishing (outbox db)) \<noteq> 1
          then Inl (StoreConflictError ''dispatch outbox is not in flight'')
          else Inr ((), db\<lparr>permits := update_where (\<lambda>p. p_id p = permitId \<and> p_state p = PermitSubmissionStarted)
                             (\<lambda>p. p\<lparr>p_state := PermitFinished\<rparr>) (permits db),
                           outbox := update_where finishing
                             (\<lambda>x. if clears then x\<lparr>o_state := final, o_lease_owner := None, o_lease_expires := None\<rparr>
                                  else x\<lparr>o_state := final\<rparr>) (outbox db)\<rparr>))"

definition finishDispatchPermit :: "string \<Rightarrow> outbox_state \<Rightarrow> nstore \<Rightarrow> (unit \<times> nstore) result" where
  "finishDispatchPermit = finishDispatch False"

definition finishDispatchInTransaction :: "string \<Rightarrow> outbox_state \<Rightarrow> nstore \<Rightarrow> (unit \<times> nstore) result" where
  "finishDispatchInTransaction = finishDispatch True"

section \<open>What the provider is asked\<close>

definition authorizedProviderRow ::
  "string \<Rightarrow> RuntimeEgressFence option \<Rightarrow> int \<Rightarrow> nstore \<Rightarrow> (permit_row \<times> token_row) option" where
  "authorizedProviderRow permitId fence now db =
     (case select_one (\<lambda>p. p_id p = permitId \<and> p_state p = PermitSubmissionStarted \<and> now < p_deadline p) (permits db) of
        None \<Rightarrow> None
      | Some p \<Rightarrow>
          if (\<exists>x \<in> set (outbox db). o_id x = p_outbox p \<and> o_installation x = p_installation p \<and>
                o_generation x = p_generation p \<and> o_state x = ProviderSubmissionStarted \<and> o_scope x = p_scope p) \<and>
             active_installation db (p_installation p) (p_generation p) \<and>
             active_link db (p_installation p) (p_scope p) (p_link_generation p) \<and>
             delivery_enabled db \<and> (case fence of None \<Rightarrow> True | Some f \<Rightarrow> fence_holds db now f)
          then map_option (\<lambda>k. (p, k)) (active_token db (p_installation p))
          else None)"

definition readDecryptedPushToken ::
  "(string \<Rightarrow> string result) \<Rightarrow> string \<Rightarrow> int \<Rightarrow> nstore \<Rightarrow> string result" where
  "readDecryptedPushToken decryptPushToken permitId now db =
     bindE (validateHexId permitId ''dispatch permit'') (\<lambda>_.
     case authorizedProviderRow permitId None now db of
       None \<Rightarrow> Inl DeliveryAuthorizationError
     | Some (p, k) \<Rightarrow> decryptPushToken (k_encrypted k))"

definition authorizeProviderFetch :: "string \<Rightarrow> RuntimeEgressFence \<Rightarrow> int \<Rightarrow> nstore \<Rightarrow> int result" where
  "authorizeProviderFetch permitId fence now db =
     bindE (validateHexId permitId ''dispatch permit'') (\<lambda>_.
     bindE (validateRuntimeEgressFence fence) (\<lambda>_.
     case authorizedProviderRow permitId (Some fence) now db of
       None \<Rightarrow> Inl DeliveryAuthorizationError
     | Some (p, k) \<Rightarrow> Inr (p_deadline p)))"

section \<open>What the provider answered\<close>

definition recordProviderAccepted :: "string \<Rightarrow> string \<Rightarrow> int \<Rightarrow> nstore \<Rightarrow> (unit \<times> nstore) result" where
  "recordProviderAccepted permitId ticketId now db =
     bindE (validateHexId permitId ''dispatch permit'') (\<lambda>_.
     bindE (throw_if (\<not> graphic_text ticketId) (StoreConflictError ''provider ticket ID is invalid'')) (\<lambda>_.
     case select_one (\<lambda>p. p_id p = permitId \<and> p_state p = PermitSubmissionStarted) (permits db) of
       None \<Rightarrow> Inl (StoreConflictError ''dispatch attempt is not in flight'')
     | Some p \<Rightarrow>
         (case (select_one (\<lambda>x. o_id x = p_outbox p \<and> o_state x = ProviderSubmissionStarted) (outbox db),
                select_one (\<lambda>k. k_installation k = p_installation p) (tokens db)) of
            (Some x, Some k) \<Rightarrow>
              if ticketId \<in> t_id ` set (tickets db) then constraint_violated
              else finishDispatchInTransaction permitId ProviderAccepted
                (db\<lparr>tickets := tickets db @
                   [\<lparr>t_id = ticketId, t_outbox = o_id x, t_token = Some (k_id k), t_state = ReceiptPending,
                     t_attempts = 0, t_next = now + 900000, t_lease_owner = None, t_lease_expires = None,
                     t_error = None\<rparr>]\<rparr>)
          | _ \<Rightarrow> Inl (StoreConflictError ''dispatch attempt is not in flight''))))"

definition recordProviderRejected :: "string \<Rightarrow> string \<Rightarrow> nstore \<Rightarrow> (unit \<times> nstore) result" where
  "recordProviderRejected permitId errorCode db =
     bindE (validateHexId permitId ''dispatch permit'') (\<lambda>_.
     bindE (validateProviderErrorCode errorCode) (\<lambda>_.
     case select_one (\<lambda>p. p_id p = permitId \<and> p_state p = PermitSubmissionStarted) (permits db) of
       None \<Rightarrow> Inl (StoreConflictError ''dispatch attempt is not in flight'')
     | Some p \<Rightarrow>
         finishDispatchInTransaction permitId ProviderRejected
           (db\<lparr>tokens := (if errorCode = ''device_not_registered''
                 then update_where (\<lambda>k. k_installation k = p_installation p \<and> k_active k) (\<lambda>k. k\<lparr>k_active := False\<rparr>) (tokens db)
                 else tokens db),
               outbox := update_where (\<lambda>x. o_id x = p_outbox p) (\<lambda>x. x\<lparr>o_error := Some errorCode\<rparr>) (outbox db)\<rparr>)))"

definition recordProviderOutcomeUnknown :: "string \<Rightarrow> nstore \<Rightarrow> (unit \<times> nstore) result" where
  "recordProviderOutcomeUnknown permitId db =
     bindE (validateHexId permitId ''dispatch permit'') (\<lambda>_.
     finishDispatchPermit permitId ProviderOutcomeUnknown db)"

text \<open>Dispatches whose worker is gone.\<close>

definition finish_late :: "int \<Rightarrow> (string \<Rightarrow> bool) \<Rightarrow> int \<Rightarrow> nstore \<Rightarrow> nstore" where
  "finish_late n busy now db =
     (let late = map p_id (first_by p_deadline n (filter (\<lambda>p. p_state p = PermitSubmissionStarted \<and>
            p_deadline p \<le> now \<and> \<not> busy (p_id p)) (permits db)))
      in db\<lparr>permits := update_where (same_row late p_id) (\<lambda>p. p\<lparr>p_state := PermitFinished\<rparr>) (permits db)\<rparr>)"

definition settle_late :: "int \<Rightarrow> nstore \<Rightarrow> nstore" where
  "settle_late now db =
     db\<lparr>outbox := update_where (\<lambda>x. o_state x = ProviderSubmissionStarted \<and>
          (\<exists>p \<in> set (permits db). p_outbox p = o_id x \<and> p_state p = PermitFinished \<and> p_deadline p \<le> now))
          (\<lambda>x. x\<lparr>o_state := ProviderOutcomeUnknown, o_lease_owner := None, o_lease_expires := None\<rparr>) (outbox db)\<rparr>"

definition expire_stale :: "int \<Rightarrow> (string \<Rightarrow> bool) \<Rightarrow> int \<Rightarrow> nstore \<Rightarrow> nstore" where
  "expire_stale n busy now db =
     (let stale = map p_id (first_by p_expires n (filter (\<lambda>p. p_state p = PermitActive \<and> p_expires p \<le> now \<and>
            \<not> busy (p_id p)) (permits db)))
      in db\<lparr>permits := update_where (same_row stale p_id) (\<lambda>p. p\<lparr>p_state := PermitExpired\<rparr>) (permits db)\<rparr>)"

definition release_stale :: "int \<Rightarrow> nstore \<Rightarrow> nstore" where
  "release_stale now db =
     db\<lparr>outbox := update_where (\<lambda>x. o_state x = OutboxLeased \<and>
          (case o_lease_expires x of None \<Rightarrow> False | Some e \<Rightarrow> e \<le> now) \<and>
          \<not> (\<exists>p \<in> set (permits db). p_outbox p = o_id x \<and> live_permit p)) release_lease (outbox db)\<rparr>"

definition recoverExpiredDispatches :: "js_number \<Rightarrow> (string \<Rightarrow> bool) \<Rightarrow> int \<Rightarrow> nstore \<Rightarrow> (unit \<times> nstore) result" where
  "recoverExpiredDispatches limit busy now db =
     bindE (validateBoundedBatch limit ''notification worker batch is invalid'') (\<lambda>n.
     bindE (assertDeliveryEnabled db) (\<lambda>_.
     Inr ((), release_stale now (expire_stale n busy now (settle_late now (finish_late n busy now db))))))"

section \<open>Receipts\<close>

definition recoverExpiredReceiptLeases :: "js_number \<Rightarrow> (string \<Rightarrow> bool) \<Rightarrow> int \<Rightarrow> nstore \<Rightarrow> (unit \<times> nstore) result" where
  "recoverExpiredReceiptLeases limit busy now db =
     bindE (validateBoundedBatch limit ''notification receipt batch is invalid'') (\<lambda>n.
     let expired = map t_id (first_by (\<lambda>t. case t_lease_expires t of Some e \<Rightarrow> e | None \<Rightarrow> 0) n
           (filter (\<lambda>t. t_state t = ReceiptPending \<and> (case t_lease_expires t of None \<Rightarrow> False | Some e \<Rightarrow> e \<le> now) \<and>
                        \<not> busy (t_id t)) (tickets db)))
     in Inr ((), db\<lparr>tickets := update_where (same_row expired t_id)
                  (\<lambda>t. t\<lparr>t_lease_owner := None, t_lease_expires := None\<rparr>) (tickets db)\<rparr>))"

text \<open>The sort by the ID below the sort by the time: both are stable.\<close>

definition claimDueReceipts ::
  "string \<Rightarrow> js_number \<Rightarrow> RuntimeEgressFence \<Rightarrow> (string \<Rightarrow> bool) \<Rightarrow> int \<Rightarrow> nstore \<Rightarrow> (string list \<times> nstore) result" where
  "claimDueReceipts workerId limit fence busy now db =
     bindE (validateWorkerId workerId) (\<lambda>_.
     bindE (validateBoundedBatch limit ''notification receipt batch is invalid'') (\<lambda>n.
     bindE (validateRuntimeEgressFence fence) (\<lambda>_.
     bindE (assertDeliveryEnabled db) (\<lambda>_.
     bindE (assertRuntimeEgressFence db now fence) (\<lambda>_.
     let due = map t_id (first_by t_next n (sort_key t_id (filter (\<lambda>t. t_state t = ReceiptPending \<and> t_attempts t < 5 \<and>
           t_next t \<le> now \<and> t_lease_owner t = None \<and> \<not> busy (t_id t)) (tickets db))))
     in Inr (due, db\<lparr>tickets := update_where (same_row due t_id)
               (\<lambda>t. t\<lparr>t_lease_owner := Some workerId, t_lease_expires := Some (now + 30000)\<rparr>) (tickets db)\<rparr>))))))"

definition leased_ticket :: "string \<Rightarrow> string \<Rightarrow> int \<Rightarrow> ticket_row \<Rightarrow> bool" where
  "leased_ticket ticketId workerId now t \<longleftrightarrow>
     t_id t = ticketId \<and> t_state t = ReceiptPending \<and> t_lease_owner t = Some workerId \<and>
     (case t_lease_expires t of None \<Rightarrow> False | Some e \<Rightarrow> now < e)"

definition insertReceipt :: "string \<Rightarrow> string \<Rightarrow> receipt_state \<Rightarrow> nstore \<Rightarrow> nstore result" where
  "insertReceipt receiptId ticketId status db =
     (if receiptId \<in> fst ` set (receipts db) \<or> (ticketId, status) \<in> snd ` set (receipts db) then constraint_violated
      else Inr (db\<lparr>receipts := receipts db @ [(receiptId, ticketId, status)]\<rparr>))"

text \<open>\<open>failure\<close> is the error code of a receipt that reports one.\<close>

definition completeReceipt ::
  "string \<Rightarrow> string \<Rightarrow> string option \<Rightarrow> string \<Rightarrow> int \<Rightarrow> nstore \<Rightarrow> (unit \<times> nstore) result" where
  "completeReceipt ticketId workerId failure receiptId now db =
     bindE (validateWorkerId workerId) (\<lambda>_.
     bindE (case failure of None \<Rightarrow> Inr () | Some e \<Rightarrow> if e = [] then Inr () else validateProviderErrorCode e) (\<lambda>_.
     let status = (if failure = None then ReceiptDelivered else ReceiptFailed) in
     case select_one (leased_ticket ticketId workerId now) (tickets db) of
       None \<Rightarrow> Inl (StoreConflictError ''receipt lease is unavailable'')
     | Some t \<Rightarrow>
         bindE (insertReceipt receiptId ticketId status
           (db\<lparr>tickets := update_where (leased_ticket ticketId workerId now)
                 (\<lambda>t. t\<lparr>t_state := status, t_error := failure, t_lease_owner := None, t_lease_expires := None\<rparr>)
                 (tickets db)\<rparr>)) (\<lambda>db.
         Inr ((), if failure = Some ''device_not_registered'' \<and> t_token t \<noteq> None
                  then db\<lparr>tokens := update_where (\<lambda>k. Some (k_id k) = t_token t \<and> k_active k)
                         (\<lambda>k. k\<lparr>k_active := False\<rparr>) (tokens db)\<rparr>
                  else db))))"

definition deferReceipt :: "string \<Rightarrow> string \<Rightarrow> string \<Rightarrow> int \<Rightarrow> nstore \<Rightarrow> (unit \<times> nstore) result" where
  "deferReceipt ticketId workerId receiptId now db =
     bindE (validateWorkerId workerId) (\<lambda>_.
     case select_one (leased_ticket ticketId workerId now) (tickets db) of
       None \<Rightarrow> Inl (StoreConflictError ''receipt lease is unavailable'')
     | Some t \<Rightarrow>
         let nextAttempt = t_attempts t + 1 in
         if nextAttempt \<ge> 5
         then bindE (insertReceipt receiptId ticketId ReceiptUnknown
                (db\<lparr>tickets := update_where (\<lambda>t. t_id t = ticketId)
                      (\<lambda>t. t\<lparr>t_state := ReceiptUnknown, t_attempts := 5, t_lease_owner := None,
                            t_lease_expires := None\<rparr>) (tickets db)\<rparr>)) (\<lambda>db. Inr ((), db))
         else Inr ((), db\<lparr>tickets := update_where (\<lambda>t. t_id t = ticketId)
                (\<lambda>t. t\<lparr>t_attempts := nextAttempt, t_next := now + 60000 * (15 * 2 ^ nat nextAttempt),
                      t_lease_owner := None, t_lease_expires := None\<rparr>) (tickets db)\<rparr>))"

section \<open>Revocation\<close>

definition overdue :: "bool \<Rightarrow> int \<Rightarrow> permit_row \<Rightarrow> bool" where
  "overdue forceUnknown now p \<longleftrightarrow> p_state p = PermitSubmissionStarted \<and> (forceUnknown \<or> p_deadline p \<le> now)"

definition fenced_outbox :: "nstore \<Rightarrow> string \<Rightarrow> bool \<Rightarrow> int \<Rightarrow> outbox_row \<Rightarrow> outbox_row" where
  "fenced_outbox db deletionId forceUnknown now x =
     x\<lparr>o_deletion := Some deletionId,
       o_state :=
         (if o_state x = ProviderSubmissionStarted \<and>
             (forceUnknown \<or> (\<exists>p \<in> set (permits db). p_outbox p = o_id x \<and> overdue False now p))
          then ProviderOutcomeUnknown
          else if o_state x \<in> {OutboxPending, OutboxLeased} then OutboxCancelled
          else o_state x)\<rparr>"

definition fenced_permit :: "string \<Rightarrow> bool \<Rightarrow> int \<Rightarrow> permit_row \<Rightarrow> permit_row" where
  "fenced_permit deletionId forceUnknown now p =
     p\<lparr>p_deletion := Some deletionId,
       p_state :=
         (if p_state p = PermitActive then PermitExpired
          else if overdue forceUnknown now p then PermitFinished
          else p_state p)\<rparr>"

definition or_else :: "string option \<Rightarrow> string option \<Rightarrow> string option" where
  "or_else a b = (case a of None \<Rightarrow> b | Some x \<Rightarrow> Some x)"

definition fenceInstallationDispatchWork :: "string \<Rightarrow> string \<Rightarrow> bool \<Rightarrow> int \<Rightarrow> nstore \<Rightarrow> nstore" where
  "fenceInstallationDispatchWork installationId deletionId forceUnknown now db =
     db\<lparr>outbox := update_where (\<lambda>x. o_installation x = installationId)
          (\<lambda>x. (fenced_outbox db deletionId forceUnknown now x)\<lparr>o_scope := or_else (o_scope x) (o_link x)\<rparr>) (outbox db),
        permits := update_where (\<lambda>p. p_installation p = installationId)
          (\<lambda>p. (fenced_permit deletionId forceUnknown now p)\<lparr>p_scope := or_else (p_scope p) (p_link p)\<rparr>) (permits db),
        alerts := update_where (\<lambda>a. a_installation a = installationId)
          (\<lambda>a. a\<lparr>a_deletion := Some deletionId, a_scope := or_else (a_scope a) (a_link a)\<rparr>) (alerts db)\<rparr>"

definition fenceAccountLinkDispatchWork :: "string \<Rightarrow> string \<Rightarrow> bool \<Rightarrow> int \<Rightarrow> nstore \<Rightarrow> nstore" where
  "fenceAccountLinkDispatchWork link deletionId forceUnknown now db =
     db\<lparr>outbox := update_where (\<lambda>x. o_link x = Some link \<or> o_scope x = Some link)
          (\<lambda>x. (fenced_outbox db deletionId forceUnknown now x)\<lparr>o_scope := or_else (o_scope x) (Some link)\<rparr>) (outbox db),
        permits := update_where (\<lambda>p. p_link p = Some link \<or> p_scope p = Some link)
          (\<lambda>p. (fenced_permit deletionId forceUnknown now p)\<lparr>p_scope := or_else (p_scope p) (Some link)\<rparr>) (permits db),
        alerts := update_where (\<lambda>a. a_link a = Some link \<or> a_scope a = Some link)
          (\<lambda>a. a\<lparr>a_deletion := Some deletionId, a_scope := or_else (a_scope a) (Some link)\<rparr>) (alerts db)\<rparr>"

definition insertOperation :: "string \<Rightarrow> string \<Rightarrow> scope_kind \<Rightarrow> string \<Rightarrow> nstore \<Rightarrow> nstore result" where
  "insertOperation operationId deletionId kind scope db =
     (if \<not> hex_id 32 operationId \<or> operationId \<in> v_id ` set (operations db) \<or>
         deletionId \<in> v_deletion ` set (operations db)
      then constraint_violated
      else Inr (db\<lparr>operations := operations db @
             [\<lparr>v_id = operationId, v_deletion = deletionId, v_kind = kind, v_scope = scope, v_committed = False,
               v_sequence = None\<rparr>]\<rparr>))"

definition installation_deletion :: "string \<Rightarrow> int \<Rightarrow> string" where
  "installation_deletion i g = ''installation:'' @ i @ '':'' @ show_int g"

definition link_deletion :: "string \<Rightarrow> int \<Rightarrow> string" where
  "link_deletion l g = ''account_link:'' @ l @ '':'' @ show_int g"

definition draining_operation :: "string \<Rightarrow> scope_kind \<Rightarrow> string \<Rightarrow> nstore \<Rightarrow> bool" where
  "draining_operation operationId kind scope db \<longleftrightarrow>
     (\<exists>v \<in> set (operations db). v_id v = operationId \<and> v_kind v = kind \<and> v_scope v = scope \<and> \<not> v_committed v)"

definition startInstallationDrain ::
  "string \<Rightarrow> string \<Rightarrow> string \<Rightarrow> int \<Rightarrow> nstore \<Rightarrow> (string \<times> nstore) result" where
  "startInstallationDrain installationId credentialHash operationId now db =
     bindE (assertMutable db) (\<lambda>_.
     case select_one (\<lambda>i. i_id i = installationId) (installations db) of
       None \<Rightarrow> Inl (StoreUnauthorizedError ''installation credential is not authorized'')
     | Some i \<Rightarrow>
         if i_credential_hash i \<noteq> Some credentialHash
         then Inl (StoreUnauthorizedError ''installation credential is not authorized'')
         else if i_state i = ScopeDraining
         then (if draining_operation operationId InstallationScope installationId db then Inr (operationId, db)
               else Inl (StoreConflictError ''installation is already draining''))
         else if i_state i \<noteq> ScopeActive then Inl (StoreUnauthorizedError ''installation is not active'')
         else
           let deletionId = installation_deletion installationId (i_generation i + 1) in
           bindE (insertOperation operationId deletionId InstallationScope installationId
             (db\<lparr>installations := update_where (\<lambda>i. i_id i = installationId \<and> i_state i = ScopeActive)
                   (\<lambda>i. i\<lparr>i_state := ScopeDraining\<rparr>) (installations db)\<rparr>)) (\<lambda>db.
           Inr (operationId, fenceInstallationDispatchWork installationId deletionId False now db)))"

text \<open>The credential has been checked and the mutation admitted before the link is looked up.\<close>

definition startAccountLinkDrain ::
  "unit result \<Rightarrow> string \<Rightarrow> string \<Rightarrow> string \<Rightarrow> int \<Rightarrow> nstore \<Rightarrow> (string \<times> nstore) result" where
  "startAccountLinkDrain admitted installationId link operationId now db =
     bindE (assertMutable db) (\<lambda>_.
     bindE admitted (\<lambda>_.
     case select_one (\<lambda>l. l_id l = link \<and> l_installation l = installationId) (links db) of
       None \<Rightarrow> Inl (StoreUnauthorizedError ''account link is unavailable'')
     | Some l \<Rightarrow>
         if l_state l = ScopeDraining
         then (if draining_operation operationId AccountLinkScope link db then Inr (operationId, db)
               else Inl (StoreConflictError ''account link is already draining''))
         else if l_state l \<noteq> ScopeActive then Inl (StoreUnauthorizedError ''account link is not active'')
         else
           let deletionId = link_deletion link (l_generation l + 1) in
           bindE (insertOperation operationId deletionId AccountLinkScope link
             (db\<lparr>links := update_where (\<lambda>l. l_id l = link \<and> l_state l = ScopeActive)
                   (\<lambda>l. l\<lparr>l_state := ScopeDraining\<rparr>) (links db)\<rparr>)) (\<lambda>db.
           Inr (operationId, fenceAccountLinkDispatchWork link deletionId False now db))))"

text \<open>
  A tombstone is recorded once: recording it again only moves the head of the ledger forward.
\<close>

definition recordDeletionTombstone :: "deletion_item \<Rightarrow> nstore \<Rightarrow> nstore result" where
  "recordDeletionTombstone d db =
     (case select_one (\<lambda>x. d_deletion x = d_deletion d) (tombstones db) of
        None \<Rightarrow>
          if d_sequence d \<in> d_sequence ` set (tombstones db) then constraint_violated
          else Inr (db\<lparr>tombstones := tombstones db @ [d]\<rparr>)
      | Some x \<Rightarrow>
          if d_kind x = d_kind d \<and> d_mac x = d_mac d \<and> d_generation x = d_generation d \<and>
             d_sequence x = d_sequence d \<and> d_key_version x = d_key_version d
          then Inr (db\<lparr>tombstones := update_where (\<lambda>x. d_deletion x = d_deletion d)
                 (\<lambda>x. x\<lparr>d_head := max (d_head x) (d_head d)\<rparr>) (tombstones db)\<rparr>)
          else Inl (StoreConflictError ''local deletion tombstone conflicts''))"

definition commitOperation :: "string \<Rightarrow> int \<Rightarrow> nstore \<Rightarrow> nstore result" where
  "commitOperation operationId sequence db =
     (if (\<exists>v \<in> set (operations db). v_id v \<noteq> operationId \<and> v_sequence v = Some sequence) then constraint_violated
      else Inr (db\<lparr>operations := update_where (\<lambda>v. v_id v = operationId)
             (\<lambda>v. v\<lparr>v_committed := True, v_sequence := Some sequence\<rparr>) (operations db)\<rparr>))"

text \<open>Deletions, with what their foreign keys set to null.\<close>

definition cleared :: "string set \<Rightarrow> string option \<Rightarrow> string option" where
  "cleared ids ref = (case ref of None \<Rightarrow> None | Some i \<Rightarrow> if i \<in> ids then None else Some i)"

definition deleteRules :: "(rule_row \<Rightarrow> bool) \<Rightarrow> nstore \<Rightarrow> nstore" where
  "deleteRules P db =
     (let gone = set (map r_id (filter P (rules db))) in
      db\<lparr>rules := filter (\<lambda>r. \<not> P r) (rules db),
         alerts := map (\<lambda>a. a\<lparr>a_rule := cleared gone (a_rule a)\<rparr>) (alerts db)\<rparr>)"

definition deleteTokens :: "(token_row \<Rightarrow> bool) \<Rightarrow> nstore \<Rightarrow> nstore" where
  "deleteTokens P db =
     (let gone = set (map k_id (filter P (tokens db))) in
      db\<lparr>tokens := filter (\<lambda>k. \<not> P k) (tokens db),
         tickets := map (\<lambda>t. t\<lparr>t_token := cleared gone (t_token t)\<rparr>) (tickets db)\<rparr>)"

definition deleteLinks :: "(link_row \<Rightarrow> bool) \<Rightarrow> nstore \<Rightarrow> nstore" where
  "deleteLinks P db =
     (let gone = set (map l_id (filter P (links db))) in
      db\<lparr>links := filter (\<lambda>l. \<not> P l) (links db),
         rules := filter (\<lambda>r. cleared gone (r_link r) = r_link r) (rules db),
         alerts := map (\<lambda>a. a\<lparr>a_link := cleared gone (a_link a)\<rparr>) (alerts db),
         outbox := map (\<lambda>x. x\<lparr>o_link := cleared gone (o_link x)\<rparr>) (outbox db),
         permits := map (\<lambda>p. p\<lparr>p_link := cleared gone (p_link p)\<rparr>) (permits db)\<rparr>)"

text \<open>What is in flight for a scope.\<close>

definition installation_in_flight :: "string \<Rightarrow> int \<Rightarrow> nstore \<Rightarrow> bool" where
  "installation_in_flight i now db \<longleftrightarrow>
     (\<exists>p \<in> set (permits db). p_installation p = i \<and> p_state p = PermitSubmissionStarted \<and> now < p_deadline p)"

definition link_in_flight :: "string \<Rightarrow> int \<Rightarrow> nstore \<Rightarrow> bool" where
  "link_in_flight l now db \<longleftrightarrow>
     (\<exists>p \<in> set (permits db). p_scope p = Some l \<and> p_state p = PermitSubmissionStarted \<and> now < p_deadline p)"

text \<open>The transaction that ends the revocation of an installation.\<close>

definition revokeInstallation :: "string \<Rightarrow> string \<Rightarrow> string \<Rightarrow> deletion_item \<Rightarrow> int \<Rightarrow> nstore \<Rightarrow> (int \<times> nstore) result" where
  "revokeInstallation operationId installation deletionId d now db =
     (if (\<exists>w \<in> set (operations db). v_id w = operationId \<and> v_committed w) then Inr (d_sequence d, db)
      else case select_one (\<lambda>j. i_id j = installation) (installations db) of
        None \<Rightarrow> Inl (StoreConflictError ''installation is not draining'')
      | Some j \<Rightarrow>
          if i_state j \<noteq> ScopeDraining then Inl (StoreConflictError ''installation is not draining'')
          else
            let fenced = fenceInstallationDispatchWork installation deletionId False now db in
            if installation_in_flight installation now fenced then Inl DrainPendingError
            else
              let kept = deleteLinks (\<lambda>l. l_installation l = installation)
                (deleteTokens (\<lambda>k. k_installation k = installation)
                  (deleteRules (\<lambda>r. r_installation r = installation) fenced)) in
              bindE (recordDeletionTombstone d (kept\<lparr>
                installations := update_where (\<lambda>j. i_id j = installation)
                  (\<lambda>j. j\<lparr>i_state := ScopeInactive, i_credential_hash := None,
                        i_generation := i_generation j + 1\<rparr>) (installations kept)\<rparr>)) (\<lambda>db.
              bindE (commitOperation operationId (d_sequence d) db) (\<lambda>db.
              Inr (d_sequence d, db))))"

definition unlinkAccount :: "string \<Rightarrow> string \<Rightarrow> string \<Rightarrow> deletion_item \<Rightarrow> int \<Rightarrow> nstore \<Rightarrow> (int \<times> nstore) result" where
  "unlinkAccount operationId link deletionId d now db =
     (if (\<exists>w \<in> set (operations db). v_id w = operationId \<and> v_committed w) then Inr (d_sequence d, db)
      else case select_one (\<lambda>l. l_id l = link) (links db) of
        None \<Rightarrow> Inl (StoreConflictError ''account link is not draining'')
      | Some l \<Rightarrow>
          if l_state l \<noteq> ScopeDraining then Inl (StoreConflictError ''account link is not draining'')
          else
            let fenced = fenceAccountLinkDispatchWork link deletionId False now db in
            if link_in_flight link now fenced then Inl DrainPendingError
            else
              bindE (recordDeletionTombstone d
                (deleteLinks (\<lambda>l. l_id l = link) (deleteRules (\<lambda>r. r_link r = Some link) fenced))) (\<lambda>db.
              bindE (commitOperation operationId (d_sequence d) db) (\<lambda>db.
              Inr (d_sequence d, db))))"

text \<open>
  Committing a revocation reads its operation, waits until nothing is in flight, appends a tombstone
  to the durable ledger and only then deletes, in a transaction of its own. \<open>seen\<close> is the database
  that is read first, at the time \<open>before\<close>, \<open>ledger\<close> what the ledger answers.
\<close>

definition commitInstallationRevocation ::
  "string \<Rightarrow> int \<Rightarrow> nstore \<Rightarrow> (string \<Rightarrow> string \<Rightarrow> int \<Rightarrow> string \<Rightarrow> deletion_item option result) \<Rightarrow> int \<Rightarrow> nstore
     \<Rightarrow> (int \<times> nstore) result" where
  "commitInstallationRevocation operationId before seen ledger now db =
     (case select_one (\<lambda>v. v_id v = operationId \<and> v_kind v = InstallationScope) (operations seen) of
        None \<Rightarrow> Inl (StoreConflictError ''revocation operation is unavailable'')
      | Some v \<Rightarrow>
          (case select_one (\<lambda>i. i_id i = v_scope v) (installations seen) of
             None \<Rightarrow> Inl (StoreConflictError ''revocation operation is unavailable'')
           | Some i \<Rightarrow>
               (case (v_committed v, v_sequence v) of
                  (True, Some n) \<Rightarrow> Inr (n, db)
                | _ \<Rightarrow>
                    if installation_in_flight (v_scope v) before seen then Inl DrainPendingError
                    else bindE (ledger (v_deletion v) (v_scope v) (i_generation i + 1) (i_key_version i)) (\<lambda>item.
                    case item of
                      None \<Rightarrow> Inl (StoreConflictError ''durable deletion ledger receipt is inconsistent'')
                    | Some d \<Rightarrow>
                        if d_deletion d \<noteq> v_deletion v
                        then Inl (StoreConflictError ''durable deletion ledger receipt is inconsistent'')
                        else revokeInstallation operationId (v_scope v) (v_deletion v) d now db))))"

definition commitAccountLinkUnlink ::
  "string \<Rightarrow> int \<Rightarrow> nstore \<Rightarrow> (string \<Rightarrow> string \<Rightarrow> int \<Rightarrow> string \<Rightarrow> deletion_item option result) \<Rightarrow> int \<Rightarrow> nstore
     \<Rightarrow> (int \<times> nstore) result" where
  "commitAccountLinkUnlink operationId before seen ledger now db =
     (case select_one (\<lambda>v. v_id v = operationId \<and> v_kind v = AccountLinkScope) (operations seen) of
        None \<Rightarrow> Inl (StoreConflictError ''unlink operation is unavailable'')
      | Some v \<Rightarrow>
          (case (v_committed v, v_sequence v) of
             (True, Some n) \<Rightarrow> Inr (n, db)
           | _ \<Rightarrow>
               (case select_one (\<lambda>l. l_id l = v_scope v) (links seen) of
                  None \<Rightarrow> Inl (StoreConflictError ''draining account link is unavailable'')
                | Some l \<Rightarrow>
                    if l_key_version l = None \<or> l_key_version l = Some ''''
                    then Inl (StoreConflictError ''draining account link is unavailable'')
                    else if link_in_flight (v_scope v) before seen then Inl DrainPendingError
                    else bindE (ledger (v_deletion v) (v_scope v) (l_generation l + 1)
                           (case l_key_version l of Some k \<Rightarrow> k | None \<Rightarrow> '''')) (\<lambda>item.
                    case item of
                      None \<Rightarrow> Inl (StoreConflictError ''durable deletion ledger receipt is inconsistent'')
                    | Some d \<Rightarrow>
                        if d_deletion d \<noteq> v_deletion v
                        then Inl (StoreConflictError ''durable deletion ledger receipt is inconsistent'')
                        else unlinkAccount operationId (v_scope v) (v_deletion v) d now db))))"

end
