(* ===== verification/Expo_Client.thy ===== *)
theory Expo_Client
  imports Delivery_Store
begin

text \<open>
  The client of the push provider (\<^verbatim>\<open>apps/api/src/push/expo-push-client.ts\<close>): what is checked
  before a message is sent, and how the answer is classified. A request that was sent and whose answer is not
  understood throws, and what becomes of the dispatch is the worker's decision.
\<close>

section \<open>Requests\<close>

definition EXPO_PROVIDER_DEADLINE_MS :: int where
  "EXPO_PROVIDER_DEADLINE_MS = 10000"

datatype ExpoSendResult = SendAccepted string | SendRejected string

datatype ExpoReceiptResult = ReceiptIsDelivered | ReceiptIsFailed string | ReceiptIsPending

definition ExpoPushUncertainError :: js_error where
  "ExpoPushUncertainError = CodedError ''ExpoPushUncertainError'' ''Expo provider outcome is uncertain''"

definition ExpoPushDeadlineError :: js_error where
  "ExpoPushDeadlineError =
     CodedError ''ExpoPushDeadlineError'' ''Expo provider deadline expired before transport''"

record expo_message =
  x_pushToken :: string
  x_alertId :: string
  x_category :: notification_category
  x_network :: notification_network
  x_routeHint :: string
  x_providerDeadlineAt :: int

definition token_prefix :: string where
  "token_prefix = ''ExponentPushToken[''"

definition push_token_pattern :: "string \<Rightarrow> bool" where
  "push_token_pattern s \<longleftrightarrow>
     length token_prefix + 2 \<le> length s \<and> length s \<le> length token_prefix + 481 \<and>
     take (length token_prefix) s = token_prefix \<and> last s = CHR '']'' \<and>
     list_all (\<lambda>c. 33 \<le> code c \<and> code c \<le> 126) (butlast (drop (length token_prefix) s))"

definition validateMessage :: "expo_message \<Rightarrow> unit result" where
  "validateMessage m =
     throw_if (\<not> push_token_pattern (x_pushToken m) \<or> \<not> hex_id 32 (x_alertId m) \<or>
               x_routeHint m \<notin> {''trade'', ''portfolio'', ''settings''} \<or>
               \<not> safe_int (x_providerDeadlineAt m) \<or> x_providerDeadlineAt m < 0)
       (Err ''Expo push message is invalid'')"

text \<open>The time that is left for a request; a request without a deadline has ten seconds.\<close>

definition remaining_ms :: "int option \<Rightarrow> int \<Rightarrow> int" where
  "remaining_ms deadline now =
     min EXPO_PROVIDER_DEADLINE_MS ((case deadline of None \<Rightarrow> now + EXPO_PROVIDER_DEADLINE_MS | Some d \<Rightarrow> d) - now)"

definition requestAllowed :: "int option \<Rightarrow> int \<Rightarrow> unit result" where
  "requestAllowed deadline now =
     throw_if (\<not> safe_int (remaining_ms deadline now) \<or> remaining_ms deadline now \<le> 0) ExpoPushDeadlineError"

text \<open>What is checked before \<^verbatim>\<open>fetch\<close> is called.\<close>

definition sendAllowed :: "expo_message \<Rightarrow> int \<Rightarrow> unit result" where
  "sendAllowed m now =
     bindE (validateMessage m) (\<lambda>_. requestAllowed (Some (x_providerDeadlineAt m)) now)"

section \<open>Answers\<close>

record expo_response =
  h_status :: int
  h_ok :: bool
  h_byteLength :: nat
  h_text :: "string option" \<comment> \<open>the body, where it is UTF-8\<close>

definition boundedJson :: "(string \<Rightarrow> js_value option) \<Rightarrow> expo_response \<Rightarrow> js_value result" where
  "boundedJson parse r =
     (if h_byteLength r > 64 * 1024 then Inl (Err ''Expo response exceeds the bounded parser limit'')
      else case h_text r of
        None \<Rightarrow> Inl (Err ''Expo response is not valid UTF-8'')
      | Some text \<Rightarrow> (case parse text of None \<Rightarrow> Inl (Err ''Expo response is not valid JSON'') | Some v \<Rightarrow> Inr v))"

definition exactRecord :: "js_value \<Rightarrow> string list \<Rightarrow> string list \<Rightarrow> js_object result" where
  "exactRecord v required optional =
     (case plain_object v of
        None \<Rightarrow> Inl (Err ''Expo response object is invalid'')
      | Some obj \<Rightarrow>
          if (\<exists>key \<in> set required. \<not> hasOwn obj key) \<or>
             (\<exists>key \<in> set (object_keys obj). key \<notin> set (required @ optional))
          then Inl (Err ''Expo response object is invalid'')
          else Inr obj)"

definition individualError :: "js_value \<Rightarrow> string" where
  "individualError details =
     (let error = (case plain_object details of Some obj \<Rightarrow> member obj ''error'' | None \<Rightarrow> JUndefined) in
      if error = JStr ''DeviceNotRegistered'' then ''device_not_registered''
      else if error = JStr ''MessageTooBig'' then ''message_too_big''
      else if error = JStr ''MessageRateExceeded'' then ''message_rate_exceeded''
      else if error = JStr ''MismatchSenderId'' then ''mismatch_sender_id''
      else if error = JStr ''InvalidCredentials'' then ''invalid_credentials''
      else ''provider_protocol_error'')"

definition first_element :: "js_value \<Rightarrow> js_value" where
  "first_element v = (case v of JArr (x # _) \<Rightarrow> x | _ \<Rightarrow> JUndefined)"

definition requestError :: "int \<Rightarrow> js_value \<Rightarrow> string" where
  "requestError status body =
     (let errors = (case plain_object body of Some obj \<Rightarrow> member obj ''errors'' | None \<Rightarrow> JUndefined);
          errorCode = (case plain_object (first_element errors) of Some obj \<Rightarrow> member obj ''code'' | None \<Rightarrow> JUndefined) in
      if status = 429 \<or> errorCode = JStr ''TOO_MANY_REQUESTS'' then ''provider_rate_limited''
      else if status = 401 \<or> status = 403 \<or> errorCode = JStr ''UNAUTHORIZED'' then ''provider_unauthorized''
      else if status \<ge> 500 then ''provider_unavailable''
      else if status \<ge> 400 then ''provider_invalid_request''
      else ''provider_protocol_error'')"

text \<open>\<^verbatim>\<open>String(value)\<close>; the text of a number that is not an integer is a parameter.\<close>

fun js_string :: "(js_number \<Rightarrow> string) \<Rightarrow> js_value \<Rightarrow> string"
  and js_strings :: "(js_number \<Rightarrow> string) \<Rightarrow> js_value list \<Rightarrow> string" where
  "js_string number_text (JStr s) = s"
| "js_string number_text (JNum (IntN n)) = (if safe_int n then show_int n else number_text (IntN n))"
| "js_string number_text (JNum n) = number_text n"
| "js_string number_text (JBool b) = (if b then ''true'' else ''false'')"
| "js_string number_text JNull = ''null''"
| "js_string number_text JUndefined = ''undefined''"
| "js_string number_text (JArr vs) = js_strings number_text vs"
| "js_string number_text _ = ''[object Object]''"
| "js_strings number_text [] = ''''"
| "js_strings number_text [v] = (if v = JNull \<or> v = JUndefined then '''' else js_string number_text v)"
| "js_strings number_text (v # w # vs) =
     (if v = JNull \<or> v = JUndefined then '''' else js_string number_text v) @ '','' @ js_strings number_text (w # vs)"

definition status_of :: "js_value \<Rightarrow> js_value" where
  "status_of v = (case plain_object v of Some obj \<Rightarrow> member obj ''status'' | None \<Rightarrow> JUndefined)"

definition parseTicket :: "(js_number \<Rightarrow> string) \<Rightarrow> js_value \<Rightarrow> ExpoSendResult result" where
  "parseTicket number_text v =
     (if status_of v \<notin> {JStr ''ok'', JStr ''error''} then Inl (Err ''Expo push ticket is invalid'')
      else if status_of v = JStr ''ok''
      then bindE (exactRecord v [''status'', ''id''] []) (\<lambda>ticket.
             let ticketId = js_string number_text (member ticket ''id'') in
             if graphic_text ticketId then Inr (SendAccepted ticketId)
             else Inl (Err ''Expo push ticket ID is invalid''))
      else bindE (exactRecord v [''status''] [''message'', ''details'']) (\<lambda>ticket.
             Inr (SendRejected (individualError (member ticket ''details'')))))"

definition parseReceipt :: "js_value \<Rightarrow> ExpoReceiptResult result" where
  "parseReceipt v =
     (if status_of v \<notin> {JStr ''ok'', JStr ''error''} then Inl (Err ''Expo push receipt is invalid'')
      else if status_of v = JStr ''ok'' then bindE (exactRecord v [''status''] []) (\<lambda>_. Inr ReceiptIsDelivered)
      else bindE (exactRecord v [''status''] [''message'', ''details'']) (\<lambda>receipt.
             Inr (ReceiptIsFailed (individualError (member receipt ''details'')))))"

text \<open>What \<^verbatim>\<open>send\<close> makes of what \<^verbatim>\<open>fetch\<close> did; a failed fetch is \<open>None\<close>.\<close>

definition sendAnswered ::
  "(string \<Rightarrow> js_value option) \<Rightarrow> (js_number \<Rightarrow> string) \<Rightarrow> expo_response option \<Rightarrow> ExpoSendResult result" where
  "sendAnswered parse number_text answer =
     (case answer of
        None \<Rightarrow> Inl ExpoPushUncertainError
      | Some r \<Rightarrow>
          bindE (boundedJson parse r) (\<lambda>body.
          if \<not> h_ok r then Inr (SendRejected (requestError (h_status r) body))
          else bindE (exactRecord body [''data''] [''errors'']) (\<lambda>record.
            parseTicket number_text
              (case member record ''data'' of JArr vs \<Rightarrow> first_element (JArr vs) | v \<Rightarrow> v))))"

definition getReceipts ::
  "(string \<Rightarrow> js_value option) \<Rightarrow> string list \<Rightarrow> int \<Rightarrow> expo_response option \<Rightarrow> (string \<times> ExpoReceiptResult) list result" where
  "getReceipts parse ticketIds now answer =
     (if length ticketIds < 1 \<or> EXPO_RECEIPT_BATCH_SIZE < int (length ticketIds) \<or>
         \<not> list_all graphic_text ticketIds \<or> \<not> distinct ticketIds
      then Inl (Err ''Expo receipt batch is invalid'')
      else bindE (requestAllowed None now) (\<lambda>_.
        case answer of
          None \<Rightarrow> Inl ExpoPushUncertainError
        | Some r \<Rightarrow>
            bindE (boundedJson parse r) (\<lambda>body.
            if \<not> h_ok r then Inl ExpoPushUncertainError
            else bindE (exactRecord body [''data''] [''errors'']) (\<lambda>record.
              case plain_object (member record ''data'') of
                None \<Rightarrow> Inl (Err ''Expo receipt data is invalid'')
              | Some data \<Rightarrow>
                  mapE (\<lambda>ticketId.
                    if member data ticketId = JUndefined then Inr (ticketId, ReceiptIsPending)
                    else bindE (parseReceipt (member data ticketId)) (\<lambda>x. Inr (ticketId, x))) ticketIds))))"

section \<open>What the classification says\<close>

lemma requestAllowed_deadline:
  "requestAllowed (Some d) now = Inr u \<Longrightarrow> now < d"
  by (auto simp: requestAllowed_def remaining_ms_def)

lemma sendAllowed_deadline: "sendAllowed m now = Inr u \<Longrightarrow> now < x_providerDeadlineAt m"
  by (auto simp: sendAllowed_def dest: requestAllowed_deadline)

text \<open>An acceptance is a ticket of a successful response, with an ID that the store takes.\<close>

lemma sendAnswered_accepted:
  "sendAnswered parse number_text answer = Inr (SendAccepted ticketId) \<Longrightarrow>
     \<exists>r. answer = Some r \<and> h_ok r \<and> h_byteLength r \<le> 65536 \<and> graphic_text ticketId"
  by (auto simp: sendAnswered_def boundedJson_def parseTicket_def Let_def
      split: option.splits if_splits js_value.splits)

end
