(* ===== verification/Delivery_Worker.thy ===== *)
theory Delivery_Worker
  imports Expo_Client Machines
begin

text \<open>
  The worker that delivers alerts (\<^verbatim>\<open>apps/api/src/outbox/delivery-worker.ts\<close>) and the one that
  collects receipts (\<^verbatim>\<open>receipt-worker.ts\<close>), over the store and the client of the provider.

  \<open>runOnce\<close> is split at its awaits: a worker rests, or is between two awaited calls, and a step makes the
  next call. The connection to the database may fail before or after a transaction has committed. A crash
  leaves the worker at rest with nothing undone. The hooks, which only tests set, and the metrics are left out.
\<close>

section \<open>Calls to the database\<close>

datatype connection = CallAnswers | LostBefore | LostAfter

definition connection_error :: js_error where
  "connection_error = Err ''connection lost''"

text \<open>A transaction that throws is rolled back; an answer may be lost on the way.\<close>

definition call :: "connection \<Rightarrow> (nstore \<Rightarrow> ('a \<times> nstore) result) \<Rightarrow> nstore \<Rightarrow> 'a result \<times> nstore" where
  "call connection operation db =
     (if connection = LostBefore then (Inl connection_error, db)
      else case operation db of
        Inl e \<Rightarrow> (Inl (if connection = LostAfter then connection_error else e), db)
      | Inr (x, db') \<Rightarrow> (if connection = LostAfter then Inl connection_error else Inr x, db'))"

section \<open>The delivery worker\<close>

definition DISPATCH_RECOVERY_INTERVAL_MS :: int where
  "DISPATCH_RECOVERY_INTERVAL_MS = 10000"

datatype worker_phase =
    Resting
  | Claiming
  | Claimed DeliveryClaim
  | Marked DeliveryClaim
  | HasToken DeliveryClaim string
  | Authorized DeliveryClaim string int
  | Sending DeliveryClaim
  | Answered DeliveryClaim ExpoSendResult
  | Failed DeliveryClaim js_error bool bool \<comment> \<open>the error, \<open>marked\<close> and \<open>providerWritePossible\<close>\<close>

record delivery_worker =
  w_id :: string
  w_phase :: worker_phase
  w_nextRecoveryAt :: int

text \<open>
  What the calls of one step meet with. The time of a transaction is the database's; a worker and its client
  read the clock of their host, which is ahead of the database's by some milliseconds, or behind it.
\<close>

record worker_input =
  in_fence :: RuntimeEgressFence
  in_connection :: connection
  in_busy :: "string \<Rightarrow> bool"
  in_permitId :: string
  in_observed :: nstore
  in_decrypt :: "string \<Rightarrow> string result"
  in_answer :: "expo_response option"
  in_parse :: "string \<Rightarrow> js_value option"
  in_number_text :: "js_number \<Rightarrow> string"
  in_hostAhead :: int \<comment> \<open>the host's clock when the worker reads it, against the database's\<close>
  in_requestAhead :: int \<comment> \<open>the same when the client of the provider reads it\<close>

datatype worker_output = Quiet | Sent DeliveryClaim expo_message

definition message_of :: "DeliveryClaim \<Rightarrow> string \<Rightarrow> int \<Rightarrow> expo_message" where
  "message_of claim pushToken deadline =
     \<lparr>x_pushToken = pushToken, x_alertId = c_alertId claim, x_category = c_category claim,
      x_network = c_network claim, x_routeHint = c_routeHint claim, x_providerDeadlineAt = deadline\<rparr>"

text \<open>The record of a caught error.\<close>

definition catch_record :: "js_error \<Rightarrow> bool \<Rightarrow> bool \<Rightarrow> string \<Rightarrow> nstore \<Rightarrow> (unit \<times> nstore) result" where
  "catch_record e marked writePossible permitId =
     (if \<not> marked then abandonUnstartedDispatch permitId
      else if e = DeliveryAuthorizationError then recordProviderRejected permitId ''authorization_revoked''
      else if e = ExpoPushDeadlineError then recordProviderRejected permitId ''provider_deadline_expired''
      else if \<not> writePossible then recordProviderRejected permitId ''token_unavailable''
      else recordProviderOutcomeUnknown permitId)"

definition answer_record :: "ExpoSendResult \<Rightarrow> string \<Rightarrow> int \<Rightarrow> nstore \<Rightarrow> (unit \<times> nstore) result" where
  "answer_record answer permitId now =
     (case answer of
        SendAccepted ticketId \<Rightarrow> recordProviderAccepted permitId ticketId now
      | SendRejected errorCode \<Rightarrow> recordProviderRejected permitId errorCode)"

text \<open>Recovery is due at the start of a run, at most every ten seconds of the host's clock.\<close>

definition start_run :: "worker_input \<Rightarrow> int \<Rightarrow> delivery_worker \<Rightarrow> nstore \<Rightarrow> delivery_worker \<times> nstore" where
  "start_run inp now w db =
     (if now + in_hostAhead inp < w_nextRecoveryAt w then (w\<lparr>w_phase := Claiming\<rparr>, db)
      else case call (in_connection inp) (recoverExpiredDispatches (IntN 100) (in_busy inp) now) db of
        (r, db') \<Rightarrow>
          (w\<lparr>w_nextRecoveryAt := now + in_hostAhead inp + DISPATCH_RECOVERY_INTERVAL_MS,
             w_phase := (case r of Inl e \<Rightarrow> Resting | Inr u \<Rightarrow> Claiming)\<rparr>, db'))"

definition requestRecovery :: "delivery_worker \<Rightarrow> delivery_worker" where
  "requestRecovery w = w\<lparr>w_nextRecoveryAt := 0\<rparr>"

definition claim_step :: "worker_input \<Rightarrow> int \<Rightarrow> delivery_worker \<Rightarrow> nstore \<Rightarrow> delivery_worker \<times> nstore" where
  "claim_step inp now w db =
     (case call (in_connection inp) (claimNextDispatch (w_id w) (in_fence inp) (in_busy inp) (in_permitId inp) now) db of
        (r, db') \<Rightarrow>
          (w\<lparr>w_phase := (case r of Inr (Some claim) \<Rightarrow> Claimed claim | _ \<Rightarrow> Resting)\<rparr>, db'))"

definition mark_step :: "worker_input \<Rightarrow> int \<Rightarrow> DeliveryClaim \<Rightarrow> delivery_worker \<Rightarrow> nstore \<Rightarrow> delivery_worker \<times> nstore" where
  "mark_step inp now claim w db =
     (case call (in_connection inp) (markProviderSubmissionStarted (c_permitId claim) now (in_observed inp)) db of
        (r, db') \<Rightarrow>
          (w\<lparr>w_phase := (case r of Inl e \<Rightarrow> Failed claim e False False | Inr u \<Rightarrow> Marked claim)\<rparr>, db'))"

text \<open>The reads of the token and of the authorization change nothing.\<close>

definition reading :: "connection \<Rightarrow> 'a result \<Rightarrow> 'a result" where
  "reading connection r = (if connection = CallAnswers then r else Inl connection_error)"

definition token_step :: "worker_input \<Rightarrow> int \<Rightarrow> DeliveryClaim \<Rightarrow> delivery_worker \<Rightarrow> nstore \<Rightarrow> delivery_worker" where
  "token_step inp now claim w db =
     w\<lparr>w_phase :=
        (case reading (in_connection inp) (readDecryptedPushToken (in_decrypt inp) (c_permitId claim) now db) of
           Inl e \<Rightarrow> Failed claim e True False
         | Inr pushToken \<Rightarrow> HasToken claim pushToken)\<rparr>"

definition authorize_step ::
  "worker_input \<Rightarrow> int \<Rightarrow> DeliveryClaim \<Rightarrow> string \<Rightarrow> delivery_worker \<Rightarrow> nstore \<Rightarrow> delivery_worker" where
  "authorize_step inp now claim pushToken w db =
     w\<lparr>w_phase :=
        (case reading (in_connection inp) (authorizeProviderFetch (c_permitId claim) (in_fence inp) now db) of
           Inl e \<Rightarrow> Failed claim e True False
         | Inr deadline \<Rightarrow> Authorized claim pushToken deadline)\<rparr>"

text \<open>The deadline is checked again on the host's clock, and once more by the client.\<close>

definition send_step ::
  "worker_input \<Rightarrow> int \<Rightarrow> DeliveryClaim \<Rightarrow> string \<Rightarrow> int \<Rightarrow> delivery_worker \<Rightarrow> nstore
     \<Rightarrow> worker_output \<times> delivery_worker \<times> nstore" where
  "send_step inp now claim pushToken deadline w db =
     (if deadline \<le> now + in_hostAhead inp
      then case call (in_connection inp) (recordProviderRejected (c_permitId claim) ''provider_deadline_expired'') db of
        (r, db') \<Rightarrow>
          (Quiet, w\<lparr>w_phase := (case r of Inl e \<Rightarrow> Failed claim e True False | Inr u \<Rightarrow> Resting)\<rparr>, db')
      else case sendAllowed (message_of claim pushToken deadline) (now + in_requestAhead inp) of
        Inl e \<Rightarrow> (Quiet, w\<lparr>w_phase := Failed claim e True True\<rparr>, db)
      | Inr u \<Rightarrow> (Sent claim (message_of claim pushToken deadline), w\<lparr>w_phase := Sending claim\<rparr>, db))"

definition worker_step ::
  "worker_input \<Rightarrow> int \<Rightarrow> delivery_worker \<Rightarrow> nstore \<Rightarrow> worker_output \<times> delivery_worker \<times> nstore" where
  "worker_step inp now w db =
     (case w_phase w of
        Resting \<Rightarrow> (Quiet, start_run inp now w db)
      | Claiming \<Rightarrow> (Quiet, claim_step inp now w db)
      | Claimed claim \<Rightarrow> (Quiet, mark_step inp now claim w db)
      | Marked claim \<Rightarrow> (Quiet, token_step inp now claim w db, db)
      | HasToken claim pushToken \<Rightarrow> (Quiet, authorize_step inp now claim pushToken w db, db)
      | Authorized claim pushToken deadline \<Rightarrow> send_step inp now claim pushToken deadline w db
      | Sending claim \<Rightarrow>
          (Quiet, w\<lparr>w_phase :=
             (case sendAnswered (in_parse inp) (in_number_text inp) (in_answer inp) of
                Inl e \<Rightarrow> Failed claim e True True
              | Inr answer \<Rightarrow> Answered claim answer)\<rparr>, db)
      | Answered claim answer \<Rightarrow>
          (case call (in_connection inp) (answer_record answer (c_permitId claim) now) db of
             (r, db') \<Rightarrow>
               (Quiet, w\<lparr>w_phase := (case r of Inl e \<Rightarrow> Failed claim e True True | Inr u \<Rightarrow> Resting)\<rparr>, db'))
      | Failed claim e marked writePossible \<Rightarrow>
          (case call (in_connection inp) (catch_record e marked writePossible (c_permitId claim)) db of
             (r, db') \<Rightarrow> (Quiet, w\<lparr>w_phase := Resting\<rparr>, db')))"

section \<open>Several workers and everything else\<close>

text \<open>The operations of other parts of the service on the same store.\<close>

datatype store_operation =
    CreateAlert alert_input string string
  | RecoverDispatches js_number "string \<Rightarrow> bool"
  | AcquirePermit string "string option" string string
  | StartInstallationDrain string string string
  | StartAccountLinkDrain "unit result" string string string
  | CommitInstallation string int nstore "string \<Rightarrow> string \<Rightarrow> int \<Rightarrow> string \<Rightarrow> deletion_item option result"
  | CommitAccountLink string int nstore "string \<Rightarrow> string \<Rightarrow> int \<Rightarrow> string \<Rightarrow> deletion_item option result"
  | RecoverReceipts js_number "string \<Rightarrow> bool"
  | ClaimReceipts string js_number RuntimeEgressFence "string \<Rightarrow> bool"
  | CompleteReceipt string string "string option" string
  | DeferReceipt string string string
  | AcquireLease string string
  | RenewLease string string js_number
  | ReleaseLease string string js_number

datatype operation_answer =
    AlertCreated string
  | InstallationRevoked string
  | OtherAnswer

definition quiet :: "('a \<times> nstore) result \<Rightarrow> (operation_answer \<times> nstore) result" where
  "quiet r = bindE r (\<lambda>(x, db). Inr (OtherAnswer, db))"

fun operate :: "store_operation \<Rightarrow> int \<Rightarrow> nstore \<Rightarrow> (operation_answer \<times> nstore) result" where
  "operate (CreateAlert input alertId outboxId) now db =
     bindE (createAlertForRuleMatch input alertId outboxId now db) (\<lambda>(created, db').
     Inr (if created = None then OtherAnswer else AlertCreated (n_eventKey input), db'))"
| "operate (RecoverDispatches limit busy) now db = quiet (recoverExpiredDispatches limit busy now db)"
| "operate (AcquirePermit installation link outboxId permitId) now db =
     quiet (acquireDispatchPermit installation link outboxId permitId now db)"
| "operate (StartInstallationDrain installation hash operation) now db =
     quiet (startInstallationDrain installation hash operation now db)"
| "operate (StartAccountLinkDrain admitted installation link operation) now db =
     quiet (startAccountLinkDrain admitted installation link operation now db)"
| "operate (CommitInstallation operation before seen ledger) now db =
     bindE (commitInstallationRevocation operation before seen ledger now db) (\<lambda>(n, db').
     Inr (case select_one (\<lambda>v. v_id v = operation) (operations db) of
            Some v \<Rightarrow> if v_committed v then OtherAnswer else InstallationRevoked (v_scope v)
          | None \<Rightarrow> OtherAnswer, db'))"
| "operate (CommitAccountLink operation before seen ledger) now db =
     quiet (commitAccountLinkUnlink operation before seen ledger now db)"
| "operate (RecoverReceipts limit busy) now db = quiet (recoverExpiredReceiptLeases limit busy now db)"
| "operate (ClaimReceipts worker limit fence busy) now db = quiet (claimDueReceipts worker limit fence busy now db)"
| "operate (CompleteReceipt ticket worker failure receipt) now db =
     quiet (completeReceipt ticket worker failure receipt now db)"
| "operate (DeferReceipt ticket worker receipt) now db = quiet (deferReceipt ticket worker receipt now db)"
| "operate (AcquireLease key owner) now db = quiet (acquireMonitorLease key owner now db)"
| "operate (RenewLease key owner generation) now db = quiet (renewMonitorLease key owner generation now db)"
| "operate (ReleaseLease key owner generation) now db = quiet (releaseMonitorLease key owner generation db)"

record delivery_service =
  ds_store :: nstore
  ds_now :: int
  ds_workers :: "(string \<times> delivery_worker) list"

text \<open>Time, which is the database's, passes by \<open>nat\<close> milliseconds before each event.\<close>

datatype service_event =
    WorkerStep string worker_input
  | WorkerCrash string
  | RequestRecovery string
  | Operation connection store_operation

datatype service_output = SentByWorker DeliveryClaim expo_message | OperationAnswer operation_answer | NoOutput

definition set_worker :: "string \<Rightarrow> delivery_worker \<Rightarrow> (string \<times> delivery_worker) list \<Rightarrow> (string \<times> delivery_worker) list" where
  "set_worker i w ws = map (\<lambda>(j, v). if j = i then (j, w) else (j, v)) ws"

fun service_step :: "nat \<times> service_event \<Rightarrow> delivery_service \<Rightarrow> service_output \<times> delivery_service" where
  "service_step (dt, WorkerStep i inp) s =
     (let now = ds_now s + int dt in
      case map_of (ds_workers s) i of
        None \<Rightarrow> (NoOutput, s\<lparr>ds_now := now\<rparr>)
      | Some w \<Rightarrow>
          (case worker_step inp now w (ds_store s) of
             (out, w', db') \<Rightarrow>
               (case out of Quiet \<Rightarrow> NoOutput | Sent claim m \<Rightarrow> SentByWorker claim m,
                s\<lparr>ds_now := now, ds_store := db', ds_workers := set_worker i w' (ds_workers s)\<rparr>)))"
| "service_step (dt, WorkerCrash i) s =
     (NoOutput, s\<lparr>ds_now := ds_now s + int dt,
                 ds_workers := map (\<lambda>(j, v). if j = i then (j, v\<lparr>w_phase := Resting, w_nextRecoveryAt := 0\<rparr>) else (j, v))
                   (ds_workers s)\<rparr>)"
| "service_step (dt, RequestRecovery i) s =
     (NoOutput, s\<lparr>ds_now := ds_now s + int dt,
                 ds_workers := map (\<lambda>(j, v). if j = i then (j, requestRecovery v) else (j, v)) (ds_workers s)\<rparr>)"
| "service_step (dt, Operation connection operation) s =
     (let now = ds_now s + int dt in
      case call connection (operate operation now) (ds_store s) of
        (r, db') \<Rightarrow>
          (case r of Inl e \<Rightarrow> NoOutput | Inr answer \<Rightarrow> OperationAnswer answer,
           s\<lparr>ds_now := now, ds_store := db'\<rparr>))"

section \<open>The receipt worker\<close>

datatype receipt_event = DeferTicket string | CompleteTicket string "string option"

text \<open>What the worker does with the tickets it claimed, given the provider's results or its failure.\<close>

definition receipt_plan :: "(string \<times> ExpoReceiptResult) list result \<Rightarrow> string list \<Rightarrow> receipt_event list" where
  "receipt_plan results ticketIds =
     (case results of
        Inl e \<Rightarrow> map DeferTicket ticketIds
      | Inr found \<Rightarrow>
          map (\<lambda>t. case map_of found t of
                 Some ReceiptIsDelivered \<Rightarrow> CompleteTicket t None
               | Some (ReceiptIsFailed e) \<Rightarrow> CompleteTicket t (Some e)
               | _ \<Rightarrow> DeferTicket t) ticketIds)"

end
