(* ===== verification/Delivery_Laws.thy ===== *)
theory Delivery_Laws
  imports Delivery_Worker
begin

text \<open>
  What every operation on the delivery tables keeps: rows keep their identity, a permit only expires or is
  finished, a dispatch whose submission has begun stays so, and no submission begins but by
  \<open>markProviderSubmissionStarted\<close>.
\<close>

section \<open>Lists of rows\<close>

lemma select_one_Some: "select_one P rows = Some r \<Longrightarrow> r \<in> set rows \<and> P r"
  by (auto simp: select_one_def dest: filter_eq_ConsD split: list.splits)

lemma select_one_None: "select_one P rows = None \<longleftrightarrow> (\<forall>r \<in> set rows. \<not> P r)"
  by (cases "filter P rows") (auto simp: select_one_def filter_empty_conv dest: filter_eq_ConsD)

lemma update_where_rel:
  "(\<And>r. r \<in> set rows \<Longrightarrow> P r \<Longrightarrow> Q r (f r)) \<Longrightarrow> (\<And>r. r \<in> set rows \<Longrightarrow> Q r r) \<Longrightarrow> list_all2 Q rows (update_where P f rows)"
  by (auto simp: update_where_def list_all2_map2 intro: list_all2_all_nthI list.rel_refl_strong)

lemma map_rel: "(\<And>r. r \<in> set rows \<Longrightarrow> Q r (f r)) \<Longrightarrow> list_all2 Q rows (map f rows)"
  by (auto simp: list_all2_map2 intro: list.rel_refl_strong)

lemma rel_refl: "(\<And>r. r \<in> set rows \<Longrightarrow> Q r r) \<Longrightarrow> list_all2 Q rows rows"
  by (rule list.rel_refl_strong)

lemma list_all2_in1: "list_all2 Q xs ys \<Longrightarrow> x \<in> set xs \<Longrightarrow> \<exists>y \<in> set ys. Q x y"
  by (induction rule: list_all2_induct) auto

lemma list_all2_in2: "list_all2 Q xs ys \<Longrightarrow> y \<in> set ys \<Longrightarrow> \<exists>x \<in> set xs. Q x y"
  by (induction rule: list_all2_induct) auto

lemma list_all2_map_eq: "list_all2 Q xs ys \<Longrightarrow> (\<And>x y. Q x y \<Longrightarrow> f y = f x) \<Longrightarrow> map f ys = map f xs"
  by (induction rule: list_all2_induct) auto

lemma distinct_same: "distinct (map f rows) \<Longrightarrow> x \<in> set rows \<Longrightarrow> y \<in> set rows \<Longrightarrow> f x = f y \<Longrightarrow> x = y"
  by (auto simp: distinct_map dest: inj_onD)

lemma first_by_subset: "set (first_by k n rows) \<subseteq> set rows"
  by (auto simp: first_by_def dest: in_set_takeD)

section \<open>How rows change\<close>

definition begun :: "outbox_state \<Rightarrow> bool" where
  "begun s \<longleftrightarrow> s \<in> {ProviderSubmissionStarted, ProviderAccepted, ProviderRejected, ProviderOutcomeUnknown}"

definition permit_begun :: "permit_state \<Rightarrow> bool" where
  "permit_begun s \<longleftrightarrow> s \<in> {PermitSubmissionStarted, PermitFinished}"

definition permit_follows :: "string set \<Rightarrow> int \<Rightarrow> permit_row \<Rightarrow> permit_row \<Rightarrow> bool" where
  "permit_follows S now p p' \<longleftrightarrow>
     p_id p' = p_id p \<and> p_outbox p' = p_outbox p \<and> p_installation p' = p_installation p \<and> p_deadline p' = p_deadline p \<and>
     (p_state p' = p_state p \<or> (p_state p = PermitActive \<and> p_state p' = PermitExpired) \<or>
      (p_state p = PermitSubmissionStarted \<and> p_state p' = PermitFinished \<and> (p_deadline p \<le> now \<or> p_id p \<in> S)))"

definition outbox_follows :: "outbox_row \<Rightarrow> outbox_row \<Rightarrow> bool" where
  "outbox_follows x x' \<longleftrightarrow> o_id x' = o_id x \<and> begun (o_state x') = begun (o_state x)"

definition permits_evolve :: "string set \<Rightarrow> int \<Rightarrow> permit_row list \<Rightarrow> permit_row list \<Rightarrow> bool" where
  "permits_evolve S now ps ps' \<longleftrightarrow>
     (\<exists>kept new. ps' = kept @ new \<and> list_all2 (permit_follows S now) ps kept \<and>
        distinct (map p_id new) \<and> p_id ` set new \<inter> p_id ` set ps = {} \<and> (\<forall>p \<in> set new. p_state p = PermitActive))"

definition outbox_evolves :: "outbox_row list \<Rightarrow> outbox_row list \<Rightarrow> bool" where
  "outbox_evolves xs xs' \<longleftrightarrow>
     (\<exists>kept new. xs' = kept @ new \<and> list_all2 outbox_follows xs kept \<and>
        distinct (map o_id new) \<and> o_id ` set new \<inter> o_id ` set xs = {} \<and> (\<forall>x \<in> set new. \<not> begun (o_state x)))"

definition revoked_only :: "string set \<Rightarrow> nstore \<Rightarrow> nstore \<Rightarrow> bool" where
  "revoked_only R db db' \<longleftrightarrow>
     (\<forall>i \<in> set (installations db). i_state i \<noteq> ScopeInactive \<longrightarrow> i_id i \<notin> R \<longrightarrow>
        (\<exists>i' \<in> set (installations db'). i_id i' = i_id i \<and> i_state i' \<noteq> ScopeInactive))"

definition evolves :: "string set \<Rightarrow> string set \<Rightarrow> int \<Rightarrow> nstore \<Rightarrow> nstore \<Rightarrow> bool" where
  "evolves S R now db db' \<longleftrightarrow>
     permits_evolve S now (permits db) (permits db') \<and> outbox_evolves (outbox db) (outbox db') \<and> revoked_only R db db' \<and>
     (\<forall>p \<in> set (permits db'). p_installation p \<in> R \<and> p_state p = PermitSubmissionStarted \<longrightarrow> p_deadline p \<le> now)"

lemma permit_follows_refl [simp]: "permit_follows S now p p"
  by (simp add: permit_follows_def)

lemma outbox_follows_refl [simp]: "outbox_follows x x"
  by (simp add: outbox_follows_def)

lemma permits_evolve_keep: "list_all2 (permit_follows S now) ps ps' \<Longrightarrow> permits_evolve S now ps ps'"
  unfolding permits_evolve_def by (rule exI [of _ ps'], rule exI [of _ "[]"]) simp

lemma outbox_evolves_keep: "list_all2 outbox_follows xs xs' \<Longrightarrow> outbox_evolves xs xs'"
  unfolding outbox_evolves_def by (rule exI [of _ xs'], rule exI [of _ "[]"]) simp

lemma permits_evolve_refl [simp]: "permits_evolve S now ps ps"
  by (rule permits_evolve_keep, rule rel_refl) simp

lemma outbox_evolves_refl [simp]: "outbox_evolves xs xs"
  by (rule outbox_evolves_keep, rule rel_refl) simp

lemma permits_evolve_new:
  "p_id p \<notin> p_id ` set ps \<Longrightarrow> p_state p = PermitActive \<Longrightarrow> permits_evolve S now ps (ps @ [p])"
  unfolding permits_evolve_def by (rule exI [of _ ps], rule exI [of _ "[p]"]) (auto intro: rel_refl)

lemma outbox_evolves_new:
  "o_id x \<notin> o_id ` set xs \<Longrightarrow> \<not> begun (o_state x) \<Longrightarrow> outbox_evolves xs (xs @ [x])"
  unfolding outbox_evolves_def by (rule exI [of _ xs], rule exI [of _ "[x]"]) (auto intro: rel_refl)

lemma permit_follows_trans:
  "permit_follows S now p q \<Longrightarrow> permit_follows S now q r \<Longrightarrow> permit_follows S now p r"
  by (auto simp: permit_follows_def)

lemma outbox_follows_trans: "outbox_follows x y \<Longrightarrow> outbox_follows y z \<Longrightarrow> outbox_follows x z"
  by (simp add: outbox_follows_def)

lemma evolves_same:
  "permits db' = permits db \<Longrightarrow> outbox db' = outbox db \<Longrightarrow> installations db' = installations db \<Longrightarrow> evolves S {} now db db'"
  by (auto simp: evolves_def revoked_only_def)

lemma no_change_evolves [simp]: "evolves S {} now db db"
  by (rule evolves_same) simp_all

text \<open>Nothing of the installations changes but that some start to drain.\<close>

lemma evolvesI:
  assumes "permits_evolve S now (permits db) (permits db')" "outbox_evolves (outbox db) (outbox db')"
    and "installations db' = installations db"
  shows "evolves S {} now db db'"
  using assms by (auto simp: evolves_def revoked_only_def)

section \<open>The operations\<close>

lemma createAlert_evolves:
  "createAlertForRuleMatch input alertId outboxId now db = Inr (r, db') \<Longrightarrow> evolves S {} now db db'"
  by (auto simp: createAlertForRuleMatch_def begun_def split: if_splits option.splits
      intro!: evolvesI outbox_evolves_new)

lemma insertPermit_Inr:
  "insertPermit p db = Inr db' \<longleftrightarrow>
     db' = db\<lparr>permits := permits db @ [p]\<rparr> \<and> hex_id 32 (p_id p) \<and> p_id p \<notin> p_id ` set (permits db) \<and>
     (\<forall>q \<in> set (permits db). live_permit q \<longrightarrow> p_outbox q \<noteq> p_outbox p) \<and>
     (\<exists>x \<in> set (outbox db). o_id x = p_outbox p \<and> o_installation x = p_installation p \<and>
        o_network x = p_network p \<and> o_generation x = p_generation p)"
  by (auto simp: insertPermit_def)

lemma lease_outbox_evolves:
  "(\<And>x. o_id (f x) = o_id x \<and> o_state (f x) = OutboxLeased) \<Longrightarrow>
     outbox_evolves xs (update_where (\<lambda>x. P x \<and> o_state x = OutboxPending) f xs)"
  by (auto intro!: outbox_evolves_keep update_where_rel simp: outbox_follows_def begun_def)

lemma acquirePermit_evolves:
  "acquireDispatchPermit i l ob permitId now db = Inr (r, db') \<Longrightarrow> evolves S {} now db db'"
  by (auto simp: acquireDispatchPermit_def insertPermit_Inr bindE_Inr_iff split: option.splits if_splits
      intro!: evolvesI permits_evolve_new lease_outbox_evolves)

lemma claim_evolves:
  "claimNextDispatch worker fence busy permitId now db = Inr (r, db') \<Longrightarrow> evolves S {} now db db'"
  by (auto simp: claimNextDispatch_def insertPermit_Inr bindE_Inr_iff split: option.splits
      intro!: evolvesI permits_evolve_new lease_outbox_evolves)

lemma release_lease_follows: "o_state x = OutboxLeased \<Longrightarrow> outbox_follows x (release_lease x)"
  by (simp add: outbox_follows_def release_lease_def begun_def)

lemma abandon_evolves: "abandonUnstartedDispatch permitId db = Inr (r, db') \<Longrightarrow> evolves S {} now db db'"
  by (auto simp: abandonUnstartedDispatch_def permit_follows_def split: option.splits
      intro!: evolvesI permits_evolve_keep outbox_evolves_keep update_where_rel release_lease_follows)

text \<open>Finishing a permit is for the one who holds it.\<close>

lemma finish_evolves:
  assumes "finishDispatch clears permitId final db = Inr (r, db')" "begun final"
  shows "evolves {permitId} {} now db db'"
  using assms
  by (auto simp: finishDispatch_def Let_def permit_follows_def outbox_follows_def begun_def split: option.splits if_splits
      intro!: evolvesI permits_evolve_keep outbox_evolves_keep update_where_rel)

text \<open>What a record changes before it finishes the permit keeps the rows.\<close>

lemma outbox_follows_chain:
  "outbox_evolves xs ys \<Longrightarrow> list_all2 outbox_follows zs xs \<Longrightarrow> outbox_evolves zs ys"
  unfolding outbox_evolves_def
proof (elim exE conjE)
  fix kept new
  assume *: "list_all2 outbox_follows zs xs" "ys = kept @ new" "list_all2 outbox_follows xs kept"
    "distinct (map o_id new)" "o_id ` set new \<inter> o_id ` set xs = {}" "\<forall>x \<in> set new. \<not> begun (o_state x)"
  have "list_all2 outbox_follows zs kept"
    using *(1,3) list_all2_trans [of outbox_follows outbox_follows outbox_follows zs xs kept] outbox_follows_trans by blast
  moreover have "map o_id xs = map o_id zs" by (rule list_all2_map_eq [OF *(1)]) (simp add: outbox_follows_def)
  then have "o_id ` set xs = o_id ` set zs" by (metis set_map)
  ultimately show "\<exists>kept new. ys = kept @ new \<and> list_all2 outbox_follows zs kept \<and> distinct (map o_id new) \<and>
      o_id ` set new \<inter> o_id ` set zs = {} \<and> (\<forall>x \<in> set new. \<not> begun (o_state x))"
    using * by auto
qed

lemma evolves_chain:
  assumes "evolves S {} now db db'" "permits db = permits db0" "list_all2 outbox_follows (outbox db0) (outbox db)"
    and "installations db = installations db0"
  shows "evolves S {} now db0 db'"
  using assms outbox_follows_chain by (auto simp: evolves_def revoked_only_def)

lemma recordAccepted_evolves:
  assumes "recordProviderAccepted permitId ticketId now db = Inr (r, db')"
  shows "evolves {permitId} {} now db db'"
proof -
  from assms obtain db1 where f: "finishDispatch True permitId ProviderAccepted db1 = Inr (r, db')"
    and "permits db1 = permits db" "outbox db1 = outbox db" "installations db1 = installations db"
    by (auto simp: recordProviderAccepted_def finishDispatchInTransaction_def split: option.splits if_splits)
  with finish_evolves [OF f, of now] show ?thesis by (auto simp: begun_def evolves_def revoked_only_def)
qed

lemma recordRejected_evolves:
  assumes "recordProviderRejected permitId errorCode db = Inr (r, db')"
  shows "evolves {permitId} {} now db db'"
proof -
  from assms obtain p :: permit_row where f: "finishDispatch True permitId ProviderRejected
      (db\<lparr>tokens := (if errorCode = ''device_not_registered''
            then update_where (\<lambda>k. k_installation k = p_installation p \<and> k_active k) (\<lambda>k. k\<lparr>k_active := False\<rparr>) (tokens db)
            else tokens db),
          outbox := update_where (\<lambda>x. o_id x = p_outbox p) (\<lambda>x. x\<lparr>o_error := Some errorCode\<rparr>) (outbox db)\<rparr>) = Inr (r, db')"
    by (auto simp: recordProviderRejected_def finishDispatchInTransaction_def split: option.splits)
  have "list_all2 outbox_follows (outbox db)
      (update_where (\<lambda>x. o_id x = p_outbox p) (\<lambda>x. x\<lparr>o_error := Some errorCode\<rparr>) (outbox db))"
    by (rule update_where_rel) (simp_all add: outbox_follows_def)
  then show ?thesis
    by (intro evolves_chain [OF finish_evolves [OF f]]) (simp_all add: begun_def)
qed

lemma recordUnknown_evolves:
  "recordProviderOutcomeUnknown permitId db = Inr (r, db') \<Longrightarrow> evolves {permitId} {} now db db'"
  by (auto simp: recordProviderOutcomeUnknown_def finishDispatchPermit_def begun_def intro: finish_evolves)

section \<open>Recovery and revocation\<close>

lemma picked_permit:
  assumes "distinct (map p_id ps)" "p \<in> set ps" "p_id p \<in> set (map p_id (first_by k n (filter Q ps)))"
  shows "Q p"
proof -
  from assms(3) obtain q where "q \<in> set (first_by k n (filter Q ps))" "p_id q = p_id p" by auto
  with first_by_subset [of k n "filter Q ps"] have "q \<in> set ps" "Q q" "p_id q = p_id p" by auto
  with distinct_same [OF assms(1,2)] show ?thesis by metis
qed

lemma permits_evolve_trans_keep:
  assumes "list_all2 (permit_follows S now) ps qs" "list_all2 (permit_follows S now) qs rs"
  shows "list_all2 (permit_follows S now) ps rs"
  using list_all2_trans [OF _ assms] permit_follows_trans by blast

lemma outbox_follows_trans_keep:
  assumes "list_all2 outbox_follows xs ys" "list_all2 outbox_follows ys zs"
  shows "list_all2 outbox_follows xs zs"
  using list_all2_trans [OF _ assms] outbox_follows_trans by blast

lemma same_permit_ids: "list_all2 (permit_follows S now) ps qs \<Longrightarrow> map p_id qs = map p_id ps"
  by (erule list_all2_map_eq) (auto simp: permit_follows_def)

lemma finish_late_rows:
  assumes "distinct (map p_id (permits db))"
  shows "list_all2 (permit_follows S now) (permits db) (permits (finish_late n busy now db))"
  unfolding finish_late_def Let_def
  by (simp, rule update_where_rel)
    (auto simp: same_row_def permit_follows_def simp del: set_map dest!: picked_permit [OF assms])

lemma expire_stale_rows:
  assumes "distinct (map p_id (permits db))"
  shows "list_all2 (permit_follows S now) (permits db) (permits (expire_stale n busy now db))"
  unfolding expire_stale_def Let_def
  by (simp, rule update_where_rel)
    (auto simp: same_row_def permit_follows_def simp del: set_map dest!: picked_permit [OF assms])

lemma settle_late_rows: "list_all2 outbox_follows (outbox db) (outbox (settle_late now db))"
  by (auto simp: settle_late_def outbox_follows_def begun_def intro!: update_where_rel)

lemma release_stale_rows: "list_all2 outbox_follows (outbox db) (outbox (release_stale now db))"
  by (auto simp: release_stale_def intro!: update_where_rel release_lease_follows)

lemma recovery_keeps [simp]:
  "outbox (finish_late n busy now db) = outbox db" "installations (finish_late n busy now db) = installations db"
  "permits (settle_late now db) = permits db" "installations (settle_late now db) = installations db"
  "outbox (expire_stale n busy now db) = outbox db" "installations (expire_stale n busy now db) = installations db"
  "permits (release_stale now db) = permits db" "installations (release_stale now db) = installations db"
  by (simp_all add: finish_late_def settle_late_def expire_stale_def release_stale_def Let_def)

lemma recover_evolves:
  assumes distinct: "distinct (map p_id (permits db))"
    and run: "recoverExpiredDispatches limit busy now db = Inr (r, db')"
  shows "evolves S {} now db db'"
proof -
  from run obtain n where db': "db' = release_stale now (expire_stale n busy now (settle_late now (finish_late n busy now db)))"
    by (auto simp: recoverExpiredDispatches_def)
  note late = finish_late_rows [OF distinct, of S now n busy]
  with distinct have "distinct (map p_id (permits (settle_late now (finish_late n busy now db))))"
    by (simp add: same_permit_ids)
  note stale = expire_stale_rows [OF this, of S now n busy]
  have "permits_evolve S now (permits db) (permits db')"
    using permits_evolve_trans_keep [OF late] stale by (auto simp: db' intro: permits_evolve_keep)
  moreover have "outbox_evolves (outbox db) (outbox db')"
    using outbox_follows_trans_keep [OF settle_late_rows [of "finish_late n busy now db" now]
        release_stale_rows [of "expire_stale n busy now (settle_late now (finish_late n busy now db))" now, simplified]]
    by (auto simp: db' intro: outbox_evolves_keep)
  ultimately show ?thesis by (rule evolvesI) (simp add: db')
qed

lemma fenced_outbox_follows:
  "outbox_follows x ((fenced_outbox db deletionId forceUnknown now x)\<lparr>o_scope := scope\<rparr>)"
  by (auto simp: outbox_follows_def fenced_outbox_def begun_def)

lemma fenced_permit_follows:
  "permit_follows S now p ((fenced_permit deletionId False now p)\<lparr>p_scope := scope\<rparr>)"
  by (auto simp: permit_follows_def fenced_permit_def overdue_def)

lemma fence_installation_rows:
  "list_all2 (permit_follows S now) (permits db) (permits (fenceInstallationDispatchWork i d False now db))"
  "list_all2 outbox_follows (outbox db) (outbox (fenceInstallationDispatchWork i d False now db))"
  "installations (fenceInstallationDispatchWork i d False now db) = installations db"
  by (auto simp: fenceInstallationDispatchWork_def intro!: update_where_rel fenced_permit_follows fenced_outbox_follows)

lemma fence_link_rows:
  "list_all2 (permit_follows S now) (permits db) (permits (fenceAccountLinkDispatchWork l d False now db))"
  "list_all2 outbox_follows (outbox db) (outbox (fenceAccountLinkDispatchWork l d False now db))"
  "installations (fenceAccountLinkDispatchWork l d False now db) = installations db"
  by (auto simp: fenceAccountLinkDispatchWork_def intro!: update_where_rel fenced_permit_follows fenced_outbox_follows)

lemma insertOperation_rows:
  "insertOperation v d k s db = Inr db' \<Longrightarrow>
     permits db' = permits db \<and> outbox db' = outbox db \<and> installations db' = installations db"
  by (auto simp: insertOperation_def split: if_splits)

lemma revoked_only_update:
  assumes "installations db' = update_where P f (installations db)"
    and "\<And>j. P j \<Longrightarrow> i_id j \<notin> R \<Longrightarrow> i_id (f j) = i_id j \<and> i_state (f j) \<noteq> ScopeInactive"
  shows "revoked_only R db db'"
  unfolding revoked_only_def
proof (intro ballI impI)
  fix j assume j: "j \<in> set (installations db)" "i_state j \<noteq> ScopeInactive" "i_id j \<notin> R"
  then have "(if P j then f j else j) \<in> set (installations db')" by (simp add: assms(1) update_where_def)
  with j assms(2) show "\<exists>j' \<in> set (installations db'). i_id j' = i_id j \<and> i_state j' \<noteq> ScopeInactive"
    by (intro bexI [of _ "if P j then f j else j"]) simp_all
qed

lemma startInstallationDrain_evolves:
  assumes "startInstallationDrain i h v now db = Inr (r, db')"
  shows "evolves S {} now db db'"
proof (cases "db' = db")
  case False
  with assms obtain db1 :: nstore and d where db1: "permits db1 = permits db" "outbox db1 = outbox db"
    "installations db1 = update_where (\<lambda>j. i_id j = i \<and> i_state j = ScopeActive) (\<lambda>j. j\<lparr>i_state := ScopeDraining\<rparr>) (installations db)"
    and d: "db' = fenceInstallationDispatchWork i d False now db1"
    by (auto simp: startInstallationDrain_def Let_def split: option.splits if_splits dest!: insertOperation_rows)
  have "revoked_only {} db db'"
    by (rule revoked_only_update [where f = "\<lambda>j. j\<lparr>i_state := ScopeDraining\<rparr>"])
      (simp_all add: d fence_installation_rows db1)
  then show ?thesis
    using fence_installation_rows(1) [of S now db1 i d] fence_installation_rows(2) [of db1 i d now] db1
    by (auto simp: evolves_def d intro: permits_evolve_keep outbox_evolves_keep)
qed simp

lemma startAccountLinkDrain_evolves:
  assumes "startAccountLinkDrain a i l v now db = Inr (r, db')"
  shows "evolves S {} now db db'"
proof (cases "db' = db")
  case False
  with assms obtain db1 :: nstore and d where "permits db1 = permits db" "outbox db1 = outbox db" "installations db1 = installations db"
    "db' = fenceAccountLinkDispatchWork l d False now db1"
    by (auto simp: startAccountLinkDrain_def Let_def split: option.splits if_splits dest!: insertOperation_rows)
  then show ?thesis
    using fence_link_rows(1) [of S now db1 l d] fence_link_rows(2) [of db1 l d now] fence_link_rows(3) [of l d now db1]
    by (auto intro!: evolvesI permits_evolve_keep outbox_evolves_keep)
qed simp

lemma delete_rows:
  "permits (deleteRules P db) = permits db" "outbox (deleteRules P db) = outbox db"
  "installations (deleteRules P db) = installations db"
  "permits (deleteTokens Q db) = permits db" "outbox (deleteTokens Q db) = outbox db"
  "installations (deleteTokens Q db) = installations db"
  "installations (deleteLinks R db) = installations db"
  "list_all2 (permit_follows S now) (permits db) (permits (deleteLinks R db))"
  "list_all2 outbox_follows (outbox db) (outbox (deleteLinks R db))"
  by (auto simp: deleteRules_def deleteTokens_def deleteLinks_def Let_def permit_follows_def outbox_follows_def
      intro!: map_rel)

lemma recordDeletionTombstone_rows:
  "recordDeletionTombstone d db = Inr db' \<Longrightarrow>
     permits db' = permits db \<and> outbox db' = outbox db \<and> installations db' = installations db"
  by (auto simp: recordDeletionTombstone_def split: option.splits if_splits)

lemma commitOperation_rows:
  "commitOperation v n db = Inr db' \<Longrightarrow>
     permits db' = permits db \<and> outbox db' = outbox db \<and> installations db' = installations db"
  by (auto simp: commitOperation_def split: if_splits)

lemma revokeInstallation_evolves:
  assumes "revokeInstallation v i d item now db = Inr (n, db')"
  shows "\<exists>R. evolves S R now db db'"
proof (cases "db' = db")
  case True
  then show ?thesis by (auto intro: exI [of _ "{}"])
next
  case False
  define fenced where "fenced = fenceInstallationDispatchWork i d False now db"
  define bare where "bare = deleteTokens (\<lambda>k. k_installation k = i) (deleteRules (\<lambda>r. r_installation r = i) fenced)"
  define kept where "kept = deleteLinks (\<lambda>l. l_installation l = i) bare"
  have bare: "permits bare = permits fenced" "outbox bare = outbox fenced" "installations bare = installations db"
    by (simp_all add: bare_def delete_rows fenced_def fence_installation_rows)
  from assms False have flight: "\<not> installation_in_flight i now fenced"
    and rows: "permits db' = permits kept" "outbox db' = outbox kept"
      "installations db' = update_where (\<lambda>j. i_id j = i)
         (\<lambda>j. j\<lparr>i_state := ScopeInactive, i_credential_hash := None, i_generation := i_generation j + 1\<rparr>) (installations db)"
    by (auto simp: revokeInstallation_def Let_def fenced_def [symmetric] bare_def [symmetric] kept_def [symmetric]
        split: option.splits if_splits dest!: recordDeletionTombstone_rows commitOperation_rows)
      (simp_all add: kept_def delete_rows bare)
  note kept = delete_rows(8) [of S now bare "\<lambda>l. l_installation l = i", folded kept_def, unfolded bare]
    delete_rows(9) [of bare "\<lambda>l. l_installation l = i", folded kept_def, unfolded bare]
  note fence = fence_installation_rows(1) [of S now db i d, folded fenced_def]
    fence_installation_rows(2) [of db i d now, folded fenced_def]
  have "permits_evolve S now (permits db) (permits db')"
    unfolding rows by (rule permits_evolve_keep [OF permits_evolve_trans_keep [OF fence(1) kept(1)]])
  moreover have "outbox_evolves (outbox db) (outbox db')"
    unfolding rows by (rule outbox_evolves_keep [OF outbox_follows_trans_keep [OF fence(2) kept(2)]])
  moreover have "revoked_only {i} db db'" by (rule revoked_only_update [OF rows(3)]) simp
  moreover have "p_deadline p \<le> now" if p: "p \<in> set (permits db')" "p_installation p \<in> {i}" "p_state p = PermitSubmissionStarted" for p
  proof -
    from p(1) list_all2_in2 [OF kept(1)] obtain q where "q \<in> set (permits fenced)" "permit_follows S now q p"
      by (auto simp: rows)
    with p(2,3) flight show ?thesis by (fastforce simp: installation_in_flight_def permit_follows_def)
  qed
  ultimately show ?thesis by (auto simp: evolves_def)
qed

lemma unlinkAccount_evolves:
  assumes "unlinkAccount v l d item now db = Inr (n, db')"
  shows "evolves S {} now db db'"
proof (cases "db' = db")
  case False
  define fenced where "fenced = fenceAccountLinkDispatchWork l d False now db"
  define bare where "bare = deleteRules (\<lambda>r. r_link r = Some l) fenced"
  define kept where "kept = deleteLinks (\<lambda>x. l_id x = l) bare"
  have bare: "permits bare = permits fenced" "outbox bare = outbox fenced" "installations bare = installations db"
    by (simp_all add: bare_def delete_rows fenced_def fence_link_rows)
  from assms False have rows: "permits db' = permits kept" "outbox db' = outbox kept" "installations db' = installations db"
    by (auto simp: unlinkAccount_def Let_def fenced_def [symmetric] bare_def [symmetric] kept_def [symmetric]
        split: option.splits if_splits dest!: recordDeletionTombstone_rows commitOperation_rows)
      (simp_all add: kept_def delete_rows bare)
  note kept = delete_rows(8) [of S now bare "\<lambda>x. l_id x = l", folded kept_def, unfolded bare]
    delete_rows(9) [of bare "\<lambda>x. l_id x = l", folded kept_def, unfolded bare]
  note fence = fence_link_rows(1) [of S now db l d, folded fenced_def] fence_link_rows(2) [of db l d now, folded fenced_def]
  show ?thesis
  proof (rule evolvesI)
    show "permits_evolve S now (permits db) (permits db')"
      unfolding rows by (rule permits_evolve_keep [OF permits_evolve_trans_keep [OF fence(1) kept(1)]])
    show "outbox_evolves (outbox db) (outbox db')"
      unfolding rows by (rule outbox_evolves_keep [OF outbox_follows_trans_keep [OF fence(2) kept(2)]])
  qed (rule rows(3))
qed simp

lemma commitInstallation_evolves:
  assumes "commitInstallationRevocation v before seen ledger now db = Inr (n, db')"
  shows "\<exists>R. evolves S R now db db'"
proof -
  from assms have "db' = db \<or> (\<exists>i d item. revokeInstallation v i d item now db = Inr (n, db'))"
    by (auto simp: commitInstallationRevocation_def split: option.splits if_splits bool.splits)
  then show ?thesis using revokeInstallation_evolves no_change_evolves by metis
qed

lemma commitAccountLink_evolves:
  assumes "commitAccountLinkUnlink v before seen ledger now db = Inr (n, db')"
  shows "evolves S {} now db db'"
proof -
  from assms have "db' = db \<or> (\<exists>l d item. unlinkAccount v l d item now db = Inr (n, db'))"
    by (auto simp: commitAccountLinkUnlink_def split: option.splits if_splits bool.splits)
  then show ?thesis using unlinkAccount_evolves no_change_evolves by metis
qed

text \<open>Leases and receipts are kept apart from dispatches.\<close>

lemma others_evolve:
  "recoverExpiredReceiptLeases limit busy now db = Inr (u, db') \<Longrightarrow> evolves S {} now db db'"
  "claimDueReceipts worker limit fence busy now db = Inr (ids, db') \<Longrightarrow> evolves S {} now db db'"
  "completeReceipt t worker failure receipt now db = Inr (u, db') \<Longrightarrow> evolves S {} now db db'"
  "deferReceipt t worker receipt now db = Inr (u, db') \<Longrightarrow> evolves S {} now db db'"
  "acquireMonitorLease key owner now db = Inr (g, db') \<Longrightarrow> evolves S {} now db db'"
  "renewMonitorLease key owner n now db = Inr (b, db') \<Longrightarrow> evolves S {} now db db'"
  "releaseMonitorLease key owner n db = Inr (u, db') \<Longrightarrow> evolves S {} now db db'"
  by (auto simp: recoverExpiredReceiptLeases_def claimDueReceipts_def completeReceipt_def deferReceipt_def insertReceipt_def
      acquireMonitorLease_def renewMonitorLease_def releaseMonitorLease_def Let_def
      split: option.splits if_splits intro!: evolves_same)

lemma operate_evolves:
  assumes "operate operation now db = Inr (answer, db')" "distinct (map p_id (permits db))"
  shows "\<exists>R. evolves S R now db db'"
proof (cases operation)
  case (CommitInstallation v before seen ledger)
  with assms show ?thesis using commitInstallation_evolves by (fastforce simp: quiet_def)
qed (use assms in \<open>auto simp: quiet_def intro!: exI [of _ "{}"]
    intro: createAlert_evolves recover_evolves acquirePermit_evolves startInstallationDrain_evolves
      startAccountLinkDrain_evolves commitAccountLink_evolves others_evolve\<close>)

end
