(* ===== verification/Delivery_Properties.thy ===== *)
theory Delivery_Properties
  imports Delivery_Laws
begin

text \<open>
  What holds of every run of the delivery service, with any number of workers interleaved with each
  other, with crashes, lost connections and every other operation on the store: an alert is handed
  to the provider at most once, and late only by a host's clock that lags; an event adds one alert to the store.
\<close>

section \<open>The store\<close>

definition store_ok :: "int \<Rightarrow> nstore \<Rightarrow> bool" where
  "store_ok now db \<longleftrightarrow>
     distinct (map p_id (permits db)) \<and> distinct (map o_id (outbox db)) \<and>
     (\<forall>p \<in> set (permits db). permit_begun (p_state p) \<longrightarrow>
        (\<exists>x \<in> set (outbox db). o_id x = p_outbox p \<and> begun (o_state x))) \<and>
     (\<forall>p \<in> set (permits db). \<forall>q \<in> set (permits db).
        permit_begun (p_state p) \<longrightarrow> permit_begun (p_state q) \<longrightarrow> p_outbox p = p_outbox q \<longrightarrow> p = q) \<and>
     (\<forall>p \<in> set (permits db). p_state p = PermitSubmissionStarted \<longrightarrow> now < p_deadline p \<longrightarrow>
        (\<exists>i \<in> set (installations db). i_id i = p_installation p \<and> i_state i \<noteq> ScopeInactive))"

lemma store_okD:
  assumes "store_ok now db"
  shows "distinct (map p_id (permits db))" "distinct (map o_id (outbox db))"
    "p \<in> set (permits db) \<Longrightarrow> permit_begun (p_state p) \<Longrightarrow>
       \<exists>x \<in> set (outbox db). o_id x = p_outbox p \<and> begun (o_state x)"
    "p \<in> set (permits db) \<Longrightarrow> q \<in> set (permits db) \<Longrightarrow> permit_begun (p_state p) \<Longrightarrow> permit_begun (p_state q) \<Longrightarrow>
       p_outbox p = p_outbox q \<Longrightarrow> p = q"
    "p \<in> set (permits db) \<Longrightarrow> p_state p = PermitSubmissionStarted \<Longrightarrow> now < p_deadline p \<Longrightarrow>
       \<exists>i \<in> set (installations db). i_id i = p_installation p \<and> i_state i \<noteq> ScopeInactive"
  using assms by (auto simp: store_ok_def)

lemma store_ok_later: "store_ok now db \<Longrightarrow> now \<le> later \<Longrightarrow> store_ok later db"
  by (auto simp: store_ok_def)

definition dispatch_begun :: "string \<Rightarrow> nstore \<Rightarrow> bool" where
  "dispatch_begun k db \<longleftrightarrow> (\<exists>x \<in> set (outbox db). o_id x = k \<and> begun (o_state x))"

text \<open>What the holders of other permits see of a step.\<close>

definition permits_keep :: "string set \<Rightarrow> int \<Rightarrow> nstore \<Rightarrow> nstore \<Rightarrow> bool" where
  "permits_keep S now db db' \<longleftrightarrow>
     (\<forall>p \<in> set (permits db). \<exists>p' \<in> set (permits db').
        p_id p' = p_id p \<and> p_outbox p' = p_outbox p \<and> p_deadline p' = p_deadline p \<and>
        (p_id p \<notin> S \<longrightarrow>
           (p_state p = PermitSubmissionStarted \<longrightarrow>
              p_state p' = PermitSubmissionStarted \<or> (p_state p' = PermitFinished \<and> p_deadline p \<le> now)) \<and>
           (p_state p = PermitFinished \<longrightarrow> p_state p' = PermitFinished)))"

lemma evolves_permits_keep:
  assumes "evolves S R now db db'"
  shows "permits_keep S now db db'"
  unfolding permits_keep_def
proof
  fix p assume p: "p \<in> set (permits db)"
  from assms obtain kept new where k: "permits db' = kept @ new" "list_all2 (permit_follows S now) (permits db) kept"
    by (auto simp: evolves_def permits_evolve_def)
  from list_all2_in1 [OF k(2) p] k(1) obtain p' where "p' \<in> set (permits db')" "permit_follows S now p p'" by auto
  then show "\<exists>p' \<in> set (permits db'). p_id p' = p_id p \<and> p_outbox p' = p_outbox p \<and> p_deadline p' = p_deadline p \<and>
      (p_id p \<notin> S \<longrightarrow> (p_state p = PermitSubmissionStarted \<longrightarrow>
          p_state p' = PermitSubmissionStarted \<or> (p_state p' = PermitFinished \<and> p_deadline p \<le> now)) \<and>
        (p_state p = PermitFinished \<longrightarrow> p_state p' = PermitFinished))"
    by (intro bexI [of _ p']) (auto simp: permit_follows_def)
qed

lemma evolves_begun:
  assumes "evolves S R now db db'" "dispatch_begun k db"
  shows "dispatch_begun k db'"
proof -
  from assms(1) obtain kept new where k: "outbox db' = kept @ new" "list_all2 outbox_follows (outbox db) kept"
    by (auto simp: evolves_def outbox_evolves_def)
  from assms(2) obtain x where "x \<in> set (outbox db)" "o_id x = k" "begun (o_state x)" by (auto simp: dispatch_begun_def)
  with list_all2_in1 [OF k(2)] k(1) show ?thesis by (fastforce simp: dispatch_begun_def outbox_follows_def)
qed

lemma evolves_distinct:
  assumes "evolves S R now db db'"
  shows "distinct (map p_id (permits db)) \<Longrightarrow> distinct (map p_id (permits db'))"
    "distinct (map o_id (outbox db)) \<Longrightarrow> distinct (map o_id (outbox db'))"
proof -
  from assms obtain kept new where k: "permits db' = kept @ new" "list_all2 (permit_follows S now) (permits db) kept"
    "distinct (map p_id new)" "p_id ` set new \<inter> p_id ` set (permits db) = {}"
    by (auto simp: evolves_def permits_evolve_def)
  from assms obtain kept' new' where k': "outbox db' = kept' @ new'" "list_all2 outbox_follows (outbox db) kept'"
    "distinct (map o_id new')" "o_id ` set new' \<inter> o_id ` set (outbox db) = {}"
    by (auto simp: evolves_def outbox_evolves_def)
  have "map p_id kept = map p_id (permits db)" using k(2) by (rule same_permit_ids)
  with k show "distinct (map p_id (permits db)) \<Longrightarrow> distinct (map p_id (permits db'))"
    by (auto simp: Int_commute)
  have "map o_id kept' = map o_id (outbox db)"
    by (rule list_all2_map_eq [OF k'(2)]) (simp add: outbox_follows_def)
  with k' show "distinct (map o_id (outbox db)) \<Longrightarrow> distinct (map o_id (outbox db'))"
    by (auto simp: Int_commute)
qed

lemma evolves_begun_permit:
  assumes "evolves S R now db db'" "p' \<in> set (permits db')" "permit_begun (p_state p')"
  obtains p where "p \<in> set (permits db)" "permit_follows S now p p'" "permit_begun (p_state p)"
proof -
  from assms(1) obtain kept new where k: "permits db' = kept @ new" "list_all2 (permit_follows S now) (permits db) kept"
    "\<forall>p \<in> set new. p_state p = PermitActive"
    by (auto simp: evolves_def permits_evolve_def)
  from assms(2,3) k have "p' \<in> set kept" by (auto simp: permit_begun_def)
  with list_all2_in2 [OF k(2)] obtain p where "p \<in> set (permits db)" "permit_follows S now p p'" by auto
  moreover from this assms(3) have "permit_begun (p_state p)" by (auto simp: permit_follows_def permit_begun_def)
  ultimately show thesis using that by blast
qed

lemma evolves_store_ok:
  assumes e: "evolves S R now db db'" and ok: "store_ok now db"
  shows "store_ok now db'"
  unfolding store_ok_def
proof (intro conjI ballI impI)
  show d: "distinct (map p_id (permits db'))" "distinct (map o_id (outbox db'))"
    using evolves_distinct [OF e] store_okD(1,2) [OF ok] by auto
  fix p' assume p': "p' \<in> set (permits db')"
  show "\<exists>x \<in> set (outbox db'). o_id x = p_outbox p' \<and> begun (o_state x)" if b: "permit_begun (p_state p')"
  proof -
    obtain p where "p \<in> set (permits db)" "permit_follows S now p p'" "permit_begun (p_state p)"
      by (rule evolves_begun_permit [OF e p' b])
    with store_okD(3) [OF ok] evolves_begun [OF e, of "p_outbox p"] show ?thesis
      by (fastforce simp: dispatch_begun_def permit_follows_def)
  qed
  show "p' = q'" if q': "q' \<in> set (permits db')" and b: "permit_begun (p_state p')" "permit_begun (p_state q')"
    and same: "p_outbox p' = p_outbox q'" for q'
  proof -
    obtain p where p: "p \<in> set (permits db)" "permit_follows S now p p'" "permit_begun (p_state p)"
      by (rule evolves_begun_permit [OF e p' b(1)])
    obtain q where q: "q \<in> set (permits db)" "permit_follows S now q q'" "permit_begun (p_state q)"
      by (rule evolves_begun_permit [OF e q' b(2)])
    have "p = q" using store_okD(4) [OF ok p(1) q(1) p(3) q(3)] same p(2) q(2) by (simp add: permit_follows_def)
    then have "p_id p' = p_id q'" using p(2) q(2) by (simp add: permit_follows_def)
    with distinct_same [OF d(1) p' q'] show ?thesis by simp
  qed
  show "\<exists>i \<in> set (installations db'). i_id i = p_installation p' \<and> i_state i \<noteq> ScopeInactive"
    if s: "p_state p' = PermitSubmissionStarted" "now < p_deadline p'"
  proof -
    have notR: "p_installation p' \<notin> R" using e p' s by (auto simp: evolves_def)
    obtain p where p: "p \<in> set (permits db)" "permit_follows S now p p'" "permit_begun (p_state p)"
      by (rule evolves_begun_permit [OF e p']) (simp add: s permit_begun_def)
    with s have "p_state p = PermitSubmissionStarted" "now < p_deadline p" "p_installation p = p_installation p'"
      by (auto simp: permit_follows_def permit_begun_def)
    with store_okD(5) [OF ok p(1)] obtain i where "i \<in> set (installations db)" "i_id i = p_installation p'"
      "i_state i \<noteq> ScopeInactive" by auto
    with notR e show ?thesis by (fastforce simp: evolves_def revoked_only_def)
  qed
qed

section \<open>The start of a submission\<close>

definition marks :: "string \<Rightarrow> int \<Rightarrow> permit_row \<Rightarrow> nstore \<Rightarrow> nstore \<Rightarrow> bool" where
  "marks permitId now p db db' \<longleftrightarrow>
     p \<in> set (permits db) \<and> p_id p = permitId \<and> p_state p = PermitActive \<and> now < p_deadline p \<and>
     (\<exists>i \<in> set (installations db). i_id i = p_installation p \<and> i_state i \<noteq> ScopeInactive) \<and>
     (\<exists>x \<in> set (outbox db). o_id x = p_outbox p \<and> o_state x = OutboxLeased) \<and>
     permits db' = update_where (\<lambda>p. p_id p = permitId \<and> p_state p = PermitActive)
       (\<lambda>p. p\<lparr>p_state := PermitSubmissionStarted\<rparr>) (permits db) \<and>
     (\<exists>x \<in> set (outbox db'). o_id x = p_outbox p \<and> begun (o_state x)) \<and>
     (\<exists>P. outbox db' = update_where P (\<lambda>x. x\<lparr>o_state := ProviderSubmissionStarted\<rparr>) (outbox db)) \<and>
     installations db' = installations db"

lemma mark_marks:
  assumes "markProviderSubmissionStarted permitId now observed db = Inr (u, db')"
  shows "\<exists>p. marks permitId now p db db'"
proof -
  from assms obtain p :: permit_row where p: "select_one (\<lambda>p. p_id p = permitId) (permits db) = Some p"
    "p_state p = PermitActive" "active_installation db (p_installation p) (p_generation p)" "now < p_deadline p"
    and starting: "length (filter (\<lambda>x. o_id x = p_outbox p \<and> o_state x = OutboxLeased \<and> o_generation x = p_generation p \<and>
        o_scope x = p_scope p) (outbox db)) = 1"
    and db': "db' = db\<lparr>permits := update_where (\<lambda>p. p_id p = permitId \<and> p_state p = PermitActive)
        (\<lambda>p. p\<lparr>p_state := PermitSubmissionStarted\<rparr>) (permits db),
      outbox := update_where (\<lambda>x. o_id x = p_outbox p \<and> o_state x = OutboxLeased \<and> o_generation x = p_generation p \<and>
        o_scope x = p_scope p) (\<lambda>x. x\<lparr>o_state := ProviderSubmissionStarted\<rparr>) (outbox db)\<rparr>"
    by (auto simp: markProviderSubmissionStarted_def Let_def split: option.splits)
  then have "filter (\<lambda>x. o_id x = p_outbox p \<and> o_state x = OutboxLeased \<and> o_generation x = p_generation p \<and>
        o_scope x = p_scope p) (outbox db) \<noteq> []" by auto
  then obtain x :: outbox_row where x: "x \<in> set (outbox db)" "o_id x = p_outbox p" "o_state x = OutboxLeased"
    "o_generation x = p_generation p" "o_scope x = p_scope p"
    by (auto simp: filter_empty_conv)
  have "x\<lparr>o_state := ProviderSubmissionStarted\<rparr> \<in> set (outbox db')"
    using x by (auto simp: db' update_where_def)
  then have "\<exists>x \<in> set (outbox db'). o_id x = p_outbox p \<and> begun (o_state x)"
    using x(2) by (intro bexI) (auto simp: begun_def)
  moreover have "p \<in> set (permits db)" "p_id p = permitId" using select_one_Some [OF p(1)] by auto
  moreover have "\<exists>i \<in> set (installations db). i_id i = p_installation p \<and> i_state i \<noteq> ScopeInactive"
    using p(3) by (auto simp: active_installation_def)
  ultimately show ?thesis using p(2,4) x by (auto simp: marks_def db')
qed

lemma marks_permits_keep: "marks permitId now p db db' \<Longrightarrow> permits_keep {permitId} now db db'"
  unfolding permits_keep_def marks_def
proof (elim conjE, intro ballI)
  fix q assume q: "q \<in> set (permits db)"
    and db': "permits db' = update_where (\<lambda>p. p_id p = permitId \<and> p_state p = PermitActive)
       (\<lambda>p. p\<lparr>p_state := PermitSubmissionStarted\<rparr>) (permits db)"
  define q' where "q' = (if p_id q = permitId \<and> p_state q = PermitActive then q\<lparr>p_state := PermitSubmissionStarted\<rparr> else q)"
  have "q' \<in> set (permits db')" using q by (simp add: db' update_where_def q'_def)
  then show "\<exists>p' \<in> set (permits db'). p_id p' = p_id q \<and> p_outbox p' = p_outbox q \<and> p_deadline p' = p_deadline q \<and>
      (p_id q \<notin> {permitId} \<longrightarrow> (p_state q = PermitSubmissionStarted \<longrightarrow>
          p_state p' = PermitSubmissionStarted \<or> (p_state p' = PermitFinished \<and> p_deadline q \<le> now)) \<and>
        (p_state q = PermitFinished \<longrightarrow> p_state p' = PermitFinished))"
    by (intro bexI [of _ q']) (auto simp: q'_def)
qed

lemma marks_begun:
  assumes "marks permitId now p db db'" "dispatch_begun k db"
  shows "dispatch_begun k db'"
proof -
  from assms obtain x P where x: "x \<in> set (outbox db)" "o_id x = k" "begun (o_state x)"
    and db': "outbox db' = update_where P (\<lambda>x. x\<lparr>o_state := ProviderSubmissionStarted\<rparr>) (outbox db)"
    by (auto simp: dispatch_begun_def marks_def)
  have "(if P x then x\<lparr>o_state := ProviderSubmissionStarted\<rparr> else x) \<in> set (outbox db')"
    using x(1) by (simp add: db' update_where_def)
  with x show ?thesis unfolding dispatch_begun_def by (rule_tac bexI) (auto simp: begun_def)
qed

lemma marks_store_ok:
  assumes m: "marks permitId now p db db'" and ok: "store_ok now db"
  shows "store_ok now db'"
  unfolding store_ok_def
proof (intro conjI ballI impI)
  note d = store_okD(1,2) [OF ok]
  from m have p: "p \<in> set (permits db)" "p_id p = permitId" by (auto simp: marks_def)
  from m obtain x where x: "x \<in> set (outbox db)" "o_id x = p_outbox p" "o_state x = OutboxLeased" by (auto simp: marks_def)
  have fresh: "p_outbox q \<noteq> p_outbox p" if "q \<in> set (permits db)" "permit_begun (p_state q)" for q
    using store_okD(3) [OF ok that] x distinct_same [OF d(2) _ x(1)] by (fastforce simp: begun_def)
  have before: "q' = p\<lparr>p_state := PermitSubmissionStarted\<rparr> \<or> q' \<in> set (permits db)" if "q' \<in> set (permits db')" for q'
    using that m distinct_same [OF d(1) _ p(1)] p(2) by (auto simp: marks_def update_where_def split: if_splits)
  have "map p_id (permits db') = map p_id (permits db)"
    using m by (auto simp: marks_def update_where_def)
  with d show d1: "distinct (map p_id (permits db'))" by simp
  have "map o_id (outbox db') = map o_id (outbox db)" using m by (auto simp: marks_def update_where_def)
  with d show "distinct (map o_id (outbox db'))" by simp
  fix q assume q: "q \<in> set (permits db')"
  show "\<exists>x \<in> set (outbox db'). o_id x = p_outbox q \<and> begun (o_state x)" if "permit_begun (p_state q)"
    using before [OF q] that store_okD(3) [OF ok, of q] marks_begun [OF m, of "p_outbox q"] m
    by (auto simp: dispatch_begun_def marks_def)
  show "q = r" if r: "r \<in> set (permits db')" "permit_begun (p_state q)" "permit_begun (p_state r)" "p_outbox q = p_outbox r" for r
    using before [OF q] before [OF r(1)] fresh store_okD(4) [OF ok _ _ r(2,3,4)] r(2-4) by auto metis+
  show "\<exists>i \<in> set (installations db'). i_id i = p_installation q \<and> i_state i \<noteq> ScopeInactive"
    if "p_state q = PermitSubmissionStarted" "now < p_deadline q"
    using before [OF q] that store_okD(5) [OF ok, of q] m by (auto simp: marks_def)
qed

section \<open>The workers\<close>

fun held :: "worker_phase \<Rightarrow> DeliveryClaim option" where
  "held Resting = None"
| "held Claiming = None"
| "held (Claimed c) = Some c"
| "held (Marked c) = Some c"
| "held (HasToken c pushToken) = Some c"
| "held (Authorized c pushToken deadline) = Some c"
| "held (Sending c) = Some c"
| "held (Answered c answer) = Some c"
| "held (Failed c e marked writePossible) = Some c"

text \<open>A submission has started and nothing has been sent yet.\<close>

fun unsent :: "worker_phase \<Rightarrow> DeliveryClaim option" where
  "unsent (Marked c) = Some c"
| "unsent (HasToken c pushToken) = Some c"
| "unsent (Authorized c pushToken deadline) = Some c"
| "unsent _ = None"

lemma unsent_held: "unsent ph = Some c \<Longrightarrow> held ph = Some c"
  by (cases ph) auto

definition holds_permit :: "int \<Rightarrow> nstore \<Rightarrow> worker_phase \<Rightarrow> permit_row \<Rightarrow> bool" where
  "holds_permit now db ph p \<longleftrightarrow>
     p \<in> set (permits db) \<and>
     (\<forall>c. held ph = Some c \<longrightarrow> p_id p = c_permitId c \<and> p_outbox p = c_outboxId c) \<and>
     (unsent ph \<noteq> None \<longrightarrow>
        p_state p = PermitSubmissionStarted \<or> (p_state p = PermitFinished \<and> p_deadline p \<le> now)) \<and>
     (\<forall>c pushToken deadline. ph = Authorized c pushToken deadline \<longrightarrow> p_deadline p = deadline)"

definition worker_ok :: "int \<Rightarrow> nstore \<Rightarrow> delivery_worker \<Rightarrow> bool" where
  "worker_ok now db w \<longleftrightarrow> held (w_phase w) = None \<or> (\<exists>p. holds_permit now db (w_phase w) p)"

lemma holds_permit_keep:
  assumes h: "holds_permit now db ph p" and k: "permits_keep S later db db'" and "p_id p \<notin> S" "now \<le> later"
  shows "\<exists>p'. holds_permit later db' ph p' \<and> p_id p' = p_id p"
proof -
  from h k obtain p' where "p' \<in> set (permits db')" "p_id p' = p_id p" "p_outbox p' = p_outbox p" "p_deadline p' = p_deadline p"
    "p_state p = PermitSubmissionStarted \<longrightarrow> p_state p' = PermitSubmissionStarted \<or> (p_state p' = PermitFinished \<and> p_deadline p \<le> later)"
    "p_state p = PermitFinished \<longrightarrow> p_state p' = PermitFinished"
    using assms(3) unfolding permits_keep_def holds_permit_def by blast
  with h assms(4) show ?thesis by (intro exI [of _ p']) (auto simp: holds_permit_def)
qed

lemma worker_ok_keep:
  assumes "worker_ok now db w" "permits_keep S later db db'" "now \<le> later"
    and "\<And>c. held (w_phase w) = Some c \<Longrightarrow> c_permitId c \<notin> S"
  shows "worker_ok later db' w"
proof (cases "held (w_phase w)")
  case (Some c)
  with assms(1) obtain p where p: "holds_permit now db (w_phase w) p" by (auto simp: worker_ok_def)
  with Some have "p_id p = c_permitId c" by (simp add: holds_permit_def)
  with holds_permit_keep [OF p assms(2)] assms(3,4) Some show ?thesis by (auto simp: worker_ok_def)
qed (simp add: worker_ok_def)

text \<open>How the store changes in a step, with \<open>S\<close> the permits the step itself ends or starts.\<close>

definition store_step :: "string set \<Rightarrow> int \<Rightarrow> nstore \<Rightarrow> nstore \<Rightarrow> bool" where
  "store_step S now db db' \<longleftrightarrow>
     (store_ok now db \<longrightarrow> store_ok now db') \<and> permits_keep S now db db' \<and>
     (\<forall>k. dispatch_begun k db \<longrightarrow> dispatch_begun k db')"

lemma permits_keep_mono: "permits_keep S now db db' \<Longrightarrow> S \<subseteq> T \<Longrightarrow> permits_keep T now db db'"
  unfolding permits_keep_def by (meson subsetD)

lemma evolves_store_step: "evolves S R now db db' \<Longrightarrow> S \<subseteq> T \<Longrightarrow> store_step T now db db'"
  using evolves_store_ok evolves_permits_keep evolves_begun permits_keep_mono
  unfolding store_step_def by metis

lemma store_step_refl [simp]: "store_step S now db db"
  using evolves_store_step [OF no_change_evolves, of "{}" S] evolves_store_step [of S "{}" now db db S] by simp

lemma marks_store_step: "marks permitId now p db db' \<Longrightarrow> store_step {permitId} now db db'"
  unfolding store_step_def using marks_store_ok marks_permits_keep marks_begun by metis

lemma call_store_step:
  assumes "call connection operation db = (r, db')"
    and "\<And>x db'. operation db = Inr (x, db') \<Longrightarrow> store_step S now db db'"
  shows "store_step S now db db'"
  using assms by (auto simp: call_def split: if_splits sum.splits)

lemma call_Inr: "call connection operation db = (Inr x, db') \<Longrightarrow> operation db = Inr (x, db')"
  by (auto simp: call_def split: if_splits sum.splits)

lemma claim_held:
  assumes "claimNextDispatch worker fence busy permitId now db = Inr (Some c, db')"
  shows "\<exists>p \<in> set (permits db'). p_id p = c_permitId c \<and> p_outbox p = c_outboxId c" "c_permitId c \<notin> p_id ` set (permits db)"
  using assms by (auto simp: claimNextDispatch_def insertPermit_Inr split: option.splits)

lemma authorize_deadline:
  assumes "authorizeProviderFetch permitId fence now db = Inr deadline" "distinct (map p_id (permits db))"
    and "p \<in> set (permits db)" "p_id p = permitId"
  shows "deadline = p_deadline p"
proof -
  from assms(1) obtain q :: permit_row where q: "select_one (\<lambda>p. p_id p = permitId \<and> p_state p = PermitSubmissionStarted \<and> now < p_deadline p) (permits db) = Some q"
    "deadline = p_deadline q"
    by (auto simp: authorizeProviderFetch_def authorizedProviderRow_def split: option.splits if_splits)
  have "q = p" using distinct_same [OF assms(2,3)] select_one_Some [OF q(1)] assms(4) by metis
  with q(2) show ?thesis by simp
qed

lemma catch_store_step:
  assumes "catch_record e marked possible permitId db = Inr (u, db')"
  shows "store_step {permitId} now db db'"
  using assms
  by (auto simp: catch_record_def split: if_splits
      intro: evolves_store_step [OF recordRejected_evolves] evolves_store_step [OF recordUnknown_evolves]
        evolves_store_step [OF abandon_evolves [of _ _ _ _ "{}"]])

lemma answer_store_step:
  "answer_record answer permitId now db = Inr (u, db') \<Longrightarrow> store_step {permitId} now db db'"
  by (auto simp: answer_record_def split: ExpoSendResult.splits
      intro: evolves_store_step [OF recordRejected_evolves] evolves_store_step [OF recordAccepted_evolves])

text \<open>What one step of a worker does, by the phase it is in.\<close>

definition step_ok :: "int \<Rightarrow> delivery_worker \<Rightarrow> nstore \<Rightarrow> worker_output \<Rightarrow> delivery_worker \<Rightarrow> nstore \<Rightarrow> bool" where
  "step_ok now w db out w' db' \<longleftrightarrow>
     store_step (c_permitId ` set_option (held (w_phase w))) now db db' \<and> worker_ok now db' w' \<and>
     (held (w_phase w') = held (w_phase w) \<or> held (w_phase w') = None \<or>
      (\<exists>c. held (w_phase w') = Some c \<and> c_permitId c \<notin> p_id ` set (permits db))) \<and>
     (\<forall>c. unsent (w_phase w') = Some c \<longrightarrow>
        unsent (w_phase w) = Some c \<or> \<not> dispatch_begun (c_outboxId c) db) \<and>
     (\<forall>c m. out = Sent c m \<longrightarrow>
        unsent (w_phase w) = Some c \<and> unsent (w_phase w') = None \<and> db' = db \<and>
        (\<exists>p. holds_permit now db (w_phase w) p \<and> x_providerDeadlineAt m = p_deadline p))"

lemma worker_ok_released [simp]: "held (w_phase w) = None \<Longrightarrow> worker_ok now db w"
  by (simp add: worker_ok_def)

text \<open>A phase that has nothing to send needs only its permit to exist.\<close>

lemma worker_ok_sent:
  assumes "worker_ok now db w" "permits_keep S now db db'" "held (w_phase w') = held (w_phase w)"
    and "unsent (w_phase w') = None"
  shows "worker_ok now db' w'"
proof (cases "held (w_phase w)")
  case (Some c)
  with assms(1) obtain p where p: "p \<in> set (permits db)" "p_id p = c_permitId c" "p_outbox p = c_outboxId c"
    by (auto simp: worker_ok_def holds_permit_def)
  with assms(2) obtain p' where "p' \<in> set (permits db')" "p_id p' = c_permitId c" "p_outbox p' = c_outboxId c"
    unfolding permits_keep_def by metis
  with Some assms(3,4) show ?thesis by (auto simp: worker_ok_def holds_permit_def intro!: exI [of _ p'])
qed (simp add: worker_ok_def assms(3))

lemma claim_step_ok:
  assumes "claim_step inp now w db = (w', db')" "w_phase w = Claiming"
  shows "step_ok now w db Quiet w' db'"
proof -
  from assms obtain r where r: "call (in_connection inp) (claimNextDispatch (w_id w) (in_fence inp) (in_busy inp) (in_permitId inp) now) db = (r, db')"
    "w' = w\<lparr>w_phase := (case r of Inr (Some claim) \<Rightarrow> Claimed claim | _ \<Rightarrow> Resting)\<rparr>"
    by (auto simp: claim_step_def split: prod.splits)
  have step: "store_step {} now db db'"
    by (rule call_store_step [OF r(1)]) (rule evolves_store_step [OF claim_evolves], auto)
  show ?thesis
  proof (cases "\<exists>c. r = Inr (Some c)")
    case True
    then obtain c where c: "r = Inr (Some c)" by blast
    note h = claim_held [OF call_Inr [OF r(1) [unfolded c]]]
    from h(1) have "worker_ok now db' w'" by (auto simp: worker_ok_def holds_permit_def r(2) c)
    with step h(2) assms(2) show ?thesis by (auto simp: step_ok_def r(2) c)
  next
    case False
    then have "w_phase w' = Resting" by (auto simp: r(2) split: sum.splits option.splits)
    with step assms(2) show ?thesis by (simp add: step_ok_def)
  qed
qed

lemma recover_step_ok:
  assumes "start_run inp now w db = (w', db')" "w_phase w = Resting" "store_ok now db"
  shows "step_ok now w db Quiet w' db'"
proof -
  have "store_step {} now db db' \<and> held (w_phase w') = None \<and> unsent (w_phase w') = None"
  proof (cases "now + in_hostAhead inp < w_nextRecoveryAt w")
    case False
    with assms(1) obtain r where r: "call (in_connection inp) (recoverExpiredDispatches (IntN 100) (in_busy inp) now) db = (r, db')"
      "w_phase w' = (case r of Inl e \<Rightarrow> Resting | Inr u \<Rightarrow> Claiming)"
      by (auto simp: start_run_def split: prod.splits)
    have "store_step {} now db db'"
      by (rule call_store_step [OF r(1)])
        (rule evolves_store_step [OF recover_evolves], auto intro: store_okD(1) [OF assms(3)])
    with r(2) show ?thesis by (auto split: sum.splits)
  qed (use assms in \<open>auto simp: start_run_def\<close>)
  with assms(2) show ?thesis by (auto simp: step_ok_def)
qed

lemma mark_step_ok:
  assumes step: "mark_step inp now c w db = (w', db')" and phase: "w_phase w = Claimed c"
    and ok: "store_ok now db" "worker_ok now db w"
  shows "step_ok now w db Quiet w' db'"
proof -
  from step obtain r where r: "call (in_connection inp) (markProviderSubmissionStarted (c_permitId c) now (in_observed inp)) db = (r, db')"
    "w' = w\<lparr>w_phase := (case r of Inl e \<Rightarrow> Failed c e False False | Inr u \<Rightarrow> Marked c)\<rparr>"
    by (auto simp: mark_step_def split: prod.splits)
  have s: "store_step {c_permitId c} now db db'"
    by (rule call_store_step [OF r(1)]) (use mark_marks marks_store_step in blast)
  from ok(2) phase obtain p where p: "p \<in> set (permits db)" "p_id p = c_permitId c" "p_outbox p = c_outboxId c"
    by (auto simp: worker_ok_def holds_permit_def)
  show ?thesis
  proof (cases r)
    case (Inl e)
    with worker_ok_sent [OF ok(2), of "{c_permitId c}" db' w'] s r(2) phase show ?thesis
      by (auto simp: step_ok_def store_step_def)
  next
    case (Inr u)
    then obtain q where q: "marks (c_permitId c) now q db db'" using mark_marks [OF call_Inr [OF r(1) [unfolded Inr]]] by blast
    have "q = p" using q distinct_same [OF store_okD(1) [OF ok(1)] p(1)] p(2) by (auto simp: marks_def)
    with q have m: "marks (c_permitId c) now p db db'" by simp
    then have "p\<lparr>p_state := PermitSubmissionStarted\<rparr> \<in> set (permits db')"
      by (auto simp: marks_def update_where_def)
    with p have "worker_ok now db' w'"
      by (auto simp: worker_ok_def holds_permit_def r(2) Inr intro!: exI [of _ "p\<lparr>p_state := PermitSubmissionStarted\<rparr>"])
    moreover have "\<not> dispatch_begun (c_outboxId c) db"
    proof
      assume "dispatch_begun (c_outboxId c) db"
      then obtain y where "y \<in> set (outbox db)" "o_id y = c_outboxId c" "begun (o_state y)" by (auto simp: dispatch_begun_def)
      moreover from m p(3) obtain x where "x \<in> set (outbox db)" "o_id x = c_outboxId c" "o_state x = OutboxLeased"
        by (auto simp: marks_def)
      ultimately show False using distinct_same [OF store_okD(2) [OF ok(1)], of x y] by (auto simp: begun_def)
    qed
    ultimately show ?thesis using s phase by (auto simp: step_ok_def r(2) Inr)
  qed
qed

lemma read_step_ok:
  assumes "held (w_phase w') = held (w_phase w)" "worker_ok now db w'"
    and "\<And>c. unsent (w_phase w') = Some c \<Longrightarrow> unsent (w_phase w) = Some c"
  shows "step_ok now w db Quiet w' db"
  using assms by (auto simp: step_ok_def)

lemma permits_keep_refl [simp]: "permits_keep S now db db"
  unfolding permits_keep_def by blast

lemma token_step_ok:
  assumes "w_phase w = Marked c" "worker_ok now db w"
  shows "step_ok now w db Quiet (token_step inp now c w db) db"
proof (rule read_step_ok)
  show "held (w_phase (token_step inp now c w db)) = held (w_phase w)"
    using assms by (auto simp: token_step_def split: sum.splits)
  from assms show "worker_ok now db (token_step inp now c w db)"
    by (auto simp: token_step_def worker_ok_def holds_permit_def split: sum.splits)
qed (use assms in \<open>auto simp: token_step_def split: sum.splits\<close>)

lemma authorize_step_ok:
  assumes "w_phase w = HasToken c pushToken" "worker_ok now db w" "store_ok now db"
  shows "step_ok now w db Quiet (authorize_step inp now c pushToken w db) db"
proof (rule read_step_ok)
  show "held (w_phase (authorize_step inp now c pushToken w db)) = held (w_phase w)"
    using assms by (auto simp: authorize_step_def split: sum.splits)
  from assms(1,2) obtain p where p: "holds_permit now db (HasToken c pushToken) p" by (auto simp: worker_ok_def)
  have "deadline = p_deadline p" if "reading (in_connection inp) (authorizeProviderFetch (c_permitId c) (in_fence inp) now db) = Inr deadline" for deadline
    using that p by (intro authorize_deadline [OF _ store_okD(1) [OF assms(3)]])
      (auto simp: reading_def holds_permit_def split: if_splits)
  with p show "worker_ok now db (authorize_step inp now c pushToken w db)"
    by (auto simp: authorize_step_def worker_ok_def holds_permit_def split: sum.splits)
qed (use assms in \<open>auto simp: authorize_step_def split: sum.splits\<close>)

lemma record_step_ok:
  assumes r: "call connection operation db = (r, db')" and held: "held (w_phase w) = Some c"
    and s: "\<And>u db'. operation db = Inr (u, db') \<Longrightarrow> store_step {c_permitId c} now db db'"
    and ok: "worker_ok now db w" and w': "w_phase w' = Resting \<or> (\<exists>e possible. w_phase w' = Failed c e True possible)"
  shows "step_ok now w db Quiet w' db'"
proof -
  have step: "store_step {c_permitId c} now db db'" by (rule call_store_step [OF r s])
  have "worker_ok now db' w'"
    using w' worker_ok_sent [OF ok, of "{c_permitId c}" db' w'] step held by (auto simp: store_step_def)
  with step held w' show ?thesis by (auto simp: step_ok_def)
qed

lemma send_late_ok:
  assumes step: "send_step inp now c pushToken deadline w db = (out, w', db')" and late: "deadline \<le> now + in_hostAhead inp"
    and phase: "w_phase w = Authorized c pushToken deadline" and ok: "worker_ok now db w"
  shows "step_ok now w db out w' db'"
proof -
  from step late obtain r where r: "call (in_connection inp) (recordProviderRejected (c_permitId c) ''provider_deadline_expired'') db = (r, db')"
    "w' = w\<lparr>w_phase := (case r of Inl e \<Rightarrow> Failed c e True False | Inr u \<Rightarrow> Resting)\<rparr>" "out = Quiet"
    by (auto simp: send_step_def split: prod.splits)
  have s: "store_step {c_permitId c} now db db'"
    if "recordProviderRejected (c_permitId c) ''provider_deadline_expired'' db = Inr (u, db')" for u db'
    by (rule evolves_store_step [OF recordRejected_evolves [OF that]]) simp
  have "w_phase w' = Resting \<or> (\<exists>e possible. w_phase w' = Failed c e True possible)"
    by (cases r) (auto simp: r(2))
  then show ?thesis unfolding r(3) by (intro record_step_ok [OF r(1) _ s ok]) (simp add: phase)
qed

lemma send_step_ok:
  assumes step: "send_step inp now c pushToken deadline w db = (out, w', db')"
    and phase: "w_phase w = Authorized c pushToken deadline" and ok: "worker_ok now db w"
  shows "step_ok now w db out w' db'"
proof (cases "deadline \<le> now + in_hostAhead inp")
  case True
  then show ?thesis by (rule send_late_ok [OF step _ phase ok])
next
  case False
  from ok phase obtain p where p: "holds_permit now db (Authorized c pushToken deadline) p" by (auto simp: worker_ok_def)
  then have deadline: "p_deadline p = deadline" by (simp add: holds_permit_def)
  have kept: "worker_ok now db (w\<lparr>w_phase := ph\<rparr>)" if "held ph = Some c" "unsent ph = None" for ph
    using worker_ok_sent [OF ok permits_keep_refl, of "w\<lparr>w_phase := ph\<rparr>"] that phase by simp
  show ?thesis
  proof (cases "sendAllowed (message_of c pushToken deadline) (now + in_requestAhead inp)")
    case (Inl e)
    with False step have *: "out = Quiet" "db' = db" "w' = w\<lparr>w_phase := Failed c e True True\<rparr>" by (simp_all add: send_step_def)
    show ?thesis unfolding * by (rule read_step_ok) (simp_all add: phase kept)
  next
    case (Inr u)
    with False step have *: "out = Sent c (message_of c pushToken deadline)" "db' = db" "w' = w\<lparr>w_phase := Sending c\<rparr>"
      by (simp_all add: send_step_def)
    from p deadline have "\<exists>p. holds_permit now db (w_phase w) p \<and> deadline = p_deadline p" unfolding phase by metis
    with kept [of "Sending c"] phase show ?thesis by (simp add: step_ok_def * message_of_def)
  qed
qed

lemma worker_step_ok:
  assumes step: "worker_step inp now w db = (out, w', db')" and ok: "store_ok now db" "worker_ok now db w"
  shows "step_ok now w db out w' db'"
proof (cases "w_phase w")
  case Resting
  with step recover_step_ok [of inp now w db w' db'] ok show ?thesis by (auto simp: worker_step_def)
next
  case Claiming
  with step claim_step_ok [of inp now w db w' db'] show ?thesis by (auto simp: worker_step_def)
next
  case (Claimed c)
  with step mark_step_ok [of inp now c w db w' db'] ok show ?thesis by (auto simp: worker_step_def)
next
  case (Marked c)
  with step have *: "out = Quiet" "w' = token_step inp now c w db" "db' = db" by (auto simp: worker_step_def)
  show ?thesis unfolding * by (rule token_step_ok [OF Marked ok(2)])
next
  case (HasToken c pushToken)
  with step have *: "out = Quiet" "w' = authorize_step inp now c pushToken w db" "db' = db" by (auto simp: worker_step_def)
  show ?thesis unfolding * by (rule authorize_step_ok [OF HasToken ok(2,1)])
next
  case (Authorized c pushToken deadline)
  with step have "send_step inp now c pushToken deadline w db = (out, w', db')" by (simp add: worker_step_def)
  then show ?thesis by (rule send_step_ok [OF _ Authorized ok(2)])
next
  case (Sending c)
  with step have *: "out = Quiet" "db' = db"
    "w' = w\<lparr>w_phase := (case sendAnswered (in_parse inp) (in_number_text inp) (in_answer inp) of
       Inl e \<Rightarrow> Failed c e True True | Inr answer \<Rightarrow> Answered c answer)\<rparr>"
    by (auto simp: worker_step_def)
  then have h: "held (w_phase w') = held (w_phase w)" "unsent (w_phase w') = None"
    by (simp_all add: Sending split: sum.splits)
  show ?thesis
    unfolding *(1,2) by (rule read_step_ok [OF h(1) worker_ok_sent [OF ok(2) permits_keep_refl h]]) (simp add: h)
next
  case (Answered c answer)
  with step obtain r where r: "call (in_connection inp) (answer_record answer (c_permitId c) now) db = (r, db')" "out = Quiet"
    "w_phase w' = (case r of Inl e \<Rightarrow> Failed c e True True | Inr u \<Rightarrow> Resting)"
    by (auto simp: worker_step_def split: prod.splits)
  show ?thesis
    unfolding r(2)
    by (rule record_step_ok [OF r(1) _ answer_store_step ok(2)]) (auto simp: Answered r(3) split: sum.splits)
next
  case (Failed c e marked possible)
  with step obtain r where r: "call (in_connection inp) (catch_record e marked possible (c_permitId c)) db = (r, db')" "out = Quiet"
    "w_phase w' = Resting"
    by (auto simp: worker_step_def split: prod.splits)
  show ?thesis
    unfolding r(2)
    by (rule record_step_ok [OF r(1) _ catch_store_step ok(2)]) (auto simp: Failed r(3))
qed


section \<open>The service\<close>

definition service_ok :: "delivery_service \<Rightarrow> bool" where
  "service_ok s \<longleftrightarrow>
     store_ok (ds_now s) (ds_store s) \<and> distinct (map fst (ds_workers s)) \<and>
     (\<forall>i w. (i, w) \<in> set (ds_workers s) \<longrightarrow> worker_ok (ds_now s) (ds_store s) w) \<and>
     (\<forall>i w j v c d. (i, w) \<in> set (ds_workers s) \<longrightarrow> (j, v) \<in> set (ds_workers s) \<longrightarrow>
        held (w_phase w) = Some c \<longrightarrow> held (w_phase v) = Some d \<longrightarrow> c_permitId c = c_permitId d \<longrightarrow> i = j)"

lemma service_okD:
  assumes "service_ok s"
  shows "store_ok (ds_now s) (ds_store s)" "distinct (map fst (ds_workers s))"
    "(i, w) \<in> set (ds_workers s) \<Longrightarrow> worker_ok (ds_now s) (ds_store s) w"
    "(i, w) \<in> set (ds_workers s) \<Longrightarrow> (j, v) \<in> set (ds_workers s) \<Longrightarrow> held (w_phase w) = Some c \<Longrightarrow>
       held (w_phase v) = Some d \<Longrightarrow> c_permitId c = c_permitId d \<Longrightarrow> i = j"
  using assms by (auto simp: service_ok_def)

lemma service_ok_later:
  assumes ok: "service_ok s"
  shows "service_ok (s\<lparr>ds_now := ds_now s + int dt\<rparr>)"
proof -
  have "worker_ok (ds_now s + int dt) (ds_store s) w" if "(i, w) \<in> set (ds_workers s)" for i w
    by (rule worker_ok_keep [OF service_okD(3) [OF ok that] permits_keep_refl [of "{}"]]) simp_all
  with ok store_ok_later [OF service_okD(1) [OF ok], of "ds_now s + int dt"] show ?thesis
    by (auto simp: service_ok_def)
qed

lemma in_set_worker:
  "(j, v) \<in> set (set_worker i w ws) \<longleftrightarrow> (j = i \<and> v = w \<and> i \<in> fst ` set ws) \<or> (j \<noteq> i \<and> (j, v) \<in> set ws)"
proof (induction ws)
  case (Cons x ws)
  have "set_worker i w (x # ws) = (if fst x = i then (i, w) else x) # set_worker i w ws"
    by (cases x) (simp add: set_worker_def)
  with Cons show ?case by (cases x) auto
qed (simp add: set_worker_def)

lemma set_worker_ids [simp]: "map fst (set_worker i w ws) = map fst ws"
  by (induction ws) (auto simp: set_worker_def)

lemma one_worker: "distinct (map fst ws) \<Longrightarrow> (i, w) \<in> set ws \<Longrightarrow> (i, v) \<in> set ws \<Longrightarrow> v = w"
  by (induction ws) (auto simp: image_iff)

text \<open>One worker's step leaves the others what they hold.\<close>

lemma service_ok_worker:
  assumes ok: "service_ok s" and w: "(i, w) \<in> set (ds_workers s)"
    and step: "step_ok (ds_now s) w (ds_store s) out w' db'"
  shows "service_ok (s\<lparr>ds_store := db', ds_workers := set_worker i w' (ds_workers s)\<rparr>)"
proof -
  define S where "S = c_permitId ` set_option (held (w_phase w))"
  from step have keep: "permits_keep S (ds_now s) (ds_store s) db'" and st: "store_ok (ds_now s) db'"
    and w': "worker_ok (ds_now s) db' w'"
    using service_okD(1) [OF ok] by (auto simp: step_ok_def store_step_def S_def)
  have others: "worker_ok (ds_now s) db' v" if "(j, v) \<in> set (ds_workers s)" "j \<noteq> i" for j v
    by (rule worker_ok_keep [OF service_okD(3) [OF ok that(1)] keep])
      (use service_okD(4) [OF ok that(1) w] that in \<open>auto simp: S_def\<close>)
  have apart: "c_permitId c \<noteq> c_permitId d"
    if v: "(j, v) \<in> set (ds_workers s)" "j \<noteq> i" and h: "held (w_phase w') = Some c" "held (w_phase v) = Some d" for j v c d
  proof (cases "held (w_phase w) = Some c")
    case True
    with service_okD(4) [OF ok w v(1) _ h(2)] v(2) show ?thesis by blast
  next
    case False
    with step h(1) have "c_permitId c \<notin> p_id ` set (permits (ds_store s))" by (auto simp: step_ok_def)
    moreover from service_okD(3) [OF ok v(1)] h(2) have "c_permitId d \<in> p_id ` set (permits (ds_store s))"
      by (force simp: worker_ok_def holds_permit_def)
    ultimately show ?thesis by metis
  qed
  have "worker_ok (ds_now s) db' v" if "(j, v) \<in> set (set_worker i w' (ds_workers s))" for j v
    using that w' others by (auto simp: in_set_worker)
  moreover have "j = k"
    if m: "(j, v) \<in> set (set_worker i w' (ds_workers s))" "(k, u) \<in> set (set_worker i w' (ds_workers s))"
      and h: "held (w_phase v) = Some c" "held (w_phase u) = Some d" "c_permitId c = c_permitId d" for j v k u c d
  proof (rule ccontr)
    assume "j \<noteq> k"
    with m consider "v = w'" "j = i" "(k, u) \<in> set (ds_workers s)" "k \<noteq> i"
      | "u = w'" "k = i" "(j, v) \<in> set (ds_workers s)" "j \<noteq> i"
      | "(j, v) \<in> set (ds_workers s)" "(k, u) \<in> set (ds_workers s)"
      by (auto simp: in_set_worker)
    then show False
    proof cases
      case 1
      with apart [of k u c d] h show False by simp
    next
      case 2
      with apart [of j v d c] h show False by simp
    next
      case 3
      with service_okD(4) [OF ok 3 h] \<open>j \<noteq> k\<close> show False by simp
    qed
  qed
  ultimately show ?thesis using st service_okD(2) [OF ok] unfolding service_ok_def by simp
qed

lemma service_ok_store:
  assumes ok: "service_ok s" and "store_step {} (ds_now s) (ds_store s) db'"
  shows "service_ok (s\<lparr>ds_store := db'\<rparr>)"
proof -
  from assms have keep: "permits_keep {} (ds_now s) (ds_store s) db'" and "store_ok (ds_now s) db'"
    using service_okD(1) [OF ok] by (auto simp: store_step_def)
  moreover have "worker_ok (ds_now s) db' w" if "(i, w) \<in> set (ds_workers s)" for i w
    by (rule worker_ok_keep [OF service_okD(3) [OF ok that] keep]) simp_all
  ultimately show ?thesis using ok by (auto simp: service_ok_def)
qed

lemma service_ok_crash:
  assumes ok: "service_ok s"
  shows "service_ok (s\<lparr>ds_workers := map (\<lambda>(j, v). if j = i then (j, v\<lparr>w_phase := Resting, w_nextRecoveryAt := 0\<rparr>) else (j, v))
    (ds_workers s)\<rparr>)"
proof -
  have "map fst (map (\<lambda>(j, v). if j = i then (j, v\<lparr>w_phase := Resting, w_nextRecoveryAt := 0\<rparr>) else (j, v)) ws) = map fst ws" for ws :: "(string \<times> delivery_worker) list"
    by (induction ws) auto
  with ok show ?thesis unfolding service_ok_def by (auto simp del: map_map split: if_splits)
qed

text \<open>A request for recovery changes no worker's phase.\<close>

lemma service_ok_request:
  assumes ok: "service_ok s"
  shows "service_ok (s\<lparr>ds_workers := map (\<lambda>(j, v). if j = i then (j, requestRecovery v) else (j, v)) (ds_workers s)\<rparr>)"
proof -
  have "map fst (map (\<lambda>(j, v). if j = i then (j, requestRecovery v) else (j, v)) ws) = map fst ws" for ws
    by (induction ws) auto
  moreover have "worker_ok now db (requestRecovery v) = worker_ok now db v" for now db v
    by (simp add: worker_ok_def requestRecovery_def)
  ultimately show ?thesis
    using ok unfolding service_ok_def by (auto simp del: map_map simp: requestRecovery_def split: if_splits)
qed

definition sent_out :: "delivery_service \<Rightarrow> string \<Rightarrow> bool" where
  "sent_out s k \<longleftrightarrow>
     dispatch_begun k (ds_store s) \<and>
     (\<forall>i w c. (i, w) \<in> set (ds_workers s) \<longrightarrow> unsent (w_phase w) = Some c \<longrightarrow> c_outboxId c \<noteq> k)"

definition sent_stays :: "delivery_service \<Rightarrow> delivery_service \<Rightarrow> bool" where
  "sent_stays s t \<longleftrightarrow> (\<forall>k. sent_out s k \<longrightarrow> sent_out t k)"

fun sent_dispatch :: "service_output \<Rightarrow> string option" where
  "sent_dispatch (SentByWorker c m) = Some (c_outboxId c)"
| "sent_dispatch _ = None"


lemma sent_stays_refl [simp]: "sent_stays s s"
  by (simp add: sent_stays_def)

text \<open>Each event keeps the service in order, and what it hands to the provider was not handed over before.\<close>

definition event_ok :: "delivery_service \<Rightarrow> service_output \<Rightarrow> delivery_service \<Rightarrow> bool" where
  "event_ok s out t \<longleftrightarrow>
     service_ok t \<and> sent_stays s t \<and>
     (\<forall>k. sent_dispatch out = Some k \<longrightarrow> \<not> sent_out s k \<and> sent_out t k)"

lemma worker_event_ok:
  assumes ok: "service_ok s" and w: "(i, w) \<in> set (ds_workers s)"
    and step: "step_ok (ds_now s) w (ds_store s) out w' db'"
  shows "event_ok s (case out of Quiet \<Rightarrow> NoOutput | Sent claim m \<Rightarrow> SentByWorker claim m)
    (s\<lparr>ds_store := db', ds_workers := set_worker i w' (ds_workers s)\<rparr>)"
proof -
  let ?t = "s\<lparr>ds_store := db', ds_workers := set_worker i w' (ds_workers s)\<rparr>"
  have begun: "dispatch_begun k (ds_store s) \<Longrightarrow> dispatch_begun k db'" for k
    using step by (auto simp: step_ok_def store_step_def)
  have "sent_out ?t k" if k: "sent_out s k" for k
    unfolding sent_out_def
  proof (intro conjI allI impI)
    show "dispatch_begun k (ds_store ?t)" using k begun by (simp add: sent_out_def)
    fix j v c assume "(j, v) \<in> set (ds_workers ?t)" "unsent (w_phase v) = Some c"
    then consider "v = w'" "unsent (w_phase w') = Some c" | "(j, v) \<in> set (ds_workers s)" "unsent (w_phase v) = Some c"
      by (auto simp: in_set_worker)
    then show "c_outboxId c \<noteq> k"
    proof cases
      case 1
      with step have "unsent (w_phase w) = Some c \<or> \<not> dispatch_begun (c_outboxId c) (ds_store s)" by (auto simp: step_ok_def)
      with k w show ?thesis by (auto simp: sent_out_def)
    qed (use k in \<open>auto simp: sent_out_def\<close>)
  qed
  moreover have "\<not> sent_out s (c_outboxId c) \<and> sent_out ?t (c_outboxId c)" if out: "out = Sent c m" for c m
  proof
    from step out obtain p where mine: "unsent (w_phase w) = Some c" "unsent (w_phase w') = None" "db' = ds_store s"
      and "holds_permit (ds_now s) (ds_store s) (w_phase w) p"
      unfolding step_ok_def by blast
    then have p: "p \<in> set (permits (ds_store s))" "p_id p = c_permitId c" "p_outbox p = c_outboxId c" "permit_begun (p_state p)"
      using unsent_held [OF mine(1)] by (auto simp: holds_permit_def permit_begun_def)
    from mine(1) w show "\<not> sent_out s (c_outboxId c)" by (auto simp: sent_out_def)
    have b: "dispatch_begun (c_outboxId c) (ds_store s)"
      using store_okD(3) [OF service_okD(1) [OF ok] p(1)] p by (auto simp: dispatch_begun_def)
    have "c_outboxId d \<noteq> c_outboxId c" if v: "(j, v) \<in> set (ds_workers s)" "j \<noteq> i" "unsent (w_phase v) = Some d" for j v d
    proof
      assume same: "c_outboxId d = c_outboxId c"
      note hd = unsent_held [OF v(3)]
      from service_okD(3) [OF ok v(1)] hd obtain q where "holds_permit (ds_now s) (ds_store s) (w_phase v) q"
        by (auto simp: worker_ok_def)
      with v(3) hd have q: "q \<in> set (permits (ds_store s))" "p_id q = c_permitId d" "p_outbox q = c_outboxId d" "permit_begun (p_state q)"
        by (auto simp: holds_permit_def permit_begun_def)
      have "q = p"
        using store_okD(4) [OF service_okD(1) [OF ok] q(1) p(1) q(4)] p q(3) same by simp
      with service_okD(4) [OF ok v(1) w hd unsent_held [OF mine(1)]] p q v(2) show False by simp
    qed
    with b mine show "sent_out ?t (c_outboxId c)" by (auto simp: sent_out_def in_set_worker)
  qed
  ultimately show ?thesis
    using service_ok_worker [OF ok w step] by (auto simp: event_ok_def sent_stays_def split: worker_output.splits)
qed

lemma event_ok_later:
  assumes "event_ok (s\<lparr>ds_now := ds_now s + int dt\<rparr>) out t"
  shows "event_ok s out t"
  using assms by (simp add: event_ok_def sent_stays_def sent_out_def)

lemma operate_store_step:
  assumes "operate operation now db = Inr (answer, db')" "store_ok now db"
  shows "store_step {} now db db'"
  using operate_evolves [OF assms(1) store_okD(1) [OF assms(2)], of "{}"] evolves_store_step by blast

lemma service_event_ok:
  assumes ok: "service_ok s" and step: "service_step (dt, ev) s = (out, t)"
  shows "event_ok s out t"
proof (rule event_ok_later [where dt = dt])
  let ?s = "s\<lparr>ds_now := ds_now s + int dt\<rparr>"
  note later = service_ok_later [OF ok, of dt]
  show "event_ok ?s out t"
  proof (cases ev)
    case (WorkerStep i inp)
    show ?thesis
    proof (cases "map_of (ds_workers s) i")
      case None
      with step WorkerStep later show ?thesis by (auto simp: event_ok_def)
    next
      case (Some w)
      obtain o' w' db' where r: "worker_step inp (ds_now ?s) w (ds_store ?s) = (o', w', db')" by (cases "worker_step inp (ds_now ?s) w (ds_store ?s)") auto
      have w: "(i, w) \<in> set (ds_workers ?s)" using map_of_SomeD [OF Some] by simp
      note st = worker_step_ok [OF r service_okD(1) [OF later] service_okD(3) [OF later w]]
      from step WorkerStep Some r have "out = (case o' of Quiet \<Rightarrow> NoOutput | Sent claim m \<Rightarrow> SentByWorker claim m)"
        "t = ?s\<lparr>ds_store := db', ds_workers := set_worker i w' (ds_workers ?s)\<rparr>"
        by (auto simp: Let_def)
      then show ?thesis using worker_event_ok [OF later w st] by simp
    qed
  next
    case (WorkerCrash i)
    from step WorkerCrash have t: "out = NoOutput" "t = ?s\<lparr>ds_workers := map (\<lambda>(j, v). if j = i then (j, v\<lparr>w_phase := Resting, w_nextRecoveryAt := 0\<rparr>) else (j, v))
        (ds_workers ?s)\<rparr>"
      by auto
    have earlier: "\<exists>v. (j, v) \<in> set (ds_workers ?s) \<and> unsent (w_phase v) = Some c"
      if "(j, w) \<in> set (ds_workers t)" "unsent (w_phase w) = Some c" for j w c
      using that by (auto simp: t split: if_splits)
    have "sent_stays ?s t" using earlier by (simp add: sent_stays_def sent_out_def t) blast
    with service_ok_crash [OF later, of i] show ?thesis by (simp add: event_ok_def t)
  next
    case (RequestRecovery i)
    with step have t: "out = NoOutput" "t = ?s\<lparr>ds_workers :=
        map (\<lambda>(j, v). if j = i then (j, requestRecovery v) else (j, v)) (ds_workers ?s)\<rparr>"
      by auto
    have earlier: "\<exists>v. (j, v) \<in> set (ds_workers ?s) \<and> unsent (w_phase v) = Some c"
      if "(j, w) \<in> set (ds_workers t)" "unsent (w_phase w) = Some c" for j w c
      using that by (auto simp: t requestRecovery_def split: if_splits)
    have "sent_stays ?s t" using earlier by (simp add: sent_stays_def sent_out_def t) blast
    with service_ok_request [OF later, of i] show ?thesis by (simp add: event_ok_def t)
  next
    case (Operation connection operation)
    with step obtain r db' where r: "call connection (operate operation (ds_now ?s)) (ds_store ?s) = (r, db')"
      and t: "t = ?s\<lparr>ds_store := db'\<rparr>" "sent_dispatch out = None"
      by (auto simp: Let_def split: prod.splits sum.splits)
    have st: "store_step {} (ds_now ?s) (ds_store ?s) db'"
      by (rule call_store_step [OF r]) (rule operate_store_step [OF _ service_okD(1) [OF later]])
    then have "sent_stays ?s t" by (auto simp: t sent_stays_def sent_out_def store_step_def)
    with service_ok_store [OF later st] show ?thesis by (simp add: event_ok_def t)
  qed
qed


section \<open>Whole runs\<close>

interpretation dispatches: once_only service_step service_ok "\<lambda>ev. True" sent_stays sent_out sent_dispatch
proof
  fix s t u :: delivery_service
  show "sent_stays s t \<Longrightarrow> sent_stays t u \<Longrightarrow> sent_stays s u" by (simp add: sent_stays_def)
  show "service_ok s \<Longrightarrow> sent_stays s s" by simp
  fix k show "sent_stays s t \<Longrightarrow> sent_out s k \<Longrightarrow> sent_out t k" by (simp add: sent_stays_def)
next
  fix s t :: delivery_service and ev :: "nat \<times> service_event" and out
  assume "service_ok s" "service_step ev s = (out, t)"
  then have "event_ok s out t" using service_event_ok by (cases ev) blast
  then show "service_ok t \<and> sent_stays s t"
    and "\<And>k. sent_dispatch out = Some k \<Longrightarrow> \<not> sent_out s k \<and> sent_out t k"
    by (simp_all add: event_ok_def)
qed

lemma sent_outputs:
  "filter (\<lambda>out. sent_dispatch out = Some k) outs = filter (\<lambda>out. \<exists>c m. out = SentByWorker c m \<and> c_outboxId c = k) outs"
  by (rule filter_cong) (auto elim: sent_dispatch.elims)

text \<open>
  C10. Over every run of the delivery service, with its workers interleaved, crashing and losing connections,
  and with every other operation on the store among their steps, a dispatch is handed to the provider at
  most once.
\<close>

theorem alert_is_sent_at_most_once:
  assumes "service_ok s" "run_all service_step events s = (outs, t)"
  shows "length (filter (\<lambda>out. \<exists>c m. out = SentByWorker c m \<and> c_outboxId c = k) outs) \<le> 1"
  using dispatches.grants_bounded [OF assms(1) _ assms(2), of k]
  by (auto simp: sent_outputs list_all_iff split: if_splits)

text \<open>What a worker hands over is in time by the two readings of its host's clock.\<close>

lemma sent_in_time:
  assumes "worker_step inp now w db = (Sent c m, w', db')"
  shows "now + in_hostAhead inp < x_providerDeadlineAt m" "now + in_requestAhead inp < x_providerDeadlineAt m"
  using assms sendAllowed_deadline
  by (auto simp: worker_step_def send_step_def message_of_def split: worker_phase.splits prod.splits if_splits sum.splits)

lemma sent_step:
  assumes ok: "service_ok s" and step: "service_step (dt, ev) s = (SentByWorker c m, t)"
  shows "\<exists>i inp. ev = WorkerStep i inp \<and> (\<exists>p \<in> set (permits (ds_store t)).
     p_id p = c_permitId c \<and> p_outbox p = c_outboxId c \<and>
     (p_state p = PermitSubmissionStarted \<or> p_deadline p \<le> ds_now t) \<and> x_providerDeadlineAt m = p_deadline p \<and>
     ds_now t + in_hostAhead inp < p_deadline p \<and> ds_now t + in_requestAhead inp < p_deadline p)"
proof -
  let ?s = "s\<lparr>ds_now := ds_now s + int dt\<rparr>"
  from step obtain i inp w w' db' where ev: "ev = WorkerStep i inp" and w: "map_of (ds_workers s) i = Some w"
    and r: "worker_step inp (ds_now ?s) w (ds_store ?s) = (Sent c m, w', db')"
    and t: "ds_store t = db'" "ds_now t = ds_now ?s"
    by (cases ev) (auto simp: Let_def split: option.splits prod.splits sum.splits worker_output.splits)
  note later = service_ok_later [OF ok, of dt]
  have "(i, w) \<in> set (ds_workers ?s)" using map_of_SomeD [OF w] by simp
  from worker_step_ok [OF r service_okD(1) [OF later] service_okD(3) [OF later this]]
  obtain p where u: "db' = ds_store ?s" "unsent (w_phase w) = Some c" "x_providerDeadlineAt m = p_deadline p"
    and "holds_permit (ds_now ?s) (ds_store ?s) (w_phase w) p"
    unfolding step_ok_def by blast
  then have "p \<in> set (permits (ds_store t))" "p_id p = c_permitId c" "p_outbox p = c_outboxId c"
    "p_state p = PermitSubmissionStarted \<or> p_deadline p \<le> ds_now t"
    using unsent_held [OF u(2)] t by (auto simp: holds_permit_def)
  with u(3) sent_in_time [OF r] t(2) ev show ?thesis by auto
qed

text \<open>
  C11. Whenever an alert is handed to the provider, a permit covers it and its deadline is the one that the
  message carries. Either that deadline has not passed, the permit's submission has started and the
  installation has not been revoked; or the deadline has passed on the database's clock and the clock of the
  worker's host, at both of its readings, is behind by more than the time since then.
\<close>

theorem alert_leaves_late_only_by_a_lagging_clock:
  assumes "service_ok s" "run_all service_step events s = (outs, t)"
    and "service_step ev t = (SentByWorker c m, u)"
  shows "\<exists>p \<in> set (permits (ds_store u)). p_id p = c_permitId c \<and> p_outbox p = c_outboxId c \<and>
      x_providerDeadlineAt m = p_deadline p \<and>
      ((ds_now u < p_deadline p \<and> p_state p = PermitSubmissionStarted \<and>
        (\<exists>i \<in> set (installations (ds_store u)). i_id i = p_installation p \<and> i_state i \<noteq> ScopeInactive)) \<or>
       (p_deadline p \<le> ds_now u \<and>
        (\<exists>j inp. snd ev = WorkerStep j inp \<and> in_hostAhead inp < p_deadline p - ds_now u \<and>
           in_requestAhead inp < p_deadline p - ds_now u)))"
proof -
  have ok: "service_ok t" using dispatches.run_rel [OF assms(1) _ assms(2)] by (simp add: list_all_iff)
  obtain dt e where ev: "ev = (dt, e)" by (cases ev)
  from sent_step [OF ok assms(3) [unfolded ev]] obtain j inp p where e: "e = WorkerStep j inp"
    and p: "p \<in> set (permits (ds_store u))" "p_id p = c_permitId c" "p_outbox p = c_outboxId c"
    "p_state p = PermitSubmissionStarted \<or> p_deadline p \<le> ds_now u" "x_providerDeadlineAt m = p_deadline p"
    "ds_now u + in_hostAhead inp < p_deadline p" "ds_now u + in_requestAhead inp < p_deadline p"
    by blast
  from service_event_ok [OF ok assms(3) [unfolded ev]] have "service_ok u" by (simp add: event_ok_def)
  note alive = store_okD(5) [OF service_okD(1) [OF this] p(1)]
  show ?thesis
  proof (cases "ds_now u < p_deadline p")
    case True
    with p(4) alive have "p_state p = PermitSubmissionStarted"
      "\<exists>i \<in> set (installations (ds_store u)). i_id i = p_installation p \<and> i_state i \<noteq> ScopeInactive" by auto
    with p True show ?thesis by blast
  next
    case False
    with p e ev show ?thesis by (intro bexI [OF _ p(1)]) auto
  qed
qed


section \<open>A sample service\<close>

definition sample_hex :: string where
  "sample_hex = replicate 32 CHR ''a''"

definition sample_token :: string where
  "sample_token = token_prefix @ ''abc'' @ [CHR 93]"

definition sample_store :: nstore where
  "sample_store =
     \<lparr>installations = [\<lparr>i_id = ''phone'', i_state = ScopeActive, i_generation = 1, i_credential_hash = Some ''h'', i_key_version = ''1''\<rparr>],
      tokens = [\<lparr>k_id = ''token'', k_installation = ''phone'', k_active = True, k_encrypted = ''x''\<rparr>],
      links = [], rules = [],
      alerts = [\<lparr>a_id = sample_hex, a_installation = ''phone'', a_link = None, a_scope = None, a_rule = None,
                 a_category = PriceAlert, a_network = Testnet, a_route = ''trade'', a_deletion = None\<rparr>],
      outbox = [\<lparr>o_id = ''row'', o_alert = sample_hex, o_installation = ''phone'', o_link = None, o_scope = None,
                 o_link_generation = None, o_network = Testnet, o_generation = 1, o_state = OutboxPending,
                 o_lease_owner = None, o_lease_expires = None, o_created = 0, o_attempts = 0, o_error = None,
                 o_deletion = None\<rparr>],
      permits = [], tickets = [], receipts = [],
      leases = [\<lparr>e_key = NOTIFICATION_EGRESS_LEASE_KEY, e_owner = ''host'', e_generation = 1, e_expires = 900000\<rparr>],
      dedupe = [], operations = [], tombstones = [], schema_contracted = True, restore_ready = True,
      mutations_enabled = True, monitors_enabled = True, delivery_enabled = True\<rparr>"

definition sample_service :: delivery_service where
  "sample_service =
     \<lparr>ds_store = sample_store, ds_now = 1000,
      ds_workers = [(''a'', \<lparr>w_id = ''a'', w_phase = Resting, w_nextRecoveryAt = 0\<rparr>),
                    (''b'', \<lparr>w_id = ''b'', w_phase = Resting, w_nextRecoveryAt = 0\<rparr>)]\<rparr>"

definition sample_input :: worker_input where
  "sample_input =
     \<lparr>in_fence = \<lparr>f_leaseKey = NOTIFICATION_EGRESS_LEASE_KEY, f_ownerId = ''host'', f_generation = IntN 1\<rparr>,
      in_connection = CallAnswers, in_busy = (\<lambda>_. False), in_permitId = sample_hex,
      in_observed =
        sample_store\<lparr>permits :=
          [\<lparr>p_id = sample_hex, p_outbox = ''row'', p_installation = ''phone'', p_link = None, p_scope = None,
            p_link_generation = None, p_network = Testnet, p_generation = 1, p_state = PermitActive,
            p_expires = 31002, p_deadline = 11002, p_deletion = None\<rparr>]\<rparr>,
      in_decrypt = (\<lambda>_. Inr sample_token), in_answer = None, in_parse = (\<lambda>_. None), in_number_text = (\<lambda>_. []),
      in_hostAhead = 0, in_requestAhead = 0\<rparr>"

text \<open>One worker claims the dispatch and is about to send it, while the other finds nothing to do.\<close>

definition sample_deliveries :: "(nat \<times> service_event) list" where
  "sample_deliveries =
     [(1, WorkerStep ''a'' sample_input), (1, WorkerStep ''a'' sample_input), (1, WorkerStep ''b'' sample_input),
      (1, WorkerStep ''b'' sample_input), (1, WorkerStep ''a'' sample_input), (1, WorkerStep ''a'' sample_input),
      (1, WorkerStep ''a'' sample_input)]"

text \<open>It is sent, its answer is lost with the worker, and nobody sends it again.\<close>

definition sample_aftermath :: "(nat \<times> service_event) list" where
  "sample_aftermath =
     [(1, WorkerStep ''a'' sample_input), (1, WorkerCrash ''a''), (1, WorkerStep ''b'' sample_input),
      (1, WorkerStep ''b'' sample_input), (1, WorkerStep ''a'' sample_input), (1, WorkerStep ''a'' sample_input)]"

lemma sample_service_ok: "service_ok sample_service"
  by (simp add: service_ok_def sample_service_def sample_store_def store_ok_def)


definition sample_claim :: DeliveryClaim where
  "sample_claim =
     \<lparr>c_permitId = sample_hex, c_outboxId = ''row'', c_alertId = sample_hex, c_category = PriceAlert,
      c_network = Testnet, c_routeHint = ''trade'', c_providerDeadlineAt = 11002\<rparr>"

lemma sample_run:
  "fst (run_all service_step (sample_deliveries @ sample_aftermath) sample_service) =
     replicate 7 NoOutput @ [SentByWorker sample_claim (message_of sample_claim sample_token 11002)] @ replicate 5 NoOutput"
  by code_simp

theorem alert_is_sent_at_most_once_witness:
  "\<exists>outs t. run_all service_step (sample_deliveries @ sample_aftermath) sample_service = (outs, t) \<and>
     SentByWorker sample_claim (message_of sample_claim sample_token 11002) \<in> set outs \<and>
     length (filter (\<lambda>out. \<exists>c m. out = SentByWorker c m \<and> c_outboxId c = ''row'') outs) \<le> 1"
proof -
  obtain outs t where run: "run_all service_step (sample_deliveries @ sample_aftermath) sample_service = (outs, t)"
    by fastforce
  with sample_run have "SentByWorker sample_claim (message_of sample_claim sample_token 11002) \<in> set outs" by simp
  with run alert_is_sent_at_most_once [OF sample_service_ok run, of "''row''"] show ?thesis by blast
qed

lemma sample_send:
  "case run_all service_step sample_deliveries sample_service of
     (outs, t) \<Rightarrow> fst (service_step (1, WorkerStep ''a'' sample_input) t) =
       SentByWorker sample_claim (message_of sample_claim sample_token 11002)"
  by code_simp

theorem alert_leaves_late_only_by_a_lagging_clock_witness:
  "\<exists>outs t u. run_all service_step sample_deliveries sample_service = (outs, t) \<and>
     service_step (1, WorkerStep ''a'' sample_input) t =
       (SentByWorker sample_claim (message_of sample_claim sample_token 11002), u) \<and>
     (\<exists>p \<in> set (permits (ds_store u)). p_id p = sample_hex \<and> p_state p = PermitSubmissionStarted \<and>
        ds_now u < p_deadline p \<and>
        (\<exists>i \<in> set (installations (ds_store u)). i_id i = p_installation p \<and> i_state i \<noteq> ScopeInactive))"
proof -
  obtain outs t where run: "run_all service_step sample_deliveries sample_service = (outs, t)" by fastforce
  with sample_send obtain u where send: "service_step (1, WorkerStep ''a'' sample_input) t =
      (SentByWorker sample_claim (message_of sample_claim sample_token 11002), u)"
    by (cases "service_step (1, WorkerStep ''a'' sample_input) t") simp
  from alert_leaves_late_only_by_a_lagging_clock [OF sample_service_ok run send] run send show ?thesis
    by (intro exI conjI) (auto simp: sample_claim_def message_of_def sample_input_def)
qed

text \<open>
  A clock that lags is enough: the deadline passes, the revocation of the installation commits, and then the
  alert leaves, since its worker and its client still take the deadline to be ahead.
\<close>

definition sample_revocation :: "(nat \<times> service_event) list" where
  "sample_revocation =
     [(1, Operation CallAnswers (StartInstallationDrain ''phone'' ''h'' sample_hex)),
      (20000, Operation CallAnswers (CommitInstallation sample_hex 0
         (sample_store\<lparr>operations :=
            [\<lparr>v_id = sample_hex, v_deletion = installation_deletion ''phone'' 2, v_kind = InstallationScope,
              v_scope = ''phone'', v_committed = False, v_sequence = None\<rparr>]\<rparr>)
         (\<lambda>deletion scope generation key. Inr (Some
            \<lparr>d_deletion = deletion, d_kind = InstallationScope, d_mac = [], d_generation = generation, d_sequence = 1,
             d_head = 1, d_key_version = key\<rparr>))))]"

lemma lagging_worker_sends_after_the_revocation:
  "case run_all service_step (sample_deliveries @ sample_revocation) sample_service of
     (outs, t) \<Rightarrow>
       OperationAnswer (InstallationRevoked ''phone'') \<in> set outs \<and>
       map i_state (installations (ds_store t)) = [ScopeInactive] \<and>
       fst (service_step (1, WorkerStep ''a'' (sample_input\<lparr>in_hostAhead := - 20000, in_requestAhead := - 20000\<rparr>)) t) =
         SentByWorker sample_claim (message_of sample_claim sample_token 11002)"
  by code_simp

section \<open>Alerts\<close>

text \<open>The keys of the events that were reported, and how many alerts and outbox rows there are.\<close>

definition raised :: "nstore \<Rightarrow> string list \<times> nat \<times> nat" where
  "raised db = (dedupe db, length (alerts db), length (outbox db))"

lemma length_update_where [simp]: "length (update_where P f rows) = length rows"
  by (simp add: update_where_def)

lemma deletions_raised [simp]:
  "dedupe (deleteRules P db) = dedupe db" "dedupe (deleteTokens Q db) = dedupe db" "dedupe (deleteLinks R db) = dedupe db"
  "length (alerts (deleteRules P db)) = length (alerts db)" "length (alerts (deleteTokens Q db)) = length (alerts db)"
  "length (alerts (deleteLinks R db)) = length (alerts db)" "length (outbox (deleteRules P db)) = length (outbox db)"
  "length (outbox (deleteTokens Q db)) = length (outbox db)" "length (outbox (deleteLinks R db)) = length (outbox db)"
  by (simp_all add: deleteRules_def deleteTokens_def deleteLinks_def Let_def)

lemma fences_raised [simp]:
  "dedupe (fenceInstallationDispatchWork i d f now db) = dedupe db"
  "dedupe (fenceAccountLinkDispatchWork l d f now db) = dedupe db"
  "length (alerts (fenceInstallationDispatchWork i d f now db)) = length (alerts db)"
  "length (alerts (fenceAccountLinkDispatchWork l d f now db)) = length (alerts db)"
  "length (outbox (fenceInstallationDispatchWork i d f now db)) = length (outbox db)"
  "length (outbox (fenceAccountLinkDispatchWork l d f now db)) = length (outbox db)"
  by (simp_all add: Let_def fenceInstallationDispatchWork_def fenceAccountLinkDispatchWork_def)

lemma recovery_raised [simp]:
  "raised (finish_late n busy now db) = raised db" "raised (settle_late now db) = raised db"
  "raised (expire_stale n busy now db) = raised db" "raised (release_stale now db) = raised db"
  by (simp_all add: raised_def finish_late_def settle_late_def expire_stale_def release_stale_def Let_def)

lemma recovery_parts [simp]:
  "dedupe (finish_late n busy now db) = dedupe db" "dedupe (settle_late now db) = dedupe db"
  "dedupe (expire_stale n busy now db) = dedupe db" "dedupe (release_stale now db) = dedupe db"
  "length (alerts (finish_late n busy now db)) = length (alerts db)" "length (alerts (settle_late now db)) = length (alerts db)"
  "length (alerts (expire_stale n busy now db)) = length (alerts db)" "length (alerts (release_stale now db)) = length (alerts db)"
  "length (outbox (finish_late n busy now db)) = length (outbox db)" "length (outbox (settle_late now db)) = length (outbox db)"
  "length (outbox (expire_stale n busy now db)) = length (outbox db)" "length (outbox (release_stale now db)) = length (outbox db)"
  by (simp_all add: finish_late_def settle_late_def expire_stale_def release_stale_def Let_def)

lemma parts_raised:
  "insertPermit p db = Inr db' \<Longrightarrow> raised db' = raised db"
  "insertOperation v d k s db = Inr db' \<Longrightarrow> raised db' = raised db"
  "recordDeletionTombstone x db = Inr db' \<Longrightarrow> raised db' = raised db"
  "commitOperation v n db = Inr db' \<Longrightarrow> raised db' = raised db"
  "finishDispatch b permitId final db = Inr (r, db') \<Longrightarrow> raised db' = raised db"
  by (auto simp: raised_def insertPermit_def insertOperation_def recordDeletionTombstone_def commitOperation_def finishDispatch_def Let_def
      split: option.splits if_splits)


lemma records_raised:
  "recordProviderAccepted permitId ticketId now db = Inr (r, db') \<Longrightarrow> raised db' = raised db"
  "recordProviderRejected permitId errorCode db = Inr (r, db') \<Longrightarrow> raised db' = raised db"
  "recordProviderOutcomeUnknown permitId db = Inr (r, db') \<Longrightarrow> raised db' = raised db"
  "abandonUnstartedDispatch permitId db = Inr (r, db') \<Longrightarrow> raised db' = raised db"
  by (auto simp: raised_def recordProviderAccepted_def recordProviderRejected_def recordProviderOutcomeUnknown_def finishDispatchPermit_def
      finishDispatchInTransaction_def abandonUnstartedDispatch_def split: option.splits if_splits dest!: parts_raised)

lemma mark_raised: "markProviderSubmissionStarted permitId now seen db = Inr (r, db') \<Longrightarrow> raised db' = raised db"
  by (auto simp: raised_def markProviderSubmissionStarted_def Let_def split: option.splits if_splits)

lemma worker_call_raised:
  "recoverExpiredDispatches limit busy now db = Inr (r, db') \<Longrightarrow> raised db' = raised db"
  "claimNextDispatch worker fence busy permitId now db = Inr (c, db') \<Longrightarrow> raised db' = raised db"
  "catch_record e marked possible permitId db = Inr (r, db') \<Longrightarrow> raised db' = raised db"
  "answer_record answer permitId now db = Inr (r, db') \<Longrightarrow> raised db' = raised db"
  by (auto simp: raised_def recoverExpiredDispatches_def claimNextDispatch_def catch_record_def answer_record_def
      split: option.splits if_splits ExpoSendResult.splits dest: records_raised parts_raised)

lemma call_raised:
  assumes "call connection operation db = (r, db')" "\<And>x db'. operation db = Inr (x, db') \<Longrightarrow> raised db' = raised db"
  shows "raised db' = raised db"
  using assms by (auto simp: raised_def call_def split: if_splits sum.splits)

lemma calls_raised:
  "call c (recoverExpiredDispatches limit busy now) db = (r1, db') \<Longrightarrow> raised db' = raised db"
  "call c (claimNextDispatch worker fence busy permitId now) db = (r2, db') \<Longrightarrow> raised db' = raised db"
  "call c (markProviderSubmissionStarted permitId now seen) db = (r3, db') \<Longrightarrow> raised db' = raised db"
  "call c (recordProviderRejected permitId errorCode) db = (r4, db') \<Longrightarrow> raised db' = raised db"
  "call c (answer_record answer permitId now) db = (r5, db') \<Longrightarrow> raised db' = raised db"
  "call c (catch_record e marked possible permitId) db = (r6, db') \<Longrightarrow> raised db' = raised db"
  by (erule call_raised, erule worker_call_raised mark_raised records_raised)+

lemma worker_raised: "worker_step inp now w db = (out, w', db') \<Longrightarrow> raised db' = raised db"
  by (auto simp: raised_def worker_step_def start_run_def claim_step_def mark_step_def send_step_def
      split: worker_phase.splits if_splits prod.splits sum.splits dest: calls_raised)

text \<open>The event that an operation reports.\<close>

fun reported_event :: "store_operation \<Rightarrow> string option" where
  "reported_event (CreateAlert input alertId outboxId) = Some (n_eventKey input)"
| "reported_event _ = None"

text \<open>
  Only the report of an event adds alerts, only if its key has not been recorded, and then it adds one alert
  and one outbox row and records the key.
\<close>

definition alert_step :: "string option \<Rightarrow> nstore \<Rightarrow> nstore \<Rightarrow> bool" where
  "alert_step reported db db' \<longleftrightarrow>
     raised db' = raised db \<or>
     (\<exists>k. reported = Some k \<and> k \<notin> set (dedupe db) \<and>
        raised db' = (dedupe db @ [k], Suc (length (alerts db)), Suc (length (outbox db))))"

lemma alert_step_same: "raised db' = raised db \<Longrightarrow> alert_step reported db db'"
  by (simp add: alert_step_def)

lemma createAlert_step:
  assumes "createAlertForRuleMatch input alertId outboxId now db = Inr (created, db')"
  shows "alert_step (Some (n_eventKey input)) db db'"
  using assms
  by (auto simp: createAlertForRuleMatch_def alert_step_def raised_def split: option.splits if_splits)

lemma operations_raised:
  "acquireDispatchPermit i l x permitId now db = Inr (r, db') \<Longrightarrow> raised db' = raised db"
  "startInstallationDrain i h v now db = Inr (d, db') \<Longrightarrow> raised db' = raised db"
  "startAccountLinkDrain a i k v now db = Inr (d, db') \<Longrightarrow> raised db' = raised db"
  "revokeInstallation v i del item now db = Inr (n, db') \<Longrightarrow> raised db' = raised db"
  "unlinkAccount v k del item now db = Inr (n, db') \<Longrightarrow> raised db' = raised db"
  by (auto simp: raised_def acquireDispatchPermit_def startInstallationDrain_def startAccountLinkDrain_def revokeInstallation_def
      unlinkAccount_def Let_def split: option.splits if_splits dest!: parts_raised)

lemma commits_raised:
  "commitInstallationRevocation v before seen ledger now db = Inr (n, db') \<Longrightarrow> raised db' = raised db"
  "commitAccountLinkUnlink v before seen ledger now db = Inr (n, db') \<Longrightarrow> raised db' = raised db"
  by (auto simp: commitInstallationRevocation_def commitAccountLinkUnlink_def
      split: option.splits if_splits bool.splits dest: operations_raised)

lemma others_raised:
  "recoverExpiredReceiptLeases limit busy now db = Inr (u, db') \<Longrightarrow> raised db' = raised db"
  "claimDueReceipts worker limit fence busy now db = Inr (ids, db') \<Longrightarrow> raised db' = raised db"
  "completeReceipt t worker failure receipt now db = Inr (u, db') \<Longrightarrow> raised db' = raised db"
  "deferReceipt t worker receipt now db = Inr (u, db') \<Longrightarrow> raised db' = raised db"
  "acquireMonitorLease key owner now db = Inr (g, db') \<Longrightarrow> raised db' = raised db"
  "renewMonitorLease key owner n now db = Inr (b, db') \<Longrightarrow> raised db' = raised db"
  "releaseMonitorLease key owner n db = Inr (u, db') \<Longrightarrow> raised db' = raised db"
  by (auto simp: raised_def recoverExpiredReceiptLeases_def claimDueReceipts_def completeReceipt_def deferReceipt_def insertReceipt_def
      acquireMonitorLease_def renewMonitorLease_def releaseMonitorLease_def Let_def split: option.splits if_splits)

lemma operate_alert_step:
  assumes "operate operation now db = Inr (answer, db')"
  shows "alert_step (reported_event operation) db db'"
proof (cases operation)
  case (CreateAlert input alertId outboxId)
  with assms show ?thesis by (auto dest: createAlert_step)
qed (use assms in \<open>auto simp: quiet_def intro!: alert_step_same split: option.splits if_splits
    dest: worker_call_raised(1) operations_raised commits_raised others_raised\<close>)

fun event_reported :: "nat \<times> service_event \<Rightarrow> string option" where
  "event_reported (dt, Operation connection operation) = reported_event operation"
| "event_reported _ = None"

text \<open>Whether its answer arrives or is lost does not matter.\<close>

lemma service_alert_step:
  assumes "service_step ev s = (out, t)"
  shows "alert_step (event_reported ev) (ds_store s) (ds_store t)"
proof -
  obtain dt e where ev: "ev = (dt, e)" by fastforce
  show ?thesis
  proof (cases e)
    case (Operation connection operation)
    with assms ev obtain r where "call connection (operate operation (ds_now s + int dt)) (ds_store s) = (r, ds_store t)"
      by (auto simp: Let_def split: prod.splits)
    with ev Operation show ?thesis
      by (auto simp: call_def split: if_splits sum.splits intro: alert_step_same operate_alert_step)
  next
    case (WorkerStep i inp)
    with assms ev show ?thesis
      by (auto simp: Let_def intro!: alert_step_same dest: worker_raised split: option.splits prod.splits)
  qed (use assms ev in \<open>auto intro: alert_step_same\<close>)
qed

text \<open>How many rows the reports of an event add over a run, and how many all the other steps do.\<close>

fun rows_added :: "(nstore \<Rightarrow> nat) \<Rightarrow> (string option \<Rightarrow> bool) \<Rightarrow> (nat \<times> service_event) list \<Rightarrow> delivery_service \<Rightarrow> int" where
  "rows_added rows P [] s = 0"
| "rows_added rows P (ev # events) s =
     (let t = snd (service_step ev s) in
      (if P (event_reported ev) then int (rows (ds_store t)) - int (rows (ds_store s)) else 0) +
      rows_added rows P events t)"

lemma step_rows:
  assumes "alert_step reported db db'"
  shows "length (alerts db') = length (alerts db) \<and> length (outbox db') = length (outbox db) \<and> dedupe db' = dedupe db \<or>
    (\<exists>k. reported = Some k \<and> k \<notin> set (dedupe db) \<and> length (alerts db') = Suc (length (alerts db)) \<and>
       length (outbox db') = Suc (length (outbox db)) \<and> dedupe db' = dedupe db @ [k])"
  using assms by (auto simp: alert_step_def raised_def)

lemma rows_of_event:
  assumes "rows = (\<lambda>db. length (alerts db)) \<or> rows = (\<lambda>db. length (outbox db))"
  shows "rows_added rows (\<lambda>r. r = Some k) events s =
    (if k \<notin> set (dedupe (ds_store s)) \<and> k \<in> set (dedupe (ds_store (snd (run_all service_step events s)))) then 1 else 0)"
proof (induction events arbitrary: s)
  case (Cons ev events)
  obtain out t where st: "service_step ev s = (out, t)" by fastforce
  let ?u = "snd (run_all service_step events t)"
  have u: "snd (run_all service_step (ev # events) s) = ?u" using st by (simp split: prod.splits)
  have grows: "set (dedupe (ds_store t)) \<subseteq> set (dedupe (ds_store (snd (run_all service_step es t))))" for es t
  proof (induction es arbitrary: t)
    case (Cons e es)
    obtain out' t' where e: "service_step e t = (out', t')" by fastforce
    with step_rows [OF service_alert_step [OF e]] Cons [of t'] show ?case by (auto split: prod.splits)
  qed simp
  from step_rows [OF service_alert_step [OF st]] Cons [of t] grows [of t events] assms st u show ?case
    by (auto simp: Let_def)
qed simp

lemma no_rows_of_others:
  assumes "rows = (\<lambda>db. length (alerts db)) \<or> rows = (\<lambda>db. length (outbox db))"
  shows "rows_added rows (\<lambda>r. r = None) events s = 0"
proof (induction events arbitrary: s)
  case (Cons ev events)
  obtain out t where st: "service_step ev s = (out, t)" by fastforce
  from step_rows [OF service_alert_step [OF st]] Cons [of t] assms st show ?case by (auto simp: Let_def)
qed simp

text \<open>An answer that an alert was created comes with the rows.\<close>

lemma createAlert_created:
  "createAlertForRuleMatch input alertId outboxId now db = Inr (Some x, db') \<Longrightarrow>
     length (alerts db') = Suc (length (alerts db))"
  by (auto simp: createAlertForRuleMatch_def split: option.splits if_splits)

lemma created_step:
  assumes "service_step ev s = (OperationAnswer (AlertCreated k), t)"
  shows "event_reported ev = Some k \<and> length (alerts (ds_store t)) = Suc (length (alerts (ds_store s)))"
proof -
  from assms obtain dt connection operation where ev: "ev = (dt, Operation connection operation)"
    by (cases ev rule: event_reported.cases) (auto simp: Let_def split: option.splits prod.splits worker_output.splits)
  with assms obtain db' where "operate operation (ds_now s + int dt) (ds_store s) = Inr (AlertCreated k, db')" "ds_store t = db'"
    by (auto simp: Let_def call_def split: prod.splits sum.splits if_splits)
  then show ?thesis
    by (cases operation) (auto simp: ev quiet_def dest: createAlert_created split: option.splits if_splits)
qed

lemma created_answers:
  "int (count_list (fst (run_all service_step events s)) (OperationAnswer (AlertCreated k)))
     \<le> rows_added (\<lambda>db. length (alerts db)) (\<lambda>r. r = Some k) events s"
proof (induction events arbitrary: s)
  case (Cons ev events)
  obtain out t where st: "service_step ev s = (out, t)" by fastforce
  from step_rows [OF service_alert_step [OF st]] created_step [of ev s k t] Cons [of t] st show ?case
    by (auto simp: Let_def split: prod.splits)
qed simp

text \<open>
  C14. Over any run, the reports of an event, by however many monitors, with answers that arrive or are lost,
  add at most one alert and one outbox row between them, and none if the event's key was already recorded;
  and every other step adds neither. The answers that say that an alert was created are no more than the
  alerts. The retention job, which forgets keys after seven days, is not among the
  operations.
\<close>

theorem event_raises_at_most_one_alert:
  "rows_added (\<lambda>db. length (alerts db)) (\<lambda>r. r = Some k) events s \<le> (if k \<in> set (dedupe (ds_store s)) then 0 else 1) \<and>
    rows_added (\<lambda>db. length (outbox db)) (\<lambda>r. r = Some k) events s \<le> (if k \<in> set (dedupe (ds_store s)) then 0 else 1) \<and>
    rows_added (\<lambda>db. length (alerts db)) (\<lambda>r. r = None) events s = 0 \<and>
    rows_added (\<lambda>db. length (outbox db)) (\<lambda>r. r = None) events s = 0 \<and>
    int (count_list (fst (run_all service_step events s)) (OperationAnswer (AlertCreated k)))
      \<le> rows_added (\<lambda>db. length (alerts db)) (\<lambda>r. r = Some k) events s"
  using created_answers [of events s k] by (simp add: rows_of_event no_rows_of_others)


definition sample_rule_service :: delivery_service where
  "sample_rule_service =
     sample_service\<lparr>ds_store := sample_store\<lparr>rules :=
       [\<lparr>r_id = sample_hex, r_digest = sample_hex @ sample_hex, r_installation = ''phone'', r_link = None,
         r_network = Testnet, r_active = True\<rparr>]\<rparr>\<rparr>"

definition sample_alert :: alert_input where
  "sample_alert =
     \<lparr>n_ruleId = sample_hex, n_identityDigest = sample_hex @ sample_hex, n_eventKey = sample_hex @ sample_hex,
      n_category = PriceAlert, n_routeHint = ''trade''\<rparr>"

text \<open>Two monitors report the same event.\<close>

definition sample_reports :: "(nat \<times> service_event) list" where
  "sample_reports =
     [(1, Operation LostAfter (CreateAlert sample_alert ''alert-1'' ''row-1'')),
      (1, Operation CallAnswers (CreateAlert sample_alert ''alert-2'' ''row-2''))]"

text \<open>The first report adds the alert, whose answer is lost, and the second adds nothing.\<close>

lemma sample_reports_rows:
  "rows_added (\<lambda>db. length (alerts db)) (\<lambda>r. r = Some (sample_hex @ sample_hex)) sample_reports sample_rule_service = 1"
  by code_simp

end
