(* ===== verification/Account_Operation.thy ===== *)
theory Account_Operation
  imports Js_Value Action_Flow
begin

text \<open>
  Changes of an account (\<^verbatim>\<open>apps/mobile/src/features/accounts/account-lifecycle.ts\<close>): which
  changes are allowed while actions are pending, and the state machine of a rotation, a revocation, an
  unlink or a repair. The texts shown for a refusal are left out.
\<close>

section \<open>The gate\<close>

datatype AccountMutationOperation =
    OpAdd
  | OpSwitch
  | OpLock
  | OpRotate
  | OpRevokeExternal
  | OpUnlinkVerified
  | OpUnlinkLocal
  | OpRepair

datatype AccountMutationGateReason =
    ActionInFlight
  | ActionStatusUnavailable
  | ActionNotDurable
  | ActionUnresolved
  | RiskAcknowledgementRequired

datatype AccountMutationGate = GateOpen | GateClosed AccountMutationGateReason

datatype AuthoritativeActionStatus = ActionStatusUnknown | ActionStatusKnown js_number js_value

definition requiresAuthoritativeActionStatus :: "AccountMutationOperation \<Rightarrow> bool" where
  "requiresAuthoritativeActionStatus operation \<longleftrightarrow>
     operation \<in> {OpRotate, OpRepair, OpUnlinkVerified, OpUnlinkLocal}"

definition accountMutationGate ::
  "AccountMutationOperation \<Rightarrow> ActionFlowPhase \<Rightarrow> AuthoritativeActionStatus \<Rightarrow> bool \<Rightarrow> AccountMutationGate" where
  "accountMutationGate operation actionPhase actionStatus riskAcknowledged =
     (if operation = OpLock then GateOpen
      else if actionFlowConsumesBack actionPhase then GateClosed ActionInFlight
      else if \<not> requiresAuthoritativeActionStatus operation then GateOpen
      else case actionStatus of
        ActionStatusUnknown \<Rightarrow> GateClosed ActionStatusUnavailable
      | ActionStatusKnown pendingCount allPendingDurable \<Rightarrow>
          if \<not> isSafeInteger pendingCount \<or> js_less pendingCount (IntN 0) \<or>
             allPendingDurable \<notin> {JBool True, JBool False}
          then GateClosed ActionStatusUnavailable
          else if js_less (IntN 0) pendingCount \<and> allPendingDurable = JBool False
          then GateClosed ActionNotDurable
          else if operation = OpUnlinkLocal \<and> \<not> riskAcknowledged
          then GateClosed RiskAcknowledgementRequired
          else if js_less (IntN 0) pendingCount \<and> operation \<in> {OpRotate, OpRepair, OpUnlinkVerified}
          then GateClosed ActionUnresolved
          else GateOpen)"

section \<open>The operation\<close>

datatype AccountLifecycleOperation = Rotate | RevokeExternal | UnlinkVerified | UnlinkLocal | Repair

datatype AccountOperationPhase =
    IdlePhase
  | Locking
  | ExternalStep
  | Verifying
  | Restricted
  | Tombstoning
  | DeletingLocal
  | DeletingAlerts
  | CompletePhase
  | FailedPhase

datatype alert_deletion = AlertsNotStarted | AlertsPending | AlertsDeleted | AlertsFailed

record AccountOperationState =
  ac_operation :: "AccountLifecycleOperation option"
  ac_phase :: AccountOperationPhase
  ac_generation :: nat
  ac_completed :: bool
  ac_newAgentActive :: bool
  ac_oldAgentInactive :: bool
  ac_nonceScopeTombstoned :: bool
  ac_localSecretDeleted :: bool
  ac_localCleanupComplete :: bool
  ac_alertDeletion :: alert_deletion
  ac_reason :: "string option"

definition INITIAL_ACCOUNT_OPERATION :: AccountOperationState where
  "INITIAL_ACCOUNT_OPERATION =
     \<lparr>ac_operation = None, ac_phase = IdlePhase, ac_generation = 0, ac_completed = False,
      ac_newAgentActive = False, ac_oldAgentInactive = False, ac_nonceScopeTombstoned = False,
      ac_localSecretDeleted = False, ac_localCleanupComplete = False,
      ac_alertDeletion = AlertsNotStarted, ac_reason = None\<rparr>"

datatype AccountOperationAction =
    START AccountLifecycleOperation
  | LOCAL_LOCKED
  | EXTERNAL_STEP_RETURNED
  | AUTHORITATIVE_PROOF bool bool
  | ACKNOWLEDGE_UNVERIFIED_LOCAL_UNLINK
  | NONCE_SCOPE_TOMBSTONED
  | LOCAL_SECRET_DELETED
  | ALERT_DATA_DELETED
  | ALERT_DATA_DELETION_FAILED string
  | FAIL string
  | RESET_OPERATION

definition needsNewAgent :: "AccountLifecycleOperation option \<Rightarrow> bool" where
  "needsNewAgent operation \<longleftrightarrow> operation \<in> {Some Rotate, Some Repair}"

definition needsAlertDeletion :: "AccountLifecycleOperation option \<Rightarrow> bool" where
  "needsAlertDeletion operation \<longleftrightarrow> operation \<in> {Some UnlinkVerified, Some UnlinkLocal}"

definition cleanupPhaseAfterAuthoritativeProof :: "AccountOperationState \<Rightarrow> AccountOperationPhase" where
  "cleanupPhaseAfterAuthoritativeProof s =
     (if \<not> ac_nonceScopeTombstoned s then Tombstoning
      else if \<not> ac_localSecretDeleted s then DeletingLocal
      else if needsAlertDeletion (ac_operation s) \<and> ac_alertDeletion s \<noteq> AlertsDeleted then DeletingAlerts
      else CompletePhase)"

definition canStartOperation :: "AccountOperationPhase \<Rightarrow> bool" where
  "canStartOperation ph \<longleftrightarrow> ph \<in> {IdlePhase, CompletePhase}"

definition canResetOperation :: "AccountOperationPhase \<Rightarrow> bool" where
  "canResetOperation ph \<longleftrightarrow> ph \<in> {IdlePhase, CompletePhase, FailedPhase}"

definition failureNeedsAuthoritativeResolution :: "AccountOperationPhase \<Rightarrow> bool" where
  "failureNeedsAuthoritativeResolution ph \<longleftrightarrow>
     ph \<in> {ExternalStep, Verifying, Restricted, Tombstoning, DeletingLocal, DeletingAlerts}"

fun reduceAccountOperation :: "AccountOperationState \<Rightarrow> AccountOperationAction \<Rightarrow> AccountOperationState" where
  "reduceAccountOperation s (START operation) =
     (if \<not> canStartOperation (ac_phase s) then s
      else INITIAL_ACCOUNT_OPERATION\<lparr>ac_operation := Some operation, ac_phase := Locking,
             ac_generation := ac_generation s + 1\<rparr>)"
| "reduceAccountOperation s LOCAL_LOCKED =
     (if ac_phase s \<noteq> Locking then s
      else s\<lparr>ac_phase := (if ac_operation s = Some Repair then Verifying else ExternalStep)\<rparr>)"
| "reduceAccountOperation s EXTERNAL_STEP_RETURNED =
     (if ac_phase s = ExternalStep then s\<lparr>ac_phase := Verifying\<rparr> else s)"
| "reduceAccountOperation s (AUTHORITATIVE_PROOF newAgentActive oldAgentInactive) =
     (if ac_phase s \<noteq> Verifying \<and> ac_phase s \<noteq> Restricted then s
      else
        let verified = (oldAgentInactive \<and> (\<not> needsNewAgent (ac_operation s) \<or> newAgentActive));
            verifiedPhase = (if verified then cleanupPhaseAfterAuthoritativeProof s else Restricted)
        in s\<lparr>ac_phase := verifiedPhase, ac_completed := (verifiedPhase = CompletePhase),
             ac_newAgentActive := newAgentActive, ac_oldAgentInactive := oldAgentInactive,
             ac_reason := (if verified then None
               else Some ''Authoritative state has not proved the old agent inactive and the replacement active.'')\<rparr>)"
| "reduceAccountOperation s ACKNOWLEDGE_UNVERIFIED_LOCAL_UNLINK =
     (if ac_operation s \<noteq> Some UnlinkLocal \<or> ac_phase s \<noteq> ExternalStep then s
      else s\<lparr>ac_phase := Tombstoning,
             ac_reason := Some ''External revocation is unconfirmed. This device will remain visibly restricted.''\<rparr>)"
| "reduceAccountOperation s NONCE_SCOPE_TOMBSTONED =
     (if ac_phase s = Tombstoning then s\<lparr>ac_phase := DeletingLocal, ac_nonceScopeTombstoned := True\<rparr> else s)"
| "reduceAccountOperation s LOCAL_SECRET_DELETED =
     (if ac_phase s \<noteq> DeletingLocal \<or> \<not> ac_nonceScopeTombstoned s then s
      else if needsAlertDeletion (ac_operation s)
      then s\<lparr>ac_phase := DeletingAlerts, ac_localSecretDeleted := True, ac_alertDeletion := AlertsPending\<rparr>
      else s\<lparr>ac_phase := CompletePhase, ac_completed := True, ac_localSecretDeleted := True,
             ac_localCleanupComplete := True\<rparr>)"
| "reduceAccountOperation s ALERT_DATA_DELETED =
     (if ac_phase s \<noteq> DeletingAlerts then s
      else if ac_operation s = Some UnlinkLocal \<and> \<not> ac_oldAgentInactive s
      then s\<lparr>ac_phase := Restricted, ac_completed := False, ac_localCleanupComplete := True,
             ac_alertDeletion := AlertsDeleted,
             ac_reason := Some ''Local unlink finished, but external agent revocation remains unconfirmed.''\<rparr>
      else s\<lparr>ac_phase := CompletePhase, ac_completed := True, ac_localCleanupComplete := True,
             ac_alertDeletion := AlertsDeleted, ac_reason := None\<rparr>)"
| "reduceAccountOperation s (ALERT_DATA_DELETION_FAILED reason) =
     (if ac_phase s = DeletingAlerts
      then s\<lparr>ac_phase := Restricted, ac_completed := False, ac_localCleanupComplete := True,
             ac_alertDeletion := AlertsFailed, ac_reason := Some (take 160 reason)\<rparr>
      else s)"
| "reduceAccountOperation s (FAIL reason) =
     (if ac_phase s = CompletePhase then s
      else if failureNeedsAuthoritativeResolution (ac_phase s)
      then s\<lparr>ac_phase := Restricted, ac_completed := False, ac_reason := Some (take 160 reason)\<rparr>
      else s\<lparr>ac_phase := FailedPhase, ac_completed := False, ac_reason := Some (take 160 reason)\<rparr>)"
| "reduceAccountOperation s RESET_OPERATION =
     (if \<not> canResetOperation (ac_phase s) then s
      else INITIAL_ACCOUNT_OPERATION\<lparr>ac_generation := ac_generation s + 1\<rparr>)"

definition run_operation :: "AccountOperationAction list \<Rightarrow> AccountOperationState" where
  "run_operation actions = fold (\<lambda>a s. reduceAccountOperation s a) actions INITIAL_ACCOUNT_OPERATION"

section \<open>The invariant\<close>

text \<open>What has been done when a phase is reached.\<close>

definition nothing_done :: "AccountOperationState \<Rightarrow> bool" where
  "nothing_done s \<longleftrightarrow>
     \<not> ac_completed s \<and> \<not> ac_nonceScopeTombstoned s \<and> \<not> ac_localSecretDeleted s \<and> ac_alertDeletion s = AlertsNotStarted"

definition proved :: "AccountOperationState \<Rightarrow> bool" where
  "proved s \<longleftrightarrow> ac_oldAgentInactive s \<and> (needsNewAgent (ac_operation s) \<longrightarrow> ac_newAgentActive s)"

definition operation_ok :: "AccountOperationState \<Rightarrow> bool" where
  "operation_ok s \<longleftrightarrow>
     (ac_phase s \<notin> {IdlePhase, FailedPhase} \<longrightarrow> ac_operation s \<noteq> None) \<and>
     (case ac_phase s of
        Tombstoning \<Rightarrow> nothing_done s \<and> (ac_operation s = Some UnlinkLocal \<or> proved s)
      | DeletingLocal \<Rightarrow>
          \<not> ac_completed s \<and> ac_nonceScopeTombstoned s \<and> \<not> ac_localSecretDeleted s \<and>
          ac_alertDeletion s = AlertsNotStarted \<and> (ac_operation s = Some UnlinkLocal \<or> proved s)
      | DeletingAlerts \<Rightarrow>
          needsAlertDeletion (ac_operation s) \<and> \<not> ac_completed s \<and> ac_nonceScopeTombstoned s \<and>
          ac_localSecretDeleted s \<and> ac_alertDeletion s \<noteq> AlertsDeleted \<and>
          (ac_operation s = Some UnlinkLocal \<or> proved s)
      | Restricted \<Rightarrow>
          \<not> ac_completed s \<and>
          (ac_localSecretDeleted s \<longrightarrow> ac_nonceScopeTombstoned s \<and> needsAlertDeletion (ac_operation s)) \<and>
          (\<not> ac_localSecretDeleted s \<longrightarrow> ac_alertDeletion s = AlertsNotStarted) \<and>
          (ac_alertDeletion s = AlertsDeleted \<longrightarrow> ac_localCleanupComplete s)
      | CompletePhase \<Rightarrow>
          ac_completed s \<and> ac_nonceScopeTombstoned s \<and> ac_localSecretDeleted s \<and> ac_localCleanupComplete s \<and>
          proved s \<and> (needsAlertDeletion (ac_operation s) \<longrightarrow> ac_alertDeletion s = AlertsDeleted)
      | _ \<Rightarrow> nothing_done s)"

lemmas operation_defs = operation_ok_def nothing_done_def proved_def needsAlertDeletion_def needsNewAgent_def
  canStartOperation_def canResetOperation_def failureNeedsAuthoritativeResolution_def
  cleanupPhaseAfterAuthoritativeProof_def INITIAL_ACCOUNT_OPERATION_def

lemma proof_ok: "operation_ok s \<Longrightarrow> operation_ok (reduceAccountOperation s (AUTHORITATIVE_PROOF new old))"
  by (cases "ac_phase s") (simp_all add: operation_defs Let_def, (cases "ac_operation s", simp, rename_tac x, case_tac x, auto)+)

lemma fail_ok: "operation_ok s \<Longrightarrow> operation_ok (reduceAccountOperation s (FAIL reason))"
  by (cases "ac_phase s") (auto simp: operation_defs)

lemma reduce_ok: "operation_ok s \<Longrightarrow> operation_ok (reduceAccountOperation s a)"
proof (cases a)
  case (AUTHORITATIVE_PROOF new old)
  then show "operation_ok s \<Longrightarrow> ?thesis" using proof_ok by simp
next
  case (FAIL reason)
  then show "operation_ok s \<Longrightarrow> ?thesis" using fail_ok by simp
qed (auto simp: operation_defs split: AccountOperationPhase.splits if_splits)

lemma initial_ok: "operation_ok INITIAL_ACCOUNT_OPERATION"
  by (simp add: operation_defs)

lemma fold_ok: "operation_ok s \<Longrightarrow> operation_ok (fold (\<lambda>a s. reduceAccountOperation s a) actions s)"
  by (induction actions arbitrary: s) (auto intro: reduce_ok)

lemma run_ok: "operation_ok (run_operation actions)"
  unfolding run_operation_def by (rule fold_ok [OF initial_ok])

section \<open>Properties\<close>

text \<open>
  C29. Over any run of actions a change of an account is shown as complete only when the nonces of the old
  agent are retired, its secret and, for an unlink, its alert data are deleted, and authoritative state
  has proved the old agent inactive and, where one is needed, the new agent active.
\<close>

theorem account_change_completes_only_when_proved:
  assumes "s = run_operation actions" "ac_completed s \<or> ac_phase s = CompletePhase"
  shows "ac_nonceScopeTombstoned s \<and> ac_localSecretDeleted s \<and> ac_localCleanupComplete s \<and> ac_oldAgentInactive s \<and>
    (needsNewAgent (ac_operation s) \<longrightarrow> ac_newAgentActive s) \<and>
    (needsAlertDeletion (ac_operation s) \<longrightarrow> ac_alertDeletion s = AlertsDeleted)"
proof -
  note ok = run_ok [of actions, folded assms(1)]
  with assms(2) have "ac_phase s = CompletePhase"
    by (cases "ac_phase s") (auto simp: operation_ok_def nothing_done_def)
  with ok show ?thesis by (simp add: operation_ok_def proved_def)
qed

lemma secret_outlives_nonces:
  "ac_localSecretDeleted (run_operation actions) \<Longrightarrow> ac_nonceScopeTombstoned (run_operation actions)"
  using run_ok [of actions]
  by (cases "ac_phase (run_operation actions)") (auto simp: operation_ok_def nothing_done_def)

text \<open>What finishes an operation from wherever it stands; what does not apply is ignored.\<close>

definition finishing :: "AccountOperationAction list" where
  "finishing =
     [LOCAL_LOCKED, EXTERNAL_STEP_RETURNED, AUTHORITATIVE_PROOF True True, NONCE_SCOPE_TOMBSTONED,
      LOCAL_SECRET_DELETED, ALERT_DATA_DELETED, AUTHORITATIVE_PROOF True True]"

definition in_phases :: "AccountOperationPhase set \<Rightarrow> AccountOperationState \<Rightarrow> bool" where
  "in_phases ps s \<longleftrightarrow> operation_ok s \<and> ac_phase s \<in> ps"

abbreviation cleaning :: "AccountOperationPhase set" where
  "cleaning \<equiv> {Tombstoning, DeletingLocal, DeletingAlerts, CompletePhase}"

lemma in_phasesI:
  "in_phases ps s \<Longrightarrow> (ac_phase s \<in> ps \<Longrightarrow> ac_phase (reduceAccountOperation s a) \<in> qs) \<Longrightarrow> in_phases qs (reduceAccountOperation s a)"
  using reduce_ok by (auto simp: in_phases_def)

lemma locked_stage:
  assumes "in_phases ({Locking, ExternalStep, Verifying, Restricted} \<union> cleaning) s"
  shows "in_phases ({ExternalStep, Verifying, Restricted} \<union> cleaning) (reduceAccountOperation s LOCAL_LOCKED)"
  by (rule in_phasesI [OF assms]) auto

lemma returned_stage:
  assumes "in_phases ({ExternalStep, Verifying, Restricted} \<union> cleaning) s"
  shows "in_phases ({Verifying, Restricted} \<union> cleaning) (reduceAccountOperation s EXTERNAL_STEP_RETURNED)"
  by (rule in_phasesI [OF assms]) auto

lemma proof_stage:
  assumes "in_phases ({Verifying, Restricted} \<union> cleaning) s"
  shows "in_phases cleaning (reduceAccountOperation s (AUTHORITATIVE_PROOF True True))"
  by (rule in_phasesI [OF assms]) (auto simp: Let_def cleanupPhaseAfterAuthoritativeProof_def)

lemma tombstone_stage:
  assumes "in_phases cleaning s"
  shows "in_phases {DeletingLocal, DeletingAlerts, CompletePhase} (reduceAccountOperation s NONCE_SCOPE_TOMBSTONED)"
  by (rule in_phasesI [OF assms]) auto

lemma secret_stage:
  assumes "in_phases {DeletingLocal, DeletingAlerts, CompletePhase} s"
  shows "in_phases {DeletingAlerts, CompletePhase} (reduceAccountOperation s LOCAL_SECRET_DELETED)"
  using assms by (intro in_phasesI [OF assms]) (auto simp: in_phases_def operation_ok_def)

lemma alert_stage:
  assumes "in_phases {DeletingAlerts, CompletePhase} s"
  shows "ac_phase (reduceAccountOperation (reduceAccountOperation s ALERT_DATA_DELETED) (AUTHORITATIVE_PROOF True True)) =
    CompletePhase"
  using assms
  by (auto simp: in_phases_def operation_ok_def Let_def cleanupPhaseAfterAuthoritativeProof_def)

lemma finishing_completes:
  assumes "operation_ok s" "ac_phase s \<notin> {IdlePhase, FailedPhase}"
  shows "ac_phase (fold (\<lambda>a s. reduceAccountOperation s a) finishing s) = CompletePhase"
proof -
  from assms have "in_phases ({Locking, ExternalStep, Verifying, Restricted} \<union> cleaning) s"
    by (cases "ac_phase s") (auto simp: in_phases_def)
  from alert_stage [OF secret_stage [OF tombstone_stage [OF proof_stage [OF returned_stage [OF locked_stage [OF this]]]]]]
  show ?thesis by (simp only: finishing_def fold.simps o_apply id_apply)
qed

text \<open>
  C30. No change is stuck: whatever has happened, interruptions and failures included, a change that has begun
  and has not failed before its first external step completes once its steps are done again and the
  proof is obtained; one that failed can be reset.
\<close>

theorem no_account_change_is_stuck:
  "ac_phase (run_operation (actions @ finishing)) = CompletePhase \<or>
   ac_phase (run_operation actions) = IdlePhase \<or>
   ac_phase (run_operation (actions @ [RESET_OPERATION])) = IdlePhase"
proof (cases "ac_phase (run_operation actions) \<in> {IdlePhase, FailedPhase}")
  case True
  then show ?thesis by (auto simp: run_operation_def canResetOperation_def INITIAL_ACCOUNT_OPERATION_def)
next
  case False
  from finishing_completes [OF run_ok False] show ?thesis by (simp add: run_operation_def)
qed

text \<open>
  The gate opens for an operation that replaces or deletes the agent only when no action is on its way,
  the journal has been read, every pending action has its record, and, unless the user took the risk of
  a local unlink, none is pending.
\<close>

theorem account_gate_waits_for_actions:
  assumes "accountMutationGate operation p status risk = GateOpen" "requiresAuthoritativeActionStatus operation"
  shows "\<not> actionFlowConsumesBack p \<and>
    (\<exists>n durable. status = ActionStatusKnown (IntN n) durable \<and> 0 \<le> n \<and> (n = 0 \<or> durable = JBool True) \<and>
       (n = 0 \<or> (operation = OpUnlinkLocal \<and> risk)))"
proof -
  from assms obtain count durable where s: "status = ActionStatusKnown count durable"
    and c: "isSafeInteger count" "\<not> js_less count (IntN 0)" "durable \<in> {JBool True, JBool False}"
      "\<not> (js_less (IntN 0) count \<and> durable = JBool False)"
      "\<not> (operation = OpUnlinkLocal \<and> \<not> risk)"
      "\<not> (js_less (IntN 0) count \<and> operation \<in> {OpRotate, OpRepair, OpUnlinkVerified})"
    by (cases status) (auto simp: accountMutationGate_def requiresAuthoritativeActionStatus_def split: if_splits)
  from c(1) obtain n where n: "count = IntN n" by (auto simp: isSafeInteger_iff)
  from c n have "0 \<le> n" "n = 0 \<or> durable = JBool True" "n = 0 \<or> (operation = OpUnlinkLocal \<and> risk)"
    using assms(2) by (auto simp: requiresAuthoritativeActionStatus_def)
  moreover from assms have "\<not> actionFlowConsumesBack p"
    by (auto simp: accountMutationGate_def requiresAuthoritativeActionStatus_def split: if_splits)
  ultimately show ?thesis using s n by blast
qed

theorem account_gate_waits_for_actions_witness:
  "accountMutationGate OpUnlinkLocal Review (ActionStatusKnown (IntN 2) (JBool True)) True = GateOpen \<and>
   \<not> actionFlowConsumesBack Review"
proof
  show g: "accountMutationGate OpUnlinkLocal Review (ActionStatusKnown (IntN 2) (JBool True)) True = GateOpen"
    by code_simp
  from account_gate_waits_for_actions [OF g] show "\<not> actionFlowConsumesBack Review"
    by (simp add: requiresAuthoritativeActionStatus_def)
qed

text \<open>A rotation that is interrupted after its proof, and ends.\<close>

definition sample_rotation :: "AccountOperationAction list" where
  "sample_rotation =
     [START Rotate, LOCAL_LOCKED, EXTERNAL_STEP_RETURNED, AUTHORITATIVE_PROOF True True, FAIL ''restart'',
      AUTHORITATIVE_PROOF True True, NONCE_SCOPE_TOMBSTONED, LOCAL_SECRET_DELETED]"

theorem account_change_completes_only_when_proved_witness:
  "ac_phase (run_operation sample_rotation) = CompletePhase \<and>
   ac_nonceScopeTombstoned (run_operation sample_rotation) \<and> ac_newAgentActive (run_operation sample_rotation)"
proof -
  have c: "ac_phase (run_operation sample_rotation) = CompletePhase" "ac_operation (run_operation sample_rotation) = Some Rotate"
    by code_simp+
  with account_change_completes_only_when_proved [OF refl, of sample_rotation] show ?thesis
    by (simp add: needsNewAgent_def)
qed

end
