(* ===== verification/Custody.thy ===== *)
theory Custody
  imports Journal "HOL-Library.Word"
begin

text \<open>
  The custody of agent secrets on the device: \<^verbatim>\<open>platform/security/credential-vault.ts\<close> with
  \<^verbatim>\<open>secret-material.ts\<close> and \<^verbatim>\<open>platform/wallet/setup-identifiers.ts\<close>, in
  \<^verbatim>\<open>apps/mobile/src\<close>. Each secret is an item of the secure store, and a manifest, an item of
  its own, lists them.

  A call awaits the store several times. Every one of these accesses works, fails with nothing
  written, fails though it has written, or is never answered because the process ends there; a call takes the list of
  what its accesses meet with. JSON text is represented by its value. \<open>getAddress\<close>,
  \<^verbatim>\<open>keccak256\<close> of a text and the conversions of bytes are parameters. Calls are made one at a time.
\<close>

section \<open>Patterns\<close>

definition printable_char :: "char \<Rightarrow> bool" where
  "printable_char c \<longleftrightarrow> 32 \<le> code c \<and> code c \<le> 126"

definition AGENT_REGISTRATION_NAME_PATTERN :: "string \<Rightarrow> bool" where
  "AGENT_REGISTRATION_NAME_PATTERN s \<longleftrightarrow>
     s \<noteq> [] \<and> length s \<le> 16 \<and> list_all printable_char s \<and> hd s \<noteq> CHR '' '' \<and> List.last s \<noteq> CHR '' ''"

definition CONNECTOR_SESSION_PATTERN :: "string \<Rightarrow> bool" where
  "CONNECTOR_SESSION_PATTERN s \<longleftrightarrow>
     1 \<le> length s \<and> length s \<le> 128 \<and> list_all (\<lambda>c. is_alnum c \<or> c \<in> set ''._:-'') s"

definition EPOCH_PATTERN :: "string \<Rightarrow> bool" where
  "EPOCH_PATTERN s \<longleftrightarrow> 16 \<le> length s \<and> length s \<le> 128 \<and> list_all (\<lambda>c. is_alnum c \<or> c \<in> set ''_-'') s"

section \<open>Secrets\<close>

type_synonym octets = "8 word list"

definition SECP256K1_ORDER :: octets where
  "SECP256K1_ORDER =
     replicate 15 0xff @
     [0xfe, 0xba, 0xae, 0xdc, 0xe6, 0xaf, 0x48, 0xa0, 0x3b, 0xbf, 0xd2, 0x5e, 0x8c, 0xd0, 0x36, 0x41, 0x41]"

fun compareBytes :: "octets \<Rightarrow> octets \<Rightarrow> int" where
  "compareBytes [] right = 0"
| "compareBytes (x # left) right =
     (let difference = uint x - (case right of [] \<Rightarrow> 0 | y # _ \<Rightarrow> uint y) in
      if difference \<noteq> 0 then difference else compareBytes left (drop 1 right))"

definition isValidSecp256k1Secret :: "octets \<Rightarrow> bool" where
  "isValidSecp256k1Secret bytes \<longleftrightarrow>
     \<not> (length bytes \<noteq> 32 \<or> list_all (\<lambda>b. b = 0) bytes) \<and> compareBytes bytes SECP256K1_ORDER < 0"

section \<open>The secure store\<close>

datatype item_text = JsonText js_value | OtherText

record secure_store =
  st_manifest :: "item_text option"
  st_secrets :: "string \<Rightarrow> item_text option"

definition empty_store :: secure_store where
  "empty_store = \<lparr>st_manifest = None, st_secrets = (\<lambda>_. None)\<rparr>"

datatype access_outcome = Works | Fails | FailsWritten | Interrupts

datatype 'a call_end = Returned 'a | Threw js_error | Interrupted

type_synonym 'a store_call = "access_outcome list \<Rightarrow> secure_store \<Rightarrow> 'a call_end \<times> access_outcome list \<times> secure_store"

definition storage_error :: js_error where
  "storage_error = CodedError ''SecureStore'' ''''"

fun access_store :: "(secure_store \<Rightarrow> secure_store) \<Rightarrow> (secure_store \<Rightarrow> 'a) \<Rightarrow> 'a store_call" where
  "access_store change answer [] st = (Interrupted, [], st)"
| "access_store change answer (Works # rest) st = (Returned (answer st), rest, change st)"
| "access_store change answer (Fails # rest) st = (Threw storage_error, rest, st)"
| "access_store change answer (FailsWritten # rest) st = (Threw storage_error, rest, change st)"
| "access_store change answer (Interrupts # rest) st = (Interrupted, [], st)"

definition andNext :: "'a store_call \<Rightarrow> ('a \<Rightarrow> 'b store_call) \<Rightarrow> 'b store_call" where
  "andNext f g accesses st =
     (case f accesses st of
        (Returned x, rest, st') \<Rightarrow> g x rest st'
      | (Threw e, rest, st') \<Rightarrow> (Threw e, rest, st')
      | (Interrupted, rest, st') \<Rightarrow> (Interrupted, rest, st'))"

definition catching :: "'a store_call \<Rightarrow> (js_error \<Rightarrow> 'a store_call) \<Rightarrow> 'a store_call" where
  "catching f handler accesses st =
     (case f accesses st of
        (Threw e, rest, st') \<Rightarrow> handler e rest st'
      | outcome \<Rightarrow> outcome)"

definition purely :: "'a result \<Rightarrow> 'a store_call" where
  "purely r accesses st = ((case r of Inl e \<Rightarrow> Threw e | Inr x \<Rightarrow> Returned x), accesses, st)"

definition set_manifest :: "item_text option \<Rightarrow> unit store_call" where
  "set_manifest item = access_store (\<lambda>st. st\<lparr>st_manifest := item\<rparr>) (\<lambda>_. ())"

definition set_secret :: "string \<Rightarrow> item_text option \<Rightarrow> unit store_call" where
  "set_secret key item = access_store (\<lambda>st. st\<lparr>st_secrets := (st_secrets st)(key := item)\<rparr>) (\<lambda>_. ())"

section \<open>The manifest\<close>

definition CredentialUnavailableError :: "string \<Rightarrow> js_error" where
  "CredentialUnavailableError errorCode = CodedError ''CredentialUnavailableError'' errorCode"

abbreviation malformed_record :: js_error where
  "malformed_record \<equiv> CredentialUnavailableError ''malformed_record''"

record vault_lib =
  cl_getAddress :: address_parser
  cl_keccak :: "string \<Rightarrow> string" \<comment> \<open>\<^verbatim>\<open>keccak256(stringToHex(text))\<close>\<close>
  cl_toHex :: "octets \<Rightarrow> string"
  cl_hexToBytes :: "string \<Rightarrow> octets"

fun nul_joined :: "string list \<Rightarrow> string" where
  "nul_joined [] = []"
| "nul_joined [s] = s"
| "nul_joined (s # t # rest) = s @ [CHR 0x00] @ nul_joined (t # rest)"

definition custodyBindingId :: "vault_lib \<Rightarrow> SignerBinding \<Rightarrow> string result" where
  "custodyBindingId lib bindingInput =
     bindE (normalizeSignerBinding (cl_getAddress lib) bindingInput) (\<lambda>b.
     Inr (cl_keccak lib (nul_joined
       [''hyper-trader-custody-binding/v1'', network_name (sb_network b), sb_masterAccount b, sb_targetAccount b,
        sb_agentAddress b, (case sb_generation b of IntN g \<Rightarrow> show_int g | _ \<Rightarrow> '''')])))"

definition credentialKey :: "vault_lib \<Rightarrow> SignerBinding \<Rightarrow> string result" where
  "credentialKey lib b = bindE (custodyBindingId lib b) (\<lambda>i. Inr (''agent.'' @ drop 2 i))"

record CustodyManifest =
  cm_object :: js_object
  cm_epoch :: string
  cm_records :: "js_value list"

text \<open>
  A pattern is tested on the text of a value: an array of one element has that element's text, and
  the text of any other value that is no string is refused by these patterns.
\<close>

fun pattern_text :: "js_value \<Rightarrow> string" where
  "pattern_text (JStr s) = s"
| "pattern_text (JArr [v]) = pattern_text v"
| "pattern_text _ = ''''"

definition valid_entry :: "js_value \<Rightarrow> bool" where
  "valid_entry v \<longleftrightarrow>
     (case plain_object v of
        None \<Rightarrow> False
      | Some entry \<Rightarrow>
          member entry ''network'' \<in> {JStr ''testnet'', JStr ''mainnet''} \<and>
          member entry ''recordVersion'' = JNum (IntN 1) \<and>
          LOWERCASE_HASH_PATTERN (pattern_text (member entry ''bindingId'')) \<and>
          LOWERCASE_ADDRESS_PATTERN (pattern_text (member entry ''agentAddress'')) \<and>
          safe_at_least 1 (member entry ''generation'') \<noteq> None)"

definition validateManifest :: "js_value \<Rightarrow> CustodyManifest result" where
  "validateManifest v =
     (case plain_object v of
        None \<Rightarrow> Inl malformed_record
      | Some obj \<Rightarrow>
          (case (member obj ''installationEpoch'', member obj ''records'') of
             (JStr epoch, JArr entries) \<Rightarrow>
               if member obj ''version'' = JNum (IntN 1) \<and> EPOCH_PATTERN epoch \<and> list_all valid_entry entries
               then Inr \<lparr>cm_object = obj, cm_epoch = epoch, cm_records = entries\<rparr>
               else Inl malformed_record
           | _ \<Rightarrow> Inl malformed_record))"

definition manifest_of :: "item_text option \<Rightarrow> CustodyManifest option result" where
  "manifest_of item =
     (case item of
        None \<Rightarrow> Inr None
      | Some OtherText \<Rightarrow> Inl malformed_record
      | Some (JsonText v) \<Rightarrow> bindE (validateManifest v) (\<lambda>m. Inr (Some m)))"

definition readManifest :: "CustodyManifest option store_call" where
  "readManifest = andNext (access_store (\<lambda>st. st) st_manifest) (\<lambda>item. purely (manifest_of item))"

section \<open>The vault\<close>

definition binding_value :: "SignerBinding \<Rightarrow> js_value" where
  "binding_value b =
     JObj [(''network'', JStr (network_name (sb_network b))), (''masterAccount'', JStr (sb_masterAccount b)),
           (''targetAccount'', JStr (sb_targetAccount b)), (''agentAddress'', JStr (sb_agentAddress b)),
           (''generation'', JNum (sb_generation b))]"

definition custody_entry :: "string \<Rightarrow> SignerBinding \<Rightarrow> js_value" where
  "custody_entry bindingId b =
     JObj [(''bindingId'', JStr bindingId), (''network'', JStr (network_name (sb_network b))),
           (''agentAddress'', JStr (sb_agentAddress b)), (''generation'', JNum (sb_generation b)),
           (''recordVersion'', JNum (IntN 1))]"

definition entry_id :: "js_value \<Rightarrow> js_value" where
  "entry_id v = (case plain_object v of Some entry \<Rightarrow> member entry ''bindingId'' | None \<Rightarrow> JUndefined)"

record stage_input =
  sg_binding :: SignerBinding
  sg_registrationName :: string
  sg_requestedExpiry :: js_number
  sg_secret :: octets

definition secret_value :: "vault_lib \<Rightarrow> stage_input \<Rightarrow> SignerBinding \<Rightarrow> js_value" where
  "secret_value lib inp b =
     JObj [(''version'', JNum (IntN 1)), (''binding'', binding_value b),
           (''registrationName'', JStr (sg_registrationName inp)),
           (''requestedExpiry'', JNum (sg_requestedExpiry inp)),
           (''secretHex'', JStr (drop 2 (cl_toHex lib (sg_secret inp))))]"

text \<open>What is checked before the store is touched: the normalised binding, its ID and the key.\<close>

definition stage_checks :: "vault_lib \<Rightarrow> stage_input \<Rightarrow> (SignerBinding \<times> string \<times> string) result" where
  "stage_checks lib inp =
     bindE (normalizeSignerBinding (cl_getAddress lib) (sg_binding inp)) (\<lambda>b.
     bindE (assertSignerAccessCapability ACTION_CAPABILITIES (sb_network b)) (\<lambda>_.
     bindE (credentialKey lib b) (\<lambda>key.
     bindE (throw_if (\<not> AGENT_REGISTRATION_NAME_PATTERN (sg_registrationName inp) \<or>
                      \<not> isSafeInteger (sg_requestedExpiry inp) \<or> \<not> js_less (IntN 0) (sg_requestedExpiry inp) \<or>
                      \<not> isValidSecp256k1Secret (sg_secret inp))
       (TypeErr ''The protected credential metadata is malformed.'')) (\<lambda>_.
     bindE (custodyBindingId lib b) (\<lambda>bindingId. Inr (b, bindingId, key))))))"

definition next_records :: "CustodyManifest option \<Rightarrow> string \<Rightarrow> SignerBinding \<Rightarrow> js_value list" where
  "next_records existing bindingId b =
     (let entries = (case existing of None \<Rightarrow> [] | Some m \<Rightarrow> cm_records m) in
      if list_ex (\<lambda>v. entry_id v = JStr bindingId) entries then entries else entries @ [custody_entry bindingId b])"

definition manifest_item :: "string \<Rightarrow> js_value list \<Rightarrow> item_text" where
  "manifest_item epoch entries =
     JsonText (JObj [(''version'', JNum (IntN 1)), (''installationEpoch'', JStr epoch), (''records'', JArr entries)])"

text \<open>The manifest is written first, and put back when the secret could not be written.\<close>

definition stage_secret :: "vault_lib \<Rightarrow> string \<Rightarrow> stage_input \<Rightarrow> unit store_call" where
  "stage_secret lib epoch inp =
     andNext (purely (stage_checks lib inp)) (\<lambda>(b, bindingId, key).
     andNext readManifest (\<lambda>existing.
     andNext (purely (throw_if (case existing of None \<Rightarrow> False | Some m \<Rightarrow> cm_epoch m \<noteq> epoch) malformed_record)) (\<lambda>_.
     andNext (set_manifest (Some (manifest_item epoch (next_records existing bindingId b)))) (\<lambda>_.
     catching (set_secret key (Some (JsonText (secret_value lib inp b)))) (\<lambda>e.
       andNext (set_manifest (map_option (\<lambda>m. JsonText (JObj (cm_object m))) existing)) (\<lambda>_.
       purely (Inl e)))))))"

definition network_named :: "string \<Rightarrow> network" where
  "network_named s = (if s = ''mainnet'' then Mainnet else if s = ''testnet'' then Testnet else OtherNetwork s)"

definition binding_of_value :: "js_value \<Rightarrow> SignerBinding option" where
  "binding_of_value v =
     (case plain_object v of
        None \<Rightarrow> None
      | Some obj \<Rightarrow>
          (case (member obj ''network'', member obj ''masterAccount'', member obj ''targetAccount'',
                 member obj ''agentAddress'', member obj ''generation'') of
             (JStr n, JStr m, JStr t, JStr a, JNum g) \<Rightarrow>
               Some \<lparr>sb_network = network_named n, sb_masterAccount = m, sb_targetAccount = t, sb_agentAddress = a,
                     sb_generation = g\<rparr>
           | _ \<Rightarrow> None))"

definition decodeSecret :: "vault_lib \<Rightarrow> string \<Rightarrow> octets result" where
  "decodeSecret lib text =
     (if length text = 64 \<and> list_all is_lower_hex text then Inr (cl_hexToBytes lib (''0x'' @ text))
      else Inl malformed_record)"

text \<open>Everything that goes wrong with the text of a secret is a malformed record.\<close>

definition secret_of :: "vault_lib \<Rightarrow> SignerBinding \<Rightarrow> item_text \<Rightarrow> octets result" where
  "secret_of lib b item =
     (case item of
        OtherText \<Rightarrow> Inl malformed_record
      | JsonText v \<Rightarrow>
          (case plain_object v of
             None \<Rightarrow> Inl malformed_record
           | Some obj \<Rightarrow>
               (case (binding_of_value (member obj ''binding''), member obj ''registrationName'', member obj ''secretHex'') of
                  (Some stored, JStr registrationName, JStr secretHex) \<Rightarrow>
                    if member obj ''version'' = JNum (IntN 1) \<and> AGENT_REGISTRATION_NAME_PATTERN registrationName \<and>
                       safe_at_least 1 (member obj ''requestedExpiry'') \<noteq> None \<and>
                       succeeds (assertSignerBinding (cl_getAddress lib) b stored)
                    then bindE (decodeSecret lib secretHex) (\<lambda>bytes.
                           if isValidSecp256k1Secret bytes then Inr bytes else Inl malformed_record)
                    else Inl malformed_record
                | _ \<Rightarrow> Inl malformed_record)))"

definition read_secret :: "vault_lib \<Rightarrow> SignerBinding \<Rightarrow> (SignerBinding \<times> octets) store_call" where
  "read_secret lib bindingInput =
     andNext (purely (assertSignerAccessCapability ACTION_CAPABILITIES (sb_network bindingInput))) (\<lambda>_.
     andNext (purely (normalizeSignerBinding (cl_getAddress lib) bindingInput)) (\<lambda>b.
     andNext (catching
         (andNext (purely (credentialKey lib b)) (\<lambda>key. access_store (\<lambda>st. st) (\<lambda>st. st_secrets st key)))
         (\<lambda>e. purely (Inl (CredentialUnavailableError ''authentication_failed'')))) (\<lambda>item.
     case item of
       None \<Rightarrow> purely (Inl (CredentialUnavailableError ''missing_or_invalidated''))
     | Some text \<Rightarrow> purely (bindE (secret_of lib b text) (\<lambda>bytes. Inr (b, bytes))))))"

definition without_records :: "CustodyManifest \<Rightarrow> string \<Rightarrow> item_text" where
  "without_records m bindingId =
     JsonText (JObj (map (\<lambda>(k, v). if k = ''records''
       then (k, JArr (filter (\<lambda>e. entry_id e \<noteq> JStr bindingId) (cm_records m))) else (k, v)) (cm_object m)))"

definition delete_secret :: "vault_lib \<Rightarrow> SignerBinding \<Rightarrow> unit store_call" where
  "delete_secret lib bindingInput =
     andNext (purely (assertKnownActionNetwork ACTION_CAPABILITIES (sb_network bindingInput))) (\<lambda>_.
     andNext (purely (normalizeSignerBinding (cl_getAddress lib) bindingInput)) (\<lambda>b.
     andNext (purely (credentialKey lib b)) (\<lambda>key.
     andNext (set_secret key None) (\<lambda>_.
     andNext readManifest (\<lambda>existing.
     case existing of
       None \<Rightarrow> purely (Inr ())
     | Some m \<Rightarrow>
         andNext (purely (custodyBindingId lib b)) (\<lambda>bindingId.
         set_manifest (Some (without_records m bindingId))))))))"

datatype custody_assessment = CustodyClean | CustodyQuarantine

definition assessCustodyInstall :: "bool \<Rightarrow> CustodyManifest option \<Rightarrow> custody_assessment" where
  "assessCustodyInstall installSentinelPresent manifest =
     (if \<not> installSentinelPresent \<and> (case manifest of None \<Rightarrow> 0 | Some m \<Rightarrow> length (cm_records m)) > 0
      then CustodyQuarantine else CustodyClean)"

end
