(* ===== verification/Custody_Laws.thy ===== *)
theory Custody_Laws
  imports Custody
begin

text \<open>
  Wherever a call of the vault ends, every secret in the store is listed in the manifest, so that a
  reinstallation over surviving secrets is noticed, unless the write of the secret was reported to fail though
  it was made.
\<close>

section \<open>How a call ends\<close>

text \<open>\<open>P\<close> holds of every end of a call whose accesses meet with one of the sequences in \<open>ok\<close>.\<close>

definition ends ::
  "(access_outcome list \<Rightarrow> bool) \<Rightarrow> 'a store_call \<Rightarrow> ('a call_end \<Rightarrow> secure_store \<Rightarrow> bool) \<Rightarrow> secure_store \<Rightarrow> bool" where
  "ends ok f P st \<longleftrightarrow> (\<forall>accesses. ok accesses \<longrightarrow> (case f accesses st of (r, rest, st') \<Rightarrow> P r st'))"

lemma endsD: "ends ok f P st \<Longrightarrow> ok accesses \<Longrightarrow> P (fst (f accesses st)) (snd (snd (f accesses st)))"
  by (cases "f accesses st") (auto simp: ends_def)

lemma ends_never [simp]: "ends (\<lambda>accesses. False) f P st"
  by (simp add: ends_def)

lemma ends_purely: "P (case r of Inl e \<Rightarrow> Threw e | Inr x \<Rightarrow> Returned x) st \<Longrightarrow> ends ok (purely r) P st"
  by (simp add: ends_def purely_def)

lemma ends_access:
  assumes "P Interrupted st" "P (Returned (answer st)) (change st)" "P (Threw storage_error) st"
    "P (Threw storage_error) (change st)"
  shows "ends ok (access_store change answer) P st"
  unfolding ends_def
proof (intro allI impI)
  fix accesses :: "access_outcome list"
  show "case access_store change answer accesses st of (r, rest, st') \<Rightarrow> P r st'"
    using assms by (cases "(change, answer, accesses, st)" rule: access_store.cases) auto
qed

lemma ends_access_next:
  assumes "P Interrupted st" "P (Threw storage_error) st" "P (Threw storage_error) (change st)"
    "ends (\<lambda>rest. ok (Works # rest)) (g (answer st)) P (change st)"
  shows "ends ok (andNext (access_store change answer) g) P st"
  unfolding ends_def
proof (intro allI impI)
  fix accesses assume "ok accesses"
  then show "case andNext (access_store change answer) g accesses st of (r, rest, st') \<Rightarrow> P r st'"
    using assms by (cases "(change, answer, accesses, st)" rule: access_store.cases) (auto simp: andNext_def ends_def)
qed

lemma ends_catching_access:
  assumes "P Interrupted st" "P (Returned (answer st)) (change st)"
    "ends (\<lambda>rest. ok (Fails # rest)) (handler storage_error) P st"
    "ends (\<lambda>rest. ok (FailsWritten # rest)) (handler storage_error) P (change st)"
  shows "ends ok (catching (access_store change answer) handler) P st"
  unfolding ends_def
proof (intro allI impI)
  fix accesses assume "ok accesses"
  then show "case catching (access_store change answer) handler accesses st of (r, rest, st') \<Rightarrow> P r st'"
    using assms by (cases "(change, answer, accesses, st)" rule: access_store.cases) (auto simp: catching_def ends_def)
qed

text \<open>A pure step either throws, with nothing changed, or hands on its value.\<close>

lemma ends_pure_next:
  assumes "\<And>e. P (Threw e) st" "\<And>x. r = Inr x \<Longrightarrow> ends ok (g x) P st"
  shows "ends ok (andNext (purely r) g) P st"
  using assms by (cases r) (auto simp: ends_def andNext_def purely_def)

lemma ends_read_manifest:
  assumes "P Interrupted st" "\<And>e. P (Threw e) st"
    "\<And>m. manifest_of (st_manifest st) = Inr m \<Longrightarrow> ends (\<lambda>rest. ok (Works # rest)) (g m) P st"
  shows "ends ok (andNext readManifest g) P st"
proof -
  have "andNext readManifest g = andNext (access_store (\<lambda>st. st) st_manifest) (\<lambda>item. andNext (purely (manifest_of item)) g)"
    by (rule ext)+ (auto simp: readManifest_def andNext_def split: prod.splits call_end.splits)
  then show ?thesis using assms by (auto intro!: ends_access_next ends_pure_next)
qed

section \<open>Manifests\<close>

definition vault_lib_ok :: "vault_lib \<Rightarrow> bool" where
  "vault_lib_ok lib \<longleftrightarrow>
     (\<forall>text. LOWERCASE_HASH_PATTERN (cl_keccak lib text)) \<and>
     (\<forall>a x. cl_getAddress lib a = Some x \<longrightarrow>
        LOWERCASE_ADDRESS_PATTERN (toLowerCase x) \<and> cl_getAddress lib (toLowerCase x) = Some x) \<and>
     (\<forall>bytes. length bytes = 32 \<longrightarrow>
        (\<exists>h. cl_toHex lib bytes = ''0x'' @ h \<and> length h = 64 \<and> list_all is_lower_hex h) \<and>
        cl_hexToBytes lib (cl_toHex lib bytes) = bytes)"

definition records_of :: "CustodyManifest option \<Rightarrow> js_value list" where
  "records_of m = (case m of None \<Rightarrow> [] | Some m \<Rightarrow> cm_records m)"

lemma manifest_of_item:
  "EPOCH_PATTERN epoch \<Longrightarrow> list_all valid_entry entries \<Longrightarrow>
     \<exists>m. manifest_of (Some (manifest_item epoch entries)) = Inr (Some m) \<and> cm_records m = entries"
  by (simp add: manifest_of_def manifest_item_def validateManifest_def)

lemma manifest_ofD:
  assumes "manifest_of item = Inr (Some m)"
  shows "item = Some (JsonText (JObj (cm_object m)))" "list_all valid_entry (cm_records m)"
    "member (cm_object m) ''records'' = JArr (cm_records m)" "EPOCH_PATTERN (cm_epoch m)"
    "member (cm_object m) ''installationEpoch'' = JStr (cm_epoch m)" "member (cm_object m) ''version'' = JNum (IntN 1)"
  using assms
  by (auto simp: manifest_of_def validateManifest_def split: option.splits item_text.splits js_value.splits if_splits)

lemma manifest_back:
  assumes "manifest_of item = Inr m"
  shows "manifest_of (map_option (\<lambda>m. JsonText (JObj (cm_object m))) m) = Inr m"
proof (cases m)
  case (Some a)
  with assms manifest_ofD(1) [of item a] show ?thesis by simp
qed (simp add: manifest_of_def)

lemma member_replace_other:
  "k \<noteq> key \<Longrightarrow> member (map (\<lambda>(k, v). if k = key then (k, w) else (k, v)) obj) k = member obj k"
  by (induction obj) auto

lemma member_replace_same:
  "member obj key \<noteq> JUndefined \<Longrightarrow> member (map (\<lambda>(k, v). if k = key then (k, w) else (k, v)) obj) key = w"
  by (induction obj) auto

lemma manifest_without:
  assumes "manifest_of item = Inr (Some m)"
  shows "\<exists>m'. manifest_of (Some (without_records m bindingId)) = Inr (Some m') \<and>
    cm_records m' = filter (\<lambda>e. entry_id e \<noteq> JStr bindingId) (cm_records m)"
proof -
  note m = manifest_ofD [OF assms]
  from m(2) have "list_all valid_entry (filter (\<lambda>e. entry_id e \<noteq> JStr bindingId) (cm_records m))"
    by (auto simp: list_all_iff)
  with m(3-6) show ?thesis
    by (simp add: manifest_of_def without_records_def validateManifest_def member_replace_other member_replace_same)
qed

lemma valid_custody_entry:
  assumes "vault_lib_ok lib" "normalizeSignerBinding (cl_getAddress lib) input = Inr b"
    and "assertSignerAccessCapability ACTION_CAPABILITIES (sb_network b) = Inr u" "LOWERCASE_HASH_PATTERN bindingId"
  shows "valid_entry (custody_entry bindingId b)"
  using assms(3,4)
  by (rule_tac normalizeSignerBinding_Inr [OF assms(2)])
    (use assms(1) in \<open>auto simp: valid_entry_def custody_entry_def vault_lib_ok_def assertSignerAccess_Inr\<close>)

section \<open>Every secret is listed\<close>

text \<open>Every secret in the store but those in \<open>lost\<close> has an entry.\<close>

definition listed_in :: "string set \<Rightarrow> js_value list \<Rightarrow> secure_store \<Rightarrow> bool" where
  "listed_in lost entries st \<longleftrightarrow>
     (\<forall>key. st_secrets st key \<noteq> None \<longrightarrow> key \<notin> lost \<longrightarrow>
        (\<exists>v \<in> set entries. \<exists>i. entry_id v = JStr i \<and> LOWERCASE_HASH_PATTERN i \<and> key = ''agent.'' @ drop 2 i))"

definition custody_ok :: "string set \<Rightarrow> secure_store \<Rightarrow> bool" where
  "custody_ok lost st \<longleftrightarrow> (\<exists>m. manifest_of (st_manifest st) = Inr m \<and> listed_in lost (records_of m) st)"

lemma custody_ok_mono: "custody_ok lost st \<Longrightarrow> lost \<subseteq> wider \<Longrightarrow> custody_ok wider st"
  by (fastforce simp: custody_ok_def listed_in_def)

lemma listed_in_mono:
  "listed_in lost entries st \<Longrightarrow> set entries \<subseteq> set entries' \<Longrightarrow> listed_in lost entries' (st\<lparr>st_manifest := item\<rparr>)"
  by (fastforce simp: listed_in_def)

lemma listed_in_secret:
  "listed_in lost entries st \<Longrightarrow> v \<in> set entries \<Longrightarrow> entry_id v = JStr i \<Longrightarrow> LOWERCASE_HASH_PATTERN i \<Longrightarrow>
     listed_in lost entries (st\<lparr>st_secrets := (st_secrets st)(''agent.'' @ drop 2 i := item)\<rparr>)"
  by (auto simp: listed_in_def)

lemma listed_in_lost:
  "listed_in lost entries st \<Longrightarrow> key \<in> lost \<Longrightarrow> listed_in lost entries (st\<lparr>st_secrets := (st_secrets st)(key := item)\<rparr>)"
  by (auto simp: listed_in_def)

lemma next_records_listed:
  "set (records_of m) \<subseteq> set (next_records m i b)" "\<exists>v \<in> set (next_records m i b). entry_id v = JStr i"
  by (auto simp: next_records_def records_of_def Let_def list_ex_iff entry_id_def custody_entry_def split: option.splits)

lemma next_records_valid:
  "list_all valid_entry (records_of m) \<Longrightarrow> valid_entry (custody_entry i b) \<Longrightarrow> list_all valid_entry (next_records m i b)"
  by (auto simp: next_records_def records_of_def Let_def split: option.splits)

text \<open>
  The manifest may be put back over a secret that is there only when the write of the secret, the third
  access of a staging, failed and was made.
\<close>

lemma stage_custody:
  assumes lib: "vault_lib_ok lib" and epoch: "EPOCH_PATTERN epoch" and start: "custody_ok lost st"
    and lost: "\<And>b i key rest. stage_checks lib inp = Inr (b, i, key) \<Longrightarrow> ok (Works # Works # FailsWritten # rest) \<Longrightarrow> key \<in> lost"
  shows "ends ok (stage_secret lib epoch inp) (\<lambda>r. custody_ok lost) st"
  unfolding stage_secret_def
proof (rule ends_pure_next)
  show "custody_ok lost st" by (rule start)
  fix x assume x: "stage_checks lib inp = Inr x"
  obtain b bindingId key where bk: "x = (b, bindingId, key)" by (cases x)
  from x bk obtain u where b: "normalizeSignerBinding (cl_getAddress lib) (sg_binding inp) = Inr b"
    and net: "assertSignerAccessCapability ACTION_CAPABILITIES (sb_network b) = Inr u"
    and i: "custodyBindingId lib b = Inr bindingId" and k: "key = ''agent.'' @ drop 2 bindingId"
    by (auto simp: stage_checks_def credentialKey_def)
  from i lib have h: "LOWERCASE_HASH_PATTERN bindingId" by (auto simp: custodyBindingId_def vault_lib_ok_def)
  note entry = valid_custody_entry [OF lib b net h]
  show "ends ok (case x of (b, bindingId, key) \<Rightarrow>
      andNext readManifest (\<lambda>existing.
      andNext (purely (throw_if (case existing of None \<Rightarrow> False | Some m \<Rightarrow> cm_epoch m \<noteq> epoch) malformed_record)) (\<lambda>_.
      andNext (set_manifest (Some (manifest_item epoch (next_records existing bindingId b)))) (\<lambda>_.
      catching (set_secret key (Some (JsonText (secret_value lib inp b)))) (\<lambda>e.
        andNext (set_manifest (map_option (\<lambda>m. JsonText (JObj (cm_object m))) existing)) (\<lambda>_.
        purely (Inl e))))))) (\<lambda>r. custody_ok lost) st"
    unfolding bk prod.case
  proof (rule ends_read_manifest)
    fix m assume m: "manifest_of (st_manifest st) = Inr m"
    with start have listed: "listed_in lost (records_of m) st" by (auto simp: custody_ok_def)
    have "list_all valid_entry (records_of m)"
      using m manifest_ofD(2) [of "st_manifest st"] by (cases m) (auto simp: records_of_def)
    from manifest_of_item [OF epoch next_records_valid [OF this entry]] obtain m'
      where m': "manifest_of (Some (manifest_item epoch (next_records m bindingId b))) = Inr (Some m')"
        "cm_records m' = next_records m bindingId b" by blast
    let ?restored = "map_option (\<lambda>m. JsonText (JObj (cm_object m))) m"
    define st1 where "st1 = st\<lparr>st_manifest := Some (manifest_item epoch (next_records m bindingId b))\<rparr>"
    define st2 where "st2 = st1\<lparr>st_secrets := (st_secrets st1)(key := Some (JsonText (secret_value lib inp b)))\<rparr>"
    have l1: "listed_in lost (next_records m bindingId b) st1"
      unfolding st1_def by (rule listed_in_mono [OF listed next_records_listed(1)])
    with m' have ok1: "custody_ok lost st1" by (auto simp: custody_ok_def st1_def records_of_def)
    have ok2: "custody_ok lost st2"
      using l1 m' next_records_listed(2) [of m bindingId b] listed_in_secret [OF l1, of _ bindingId] h
      unfolding k custody_ok_def st2_def st1_def records_of_def by fastforce
    have ok3: "custody_ok lost (st1\<lparr>st_manifest := ?restored\<rparr>)"
      using manifest_back [OF m] listed_in_mono [OF listed subset_refl]
      by (auto simp: custody_ok_def st1_def listed_in_def)
    have ok4: "custody_ok lost (st2\<lparr>st_manifest := ?restored\<rparr>)" if "key \<in> lost"
      using manifest_back [OF m] listed_in_mono [OF listed_in_lost [OF listed that] subset_refl]
      by (auto simp: custody_ok_def st2_def st1_def listed_in_def)
    have undo: "ends ok' (andNext (set_manifest ?restored) (\<lambda>_. purely (Inl e))) (\<lambda>r. custody_ok lost) st'"
      if "custody_ok lost st'" "custody_ok lost (st'\<lparr>st_manifest := ?restored\<rparr>)" for e :: js_error and st' ok'
      unfolding set_manifest_def using that by (auto intro!: ends_access_next ends_purely)
    have lost_write: "ends (\<lambda>rest. ok (Works # Works # FailsWritten # rest))
        (andNext (set_manifest ?restored) (\<lambda>_. purely (Inl e))) (\<lambda>r. custody_ok lost) st2" for e :: js_error
    proof (cases "\<exists>rest. ok (Works # Works # FailsWritten # rest)")
      case True
      with lost x bk undo [OF ok2 ok4] show ?thesis by blast
    qed (simp add: ends_def)
    have written: "ends (\<lambda>rest. ok (Works # Works # rest))
        (catching (set_secret key (Some (JsonText (secret_value lib inp b)))) (\<lambda>e.
          andNext (set_manifest ?restored) (\<lambda>_. purely (Inl e)))) (\<lambda>r. custody_ok lost) st1"
      unfolding set_secret_def
      by (rule ends_catching_access) (simp_all add: ok1 undo ok3 flip: st2_def, simp_all add: ok2 lost_write)
    show "ends (\<lambda>rest. ok (Works # rest))
        (andNext (purely (throw_if (case m of None \<Rightarrow> False | Some m \<Rightarrow> cm_epoch m \<noteq> epoch) malformed_record)) (\<lambda>_.
      andNext (set_manifest (Some (manifest_item epoch (next_records m bindingId b)))) (\<lambda>_.
      catching (set_secret key (Some (JsonText (secret_value lib inp b)))) (\<lambda>e.
        andNext (set_manifest ?restored) (\<lambda>_. purely (Inl e)))))) (\<lambda>r. custody_ok lost) st"
      unfolding set_manifest_def [of "Some (manifest_item epoch (next_records m bindingId b))"]
      by (intro ends_pure_next ends_access_next) (simp_all add: start written ok1 flip: st1_def)
  qed (rule start)+
qed

text \<open>A deletion removes the secret first and its entry afterwards.\<close>

lemma hash_same:
  "LOWERCASE_HASH_PATTERN i \<Longrightarrow> LOWERCASE_HASH_PATTERN j \<Longrightarrow> drop 2 i = drop 2 j \<Longrightarrow> i = j"
  by (auto simp: LOWERCASE_HASH_PATTERN_def prefixed_iff)

lemma delete_custody:
  assumes lib: "vault_lib_ok lib" and start: "custody_ok lost st"
  shows "ends ok (delete_secret lib binding) (\<lambda>r. custody_ok lost) st"
  unfolding delete_secret_def
proof (intro ends_pure_next start)
  fix b key assume "credentialKey lib b = Inr key"
  then obtain i where i: "custodyBindingId lib b = Inr i" and key: "key = ''agent.'' @ drop 2 i"
    by (auto simp: credentialKey_def)
  from i lib have h: "LOWERCASE_HASH_PATTERN i" by (auto simp: custodyBindingId_def vault_lib_ok_def)
  define st1 where "st1 = st\<lparr>st_secrets := (st_secrets st)(key := None)\<rparr>"
  from start obtain m where m: "manifest_of (st_manifest st) = Inr m" and l: "listed_in lost (records_of m) st"
    by (auto simp: custody_ok_def)
  have ok1: "custody_ok lost st1" using m l by (auto simp: custody_ok_def st1_def listed_in_def)
  have cleared: "custody_ok lost (st1\<lparr>st_manifest := Some (without_records m0 i)\<rparr>)" if "m = Some m0" for m0
  proof -
    from manifest_without [OF m [unfolded that]] obtain m' where m':
      "manifest_of (Some (without_records m0 i)) = Inr (Some m')"
      "cm_records m' = filter (\<lambda>e. entry_id e \<noteq> JStr i) (cm_records m0)" by blast
    have "\<exists>v \<in> set (cm_records m'). \<exists>j. entry_id v = JStr j \<and> LOWERCASE_HASH_PATTERN j \<and> k = ''agent.'' @ drop 2 j"
      if k: "st_secrets st1 k \<noteq> None" "k \<notin> lost" for k
    proof -
      from k have "st_secrets st k \<noteq> None" "k \<noteq> key" by (auto simp: st1_def split: if_splits)
      with l k(2) obtain v j where v: "v \<in> set (cm_records m0)" "entry_id v = JStr j" "LOWERCASE_HASH_PATTERN j"
          "k = ''agent.'' @ drop 2 j"
        using \<open>m = Some m0\<close> by (fastforce simp: listed_in_def records_of_def)
      with \<open>k \<noteq> key\<close> have "j \<noteq> i" by (auto simp: key)
      with v m'(2) show ?thesis by (intro bexI [of _ v]) auto
    qed
    with m' show ?thesis by (auto simp: custody_ok_def listed_in_def records_of_def)
  qed
  have st1_manifest: "st_manifest st1 = st_manifest st" by (simp add: st1_def)
  have "ends ok' (andNext readManifest (\<lambda>existing.
      case existing of
        None \<Rightarrow> purely (Inr ())
      | Some m \<Rightarrow> andNext (purely (custodyBindingId lib b)) (\<lambda>bindingId.
          set_manifest (Some (without_records m bindingId))))) (\<lambda>r. custody_ok lost) st1" for ok'
  proof (rule ends_read_manifest)
    fix m1 assume "manifest_of (st_manifest st1) = Inr m1"
    with m st1_manifest have m1: "m1 = m" by simp
    have "ends ok'' (set_manifest (Some (without_records m0 i))) (\<lambda>r. custody_ok lost) st1" if "m = Some m0" for m0 ok''
      unfolding set_manifest_def by (rule ends_access) (simp_all add: ok1 cleared [OF that])
    then show "ends (\<lambda>rest. ok' (Works # rest)) (case m1 of
        None \<Rightarrow> purely (Inr ())
      | Some m \<Rightarrow> andNext (purely (custodyBindingId lib b)) (\<lambda>bindingId.
          set_manifest (Some (without_records m bindingId)))) (\<lambda>r. custody_ok lost) st1"
      by (cases m) (auto simp: m1 i ok1 intro!: ends_pure_next ends_purely)
  qed (rule ok1)+
  then show "ends ok (andNext (set_secret key None) (\<lambda>_. andNext readManifest (\<lambda>existing.
      case existing of
        None \<Rightarrow> purely (Inr ())
      | Some m \<Rightarrow> andNext (purely (custodyBindingId lib b)) (\<lambda>bindingId.
          set_manifest (Some (without_records m bindingId)))))) (\<lambda>r. custody_ok lost) st"
    unfolding set_secret_def using ok1 start by (auto intro!: ends_access_next simp flip: st1_def)
qed

end
