(* ===== verification/Custody_Properties.thy ===== *)
theory Custody_Properties
  imports Custody_Laws
begin

text \<open>
  What holds of the custody of secrets over every run of calls of the vault: secrets that survive a
  deinstallation are noticed, and a staged secret is read back as it was.
\<close>

section \<open>Runs of the vault\<close>

datatype vault_call = StageCall stage_input | DeleteCall SignerBinding

text \<open>A call and what its accesses meet with; a call that is interrupted leaves the store as it is then.\<close>

definition vault_step :: "vault_lib \<Rightarrow> string \<Rightarrow> secure_store \<Rightarrow> vault_call \<times> access_outcome list \<Rightarrow> secure_store" where
  "vault_step lib epoch st call =
     (case call of
        (StageCall inp, accesses) \<Rightarrow> snd (snd (stage_secret lib epoch inp accesses st))
      | (DeleteCall binding, accesses) \<Rightarrow> snd (snd (delete_secret lib binding accesses st)))"

definition vault_run :: "vault_lib \<Rightarrow> string \<Rightarrow> (vault_call \<times> access_outcome list) list \<Rightarrow> secure_store" where
  "vault_run lib epoch calls = foldl (vault_step lib epoch) empty_store calls"

text \<open>The keys of the secrets whose write was reported to fail though it was made.\<close>

definition lost_writes :: "vault_lib \<Rightarrow> (vault_call \<times> access_outcome list) list \<Rightarrow> string set" where
  "lost_writes lib calls =
     {key. \<exists>inp rest b i. (StageCall inp, Works # Works # FailsWritten # rest) \<in> set calls \<and>
        stage_checks lib inp = Inr (b, i, key)}"

lemma vault_step_custody:
  assumes "vault_lib_ok lib" "EPOCH_PATTERN epoch" "custody_ok lost st" "lost_writes lib [call] \<subseteq> lost"
  shows "custody_ok lost (vault_step lib epoch st call)"
proof -
  obtain c accesses where call: "call = (c, accesses)" by fastforce
  show ?thesis
  proof (cases c)
    case (StageCall inp)
    have "ends (\<lambda>a. a = accesses) (stage_secret lib epoch inp) (\<lambda>r. custody_ok lost) st"
      by (rule stage_custody [OF assms(1-3)]) (use assms(4) in \<open>auto simp: lost_writes_def call StageCall\<close>)
    from endsD [OF this refl] show ?thesis by (simp add: vault_step_def call StageCall)
  next
    case (DeleteCall binding)
    from endsD [OF delete_custody [OF assms(1,3), of "\<lambda>a. True"]] show ?thesis
      by (simp add: vault_step_def call DeleteCall)
  qed
qed

lemma vault_run_custody:
  assumes "vault_lib_ok lib" "EPOCH_PATTERN epoch"
  shows "custody_ok (lost_writes lib calls) (vault_run lib epoch calls)"
proof -
  have "custody_ok lost (foldl (vault_step lib epoch) st calls)"
    if "custody_ok lost st" "lost_writes lib calls \<subseteq> lost" for lost st calls
    using that
  proof (induction calls arbitrary: st)
    case (Cons call calls)
    from Cons.prems(2) have "lost_writes lib [call] \<subseteq> lost" "lost_writes lib calls \<subseteq> lost"
      by (auto simp: lost_writes_def)
    with Cons vault_step_custody [OF assms Cons.prems(1)] show ?case by simp
  qed simp
  moreover have "custody_ok lost empty_store" for lost
    by (simp add: custody_ok_def empty_store_def manifest_of_def listed_in_def)
  ultimately show ?thesis by (simp add: vault_run_def)
qed

text \<open>
  C31. Secrets survive a deinstallation in the keychain, and the sentinel of the installation does not. After any
  calls of the vault, with accesses that fail, with or without having written, and processes that end at any
  point: a secret that is in the store is listed in a manifest that can be read, and a new installation over it is
  quarantined; or a staging of this very secret met a write of it that was reported to fail though it was made.
\<close>

theorem surviving_credentials_are_detected:
  assumes "vault_lib_ok lib" "EPOCH_PATTERN epoch" "st_secrets (vault_run lib epoch calls) key \<noteq> None"
  shows "(\<exists>m. manifest_of (st_manifest (vault_run lib epoch calls)) = Inr (Some m) \<and>
      (\<exists>v i. v \<in> set (cm_records m) \<and> valid_entry v \<and> entry_id v = JStr i \<and> key = ''agent.'' @ drop 2 i) \<and>
      assessCustodyInstall False (Some m) = CustodyQuarantine) \<or>
    (\<exists>inp rest b i. (StageCall inp, Works # Works # FailsWritten # rest) \<in> set calls \<and>
      stage_checks lib inp = Inr (b, i, key))"
proof (cases "key \<in> lost_writes lib calls")
  case False
  with vault_run_custody [OF assms(1,2), of calls] assms(3) obtain m v i
    where m: "manifest_of (st_manifest (vault_run lib epoch calls)) = Inr m" "v \<in> set (records_of m)"
      "entry_id v = JStr i" "key = ''agent.'' @ drop 2 i"
    by (fastforce simp: custody_ok_def listed_in_def)
  from m(2) obtain m0 where m0: "m = Some m0" by (cases m) (auto simp: records_of_def)
  with m manifest_ofD(2) [of _ m0] show ?thesis
    by (auto simp: records_of_def list_all_iff assessCustodyInstall_def length_greater_0_conv split: option.splits)
qed (simp add: lost_writes_def)

section \<open>What is staged is read back\<close>

lemma andNext_Returned:
  "andNext f g accesses st = (Returned y, rest, st') \<longleftrightarrow>
     (\<exists>x between st1. f accesses st = (Returned x, between, st1) \<and> g x between st1 = (Returned y, rest, st'))"
  by (auto simp: andNext_def split: prod.splits call_end.splits)

lemma purely_Returned: "purely r accesses st = (Returned x, rest, st') \<longleftrightarrow> r = Inr x \<and> rest = accesses \<and> st' = st"
  by (auto simp: purely_def split: sum.splits)

lemma access_Returned:
  "access_store change answer accesses st = (Returned x, rest, st') \<longleftrightarrow>
     accesses = Works # rest \<and> x = answer st \<and> st' = change st"
  by (cases "(change, answer, accesses, st)" rule: access_store.cases) auto

lemma catching_Returned:
  assumes "\<And>e more st1. handler e more st1 \<noteq> (Returned x, rest, st')"
  shows "catching f handler accesses st = (Returned x, rest, st') \<longleftrightarrow> f accesses st = (Returned x, rest, st')"
  using assms by (auto simp: catching_def split: prod.splits call_end.splits)

lemmas returned_simps = andNext_Returned purely_Returned access_Returned

lemma network_named_name: "n = Mainnet \<or> n = Testnet \<Longrightarrow> network_named (network_name n) = n"
  by (auto simp: network_named_def)

lemma binding_roundtrip:
  "sb_network b = Mainnet \<or> sb_network b = Testnet \<Longrightarrow> binding_of_value (binding_value b) = Some b"
  by (simp add: binding_of_value_def binding_value_def network_named_name)

lemma normalize_twice:
  assumes "vault_lib_ok lib" "normalizeSignerBinding (cl_getAddress lib) input = Inr b"
  shows "normalizeSignerBinding (cl_getAddress lib) b = Inr b"
proof (rule normalizeSignerBinding_Inr [OF assms(2)])
  fix g m t a
  assume f: "sb_generation input = IntN g" "safe_int g" "1 \<le> g" "cl_getAddress lib (sb_masterAccount input) = Some m"
    "cl_getAddress lib (sb_targetAccount input) = Some t" "cl_getAddress lib (sb_agentAddress input) = Some a"
    and b: "b = input\<lparr>sb_masterAccount := toLowerCase m, sb_targetAccount := toLowerCase t, sb_agentAddress := toLowerCase a\<rparr>"
  from f(4-6) assms(1) have "cl_getAddress lib (toLowerCase m) = Some m" "cl_getAddress lib (toLowerCase t) = Some t"
    "cl_getAddress lib (toLowerCase a) = Some a"
    by (auto simp: vault_lib_ok_def)
  with f b show ?thesis by (simp add: normalizeSignerBinding_def isSafeInteger_iff)
qed

lemma secret_of_staged:
  assumes lib: "vault_lib_ok lib" and checks: "stage_checks lib inp = Inr (b, bindingId, key)"
  shows "secret_of lib b (JsonText (secret_value lib inp b)) = Inr (sg_secret inp)"
proof -
  from checks obtain u where b: "normalizeSignerBinding (cl_getAddress lib) (sg_binding inp) = Inr b"
    and net: "assertSignerAccessCapability ACTION_CAPABILITIES (sb_network b) = Inr u"
    and name: "AGENT_REGISTRATION_NAME_PATTERN (sg_registrationName inp)"
    and expiry: "isSafeInteger (sg_requestedExpiry inp)" "js_less (IntN 0) (sg_requestedExpiry inp)"
    and secret: "isValidSecp256k1Secret (sg_secret inp)"
    by (auto simp: stage_checks_def)
  from net have n: "sb_network b = Mainnet \<or> sb_network b = Testnet" by (simp add: assertSignerAccess_Inr)
  from secret have "length (sg_secret inp) = 32" by (simp add: isValidSecp256k1Secret_def)
  with lib obtain h where h: "cl_toHex lib (sg_secret inp) = ''0x'' @ h" "length h = 64" "list_all is_lower_hex h"
    and bytes_back: "cl_hexToBytes lib (cl_toHex lib (sg_secret inp)) = sg_secret inp"
    by (auto simp: vault_lib_ok_def)
  from expiry have e: "safe_at_least 1 (JNum (sg_requestedExpiry inp)) \<noteq> None" by (auto simp: isSafeInteger_iff)
  from normalize_twice [OF lib b] have "assertSignerBinding (cl_getAddress lib) b b = Inr ()"
    by (simp add: assertSignerBinding_Inr)
  then have "succeeds (assertSignerBinding (cl_getAddress lib) b b)" by (simp add: succeeds_def)
  moreover from h bytes_back have "decodeSecret lib (drop 2 (cl_toHex lib (sg_secret inp))) = Inr (sg_secret inp)"
    by (simp add: decodeSecret_def)
  ultimately show ?thesis
    using e name secret by (simp add: secret_of_def secret_value_def binding_roundtrip [OF n])
qed

text \<open>
  C32. When a staging returns, whatever was in the store, a reading of the same binding that reaches the store
  returns the normalised binding and the very bytes that were staged.
\<close>

theorem staged_secret_is_read_back:
  assumes "vault_lib_ok lib" "stage_secret lib epoch inp accesses st = (Returned (), rest, st')"
  shows "\<exists>b. normalizeSignerBinding (cl_getAddress lib) (sg_binding inp) = Inr b \<and>
    read_secret lib (sg_binding inp) (Works # later) st' = (Returned (b, sg_secret inp), later, st')"
proof -
  from assms(2) obtain b bindingId key where checks: "stage_checks lib inp = Inr (b, bindingId, key)"
    and stored: "st_secrets st' key = Some (JsonText (secret_value lib inp b))"
    by (auto simp: stage_secret_def returned_simps set_secret_def set_manifest_def catching_Returned split: prod.splits)
  from checks obtain u where b: "normalizeSignerBinding (cl_getAddress lib) (sg_binding inp) = Inr b"
    and net: "assertSignerAccessCapability ACTION_CAPABILITIES (sb_network b) = Inr u"
    and key: "credentialKey lib b = Inr key"
    by (auto simp: stage_checks_def)
  from normalizeSignerBinding_network [OF b] net
  have "assertSignerAccessCapability ACTION_CAPABILITIES (sb_network (sg_binding inp)) = Inr ()" by simp
  with b key stored secret_of_staged [OF assms(1) checks] show ?thesis
    by (simp add: read_secret_def andNext_def purely_def catching_def)
qed

section \<open>A concrete vault\<close>

definition nibble :: "nat \<Rightarrow> char" where
  "nibble n = (if n < 10 then char_of (48 + n) else char_of (87 + n))"

definition of_nibble :: "char \<Rightarrow> nat" where
  "of_nibble c = (if code c < 58 then code c - 48 else code c - 87)"

fun hex_text :: "octets \<Rightarrow> string" where
  "hex_text [] = []"
| "hex_text (w # bytes) = nibble (unat w div 16) # nibble (unat w mod 16) # hex_text bytes"

fun text_octets :: "string \<Rightarrow> octets" where
  "text_octets (c # d # rest) = of_nat (16 * of_nibble c + of_nibble d) # text_octets rest"
| "text_octets _ = []"

lemma nibble_ok: "n < 16 \<Longrightarrow> is_lower_hex (nibble n) \<and> of_nibble (nibble n) = n"
  by (auto simp: nibble_def of_nibble_def is_lower_hex_def is_digit_def)

lemma hex_text_ok:
  "length (hex_text bytes) = 2 * length bytes" "list_all is_lower_hex (hex_text bytes)" "text_octets (hex_text bytes) = bytes"
proof (induction bytes)
  case (Cons w bytes)
  have "unat w < 2 ^ LENGTH(8)" by (rule unsigned_less)
  then have "unat w div 16 < 16" "unat w mod 16 < 16" by auto
  with Cons nibble_ok show "length (hex_text (w # bytes)) = 2 * length (w # bytes)"
    "list_all is_lower_hex (hex_text (w # bytes))" "text_octets (hex_text (w # bytes)) = w # bytes"
    by simp_all
qed simp_all

definition sample_vault :: vault_lib where
  "sample_vault = \<lparr>cl_getAddress = (\<lambda>a. if LOWERCASE_ADDRESS_PATTERN a then Some a else None),
     cl_keccak = (\<lambda>text. ''0x'' @ replicate 64 (CHR ''a'')),
     cl_toHex = (\<lambda>bytes. ''0x'' @ hex_text bytes), cl_hexToBytes = (\<lambda>text. text_octets (drop 2 text))\<rparr>"

lemma toLowerCase_prefix: "toLowerCase ''0x'' = ''0x''"
  by code_simp

lemma sample_vault_ok: "vault_lib_ok sample_vault"
  unfolding vault_lib_ok_def
proof (intro conjI allI impI)
  show "LOWERCASE_HASH_PATTERN (cl_keccak sample_vault s)" for s
    by (simp add: sample_vault_def) code_simp
  fix a x assume "cl_getAddress sample_vault a = Some x"
  then have "LOWERCASE_ADDRESS_PATTERN a" "x = a" by (auto simp: sample_vault_def split: if_splits)
  moreover from this have "toLowerCase a = a"
    using prefixed_lower_fixed [OF _ toLowerCase_prefix] by (simp only: LOWERCASE_ADDRESS_PATTERN_def)
  ultimately show "LOWERCASE_ADDRESS_PATTERN (toLowerCase x)" "cl_getAddress sample_vault (toLowerCase x) = Some x"
    by (auto simp: sample_vault_def)
next
  fix bytes :: octets assume "length bytes = 32"
  then show "\<exists>h. cl_toHex sample_vault bytes = ''0x'' @ h \<and> length h = 64 \<and> list_all is_lower_hex h"
    by (simp add: sample_vault_def hex_text_ok)
  show "cl_hexToBytes sample_vault (cl_toHex sample_vault bytes) = bytes"
    by (simp add: sample_vault_def hex_text_ok)
qed

definition vault_epoch :: string where "vault_epoch = ''epoch_0123456789''"

definition vault_input :: stage_input where
  "vault_input = \<lparr>
     sg_binding = \<lparr>sb_network = Testnet, sb_masterAccount = ''0x00000000000000000000000000000000000000aa'',
       sb_targetAccount = ''0x00000000000000000000000000000000000000aa'',
       sb_agentAddress = ''0x00000000000000000000000000000000000000bb'', sb_generation = IntN 1\<rparr>,
     sg_registrationName = ''trader'', sg_requestedExpiry = IntN 1000, sg_secret = replicate 31 0 @ [5]\<rparr>"

definition vault_id :: string where "vault_id = ''0x'' @ replicate 64 (CHR ''a'')"

definition vault_entries :: "js_value list" where
  "vault_entries = [custody_entry vault_id (sg_binding vault_input)]"

lemma vault_checks:
  "stage_checks sample_vault vault_input = Inr (sg_binding vault_input, vault_id, ''agent.'' @ replicate 64 (CHR ''a''))"
proof -
  have "normalizeSignerBinding (cl_getAddress sample_vault) (sg_binding vault_input) = Inr (sg_binding vault_input)"
    "assertSignerAccessCapability ACTION_CAPABILITIES (sb_network (sg_binding vault_input)) = Inr ()"
    "custodyBindingId sample_vault (sg_binding vault_input) = Inr vault_id"
    "AGENT_REGISTRATION_NAME_PATTERN (sg_registrationName vault_input)"
    "isSafeInteger (sg_requestedExpiry vault_input)" "js_less (IntN 0) (sg_requestedExpiry vault_input)"
    "isValidSecp256k1Secret (sg_secret vault_input)"
    by code_simp+
  then show ?thesis by (simp add: stage_checks_def credentialKey_def vault_id_def throw_if_def)
qed

lemma vault_records: "next_records None vault_id (sg_binding vault_input) = vault_entries"
  by (simp add: next_records_def vault_entries_def)

lemma vault_manifest: "manifest_of (Some (manifest_item vault_epoch vault_entries)) =
    Inr (Some \<lparr>cm_object = [(''version'', JNum (IntN 1)), (''installationEpoch'', JStr vault_epoch), (''records'', JArr vault_entries)],
      cm_epoch = vault_epoch, cm_records = vault_entries\<rparr>)"
  by code_simp

lemma vault_staged:
  "stage_secret sample_vault vault_epoch vault_input (Works # Works # last_access # rest) empty_store = 
   (let st = \<lparr>st_manifest = Some (manifest_item vault_epoch vault_entries), st_secrets = (\<lambda>_. None)\<rparr>;
        written = st\<lparr>st_secrets := [''agent.'' @ replicate 64 (CHR ''a'') \<mapsto> JsonText (secret_value sample_vault vault_input (sg_binding vault_input))]\<rparr>;
        undo = andNext (set_manifest None) (\<lambda>_. purely (Inl storage_error)) rest in
    case last_access of
      Works \<Rightarrow> (Returned (), rest, written)
    | Fails \<Rightarrow> undo st
    | FailsWritten \<Rightarrow> undo written
    | Interrupts \<Rightarrow> (Interrupted, [], st))"
  by (cases last_access)
    (simp_all add: stage_secret_def vault_checks vault_records andNext_def purely_def catching_def readManifest_def set_manifest_def
      set_secret_def manifest_of_def empty_store_def throw_if_def Let_def)

text \<open>A first staging fails to write the secret, a second one succeeds, and the process ends in a deletion.\<close>

definition vault_calls :: "(vault_call \<times> access_outcome list) list" where
  "vault_calls =
     [(StageCall vault_input, [Works, Works, Fails, Works]), (StageCall vault_input, [Works, Works, Works]),
      (DeleteCall (sg_binding vault_input), [Interrupts])]"

lemma vault_run_sample:
  "vault_run sample_vault vault_epoch vault_calls =
     \<lparr>st_manifest = Some (manifest_item vault_epoch vault_entries),
      st_secrets = [''agent.'' @ replicate 64 (CHR ''a'') \<mapsto> JsonText (secret_value sample_vault vault_input (sg_binding vault_input))]\<rparr>"
proof -
  have "snd (snd (delete_secret sample_vault (sg_binding vault_input) [Interrupts] st)) = st" for st
    by (auto simp: delete_secret_def andNext_def purely_def set_secret_def split: call_end.splits prod.splits sum.splits)
  then show ?thesis
    by (simp add: vault_run_def vault_calls_def vault_step_def vault_staged Let_def andNext_def set_manifest_def purely_def
        flip: empty_store_def)
qed

theorem surviving_credentials_are_detected_witness:
  "st_secrets (vault_run sample_vault vault_epoch vault_calls) (''agent.'' @ replicate 64 (CHR ''a'')) \<noteq> None \<and>
   (\<exists>m. manifest_of (st_manifest (vault_run sample_vault vault_epoch vault_calls)) = Inr (Some m) \<and>
     assessCustodyInstall False (Some m) = CustodyQuarantine)"
proof -
  have "EPOCH_PATTERN vault_epoch" by code_simp
  moreover have "(StageCall inp, Works # Works # FailsWritten # rest) \<notin> set vault_calls" for inp rest
    by (simp add: vault_calls_def)
  moreover have "st_secrets (vault_run sample_vault vault_epoch vault_calls) (''agent.'' @ replicate 64 (CHR ''a'')) \<noteq> None"
    by (simp add: vault_run_sample)
  ultimately show ?thesis
    using surviving_credentials_are_detected [OF sample_vault_ok] by blast
qed

theorem staged_secret_is_read_back_witness:
  "\<exists>st b. stage_secret sample_vault vault_epoch vault_input [Works, Works, Works] empty_store = (Returned (), [], st) \<and>
     read_secret sample_vault (sg_binding vault_input) [Works] st = (Returned (b, sg_secret vault_input), [], st)"
  using staged_secret_is_read_back [OF sample_vault_ok, of vault_epoch vault_input "[Works, Works, Works]" empty_store "[]" _ "[]"]
  by (auto simp: vault_staged Let_def)

text \<open>
  The second case is real: when the write of the secret is reported to fail though it was made, the manifest
  is put back, and the secret stays in the store, listed nowhere.
\<close>

lemma failed_write_may_leave_a_secret:
  "let st = vault_run sample_vault vault_epoch [(StageCall vault_input, [Works, Works, FailsWritten, Works])] in
   st_secrets st (''agent.'' @ replicate 64 (CHR ''a'')) \<noteq> None \<and> manifest_of (st_manifest st) = Inr None"
  by (simp add: vault_run_def vault_step_def vault_staged Let_def andNext_def set_manifest_def purely_def manifest_of_def)

end
