(* ===== verification/Rule_Evaluator.thy ===== *)
theory Rule_Evaluator
  imports Decimal Delivery_Store
begin

text \<open>
  When a rule raises an alert: \<^verbatim>\<open>apps/api/src/rules/evaluator.ts\<close>. A metric is compared with the
  threshold of the rule digit by digit; the comparison is shown to be that of the rational numbers.
  \<^verbatim>\<open>sha256Hex\<close> is a parameter.
\<close>

section \<open>Rules and events\<close>

fun colon_parts :: "string \<Rightarrow> string list" where
  "colon_parts [] = [[]]"
| "colon_parts (c # s) =
     (case colon_parts s of
        [] \<Rightarrow> []
      | part # parts \<Rightarrow> if c = CHR '':'' then [] # part # parts else (c # part) # parts)"

definition CANONICAL_MARKET :: "string \<Rightarrow> bool" where
  "CANONICAL_MARKET s \<longleftrightarrow>
     (case colon_parts s of
        [family, a] \<Rightarrow> family = ''spot'' \<and> integer_literal a
      | [family, a, b] \<Rightarrow>
          integer_literal a \<and>
          (family = ''perp'' \<and> integer_literal b \<or> family = ''outcome'' \<and> b \<in> {''0'', ''1''})
      | _ \<Rightarrow> False)"

datatype NotificationEventType =
    FillEvent
  | CancellationEvent
  | RejectionEvent
  | MarginRiskEvent
  | LiquidationRiskEvent
  | PriceAbove
  | PriceBelow
  | FundingAbove
  | FundingBelow

datatype rule_scope = PriceScope | AccountScope

record NotificationRuleRecord =
  nr_ruleId :: string
  nr_identityDigest :: string
  nr_installationId :: string
  nr_accountLinkId :: "string option"
  nr_scope :: rule_scope
  nr_network :: notification_network
  nr_marketId :: string
  nr_eventType :: NotificationEventType
  nr_threshold :: string

datatype metric = PriceMetric | FundingMetric | MarginRiskMetric | LiquidationRiskMetric

text \<open>What the two kinds of event do not share: an execution its type, a metric its two values.\<close>

datatype event_kind = ExecutionKind NotificationEventType | MetricKind metric "string option" string

record NotificationRuleEvent =
  ne_kind :: event_kind
  ne_network :: notification_network
  ne_marketId :: string
  ne_accountLinkId :: "string option"
  ne_sourceId :: string

record NotificationRuleMatch =
  nm_eventKey :: string
  nm_category :: notification_category
  nm_routeHint :: string

section \<open>Decimals\<close>

record exact_decimal =
  xd_sign :: int
  xd_integer :: string
  xd_fraction :: string

definition parseExactDecimal :: "string \<Rightarrow> exact_decimal result" where
  "parseExactDecimal s =
     (if \<not> isDecimalString s then Inl (Err ''notification decimal is invalid'')
      else
        let negative = starts_minus s;
            unsigned = (if negative then drop 1 s else s);
            integer = trim_leading_zeros (before_dot unsigned);
            fraction = trim_trailing_zeros (drop 1 (from_dot unsigned));
            zero = (integer = ''0'' \<and> length fraction = 0)
        in Inr \<lparr>xd_sign = (if zero then 0 else if negative then -1 else 1), xd_integer = integer, xd_fraction = fraction\<rparr>)"

text \<open>The operator \<^verbatim>\<open><\<close> on strings.\<close>

fun text_less :: "string \<Rightarrow> string \<Rightarrow> bool" where
  "text_less s [] = False"
| "text_less [] (d # t) = True"
| "text_less (c # s) (d # t) = (code c < code d \<or> c = d \<and> text_less s t)"

definition compareUnsignedDigits :: "string \<Rightarrow> string \<Rightarrow> int" where
  "compareUnsignedDigits left right =
     (let first = trim_leading_zeros left;
          second = trim_leading_zeros right
      in if length first \<noteq> length second then (if length first < length second then -1 else 1)
         else if first = second then 0 else if text_less first second then -1 else 1)"

definition invert :: "int \<Rightarrow> int" where
  "invert i = (if i = 0 then 0 else if i = 1 then -1 else 1)"

definition padEnd :: "string \<Rightarrow> nat \<Rightarrow> string" where
  "padEnd s n = s @ replicate (n - length s) CHR ''0''"

definition compareExactDecimals :: "string \<Rightarrow> string \<Rightarrow> int result" where
  "compareExactDecimals left right =
     bindE (parseExactDecimal left) (\<lambda>first.
     bindE (parseExactDecimal right) (\<lambda>second.
     Inr (if xd_sign first \<noteq> xd_sign second then (if xd_sign first < xd_sign second then -1 else 1)
          else if xd_sign first = 0 then 0
          else
            let scale = max (length (xd_fraction first)) (length (xd_fraction second));
                firstDigits = xd_integer first @ padEnd (xd_fraction first) scale;
                secondDigits = xd_integer second @ padEnd (xd_fraction second) scale;
                magnitude = compareUnsignedDigits firstDigits secondDigits
            in if xd_sign first = 1 then magnitude else invert magnitude)))"

section \<open>Evaluation\<close>

definition validateRule :: "'a NotificationRuleRecord_scheme \<Rightarrow> unit result" where
  "validateRule rule =
     throw_if
       (\<not> hex_id 32 (nr_ruleId rule) \<or> \<not> hex_id 64 (nr_identityDigest rule) \<or> \<not> hex_id 32 (nr_installationId rule) \<or>
        \<not> CANONICAL_MARKET (nr_marketId rule) \<or> \<not> isDecimalString (nr_threshold rule) \<or>
        (nr_scope rule = AccountScope \<and> (case nr_accountLinkId rule of None \<Rightarrow> True | Some l \<Rightarrow> \<not> hex_id 32 l)) \<or>
        (nr_scope rule = PriceScope \<and> nr_accountLinkId rule \<noteq> None))
       (Err ''notification rule is invalid'')"

definition validateEvent :: "NotificationRuleEvent \<Rightarrow> unit result" where
  "validateEvent event =
     bindE (throw_if
       (\<not> CANONICAL_MARKET (ne_marketId event) \<or> \<not> graphic_text (ne_sourceId event) \<or>
        (case ne_accountLinkId event of None \<Rightarrow> False | Some l \<Rightarrow> \<not> hex_id 32 l))
       (Err ''notification event is invalid'')) (\<lambda>_.
     case ne_kind event of
       ExecutionKind _ \<Rightarrow> Inr ()
     | MetricKind _ previous current \<Rightarrow>
         throw_if (\<not> isDecimalString current \<or> (case previous of None \<Rightarrow> False | Some p \<Rightarrow> \<not> isDecimalString p))
           (Err ''notification decimal is invalid''))"

datatype direction = AboveThreshold | BelowThreshold

definition ruleDirection :: "NotificationEventType \<Rightarrow> metric \<Rightarrow> direction option" where
  "ruleDirection eventType m =
     (if m = PriceMetric \<and> eventType = PriceAbove then Some AboveThreshold
      else if m = PriceMetric \<and> eventType = PriceBelow then Some BelowThreshold
      else if m = FundingMetric \<and> eventType = FundingAbove then Some AboveThreshold
      else if m = FundingMetric \<and> eventType = FundingBelow then Some BelowThreshold
      else if m = MarginRiskMetric \<and> eventType = MarginRiskEvent then Some AboveThreshold
      else if m = LiquidationRiskMetric \<and> eventType = LiquidationRiskEvent then Some BelowThreshold
      else None)"

fun metric_category :: "metric \<Rightarrow> notification_category \<times> string" where
  "metric_category PriceMetric = (PriceAlert, ''trade'')"
| "metric_category FundingMetric = (FundingAlert, ''portfolio'')"
| "metric_category MarginRiskMetric = (RiskAlert, ''portfolio'')"
| "metric_category LiquidationRiskMetric = (RiskAlert, ''portfolio'')"

fun notification_network_name :: "notification_network \<Rightarrow> string" where
  "notification_network_name Testnet = ''testnet''"
| "notification_network_name Mainnet = ''mainnet''"

fun bar_joined :: "string list \<Rightarrow> string" where
  "bar_joined [] = []"
| "bar_joined [s] = s"
| "bar_joined (s # t # rest) = s @ ''|'' @ bar_joined (t # rest)"

definition event_key :: "(string \<Rightarrow> string) \<Rightarrow> 'a NotificationRuleRecord_scheme \<Rightarrow> NotificationRuleEvent \<Rightarrow> string" where
  "event_key sha256Hex rule event =
     sha256Hex (bar_joined
       [''notification-event/v1'', nr_ruleId rule, nr_identityDigest rule, notification_network_name (ne_network event),
        ne_marketId event, (case ne_accountLinkId event of None \<Rightarrow> ''public'' | Some l \<Rightarrow> l), ne_sourceId event])"

text \<open>The category and the route of a match: none when the event is not one of the rule, or no threshold was crossed.\<close>

definition event_category ::
  "'a NotificationRuleRecord_scheme \<Rightarrow> event_kind \<Rightarrow> (notification_category \<times> string) option result" where
  "event_category rule kind =
     (case kind of
        ExecutionKind eventType \<Rightarrow>
          Inr (if nr_eventType rule \<noteq> eventType then None else Some (ExecutionAlert, ''portfolio''))
      | MetricKind m previousValue currentValue \<Rightarrow>
          (case (previousValue, ruleDirection (nr_eventType rule) m) of
             (Some p, Some d) \<Rightarrow>
               bindE (compareExactDecimals p (nr_threshold rule)) (\<lambda>previous.
               bindE (compareExactDecimals currentValue (nr_threshold rule)) (\<lambda>current.
               let crossed = (if d = AboveThreshold then previous < 0 \<and> current \<ge> 0 else previous > 0 \<and> current \<le> 0) in
               Inr (if \<not> crossed then None else Some (metric_category m))))
           | _ \<Rightarrow> Inr None))"

definition evaluateNotificationRule ::
  "(string \<Rightarrow> string) \<Rightarrow> 'a NotificationRuleRecord_scheme \<Rightarrow> NotificationRuleEvent \<Rightarrow> NotificationRuleMatch option result" where
  "evaluateNotificationRule sha256Hex rule event =
     bindE (validateRule rule) (\<lambda>_.
     bindE (validateEvent event) (\<lambda>_.
     if nr_network rule \<noteq> ne_network event \<or> nr_marketId rule \<noteq> ne_marketId event \<or>
        (nr_scope rule = AccountScope \<and> nr_accountLinkId rule \<noteq> ne_accountLinkId event) \<or>
        (nr_scope rule = PriceScope \<and> ne_accountLinkId event \<noteq> None)
     then Inr None
     else bindE (event_category rule (ne_kind event)) (\<lambda>c.
       Inr (case c of
              None \<Rightarrow> None
            | Some (category, routeHint) \<Rightarrow>
                Some \<lparr>nm_eventKey = event_key sha256Hex rule event, nm_category = category, nm_routeHint = routeHint\<rparr>))))"

section \<open>The comparison is that of the numbers\<close>

lemma digits_val_bound: "list_all is_digit s \<Longrightarrow> digits_val s < 10 ^ length s"
proof (induction s)
  case (Cons c s)
  then have "digit_val c * 10 ^ length s + digits_val s < (digit_val c + 1) * 10 ^ length s" by simp
  also have "\<dots> \<le> 10 * 10 ^ length s" using Cons.prems by (intro mult_right_mono) (auto simp: Suc_le_eq)
  finally show ?case by (simp add: digits_val_Cons)
qed simp

lemma digits_val_first_digit:
  assumes "digit_val a < digit_val b" "length s = length t" "list_all is_digit s"
  shows "digits_val (a # s) < digits_val (b # t)"
proof -
  have "digits_val (a # s) < (digit_val a + 1) * 10 ^ length s"
    using digits_val_bound [OF assms(3)] by (simp add: digits_val_Cons)
  also have "\<dots> \<le> digit_val b * 10 ^ length t" using assms(1,2) by (intro mult_mono) auto
  finally show ?thesis by (simp add: digits_val_Cons)
qed

lemma text_less_digits:
  assumes "list_all is_digit s" "list_all is_digit t" "length s = length t"
  shows "text_less s t \<longleftrightarrow> digits_val s < digits_val t"
  using assms
proof (induction s t rule: text_less.induct)
  case (3 c s d t)
  have d: "code c = 48 + digit_val c" "code d = 48 + digit_val d"
    using "3.prems" by (auto simp: digit_val_def is_digit_def)
  from "3.prems" have "is_digit c" "is_digit d" by simp_all
  then have eq: "c = d \<longleftrightarrow> digit_val c = digit_val d" by (metis digit_char_val)
  show ?case
    using "3.IH" "3.prems" digits_val_first_digit [of c d s t] digits_val_first_digit [of d c t s]
    by (cases "digit_val c" "digit_val d" rule: linorder_cases) (auto simp: d eq digits_val_Cons)
qed auto

lemma trimmed_is_shown:
  assumes "list_all is_digit s" "s \<noteq> []"
  shows "trim_leading_zeros s = show_nat (digits_val s)"
proof (cases "dropWhile (\<lambda>c. c = CHR ''0'') s")
  case Nil
  then have "s = replicate (length s) CHR ''0''" by (intro replicate_eqI) (auto simp: dropWhile_eq_Nil_conv)
  then have "digits_val s = 0" by (metis digits_val_replicate)
  with assms(2) show ?thesis unfolding trim_leading_zeros_def Let_def Nil by auto
next
  case (Cons c rest)
  let ?d = "dropWhile (\<lambda>c. c = CHR ''0'') s"
  have digits: "list_all is_digit ?d" using assms(1) by (auto simp: list_all_iff dest: set_dropWhileD)
  have "hd ?d \<noteq> CHR ''0''" using hd_dropWhile [of "\<lambda>c. c = CHR ''0''" s] Cons by auto
  with digits Cons have "show_nat (digits_val ?d) = ?d" by (intro show_nat_digits_val) auto
  moreover have "digits_val ?d = digits_val s" by simp
  ultimately show ?thesis using digits Cons by (simp add: trim_leading_zeros_def Let_def)
qed

lemma show_nat_lengths: "length (show_nat m) < length (show_nat n) \<Longrightarrow> m < n"
proof (rule ccontr)
  assume l: "length (show_nat m) < length (show_nat n)" and "\<not> m < n"
  then have "n \<le> m" by simp
  also have "m < 10 ^ length (show_nat m)" using digits_val_bound [of "show_nat m"] by simp
  finally have "length (show_nat n) \<le> length (show_nat m)" by (rule length_show_nat_le) simp
  with l show False by simp
qed

lemma compareUnsignedDigits_value:
  assumes "list_all is_digit s" "s \<noteq> []" "list_all is_digit t" "t \<noteq> []"
  shows "compareUnsignedDigits s t =
    (if digits_val s < digits_val t then -1 else if digits_val t < digits_val s then 1 else 0)"
  using show_nat_lengths [of "digits_val s" "digits_val t"] show_nat_lengths [of "digits_val t" "digits_val s"]
    text_less_digits [of "show_nat (digits_val s)" "show_nat (digits_val t)"]
  by (auto simp: compareUnsignedDigits_def trimmed_is_shown assms Let_def not_less_iff_gr_or_eq)

text \<open>What parsing keeps of the number: its sign, and the digits of its magnitude at a scale.\<close>

lemma parseExactDecimal_parts:
  assumes "isDecimalString s"
  obtains d where "parseExactDecimal s = Inr d" "list_all is_digit (xd_integer d)" "xd_integer d \<noteq> []"
    "list_all is_digit (xd_fraction d)"
    "decimal_value s = of_int (xd_sign d) * (of_nat (digits_val (xd_integer d @ xd_fraction d)) / 10 ^ length (xd_fraction d))"
    "xd_sign d = (if digits_val (xd_integer d @ xd_fraction d) = 0 then 0 else if starts_minus s then -1 else 1)"
proof -
  let ?u = "unsigned_part s"
  let ?i = "before_dot ?u"
  let ?f = "drop 1 (from_dot ?u)"
  let ?t = "trim_trailing_zeros ?f"
  from assms have p: "DECIMAL_PATTERN s" by (simp add: isDecimalString_def)
  note parts = pattern_parts [OF p]
  from p have int: "trim_leading_zeros ?i = ?i"
    by (cases ?i) (auto simp: DECIMAL_PATTERN_def integer_literal_def trim_leading_zeros_def Let_def)
  have t: "list_all is_digit ?t" by (rule trim_trailing_digits [OF parts(3)])
  have zero: "digits_val (?i @ ?t) = 0 \<longleftrightarrow> ?i = ''0'' \<and> ?t = []"
  proof
    assume z: "digits_val (?i @ ?t) = 0"
    then have iz: "digits_val ?i = 0" and tz: "digits_val ?t = 0" by (simp_all add: digits_val_append)
    have "?i = ''0''" using trimmed_is_shown [OF parts(1,2)] int iz by simp
    moreover have "?t = []"
    proof (rule ccontr)
      assume "?t \<noteq> []"
      with last_digit_mod [of "[]" ?t] t trim_trailing_last [of ?f] tz show False by simp
    qed
    ultimately show "?i = ''0'' \<and> ?t = []" by simp
  qed (simp add: digits_val_append)
  let ?d = "\<lparr>xd_sign = (if ?i = ''0'' \<and> ?t = [] then 0 else if starts_minus s then -1 else 1),
    xd_integer = ?i, xd_fraction = ?t\<rparr>"
  have "parseExactDecimal s = Inr ?d"
    using assms int by (auto simp: parseExactDecimal_def unsigned_part_def Let_def)
  moreover have "(of_nat (digits_val (?i @ ?t)) :: rat) / 10 ^ length ?t =
      of_nat (digits_val ?i) + of_nat (digits_val ?f) / 10 ^ length ?f"
    by (simp add: digits_val_append add_divide_distrib trim_trailing_val)
  then have "decimal_value s = (if starts_minus s then -1 else 1) * (of_nat (digits_val (?i @ ?t)) / 10 ^ length ?t)"
    by (simp add: decimal_value_def Let_def)
  ultimately show thesis
  proof (rule_tac that)
    show "list_all is_digit (xd_integer ?d)" "xd_integer ?d \<noteq> []" "list_all is_digit (xd_fraction ?d)"
      using parts(1,2) t by simp_all
    show sign: "xd_sign ?d = (if digits_val (xd_integer ?d @ xd_fraction ?d) = 0 then 0 else if starts_minus s then -1 else 1)"
      by (simp only: exact_decimal.simps zero)
    assume "decimal_value s = (if starts_minus s then -1 else 1) * (of_nat (digits_val (?i @ ?t)) / 10 ^ length ?t)"
    then show "decimal_value s =
        of_int (xd_sign ?d) * (of_nat (digits_val (xd_integer ?d @ xd_fraction ?d)) / 10 ^ length (xd_fraction ?d))"
      unfolding sign by (simp del: digits_val_append)
  qed
qed


text \<open>
  For decimal strings of any length and any notation of zero, with a sign and with trailing zeros or without,
  the comparison of digits is the comparison of the numbers, and nothing else is compared.
\<close>

lemma exact_comparison:
  "compareExactDecimals left right =
     (if \<not> isDecimalString left \<or> \<not> isDecimalString right then Inl (Err ''notification decimal is invalid'')
      else Inr (if decimal_value left < decimal_value right then -1
                else if decimal_value right < decimal_value left then 1 else 0))"
proof (cases "isDecimalString left \<and> isDecimalString right")
  case True
  obtain l where l: "parseExactDecimal left = Inr l" "list_all is_digit (xd_integer l)" "xd_integer l \<noteq> []"
    "list_all is_digit (xd_fraction l)"
    "decimal_value left = of_int (xd_sign l) * (of_nat (digits_val (xd_integer l @ xd_fraction l)) / 10 ^ length (xd_fraction l))"
    "xd_sign l = (if digits_val (xd_integer l @ xd_fraction l) = 0 then 0 else if starts_minus left then -1 else 1)"
    using parseExactDecimal_parts True by metis
  obtain r where r: "parseExactDecimal right = Inr r" "list_all is_digit (xd_integer r)" "xd_integer r \<noteq> []"
    "list_all is_digit (xd_fraction r)"
    "decimal_value right = of_int (xd_sign r) * (of_nat (digits_val (xd_integer r @ xd_fraction r)) / 10 ^ length (xd_fraction r))"
    "xd_sign r = (if digits_val (xd_integer r @ xd_fraction r) = 0 then 0 else if starts_minus right then -1 else 1)"
    using parseExactDecimal_parts True by metis
  define n where "n = max (length (xd_fraction l)) (length (xd_fraction r))"
  define a where "a = digits_val (xd_integer l @ padEnd (xd_fraction l) n)"
  define b where "b = digits_val (xd_integer r @ padEnd (xd_fraction r) n)"
  have pad: "(of_nat (digits_val (i @ padEnd f n)) :: rat) / 10 ^ n = of_nat (digits_val (i @ f)) / 10 ^ length f"
    if "length f \<le> n" for i f
  proof -
    have "digits_val (i @ padEnd f n) = digits_val (i @ f) * 10 ^ (n - length f)"
      using digits_val_append [of "i @ f" "replicate (n - length f) CHR ''0''"] by (simp add: padEnd_def)
    moreover have "(10 :: rat) ^ n = 10 ^ length f * 10 ^ (n - length f)" using that by (simp flip: power_add)
    ultimately show ?thesis by simp
  qed
  define x y :: rat where "x = of_nat a / 10 ^ n" and "y = of_nat b / 10 ^ n"
  have lv: "decimal_value left = of_int (xd_sign l) * x" and rv: "decimal_value right = of_int (xd_sign r) * y"
    using l(5) r(5) pad [of "xd_fraction l"] pad [of "xd_fraction r"] by (simp_all add: a_def b_def n_def x_def y_def)
  have az: "digits_val (xd_integer l @ xd_fraction l) = 0 \<longleftrightarrow> a = 0"
    and bz: "digits_val (xd_integer r @ xd_fraction r) = 0 \<longleftrightarrow> b = 0"
    by (simp_all add: a_def b_def padEnd_def digits_val_append)
  have "compareUnsignedDigits (xd_integer l @ padEnd (xd_fraction l) n) (xd_integer r @ padEnd (xd_fraction r) n) =
      (if a < b then -1 else if b < a then 1 else 0)"
    unfolding a_def b_def by (rule compareUnsignedDigits_value) (use l r in \<open>simp_all add: padEnd_def\<close>)
  moreover have "a < b \<longleftrightarrow> x < y" "b < a \<longleftrightarrow> y < x" by (simp_all add: divide_less_cancel x_def y_def)
  ultimately have cmp: "compareUnsignedDigits (xd_integer l @ padEnd (xd_fraction l) n) (xd_integer r @ padEnd (xd_fraction r) n) =
      (if x < y then -1 else if y < x then 1 else 0)" by simp
  have zero: "a = 0 \<longleftrightarrow> x = 0" "b = 0 \<longleftrightarrow> y = 0" and nonneg: "0 \<le> x" "0 \<le> y" by (simp_all add: x_def y_def)
  have numeric: "compareExactDecimals left right =
      Inr (if xd_sign l \<noteq> xd_sign r then (if xd_sign l < xd_sign r then -1 else 1)
        else if xd_sign l = 0 then 0
        else if xd_sign l = 1 then (if x < y then -1 else if y < x then 1 else 0)
        else invert (if x < y then -1 else if y < x then 1 else 0))"
    using l(1) r(1) by (simp add: compareExactDecimals_def Let_def cmp flip: n_def)
  show ?thesis
    unfolding numeric lv rv using True l(6) r(6) nonneg
    by (auto simp: invert_def az bz zero not_less le_less)
qed (auto simp: compareExactDecimals_def parseExactDecimal_def Let_def)

end
