(* ===== verification/Rule_Worker.thy ===== *)
theory Rule_Worker
  imports Rule_Evaluator Expo_Client Machines
begin

text \<open>
  What the service makes of the updates of a monitor: \<^verbatim>\<open>apps/api/src/rules/rule-worker.ts\<close>, for
  one rule. An update is read into events of the rule, each event is evaluated, and a match asks the store for an
  alert. Updates wait in a queue of bounded length; when it is full the rule is degraded and takes no more.

  A payload has the type its source gives it, so reading it does not throw; a message of a stream is an unknown
  value. The answers of the store, \<^verbatim>\<open>sha256Hex\<close> and the text of a number that is no integer are parameters.
  The tables of rules, and the paging that keeps them in step with the store, are left out.
\<close>

section \<open>Payloads\<close>

record perp_position =
  pp_coin :: string
  pp_liquidationPrice :: "string option"

record funding_record =
  fr_coin :: string
  fr_time :: int
  fr_fundingRate :: string

record account_snapshot =
  as_positions :: "perp_position list"
  as_totalMarginUsed :: string
  as_funding :: "funding_record list"

text \<open>The markets of coins, in the order of the entries.\<close>

type_synonym coin_markets = "(string \<times> string) list"

datatype HyperliquidMonitorPayload =
    MarketSnapshot js_object
  | AccountSnapshot "account_snapshot list" coin_markets
  | StreamDelta js_number string js_value coin_markets
  | OtherPayload

datatype MonitorUpdate = BaselineUpdate HyperliquidMonitorPayload | DeltaUpdate HyperliquidMonitorPayload

section \<open>Reading unknown values\<close>

text \<open>A member of a value that may be no record: \<^verbatim>\<open>record(value)?.key\<close>.\<close>

definition field :: "js_value \<Rightarrow> string \<Rightarrow> js_value" where
  "field v key = (case plain_object v of None \<Rightarrow> JUndefined | Some obj \<Rightarrow> member obj key)"

definition elements :: "js_value \<Rightarrow> js_value list" where
  "elements v = (case v of JArr vs \<Rightarrow> vs | _ \<Rightarrow> [])"

definition boundedText :: "js_value \<Rightarrow> string option" where
  "boundedText v = (case v of JStr s \<Rightarrow> if graphic_text s then Some s else None | _ \<Rightarrow> None)"

definition decimal_of :: "js_value \<Rightarrow> string option" where
  "decimal_of v = (case v of JStr s \<Rightarrow> if isDecimalString s then Some s else None | _ \<Rightarrow> None)"

definition first_of :: "'a option \<Rightarrow> 'a option \<Rightarrow> 'a option" where
  "first_of x y = (case x of Some a \<Rightarrow> Some a | None \<Rightarrow> y)"

fun colon_joined :: "string list \<Rightarrow> string" where
  "colon_joined [] = []"
| "colon_joined [s] = s"
| "colon_joined (s # t # rest) = s @ '':'' @ colon_joined (t # rest)"

definition joinedSource :: "(js_number \<Rightarrow> string) \<Rightarrow> js_value list \<Rightarrow> string option" where
  "joinedSource number_text vs =
     (let source = colon_joined (map (js_string number_text) vs) in if graphic_text source then Some source else None)"

fun text_includes :: "string \<Rightarrow> string \<Rightarrow> bool" where
  "text_includes [] needle = (needle = [])"
| "text_includes (c # s) needle = (take (length needle) (c # s) = needle \<or> text_includes s needle)"

definition of_market :: "coin_markets \<Rightarrow> 'a NotificationRuleRecord_scheme \<Rightarrow> js_value \<Rightarrow> bool" where
  "of_market coins rule coin \<longleftrightarrow>
     (case boundedText coin of None \<Rightarrow> False | Some c \<Rightarrow> map_of coins c = Some (nr_marketId rule))"

section \<open>Executions\<close>

definition executionEvent :: "'a NotificationRuleRecord_scheme \<Rightarrow> NotificationEventType \<Rightarrow> string \<Rightarrow> NotificationRuleEvent" where
  "executionEvent rule eventType sourceId =
     \<lparr>ne_kind = ExecutionKind eventType, ne_network = nr_network rule, ne_marketId = nr_marketId rule,
      ne_accountLinkId = nr_accountLinkId rule, ne_sourceId = sourceId\<rparr>"

definition fill_events ::
  "(js_number \<Rightarrow> string) \<Rightarrow> coin_markets \<Rightarrow> 'a NotificationRuleRecord_scheme \<Rightarrow> js_value \<Rightarrow> NotificationRuleEvent list" where
  "fill_events number_text coins rule fill =
     (if \<not> of_market coins rule (field fill ''coin'') then []
      else case first_of (boundedText (field fill ''hash''))
                  (joinedSource number_text [field fill ''oid'', field fill ''time'', JStr ''fill'']) of
             None \<Rightarrow> []
           | Some sourceId \<Rightarrow> [executionEvent rule FillEvent sourceId])"

definition order_update_type :: "string option \<Rightarrow> NotificationEventType option" where
  "order_update_type status =
     (case status of
        None \<Rightarrow> None
      | Some s \<Rightarrow> if text_includes s ''cancel'' then Some CancellationEvent
                  else if text_includes s ''reject'' then Some RejectionEvent else None)"

definition order_update_events ::
  "(js_number \<Rightarrow> string) \<Rightarrow> coin_markets \<Rightarrow> 'a NotificationRuleRecord_scheme \<Rightarrow> js_value \<Rightarrow> NotificationRuleEvent list" where
  "order_update_events number_text coins rule wrapper =
     (let order = field wrapper ''order'';
          status = map_option toLowerCase (boundedText (field wrapper ''status''))
      in if \<not> of_market coins rule (field order ''coin'') \<or> order_update_type status \<noteq> Some (nr_eventType rule) then []
         else case joinedSource number_text
                     [field order ''oid'', field wrapper ''statusTimestamp'',
                      (case status of None \<Rightarrow> JUndefined | Some s \<Rightarrow> JStr s)] of
                None \<Rightarrow> []
              | Some sourceId \<Rightarrow> [executionEvent rule (nr_eventType rule) sourceId])"

definition executionEvents ::
  "(js_number \<Rightarrow> string) \<Rightarrow> 'a NotificationRuleRecord_scheme \<Rightarrow> string \<Rightarrow> js_value \<Rightarrow> coin_markets \<Rightarrow> NotificationRuleEvent list" where
  "executionEvents number_text rule channel data coins =
     (if nr_eventType rule \<notin> {FillEvent, CancellationEvent, RejectionEvent} then []
      else if nr_accountLinkId rule \<in> {None, Some ''''} then []
      else if channel = ''userFills''
      then (if nr_eventType rule \<noteq> FillEvent then []
            else concat (map (fill_events number_text coins rule) (elements (field data ''fills''))))
      else if channel \<noteq> ''orderUpdates'' then []
      else concat (map (order_update_events number_text coins rule) (elements data)))"

section \<open>Metrics\<close>

text \<open>The first of the latest records: \<^verbatim>\<open>sort((left, right) => right.time - left.time)[0]\<close>.\<close>

fun latest :: "funding_record list \<Rightarrow> funding_record option" where
  "latest [] = None"
| "latest (r # rs) =
     (case latest rs of None \<Rightarrow> Some r | Some r' \<Rightarrow> if fr_time r < fr_time r' then Some r' else Some r)"

definition metricFromBaseline :: "'a NotificationRuleRecord_scheme \<Rightarrow> HyperliquidMonitorPayload \<Rightarrow> string option" where
  "metricFromBaseline rule payload =
     (case payload of
        MarketSnapshot market \<Rightarrow>
          if nr_eventType rule \<in> {PriceAbove, PriceBelow}
          then first_of (decimal_of (member market ''markPx'')) (decimal_of (member market ''midPx'')) else None
      | AccountSnapshot snapshots coins \<Rightarrow>
          (case find (\<lambda>(_, marketId). marketId = nr_marketId rule) coins of
             None \<Rightarrow> None
           | Some (coin, _) \<Rightarrow>
               if coin = '''' then None
               else if nr_eventType rule \<in> {FundingAbove, FundingBelow}
               then map_option fr_fundingRate
                      (latest (filter (\<lambda>r. fr_coin r = coin) (case snapshots of [] \<Rightarrow> [] | s # _ \<Rightarrow> as_funding s)))
               else
                 (case find (\<lambda>s. list_ex (\<lambda>p. pp_coin p = coin) (as_positions s)) snapshots of
                    None \<Rightarrow> None
                  | Some s \<Rightarrow>
                      if nr_eventType rule = MarginRiskEvent then Some (as_totalMarginUsed s)
                      else if nr_eventType rule = LiquidationRiskEvent
                      then (case find (\<lambda>p. pp_coin p = coin) (as_positions s) of
                              None \<Rightarrow> None | Some p \<Rightarrow> pp_liquidationPrice p)
                      else None))
      | _ \<Rightarrow> None)"

text \<open>The first matching entry of the fundings decides; entries that do not match are passed over.\<close>

fun first_funding :: "coin_markets \<Rightarrow> 'a NotificationRuleRecord_scheme \<Rightarrow> js_value list \<Rightarrow> string option" where
  "first_funding coins rule [] = None"
| "first_funding coins rule (v # vs) =
     (let delta = field v ''delta'' in
      case decimal_of (field delta ''fundingRate'') of
        Some rate \<Rightarrow> if of_market coins rule (field delta ''coin'') then Some rate else first_funding coins rule vs
      | None \<Rightarrow> first_funding coins rule vs)"

fun clearinghouse_metric :: "coin_markets \<Rightarrow> 'a NotificationRuleRecord_scheme \<Rightarrow> js_value list \<Rightarrow> (metric \<times> string) option" where
  "clearinghouse_metric coins rule [] = None"
| "clearinghouse_metric coins rule (state # states) =
     (if plain_object state = None then clearinghouse_metric coins rule states
      else
        let positions = map (\<lambda>wrapper. field wrapper ''position'') (elements (field state ''assetPositions'')) in
        case find (\<lambda>position. of_market coins rule (field position ''coin'')) positions of
          None \<Rightarrow> clearinghouse_metric coins rule states
        | Some position \<Rightarrow>
            if nr_eventType rule = MarginRiskEvent
            then map_option (Pair MarginRiskMetric) (decimal_of (field (field state ''marginSummary'') ''totalMarginUsed''))
            else if nr_eventType rule = LiquidationRiskEvent
            then map_option (Pair LiquidationRiskMetric) (decimal_of (field position ''liquidationPx''))
            else clearinghouse_metric coins rule states)"

definition metricFromDelta ::
  "'a NotificationRuleRecord_scheme \<Rightarrow> string \<Rightarrow> js_value \<Rightarrow> coin_markets \<Rightarrow> (metric \<times> string) option" where
  "metricFromDelta rule channel data coins =
     (if channel = ''activeAssetCtx''
      then (if of_market coins rule (field data ''coin'') \<and> nr_eventType rule \<in> {PriceAbove, PriceBelow}
            then map_option (Pair PriceMetric)
                   (first_of (decimal_of (field (field data ''ctx'') ''markPx'')) (decimal_of (field (field data ''ctx'') ''midPx'')))
            else None)
      else if channel = ''userFundings''
      then (if nr_eventType rule \<in> {FundingAbove, FundingBelow}
            then map_option (Pair FundingMetric) (first_funding coins rule (elements (field data ''fundings''))) else None)
      else if channel = ''allDexsClearinghouseState''
      then (case plain_object (field data ''clearinghouseStates'') of
              None \<Rightarrow> None
            | Some states \<Rightarrow> clearinghouse_metric coins rule (map snd states))
      else None)"

type_synonym known_metrics = "NotificationEventType \<rightharpoonup> string"

definition normalizeRuleUpdate ::
  "(js_number \<Rightarrow> string) \<Rightarrow> 'a NotificationRuleRecord_scheme \<Rightarrow> known_metrics \<Rightarrow> MonitorUpdate \<Rightarrow>
   NotificationRuleEvent list \<times> known_metrics" where
  "normalizeRuleUpdate number_text rule metrics update =
     (case update of
        BaselineUpdate payload \<Rightarrow>
          (case metricFromBaseline rule payload of
             None \<Rightarrow> ([], metrics)
           | Some v \<Rightarrow> ([], metrics(nr_eventType rule \<mapsto> v)))
      | DeltaUpdate (StreamDelta receivedAt channel data coins) \<Rightarrow>
          (let execution = executionEvents number_text rule channel data coins in
           if execution \<noteq> [] then (execution, metrics)
           else case metricFromDelta rule channel data coins of
             None \<Rightarrow> ([], metrics)
           | Some (m, v) \<Rightarrow>
               ([\<lparr>ne_kind = MetricKind m (metrics (nr_eventType rule)) v, ne_network = nr_network rule,
                  ne_marketId = nr_marketId rule,
                  ne_accountLinkId = (if nr_accountLinkId rule = Some '''' then None else nr_accountLinkId rule),
                  ne_sourceId = channel @ '':'' @ js_string number_text (JNum receivedAt)\<rparr>],
                metrics(nr_eventType rule \<mapsto> v)))
      | DeltaUpdate _ \<Rightarrow> ([], metrics))"

section \<open>The updates of a rule\<close>

datatype rule_report = EvaluateReport | PersistReport | DegradedReport

datatype rule_output = RuleReport rule_report | AlertRequested alert_input | Unsubscribed

text \<open>One event: nothing, a report, or a call of the store, which may fail.\<close>

definition handle_event ::
  "(string \<Rightarrow> string) \<Rightarrow> (alert_input \<Rightarrow> bool) \<Rightarrow> 'a NotificationRuleRecord_scheme \<Rightarrow> NotificationRuleEvent \<Rightarrow> rule_output list" where
  "handle_event sha256Hex stored rule event =
     (case evaluateNotificationRule sha256Hex rule event of
        Inl _ \<Rightarrow> [RuleReport EvaluateReport]
      | Inr None \<Rightarrow> []
      | Inr (Some match) \<Rightarrow>
          let input = \<lparr>n_ruleId = nr_ruleId rule, n_identityDigest = nr_identityDigest rule, n_eventKey = nm_eventKey match,
                       n_category = nm_category match, n_routeHint = nm_routeHint match\<rparr>
          in AlertRequested input # (if stored input then [] else [RuleReport PersistReport]))"

definition handleUpdate ::
  "(string \<Rightarrow> string) \<Rightarrow> (js_number \<Rightarrow> string) \<Rightarrow> (alert_input \<Rightarrow> bool) \<Rightarrow> 'a NotificationRuleRecord_scheme \<Rightarrow>
   MonitorUpdate \<Rightarrow> known_metrics \<Rightarrow> rule_output list \<times> known_metrics" where
  "handleUpdate sha256Hex number_text stored rule update metrics =
     (let (events, metrics') = normalizeRuleUpdate number_text rule metrics update
      in (concat (map (handle_event sha256Hex stored rule) events), metrics'))"

definition DEFAULT_MAX_PENDING_RULE_UPDATES :: nat where
  "DEFAULT_MAX_PENDING_RULE_UPDATES = 128"

record rule_state =
  rs_metrics :: known_metrics
  rs_queue :: "MonitorUpdate list" \<comment> \<open>the pending updates; the first one may be in progress\<close>
  rs_busy :: bool
  rs_degraded :: bool
  rs_detached :: bool

definition fresh_rule_state :: rule_state where
  "fresh_rule_state = \<lparr>rs_metrics = Map.empty, rs_queue = [], rs_busy = False, rs_degraded = False, rs_detached = False\<rparr>"

definition degradeState :: "rule_state \<Rightarrow> rule_output list \<times> rule_state" where
  "degradeState s =
     (if rs_degraded s then ([], s) else ([RuleReport DegradedReport, Unsubscribed], s\<lparr>rs_degraded := True\<rparr>))"

definition enqueueUpdate :: "nat \<Rightarrow> MonitorUpdate \<Rightarrow> rule_state \<Rightarrow> rule_output list \<times> rule_state" where
  "enqueueUpdate maxPendingUpdates update s =
     (if rs_degraded s then ([], s)
      else if length (rs_queue s) \<ge> maxPendingUpdates then degradeState s
      else ([], s\<lparr>rs_queue := rs_queue s @ [update]\<rparr>))"

text \<open>The first pending update is begun when none is in progress, and leaves the queue when it has ended.\<close>

datatype rule_event = UpdateArrives MonitorUpdate | UpdateBegins "alert_input \<Rightarrow> bool" | UpdateEnds | TeardownEnds

fun rule_step ::
  "(string \<Rightarrow> string) \<Rightarrow> (js_number \<Rightarrow> string) \<Rightarrow> 'a NotificationRuleRecord_scheme \<Rightarrow> nat \<Rightarrow> rule_event \<Rightarrow> rule_state \<Rightarrow>
   rule_output list \<times> rule_state" where
  "rule_step sha256Hex number_text rule maxPendingUpdates (UpdateArrives update) s = enqueueUpdate maxPendingUpdates update s"
| "rule_step sha256Hex number_text rule maxPendingUpdates (UpdateBegins stored) s =
     (case rs_queue s of
        update # _ \<Rightarrow>
          if rs_busy s then ([], s)
          else let (outs, metrics) = handleUpdate sha256Hex number_text stored rule update (rs_metrics s)
               in (outs, s\<lparr>rs_metrics := metrics, rs_busy := True\<rparr>)
      | [] \<Rightarrow> ([], s))"
| "rule_step sha256Hex number_text rule maxPendingUpdates UpdateEnds s =
     (if rs_busy s then ([], s\<lparr>rs_queue := tl (rs_queue s), rs_busy := False\<rparr>) else ([], s))"
| "rule_step sha256Hex number_text rule maxPendingUpdates TeardownEnds s =
     ([], if rs_degraded s then s\<lparr>rs_detached := True\<rparr> else s)"

end
