(* ===== verification/Rule_Properties.thy ===== *)
theory Rule_Properties
  imports Rule_Worker
begin

text \<open>
  When a rule asks for an alert: exactly when its metric crosses the threshold, as a rational number, and
  never twice without a return in between; and what the queue of its updates does.
\<close>

section \<open>One update\<close>

text \<open>The threshold is crossed upwards by some rules and downwards by the others.\<close>

definition rising :: "NotificationEventType \<Rightarrow> bool" where
  "rising e \<longleftrightarrow> e \<in> {PriceAbove, FundingAbove, MarginRiskEvent}"

definition short_of :: "'a NotificationRuleRecord_scheme \<Rightarrow> string \<Rightarrow> bool" where
  "short_of rule v \<longleftrightarrow>
     (if rising (nr_eventType rule) then decimal_value v < decimal_value (nr_threshold rule)
      else decimal_value v > decimal_value (nr_threshold rule))"

lemma decimal_of_Some: "decimal_of v = Some s \<Longrightarrow> isDecimalString s"
  by (auto simp: decimal_of_def split: js_value.splits if_splits)

lemma first_of_Some: "first_of x y = Some a \<Longrightarrow> x = Some a \<or> y = Some a"
  by (auto simp: first_of_def split: option.splits)

lemma first_funding_Some: "first_funding coins rule vs = Some v \<Longrightarrow> isDecimalString v"
  by (induction vs) (auto simp: Let_def decimal_of_Some split: option.splits if_splits)

lemma clearinghouse_metric_Some:
  "clearinghouse_metric coins rule states = Some (m, v) \<Longrightarrow>
     isDecimalString v \<and> (m = MarginRiskMetric \<and> nr_eventType rule = MarginRiskEvent \<or>
       m = LiquidationRiskMetric \<and> nr_eventType rule = LiquidationRiskEvent)"
  by (induction states) (auto simp: Let_def decimal_of_Some split: option.splits if_splits)

text \<open>A metric that is read is a decimal, and it is the metric of the rule.\<close>

lemma metricFromDelta_Some:
  assumes "metricFromDelta rule channel data coins = Some (m, v)"
  shows "isDecimalString v"
    "ruleDirection (nr_eventType rule) m = Some (if rising (nr_eventType rule) then AboveThreshold else BelowThreshold)"
    "nr_eventType rule \<notin> {FillEvent, CancellationEvent, RejectionEvent}"
    "channel \<in> {''activeAssetCtx'', ''userFundings'', ''allDexsClearinghouseState''}"
  using assms
  by (auto simp: metricFromDelta_def ruleDirection_def rising_def split: if_splits option.splits
      dest!: first_of_Some clearinghouse_metric_Some intro: decimal_of_Some first_funding_Some)

lemma validateRule_Inr:
  "validateRule rule = Inr u \<longleftrightarrow>
     hex_id 32 (nr_ruleId rule) \<and> hex_id 64 (nr_identityDigest rule) \<and> hex_id 32 (nr_installationId rule) \<and>
     CANONICAL_MARKET (nr_marketId rule) \<and> isDecimalString (nr_threshold rule) \<and>
     (nr_scope rule = AccountScope \<longrightarrow> (\<exists>l. nr_accountLinkId rule = Some l \<and> hex_id 32 l)) \<and>
     (nr_scope rule = PriceScope \<longrightarrow> nr_accountLinkId rule = None)"
  by (auto simp: validateRule_def throw_if_def split: option.splits)

lemma graphic_source:
  assumes "safe_int t" "channel \<in> {''activeAssetCtx'', ''userFundings'', ''allDexsClearinghouseState''}"
  shows "graphic_text (channel @ '':'' @ show_int t)"
proof -
  have n: "length (show_nat n) \<le> 16" if "int n \<le> max_safe_integer" for n
    by (rule length_show_nat_le) (use that in \<open>simp_all add: max_safe_integer_def\<close>)
  have d: "list_all (\<lambda>c. 33 \<le> code c \<and> code c \<le> 126) (show_nat n)" for n
    using show_nat_digits [of n] by (auto simp: list_all_iff is_digit_def)
  have "length (show_int t) \<le> 17" "list_all (\<lambda>c. 33 \<le> code c \<and> code c \<le> 126) (show_int t)"
    using assms(1) n [of "nat t"] n [of "nat (- t)"] d
    by (auto simp: show_int_def safe_int_def)
  then show ?thesis using assms(2) by (auto simp: graphic_text_def)
qed

text \<open>The category of a metric event is that of a crossing of the rational numbers.\<close>

lemma event_category_metric:
  assumes "isDecimalString p" "isDecimalString v" "isDecimalString (nr_threshold rule)"
    and "ruleDirection (nr_eventType rule) m = Some (if rising (nr_eventType rule) then AboveThreshold else BelowThreshold)"
  shows "event_category rule (MetricKind m (Some p) v) =
    Inr (if short_of rule p \<and> \<not> short_of rule v then Some (metric_category m) else None)"
  using assms by (auto simp: event_category_def exact_comparison short_of_def Let_def)

lemma executionEvents_metric:
  "nr_eventType rule \<notin> {FillEvent, CancellationEvent, RejectionEvent} \<Longrightarrow> executionEvents number_text rule channel data coins = []"
  by (simp add: executionEvents_def)

definition metric_event ::
  "'a NotificationRuleRecord_scheme \<Rightarrow> metric \<Rightarrow> string option \<Rightarrow> string \<Rightarrow> string \<Rightarrow> NotificationRuleEvent" where
  "metric_event rule m previousValue v source =
     \<lparr>ne_kind = MetricKind m previousValue v, ne_network = nr_network rule, ne_marketId = nr_marketId rule,
      ne_accountLinkId = (if nr_accountLinkId rule = Some '''' then None else nr_accountLinkId rule), ne_sourceId = source\<rparr>"

lemma normalize_metric:
  assumes "metricFromDelta rule channel data coins = Some (m, v)"
  shows "normalizeRuleUpdate number_text rule metrics (DeltaUpdate (StreamDelta receivedAt channel data coins)) =
    ([metric_event rule m (metrics (nr_eventType rule)) v (channel @ '':'' @ js_string number_text (JNum receivedAt))],
     metrics(nr_eventType rule \<mapsto> v))"
  using executionEvents_metric [OF metricFromDelta_Some(3) [OF assms]] assms
  by (simp add: normalizeRuleUpdate_def metric_event_def)

text \<open>An alert needs a valid rule, a known value that is a decimal, and a crossing.\<close>

lemma metric_event_match:
  assumes m: "metricFromDelta rule channel data coins = Some (m, v)"
    and e: "evaluateNotificationRule sha256Hex rule (metric_event rule m previousValue v source) = Inr (Some match)"
  shows "\<exists>p. previousValue = Some p \<and> isDecimalString p \<and> short_of rule p \<and> \<not> short_of rule v"
proof -
  from e have valid: "validateEvent (metric_event rule m previousValue v source) = Inr ()"
    and rule: "isDecimalString (nr_threshold rule)"
    and c: "event_category rule (MetricKind m previousValue v) \<noteq> Inr None" "\<exists>x. event_category rule (MetricKind m previousValue v) = Inr x"
    by (auto simp: evaluateNotificationRule_def validateRule_Inr metric_event_def split: if_splits option.splits)
  from c obtain p where p: "previousValue = Some p"
    by (cases previousValue) (auto simp: event_category_def)
  with valid have d: "isDecimalString p" by (auto simp: validateEvent_def metric_event_def)
  from c event_category_metric [OF d metricFromDelta_Some(1) [OF m] rule metricFromDelta_Some(2) [OF m]] p d
  show ?thesis by (auto split: if_splits)
qed

lemma metric_event_value:
  assumes m: "metricFromDelta rule channel data coins = Some (m, v)" and rule: "validateRule rule = Inr ()"
    and d: "isDecimalString p" and source: "graphic_text source"
  shows "evaluateNotificationRule sha256Hex rule (metric_event rule m (Some p) v source) =
    Inr (if short_of rule p \<and> \<not> short_of rule v
         then Some \<lparr>nm_eventKey = event_key sha256Hex rule (metric_event rule m (Some p) v source),
                    nm_category = fst (metric_category m), nm_routeHint = snd (metric_category m)\<rparr>
         else None)"
proof -
  let ?e = "metric_event rule m (Some p) v source"
  note r = rule [unfolded validateRule_Inr]
  note f = metricFromDelta_Some [OF m]
  have link: "ne_accountLinkId ?e = nr_accountLinkId rule"
    using r by (cases "nr_scope rule") (auto simp: metric_event_def hex_id_def)
  have "validateEvent ?e = Inr ()"
    using r d f(1) source link
    by (cases "nr_scope rule") (auto simp: validateEvent_def metric_event_def throw_if_def split: if_splits)
  moreover have "ne_network ?e = nr_network rule" "ne_marketId ?e = nr_marketId rule" "ne_kind ?e = MetricKind m (Some p) v"
    by (simp_all add: metric_event_def)
  moreover have "nr_scope rule = PriceScope \<Longrightarrow> nr_accountLinkId rule = None" "isDecimalString (nr_threshold rule)"
    using r by simp_all
  ultimately show ?thesis
    using rule event_category_metric [OF d f(1) _ f(2)]
    by (simp add: evaluateNotificationRule_def link split: prod.splits)
qed

text \<open>
  C15. For a valid rule whose last known value is a decimal, an update that carries its metric asks the store for an alert
  exactly when the threshold lies between the two values: the known one has not reached it, as a rational number,
  and the new one has, upwards or downwards as the rule says. The new value is the known one from then on, and no
  evaluation fails.
\<close>

theorem rule_fires_exactly_on_crossings:
  assumes "validateRule rule = Inr ()" "metricFromDelta rule channel data coins = Some (m, v)" "safe_int t"
    and "metrics (nr_eventType rule) = Some p" "isDecimalString p"
    and "handleUpdate sha256Hex number_text stored rule (DeltaUpdate (StreamDelta (IntN t) channel data coins)) metrics =
      (outs, metrics')"
  shows "(\<exists>input. AlertRequested input \<in> set outs) =
      (if rising (nr_eventType rule)
       then decimal_value p < decimal_value (nr_threshold rule) \<and> decimal_value (nr_threshold rule) \<le> decimal_value v
       else decimal_value p > decimal_value (nr_threshold rule) \<and> decimal_value (nr_threshold rule) \<ge> decimal_value v) \<and>
    RuleReport EvaluateReport \<notin> set outs \<and> metrics' = metrics(nr_eventType rule \<mapsto> v)"
proof -
  define source where "source = channel @ '':'' @ show_int t"
  have source: "graphic_text source"
    unfolding source_def by (rule graphic_source [OF assms(3) metricFromDelta_Some(4) [OF assms(2)]])
  have "channel @ '':'' @ js_string number_text (JNum (IntN t)) = source" by (simp add: source_def assms(3))
  then have "outs = handle_event sha256Hex stored rule (metric_event rule m (Some p) v source)"
    "metrics' = metrics(nr_eventType rule \<mapsto> v)"
    using assms(6) by (simp_all add: handleUpdate_def normalize_metric [OF assms(2)] assms(4))
  then show ?thesis
    by (auto simp: handle_event_def metric_event_value [OF assms(2,1,5) source] short_of_def Let_def split: if_splits)
qed

text \<open>Digit by digit, decimals of any length are compared as the numbers they denote.\<close>

theorem exact_comparison_is_numeric:
  "compareExactDecimals left right =
     (if \<not> isDecimalString left \<or> \<not> isDecimalString right then Inl (Err ''notification decimal is invalid'')
      else Inr (if decimal_value left < decimal_value right then -1
                else if decimal_value right < decimal_value left then 1 else 0))"
  by (rule exact_comparison)

section \<open>The queue handles the updates one after the other\<close>

definition requests :: "rule_output list \<Rightarrow> alert_input list" where
  "requests outs = concat (map (\<lambda>out. case out of AlertRequested input \<Rightarrow> [input] | _ \<Rightarrow> []) outs)"

lemma requests_simps [simp]:
  "requests [] = []" "requests (outs @ outs') = requests outs @ requests outs'"
  "requests (AlertRequested input # outs) = input # requests outs" "requests (RuleReport r # outs) = requests outs"
  "requests (Unsubscribed # outs) = requests outs"
  by (simp_all add: requests_def)

lemma in_requests: "input \<in> set (requests outs) \<longleftrightarrow> AlertRequested input \<in> set outs"
  by (auto simp: requests_def split: rule_output.splits)

lemma requests_stored: "requests (handle_event sha256Hex stored rule event) = requests (handle_event sha256Hex stored' rule event)"
  by (auto simp: handle_event_def Let_def split: sum.splits option.splits)

text \<open>What the updates ask of the store when they are handled in order, with no queue.\<close>

fun handle_all ::
  "(string \<Rightarrow> string) \<Rightarrow> (js_number \<Rightarrow> string) \<Rightarrow> 'a NotificationRuleRecord_scheme \<Rightarrow> MonitorUpdate list \<Rightarrow> known_metrics \<Rightarrow>
   alert_input list \<times> known_metrics" where
  "handle_all sha256Hex number_text rule [] metrics = ([], metrics)"
| "handle_all sha256Hex number_text rule (update # updates) metrics =
     (case handleUpdate sha256Hex number_text (\<lambda>_. True) rule update metrics of (outs, metrics') \<Rightarrow>
      case handle_all sha256Hex number_text rule updates metrics' of (inputs, metrics'') \<Rightarrow> (requests outs @ inputs, metrics''))"

lemma handle_all_append:
  "handle_all sha256Hex number_text rule (us @ vs) metrics =
     (case handle_all sha256Hex number_text rule us metrics of (inputs, metrics') \<Rightarrow>
      case handle_all sha256Hex number_text rule vs metrics' of (inputs', metrics'') \<Rightarrow> (inputs @ inputs', metrics''))"
  by (induction us arbitrary: metrics) (auto split: prod.splits)

lemma handleUpdate_stored:
  assumes "handleUpdate sha256Hex number_text stored rule update metrics = (outs, metrics')"
  shows "handle_all sha256Hex number_text rule [update] metrics = (requests outs, metrics')"
proof -
  have "requests (concat (map (handle_event sha256Hex stored rule) events)) =
      requests (concat (map (handle_event sha256Hex (\<lambda>_. True) rule) events))" for events
    by (induction events) (simp_all add: requests_stored [of _ stored _ _ "\<lambda>_. True"])
  with assms show ?thesis by (auto simp: handleUpdate_def split: prod.splits)
qed

fun arrivals :: "rule_event list \<Rightarrow> MonitorUpdate list" where
  "arrivals [] = []"
| "arrivals (UpdateArrives update # events) = update # arrivals events"
| "arrivals (_ # events) = arrivals events"

lemma arrivals_append [simp]: "arrivals (es @ fs) = arrivals es @ arrivals fs"
  by (induction es rule: arrivals.induct) simp_all

text \<open>\<open>n\<close> updates have ended, \<open>k\<close> were taken into the queue.\<close>

definition queue_in_order ::
  "(string \<Rightarrow> string) \<Rightarrow> (js_number \<Rightarrow> string) \<Rightarrow> 'a NotificationRuleRecord_scheme \<Rightarrow> nat \<Rightarrow>
   MonitorUpdate list \<Rightarrow> rule_output list \<Rightarrow> rule_state \<Rightarrow> nat \<Rightarrow> nat \<Rightarrow> bool" where
  "queue_in_order sha256Hex number_text rule maxPendingUpdates updates outs s n k \<longleftrightarrow>
     n \<le> k \<and> k \<le> length updates \<and> rs_queue s = drop n (take k updates) \<and> length (rs_queue s) \<le> maxPendingUpdates \<and>
     (rs_busy s \<longrightarrow> n < k) \<and>
     handle_all sha256Hex number_text rule (take (if rs_busy s then n + 1 else n) updates) Map.empty =
       (requests outs, rs_metrics s) \<and>
     (k < length updates \<longrightarrow> rs_degraded s) \<and> (rs_degraded s \<longleftrightarrow> RuleReport DegradedReport \<in> set outs)"

lemma no_degraded_report: "RuleReport DegradedReport \<notin> set (fst (handleUpdate sha256Hex number_text stored rule update metrics))"
  by (auto simp: handleUpdate_def handle_event_def Let_def split: prod.splits sum.splits option.splits)

lemma rule_step_in_order:
  assumes s: "queue_in_order sha256Hex number_text rule maxPendingUpdates (arrivals es) outs s n k"
    and step: "rule_step sha256Hex number_text rule maxPendingUpdates e s = (new, t)"
  shows "\<exists>n k. queue_in_order sha256Hex number_text rule maxPendingUpdates (arrivals (es @ [e])) (outs @ new) t n k"
proof (cases e)
  case (UpdateArrives update)
  show ?thesis
  proof (cases "rs_degraded s \<or> length (rs_queue s) \<ge> maxPendingUpdates")
    case True
    then have "queue_in_order sha256Hex number_text rule maxPendingUpdates (arrivals (es @ [e])) (outs @ new) t n k"
      using s step UpdateArrives by (auto simp: queue_in_order_def enqueueUpdate_def degradeState_def split: if_splits)
    then show ?thesis by blast
  next
    case False
    then have "k = length (arrivals es)" using s by (auto simp: queue_in_order_def)
    with False have "queue_in_order sha256Hex number_text rule maxPendingUpdates (arrivals (es @ [e])) (outs @ new) t n (k + 1)"
      using s step UpdateArrives by (auto simp: queue_in_order_def enqueueUpdate_def split: if_splits)
    then show ?thesis by blast
  qed
next
  case (UpdateBegins stored)
  show ?thesis
  proof (cases "rs_busy s \<or> rs_queue s = []")
    case True
    with step UpdateBegins have "new = []" "t = s" by (cases "rs_queue s"; simp)+
    with s UpdateBegins show ?thesis by auto
  next
    case False
    then obtain u rest where q: "rs_queue s = u # rest" by (cases "rs_queue s") auto
    from s q have d: "drop n (take k (arrivals es)) = u # rest" and nk: "k \<le> length (arrivals es)" "n < k"
      by (auto simp: queue_in_order_def intro: ccontr)
    have u: "arrivals es ! n = u" using nth_via_drop [OF d] nk(2) by simp
    obtain o' m' where h: "handleUpdate sha256Hex number_text stored rule u (rs_metrics s) = (o', m')" by fastforce
    with step UpdateBegins False q have t: "new = o'" "t = s\<lparr>rs_metrics := m', rs_busy := True\<rparr>" by auto
    have "take (n + 1) (arrivals es) = take n (arrivals es) @ [u]" using nk u by (simp add: take_Suc_conv_app_nth)
    then have "handle_all sha256Hex number_text rule (take (n + 1) (arrivals es)) Map.empty = (requests (outs @ o'), m')"
      using s False handleUpdate_stored [OF h] by (simp add: queue_in_order_def handle_all_append)
    with s t nk no_degraded_report [of sha256Hex number_text stored rule u "rs_metrics s"]
    have "queue_in_order sha256Hex number_text rule maxPendingUpdates (arrivals (es @ [e])) (outs @ new) t n k"
      using UpdateBegins by (auto simp: queue_in_order_def h)
    then show ?thesis by blast
  qed
next
  case UpdateEnds
  show ?thesis
  proof (cases "rs_busy s")
    case True
    then have "queue_in_order sha256Hex number_text rule maxPendingUpdates (arrivals (es @ [e])) (outs @ new) t (n + 1) k"
      using s step UpdateEnds by (auto simp: queue_in_order_def drop_Suc tl_drop)
    then show ?thesis by blast
  next
    case False
    then show ?thesis using s step UpdateEnds by auto
  qed
next
  case TeardownEnds
  then have "queue_in_order sha256Hex number_text rule maxPendingUpdates (arrivals (es @ [e])) (outs @ new) t n k"
    using s step by (auto simp: queue_in_order_def)
  then show ?thesis by blast
qed

text \<open>
  C17. However the updates of a rule arrive while others are handled, what has been asked of the store is what handling the
  first of them in the order of their arrival asks for; the queue holds what follows, and stays within its bound. An
  update is left out only when the rule was degraded, and that has been reported.
\<close>

theorem updates_are_handled_in_order:
  assumes "run_all (rule_step sha256Hex number_text rule maxPendingUpdates) events fresh_rule_state = (outs, t)"
  shows "\<exists>n k. n \<le> k \<and> rs_queue t = drop n (take k (arrivals events)) \<and> length (rs_queue t) \<le> maxPendingUpdates \<and>
    handle_all sha256Hex number_text rule (take (if rs_busy t then n + 1 else n) (arrivals events)) Map.empty =
      (requests (concat outs), rs_metrics t) \<and>
    (k \<ge> length (arrivals events) \<or> RuleReport DegradedReport \<in> set (concat outs))"
proof -
  have "\<exists>n k. queue_in_order sha256Hex number_text rule maxPendingUpdates (arrivals events) (concat outs) t n k"
    using assms
  proof (induction events arbitrary: outs t rule: rev_induct)
    case Nil
    then have "queue_in_order sha256Hex number_text rule maxPendingUpdates (arrivals []) (concat outs) t 0 0"
      by (auto simp: queue_in_order_def fresh_rule_state_def)
    then show ?case by blast
  next
    case (snoc e es)
    obtain outs1 s where run: "run_all (rule_step sha256Hex number_text rule maxPendingUpdates) es fresh_rule_state = (outs1, s)"
      by fastforce
    obtain new t' where step: "rule_step sha256Hex number_text rule maxPendingUpdates e s = (new, t')" by fastforce
    from snoc.prems run step have o': "outs = outs1 @ [new]" "t' = t" by (auto simp: run_all_append)
    from snoc.IH [OF run] obtain n k where "queue_in_order sha256Hex number_text rule maxPendingUpdates (arrivals es) (concat outs1) s n k"
      by blast
    from rule_step_in_order [OF this step] show ?case by (simp add: o')
  qed
  then obtain n k where i: "queue_in_order sha256Hex number_text rule maxPendingUpdates (arrivals events) (concat outs) t n k" by blast
  show ?thesis
  proof (intro exI conjI)
    show "n \<le> k" "rs_queue t = drop n (take k (arrivals events))" "length (rs_queue t) \<le> maxPendingUpdates"
      "handle_all sha256Hex number_text rule (take (if rs_busy t then n + 1 else n) (arrivals events)) Map.empty =
        (requests (concat outs), rs_metrics t)"
      using i unfolding queue_in_order_def by blast+
    show "k \<ge> length (arrivals events) \<or> RuleReport DegradedReport \<in> set (concat outs)"
      using i unfolding queue_in_order_def by linarith
  qed
qed

section \<open>No second alert without a return\<close>

definition metric_reading :: "'a NotificationRuleRecord_scheme \<Rightarrow> MonitorUpdate \<Rightarrow> string option" where
  "metric_reading rule update =
     (case update of
        BaselineUpdate payload \<Rightarrow> metricFromBaseline rule payload
      | DeltaUpdate (StreamDelta receivedAt channel data coins) \<Rightarrow> map_option snd (metricFromDelta rule channel data coins)
      | DeltaUpdate _ \<Rightarrow> None)"

lemma handleUpdate_metrics:
  assumes "nr_eventType rule \<notin> {FillEvent, CancellationEvent, RejectionEvent}"
  shows "snd (handleUpdate sha256Hex number_text stored rule update metrics) =
    (case metric_reading rule update of None \<Rightarrow> metrics | Some v \<Rightarrow> metrics(nr_eventType rule \<mapsto> v))"
  using executionEvents_metric [OF assms]
  by (auto simp: handleUpdate_def normalizeRuleUpdate_def metric_reading_def split: MonitorUpdate.splits
      HyperliquidMonitorPayload.splits option.splits prod.splits)

lemma handleUpdate_alert:
  assumes e: "nr_eventType rule \<notin> {FillEvent, CancellationEvent, RejectionEvent}"
    and h: "handleUpdate sha256Hex number_text stored rule update metrics = (outs, metrics')" "AlertRequested input \<in> set outs"
  shows "\<exists>p v. metrics (nr_eventType rule) = Some p \<and> isDecimalString p \<and> short_of rule p \<and>
    metrics' (nr_eventType rule) = Some v \<and> \<not> short_of rule v"
proof -
  obtain receivedAt channel data coins m v where u: "update = DeltaUpdate (StreamDelta receivedAt channel data coins)"
    and m: "metricFromDelta rule channel data coins = Some (m, v)"
    using h executionEvents_metric [OF e, of number_text]
    by (auto simp: handleUpdate_def normalizeRuleUpdate_def split: MonitorUpdate.splits
        HyperliquidMonitorPayload.splits option.splits prod.splits)
  from h obtain match source where
    "evaluateNotificationRule sha256Hex rule (metric_event rule m (metrics (nr_eventType rule)) v source) = Inr (Some match)"
    by (auto simp: u handleUpdate_def normalize_metric [OF m] handle_event_def Let_def split: sum.splits option.splits)
  from metric_event_match [OF m this] h(1) show ?thesis
    by (auto simp: u handleUpdate_def normalize_metric [OF m])
qed

lemma handle_all_metrics:
  assumes e: "nr_eventType rule \<notin> {FillEvent, CancellationEvent, RejectionEvent}"
    and "handle_all sha256Hex number_text rule updates metrics = (inputs, metrics')"
    and "metrics' (nr_eventType rule) = Some p" "metrics (nr_eventType rule) \<noteq> Some p"
  shows "\<exists>u \<in> set updates. metric_reading rule u = Some p"
  using assms(2-)
proof (induction updates arbitrary: metrics inputs)
  case (Cons u updates)
  obtain outs m1 where h: "handleUpdate sha256Hex number_text (\<lambda>_. True) rule u metrics = (outs, m1)" by fastforce
  obtain inputs' where r: "handle_all sha256Hex number_text rule updates m1 = (inputs', metrics')"
    using Cons.prems(1) h by (auto split: prod.splits)
  show ?case
  proof (cases "m1 (nr_eventType rule) = Some p")
    case True
    with Cons.prems(3) handleUpdate_metrics [OF e, of sha256Hex number_text "\<lambda>_. True" u metrics] h
    show ?thesis by (auto split: option.splits)
  next
    case False
    from Cons.IH [OF r Cons.prems(2) False] show ?thesis by simp
  qed
qed simp

text \<open>
  C16. Between two alerts of a rule on a metric there is an update whose value is a decimal that has not reached the
  threshold. A metric that stays beyond its threshold raises one alert.
\<close>

theorem alert_needs_a_return:
  assumes "nr_eventType rule \<notin> {FillEvent, CancellationEvent, RejectionEvent}"
    and "handleUpdate sha256Hex number_text stored rule update metrics = (outs, metrics1)" "AlertRequested input \<in> set outs"
    and "handle_all sha256Hex number_text rule between metrics1 = (inputs, metrics2)"
    and "handleUpdate sha256Hex number_text stored' rule update' metrics2 = (outs', metrics3)" "AlertRequested input' \<in> set outs'"
  shows "\<exists>u v. u \<in> set between \<and> metric_reading rule u = Some v \<and> isDecimalString v \<and>
    (if rising (nr_eventType rule) then decimal_value v < decimal_value (nr_threshold rule)
     else decimal_value v > decimal_value (nr_threshold rule))"
proof -
  from handleUpdate_alert [OF assms(1-3)] obtain v where v: "metrics1 (nr_eventType rule) = Some v" "\<not> short_of rule v" by blast
  from handleUpdate_alert [OF assms(1,5,6)] obtain p where p: "metrics2 (nr_eventType rule) = Some p" "isDecimalString p" "short_of rule p"
    by blast
  from v p have "metrics1 (nr_eventType rule) \<noteq> Some p" by auto
  from handle_all_metrics [OF assms(1,4) p(1) this] obtain u where u: "u \<in> set between" "metric_reading rule u = Some p" by blast
  show ?thesis by (intro exI [of _ u] exI [of _ p] conjI u p(2)) (rule p(3) [unfolded short_of_def])
qed

section \<open>A concrete rule\<close>

definition rule_hex :: string where "rule_hex = replicate 32 (CHR ''a'')"

definition price_rule :: NotificationRuleRecord where
  "price_rule = \<lparr>nr_ruleId = rule_hex, nr_identityDigest = rule_hex @ rule_hex, nr_installationId = rule_hex,
     nr_accountLinkId = None, nr_scope = PriceScope, nr_network = Testnet, nr_marketId = ''perp:0:3'',
     nr_eventType = PriceAbove, nr_threshold = ''100.50''\<rparr>"

definition price_data :: "string \<Rightarrow> js_value" where
  "price_data v = JObj [(''coin'', JStr ''BTC''), (''ctx'', JObj [(''markPx'', JStr v)])]"

definition price_update :: "int \<Rightarrow> string \<Rightarrow> MonitorUpdate" where
  "price_update t v = DeltaUpdate (StreamDelta (IntN t) ''activeAssetCtx'' (price_data v) [(''BTC'', ''perp:0:3'')])"

lemma price_metric:
  "metricFromDelta price_rule ''activeAssetCtx'' (price_data ''100.5'') [(''BTC'', ''perp:0:3'')] = Some (PriceMetric, ''100.5'')"
  "metricFromDelta price_rule ''activeAssetCtx'' (price_data ''99'') [(''BTC'', ''perp:0:3'')] = Some (PriceMetric, ''99'')"
  by code_simp+

lemma price_rule_valid: "validateRule price_rule = Inr ()"
  by code_simp

lemma price_decimals: "isDecimalString ''99''" "decimal_value ''99'' = 99" "decimal_value ''100.5'' = 201 / 2" "decimal_value ''100.50'' = 201 / 2"
  by code_simp+

theorem rule_fires_exactly_on_crossings_witness:
  "\<exists>input. AlertRequested input \<in> set (fst (handleUpdate id (\<lambda>_. '''') (\<lambda>_. True) price_rule (price_update 7 ''100.5'')
     [PriceAbove \<mapsto> ''99'']))"
proof -
  let ?h = "handleUpdate id (\<lambda>_. '''') (\<lambda>_. True) price_rule
    (DeltaUpdate (StreamDelta (IntN 7) ''activeAssetCtx'' (price_data ''100.5'') [(''BTC'', ''perp:0:3'')])) [PriceAbove \<mapsto> ''99'']"
  have e: "nr_eventType price_rule = PriceAbove" "nr_threshold price_rule = ''100.50''" by (simp_all add: price_rule_def)
  have "?h = (fst ?h, snd ?h)" by simp
  from rule_fires_exactly_on_crossings [OF price_rule_valid price_metric(1) _ _ price_decimals(1) this]
  show ?thesis by (simp add: e price_decimals rising_def price_update_def safe_int_def max_safe_integer_def)
qed

theorem alert_needs_a_return_witness:
  "\<exists>v. metric_reading price_rule (price_update 8 ''99'') = Some v \<and> decimal_value v < decimal_value ''100.50''"
proof -
  let ?h = "handleUpdate id (\<lambda>_. '''') (\<lambda>_. True) price_rule"
  let ?m = "[PriceAbove \<mapsto> ''99'']"
  let ?first = "?h (price_update 7 ''100.5'') ?m"
  let ?between = "handle_all id (\<lambda>_. '''') price_rule [price_update 8 ''99''] (snd ?first)"
  let ?second = "?h (price_update 9 ''100.5'') (snd ?between)"
  have e: "nr_eventType price_rule = PriceAbove" "nr_threshold price_rule = ''100.50''" by (simp_all add: price_rule_def)
  have "requests (fst ?first) \<noteq> []" "requests (fst ?second) \<noteq> []" by code_simp+
  then obtain i j where a: "AlertRequested i \<in> set (fst ?first)" "AlertRequested j \<in> set (fst ?second)"
    by (metis in_requests list.set_intros(1) neq_Nil_conv)
  have "?first = (fst ?first, snd ?first)" "?between = (fst ?between, snd ?between)" "?second = (fst ?second, snd ?second)" by simp_all
  from alert_needs_a_return [OF _ this(1) a(1) this(2,3) a(2)] show ?thesis by (auto simp: e rising_def)
qed

text \<open>Two updates arrive while none is handled; the second waits until the first has ended.\<close>

definition price_events :: "rule_event list" where
  "price_events =
     [UpdateArrives (price_update 7 ''99''), UpdateBegins (\<lambda>_. True), UpdateArrives (price_update 8 ''100.5''),
      UpdateBegins (\<lambda>_. True), UpdateEnds, UpdateBegins (\<lambda>_. True)]"

theorem updates_are_handled_in_order_witness:
  "\<exists>outs t. run_all (rule_step id (\<lambda>_. '''') price_rule 128) price_events fresh_rule_state = (outs, t) \<and>
     length (requests (concat outs)) = 1 \<and> length (rs_queue t) \<le> 128"
proof -
  obtain outs t where run: "run_all (rule_step id (\<lambda>_. '''') price_rule 128) price_events fresh_rule_state = (outs, t)" by fastforce
  have "length (requests (concat (fst (run_all (rule_step id (\<lambda>_. '''') price_rule 128) price_events fresh_rule_state)))) = 1"
    by code_simp
  with run have "length (requests (concat outs)) = 1" by simp
  with run updates_are_handled_in_order [OF run] show ?thesis by blast
qed

end
