(* ===== verification/Spec2Isabelle.thy ===== *)
theory Spec2Isabelle
  imports Pipeline Recovery Retirement_Chain Exchange_Properties Typed_Data
    Action_Flow Context_Laws Reconciler_Properties Session_Laws Sample_Refresh Stream_Properties Delivery_Properties Account_Operation Custody_Properties Rule_Properties
begin

text \<open>
  A verification of the trading core of Hyper Trader: how a reviewed trade becomes one signed request
  at most, what the device remembers of it, and how its outcome is settled. Paths below are relative
  to \<^verbatim>\<open>src/\<close>; H stands for \<^verbatim>\<open>packages/hyperliquid/src\<close> and M for
  \<^verbatim>\<open>apps/mobile/src\<close>.

  \<^bold>\<open>The parts and how they interact.\<close> A trade is an intent. It is validated against the market, the
  account and the context in which it was reviewed; a nonce is reserved and the action is written to a
  journal in one transaction; it is built, encoded, hashed and signed within an unlocked signer
  session; a permit to submit is issued once; the exchange client sends it once and classifies the
  response; and what is not decided by then is settled later, by a reconciler that holds a lease on
  the journal row, from evidence read from the exchange. Retired signers leave a chain of tombstones.

  \<^item> \<open>Prelude\<close>, \<open>Js_Value\<close>: numbers, errors, patterns and unknown values of the language.
  \<^item> \<open>Decimal\<close>: decimal strings and exact arithmetic (H/numbers, head of
    \<^verbatim>\<open>H/actions/validation.ts\<close>), related to the rationals.
  \<^item> \<open>Actions\<close>, \<open>Signing\<close>, \<open>Validation\<close>, \<open>Validated\<close>: intents and builders
    (\<^verbatim>\<open>H/actions/types.ts\<close>, \<^verbatim>\<open>builders.ts\<close>), networks, signer bindings and the signing
    boundary (\<^verbatim>\<open>H/network.ts\<close>, \<^verbatim>\<open>H/signing/boundary.ts\<close>), the validator
    (\<^verbatim>\<open>H/actions/validation.ts\<close>) and what a validated action satisfies.
  \<^item> \<open>Codec\<close>, \<open>Encoding\<close>, \<open>Typed_Data\<close>, \<open>Pipeline\<close>: the L1 codec
    (\<^verbatim>\<open>H/actions/codec.ts\<close>), what its hash binds, the payloads that are signed
    (\<^verbatim>\<open>H/signing/typed-data.ts\<close>), and the way from validation to the encoding.
  \<^item> \<open>Nonces\<close>, \<open>Tombstone\<close>, \<open>Redaction\<close>: nonce allocation
    (\<^verbatim>\<open>H/nonces/allocation.ts\<close>), tombstones (\<^verbatim>\<open>H/nonces/tombstone.ts\<close>), intents without
    secrets (\<^verbatim>\<open>H/reconciliation/redaction.ts\<close>).
  \<^item> \<open>Reconciliation\<close>, \<open>Settlement\<close>: states, policy and evidence of H/reconciliation, and
    what the decisions rest on.
  \<^item> \<open>Journal\<close>, \<open>Nonce_Repository\<close> and their laws in \<open>Journal_Laws\<close>,
    \<open>Reservation_Laws\<close>, \<open>Repository_Laws\<close>, \<open>Recovery\<close>, \<open>Retirement_Chain\<close>:
    the database of the device (\<^verbatim>\<open>M/platform/persistence\<close>). \<open>Machines\<close> holds the contracts
    of state machines as locales, \<open>Repository_Runs\<close> interprets them on a device with several
    processes, \<open>Sample_Device\<close> is a device for the concrete instances, and
    \<open>Repository_Properties\<close> states what holds of every run.
  \<^item> \<open>Exchange_Client\<close>, \<open>Exchange_Properties\<close>: \<^verbatim>\<open>H/actions/exchange-client.ts\<close>.
  \<^item> \<open>Action_Flow\<close>, \<open>Order_Price\<close>, \<open>Reconciler\<close> with \<open>Reconciler_Laws\<close> and
    \<open>Reconciler_Properties\<close>: \<^verbatim>\<open>state-machine.ts\<close>, \<^verbatim>\<open>aggressive-order-price.ts\<close>,
    \<^verbatim>\<open>reconciler.ts\<close> of M/features/actions.
  \<^item> \<open>Context_Supervisor\<close>, \<open>Context_Laws\<close>: the trading context
    (\<^verbatim>\<open>M/core/context/supervisor.ts\<close>).
  \<^item> \<open>Session\<close>, \<open>Session_Laws\<close>: the signer session (\<^verbatim>\<open>M/core/session/manager.ts\<close>).
  \<^item> \<open>Review\<close>, \<open>Json_Laws\<close>, \<open>Review_Laws\<close>: the review a user confirms and the intents that
    count as the same (head of \<^verbatim>\<open>M/features/actions/orchestrator.ts\<close>), and that the serialised
    intent determines the intent.
  \<^item> \<open>Orchestrator\<close>, \<open>Orchestrator_Laws\<close>, \<open>Orchestrator_Safety\<close>,
    \<open>Sample_Confirmation\<close>: the confirmation of a review over the database, the session and the
    exchange (the class of the same file), how its outcome agrees with the journal, what it may send,
    and a confirmation that runs to the end.
  \<^item> \<open>Markets\<close>, \<open>Account_State\<close>: markets, account states and trade snapshots
    (\<^verbatim>\<open>H/markets/types.ts\<close>, \<^verbatim>\<open>metadata-fingerprint.ts\<close>,
    \<^verbatim>\<open>H/accounts/types.ts\<close>, \<^verbatim>\<open>trade-account-snapshot.ts\<close>).
  \<^item> \<open>Evidence_Source\<close>, \<open>Order_Refresh\<close>, \<open>Sample_Refresh\<close>: the evidence read from the
    exchange after a submission and the refresh of a reviewed order
    (\<^verbatim>\<open>authoritative-reconciliation.ts\<close>, \<^verbatim>\<open>authoritative-order-refresh.ts\<close> of
    M/features/actions).
  \<^item> \<open>Streams\<close>, \<open>Stream_Laws\<close>, \<open>Stream_Properties\<close>: the manager of the foreground
    streams (\<^verbatim>\<open>M/core/streams/manager.ts\<close>), the specification it refines, and that no stream
    is left unserved.
  \<^item> \<open>Delivery_Store\<close>, \<open>Expo_Client\<close>, \<open>Delivery_Worker\<close>, \<open>Delivery_Laws\<close>,
    \<open>Delivery_Properties\<close>: the delivery of alerts by the notification service
    (\<^verbatim>\<open>apps/api/src\<close>: the dispatch, receipt, lease and revocation operations of
    \<^verbatim>\<open>db/notification-store.ts\<close>, \<^verbatim>\<open>push/expo-push-client.ts\<close>,
    \<^verbatim>\<open>outbox/delivery-worker.ts\<close>, \<^verbatim>\<open>outbox/receipt-worker.ts\<close>), how each operation
    changes the rows, and what holds of every run of several workers.
  \<^item> \<open>Account_Operation\<close>: the changes of an account, when they are allowed and the state
    machine of one (\<^verbatim>\<open>M/features/accounts/account-lifecycle.ts\<close>).
  \<^item> \<open>Custody\<close>, \<open>Custody_Laws\<close>, \<open>Custody_Properties\<close>: the vault of agent secrets
    (\<^verbatim>\<open>credential-vault.ts\<close>, \<^verbatim>\<open>secret-material.ts\<close> of M/platform/security), with a
    process that may end at every access of the store, and what holds of every run of its calls.
  \<^item> \<open>Rule_Evaluator\<close>, \<open>Rule_Worker\<close>, \<open>Rule_Properties\<close>: when a rule of the
    notification service asks for an alert, from the updates of its monitor
    (\<^verbatim>\<open>evaluator.ts\<close>, \<^verbatim>\<open>rule-worker.ts\<close> of \<^verbatim>\<open>apps/api/src/rules\<close>).

  \<^bold>\<open>How the code is translated.\<close> A type of string literals is a datatype with a constructor for any other
  string, since the values come from outside; a number is a \<open>js_number\<close>, and an \<open>int\<close> once
  the code has checked it; a thrown error is \<open>Inl\<close>. A table is the list of its rows with the
  constraints of the schema checked on every write; a transaction is a function of the database whose
  outcome also depends on the engine, which may be busy, fail or commit. An \<^verbatim>\<open>async\<close> function
  is split at its \<^verbatim>\<open>await\<close>s: what the awaited call answers, and what others did meanwhile, are
  arguments. In the notification service a transaction reads the clock of the database, and a worker that of
  its host, which may be ahead or behind. Libraries (\<^verbatim>\<open>viem\<close>, msgpack, hashes, \<^verbatim>\<open>fetch\<close>,
  \<^verbatim>\<open>JSON.parse\<close>, \<^verbatim>\<open>TextDecoder\<close>) are parameters; what the proofs need of them is a named
  hypothesis that states their documented behaviour, and the witnesses instantiate them.

  \<^bold>\<open>What is shown.\<close> The signature binds the canonical action, nonce, vault, expiry and network; validated
  actions keep to their context, slippage, margin and position; over all runs of a device nonces
  increase, one permit is issued per action, rows move along the state machine only, retired signers
  stay retired, and recovery after a restart always completes; a rolled-back database is detected; a
  request is checked before it is sent, sent once, and decided only by a documented response; only the
  lease holder settles an action, only on evidence, and settles an order once it has expired; the signer lives only in an unlocked session; the
  outcome of a confirmation agrees with the journal, and a confirmation sends nothing but the reviewed
  action; loaded evidence settles what it names, and a changed account stops the order. The consumers
  of a stream see a baseline and then its messages in sequence, and a run that fails is followed by another
  connection until the attempts are used up. An alert is handed to the push provider
  at most once, and never for a revoked installation unless the clock of the worker's host lags behind the
  database's; an event adds one alert to the store; a rule asks for one exactly when its metric crosses the threshold. A change of an account
  completes only on proof from the exchange and never gets stuck; every secret in the store of the device
  is listed, unless its write was reported to fail though it was made, so a new installation over surviving
  secrets is noticed; and a staged secret is read back.

  \<^bold>\<open>Bounds and fuel.\<close> Every function here is total, with no fuel: the loops of the code run over lists,
  the digits of a number, or a number of rounds that is an argument. The safe integers bound what is
  stored; the few operations of the code that can leave them are findings.

  \<^bold>\<open>Not modelled.\<close> Rendering, React effects and styling; the HTTP server, the monitors and the
  table of active rules of the notification service, and the registration, credentials, challenges, retention and restore
  of its store; the market catalog service; the release scripts; transports, whose behaviour is what the
  parameters range over; characters above 255 in text, except where a pattern refuses them.
\<close>

end
